(* ===== verification/Prelude.thy ===== *)
theory Prelude
  imports Main "HOL-Library.Char_ord" "HOL-Library.List_Lexorder"
begin

text \<open>
  Shared groundwork of the development: the errors of the program, the transaction type
  every database operation has (a state transformer that may fail and whose writes stay
  visible after the failure, as they do inside an open SQL transaction), its loops, its
  savepoint and its commit-or-roll-back wrapper, a weakest-precondition calculus for it, a
  calculus for relations every operation respects (frames, invariants, monotonicity), and
  the interface of a table (rows selected and updated by a condition) with its laws.
\<close>

named_theorems wp_simps \<open>weakest preconditions of the transaction combinators\<close>
named_theorems tx_defs \<open>the transaction combinators as functions of the state\<close>
named_theorems row_simps \<open>what selecting and updating rows gives\<close>

section \<open>Errors\<close>

text \<open>
  \<open>FieldError\<close> is the value \<open>Invalid(field, problem)\<close> returns, the four sentinels are the
  exported variables of store.go, \<open>ErrNoRows\<close> is sql.ErrNoRows, \<open>ErrConstraint\<close> a violated
  key of the named table, \<open>ErrInternal\<close> any other errors.New value, \<open>Wrapped\<close> an error
  wrapped by fmt.Errorf with the verb for errors behind a text, \<open>Noted\<close> one with a text behind
  it, and \<open>Joined\<close> two errors of errors.Join.
\<close>

datatype error =
    FieldError string string
  | ErrSystemNotFound
  | ErrCommandConflict
  | ErrRevisionConflict
  | ErrExecutionConflict
  | ErrNoRows
  | ErrConstraint string
  | ErrInternal string
  | Wrapped string error
  | Noted error string
  | Joined error error

fun error_text :: "error \<Rightarrow> string" where
  "error_text (FieldError field problem) = field @ '': '' @ problem"
| "error_text ErrSystemNotFound = ''system not found''"
| "error_text ErrCommandConflict = ''idempotency key was already used for a different command''"
| "error_text ErrRevisionConflict = ''system revision has changed''"
| "error_text ErrExecutionConflict =
     ''execution state conflicts with this command; stop active work before revising or starting again''"
| "error_text ErrNoRows = ''sql: no rows in result set''"
| "error_text (ErrConstraint t) = ''constraint failed: '' @ t"
| "error_text (ErrInternal s) = s"
| "error_text (Wrapped s e) = s @ '': '' @ error_text e"
| "error_text (Noted e s) = error_text e @ s"
| "error_text (Joined d e) = error_text d @ [CHR 0x0A] @ error_text e"

text \<open>errors.As with a FieldError target, and errors.Is with the conflict sentinel.\<close>

fun is_field_error :: "error \<Rightarrow> bool" where
  "is_field_error (FieldError _ _) = True"
| "is_field_error (Wrapped _ e) = is_field_error e"
| "is_field_error (Noted e _) = is_field_error e"
| "is_field_error (Joined d e) = (is_field_error d \<or> is_field_error e)"
| "is_field_error _ = False"

fun DeniedTask :: "error \<Rightarrow> bool" where
  "DeniedTask (FieldError _ _) = True"
| "DeniedTask ErrExecutionConflict = True"
| "DeniedTask (Wrapped _ e) = DeniedTask e"
| "DeniedTask (Noted e _) = DeniedTask e"
| "DeniedTask (Joined d e) = (DeniedTask d \<or> DeniedTask e)"
| "DeniedTask _ = False"

definition TaskFailureReason :: "error \<Rightarrow> string" where
  "TaskFailureReason e =
     (if DeniedTask e then error_text e else ''activation failed; inspect daemon diagnostics'')"

lemma is_field_error_denied: "is_field_error e \<Longrightarrow> DeniedTask e"
  by (induction e) auto

section \<open>Transactions\<close>

type_synonym ('s, 'a) tx = "'s \<Rightarrow> (error + 'a) \<times> 's"

definition tx_return :: "'a \<Rightarrow> ('s, 'a) tx" where
  "tx_return x = (\<lambda>s. (Inr x, s))"

definition tx_fail :: "error \<Rightarrow> ('s, 'a) tx" where
  "tx_fail e = (\<lambda>s. (Inl e, s))"

definition tx_bind :: "('s, 'a) tx \<Rightarrow> ('a \<Rightarrow> ('s, 'b) tx) \<Rightarrow> ('s, 'b) tx" where
  "tx_bind m k = (\<lambda>s. case m s of (Inl e, s') \<Rightarrow> (Inl e, s') | (Inr x, s') \<Rightarrow> k x s')"

definition tx_seq :: "('s, unit) tx \<Rightarrow> ('s, 'b) tx \<Rightarrow> ('s, 'b) tx" where
  "tx_seq m n = tx_bind m (\<lambda>_. n)"

definition tx_gets :: "('s \<Rightarrow> 'a) \<Rightarrow> ('s, 'a) tx" where
  "tx_gets f = (\<lambda>s. (Inr (f s), s))"

definition tx_modify :: "('s \<Rightarrow> 's) \<Rightarrow> ('s, unit) tx" where
  "tx_modify f = (\<lambda>s. (Inr (), f s))"

text \<open>An early return with an error when the condition holds.\<close>

definition tx_reject :: "bool \<Rightarrow> error \<Rightarrow> ('s, unit) tx" where
  "tx_reject b e = (if b then tx_fail e else tx_return ())"

definition tx_when :: "bool \<Rightarrow> ('s, unit) tx \<Rightarrow> ('s, unit) tx" where
  "tx_when b m = (if b then m else tx_return ())"

text \<open>A pure fallible computation run inside a transaction.\<close>

definition tx_lift :: "error + 'a \<Rightarrow> ('s, 'a) tx" where
  "tx_lift r = (\<lambda>s. (r, s))"

text \<open>QueryRow.Scan: the first row the query gives, or sql.ErrNoRows.\<close>

definition tx_row :: "('s \<Rightarrow> 'a option) \<Rightarrow> ('s, 'a) tx" where
  "tx_row f = (\<lambda>s. (case f s of None \<Rightarrow> Inl ErrNoRows | Some x \<Rightarrow> Inr x, s))"

text \<open>
  The result of a computation with its error as a value: what the code does when it assigns
  \<open>err\<close> and inspects it instead of returning it. The writes made before the error stay.
\<close>

definition tx_try :: "('s, 'a) tx \<Rightarrow> ('s, error + 'a) tx" where
  "tx_try m = (\<lambda>s. case m s of (r, s') \<Rightarrow> (Inr r, s'))"

text \<open>SAVEPOINT: on an error the writes made since are undone, and the error stays a value.\<close>

definition tx_savepoint :: "('s, 'a) tx \<Rightarrow> ('s, error + 'a) tx" where
  "tx_savepoint m = (\<lambda>s. case m s of (Inl e, _) \<Rightarrow> (Inr (Inl e), s) | (Inr x, s') \<Rightarrow> (Inr (Inr x), s'))"

text \<open>
  BeginTx with the deferred rollback: the transaction commits when the body succeeds, and an
  error leaves the database as it was.
\<close>

definition transaction :: "('s, 'a) tx \<Rightarrow> ('s, 'a) tx" where
  "transaction m = (\<lambda>s. case m s of (Inl e, _) \<Rightarrow> (Inl e, s) | (Inr x, s') \<Rightarrow> (Inr x, s'))"

text \<open>A read-only transaction never commits a write.\<close>

definition read_only :: "('s, 'a) tx \<Rightarrow> ('s, 'a) tx" where
  "read_only m = (\<lambda>s. (fst (m s), s))"

fun tx_foreach :: "('a \<Rightarrow> ('s, unit) tx) \<Rightarrow> 'a list \<Rightarrow> ('s, unit) tx" where
  "tx_foreach f [] = tx_return ()"
| "tx_foreach f (x # xs) = tx_seq (f x) (tx_foreach f xs)"

fun tx_fold :: "('b \<Rightarrow> 'a \<Rightarrow> ('s, 'b) tx) \<Rightarrow> 'b \<Rightarrow> 'a list \<Rightarrow> ('s, 'b) tx" where
  "tx_fold f acc [] = tx_return acc"
| "tx_fold f acc (x # xs) = tx_bind (f acc x) (\<lambda>acc'. tx_fold f acc' xs)"

fun tx_map :: "('a \<Rightarrow> ('s, 'b) tx) \<Rightarrow> 'a list \<Rightarrow> ('s, 'b list) tx" where
  "tx_map f [] = tx_return []"
| "tx_map f (x # xs) = tx_bind (f x) (\<lambda>y. tx_bind (tx_map f xs) (\<lambda>ys. tx_return (y # ys)))"

lemmas tx_combinators [tx_defs] =
  tx_return_def tx_fail_def tx_bind_def tx_seq_def tx_gets_def tx_modify_def tx_reject_def
  tx_when_def tx_lift_def tx_row_def tx_try_def tx_savepoint_def transaction_def read_only_def

text \<open>Congruence: the continuation matters only at results the first step can give.\<close>

lemma tx_bind_cong [fundef_cong]:
  assumes "m s = m' s'" "s = s'"
    and "\<And>x t. m' s' = (Inr x, t) \<Longrightarrow> k x t = k' x t"
  shows "tx_bind m k s = tx_bind m' k' s'"
  using assms by (auto simp: tx_bind_def split: prod.splits sum.splits)

text \<open>A composition that succeeds went through every step.\<close>

lemma tx_bind_ok:
  assumes "tx_bind m k s = (Inr y, t)"
  obtains x s' where "m s = (Inr x, s')" "k x s' = (Inr y, t)"
  using assms by (auto simp: tx_bind_def split: prod.splits sum.splits)

lemma tx_seq_ok:
  assumes "tx_seq m n s = (Inr y, t)"
  obtains s' where "m s = (Inr (), s')" "n s' = (Inr y, t)"
  using assms by (auto simp: tx_seq_def elim: tx_bind_ok)

lemma tx_return_ok [simp]: "tx_return x s = (r, t) \<longleftrightarrow> r = Inr x \<and> t = s"
  by (auto simp: tx_return_def)

lemma tx_fail_ok [simp]: "tx_fail e s = (r, t) \<longleftrightarrow> r = Inl e \<and> t = s"
  by (auto simp: tx_fail_def)

lemma tx_gets_ok [simp]: "tx_gets f s = (r, t) \<longleftrightarrow> r = Inr (f s) \<and> t = s"
  by (auto simp: tx_gets_def)

lemma tx_modify_ok [simp]: "tx_modify f s = (r, t) \<longleftrightarrow> r = Inr () \<and> t = f s"
  by (auto simp: tx_modify_def)

lemma tx_reject_ok [simp]: "tx_reject b e s = (Inr x, t) \<longleftrightarrow> \<not> b \<and> t = s"
  by (auto simp: tx_reject_def)

lemma tx_lift_ok [simp]: "tx_lift r s = (r', t) \<longleftrightarrow> r' = r \<and> t = s"
  by (auto simp: tx_lift_def)

lemma tx_row_ok [simp]: "tx_row f s = (Inr x, t) \<longleftrightarrow> f s = Some x \<and> t = s"
  by (auto simp: tx_row_def split: option.splits)

lemma tx_try_ok [simp]: "tx_try m s = (Inr r, t) \<longleftrightarrow> m s = (r, t)"
  by (auto simp: tx_try_def split: prod.splits)

lemma transaction_ok [simp]: "transaction m s = (Inr x, t) \<longleftrightarrow> m s = (Inr x, t)"
  by (auto simp: transaction_def split: prod.splits sum.splits)

lemma transaction_failed: "transaction m s = (Inl e, t) \<Longrightarrow> t = s"
  by (auto simp: transaction_def split: prod.splits sum.splits)

lemma tx_bind_assoc: "tx_bind (tx_bind m k) h = tx_bind m (\<lambda>x. tx_bind (k x) h)"
  by (rule ext) (auto simp: tx_bind_def split: prod.splits sum.splits)

lemma tx_bind_return [simp]: "tx_bind (tx_return x) k = k x"
  by (simp add: tx_bind_def tx_return_def)

lemma tx_bind_fail [simp]: "tx_bind (tx_fail e) k = tx_fail e"
  by (simp add: tx_bind_def tx_fail_def)

lemma transaction_error [simp]: "fst (transaction m s) = Inl e \<Longrightarrow> snd (transaction m s) = s"
  by (auto simp: transaction_def split: prod.splits sum.splits)

lemma fst_transaction [simp]: "fst (transaction m s) = fst (m s)"
  by (auto simp: transaction_def split: prod.splits sum.splits)

lemma snd_transaction_ok: "fst (m s) = Inr x \<Longrightarrow> snd (transaction m s) = snd (m s)"
  by (auto simp: transaction_def split: prod.splits sum.splits)

lemma read_only_snd [simp]: "snd (read_only m s) = s"
  by (simp add: read_only_def)

section \<open>Weakest preconditions\<close>

definition wp :: "('s, 'a) tx \<Rightarrow> ('a \<Rightarrow> 's \<Rightarrow> bool) \<Rightarrow> (error \<Rightarrow> 's \<Rightarrow> bool) \<Rightarrow> 's \<Rightarrow> bool" where
  "wp m Q E s = (case m s of (Inl e, s') \<Rightarrow> E e s' | (Inr x, s') \<Rightarrow> Q x s')"

lemma wp_return [wp_simps]: "wp (tx_return x) Q E s = Q x s"
  by (simp add: wp_def tx_return_def)

lemma wp_fail [wp_simps]: "wp (tx_fail e) Q E s = E e s"
  by (simp add: wp_def tx_fail_def)

lemma wp_bind [wp_simps]: "wp (tx_bind m k) Q E s = wp m (\<lambda>x. wp (k x) Q E) E s"
  by (auto simp: wp_def tx_bind_def split: prod.splits sum.splits)

lemma wp_seq [wp_simps]: "wp (tx_seq m n) Q E s = wp m (\<lambda>_. wp n Q E) E s"
  by (simp add: tx_seq_def wp_bind)

lemma wp_gets [wp_simps]: "wp (tx_gets f) Q E s = Q (f s) s"
  by (simp add: wp_def tx_gets_def)

lemma wp_modify [wp_simps]: "wp (tx_modify f) Q E s = Q () (f s)"
  by (simp add: wp_def tx_modify_def)

lemma wp_reject [wp_simps]: "wp (tx_reject b e) Q E s = (if b then E e s else Q () s)"
  by (simp add: tx_reject_def wp_return wp_fail)

lemma wp_when [wp_simps]: "wp (tx_when b m) Q E s = (if b then wp m Q E s else Q () s)"
  by (simp add: tx_when_def wp_return)

lemma wp_lift [wp_simps]: "wp (tx_lift r) Q E s = (case r of Inl e \<Rightarrow> E e s | Inr x \<Rightarrow> Q x s)"
  by (simp add: wp_def tx_lift_def)

lemma wp_row [wp_simps]: "wp (tx_row f) Q E s = (case f s of None \<Rightarrow> E ErrNoRows s | Some x \<Rightarrow> Q x s)"
  by (simp add: wp_def tx_row_def split: option.splits)

lemma wp_try [wp_simps]: "wp (tx_try m) Q E s = wp m (\<lambda>x. Q (Inr x)) (\<lambda>e. Q (Inl e)) s"
  by (auto simp: wp_def tx_try_def split: prod.splits sum.splits)

lemma wp_savepoint [wp_simps]:
  "wp (tx_savepoint m) Q E s = wp m (\<lambda>x. Q (Inr x)) (\<lambda>e _. Q (Inl e) s) s"
  by (auto simp: wp_def tx_savepoint_def split: prod.splits sum.splits)

lemma wp_transaction [wp_simps]: "wp (transaction m) Q E s = wp m Q (\<lambda>e _. E e s) s"
  by (auto simp: wp_def transaction_def split: prod.splits sum.splits)

lemma wp_if [wp_simps]: "wp (if b then m else n) Q E s = (if b then wp m Q E s else wp n Q E s)"
  by simp

lemma wp_case_sum [wp_simps]:
  "wp (case r of Inl e \<Rightarrow> f e | Inr x \<Rightarrow> g x) Q E s =
     (case r of Inl e \<Rightarrow> wp (f e) Q E s | Inr x \<Rightarrow> wp (g x) Q E s)"
  by (simp split: sum.splits)

lemma wp_case_option [wp_simps]:
  "wp (case r of None \<Rightarrow> f | Some x \<Rightarrow> g x) Q E s =
     (case r of None \<Rightarrow> wp f Q E s | Some x \<Rightarrow> wp (g x) Q E s)"
  by (simp split: option.splits)

lemma wp_case_prod [wp_simps]:
  "wp (case p of (x, y) \<Rightarrow> f x y) Q E s = (case p of (x, y) \<Rightarrow> wp (f x y) Q E s)"
  by (simp split: prod.splits)

lemma wp_let [wp_simps]: "wp (Let x f) Q E s = wp (f x) Q E s"
  by (simp add: Let_def)

lemma wp_mono:
  "wp m Q E s \<Longrightarrow> (\<And>x s'. Q x s' \<Longrightarrow> Q' x s') \<Longrightarrow> (\<And>e s'. E e s' \<Longrightarrow> E' e s') \<Longrightarrow> wp m Q' E' s"
  by (auto simp: wp_def split: prod.splits sum.splits)

lemma wp_conj: "wp m Q E s \<Longrightarrow> wp m Q' E' s \<Longrightarrow> wp m (\<lambda>x s'. Q x s' \<and> Q' x s') (\<lambda>e s'. E e s' \<and> E' e s') s"
  by (auto simp: wp_def split: prod.splits sum.splits)

lemma wp_result: "m s = (Inr x, s') \<Longrightarrow> wp m Q E s \<Longrightarrow> Q x s'"
  by (simp add: wp_def)

lemma wp_resultI:
  "(\<And>x s'. m s = (Inr x, s') \<Longrightarrow> Q x s') \<Longrightarrow> (\<And>e s'. m s = (Inl e, s') \<Longrightarrow> E e s') \<Longrightarrow> wp m Q E s"
  by (auto simp: wp_def split: prod.splits sum.splits)

lemma wp_foreach_inv:
  assumes "\<And>x s. x \<in> set xs \<Longrightarrow> I s \<Longrightarrow> wp (f x) (\<lambda>_. I) E s" and "I s"
  shows "wp (tx_foreach f xs) (\<lambda>_. I) E s"
  using assms
proof (induction xs arbitrary: s)
  case Nil
  then show ?case by (simp add: wp_simps)
next
  case (Cons x xs)
  from Cons.prems have "wp (f x) (\<lambda>_. I) E s" by simp
  moreover have "wp (tx_foreach f xs) (\<lambda>_. I) E s'" if "I s'" for s'
    using that Cons.prems(1) by (intro Cons.IH) auto
  ultimately show ?case
    unfolding tx_foreach.simps wp_seq by (rule wp_mono) auto
qed

section \<open>Relations every operation respects\<close>

text \<open>
  \<open>tx_rel R m\<close>: whatever the result, \<open>m\<close> takes a state to one that \<open>R\<close> relates to it. With
  \<open>R\<close> an equality of fields this is a frame condition, with an implication an invariant, with
  an order a monotonicity property. It holds of a composed operation when it holds of the
  parts, for any preorder \<open>R\<close>: the interface below.
\<close>

definition tx_rel :: "('s \<Rightarrow> 's \<Rightarrow> bool) \<Rightarrow> ('s, 'a) tx \<Rightarrow> bool" where
  "tx_rel R m \<longleftrightarrow> (\<forall>s. R s (snd (m s)))"

locale step_preorder =
  fixes R :: "'s \<Rightarrow> 's \<Rightarrow> bool"
  assumes R_refl: "R s s"
    and R_trans: "R s t \<Longrightarrow> R t u \<Longrightarrow> R s u"
begin

lemma rel_return: "tx_rel R (tx_return x)"
  by (simp add: tx_rel_def tx_return_def R_refl)

lemma rel_fail: "tx_rel R (tx_fail e)"
  by (simp add: tx_rel_def tx_fail_def R_refl)

lemma rel_gets: "tx_rel R (tx_gets f)"
  by (simp add: tx_rel_def tx_gets_def R_refl)

lemma rel_row: "tx_rel R (tx_row f)"
  by (simp add: tx_rel_def tx_row_def R_refl)

lemma rel_lift: "tx_rel R (tx_lift r)"
  by (simp add: tx_rel_def tx_lift_def R_refl)

lemma rel_reject: "tx_rel R (tx_reject b e)"
  by (simp add: tx_reject_def rel_return rel_fail)

lemma rel_modify: "(\<And>s. R s (f s)) \<Longrightarrow> tx_rel R (tx_modify f)"
  by (simp add: tx_rel_def tx_modify_def)

text \<open>The continuation may use what its argument and its state are known to be.\<close>

lemma rel_bind_known:
  assumes "tx_rel R m" and "\<And>s x s'. m s = (Inr x, s') \<Longrightarrow> R s' (snd (k x s'))"
  shows "tx_rel R (tx_bind m k)"
  unfolding tx_rel_def
proof
  fix s
  from assms(1) have "R s (snd (m s))" by (simp add: tx_rel_def)
  then show "R s (snd (tx_bind m k s))"
    using assms(2) by (auto simp: tx_bind_def split: prod.splits sum.splits intro: R_trans)
qed

lemma rel_bind: "tx_rel R m \<Longrightarrow> (\<And>x. tx_rel R (k x)) \<Longrightarrow> tx_rel R (tx_bind m k)"
  by (rule rel_bind_known) (auto simp: tx_rel_def)

lemma rel_seq: "tx_rel R m \<Longrightarrow> tx_rel R n \<Longrightarrow> tx_rel R (tx_seq m n)"
  by (simp add: tx_seq_def rel_bind)

lemma rel_when: "(b \<Longrightarrow> tx_rel R m) \<Longrightarrow> tx_rel R (tx_when b m)"
  by (simp add: tx_when_def rel_return)

lemma rel_if: "(b \<Longrightarrow> tx_rel R m) \<Longrightarrow> (\<not> b \<Longrightarrow> tx_rel R n) \<Longrightarrow> tx_rel R (if b then m else n)"
  by simp

lemma rel_try: "tx_rel R m \<Longrightarrow> tx_rel R (tx_try m)"
  by (simp add: tx_rel_def tx_try_def split: prod.splits) (metis prod.collapse snd_conv)

lemma rel_savepoint: "tx_rel R m \<Longrightarrow> tx_rel R (tx_savepoint m)"
  by (auto simp: tx_rel_def tx_savepoint_def R_refl split: prod.splits sum.splits)
    (metis snd_conv)

lemma rel_transaction: "tx_rel R m \<Longrightarrow> tx_rel R (transaction m)"
  by (auto simp: tx_rel_def transaction_def R_refl split: prod.splits sum.splits)
    (metis snd_conv)

lemma rel_read_only: "tx_rel R (read_only m)"
  by (simp add: tx_rel_def R_refl)

lemma rel_foreach: "(\<And>x. x \<in> set xs \<Longrightarrow> tx_rel R (f x)) \<Longrightarrow> tx_rel R (tx_foreach f xs)"
  by (induction xs) (auto intro: rel_return rel_seq)

lemma rel_fold: "(\<And>acc x. x \<in> set xs \<Longrightarrow> tx_rel R (f acc x)) \<Longrightarrow> tx_rel R (tx_fold f acc xs)"
  by (induction xs arbitrary: acc) (auto intro: rel_return rel_bind)

lemma rel_map: "(\<And>x. x \<in> set xs \<Longrightarrow> tx_rel R (f x)) \<Longrightarrow> tx_rel R (tx_map f xs)"
  by (induction xs) (auto intro!: rel_return rel_bind)

lemma rel_case_sum:
  "(\<And>e. r = Inl e \<Longrightarrow> tx_rel R (f e)) \<Longrightarrow> (\<And>x. r = Inr x \<Longrightarrow> tx_rel R (g x)) \<Longrightarrow>
   tx_rel R (case r of Inl e \<Rightarrow> f e | Inr x \<Rightarrow> g x)"
  by (simp split: sum.splits)

lemma rel_case_option:
  "(r = None \<Longrightarrow> tx_rel R f) \<Longrightarrow> (\<And>x. r = Some x \<Longrightarrow> tx_rel R (g x)) \<Longrightarrow>
   tx_rel R (case r of None \<Rightarrow> f | Some x \<Rightarrow> g x)"
  by (simp split: option.splits)

lemma rel_case_prod:
  "(\<And>x y. p = (x, y) \<Longrightarrow> tx_rel R (f x y)) \<Longrightarrow> tx_rel R (case p of (x, y) \<Rightarrow> f x y)"
  by (simp split: prod.splits)

lemma rel_let: "tx_rel R (f x) \<Longrightarrow> tx_rel R (Let x f)"
  by (simp add: Let_def)

lemmas rels = rel_return rel_fail rel_gets rel_row rel_lift rel_reject rel_bind rel_seq
  rel_when rel_if rel_try rel_savepoint rel_transaction rel_read_only rel_foreach rel_fold
  rel_map rel_case_sum rel_case_option rel_case_prod rel_let

end

text \<open>Frame conditions: a field of the state that an operation leaves alone.\<close>

definition same :: "('s \<Rightarrow> 'f) \<Rightarrow> 's \<Rightarrow> 's \<Rightarrow> bool" where
  "same f s t \<longleftrightarrow> f s = f t"

interpretation frame: step_preorder "same f" for f :: "'s \<Rightarrow> 'f"
  by unfold_locales (auto simp: same_def)

text \<open>Invariants: a predicate on the state that an operation keeps.\<close>

definition keeps :: "('s \<Rightarrow> bool) \<Rightarrow> 's \<Rightarrow> 's \<Rightarrow> bool" where
  "keeps I s t \<longleftrightarrow> (I s \<longrightarrow> I t)"

interpretation invariant: step_preorder "keeps I" for I :: "'s \<Rightarrow> bool"
  by unfold_locales (auto simp: keeps_def)

lemma tx_rel_keepsD: "tx_rel (keeps I) m \<Longrightarrow> I s \<Longrightarrow> I (snd (m s))"
  by (simp add: tx_rel_def keeps_def)

lemma tx_rel_sameD: "tx_rel (same f) m \<Longrightarrow> f (snd (m s)) = f s"
  by (simp add: tx_rel_def same_def)

lemma tx_rel_result: "tx_rel R m \<Longrightarrow> m s = (r, s') \<Longrightarrow> R s s'"
  by (metis tx_rel_def snd_conv)

section \<open>Rows\<close>

definition update_where :: "('r \<Rightarrow> bool) \<Rightarrow> ('r \<Rightarrow> 'r) \<Rightarrow> 'r list \<Rightarrow> 'r list" where
  "update_where P f rs = map (\<lambda>r. if P r then f r else r) rs"

definition count_where :: "('r \<Rightarrow> bool) \<Rightarrow> 'r list \<Rightarrow> int" where
  "count_where P rs = int (length (filter P rs))"

definition sum_where :: "('r \<Rightarrow> bool) \<Rightarrow> ('r \<Rightarrow> int) \<Rightarrow> 'r list \<Rightarrow> int" where
  "sum_where P f rs = sum_list (map f (filter P rs))"

text \<open>The next value of an AUTOINCREMENT column of a table no row is deleted from.\<close>

definition next_seq :: "'r list \<Rightarrow> int" where
  "next_seq rs = int (length rs) + 1"

definition exists_where :: "('r \<Rightarrow> bool) \<Rightarrow> 'r list \<Rightarrow> bool" where
  "exists_where P rs = list_ex P rs"

lemma exists_where_iff [row_simps]: "exists_where P rs \<longleftrightarrow> (\<exists>r \<in> set rs. P r)"
  by (simp add: exists_where_def list_ex_iff)

lemma update_where_simps [row_simps]:
  "update_where P f [] = []"
  "update_where P f (r # rs) = (if P r then f r else r) # update_where P f rs"
  by (simp_all add: update_where_def)

lemma update_where_append [row_simps]: "update_where P f (xs @ ys) = update_where P f xs @ update_where P f ys"
  by (simp add: update_where_def)

lemma length_update_where [simp]: "length (update_where P f rs) = length rs"
  by (simp add: update_where_def)

lemma set_update_where: "set (update_where P f rs) = (\<lambda>r. if P r then f r else r) ` set rs"
  by (simp add: update_where_def)

lemma update_where_none: "(\<And>r. r \<in> set rs \<Longrightarrow> \<not> P r) \<Longrightarrow> update_where P f rs = rs"
  by (simp add: update_where_def map_idI)

lemma map_update_where: "(\<And>r. P r \<Longrightarrow> g (f r) = g r) \<Longrightarrow> map g (update_where P f rs) = map g rs"
  by (simp add: update_where_def)

lemma count_where_nonneg [simp]: "0 \<le> count_where P rs"
  by (simp add: count_where_def)

lemma count_where_simps [row_simps]:
  "count_where P [] = 0"
  "count_where P (r # rs) = (if P r then 1 else 0) + count_where P rs"
  by (simp_all add: count_where_def)

lemma count_where_append [row_simps]: "count_where P (xs @ ys) = count_where P xs + count_where P ys"
  by (simp add: count_where_def)

lemma count_where_zero: "count_where P rs = 0 \<longleftrightarrow> (\<forall>r \<in> set rs. \<not> P r)"
  by (auto simp: count_where_def filter_empty_conv)

lemma sum_where_simps [row_simps]:
  "sum_where P f [] = 0"
  "sum_where P f (r # rs) = (if P r then f r else 0) + sum_where P f rs"
  by (simp_all add: sum_where_def)

lemma sum_where_append [row_simps]: "sum_where P f (xs @ ys) = sum_where P f xs + sum_where P f ys"
  by (simp add: sum_where_def)

lemma sum_where_nonneg: "(\<And>r. r \<in> set rs \<Longrightarrow> P r \<Longrightarrow> 0 \<le> f r) \<Longrightarrow> 0 \<le> sum_where P f rs"
  unfolding sum_where_def by (rule sum_list_nonneg) auto

lemma sum_where_cong:
  "(\<And>r. r \<in> set rs \<Longrightarrow> P r = P' r) \<Longrightarrow> (\<And>r. r \<in> set rs \<Longrightarrow> P r \<Longrightarrow> f r = f' r) \<Longrightarrow>
   sum_where P f rs = sum_where P' f' rs"
  by (induction rs) (auto simp: row_simps)

text \<open>
  The sum of a column after an update by key: when the key is unique, exactly one row's
  share is replaced.
\<close>

lemma sum_where_update:
  assumes "\<And>r. r \<in> set rs \<Longrightarrow> U r \<Longrightarrow> (if P (u r) then f (u r) else 0) = (if P r then f r else 0)"
  shows "sum_where P f (update_where U u rs) = sum_where P f rs"
  using assms
proof (induction rs)
  case (Cons a rs)
  have "sum_where P f (update_where U u rs) = sum_where P f rs"
    using Cons.prems by (intro Cons.IH) simp
  moreover have "U a \<Longrightarrow> (if P (u a) then f (u a) else 0) = (if P a then f a else 0)"
    using Cons.prems by simp
  ultimately show ?case
    by (cases "U a"; cases "P a"; cases "P (u a)") (simp_all add: row_simps)
qed (simp add: row_simps)

lemma find_update_where:
  "(\<And>r. P (f r) = P r) \<Longrightarrow> (\<And>r. Q (f r) = Q r) \<Longrightarrow>
   List.find Q (update_where P f rs) = map_option (\<lambda>r. if P r then f r else r) (List.find Q rs)"
  by (induction rs) (auto simp: row_simps)

lemma find_SomeD: "List.find P xs = Some x \<Longrightarrow> x \<in> set xs \<and> P x"
  by (induction xs) (auto split: if_splits)

lemma find_NoneD: "List.find P xs = None \<Longrightarrow> x \<in> set xs \<Longrightarrow> \<not> P x"
  by (induction xs) (auto split: if_splits)

text \<open>Two tables whose rows agree on some columns give, for a query on these, rows that agree.\<close>

lemma find_agree:
  assumes "map f xs = map f' ys" and "\<And>x y. f x = f' y \<Longrightarrow> P x = Q y"
  shows "rel_option (\<lambda>x y. f x = f' y) (List.find P xs) (List.find Q ys)"
  using assms(1)
proof (induction xs arbitrary: ys)
  case (Cons x xs)
  then obtain y ys' where "ys = y # ys'" "f x = f' y" "map f xs = map f' ys'" by auto
  with Cons.IH [of ys'] assms(2) [of x y] show ?case by simp
qed simp

lemma find_append: "List.find P (xs @ ys) = (case List.find P xs of None \<Rightarrow> List.find P ys | Some x \<Rightarrow> Some x)"
  by (induction xs) auto

lemma distinct_key_unique:
  "distinct (map key rs) \<Longrightarrow> r \<in> set rs \<Longrightarrow> r' \<in> set rs \<Longrightarrow> key r = key r' \<Longrightarrow> r = r'"
  by (simp add: distinct_map inj_on_def)

lemma find_key:
  "distinct (map key rs) \<Longrightarrow> r \<in> set rs \<Longrightarrow> List.find (\<lambda>x. key x = key r) rs = Some r"
  by (induction rs) force+

section \<open>Tables\<close>

text \<open>
  The interface of a keyed table: how its rows are read from and written to the database and
  what identifies a row. Its lemmas say what a lookup by key gives after an update or an
  insert, and that the keys stay distinct; every table the components rely on is an instance.
\<close>

locale table =
  fixes rows :: "'d \<Rightarrow> 'r list"
    and set_rows :: "('r list \<Rightarrow> 'r list) \<Rightarrow> 'd \<Rightarrow> 'd"
    and key :: "'r \<Rightarrow> 'k"
  assumes rows_set: "rows (set_rows f d) = f (rows d)"
begin

lemma lookup_update:
  assumes "\<And>r. key (f r) = key r" and "\<And>r. P (f r) = P r"
  shows "List.find (\<lambda>r. key r = k) (rows (set_rows (update_where P f) d)) =
    map_option (\<lambda>r. if P r then f r else r) (List.find (\<lambda>r. key r = k) (rows d))"
  by (simp add: rows_set find_update_where assms)

lemma keys_update:
  assumes "\<And>r. key (f r) = key r"
  shows "map key (rows (set_rows (update_where P f) d)) = map key (rows d)"
  by (simp add: rows_set map_update_where assms)

lemma lookup_insert:
  "List.find (\<lambda>r. key r = k) (rows (set_rows (\<lambda>rs. rs @ [x]) d)) =
    (case List.find (\<lambda>r. key r = k) (rows d) of
       None \<Rightarrow> (if key x = k then Some x else None) | Some r \<Rightarrow> Some r)"
  by (simp add: rows_set find_append split: option.splits)

lemma keys_insert:
  "distinct (map key (rows d)) \<Longrightarrow> key x \<notin> key ` set (rows d) \<Longrightarrow>
   distinct (map key (rows (set_rows (\<lambda>rs. rs @ [x]) d)))"
  by (simp add: rows_set)

lemma lookup_row:
  "distinct (map key (rows d)) \<Longrightarrow> r \<in> set (rows d) \<Longrightarrow> List.find (\<lambda>x. key x = key r) (rows d) = Some r"
  by (rule find_key)

end

end
