(* ===== verification/GoText.thy ===== *)
theory GoText
  imports Prelude
begin

text \<open>
  The part of Go's standard library the program uses on text, at the level of bytes: a Go
  string is a list of bytes (\<open>string\<close>), UTF-8 decoding with the ranges of unicode/utf8,
  strings.TrimSpace and strings.Fields, path.Clean, the regular expressions the program
  compiles, and the output of encoding/json for the values it marshals. The lemmas relate the
  cleaned paths to the directory they name and bound what the matchers accept.
\<close>

section \<open>Bytes and UTF-8\<close>

definition byte :: "char \<Rightarrow> nat" where
  "byte c = of_char c"

definition cont :: "nat \<Rightarrow> bool" where
  "cont b \<longleftrightarrow> 128 \<le> b \<and> b \<le> 191"

text \<open>The byte ranges of well-formed three- and four-byte sequences.\<close>

definition three_bytes :: "nat \<Rightarrow> nat \<Rightarrow> nat \<Rightarrow> bool" where
  "three_bytes b0 b1 b2 \<longleftrightarrow>
     (if b0 = 224 then 160 else 128) \<le> b1 \<and> b1 \<le> (if b0 = 237 then 159 else 191) \<and> cont b2"

definition four_bytes :: "nat \<Rightarrow> nat \<Rightarrow> nat \<Rightarrow> nat \<Rightarrow> bool" where
  "four_bytes b0 b1 b2 b3 \<longleftrightarrow>
     240 \<le> b0 \<and> b0 \<le> 244 \<and> (if b0 = 240 then 144 else 128) \<le> b1 \<and>
     b1 \<le> (if b0 = 244 then 143 else 191) \<and> cont b2 \<and> cont b3"

text \<open>utf8.DecodeRune on the front of a string: the rune and its width, None for an invalid byte.\<close>

fun decode_rune :: "nat list \<Rightarrow> (nat \<times> nat) option" where
  "decode_rune [] = None"
| "decode_rune (b0 # bs) =
     (if b0 < 128 then Some (b0, 1)
      else case bs of
        [] \<Rightarrow> None
      | b1 # bs2 \<Rightarrow>
          if 194 \<le> b0 \<and> b0 \<le> 223 then
            (if cont b1 then Some ((b0 - 192) * 64 + (b1 - 128), 2) else None)
          else case bs2 of
            [] \<Rightarrow> None
          | b2 # bs3 \<Rightarrow>
              if 224 \<le> b0 \<and> b0 \<le> 239 then
                (if three_bytes b0 b1 b2
                 then Some ((b0 - 224) * 4096 + (b1 - 128) * 64 + (b2 - 128), 3) else None)
              else case bs3 of
                [] \<Rightarrow> None
              | b3 # _ \<Rightarrow>
                  if four_bytes b0 b1 b2 b3
                  then Some ((b0 - 240) * 262144 + (b1 - 128) * 4096 + (b2 - 128) * 64 + (b3 - 128), 4)
                  else None)"

definition rune_at :: "string \<Rightarrow> (nat \<times> nat) option" where
  "rune_at s = decode_rune (map byte (take 4 s))"

text \<open>The runes of a string in order, each with its bytes; None stands for an invalid byte.\<close>

fun runes :: "string \<Rightarrow> (nat option \<times> string) list" where
  "runes [] = []"
| "runes (c # cs) =
     (case rune_at (c # cs) of
        None \<Rightarrow> (None, [c]) # runes cs
      | Some (r, n) \<Rightarrow> (Some r, c # take (n - 1) cs) # runes (drop (n - 1) cs))"

definition valid_utf8 :: "string \<Rightarrow> bool" where
  "valid_utf8 s = list_all (\<lambda>(r, _). r \<noteq> None) (runes s)"

definition is_space :: "nat option \<Rightarrow> bool" where
  "is_space r = (case r of None \<Rightarrow> False | Some n \<Rightarrow>
     9 \<le> n \<and> n \<le> 13 \<or> n = 32 \<or> n = 133 \<or> n = 160 \<or> n = 5760 \<or> 8192 \<le> n \<and> n \<le> 8202 \<or>
     n = 8232 \<or> n = 8233 \<or> n = 8239 \<or> n = 8287 \<or> n = 12288)"

text \<open>unicode.IsControl: the category Cc.\<close>

definition is_control :: "nat option \<Rightarrow> bool" where
  "is_control r = (case r of None \<Rightarrow> False | Some n \<Rightarrow> n < 32 \<or> 127 \<le> n \<and> n < 160)"

definition trim_space :: "string \<Rightarrow> string" where
  "trim_space s =
     concat (map snd (rev (dropWhile (is_space \<circ> fst) (rev (dropWhile (is_space \<circ> fst) (runes s))))))"

text \<open>strings.TrimSpace(s) == "" : nothing but white space.\<close>

definition blank :: "string \<Rightarrow> bool" where
  "blank s \<longleftrightarrow> trim_space s = ''''"

text \<open>The number of fields strings.Fields splits a string into.\<close>

fun count_fields :: "bool \<Rightarrow> (nat option \<times> string) list \<Rightarrow> nat" where
  "count_fields inside [] = 0"
| "count_fields inside (r # rs) =
     (if is_space (fst r) then count_fields False rs
      else (if inside then 0 else 1) + count_fields True rs)"

definition fields_length :: "string \<Rightarrow> nat" where
  "fields_length s = count_fields False (runes s)"

definition has_prefix :: "string \<Rightarrow> string \<Rightarrow> bool" where
  "has_prefix s p \<longleftrightarrow> take (length p) s = p"

definition has_suffix :: "string \<Rightarrow> string \<Rightarrow> bool" where
  "has_suffix s p \<longleftrightarrow> length p \<le> length s \<and> drop (length s - length p) s = p"

definition nul :: char where
  "nul = CHR 0x00"

lemma concat_runes: "concat (map snd (runes s)) = s"
  by (induction s rule: runes.induct) (auto split: option.splits)

lemma runes_not_empty: "r \<in> set (runes s) \<Longrightarrow> snd r \<noteq> []"
  by (induction s rule: runes.induct) (auto split: option.splits)

lemma dropWhile_ends_empty:
  "dropWhile P (rev (dropWhile P xs)) = [] \<longleftrightarrow> (\<forall>x \<in> set xs. P x)"
proof
  assume L: "dropWhile P (rev (dropWhile P xs)) = []"
  show "\<forall>x \<in> set xs. P x"
  proof (rule ccontr)
    assume "\<not> (\<forall>x \<in> set xs. P x)"
    then have ne: "dropWhile P xs \<noteq> []" by (simp add: dropWhile_eq_Nil_conv)
    then have "\<not> P (hd (dropWhile P xs))" by (rule hd_dropWhile)
    with L ne show False by (auto simp: dropWhile_eq_Nil_conv)
  qed
next
  assume "\<forall>x \<in> set xs. P x"
  then have "dropWhile P xs = []" by (simp only: dropWhile_eq_Nil_conv)
  then show "dropWhile P (rev (dropWhile P xs)) = []" by (simp only: rev.simps dropWhile.simps)
qed

lemma blank_iff: "blank s \<longleftrightarrow> (\<forall>r \<in> set (runes s). is_space (fst r))"
proof -
  let ?core = "dropWhile (is_space \<circ> fst) (rev (dropWhile (is_space \<circ> fst) (runes s)))"
  have "set ?core \<subseteq> set (runes s)"
    using set_dropWhileD [of _ "is_space \<circ> fst" "runes s"]
      set_dropWhileD [of _ "is_space \<circ> fst" "rev (dropWhile (is_space \<circ> fst) (runes s))"]
    by (metis set_rev subsetI)
  moreover have "concat (map snd (rev xs)) = [] \<longleftrightarrow> xs = []" if "set xs \<subseteq> set (runes s)" for xs
    using that runes_not_empty by (cases xs) (auto simp: concat_eq_Nil_conv)
  ultimately have "concat (map snd (rev ?core)) = [] \<longleftrightarrow> ?core = []" by blast
  then show ?thesis
    unfolding blank_def trim_space_def by (simp only: dropWhile_ends_empty comp_apply)
qed

lemma not_blank_nonempty: "\<not> blank s \<Longrightarrow> s \<noteq> []"
  by (auto simp: blank_iff)

section \<open>The program's regular expressions\<close>

definition lower_letter :: "char \<Rightarrow> bool" where
  "lower_letter c \<longleftrightarrow> 97 \<le> byte c \<and> byte c \<le> 122"

definition upper_letter :: "char \<Rightarrow> bool" where
  "upper_letter c \<longleftrightarrow> 65 \<le> byte c \<and> byte c \<le> 90"

definition digit :: "char \<Rightarrow> bool" where
  "digit c \<longleftrightarrow> 48 \<le> byte c \<and> byte c \<le> 57"

definition ConfigName :: "string \<Rightarrow> bool" where
  "ConfigName s = (case s of [] \<Rightarrow> False
     | c # cs \<Rightarrow> lower_letter c \<and> length cs \<le> 63 \<and>
         list_all (\<lambda>x. lower_letter x \<or> digit x \<or> x \<in> set ''_.-'') cs)"

definition EnvName :: "string \<Rightarrow> bool" where
  "EnvName s = (case s of [] \<Rightarrow> False
     | c # cs \<Rightarrow> (lower_letter c \<or> upper_letter c \<or> c = CHR ''_'') \<and> length cs \<le> 127 \<and>
         list_all (\<lambda>x. lower_letter x \<or> upper_letter x \<or> digit x \<or> x = CHR ''_'') cs)"

definition lower_hex :: "char \<Rightarrow> bool" where
  "lower_hex c \<longleftrightarrow> digit c \<or> 97 \<le> byte c \<and> byte c \<le> 102"

definition SystemIDPattern :: "string \<Rightarrow> bool" where
  "SystemIDPattern s \<longleftrightarrow> has_prefix s ''sys_'' \<and> length s = 36 \<and> list_all lower_hex (drop 4 s)"

definition CommandKeyPattern :: "string \<Rightarrow> bool" where
  "CommandKeyPattern s = (case s of [] \<Rightarrow> False
     | c # cs \<Rightarrow> (lower_letter c \<or> upper_letter c \<or> digit c) \<and> length cs \<le> 127 \<and>
         list_all (\<lambda>x. lower_letter x \<or> upper_letter x \<or> digit x \<or> x \<in> set ''._:-'') cs)"

text \<open>auth.go: strings.IndexFunc looks at runes; an invalid byte is the rune 65533.\<close>

definition ValidAPIToken :: "string \<Rightarrow> bool" where
  "ValidAPIToken token \<longleftrightarrow> 32 \<le> length token \<and> length token \<le> 256 \<and>
     list_all (\<lambda>(r, _). case r of None \<Rightarrow> False | Some n \<Rightarrow> \<not> (n < 33 \<or> n > 126)) (runes token)"

lemma ConfigName_length: "ConfigName s \<Longrightarrow> 1 \<le> length s \<and> length s \<le> 64"
  by (auto simp: ConfigName_def split: list.splits)

lemma ConfigName_no_slash: "ConfigName s \<Longrightarrow> CHR ''/'' \<notin> set s"
  by (auto simp: ConfigName_def lower_letter_def digit_def byte_def list_all_iff split: list.splits)

section \<open>Paths\<close>

fun split_slash :: "string \<Rightarrow> string list" where
  "split_slash [] = [[]]"
| "split_slash (c # cs) =
     (if c = CHR ''/'' then [] # split_slash cs
      else case split_slash cs of [] \<Rightarrow> [[c]] | w # ws \<Rightarrow> (c # w) # ws)"

fun join_slash :: "string list \<Rightarrow> string" where
  "join_slash [] = []"
| "join_slash [w] = w"
| "join_slash (w # ws) = w @ ''/'' @ join_slash ws"

text \<open>path.Clean: the elements kept so far (last first), for a rooted or a relative path.\<close>

fun clean_steps :: "bool \<Rightarrow> string list \<Rightarrow> string list \<Rightarrow> string list" where
  "clean_steps rooted acc [] = rev acc"
| "clean_steps rooted acc (w # ws) =
     (if w = '''' \<or> w = ''.'' then clean_steps rooted acc ws
      else if w = ''..'' then
        (case acc of
           [] \<Rightarrow> clean_steps rooted (if rooted then [] else [''..'']) ws
         | a # rest \<Rightarrow> if a = ''..'' then clean_steps rooted (''..'' # acc) ws
                      else clean_steps rooted rest ws)
      else clean_steps rooted (w # acc) ws)"

definition is_abs :: "string \<Rightarrow> bool" where
  "is_abs p \<longleftrightarrow> has_prefix p ''/''"

definition path_clean :: "string \<Rightarrow> string" where
  "path_clean p =
     (let body = join_slash (clean_steps (is_abs p) [] (split_slash p))
      in if is_abs p then CHR ''/'' # body else if body = '''' then ''.'' else body)"

text \<open>strings.Cut(value, "/"): the part before the first slash.\<close>

definition cut_slash :: "string \<Rightarrow> string" where
  "cut_slash s = takeWhile (\<lambda>c. c \<noteq> CHR ''/'') s"

lemma split_slash_nonempty: "split_slash s \<noteq> []"
  by (induction s) (auto split: list.splits)

lemma split_slash_Cons:
  "c \<noteq> CHR ''/'' \<Longrightarrow> split_slash (c # cs) = (c # hd (split_slash cs)) # tl (split_slash cs)"
  using split_slash_nonempty [of cs] by (auto split: list.splits)

lemma split_slash_no_slash: "w \<in> set (split_slash s) \<Longrightarrow> CHR ''/'' \<notin> set w"
proof (induction s arbitrary: w)
  case (Cons c cs)
  have "hd (split_slash cs) \<in> set (split_slash cs)" "set (tl (split_slash cs)) \<subseteq> set (split_slash cs)"
    using split_slash_nonempty [of cs] by (auto dest: list.set_sel(2))
  with Cons show ?case
    by (cases "c = CHR ''/''") (auto simp: split_slash_Cons simp del: split_slash.simps(2), auto)
qed simp

lemma join_split: "join_slash (split_slash s) = s"
proof (induction s)
  case (Cons c cs)
  obtain w ws where ws: "split_slash cs = w # ws"
    using split_slash_nonempty [of cs] by (cases "split_slash cs") auto
  with Cons show ?case by (cases ws) auto
qed simp

lemma split_word: "CHR ''/'' \<notin> set w \<Longrightarrow> split_slash (w @ CHR ''/'' # s) = w # split_slash s"
  by (induction w) auto

lemma split_last: "CHR ''/'' \<notin> set w \<Longrightarrow> split_slash w = [w]"
  by (induction w) auto

lemma split_join:
  "ws \<noteq> [] \<Longrightarrow> (\<And>w. w \<in> set ws \<Longrightarrow> CHR ''/'' \<notin> set w) \<Longrightarrow> split_slash (join_slash ws) = ws"
proof (induction ws rule: join_slash.induct)
  case (2 w)
  then show ?case by (simp add: split_last)
next
  case (3 w v vs)
  then show ?case by (simp add: split_word)
qed simp

lemma hd_split: "hd (split_slash s) = cut_slash s"
proof (induction s)
  case (Cons c cs)
  then show ?case
    by (cases "c = CHR ''/''") (simp_all add: split_slash_Cons cut_slash_def del: split_slash.simps(2), simp)
qed (simp add: cut_slash_def)

text \<open>A step list that starts with a proper name never climbs: no element kept is special.\<close>

lemma clean_steps_shape:
  assumes "\<forall>a \<in> set acc. a \<noteq> '''' \<and> a \<noteq> ''.'' \<and> CHR ''/'' \<notin> set a"
    and "\<And>w. w \<in> set ws \<Longrightarrow> CHR ''/'' \<notin> set w"
    and "x \<in> set (clean_steps r acc ws)"
  shows "x \<noteq> '''' \<and> x \<noteq> ''.'' \<and> CHR ''/'' \<notin> set x"
  using assms
proof (induction r acc ws rule: clean_steps.induct)
  case (2 r acc w ws)
  then show ?case by (auto split: if_splits list.splits)
qed simp

text \<open>In a cleaned path every parent step comes before the names.\<close>

lemma clean_steps_parents:
  assumes "acc = us @ replicate n ''..''" and "''..'' \<notin> set us"
  shows "\<exists>us n. rev (clean_steps r acc ws) = us @ replicate n ''..'' \<and> ''..'' \<notin> set us"
  using assms
proof (induction ws arbitrary: acc us n)
  case Nil
  then show ?case by auto
next
  case (Cons w ws)
  consider (skip) "w = '''' \<or> w = ''.''" | (up) "w = ''..''"
    | (name) "w \<noteq> ''''" "w \<noteq> ''.''" "w \<noteq> ''..''" by blast
  then show ?case
  proof cases
    case skip
    then have "clean_steps r acc (w # ws) = clean_steps r acc ws" by auto
    with Cons.IH [OF Cons.prems] show ?thesis by simp
  next
    case up
    show ?thesis
    proof (cases us)
      case Nil
      show ?thesis
      proof (cases n)
        case 0
        have step: "clean_steps r acc (w # ws) = clean_steps r (if r then [] else [''..'']) ws"
          using up Nil 0 Cons.prems by simp
        have "(if r then [] else [''..'']) = [] @ replicate (if r then 0 else 1) ''..''" by simp
        from Cons.IH [OF this] show ?thesis by (simp only: step) simp
      next
        case (Suc m)
        have step: "clean_steps r acc (w # ws) = clean_steps r (''..'' # acc) ws"
          using up Nil Suc Cons.prems by simp
        have "''..'' # acc = [] @ replicate (Suc n) ''..''" using Nil Cons.prems by simp
        from Cons.IH [OF this] show ?thesis by (simp only: step) simp
      qed
    next
      case (Cons a us')
      with up Cons.prems have "clean_steps r acc (w # ws) = clean_steps r (us' @ replicate n ''..'') ws"
        by auto
      moreover have "''..'' \<notin> set us'" using Cons Cons.prems by simp
      ultimately show ?thesis using Cons.IH by metis
    qed
  next
    case name
    then have "clean_steps r acc (w # ws) = clean_steps r (w # acc) ws" by simp
    moreover have "w # acc = (w # us) @ replicate n ''..''" "''..'' \<notin> set (w # us)"
      using Cons.prems name by auto
    ultimately show ?thesis using Cons.IH by metis
  qed
qed

text \<open>
  A path that path.Clean leaves alone and whose first element is a proper name stays below
  that name: no element is empty, a dot or a parent step.
\<close>

lemma clean_path_elements:
  assumes clean: "path_clean p = p" and base: "cut_slash p \<noteq> ''''" "cut_slash p \<noteq> ''.''" "cut_slash p \<noteq> ''..''"
    and x: "x \<in> set (split_slash p)"
  shows "x \<noteq> '''' \<and> x \<noteq> ''.'' \<and> x \<noteq> ''..''"
proof -
  let ?ws = "clean_steps False [] (split_slash p)"
  have rel: "\<not> is_abs p"
    using base(1) by (cases p) (auto simp: is_abs_def has_prefix_def cut_slash_def)
  have body: "p = join_slash ?ws"
  proof (rule ccontr)
    assume "p \<noteq> join_slash ?ws"
    with clean rel have "p = ''.''" by (auto simp: path_clean_def Let_def split: if_splits)
    with base(2) show False by (simp add: cut_slash_def)
  qed
  have "p \<noteq> ''''" using base(1) by (auto simp: cut_slash_def)
  with body have ne: "?ws \<noteq> []" by (metis join_slash.simps(1))
  have shape: "w \<noteq> '''' \<and> w \<noteq> ''.'' \<and> CHR ''/'' \<notin> set w" if "w \<in> set ?ws" for w
    by (rule clean_steps_shape [OF _ _ that]) (auto dest: split_slash_no_slash)
  then have fix_point: "split_slash p = ?ws"
    using split_join [OF ne] body by metis
  obtain us n where us: "rev ?ws = us @ replicate n ''..''" "''..'' \<notin> set us"
    using clean_steps_parents [of "[]" "[]" 0 False "split_slash p"] by auto
  have "n = 0"
  proof (cases n)
    case (Suc m)
    then have "?ws = ''..'' # replicate m ''..'' @ rev us"
      using us(1) by (metis rev_append rev_replicate rev_rev_ident replicate_Suc append_Cons)
    then have "hd (split_slash p) = ''..''" using fix_point by (metis list.sel(1))
    with base(3) show ?thesis by (simp add: hd_split)
  qed
  with us have "''..'' \<notin> set ?ws" by (metis append_Nil2 replicate_0 set_rev)
  with shape x fix_point show ?thesis by metis
qed

end
