(* ===== verification/GoJson.thy ===== *)
theory GoJson
  imports GoText
begin

text \<open>
  The output of encoding/json for the values the program marshals: the string escapes of the
  encoder with HTML escaping on, decimal integers, arrays, objects in field order, raw
  messages copied as they are. Digests, stored sizes and frames are computed from it. The
  lemmas say that an encoded value holds no line break, so that a line-delimited frame ends
  where its value ends.
\<close>

datatype json =
    JNull
  | JBool bool
  | JInt int
  | JStr string
  | JRaw string
  | JArr "json list"
  | JObj "(string \<times> json) list"

definition hex_char :: "nat \<Rightarrow> char" where
  "hex_char n = char_of (if n < 10 then 48 + n else 87 + n)"

fun dec_nat :: "nat \<Rightarrow> string" where
  "dec_nat n = (if n < 10 then [char_of (48 + n)] else dec_nat (n div 10) @ [char_of (48 + n mod 10)])"

declare dec_nat.simps [simp del]

definition dec_int :: "int \<Rightarrow> string" where
  "dec_int i = (if i < 0 then CHR ''-'' # dec_nat (nat (- i)) else dec_nat (nat i))"

text \<open>One rune of a string: the named escapes, the six-character ones, or the bytes themselves.\<close>

definition json_rune :: "nat option \<times> string \<Rightarrow> string" where
  "json_rune p = (case p of
      (None, _) \<Rightarrow> CHR 0x5C # ''ufffd''
    | (Some n, bs) \<Rightarrow>
        if n = 34 then [CHR 0x5C, CHR 0x22]
        else if n = 92 then [CHR 0x5C, CHR 0x5C]
        else if n = 8 then CHR 0x5C # ''b''
        else if n = 12 then CHR 0x5C # ''f''
        else if n = 10 then CHR 0x5C # ''n''
        else if n = 13 then CHR 0x5C # ''r''
        else if n = 9 then CHR 0x5C # ''t''
        else if n < 32 \<or> n = 60 \<or> n = 62 \<or> n = 38 then
          CHR 0x5C # ''u00'' @ [hex_char (n div 16), hex_char (n mod 16)]
        else if n = 8232 then CHR 0x5C # ''u2028''
        else if n = 8233 then CHR 0x5C # ''u2029''
        else bs)"

definition json_string :: "string \<Rightarrow> string" where
  "json_string s = CHR 0x22 # concat (map json_rune (runes s)) @ [CHR 0x22]"

fun join_comma :: "string list \<Rightarrow> string" where
  "join_comma [] = []"
| "join_comma [w] = w"
| "join_comma (w # ws) = w @ '','' @ join_comma ws"

fun marshal :: "json \<Rightarrow> string" where
  "marshal JNull = ''null''"
| "marshal (JBool b) = (if b then ''true'' else ''false'')"
| "marshal (JInt i) = dec_int i"
| "marshal (JStr s) = json_string s"
| "marshal (JRaw s) = s"
| "marshal (JArr xs) = ''['' @ join_comma (map marshal xs) @ '']''"
| "marshal (JObj kvs) = ''{'' @ join_comma (map (\<lambda>kv. json_string (fst kv) @ '':'' @ marshal (snd kv)) kvs) @ ''}''"

text \<open>Struct fields: always present, or omitted when empty.\<close>

definition field :: "string \<Rightarrow> json \<Rightarrow> (string \<times> json) list" where
  "field k v = [(k, v)]"

definition field_omit :: "bool \<Rightarrow> string \<Rightarrow> json \<Rightarrow> (string \<times> json) list" where
  "field_omit is_empty k v = (if is_empty then [] else [(k, v)])"

text \<open>A Go slice: nil (\<open>None\<close>) is marshalled as null, an empty slice as an empty array.\<close>

type_synonym 'a slice = "'a list option"

definition elems :: "'a slice \<Rightarrow> 'a list" where
  "elems x = (case x of None \<Rightarrow> [] | Some xs \<Rightarrow> xs)"

definition jslice :: "('a \<Rightarrow> json) \<Rightarrow> 'a slice \<Rightarrow> json" where
  "jslice f x = (case x of None \<Rightarrow> JNull | Some xs \<Rightarrow> JArr (map f xs))"

definition jstrings :: "string slice \<Rightarrow> json" where
  "jstrings = jslice JStr"

text \<open>A Go map with string keys is marshalled with its keys sorted.\<close>

definition jmap :: "('a \<Rightarrow> json) \<Rightarrow> (string \<times> 'a) list \<Rightarrow> json" where
  "jmap f m = JObj (map (\<lambda>(k, v). (k, f v)) (sort_key fst m))"

lemma elems_simps [simp]: "elems None = []" "elems (Some xs) = xs"
  by (simp_all add: elems_def)

section \<open>Encoded values are one line\<close>

definition newline :: char where
  "newline = CHR 0x0A"

lemma byte_inj: "byte c = byte d \<Longrightarrow> c = d"
  by (simp add: byte_def)

lemma byte_char_of: "n < 256 \<Longrightarrow> byte (char_of n) = n"
  by (simp add: byte_def)

lemma newline_byte: "c = newline \<longleftrightarrow> byte c = 10"
  by (auto simp: newline_def byte_def intro: byte_inj [unfolded byte_def])

lemma dec_nat_digits: "c \<in> set (dec_nat n) \<Longrightarrow> 48 \<le> byte c \<and> byte c \<le> 57"
proof (induction n rule: dec_nat.induct)
  case (1 n)
  show ?case
  proof (cases "n < 10")
    case True
    with 1 show ?thesis by (simp add: dec_nat.simps [of n] byte_char_of)
  next
    case False
    have "48 + n mod 10 < 256" and "n mod 10 \<le> 9"
      using mod_less_divisor [of 10 n] by linarith+
    with False 1 show ?thesis by (auto simp: dec_nat.simps [of n] byte_char_of)
  qed
qed

lemma hex_char_byte: "n < 16 \<Longrightarrow> 48 \<le> byte (hex_char n)"
  by (simp add: hex_char_def byte_char_of)

text \<open>A decoded rune is one ASCII byte or has no ASCII byte among its bytes.\<close>

lemma three_bytes_high: "three_bytes b0 b1 b2 \<Longrightarrow> 128 \<le> b1 \<and> 128 \<le> b2"
  by (auto simp: three_bytes_def cont_def split: if_splits)

lemma four_bytes_high: "four_bytes b0 b1 b2 b3 \<Longrightarrow> 128 \<le> b1 \<and> 128 \<le> b2 \<and> 128 \<le> b3"
  by (auto simp: four_bytes_def cont_def split: if_splits)

lemma decode_rune_bytes:
  assumes "decode_rune (b0 # bs) = Some (n, w)"
  shows "w = 1 \<and> n = b0 \<or> (128 \<le> b0 \<and> (\<forall>x \<in> set (take (w - 1) bs). 128 \<le> x))"
proof (cases "b0 < 128")
  case True
  with assms show ?thesis by simp
next
  case False
  show ?thesis
  proof (cases bs)
    case (Cons b1 bs2)
    show ?thesis
    proof (cases "194 \<le> b0 \<and> b0 \<le> 223")
      case True
      with assms False Cons show ?thesis by (simp add: cont_def split: if_splits)
    next
      case no2: False
      show ?thesis
      proof (cases bs2)
        case Cons2: (Cons b2 bs3)
        show ?thesis
        proof (cases "224 \<le> b0 \<and> b0 \<le> 239")
          case True
          with assms False Cons no2 Cons2 three_bytes_high [of b0 b1 b2] show ?thesis
            by (auto simp: numeral_2_eq_2 split: if_splits)
        next
          case no3: False
          show ?thesis
          proof (cases bs3)
            case (Cons b3 bs4)
            with assms False \<open>bs = b1 # bs2\<close> no2 Cons2 no3 four_bytes_high [of b0 b1 b2 b3]
            show ?thesis by (auto simp: numeral_3_eq_3 split: if_splits)
          qed (use assms False \<open>bs = b1 # bs2\<close> no2 Cons2 no3 in auto)
        qed
      qed (use assms False Cons no2 in auto)
    qed
  qed (use assms False in auto)
qed

lemma rune_at_bytes:
  assumes "rune_at (c # cs) = Some (n, w)" and "w \<le> 4"
  shows "w = 1 \<and> n = byte c \<or> (\<forall>x \<in> set (c # take (w - 1) cs). 128 \<le> byte x)"
proof -
  have "take (w - 1) (map byte (take 3 cs)) = map byte (take (w - 1) cs)"
    using assms(2) by (simp add: take_map take_take min_absorb1)
  moreover have "decode_rune (byte c # map byte (take 3 cs)) = Some (n, w)"
    using assms(1) by (simp add: rune_at_def numeral_eq_Suc)
  ultimately show ?thesis using decode_rune_bytes by fastforce
qed

lemma decode_rune_width: "decode_rune bs = Some (n, w) \<Longrightarrow> 1 \<le> w \<and> w \<le> 4"
  by (cases bs) (auto split: if_splits list.splits)

text \<open>A rune decoded from bytes has a line break among them only when it is the line break.\<close>

lemma rune_bytes:
  "(Some n, bs) \<in> set (runes s) \<Longrightarrow> newline \<in> set bs \<Longrightarrow> n = 10"
proof (induction s rule: runes.induct)
  case (2 c cs)
  show ?case
  proof (cases "rune_at (c # cs)")
    case None
    with 2 show ?thesis by auto
  next
    case (Some p)
    then obtain r w where p: "rune_at (c # cs) = Some (r, w)" by (cases p) auto
    consider (here) "n = r" "bs = c # take (w - 1) cs" | (later) "(Some n, bs) \<in> set (runes (drop (w - 1) cs))"
      using "2.prems"(1) p by auto
    then show ?thesis
    proof cases
      case here
      have nl: "byte newline = 10" using newline_byte by blast
      have "w \<le> 4" using p decode_rune_width unfolding rune_at_def by blast
      from rune_at_bytes [OF p this] show ?thesis
      proof
        assume "w = 1 \<and> r = byte c"
        with here "2.prems"(2) nl show ?thesis by simp
      next
        assume "\<forall>x \<in> set (c # take (w - 1) cs). 128 \<le> byte x"
        with here "2.prems"(2) have "128 \<le> byte newline" by blast
        with nl show ?thesis by simp
      qed
    next
      case later
      with "2.IH"(2) [OF p refl] "2.prems"(2) show ?thesis by simp
    qed
  qed
qed simp

lemma json_rune_one_line: "p \<in> set (runes s) \<Longrightarrow> newline \<notin> set (json_rune p)"
proof -
  assume p: "p \<in> set (runes s)"
  obtain r bs where rb: "p = (r, bs)" by (cases p)
  have hex: "hex_char k \<noteq> newline" if "k < 16" for k
    using hex_char_byte [OF that] newline_byte [of "hex_char k"] by auto
  show ?thesis
  proof (cases r)
    case None
    with rb show ?thesis by (simp add: json_rune_def newline_def)
  next
    case (Some n)
    have "newline \<notin> set bs" if "n \<noteq> 10" using rune_bytes p rb Some that by blast
    moreover have "newline \<noteq> hex_char (n mod 16)" using hex [of "n mod 16"] by auto
    moreover have "newline \<noteq> hex_char (n div 16)" if "n < 32 \<or> n = 60 \<or> n = 62 \<or> n = 38"
    proof -
      have "n div 16 < 16" using that by auto
      from hex [OF this] show ?thesis by simp
    qed
    ultimately show ?thesis
      using rb Some by (auto simp: json_rune_def newline_def)
  qed
qed

lemma json_string_one_line: "newline \<notin> set (json_string s)"
  using json_rune_one_line by (auto simp: json_string_def newline_def)

lemma join_comma_one_line:
  "(\<And>w. w \<in> set ws \<Longrightarrow> newline \<notin> set w) \<Longrightarrow> newline \<notin> set (join_comma ws)"
  by (induction ws rule: join_comma.induct) (auto simp: newline_def)

fun raw_one_line :: "json \<Rightarrow> bool" where
  "raw_one_line (JRaw s) = (newline \<notin> set s)"
| "raw_one_line (JArr xs) = list_all raw_one_line xs"
| "raw_one_line (JObj kvs) = list_all (\<lambda>kv. raw_one_line (snd kv)) kvs"
| "raw_one_line _ = True"

lemma marshal_one_line: "raw_one_line j \<Longrightarrow> newline \<notin> set (marshal j)"
proof (induction j)
  case (JInt i)
  have "newline \<notin> set (dec_nat k)" for k
    using dec_nat_digits [of newline k] newline_byte [of newline] by auto
  then show ?case by (auto simp: dec_int_def newline_def)
next
  case (JStr s)
  then show ?case by (simp add: json_string_one_line)
next
  case (JArr xs)
  then have "newline \<notin> set (join_comma (map marshal xs))"
    by (intro join_comma_one_line) (auto simp: list_all_iff)
  then show ?case by (simp add: newline_def)
next
  case (JObj kvs)
  let ?ws = "map (\<lambda>kv. json_string (fst kv) @ '':'' @ marshal (snd kv)) kvs"
  have "newline \<notin> set (marshal (snd kv))" if "kv \<in> set kvs" for kv
    using JObj that by (cases kv) (auto simp: list_all_iff)
  then have "newline \<notin> set (join_comma ?ws)"
    by (intro join_comma_one_line) (use json_string_one_line in \<open>auto simp: newline_def\<close>)
  then show ?case by (simp add: newline_def)
qed (auto simp: newline_def)

lemma marshal_nonempty: "j \<noteq> JRaw '''' \<Longrightarrow> marshal j \<noteq> []"
proof (cases j)
  case (JInt i)
  have "dec_nat k \<noteq> []" for k by (subst dec_nat.simps) simp
  with JInt show ?thesis by (simp add: dec_int_def)
qed (auto simp: json_string_def)

end
