(* ===== verification/Schema.thy ===== *)
theory Schema
  imports Complex_Main Systems
begin

text \<open>
  The durable state: one record per table of the migrations schemaV1 (store.go), schemaV2
  (execution_store.go), schemaV3 (team_store.go), schemaV4 (knowledge_store.go), schemaV5
  (learning_store.go) and schemaV6 (continuous.go), in the shape the last migration leaves, and
  the database \<open>db\<close> that holds their rows in rowid order. A TEXT column with a CHECK over
  constants is a datatype, a column that stores JSON holds the decoded value, a time is in
  milliseconds. The statements the operations issue are the transactions at the end: a guarded
  UPDATE, an INSERT that fails on a violated key, INSERT OR IGNORE, SELECT count. Foreign keys
  are not modelled. Fresh identities come from the supply \<open>db_entropy\<close> of random bytes.
\<close>

section \<open>States\<close>

datatype system_state = SInactive | SRunning | SStopping | SStopped | SPaused

datatype control = CActive | CPaused | CStopped

text \<open>The states of goals, tasks, model calls, attempts and tool calls.\<close>

datatype run_state = Pending | AwaitingWorker | Queued | Running | Waiting | Completed | Failed
  | Canceled | Rejected | Unknown | Known

datatype mailbox_state = MPending | MLeased | MAcked | MDead

datatype trigger_state = TgActive | TgCompleted | TgCanceled | TgExpired | TgFailed

datatype draft_state = DDraft | DRejected | DDisabled

datatype evaluation_state = LQueued | LEvaluating | LPendingApproval | LActive | LFailed | LRejected | LDisabled

fun state_name :: "run_state \<Rightarrow> string" where
  "state_name Pending = ''pending''"
| "state_name AwaitingWorker = ''awaiting_worker''"
| "state_name Queued = ''queued''"
| "state_name Running = ''running''"
| "state_name Waiting = ''waiting''"
| "state_name Completed = ''completed''"
| "state_name Failed = ''failed''"
| "state_name Canceled = ''canceled''"
| "state_name Rejected = ''rejected''"
| "state_name Unknown = ''unknown''"
| "state_name Known = ''known''"

fun system_state_name :: "system_state \<Rightarrow> string" where
  "system_state_name SInactive = ''inactive''"
| "system_state_name SRunning = ''running''"
| "system_state_name SStopping = ''stopping''"
| "system_state_name SStopped = ''stopped''"
| "system_state_name SPaused = ''paused''"

fun control_name :: "control \<Rightarrow> string" where
  "control_name CActive = ''active''"
| "control_name CPaused = ''paused''"
| "control_name CStopped = ''stopped''"

text \<open>TaskTerminal, and the SQL list of states of a live task or goal.\<close>

definition TaskTerminal :: "run_state \<Rightarrow> bool" where
  "TaskTerminal state = (state = Completed \<or> state = Failed \<or> state = Canceled \<or> state = Rejected)"

definition live :: "run_state \<Rightarrow> bool" where
  "live state = (state = Queued \<or> state = Running \<or> state = Waiting)"

text \<open>A call that waits for dispatch.\<close>

definition undispatched :: "run_state \<Rightarrow> bool" where
  "undispatched state = (state = AwaitingWorker \<or> state = Queued)"

section \<open>Values stored in columns\<close>

record model_tool_call =
  mt_id :: string
  mt_type :: string
  mt_name :: string
  mt_arguments :: string

record chat_message =
  cm_role :: string
  cm_content :: string
  cm_tool_calls :: "model_tool_call list"
  cm_tool_call_id :: string

definition json_tool_call :: "model_tool_call \<Rightarrow> json" where
  "json_tool_call c = JObj [(''id'', JStr (mt_id c)), (''type'', JStr (mt_type c)),
     (''function'', JObj [(''name'', JStr (mt_name c)), (''arguments'', JStr (mt_arguments c))])]"

definition json_message :: "chat_message \<Rightarrow> json" where
  "json_message m = JObj (field ''role'' (JStr (cm_role m)) @ field ''content'' (JStr (cm_content m)) @
     field_omit (cm_tool_calls m = []) ''tool_calls'' (JArr (map json_tool_call (cm_tool_calls m))) @
     field_omit (cm_tool_call_id m = '''') ''tool_call_id'' (JStr (cm_tool_call_id m)))"

definition json_conversation :: "chat_message list \<Rightarrow> json" where
  "json_conversation ms = JArr (map json_message ms)"

definition message :: "string \<Rightarrow> string \<Rightarrow> chat_message" where
  "message role content = \<lparr>cm_role = role, cm_content = content, cm_tool_calls = [], cm_tool_call_id = ''''\<rparr>"

section \<open>Rows\<close>

record config_snapshot =
  cn_config_id :: string
  cn_configuration :: configuration
  cn_created_at :: int

record system_row =
  sy_system_id :: string
  sy_owner :: string
  sy_operator_id :: string
  sy_state :: system_state
  sy_revision :: int
  sy_used_tokens :: int
  sy_reserved_tokens :: int
  sy_last_admission :: int
  sy_created_at :: int

record revision_row =
  rv_system_id :: string
  rv_revision :: int
  rv_config_id :: string
  rv_definition :: system_config
  rv_grants :: system_grants
  rv_token_budget :: int
  rv_created_at :: int

record goal_row =
  gl_goal_id :: string
  gl_system_id :: string
  gl_owner :: string
  gl_prompt :: string
  gl_state :: run_state
  gl_token_budget :: int
  gl_used_tokens :: int
  gl_reserved_tokens :: int
  gl_is_initial :: bool
  gl_control :: control
  gl_deadline :: int
  gl_continuous :: bool
  gl_lifetime :: int

record audit_row =
  au_system_id :: string
  au_principal :: string
  au_action :: string
  au_revision :: int
  au_created_at :: int

record call_row =
  mc_sequence :: int
  mc_call_id :: string
  mc_system_id :: string
  mc_goal_id :: string
  mc_task_id :: string
  mc_activation_id :: string
  mc_activation_owner :: string
  mc_revision :: int
  mc_model :: string
  mc_stream :: bool
  mc_state :: run_state
  mc_reason :: string
  mc_response :: string
  mc_reservation :: int
  mc_attempts :: int
  mc_input_tokens :: int
  mc_output_tokens :: int
  mc_usage_known :: bool
  mc_queue_wait_ms :: int
  mc_created_at :: int
  mc_queued_at :: int
  mc_deadline :: int
  mc_wait_deadline :: int
  mc_dispatched_at :: int
  mc_agent_id :: string
  mc_request :: string
  mc_actions :: "model_tool_call list"

record group_row =
  cg_call_id :: string
  cg_system_id :: string
  cg_group_name :: string

record attempt_row =
  at_attempt_id :: int
  at_call_id :: string
  at_system_id :: string
  at_dispatched_at :: int
  at_reservation :: int
  at_state :: run_state
  at_throttled :: bool
  at_input_tokens :: int
  at_output_tokens :: int

text \<open>The REAL credit of a quota group is exact here: a rational.\<close>

record quota_row =
  qs_group_name :: string
  qs_credit :: rat
  qs_updated_at :: int
  qs_cooldown_until :: int

record agent_row =
  ag_system_id :: string
  ag_agent_id :: string
  ag_parent_id :: string
  ag_goal_id :: string
  ag_name :: string
  ag_revision :: int
  ag_state :: control
  ag_depth :: int
  ag_token_budget :: int
  ag_max_turns :: int

record agent_revision_row =
  ar_system_id :: string
  ar_agent_id :: string
  ar_revision :: int
  ar_definition :: operator_config
  ar_tools :: "tool_pin list"

record usage_row =
  us_system_id :: string
  us_agent_id :: string
  us_goal_id :: string
  us_used_tokens :: int
  us_reserved_tokens :: int
  us_turns :: int

text \<open>The tasks table; its row is what readTask decodes into a TaskRecord.\<close>

record task_row =
  t_system_id :: string
  t_id :: string
  t_goal_id :: string
  t_agent_id :: string
  t_revision :: int
  t_parent :: string
  t_state :: run_state
  t_control :: control
  t_tools :: "tool_pin list"
  t_conversation :: "chat_message list"
  t_turns :: int
  t_deadline :: int
  t_call_id :: string
  t_waiting_tool :: string
  t_response :: string
  t_reason :: string
  t_learning_id :: string
  t_learning_role :: string

record event_row =
  ev_sequence :: int
  ev_event_id :: string
  ev_system_id :: string
  ev_type :: string
  ev_source :: string
  ev_recipient :: string
  ev_goal_id :: string
  ev_task_id :: string
  ev_correlation_id :: string
  ev_causation_id :: string
  ev_created_at :: int
  ev_expires_at :: int
  ev_authorization_ref :: string
  ev_depth :: int
  ev_payload :: json

record mailbox_row =
  mb_sequence :: int
  mb_system_id :: string
  mb_event_id :: string
  mb_recipient :: string
  mb_task_id :: string
  mb_state :: mailbox_state
  mb_lease_owner :: string
  mb_lease_until :: int
  mb_attempts :: int
  mb_not_before :: int
  mb_reason :: string
  mb_applied :: bool

record draft_row =
  td_system_id :: string
  td_tool_id :: string
  td_version :: int
  td_creator :: string
  td_goal_id :: string
  td_task_id :: string
  td_kind :: string
  td_description :: string
  td_content :: string
  td_requires_tools :: "string slice"
  td_digest :: string
  td_state :: draft_state

record revocation_row =
  rk_system_id :: string
  rk_name :: string
  rk_version :: int

record tool_call_row =
  tl_system_id :: string
  tl_call_id :: string
  tl_tool_call_id :: string
  tl_task_id :: string
  tl_name :: string
  tl_version :: int
  tl_arguments_hash :: string
  tl_state :: run_state
  tl_result :: string

record artifact_row =
  af_system_id :: string
  af_artifact_id :: string
  af_goal_id :: string
  af_task_id :: string
  af_digest :: string
  af_content :: string

record schedule_row =
  sd_system_id :: string
  sd_schedule_id :: string
  sd_task_id :: string
  sd_creator :: string
  sd_expression :: string
  sd_timezone :: string
  sd_content :: string
  sd_next_due :: int
  sd_expires_at :: int
  sd_remaining :: int
  sd_state :: trigger_state
  sd_reason :: string

record occurrence_row =
  so_system_id :: string
  so_schedule_id :: string
  so_due :: int
  so_event_id :: string

record subscription_row =
  sn_system_id :: string
  sn_subscription_id :: string
  sn_task_id :: string
  sn_creator :: string
  sn_type :: string
  sn_scope :: string
  sn_expires_at :: int
  sn_remaining :: int
  sn_state :: trigger_state
  sn_reason :: string

text \<open>EvaluationBaseline, ProtectedCase and LearningEvidence (evaluations.go, learning.go).\<close>

record evaluation_baseline =
  bl_prompt :: string
  bl_tool :: "tool_pin option"

record protected_case =
  pt_input :: string
  pt_expected :: string

record learning_evidence =
  lv_input :: string
  lv_expected :: string
  lv_baseline :: string
  lv_candidate :: string
  lv_baseline_passed :: bool
  lv_candidate_passed :: bool

record check_row =
  lk_system_id :: string
  lk_check_id :: string
  lk_cases :: "protected_case list"
  lk_digest :: string
  lk_created_at :: int

record feedback_row =
  lf_system_id :: string
  lf_feedback_id :: string
  lf_task_id :: string
  lf_rating :: string
  lf_content :: string
  lf_created_at :: int

record evaluation_row =
  le_system_id :: string
  le_evaluation_id :: string
  le_tool_id :: string
  le_version :: int
  le_check_id :: string
  le_origin_task :: string
  le_agent_id :: string
  le_baseline :: evaluation_baseline
  le_profile_digest :: string
  le_toolchain_digest :: string
  le_runtime_digest :: string
  le_system_revision :: int
  le_configuration_digest :: string
  le_notify :: bool
  le_state :: evaluation_state
  le_evidence :: "learning_evidence slice"
  le_artifact_digest :: string
  le_definition :: tool_config
  le_digest :: string
  le_reason :: string

record approval_row =
  la_system_id :: string
  la_tool_id :: string
  la_version :: int
  la_evaluation_id :: string
  la_definition :: tool_config
  la_digest :: string
  la_expires_at :: int
  la_remaining_tasks :: int

record use_row =
  lu_system_id :: string
  lu_tool_id :: string
  lu_version :: int
  lu_task_id :: string

record memory_head_row =
  mh_system_id :: string
  mh_memory_id :: string
  mh_scope :: string
  mh_owner_id :: string
  mh_revision :: int
  mh_state :: string
  mh_expires_at :: int

record memory_revision_row =
  mr_system_id :: string
  mr_memory_id :: string
  mr_revision :: int
  mr_content :: string
  mr_evidence :: string
  mr_confidence :: int
  mr_artifacts :: "string slice"
  mr_author :: string
  mr_goal_id :: string
  mr_task_id :: string
  mr_created_at :: int

end
