(* ===== verification/Database.thy ===== *)
theory Database
  imports Schema
begin

text \<open>
  SystemRecord and ExecutionRecord as the code passes them, the command receipt that stores
  one, the database \<open>db\<close> with its tables, the statements that read and write it, and the
  fresh identities of NewID (store.go). Every keyed table is an instance of the \<open>table\<close>
  interface of the prelude. A rolled-back transaction gives its identities back to the
  supply: they are then in no table, so the next transaction may draw them as fresh.
\<close>

section \<open>Records of the store\<close>

record initial_goal =
  ig_id :: string
  ig_system_id :: string
  ig_prompt :: string
  ig_state :: run_state
  ig_token_budget :: int

record execution =
  e_learning_id :: string
  e_call_id :: string
  e_system_id :: string
  e_goal_id :: string
  e_task_id :: string
  e_activation_id :: string
  e_activation_owner :: string
  e_revision :: int
  e_model :: string
  e_stream :: bool
  e_state :: run_state
  e_reason :: string
  e_response :: string
  e_reservation :: int
  e_attempts :: int
  e_input_tokens :: int
  e_output_tokens :: int
  e_usage_known :: bool
  e_created_at :: int
  e_queued_at :: int
  e_deadline :: int
  e_wait_deadline :: int
  e_dispatched_at :: int
  e_prompt :: string
  e_goal_budget :: int
  e_goal_used :: int
  e_goal_reserved :: int
  e_task_state :: run_state
  e_continuous :: bool
  e_queue_wait_ms :: int
  e_retries :: int
  e_agent_id :: string
  e_request :: string
  e_actions :: "model_tool_call list"
  e_event_id :: string

record system_record =
  sr_local_tools :: "(string \<times> tool_config) list"
  sr_id :: string
  sr_operator_id :: string
  sr_state :: system_state
  sr_continuous :: bool
  sr_idle :: bool
  sr_revision :: int
  sr_configuration_id :: string
  sr_configuration :: system_config
  sr_grants :: system_grants
  sr_used_tokens :: int
  sr_reserved_tokens :: int
  sr_remaining_tokens :: int
  sr_goal :: "initial_goal option"
  sr_created_at :: int
  sr_blocked_reason :: string
  sr_execution :: "execution option"
  sr_command_result :: "json option"

record agent_record =
  a_system_id :: string
  a_id :: string
  a_parent :: string
  a_goal_id :: string
  a_name :: string
  a_revision :: int
  a_state :: control
  a_depth :: int
  a_token_budget :: int
  a_max_turns :: int
  a_definition :: operator_config
  a_tools :: "tool_pin list"
  a_available :: bool

text \<open>The fields json leaves out of a receipt are lost when it is decoded.\<close>

definition receipt_execution :: "execution \<Rightarrow> execution" where
  "receipt_execution e = e\<lparr>e_learning_id := '''', e_activation_owner := '''', e_request := '''', e_event_id := ''''\<rparr>"

definition receipt_record :: "system_record \<Rightarrow> system_record" where
  "receipt_record r = r\<lparr>sr_local_tools := [], sr_execution := map_option receipt_execution (sr_execution r)\<rparr>"

record receipt_row =
  cr_principal :: string
  cr_command_key :: string
  cr_request_hash :: string
  cr_system_id :: string
  cr_response :: system_record
  cr_created_at :: int

section \<open>The database\<close>

record db =
  db_entropy :: "string list"
  db_config_snapshots :: "config_snapshot list"
  db_systems :: "system_row list"
  db_revisions :: "revision_row list"
  db_goals :: "goal_row list"
  db_audit :: "audit_row list"
  db_receipts :: "receipt_row list"
  db_calls :: "call_row list"
  db_groups :: "group_row list"
  db_attempts :: "attempt_row list"
  db_quotas :: "quota_row list"
  db_agents :: "agent_row list"
  db_agent_revisions :: "agent_revision_row list"
  db_usage :: "usage_row list"
  db_tasks :: "task_row list"
  db_events :: "event_row list"
  db_mailboxes :: "mailbox_row list"
  db_drafts :: "draft_row list"
  db_revocations :: "revocation_row list"
  db_tool_calls :: "tool_call_row list"
  db_artifacts :: "artifact_row list"
  db_memory_heads :: "memory_head_row list"
  db_memory_revisions :: "memory_revision_row list"
  db_schedules :: "schedule_row list"
  db_occurrences :: "occurrence_row list"
  db_subscriptions :: "subscription_row list"
  db_checks :: "check_row list"
  db_feedback :: "feedback_row list"
  db_evaluations :: "evaluation_row list"
  db_approvals :: "approval_row list"
  db_uses :: "use_row list"

definition empty_db :: "string list \<Rightarrow> db" where
  "empty_db seeds = \<lparr>db_entropy = seeds,
    db_config_snapshots = [], db_systems = [], db_revisions = [],
    db_goals = [], db_audit = [], db_receipts = [],
    db_calls = [], db_groups = [], db_attempts = [],
    db_quotas = [], db_agents = [], db_agent_revisions = [],
    db_usage = [], db_tasks = [], db_events = [],
    db_mailboxes = [], db_drafts = [], db_revocations = [],
    db_tool_calls = [], db_artifacts = [], db_memory_heads = [],
    db_memory_revisions = [], db_schedules = [], db_occurrences = [],
    db_subscriptions = [], db_checks = [], db_feedback = [],
    db_evaluations = [], db_approvals = [], db_uses = []\<rparr>"

section \<open>Statements\<close>

text \<open>
  UPDATE sets, in the table that \<open>upd\<close> writes, the columns of the rows that satisfy \<open>P\<close>;
  with a CHECK on the table the statement fails when a row would violate it. INSERT fails when
  a row the table has conflicts with the new one on a key.
\<close>

type_synonym 'a op = "(db, 'a) tx"

definition tx_update :: "(('r list \<Rightarrow> 'r list) \<Rightarrow> db \<Rightarrow> db) \<Rightarrow> ('r \<Rightarrow> bool) \<Rightarrow> ('r \<Rightarrow> 'r) \<Rightarrow> unit op" where
  "tx_update upd P f = tx_modify (upd (update_where P f))"

definition tx_update_checked :: "string \<Rightarrow> ('r \<Rightarrow> bool) \<Rightarrow> (db \<Rightarrow> 'r list) \<Rightarrow>
    (('r list \<Rightarrow> 'r list) \<Rightarrow> db \<Rightarrow> db) \<Rightarrow> ('r \<Rightarrow> bool) \<Rightarrow> ('r \<Rightarrow> 'r) \<Rightarrow> unit op" where
  "tx_update_checked name chk rows upd P f =
     (\<lambda>d. if list_all chk (update_where P f (rows d)) then (Inr (), upd (update_where P f) d)
          else (Inl (ErrConstraint name), d))"

definition tx_insert :: "string \<Rightarrow> ('r \<Rightarrow> 'r \<Rightarrow> bool) \<Rightarrow> (db \<Rightarrow> 'r list) \<Rightarrow>
    (('r list \<Rightarrow> 'r list) \<Rightarrow> db \<Rightarrow> db) \<Rightarrow> 'r \<Rightarrow> unit op" where
  "tx_insert name conflict rows upd x =
     (\<lambda>d. if list_ex (conflict x) (rows d) then (Inl (ErrConstraint name), d)
          else (Inr (), upd (\<lambda>rs. rs @ [x]) d))"

definition tx_insert_or_ignore :: "('r \<Rightarrow> 'r \<Rightarrow> bool) \<Rightarrow> (db \<Rightarrow> 'r list) \<Rightarrow>
    (('r list \<Rightarrow> 'r list) \<Rightarrow> db \<Rightarrow> db) \<Rightarrow> 'r \<Rightarrow> unit op" where
  "tx_insert_or_ignore conflict rows upd x =
     tx_modify (\<lambda>d. if list_ex (conflict x) (rows d) then d else upd (\<lambda>rs. rs @ [x]) d)"

definition tx_select :: "(db \<Rightarrow> 'r list) \<Rightarrow> ('r \<Rightarrow> bool) \<Rightarrow> 'r list op" where
  "tx_select rows P = tx_gets (\<lambda>d. filter P (rows d))"

definition tx_count :: "(db \<Rightarrow> 'r list) \<Rightarrow> ('r \<Rightarrow> bool) \<Rightarrow> int op" where
  "tx_count rows P = tx_gets (\<lambda>d. count_where P (rows d))"

definition tx_find :: "(db \<Rightarrow> 'r list) \<Rightarrow> ('r \<Rightarrow> bool) \<Rightarrow> 'r op" where
  "tx_find rows P = tx_row (\<lambda>d. List.find P (rows d))"

text \<open>A value and an error that is sql.ErrNoRows is turned into another error.\<close>

definition tx_no_rows :: "'a op \<Rightarrow> error \<Rightarrow> 'a op" where
  "tx_no_rows m e = (\<lambda>d. case m d of (Inl ErrNoRows, d') \<Rightarrow> (Inl e, d') | r \<Rightarrow> r)"

text \<open>A query that may find no row.\<close>

definition tx_optional :: "'a op \<Rightarrow> 'a option op" where
  "tx_optional m = (\<lambda>d. case m d of (Inl ErrNoRows, d') \<Rightarrow> (Inr None, d') | (Inl e, d') \<Rightarrow> (Inl e, d')
      | (Inr x, d') \<Rightarrow> (Inr (Some x), d'))"

definition NewID :: "string \<Rightarrow> string op" where
  "NewID prefix = (\<lambda>d. case db_entropy d of
       [] \<Rightarrow> (Inl (ErrInternal ''generate identity''), d)
     | h # hs \<Rightarrow> (Inr (prefix @ h), d\<lparr>db_entropy := hs\<rparr>))"

lemma wp_update [wp_simps]: "wp (tx_update upd P f) Q E d = Q () (upd (update_where P f) d)"
  by (simp add: tx_update_def wp_modify)

lemma wp_update_checked [wp_simps]: "wp (tx_update_checked name chk rows upd P f) Q E d =
    (if list_all chk (update_where P f (rows d)) then Q () (upd (update_where P f) d) else E (ErrConstraint name) d)"
  by (simp add: tx_update_checked_def wp_def)

lemma wp_insert [wp_simps]: "wp (tx_insert name conflict rows upd x) Q E d =
    (if list_ex (conflict x) (rows d) then E (ErrConstraint name) d else Q () (upd (\<lambda>rs. rs @ [x]) d))"
  by (simp add: tx_insert_def wp_def)

lemma wp_insert_or_ignore [wp_simps]: "wp (tx_insert_or_ignore conflict rows upd x) Q E d =
    Q () (if list_ex (conflict x) (rows d) then d else upd (\<lambda>rs. rs @ [x]) d)"
  by (simp add: tx_insert_or_ignore_def wp_modify)

lemma wp_select [wp_simps]: "wp (tx_select rows P) Q E d = Q (filter P (rows d)) d"
  by (simp add: tx_select_def wp_gets)

lemma wp_count [wp_simps]: "wp (tx_count rows P) Q E d = Q (count_where P (rows d)) d"
  by (simp add: tx_count_def wp_gets)

lemma wp_find [wp_simps]: "wp (tx_find rows P) Q E d =
    (case List.find P (rows d) of None \<Rightarrow> E ErrNoRows d | Some x \<Rightarrow> Q x d)"
  by (simp add: tx_find_def wp_row)

lemma wp_no_rows [wp_simps]:
  "wp (tx_no_rows m e) Q E d = wp m Q (\<lambda>e' d'. if e' = ErrNoRows then E e d' else E e' d') d"
  by (auto simp: wp_def tx_no_rows_def split: prod.splits sum.splits error.splits)

lemma wp_optional [wp_simps]:
  "wp (tx_optional m) Q E d = wp m (\<lambda>x. Q (Some x)) (\<lambda>e d'. if e = ErrNoRows then Q None d' else E e d') d"
  by (auto simp: wp_def tx_optional_def split: prod.splits sum.splits error.splits)

lemma wp_NewID [wp_simps]: "wp (NewID prefix) Q E d = (case db_entropy d of
    [] \<Rightarrow> E (ErrInternal ''generate identity'') d | h # hs \<Rightarrow> Q (prefix @ h) (d\<lparr>db_entropy := hs\<rparr>))"
  by (simp add: NewID_def wp_def split: list.splits)

lemma tx_update_ok [simp]: "tx_update upd P f d = (r, d') \<longleftrightarrow> r = Inr () \<and> d' = upd (update_where P f) d"
  by (auto simp: tx_update_def)

lemma tx_update_checked_ok [simp]: "tx_update_checked name chk rows upd P f d = (Inr x, d') \<longleftrightarrow>
    list_all chk (update_where P f (rows d)) \<and> d' = upd (update_where P f) d"
  by (auto simp: tx_update_checked_def)

lemma tx_insert_ok [simp]: "tx_insert name conflict rows upd x d = (Inr y, d') \<longleftrightarrow>
    \<not> list_ex (conflict x) (rows d) \<and> d' = upd (\<lambda>rs. rs @ [x]) d"
  by (auto simp: tx_insert_def)

lemma tx_find_ok [simp]: "tx_find rows P d = (Inr x, d') \<longleftrightarrow> List.find P (rows d) = Some x \<and> d' = d"
  by (simp add: tx_find_def)

lemma tx_no_rows_ok [simp]: "tx_no_rows m e d = (Inr x, d') \<longleftrightarrow> m d = (Inr x, d')"
  by (auto simp: tx_no_rows_def split: prod.splits sum.splits error.splits)

lemma tx_optional_Some: "tx_optional m d = (Inr (Some x), d') \<longleftrightarrow> m d = (Inr x, d')"
  by (auto simp: tx_optional_def split: prod.splits sum.splits error.splits)

lemma tx_optional_None: "tx_optional m d = (Inr None, d') \<longleftrightarrow> m d = (Inl ErrNoRows, d')"
  by (auto simp: tx_optional_def split: prod.splits sum.splits error.splits)

section \<open>Recursive queries\<close>

text \<open>
  WITH RECURSIVE ... UNION: the rows a query starts from, and round by round every row of the
  table that \<open>step\<close> relates to a row found before, until a round finds nothing new.
\<close>

function recursive_rows :: "('r \<Rightarrow> 'r \<Rightarrow> bool) \<Rightarrow> 'r list \<Rightarrow> 'r list \<Rightarrow> 'r list" where
  "recursive_rows step rows found =
     (let fresh = filter (\<lambda>r. r \<notin> set found \<and> list_ex (\<lambda>l. step r l) found) rows in
      if fresh = [] then found else recursive_rows step rows (found @ fresh))"
  by pat_completeness auto

termination
proof (relation "measure (\<lambda>(step, rows, found). length (filter (\<lambda>r. r \<notin> set found) rows))")
  show "wf (measure (\<lambda>(step :: 'r \<Rightarrow> 'r \<Rightarrow> bool, rows, found). length (filter (\<lambda>r. r \<notin> set found) rows)))" by simp
next
  fix step :: "'r \<Rightarrow> 'r \<Rightarrow> bool" and rows found fresh :: "'r list"
  assume fresh: "fresh = filter (\<lambda>r. r \<notin> set found \<and> list_ex (\<lambda>l. step r l) found) rows" and "fresh \<noteq> []"
  then obtain x where "x \<in> set fresh" using hd_in_set by blast
  with fresh have x: "x \<in> set rows" "x \<notin> set found" "x \<in> set fresh" by auto
  have "filter (\<lambda>r. r \<notin> set (found @ fresh)) rows =
      filter (\<lambda>r. r \<notin> set fresh) (filter (\<lambda>r. r \<notin> set found) rows)"
    by (simp add: conj_commute)
  moreover have "length (filter (\<lambda>r. r \<notin> set fresh) (filter (\<lambda>r. r \<notin> set found) rows)) <
      length (filter (\<lambda>r. r \<notin> set found) rows)"
    by (rule length_filter_less [of x]) (use x in auto)
  ultimately show "((step, rows, found @ fresh), step, rows, found)
      \<in> measure (\<lambda>(step, rows, found). length (filter (\<lambda>r. r \<notin> set found) rows))"
    by simp
qed

declare recursive_rows.simps [simp del]

lemma recursive_rows_start: "r \<in> set found \<Longrightarrow> r \<in> set (recursive_rows step rows found)"
proof (induction step rows found rule: recursive_rows.induct)
  case (1 step rows found)
  then show ?case by (subst recursive_rows.simps) (simp add: Let_def)
qed

text \<open>The result is closed, and holds only rows of the table beside the ones it starts from.\<close>

lemma recursive_rows_closed:
  "l \<in> set (recursive_rows step rows found) \<Longrightarrow> r \<in> set rows \<Longrightarrow> step r l \<Longrightarrow>
   r \<in> set (recursive_rows step rows found)"
proof (induction step rows found rule: recursive_rows.induct)
  case (1 step rows found)
  show ?case
  proof (cases "filter (\<lambda>r. r \<notin> set found \<and> list_ex (\<lambda>l. step r l) found) rows = []")
    case True
    then have "recursive_rows step rows found = found" by (subst recursive_rows.simps) simp
    with True 1 show ?thesis by (auto simp: filter_empty_conv list_ex_iff)
  next
    case False
    then have "recursive_rows step rows found = recursive_rows step rows
        (found @ filter (\<lambda>r. r \<notin> set found \<and> list_ex (\<lambda>l. step r l) found) rows)"
      by (subst recursive_rows.simps) (simp add: Let_def)
    with 1 False show ?thesis by metis
  qed
qed

lemma recursive_rows_rows: "set (recursive_rows step rows found) \<subseteq> set found \<union> set rows"
proof (induction step rows found rule: recursive_rows.induct)
  case (1 step rows found)
  then show ?case by (subst recursive_rows.simps) (auto simp: Let_def)
qed

section \<open>Relations the statements respect\<close>

locale db_preorder = step_preorder R for R :: "db \<Rightarrow> db \<Rightarrow> bool"
begin

lemma rel_update: "(\<And>d. R d (upd (update_where P f) d)) \<Longrightarrow> tx_rel R (tx_update upd P f)"
  by (simp add: tx_update_def rel_modify)

lemma rel_update_checked:
  "(\<And>d. list_all chk (update_where P f (rows d)) \<Longrightarrow> R d (upd (update_where P f) d)) \<Longrightarrow>
   tx_rel R (tx_update_checked name chk rows upd P f)"
  by (simp add: tx_update_checked_def tx_rel_def R_refl)

lemma rel_insert:
  "(\<And>d. \<not> list_ex (conflict x) (rows d) \<Longrightarrow> R d (upd (\<lambda>rs. rs @ [x]) d)) \<Longrightarrow>
   tx_rel R (tx_insert name conflict rows upd x)"
  by (simp add: tx_insert_def tx_rel_def R_refl)

lemma rel_insert_or_ignore:
  "(\<And>d. \<not> list_ex (conflict x) (rows d) \<Longrightarrow> R d (upd (\<lambda>rs. rs @ [x]) d)) \<Longrightarrow>
   tx_rel R (tx_insert_or_ignore conflict rows upd x)"
  by (simp add: tx_insert_or_ignore_def rel_modify R_refl)

lemma rel_select: "tx_rel R (tx_select rows P)"
  by (simp add: tx_select_def rel_gets)

lemma rel_count: "tx_rel R (tx_count rows P)"
  by (simp add: tx_count_def rel_gets)

lemma rel_find: "tx_rel R (tx_find rows P)"
  by (simp add: tx_find_def rel_row)

lemma snd_no_rows: "snd (tx_no_rows m e d) = snd (m d)"
  by (cases "m d") (simp add: tx_no_rows_def split: sum.splits error.splits)

lemma snd_optional: "snd (tx_optional m d) = snd (m d)"
  by (cases "m d") (simp add: tx_optional_def split: sum.splits error.splits)

lemma rel_no_rows: "tx_rel R m \<Longrightarrow> tx_rel R (tx_no_rows m e)"
  by (simp add: tx_rel_def snd_no_rows)

lemma rel_optional: "tx_rel R m \<Longrightarrow> tx_rel R (tx_optional m)"
  by (simp add: tx_rel_def snd_optional)

lemma rel_new_id: "(\<And>d hs. R d (d\<lparr>db_entropy := hs\<rparr>)) \<Longrightarrow> tx_rel R (NewID prefix)"
  by (simp add: NewID_def tx_rel_def R_refl split: list.splits)

lemma rel_pure: "tx_rel (=) m \<Longrightarrow> tx_rel R m"
  by (simp add: tx_rel_def) (metis R_refl)

lemmas reads = rel_select rel_count rel_find rel_no_rows rel_optional

end

text \<open>Frames, invariants, and operations that only read (the relation is equality).\<close>

interpretation db_frame: db_preorder "same f" for f :: "db \<Rightarrow> 'f"
  by unfold_locales

interpretation db_invariant: db_preorder "keeps I" for I :: "db \<Rightarrow> bool"
  by unfold_locales

interpretation db_pure: db_preorder "(=)"
  by unfold_locales auto

named_theorems reading \<open>operations that only read\<close>
named_theorems runs \<open>runs of operations that only read\<close>

lemmas pure_rules = db_pure.rels db_pure.reads

lemma pure_state: "tx_rel (=) m \<Longrightarrow> m d = (r, d') \<Longrightarrow> d' = d"
  by (metis tx_rel_result)

lemma pure_snd: "tx_rel (=) m \<Longrightarrow> snd (m d) = d"
  by (simp add: tx_rel_def)

text \<open>A run of an operation that only reads: its result, in the same state.\<close>

lemma pure_run: "tx_rel (=) m \<Longrightarrow> m d = (r, d') \<longleftrightarrow> fst (m d) = r \<and> d' = d"
  by (cases "m d") (auto simp: tx_rel_def dest: spec [of _ d])

lemma wp_pure:
  "tx_rel (=) m \<Longrightarrow> wp m Q E d = (case fst (m d) of Inl e \<Rightarrow> E e d | Inr x \<Rightarrow> Q x d)"
  by (auto simp: wp_def tx_rel_def split: prod.splits sum.splits) (metis snd_conv)+

section \<open>The tables\<close>

interpretation config_snapshots_table: table db_config_snapshots db_config_snapshots_update cn_config_id
  by unfold_locales simp

interpretation systems_table: table db_systems db_systems_update sy_system_id
  by unfold_locales simp

interpretation revisions_table: table db_revisions db_revisions_update "\<lambda>r. (rv_system_id r, rv_revision r)"
  by unfold_locales simp

interpretation goals_table: table db_goals db_goals_update gl_goal_id
  by unfold_locales simp

interpretation receipts_table: table db_receipts db_receipts_update "\<lambda>r. (cr_principal r, cr_command_key r)"
  by unfold_locales simp

interpretation calls_table: table db_calls db_calls_update mc_call_id
  by unfold_locales simp

interpretation groups_table: table db_groups db_groups_update "\<lambda>r. (cg_call_id r, cg_group_name r)"
  by unfold_locales simp

interpretation attempts_table: table db_attempts db_attempts_update at_attempt_id
  by unfold_locales simp

interpretation quotas_table: table db_quotas db_quotas_update qs_group_name
  by unfold_locales simp

interpretation agents_table: table db_agents db_agents_update "\<lambda>r. (ag_system_id r, ag_agent_id r)"
  by unfold_locales simp

interpretation agent_revisions_table: table db_agent_revisions db_agent_revisions_update "\<lambda>r. (ar_system_id r, ar_agent_id r, ar_revision r)"
  by unfold_locales simp

interpretation usage_table: table db_usage db_usage_update "\<lambda>r. (us_system_id r, us_agent_id r, us_goal_id r)"
  by unfold_locales simp

interpretation tasks_table: table db_tasks db_tasks_update "\<lambda>r. (t_system_id r, t_id r)"
  by unfold_locales simp

interpretation events_table: table db_events db_events_update ev_event_id
  by unfold_locales simp

interpretation mailboxes_table: table db_mailboxes db_mailboxes_update mb_sequence
  by unfold_locales simp

interpretation drafts_table: table db_drafts db_drafts_update "\<lambda>r. (td_system_id r, td_tool_id r, td_version r)"
  by unfold_locales simp

interpretation revocations_table: table db_revocations db_revocations_update "\<lambda>r. (rk_system_id r, rk_name r, rk_version r)"
  by unfold_locales simp

interpretation tool_calls_table: table db_tool_calls db_tool_calls_update "\<lambda>r. (tl_system_id r, tl_call_id r, tl_tool_call_id r)"
  by unfold_locales simp

interpretation artifacts_table: table db_artifacts db_artifacts_update "\<lambda>r. (af_system_id r, af_artifact_id r)"
  by unfold_locales simp

interpretation memory_heads_table: table db_memory_heads db_memory_heads_update "\<lambda>r. (mh_system_id r, mh_memory_id r)"
  by unfold_locales simp

interpretation memory_revisions_table: table db_memory_revisions db_memory_revisions_update "\<lambda>r. (mr_system_id r, mr_memory_id r, mr_revision r)"
  by unfold_locales simp

interpretation schedules_table: table db_schedules db_schedules_update "\<lambda>r. (sd_system_id r, sd_schedule_id r)"
  by unfold_locales simp

interpretation occurrences_table: table db_occurrences db_occurrences_update "\<lambda>r. (so_system_id r, so_schedule_id r, so_due r)"
  by unfold_locales simp

interpretation subscriptions_table: table db_subscriptions db_subscriptions_update "\<lambda>r. (sn_system_id r, sn_subscription_id r)"
  by unfold_locales simp

interpretation checks_table: table db_checks db_checks_update "\<lambda>r. (lk_system_id r, lk_check_id r)"
  by unfold_locales simp

interpretation feedback_table: table db_feedback db_feedback_update "\<lambda>r. (lf_system_id r, lf_feedback_id r)"
  by unfold_locales simp

interpretation evaluations_table: table db_evaluations db_evaluations_update "\<lambda>r. (le_system_id r, le_evaluation_id r)"
  by unfold_locales simp

interpretation approvals_table: table db_approvals db_approvals_update "\<lambda>r. (la_system_id r, la_tool_id r, la_version r)"
  by unfold_locales simp

interpretation uses_table: table db_uses db_uses_update "\<lambda>r. (lu_system_id r, lu_tool_id r, lu_version r, lu_task_id r)"
  by unfold_locales simp

end
