(* ===== verification/Reading.thy ===== *)
theory Reading
  imports Database
begin

text \<open>
  How the store reads its records: readTask, readAgent, insertAgentRevision and
  pinnedTaskRecord (team_store.go), readExecution, auditExecution and ListCalls
  (execution_store.go), readSystem, Inspect, insertRevision, GetSystem and ListSystems
  (store.go), loadLocalTools (learning.go) and goalIsContinuous (continuous.go). Queries return
  the first row in rowid order where the code sets no order. The lemmas say that reading
  leaves the database as it is and what a record that was read tells of its rows.
\<close>

definition localAdministrator :: string where
  "localAdministrator = ''local-admin''"

definition readTask :: "string \<Rightarrow> string \<Rightarrow> task_row op" where
  "readTask systemID taskID = tx_find db_tasks (\<lambda>t. t_system_id t = systemID \<and> t_id t = taskID)"

text \<open>Does the agent have a live task?\<close>

definition occupied :: "db \<Rightarrow> string \<Rightarrow> string \<Rightarrow> bool" where
  "occupied d systemID agentID =
     exists_where (\<lambda>t. t_system_id t = systemID \<and> t_agent_id t = agentID \<and> live (t_state t)) (db_tasks d)"

definition agent_record_of :: "db \<Rightarrow> agent_row \<Rightarrow> agent_revision_row \<Rightarrow> agent_record" where
  "agent_record_of d a r =
    \<lparr>a_system_id = ag_system_id a, a_id = ag_agent_id a, a_parent = ag_parent_id a, a_goal_id = ag_goal_id a,
     a_name = ag_name a, a_revision = ar_revision r, a_state = ag_state a, a_depth = ag_depth a,
     a_token_budget = ag_token_budget a, a_max_turns = ag_max_turns a, a_definition = ar_definition r,
     a_tools = ar_tools r,
     a_available = (ag_state a = CActive \<and> \<not> occupied d (ag_system_id a) (ag_agent_id a))\<rparr>"

definition agent_of :: "db \<Rightarrow> string \<Rightarrow> string \<Rightarrow> agent_row option" where
  "agent_of d systemID agentID = List.find (\<lambda>a. ag_system_id a = systemID \<and> ag_agent_id a = agentID) (db_agents d)"

definition agent_revision_of :: "db \<Rightarrow> string \<Rightarrow> string \<Rightarrow> int \<Rightarrow> agent_revision_row option" where
  "agent_revision_of d systemID agentID n =
     List.find (\<lambda>r. ar_system_id r = systemID \<and> ar_agent_id r = agentID \<and> ar_revision r = n) (db_agent_revisions d)"

definition readAgent :: "string \<Rightarrow> string \<Rightarrow> int \<Rightarrow> agent_record op" where
  "readAgent systemID agentID revision = tx_row (\<lambda>d.
     case agent_of d systemID agentID of None \<Rightarrow> None
     | Some a \<Rightarrow> map_option (agent_record_of d a)
         (agent_revision_of d systemID agentID (if revision = 0 then ag_revision a else revision)))"

definition insertAgentRevision :: "agent_record \<Rightarrow> unit op" where
  "insertAgentRevision a = tx_insert_or_ignore
     (\<lambda>x y. ar_system_id x = ar_system_id y \<and> ar_agent_id x = ar_agent_id y \<and> ar_revision x = ar_revision y)
     db_agent_revisions db_agent_revisions_update
     \<lparr>ar_system_id = a_system_id a, ar_agent_id = a_id a, ar_revision = a_revision a,
      ar_definition = a_definition a, ar_tools = a_tools a\<rparr>"

section \<open>Executions\<close>

definition goal_of :: "db \<Rightarrow> string \<Rightarrow> string \<Rightarrow> goal_row option" where
  "goal_of d systemID goalID = List.find (\<lambda>g. gl_system_id g = systemID \<and> gl_goal_id g = goalID) (db_goals d)"

definition readGoal :: "string \<Rightarrow> string \<Rightarrow> goal_row op" where
  "readGoal systemID goalID = tx_find db_goals (\<lambda>g. gl_system_id g = systemID \<and> gl_goal_id g = goalID)"

definition goalIsContinuous :: "task_row \<Rightarrow> bool op" where
  "goalIsContinuous t = tx_bind (readGoal (t_system_id t) (t_goal_id t)) (\<lambda>g. tx_return (gl_continuous g))"

definition task_state_of :: "db \<Rightarrow> call_row \<Rightarrow> goal_row \<Rightarrow> run_state" where
  "task_state_of d c g =
     (case List.find (\<lambda>t. t_system_id t = mc_system_id c \<and> t_id t = mc_task_id c) (db_tasks d) of
        Some t \<Rightarrow> t_state t | None \<Rightarrow> gl_state g)"

definition execution_of :: "db \<Rightarrow> call_row \<Rightarrow> goal_row \<Rightarrow> execution" where
  "execution_of d c g =
    \<lparr>e_learning_id = '''', e_call_id = mc_call_id c, e_system_id = mc_system_id c, e_goal_id = mc_goal_id c,
     e_task_id = mc_task_id c, e_activation_id = mc_activation_id c, e_activation_owner = mc_activation_owner c,
     e_revision = mc_revision c, e_model = mc_model c, e_stream = mc_stream c, e_state = mc_state c,
     e_reason = mc_reason c, e_response = mc_response c, e_reservation = mc_reservation c,
     e_attempts = mc_attempts c, e_input_tokens = mc_input_tokens c, e_output_tokens = mc_output_tokens c,
     e_usage_known = mc_usage_known c, e_created_at = mc_created_at c, e_queued_at = mc_queued_at c,
     e_deadline = mc_deadline c, e_wait_deadline = mc_wait_deadline c, e_dispatched_at = mc_dispatched_at c,
     e_prompt = gl_prompt g, e_goal_budget = gl_token_budget g, e_goal_used = gl_used_tokens g,
     e_goal_reserved = gl_reserved_tokens g, e_task_state = task_state_of d c g,
     e_continuous = gl_continuous g, e_queue_wait_ms = mc_queue_wait_ms c,
     e_retries = max (mc_attempts c - 1) 0, e_agent_id = mc_agent_id c, e_request = mc_request c,
     e_actions = mc_actions c, e_event_id = ''''\<rparr>"

text \<open>The latest call of the system, or the given one, joined with its goal.\<close>

definition call_of :: "db \<Rightarrow> string \<Rightarrow> string \<Rightarrow> call_row option" where
  "call_of d systemID callID =
     List.find (\<lambda>c. mc_system_id c = systemID \<and> (callID = '''' \<or> mc_call_id c = callID) \<and>
                    goal_of d (mc_system_id c) (mc_goal_id c) \<noteq> None) (rev (db_calls d))"

definition readExecution :: "string \<Rightarrow> string \<Rightarrow> execution op" where
  "readExecution systemID callID = tx_row (\<lambda>d.
     case call_of d systemID callID of None \<Rightarrow> None
     | Some c \<Rightarrow> map_option (execution_of d c) (goal_of d (mc_system_id c) (mc_goal_id c)))"

definition auditExecution :: "string \<Rightarrow> string \<Rightarrow> string \<Rightarrow> int \<Rightarrow> int \<Rightarrow> unit op" where
  "auditExecution systemID actor action revision now =
     tx_modify (db_audit_update (\<lambda>rs. rs @ [\<lparr>au_system_id = systemID, au_principal = actor, au_action = action,
       au_revision = revision, au_created_at = now\<rparr>]))"

section \<open>Local tools\<close>

definition local_name :: "string \<Rightarrow> bool" where
  "local_name name = has_prefix name ''local.''"

definition loadLocalTool :: "(string \<Rightarrow> string) \<Rightarrow> string \<Rightarrow> (string \<times> tool_config) list \<Rightarrow> tool_pin \<Rightarrow>
    (string \<times> tool_config) list op" where
  "loadLocalTool H systemID tools pin =
     (if \<not> local_name (pin_name pin) then tx_return tools else
      tx_bind (tx_no_rows (tx_find db_approvals (\<lambda>a. la_system_id a = systemID \<and> la_tool_id a = pin_name pin \<and>
                 la_version a = pin_version pin))
               (FieldError ''tool'' ''local revision is not approved in this system'')) (\<lambda>a.
      tx_seq (tx_reject (la_digest a \<noteq> pin_digest pin)
               (FieldError ''tool'' ''local definition digest does not match its exact pin''))
      (tx_seq (tx_reject (JsonDigest H (json_tool (la_definition a)) \<noteq> la_digest a \<or>
                 tc_version (la_definition a) \<noteq> pin_version pin)
               (ErrInternal ''stored approved definition is inconsistent''))
       (tx_return ((pin_name pin, la_definition a) # filter (\<lambda>(n, _). n \<noteq> pin_name pin) tools)))))"

definition loadLocalTools :: "(string \<Rightarrow> string) \<Rightarrow> string \<Rightarrow> tool_pin list \<Rightarrow> (string \<times> tool_config) list op" where
  "loadLocalTools H systemID pins = tx_fold (loadLocalTool H systemID) [] pins"

section \<open>Systems\<close>

definition initial_goal_of :: "goal_row \<Rightarrow> initial_goal" where
  "initial_goal_of g = \<lparr>ig_id = gl_goal_id g, ig_system_id = gl_system_id g, ig_prompt = gl_prompt g,
     ig_state = gl_state g, ig_token_budget = gl_token_budget g\<rparr>"

definition system_record_of :: "system_row \<Rightarrow> revision_row \<Rightarrow> (string \<times> tool_config) list \<Rightarrow> system_record" where
  "system_record_of s r locals =
    \<lparr>sr_local_tools = locals, sr_id = sy_system_id s, sr_operator_id = sy_operator_id s, sr_state = sy_state s,
     sr_continuous = False, sr_idle = False, sr_revision = sy_revision s,
     sr_configuration_id = rv_config_id r, sr_configuration = rv_definition r, sr_grants = rv_grants r,
     sr_used_tokens = sy_used_tokens s, sr_reserved_tokens = sy_reserved_tokens s, sr_remaining_tokens = 0,
     sr_goal = None, sr_created_at = sy_created_at s, sr_blocked_reason = '''', sr_execution = None,
     sr_command_result = None\<rparr>"

definition goal_has_live_task :: "db \<Rightarrow> string \<Rightarrow> string \<Rightarrow> bool" where
  "goal_has_live_task d systemID goalID =
     exists_where (\<lambda>t. t_system_id t = systemID \<and> t_goal_id t = goalID \<and> live (t_state t)) (db_tasks d)"

text \<open>The system's row with its current revision, for its owner.\<close>

definition readSystemRow :: "string \<Rightarrow> string \<Rightarrow> (system_row \<times> revision_row) op" where
  "readSystemRow actor systemID = tx_no_rows
     (tx_bind (tx_find db_systems (\<lambda>s. sy_system_id s = systemID \<and> sy_owner s = actor)) (\<lambda>s.
      tx_bind (tx_find db_revisions (\<lambda>r. rv_system_id r = sy_system_id s \<and> rv_revision r = sy_revision s)) (\<lambda>r.
      tx_return (s, r)))) ErrSystemNotFound"

definition with_execution :: "string \<Rightarrow> system_record \<Rightarrow> system_record op" where
  "with_execution systemID record =
     tx_bind (tx_optional (readExecution systemID '''')) (\<lambda>execution.
     case execution of None \<Rightarrow> tx_return record
     | Some e \<Rightarrow> tx_gets (\<lambda>d. record\<lparr>sr_execution := Some e, sr_continuous := e_continuous e,
         sr_idle := (e_continuous e \<and> (sr_state record = SRunning \<or> sr_state record = SPaused) \<and>
                     \<not> goal_has_live_task d systemID (e_goal_id e))\<rparr>))"

definition readSystem :: "(string \<Rightarrow> string) \<Rightarrow> string \<Rightarrow> string \<Rightarrow> system_record op" where
  "readSystem H actor systemID =
     tx_bind (readSystemRow actor systemID) (\<lambda>(s, r).
     tx_bind (loadLocalTools H (sy_system_id s) (gr_system_tools (rv_grants r))) (\<lambda>locals.
     tx_bind (tx_optional (tx_find db_goals (\<lambda>g. gl_system_id g = systemID \<and> gl_owner g = actor \<and> gl_is_initial g))) (\<lambda>goal.
     with_execution systemID ((system_record_of s r locals)\<lparr>sr_goal := map_option initial_goal_of goal\<rparr>))))"

text \<open>
  The saved revision is retained: a definition that changed since blocks the system, it is
  never substituted.
\<close>

definition Inspect :: "(string \<Rightarrow> string) \<Rightarrow> configuration \<Rightarrow> system_record \<Rightarrow> system_record" where
  "Inspect H cfg record =
     (let cfg = WithLocalTools cfg (sr_local_tools record);
          record = record\<lparr>sr_remaining_tokens := sl_token_budget (sc_limits (sr_configuration record)) -
             sr_used_tokens record - sr_reserved_tokens record\<rparr>
      in case ValidateSystem cfg (sr_configuration record) of
           Some e \<Rightarrow> record\<lparr>sr_blocked_reason := error_text e\<rparr>
         | None \<Rightarrow>
             if gr_definitions_digest (GrantsFor H cfg (sr_configuration record)) \<noteq>
                gr_definitions_digest (sr_grants record)
             then record\<lparr>sr_blocked_reason := ''administrative definitions changed; explicitly revise the system before execution''\<rparr>
             else record)"

text \<open>An empty model list is omitted from the stored definition and read back as absent.\<close>

definition stored_definition :: "system_config \<Rightarrow> system_config" where
  "stored_definition s = (if elems (sc_models s) = [] then s\<lparr>sc_models := None\<rparr> else s)"

definition insertRevision :: "system_record \<Rightarrow> string \<Rightarrow> string \<Rightarrow> int \<Rightarrow> unit op" where
  "insertRevision record actor action now =
     tx_seq (tx_insert ''system_revisions''
        (\<lambda>x y. rv_system_id x = rv_system_id y \<and> rv_revision x = rv_revision y) db_revisions db_revisions_update
        \<lparr>rv_system_id = sr_id record, rv_revision = sr_revision record, rv_config_id = sr_configuration_id record,
         rv_definition = stored_definition (sr_configuration record), rv_grants = sr_grants record,
         rv_token_budget = sl_token_budget (sc_limits (sr_configuration record)), rv_created_at = now\<rparr>)
     (auditExecution (sr_id record) actor action (sr_revision record) now)"

definition pinnedTaskRecord :: "system_record \<Rightarrow> execution \<Rightarrow> system_record op" where
  "pinnedTaskRecord record e =
     tx_bind (tx_optional (readTask (e_system_id e) (e_task_id e))) (\<lambda>task.
     case task of None \<Rightarrow> tx_return record
     | Some t \<Rightarrow>
        tx_bind (readAgent (t_system_id t) (t_agent_id t) (t_revision t)) (\<lambda>a.
        tx_return (record\<lparr>
          sr_configuration := (sr_configuration record)\<lparr>sc_operator := a_definition a\<rparr>,
          sr_grants := (sr_grants record)\<lparr>gr_operator_tools := t_tools t, gr_model := oc_model (a_definition a),
             gr_sandbox_profile := oc_sandbox_profile (a_definition a)\<rparr>\<rparr>)))"

definition GetSystem :: "(string \<Rightarrow> string) \<Rightarrow> string \<Rightarrow> string \<Rightarrow> system_record op" where
  "GetSystem H actor systemID = read_only (readSystem H actor systemID)"

text \<open>A page of at most twenty, and the cursor of the next one when there are more.\<close>

definition page :: "'a list \<Rightarrow> 'a list \<times> 'a option" where
  "page ids = (if length ids > 20 then (take 20 ids, Some (ids ! 19)) else (ids, None))"

definition ListSystems :: "(string \<Rightarrow> string) \<Rightarrow> string \<Rightarrow> string \<Rightarrow> (system_record list \<times> string) op" where
  "ListSystems H actor after = read_only
     (tx_bind (tx_select db_systems (\<lambda>s. sy_owner s = actor \<and> sy_system_id s > after)) (\<lambda>rows.
      let (ids, next_id) = page (take 21 (sort (map sy_system_id rows))) in
      tx_bind (tx_map (readSystem H actor) ids) (\<lambda>records.
      tx_return (records, case next_id of None \<Rightarrow> '''' | Some n \<Rightarrow> n))))"

definition ListCalls :: "(string \<Rightarrow> string) \<Rightarrow> string \<Rightarrow> string \<Rightarrow> int \<Rightarrow> (execution list \<times> int) op" where
  "ListCalls H actor systemID after = read_only
     (tx_bind (readSystem H actor systemID) (\<lambda>_.
      tx_bind (tx_select db_calls (\<lambda>c. mc_system_id c = systemID \<and> mc_sequence c > after)) (\<lambda>rows.
      let (cursors, next_cursor) = page (take 21 (sort_key mc_sequence rows)) in
      tx_bind (tx_map (\<lambda>c. readExecution systemID (mc_call_id c)) cursors) (\<lambda>calls.
      tx_return (calls, case next_cursor of None \<Rightarrow> 0 | Some c \<Rightarrow> mc_sequence c)))))"

section \<open>Reading changes nothing\<close>

lemma readTask_pure [reading]: "tx_rel (=) (readTask s i)"
  unfolding readTask_def by (intro pure_rules)

lemma readAgent_pure [reading]: "tx_rel (=) (readAgent s i n)"
  unfolding readAgent_def by (intro pure_rules)

lemma readGoal_pure [reading]: "tx_rel (=) (readGoal s i)"
  unfolding readGoal_def by (intro pure_rules)

lemma goalIsContinuous_pure [reading]: "tx_rel (=) (goalIsContinuous t)"
  unfolding goalIsContinuous_def by (intro pure_rules reading)

lemma readExecution_pure [reading]: "tx_rel (=) (readExecution s i)"
  unfolding readExecution_def by (intro pure_rules)

lemma loadLocalTools_pure [reading]: "tx_rel (=) (loadLocalTools H s pins)"
  unfolding loadLocalTools_def loadLocalTool_def by (intro pure_rules)

lemma readSystemRow_pure [reading]: "tx_rel (=) (readSystemRow p s)"
  unfolding readSystemRow_def by (intro pure_rules)

lemma with_execution_pure [reading]: "tx_rel (=) (with_execution s r)"
  unfolding with_execution_def by (intro pure_rules reading)

lemma readSystem_pure [reading]: "tx_rel (=) (readSystem H p s)"
  unfolding readSystem_def by (intro pure_rules reading)

lemma pinnedTaskRecord_pure [reading]: "tx_rel (=) (pinnedTaskRecord r e)"
  unfolding pinnedTaskRecord_def by (intro pure_rules reading)

lemmas reading_runs [runs] = pure_run [OF readTask_pure] pure_run [OF readAgent_pure] pure_run [OF readGoal_pure] pure_run [OF goalIsContinuous_pure] pure_run [OF readExecution_pure] pure_run [OF loadLocalTools_pure] pure_run [OF readSystemRow_pure] pure_run [OF with_execution_pure] pure_run [OF readSystem_pure] pure_run [OF pinnedTaskRecord_pure]

end
