(* ===== verification/Protocol.thy ===== *)
theory Protocol
  imports GoJson Prelude
begin

text \<open>
  The line-delimited frames between the daemon and its workers (src/internal/protocol/message.go):
  Message, WriteMessage and CheckFrame. A frame is the encoded message and a line break, at most
  MaxFrame bytes.
\<close>

record message_frame =
  ms_type :: string
  ms_data :: string
  ms_id :: string

definition json_frame :: "message_frame \<Rightarrow> json" where
  "json_frame m = JObj (field ''type'' (JStr (ms_type m)) @ field_omit (ms_data m = '''') ''data'' (JStr (ms_data m)) @
     field_omit (ms_id m = '''') ''id'' (JStr (ms_id m)))"

definition MaxFrame :: nat where
  "MaxFrame = 65536"

text \<open>What WriteMessage sends, or its refusal; CheckFrame is the refusal alone.\<close>

definition WriteMessage :: "message_frame \<Rightarrow> error + string" where
  "WriteMessage m =
     (let frame = marshal (json_frame m) @ [newline] in
      if length frame > MaxFrame then Inl (ErrInternal ''JSON frame exceeds size limit'') else Inr frame)"

definition CheckFrame :: "message_frame \<Rightarrow> error option" where
  "CheckFrame m = (case WriteMessage m of Inl e \<Rightarrow> Some e | Inr _ \<Rightarrow> None)"

end
