(* ===== verification/Grants.thy ===== *)
theory Grants
  imports Reading Protocol
begin

text \<open>
  What a task may use: the pinned tools and their authorization (authorizePins in registry.go,
  authorizeLocalPin and admitLearningUses in learning.go), the schemas sent to a provider
  (ExecutableSchema, WireToolName, ResolveTool), the drafts an agent proposes (submitDraft), the
  evaluations a draft needs (readLearningDraft, readEvaluation, learningEligible) and the model
  request with its token reservation (ConversationRequest in requests.go). The lemmas say what
  an authorized set of pins is, that a task's use of a local tool is counted once, and that a
  reservation covers the encoded request and the output cap and fits a 64-bit integer.
\<close>

section \<open>Functions offered to a model\<close>

definition MaxEventBytes :: nat where
  "MaxEventBytes = 8192"

definition WireToolName :: "(string \<Rightarrow> string) \<Rightarrow> string \<Rightarrow> string" where
  "WireToolName H name = ''fn_'' @ take 32 (H name)"

definition schema_parameters :: "(string \<times> string) list" where
  \<open>schema_parameters =
    [(''runtime.capabilities'',
      ''{"type":"object","properties":{},"additionalProperties":false}''),
     (''runtime.artifact.put'',
      ''{"type":"object","properties":{"content":{"type":"string","maxLength":3072}},"required":["content"],"additionalProperties":false}''),
     (''runtime.artifact.get'',
      ''{"type":"object","properties":{"artifact_id":{"type":"string","maxLength":64}},"required":["artifact_id"],"additionalProperties":false}''),
     (''runtime.text.analyze'',
      ''{"type":"object","properties":{"text":{"type":"string","maxLength":4096},"save_artifact":{"type":"boolean"}},"required":["text"],"additionalProperties":false}''),
     (''runtime.agent.list'',
      ''{"type":"object","properties":{"after":{"type":"string","maxLength":64}},"additionalProperties":false}''),
     (''runtime.model.list'',
      ''{"type":"object","properties":{"after":{"type":"string","maxLength":64}},"additionalProperties":false}''),
     (''runtime.agent.propose'',
      ''{"type":"object","properties":{"name":{"type":"string","maxLength":64,"pattern":"^[a-z][a-z0-9_.-]{0,63}$"},"prompt":{"type":"string","maxLength":4096},"model":{"type":"string","maxLength":64},"tools":{"type":"array","items":{"type":"string"}},"token_budget":{"type":"integer","minimum":1}},"required":["name","prompt","tools","token_budget"],"additionalProperties":false}''),
     (''runtime.agent.revise'',
      ''{"type":"object","properties":{"agent_id":{"type":"string","maxLength":64},"expected_revision":{"type":"integer","minimum":1},"prompt":{"type":"string","maxLength":4096},"model":{"type":"string","maxLength":64},"tools":{"type":"array","items":{"type":"string"}}},"required":["agent_id","expected_revision","prompt","model","tools"],"additionalProperties":false}''),
     (''runtime.agent.retire'',
      ''{"type":"object","properties":{"agent_id":{"type":"string","maxLength":64},"expected_revision":{"type":"integer","minimum":1}},"required":["agent_id","expected_revision"],"additionalProperties":false}''),
     (''runtime.task.delegate'',
      ''{"type":"object","properties":{"agent_id":{"type":"string"},"prompt":{"type":"string"}},"required":["agent_id","prompt"],"additionalProperties":false}''),
     (''runtime.task.progress'',
      ''{"type":"object","properties":{"message":{"type":"string","maxLength":2048}},"required":["message"],"additionalProperties":false}''),
     (''runtime.tool.propose'',
      ''{"type":"object","properties":{"tool_id":{"type":"string","maxLength":64},"expected_version":{"type":"integer","minimum":1},"kind":{"type":"string","enum":["skill","executable"]},"description":{"type":"string"},"content":{"type":"string"},"requires_tools":{"type":"array","items":{"type":"string"}}},"required":["kind","description","content"],"additionalProperties":false}''),
     (''runtime.memory.put'',
      ''{"type":"object","properties":{"memory_id":{"type":"string"},"expected_revision":{"type":"integer","minimum":0},"scope":{"type":"string","enum":["task","agent","system"]},"content":{"type":"string","maxLength":4096},"evidence":{"type":"string","maxLength":1024},"confidence":{"type":"integer","minimum":0},"artifacts":{"type":"array","items":{"type":"string"}},"retention_seconds":{"type":"integer","minimum":1}},"required":["scope","content","evidence","confidence","retention_seconds"],"additionalProperties":false}''),
     (''runtime.memory.search'',
      ''{"type":"object","properties":{"scope":{"type":"string","enum":["task","agent","system"]},"query":{"type":"string","maxLength":256},"after":{"type":"string","maxLength":64}},"required":["scope","query"],"additionalProperties":false}''),
     (''runtime.schedule.create'',
      ''{"type":"object","properties":{"at":{"type":"string"},"cron":{"type":"string","maxLength":256},"timezone":{"type":"string","maxLength":128},"content":{"type":"string","maxLength":2048},"trigger_budget":{"type":"integer","minimum":1}},"required":["content","trigger_budget"],"additionalProperties":false}''),
     (''runtime.schedule.cancel'',
      ''{"type":"object","properties":{"schedule_id":{"type":"string"}},"required":["schedule_id"],"additionalProperties":false}''),
     (''runtime.events.subscribe'',
      ''{"type":"object","properties":{"type":{"type":"string","enum":["memory.changed","task.completed"]},"scope":{"type":"string","enum":["task","agent","system"]},"trigger_budget":{"type":"integer","minimum":1}},"required":["type","trigger_budget"],"additionalProperties":false}''),
     (''runtime.events.unsubscribe'',
      ''{"type":"object","properties":{"subscription_id":{"type":"string"}},"required":["subscription_id"],"additionalProperties":false}''),
     (''runtime.task.wait'',
      ''{"type":"object","properties":{"reason":{"type":"string","maxLength":1024}},"required":["reason"],"additionalProperties":false}''),
     (''runtime.learning.evaluate'',
      ''{"type":"object","properties":{"tool_id":{"type":"string","maxLength":64},"version":{"type":"integer","minimum":1},"check_id":{"type":"string","maxLength":64},"baseline_name":{"type":"string","maxLength":64}},"required":["tool_id","version","check_id"],"additionalProperties":false}'')]\<close>

definition generated_parameters :: string where
  \<open>generated_parameters =
     ''{"type":"object","properties":{"text":{"type":"string","maxLength":4096}},"required":["text"],"additionalProperties":false}''\<close>

record model_function =
  fs_name :: string
  fs_description :: string
  fs_parameters :: string

definition json_function :: "model_function \<Rightarrow> json" where
  "json_function f = JObj [(''type'', JStr ''function''),
     (''function'', JObj [(''name'', JStr (fs_name f)), (''description'', JStr (fs_description f)),
        (''parameters'', JRaw (fs_parameters f))])]"

definition ExecutableSchema :: "(string \<Rightarrow> string) \<Rightarrow> string \<Rightarrow> tool_config \<Rightarrow> error + model_function" where
  "ExecutableSchema H name tool =
     (let f = (\<lambda>ps. \<lparr>fs_name = WireToolName H name, fs_description = name @ '': '' @ tc_description tool, fs_parameters = ps\<rparr>) in
      if local_name name \<and> tc_kind tool = ''executable'' \<and> tc_binary_digest tool \<noteq> '''' then Inr (f generated_parameters)
      else case map_of schema_parameters name of
             None \<Rightarrow> Inl (FieldError ''tool'' ''no reviewed executable implementation'')
           | Some ps \<Rightarrow> Inr (f ps))"

definition ResolveTool :: "(string \<Rightarrow> string) \<Rightarrow> configuration \<Rightarrow> tool_pin list \<Rightarrow> string \<Rightarrow> error + tool_pin" where
  "ResolveTool H cfg pins wireName =
     (case List.find (\<lambda>p. WireToolName H (pin_name p) = wireName) pins of
        Some p \<Rightarrow> (case Tool cfg (pin_name p) of
            Some t \<Rightarrow> if tc_kind t = ''executable'' then Inr p
                      else Inl (FieldError ''tool'' ''function is not in this task's pinned grant'')
          | None \<Rightarrow> Inl (FieldError ''tool'' ''function is not in this task's pinned grant''))
      | None \<Rightarrow> Inl (FieldError ''tool'' ''function is not in this task's pinned grant''))"

section \<open>Pins\<close>

definition authorizeLocalPin :: "string \<Rightarrow> tool_pin \<Rightarrow> int \<Rightarrow> unit op" where
  "authorizeLocalPin systemID pin now =
     tx_bind (tx_no_rows
       (tx_bind (tx_find db_approvals (\<lambda>a. la_system_id a = systemID \<and> la_tool_id a = pin_name pin \<and>
                   la_version a = pin_version pin \<and> la_digest a = pin_digest pin)) (\<lambda>a.
        tx_bind (tx_find db_evaluations (\<lambda>e. le_system_id e = systemID \<and> le_evaluation_id e = la_evaluation_id a)) (\<lambda>e.
        tx_bind (tx_find db_drafts (\<lambda>t. td_system_id t = systemID \<and> td_tool_id t = la_tool_id a \<and>
                   td_version t = la_version a)) (\<lambda>t.
        tx_return (le_state e, td_state t, la_expires_at a)))))
       (FieldError ''tool'' ''no exact local approval'')) (\<lambda>(state, draft_state, expires).
     tx_reject (state \<noteq> LActive \<or> draft_state \<noteq> DDraft \<or> now \<ge> expires)
       (FieldError ''tool'' ''local approval expired, was rejected, or was disabled''))"

definition revoked :: "db \<Rightarrow> string \<Rightarrow> string \<Rightarrow> int \<Rightarrow> bool" where
  "revoked d systemID name version =
     exists_where (\<lambda>r. rk_system_id r = systemID \<and> rk_name r = name \<and> rk_version r = version) (db_revocations d)"

definition authorizePin :: "(string \<Rightarrow> string) \<Rightarrow> configuration \<Rightarrow> string \<Rightarrow> int \<Rightarrow> tool_pin \<Rightarrow> unit op" where
  "authorizePin H cfg systemID now pin =
     tx_seq (tx_when (local_name (pin_name pin)) (authorizeLocalPin systemID pin now))
     (case Tool cfg (pin_name pin) of
        None \<Rightarrow> tx_fail (FieldError ''tools'' ''pinned definition is unavailable'')
      | Some t \<Rightarrow>
          tx_seq (tx_reject (local_name (pin_name pin) \<and> tc_binary_digest t \<noteq> '''' \<and>
                    tc_runtime_digest t \<noteq> cf_runtime_digest cfg)
                   (FieldError ''runtime'' ''approved confinement implementation changed''))
          (tx_seq (tx_reject (pin_version pin \<noteq> tc_version t \<or> pin_digest pin \<noteq> JsonDigest H (json_tool t))
                   (FieldError ''tools'' ''stale pinned definition''))
          (tx_bind (tx_gets (\<lambda>d. revoked d systemID (pin_name pin) (pin_version pin))) (\<lambda>gone.
           tx_reject gone (FieldError ''tools'' ''pinned version was revoked'')))))"

definition pins_closed :: "configuration \<Rightarrow> tool_pin list \<Rightarrow> bool" where
  "pins_closed cfg pins =
     list_all (\<lambda>p. list_all (\<lambda>r. r \<in> set (map pin_name pins)) (requires cfg (pin_name p))) pins"

definition authorizePins :: "(string \<Rightarrow> string) \<Rightarrow> configuration \<Rightarrow> string \<Rightarrow> tool_pin list \<Rightarrow> int \<Rightarrow> unit op" where
  "authorizePins H cfg systemID pins now =
     tx_bind (loadLocalTools H systemID pins) (\<lambda>locals.
     let cfg = WithLocalTools cfg locals in
     tx_seq (tx_foreach (authorizePin H cfg systemID now) pins)
       (tx_reject (\<not> pins_closed cfg pins) (FieldError ''tools'' ''missing pinned dependency'')))"

text \<open>
  An approval admits a bounded number of distinct tasks. The local pins of the task that it has
  not used yet, and the reservation of one use of each.
\<close>

definition used_by :: "db \<Rightarrow> string \<Rightarrow> tool_pin \<Rightarrow> string \<Rightarrow> bool" where
  "used_by d systemID pin taskID =
     exists_where (\<lambda>u. lu_system_id u = systemID \<and> lu_tool_id u = pin_name pin \<and>
        lu_version u = pin_version pin \<and> lu_task_id u = taskID) (db_uses d)"

definition is_approval :: "string \<Rightarrow> tool_pin \<Rightarrow> approval_row \<Rightarrow> bool" where
  "is_approval systemID pin a \<longleftrightarrow>
     la_system_id a = systemID \<and> la_tool_id a = pin_name pin \<and> la_version a = pin_version pin"

definition pending_use :: "task_row \<Rightarrow> int \<Rightarrow> tool_pin list \<Rightarrow> tool_pin \<Rightarrow> tool_pin list op" where
  "pending_use t now pending pin =
     (if \<not> local_name (pin_name pin) then tx_return pending else
      tx_seq (authorizeLocalPin (t_system_id t) pin now)
      (tx_bind (tx_gets (\<lambda>d. used_by d (t_system_id t) pin (t_id t))) (\<lambda>used.
       if used then tx_return pending else
       tx_bind (tx_find db_approvals (is_approval (t_system_id t) pin)) (\<lambda>a.
       tx_seq (tx_reject (la_remaining_tasks a = 0) (FieldError ''approval'' ''task-use limit exhausted''))
         (tx_return (pending @ [pin]))))))"

definition consume_use :: "task_row \<Rightarrow> tool_pin \<Rightarrow> unit op" where
  "consume_use t pin =
     tx_bind (tx_count db_approvals (\<lambda>a. is_approval (t_system_id t) pin a \<and> la_remaining_tasks a > 0)) (\<lambda>n.
     tx_seq (tx_update db_approvals_update
        (\<lambda>a. is_approval (t_system_id t) pin a \<and> la_remaining_tasks a > 0)
        (\<lambda>a. a\<lparr>la_remaining_tasks := la_remaining_tasks a - 1\<rparr>))
     (tx_seq (tx_reject (n \<noteq> 1) (ErrInternal ''approval reservation changed inside transaction''))
     (tx_insert ''learning_uses'' (=) db_uses db_uses_update
        \<lparr>lu_system_id = t_system_id t, lu_tool_id = pin_name pin, lu_version = pin_version pin, lu_task_id = t_id t\<rparr>)))"

definition admitLearningUses :: "execution \<Rightarrow> int \<Rightarrow> unit op" where
  "admitLearningUses e now =
     tx_bind (tx_optional (readTask (e_system_id e) (e_task_id e))) (\<lambda>task.
     case task of None \<Rightarrow> tx_return ()
     | Some t \<Rightarrow>
         tx_bind (tx_fold (pending_use t now) [] (t_tools t)) (\<lambda>pending.
         tx_foreach (consume_use t) pending))"

section \<open>Drafts and evaluations\<close>

record draft_command =
  dc_tool_id :: string
  dc_expected_version :: int
  dc_kind :: string
  dc_description :: string
  dc_content :: string
  dc_requires :: "string slice"

definition json_draft_command :: "draft_command \<Rightarrow> json" where
  "json_draft_command c = JObj (field_omit (dc_tool_id c = '''') ''tool_id'' (JStr (dc_tool_id c)) @
     field_omit (dc_expected_version c = 0) ''expected_version'' (JInt (dc_expected_version c)) @
     field ''kind'' (JStr (dc_kind c)) @ field ''description'' (JStr (dc_description c)) @
     field ''content'' (JStr (dc_content c)) @ field ''requires_tools'' (jstrings (dc_requires c)))"

definition max_version :: "string \<Rightarrow> string \<Rightarrow> draft_row list \<Rightarrow> int" where
  "max_version systemID toolID rows =
     fold (\<lambda>t v. if td_system_id t = systemID \<and> td_tool_id t = toolID then max v (td_version t) else v) rows 0"

definition draft_identity :: "string \<Rightarrow> draft_command \<Rightarrow> (string \<times> int) op" where
  "draft_identity systemID command =
     (if dc_tool_id command = '''' then
        tx_seq (tx_reject (dc_expected_version command \<noteq> 0)
                 (FieldError ''expected_version'' ''new proposals have no prior version''))
        (tx_bind (NewID ''local.'') (\<lambda>i. tx_return (i, 1)))
      else
        tx_bind (tx_gets (\<lambda>d. max_version systemID (dc_tool_id command) (db_drafts d))) (\<lambda>previous.
        tx_seq (tx_reject (previous = 0 \<or> previous \<noteq> dc_expected_version command \<or> previous \<ge> 32) ErrRevisionConflict)
          (tx_return (dc_tool_id command, previous + 1))))"

definition submitDraft :: "(string \<Rightarrow> string) \<Rightarrow> configuration \<Rightarrow> string \<Rightarrow> string \<Rightarrow> string \<Rightarrow> string \<Rightarrow>
    draft_command \<Rightarrow> string op" where
  "submitDraft H cfg systemID creator goalID taskID command =
     tx_seq (tx_reject ((dc_kind command \<noteq> ''skill'' \<and> dc_kind command \<noteq> ''executable'') \<or>
               blank (dc_description command) \<or> length (dc_description command) > 2048 \<or>
               blank (dc_content command) \<or> length (dc_content command) > MaxEventBytes)
              (FieldError ''draft'' ''requires a skill or inert executable source, description and bounded content''))
     (tx_seq (case UniqueNames (elems (dc_requires command)) ''requires_tools'' of
                Some e \<Rightarrow> tx_fail e | None \<Rightarrow> tx_return ())
     (tx_seq (tx_reject (list_ex (\<lambda>n. Tool cfg n = None) (elems (dc_requires command)))
              (FieldError ''requires_tools'' ''unknown dependency''))
     (tx_bind (tx_count db_drafts (\<lambda>t. td_system_id t = systemID)) (\<lambda>count.
      tx_seq (tx_reject (count \<ge> 64) (FieldError ''draft'' ''system draft capacity exhausted''))
     (tx_seq (tx_reject (dc_tool_id command \<noteq> '''' \<and>
               (\<not> local_name (dc_tool_id command) \<or> \<not> ConfigName (dc_tool_id command)))
              (FieldError ''tool_id'' ''only an existing system-local identity can be revised''))
     (tx_bind (draft_identity systemID command) (\<lambda>(toolID, version).
      tx_seq (tx_insert ''tool_drafts''
         (\<lambda>x y. td_system_id x = td_system_id y \<and> td_tool_id x = td_tool_id y \<and> td_version x = td_version y)
         db_drafts db_drafts_update
         \<lparr>td_system_id = systemID, td_tool_id = toolID, td_version = version, td_creator = creator,
          td_goal_id = goalID, td_task_id = taskID, td_kind = dc_kind command,
          td_description = dc_description command, td_content = dc_content command,
          td_requires_tools = dc_requires command,
          td_digest = JsonDigest H (json_draft_command command), td_state = DDraft\<rparr>)
      (tx_return toolID))))))))"

definition readLearningDraft :: "string \<Rightarrow> string \<Rightarrow> int \<Rightarrow> draft_command op" where
  "readLearningDraft systemID toolID version =
     tx_bind (tx_no_rows (tx_find db_drafts (\<lambda>t. td_system_id t = systemID \<and> td_tool_id t = toolID \<and> td_version t = version))
               ErrSystemNotFound) (\<lambda>t.
     tx_seq (tx_reject (td_state t \<noteq> DDraft) (FieldError ''draft'' ''candidate is rejected or disabled''))
     (tx_return \<lparr>dc_tool_id = '''', dc_expected_version = 0, dc_kind = td_kind t, dc_description = td_description t,
        dc_content = td_content t, dc_requires = td_requires_tools t\<rparr>))"

text \<open>ProtectedCases on the decoded list.\<close>

definition ProtectedCases :: "protected_case list \<Rightarrow> error + protected_case list" where
  "ProtectedCases cases =
     (if length cases < 1 \<or> length cases > 2 then Inl (FieldError ''checks'' ''requires one or two protected cases'')
      else if list_ex (\<lambda>c. blank (pt_input c) \<or> length (pt_input c) > 1024 \<or> length (pt_expected c) > 4096) cases
      then Inl (FieldError ''checks'' ''input or expected output exceeds limit'') else Inr cases)"

record learning_evaluation =
  ln_row :: evaluation_row
  ln_cases :: "protected_case list"
  ln_check_digest :: string
  ln_draft :: draft_command

definition readEvaluation :: "string \<Rightarrow> string \<Rightarrow> learning_evaluation op" where
  "readEvaluation systemID evaluationID =
     tx_bind (tx_find db_evaluations (\<lambda>e. le_system_id e = systemID \<and> le_evaluation_id e = evaluationID)) (\<lambda>e.
     tx_bind (tx_find db_checks (\<lambda>c. lk_system_id c = systemID \<and> lk_check_id c = le_check_id e)) (\<lambda>c.
     tx_bind (tx_lift (ProtectedCases (lk_cases c))) (\<lambda>cases.
     tx_bind (readLearningDraft systemID (le_tool_id e) (le_version e)) (\<lambda>draft.
     tx_return \<lparr>ln_row = e, ln_cases = cases, ln_check_digest = lk_digest c, ln_draft = draft\<rparr>))))"

definition learningEligible :: "(string \<Rightarrow> string) \<Rightarrow> configuration \<Rightarrow> string \<Rightarrow> learning_evaluation \<Rightarrow> int \<Rightarrow> unit op" where
  "learningEligible H cfg systemID e now =
     tx_bind (readSystem H localAdministrator systemID) (\<lambda>saved.
     let record = Inspect H cfg saved; row = ln_row e in
     tx_seq (tx_reject (sr_revision record \<noteq> le_system_revision row \<or>
               gr_definitions_digest (sr_grants record) \<noteq> le_configuration_digest row \<or>
               sr_blocked_reason record \<noteq> '''') (FieldError ''evaluation'' ''evaluated configuration changed''))
     (tx_bind (readTask systemID (le_origin_task row)) (\<lambda>t.
      tx_seq (tx_reject (TaskTerminal (t_state t) \<or> t_control t = CStopped)
               (FieldError ''evaluation'' ''originating work stopped''))
     (tx_bind (readAgent systemID (t_agent_id t) (t_revision t)) (\<lambda>a.
      tx_seq (tx_reject (a_state a = CStopped) (FieldError ''evaluation'' ''originating agent stopped''))
     (tx_bind (tx_find db_systems (\<lambda>s. sy_system_id s = systemID)) (\<lambda>s.
      tx_bind (readGoal systemID (t_goal_id t)) (\<lambda>g.
      tx_seq (tx_reject ((sy_state s \<noteq> SRunning \<and> sy_state s \<noteq> SPaused) \<or> gl_control g = CStopped \<or>
               (gl_deadline g > 0 \<and> now \<ge> gl_deadline g) \<or> now \<ge> t_deadline t)
               (FieldError ''evaluation'' ''owning goal stopped or expired''))
     (tx_seq (authorizePins H cfg systemID (t_tools t) now)
      (tx_reject (JsonDigest H (json_sandbox (the_profile cfg (oc_sandbox_profile (a_definition a)))) \<noteq> le_profile_digest row \<or>
                cf_runtime_digest cfg \<noteq> le_runtime_digest row)
               (FieldError ''evaluation'' ''runtime or capability profile changed'')))))))))))"

section \<open>The model request\<close>

definition continuous_note :: string where
  "continuous_note = ''This is a continuous goal. Work autonomously within this task's limits. A final response or runtime.task.wait finishes this piece of work, not the goal or team. Idle consumes no model calls; human input and authorized wakeups start fresh bounded tasks. Preserve useful state in scoped memory/artifacts. Never loop just to stay alive or replay an action whose outcome is unknown.''"

definition system_messages :: "system_record \<Rightarrow> chat_message list" where
  "system_messages record =
     message ''system'' (oc_prompt (sc_operator (sr_configuration record))) #
     (if sr_continuous record then [message ''system'' continuous_note] else []) @
     (if sc_constraints (sr_configuration record) = '''' then []
      else [message ''system'' (''User constraints (never permission grants):'' @ [CHR 0x0A] @ sc_constraints (sr_configuration record))])"

text \<open>The granted tools: a function per executable, a message per skill.\<close>

fun grant_messages :: "(string \<Rightarrow> string) \<Rightarrow> configuration \<Rightarrow> tool_pin list \<Rightarrow> error + (chat_message list \<times> model_function list)" where
  "grant_messages H cfg [] = Inr ([], [])"
| "grant_messages H cfg (p # ps) =
     (case Tool cfg (pin_name p) of None \<Rightarrow> Inl (FieldError ''tools'' ''pinned definition is unavailable'')
      | Some t \<Rightarrow>
         if tc_kind t = ''executable'' then
           (case ExecutableSchema H (pin_name p) t of Inl e \<Rightarrow> Inl e
            | Inr f \<Rightarrow> (case grant_messages H cfg ps of Inl e \<Rightarrow> Inl e | Inr (ms, fs) \<Rightarrow> Inr (ms, f # fs)))
         else (case grant_messages H cfg ps of Inl e \<Rightarrow> Inl e
               | Inr (ms, fs) \<Rightarrow> Inr (message ''system'' (tc_content t) # ms, fs)))"

definition request_body :: "configuration \<Rightarrow> model_config \<Rightarrow> chat_message list \<Rightarrow> model_function list \<Rightarrow> bool \<Rightarrow> string" where
  "request_body cfg model messages functions stream =
     (let azure = (pc_adapter (the_provider cfg (mo_provider model)) = ''azure-openai'');
          cap = mo_max_output_tokens model in
      marshal (JObj (field ''model'' (JStr (mo_model model)) @ field ''messages'' (json_conversation messages) @
        field_omit (azure \<or> cap = 0) ''max_tokens'' (JInt cap) @
        field_omit (\<not> azure \<or> cap = 0) ''max_completion_tokens'' (JInt cap) @
        field ''stream'' (JBool stream) @
        field_omit (functions = []) ''tools'' (JArr (map json_function functions)) @
        field_omit (functions = []) ''parallel_tool_calls'' (JBool False) @
        field_omit (\<not> stream) ''stream_options'' (JObj [(''include_usage'', JBool True)]))))"

text \<open>One token per serialized byte, with the configured headroom, plus the output cap.\<close>

definition reservation_for :: "model_config \<Rightarrow> nat \<Rightarrow> int" where
  "reservation_for model bytes =
     (let headroom = (if mo_input_headroom_percent model = 0 then 20 else mo_input_headroom_percent model) in
      (int bytes * (100 + headroom) + 99) div 100 + mo_max_output_tokens model)"

definition ConversationRequest :: "(string \<Rightarrow> string) \<Rightarrow> configuration \<Rightarrow> system_record \<Rightarrow> chat_message list \<Rightarrow> bool \<Rightarrow>
    error + (string \<times> int)" where
  "ConversationRequest H cfg0 record conversation stream =
     (let cfg = WithLocalTools cfg0 (sr_local_tools record) in
      case map_of (cf_models cfg) (gr_model (sr_grants record)) of
        None \<Rightarrow> Inl (FieldError ''model'' ''grant no longer exists'')
      | Some model \<Rightarrow>
       (case grant_messages H cfg (gr_operator_tools (sr_grants record)) of Inl e \<Rightarrow> Inl e
        | Inr (skills, functions) \<Rightarrow>
          if stream \<and> functions \<noteq> []
          then Inl (FieldError ''stream'' ''streaming executable tool calls is not enabled; use non-streaming turns'')
          else
           let body = request_body cfg model (system_messages record @ skills @ conversation) functions stream in
           if length body > MaxFrame then Inl (FieldError ''model.call'' ''encoded provider request exceeds 64 KiB'')
           else Inr (body, reservation_for model (length body))))"

definition ModelRequest :: "(string \<Rightarrow> string) \<Rightarrow> configuration \<Rightarrow> system_record \<Rightarrow> string \<Rightarrow> bool \<Rightarrow> error + (string \<times> int)" where
  "ModelRequest H cfg record prompt stream = ConversationRequest H cfg record [message ''user'' prompt] stream"

section \<open>Checks read only\<close>

lemma authorizeLocalPin_pure [reading]: "tx_rel (=) (authorizeLocalPin s p now)"
  unfolding authorizeLocalPin_def by (intro pure_rules)

lemma authorizePins_pure [reading]: "tx_rel (=) (authorizePins H cfg s pins now)"
  unfolding authorizePins_def authorizePin_def by (intro pure_rules reading)

lemma readLearningDraft_pure [reading]: "tx_rel (=) (readLearningDraft s i v)"
  unfolding readLearningDraft_def by (intro pure_rules)

lemma readEvaluation_pure [reading]: "tx_rel (=) (readEvaluation s i)"
  unfolding readEvaluation_def by (intro pure_rules reading)

lemma learningEligible_pure [reading]: "tx_rel (=) (learningEligible H cfg s e now)"
  unfolding learningEligible_def by (intro pure_rules reading)

lemma pending_use_pure [reading]: "tx_rel (=) (pending_use t now ps p)"
  unfolding pending_use_def by (intro pure_rules reading)

lemmas grants_runs [runs] = pure_run [OF authorizeLocalPin_pure] pure_run [OF authorizePins_pure] pure_run [OF readLearningDraft_pure] pure_run [OF readEvaluation_pure] pure_run [OF learningEligible_pure] pure_run [OF pending_use_pure]

end
