(* ===== verification/Broker.thy ===== *)
theory Broker
  imports Grants
begin

text \<open>
  The model-call broker (broker.go, the admission part of workflows.go and the ledger of
  team_ops.go): a call is queued, admitted against grants, fair order, shared quotas and the
  budgets of system, goal and every accountable agent, and settled when the provider answered.
  The body of the loop of \<open>admit\<close> is cut into the refusal of a candidate, the refresh of its
  quota groups and its dispatch; \<open>admit_loop\<close> runs them over the queue in fair order.
\<close>

section \<open>Sessions\<close>

definition authorizeCall :: "execution \<Rightarrow> execution op" where
  "authorizeCall session =
     tx_bind (readExecution (e_system_id session) (e_call_id session)) (\<lambda>current.
     tx_seq (tx_reject (e_activation_id current \<noteq> e_activation_id session \<or>
               e_activation_owner current \<noteq> e_activation_owner session \<or>
               e_revision current \<noteq> e_revision session \<or> e_goal_id current \<noteq> e_goal_id session)
              (FieldError ''session'' ''model call is outside this activation''))
     (tx_return current))"

text \<open>UPDATE model_calls ... WHERE call_id=?, UPDATE goals and UPDATE systems by key.\<close>

definition update_call :: "string \<Rightarrow> (call_row \<Rightarrow> call_row) \<Rightarrow> unit op" where
  "update_call callID f = tx_update db_calls_update (\<lambda>c. mc_call_id c = callID) f"

definition goal_ledger_ok :: "goal_row \<Rightarrow> bool" where
  "goal_ledger_ok g \<longleftrightarrow> 0 \<le> gl_used_tokens g \<and> 0 \<le> gl_reserved_tokens g"

definition system_ledger_ok :: "system_row \<Rightarrow> bool" where
  "system_ledger_ok s \<longleftrightarrow> 0 \<le> sy_used_tokens s \<and> 0 \<le> sy_reserved_tokens s"

definition update_goal :: "string \<Rightarrow> string \<Rightarrow> (goal_row \<Rightarrow> goal_row) \<Rightarrow> unit op" where
  "update_goal systemID goalID f = tx_update db_goals_update (\<lambda>g. gl_system_id g = systemID \<and> gl_goal_id g = goalID) f"

definition charge_goal :: "string \<Rightarrow> string \<Rightarrow> (goal_row \<Rightarrow> goal_row) \<Rightarrow> unit op" where
  "charge_goal systemID goalID f = tx_update_checked ''goals'' goal_ledger_ok db_goals db_goals_update
     (\<lambda>g. gl_system_id g = systemID \<and> gl_goal_id g = goalID) f"

definition update_system :: "string \<Rightarrow> (system_row \<Rightarrow> system_row) \<Rightarrow> unit op" where
  "update_system systemID f = tx_update db_systems_update (\<lambda>s. sy_system_id s = systemID) f"

definition charge_system :: "string \<Rightarrow> (system_row \<Rightarrow> system_row) \<Rightarrow> unit op" where
  "charge_system systemID f = tx_update_checked ''systems'' system_ledger_ok db_systems db_systems_update
     (\<lambda>s. sy_system_id s = systemID) f"

definition queue_call :: "execution \<Rightarrow> unit op" where
  "queue_call session = transaction
     (tx_bind (authorizeCall session) (\<lambda>e.
      tx_when (e_state e = AwaitingWorker)
        (tx_seq (update_call (e_call_id e) (\<lambda>c. c\<lparr>mc_state := Queued\<rparr>))
           (update_goal (e_system_id e) (e_goal_id e) (\<lambda>g. g\<lparr>gl_state := Waiting\<rparr>)))))"

definition terminalCall :: "execution \<Rightarrow> run_state \<Rightarrow> string \<Rightarrow> unit op" where
  "terminalCall e state reason =
     tx_update db_calls_update (\<lambda>c. mc_system_id c = e_system_id e \<and> mc_call_id c = e_call_id e)
       (\<lambda>c. c\<lparr>mc_state := state, mc_reason := reason\<rparr>)"

definition cancel_reason :: string where
  "cancel_reason = ''canceled before dispatch; no budget charged''"

definition CancelModelCall :: "execution \<Rightarrow> execution op" where
  "CancelModelCall session = transaction
     (tx_bind (authorizeCall session) (\<lambda>e.
      if undispatched (e_state e)
      then tx_seq (terminalCall e Canceled cancel_reason)
             (tx_return (e\<lparr>e_state := Canceled, e_reason := cancel_reason\<rparr>))
      else tx_return e))"

section \<open>The ledger of a call\<close>

text \<open>
  Both ancestries: the agents that created the calling agent, and the agents of the tasks the
  calling task was delegated from.
\<close>

definition agent_lineage :: "db \<Rightarrow> string \<Rightarrow> string \<Rightarrow> agent_row list" where
  "agent_lineage d systemID agentID =
     (let rows = filter (\<lambda>a. ag_system_id a = systemID) (db_agents d) in
      recursive_rows (\<lambda>a l. ag_agent_id a = ag_parent_id l) rows (filter (\<lambda>a. ag_agent_id a = agentID) rows))"

definition task_lineage :: "db \<Rightarrow> string \<Rightarrow> string \<Rightarrow> task_row list" where
  "task_lineage d systemID taskID =
     (let rows = filter (\<lambda>t. t_system_id t = systemID) (db_tasks d) in
      recursive_rows (\<lambda>t p. t_id t = t_parent p) rows (filter (\<lambda>t. t_id t = taskID) rows))"

definition ledger_agents :: "db \<Rightarrow> execution \<Rightarrow> string list" where
  "ledger_agents d e = remdups
     (map ag_agent_id (agent_lineage d (e_system_id e) (e_agent_id e)) @
      map t_agent_id (task_lineage d (e_system_id e) (e_task_id e)))"

definition budgetAgents :: "execution \<Rightarrow> string list op" where
  "budgetAgents e = tx_gets (\<lambda>d. ledger_agents d e)"

definition usage_of :: "db \<Rightarrow> string \<Rightarrow> string \<Rightarrow> string \<Rightarrow> usage_row option" where
  "usage_of d systemID agentID goalID =
     List.find (\<lambda>u. us_system_id u = systemID \<and> us_agent_id u = agentID \<and> us_goal_id u = goalID) (db_usage d)"

text \<open>The agent's cap and usage row, when both exist; and whether the reservation fits.\<close>

definition agent_allowance :: "db \<Rightarrow> execution \<Rightarrow> string \<Rightarrow> int option" where
  "agent_allowance d e i =
     (case agent_of d (e_system_id e) i of None \<Rightarrow> None
      | Some a \<Rightarrow> map_option (\<lambda>u. ag_token_budget a - us_used_tokens u - us_reserved_tokens u)
                    (usage_of d (e_system_id e) i (e_goal_id e)))"

fun agents_afford :: "execution \<Rightarrow> string list \<Rightarrow> bool op" where
  "agents_afford e [] = tx_return True"
| "agents_afford e (i # ids) =
     tx_bind (tx_row (\<lambda>d. agent_allowance d e i)) (\<lambda>left.
     if e_reservation e > left then tx_return False else agents_afford e ids)"

definition denied_text :: "error \<Rightarrow> string op" where
  "denied_text e = (if DeniedTask e then tx_return (error_text e) else tx_fail e)"

definition learning_refusal :: "(string \<Rightarrow> string) \<Rightarrow> configuration \<Rightarrow> task_row \<Rightarrow> int \<Rightarrow> string op" where
  "learning_refusal H cfg t now =
     (if t_learning_id t = '''' then tx_return '''' else
      tx_bind (tx_try (tx_bind (readEvaluation (t_system_id t) (t_learning_id t)) (\<lambda>ev.
                 learningEligible H cfg (t_system_id t) ev now))) (\<lambda>r.
      case r of Inl e \<Rightarrow> denied_text e | Inr _ \<Rightarrow> tx_return ''''))"

text \<open>The first of several checks that gives a reason; later ones run only without one.\<close>

definition or_else :: "string \<Rightarrow> string op \<Rightarrow> string op" where
  "or_else reason m = (if reason \<noteq> '''' then tx_return reason else m)"

definition pins_refusal :: "(string \<Rightarrow> string) \<Rightarrow> configuration \<Rightarrow> execution \<Rightarrow> task_row \<Rightarrow> int \<Rightarrow> string op" where
  "pins_refusal H cfg e t now =
     tx_bind (tx_try (authorizePins H cfg (e_system_id e) (t_tools t) now)) (\<lambda>r.
     case r of Inl err \<Rightarrow> if is_field_error err then tx_return (error_text err) else tx_fail err
             | Inr _ \<Rightarrow> tx_return '''')"

definition ledger_refusal :: "execution \<Rightarrow> string op" where
  "ledger_refusal e =
     tx_bind (budgetAgents e) (\<lambda>ids.
     tx_bind (agents_afford e ids) (\<lambda>ok.
     tx_return (if ok then '''' else ''agent or ancestor token budget exhausted'')))"

definition grants_refusal :: "(string \<Rightarrow> string) \<Rightarrow> configuration \<Rightarrow> execution \<Rightarrow> task_row \<Rightarrow> int \<Rightarrow> string op" where
  "grants_refusal H cfg e t now =
     tx_bind (learning_refusal H cfg t now) (\<lambda>reason.
     or_else reason (tx_bind (pins_refusal H cfg e t now) (\<lambda>reason.
     or_else reason (ledger_refusal e))))"

definition checkTaskAdmission :: "(string \<Rightarrow> string) \<Rightarrow> configuration \<Rightarrow> execution \<Rightarrow> int \<Rightarrow> string op" where
  "checkTaskAdmission H cfg e now =
     tx_bind (tx_optional (readTask (e_system_id e) (e_task_id e))) (\<lambda>task.
     case task of None \<Rightarrow> tx_return '''' | Some t \<Rightarrow>
     tx_bind (readAgent (t_system_id t) (t_agent_id t) (t_revision t)) (\<lambda>a.
     tx_bind (readGoal (e_system_id e) (e_goal_id e)) (\<lambda>g.
     if t_control t = CStopped \<or> a_state a = CStopped \<or> gl_control g = CStopped \<or> TaskTerminal (t_state t)
     then tx_return ''task or agent stopped'' else
     tx_bind (readSystem H localAdministrator (e_system_id e)) (\<lambda>record.
     if e_model e \<noteq> oc_model (a_definition a) then tx_return ''model does not match pinned agent revision'' else
     case authorizeModel cfg (sr_configuration record) (e_model e) of Some err \<Rightarrow> tx_return (error_text err)
     | None \<Rightarrow> grants_refusal H cfg e t now))))"

definition chargeAgents :: "execution \<Rightarrow> int \<Rightarrow> int \<Rightarrow> unit op" where
  "chargeAgents e reserved used =
     tx_bind (budgetAgents e) (\<lambda>ids.
     tx_foreach (\<lambda>i. tx_update db_usage_update
        (\<lambda>u. (us_system_id u = e_system_id e \<and> us_goal_id u = e_goal_id e) \<and> us_agent_id u = i)
        (\<lambda>u. u\<lparr>us_reserved_tokens := us_reserved_tokens u + reserved, us_used_tokens := us_used_tokens u + used\<rparr>)) ids)"

section \<open>Admission\<close>

definition MaxOperators :: nat where
  "MaxOperators = 64"

definition last_admission_of :: "db \<Rightarrow> string \<Rightarrow> int option" where
  "last_admission_of d systemID =
     map_option sy_last_admission (List.find (\<lambda>s. sy_system_id s = systemID) (db_systems d))"

text \<open>The queued calls by the last admission of their system, then by age.\<close>

definition admission_queue :: "db \<Rightarrow> (string \<times> string) list" where
  "admission_queue d =
     map (\<lambda>c. (mc_system_id c, mc_call_id c))
       (take MaxOperators
         (sort_key (\<lambda>c. case last_admission_of d (mc_system_id c) of Some n \<Rightarrow> n | None \<Rightarrow> 0)
           (sort_key mc_sequence
             (filter (\<lambda>c. mc_state c = Queued \<and> last_admission_of d (mc_system_id c) \<noteq> None) (db_calls d)))))"

definition candidate_refusal :: "system_record \<Rightarrow> execution \<Rightarrow> int \<Rightarrow> string" where
  "candidate_refusal record e now =
     (if sr_state record \<noteq> SRunning \<and> sr_state record \<noteq> SPaused then ''system stopped or stopping''
      else if sr_revision record \<noteq> e_revision e \<or> sr_blocked_reason record \<noteq> ''''
        then ''model grant revoked or administrative definitions changed''
      else if now \<ge> e_wait_deadline e \<or> now \<ge> e_deadline e then ''queue deadline exceeded''
      else if e_reservation e > sr_remaining_tokens record \<or>
              e_reservation e > e_goal_budget e - e_goal_used e - e_goal_reserved e then ''budget exhausted''
      else '''')"

definition in_group :: "db \<Rightarrow> string \<Rightarrow> string \<Rightarrow> bool" where
  "in_group d grp callID = exists_where (\<lambda>g. cg_group_name g = grp \<and> cg_call_id g = callID) (db_groups d)"

definition window_tokens :: "db \<Rightarrow> string \<Rightarrow> int \<Rightarrow> int" where
  "window_tokens d grp start =
     sum_where (\<lambda>a. in_group d grp (at_call_id a) \<and> at_dispatched_at a > start) at_reservation (db_attempts d)"

definition group_inflight :: "db \<Rightarrow> string \<Rightarrow> int" where
  "group_inflight d grp = count_where (\<lambda>a. in_group d grp (at_call_id a) \<and> at_state a = Running) (db_attempts d)"

definition group_queued :: "db \<Rightarrow> string \<Rightarrow> int" where
  "group_queued d grp = count_where (\<lambda>c. in_group d grp (mc_call_id c) \<and> undispatched (mc_state c)) (db_calls d)"

text \<open>Request credit refilled per millisecond, never above the burst.\<close>

definition refilled :: "quota_config \<Rightarrow> rat \<Rightarrow> int \<Rightarrow> rat" where
  "refilled quota credit elapsed =
     min (of_int (qc_burst_requests quota))
       (credit + of_int elapsed * of_int (qc_requests_per_minute quota) / 60000)"

definition quota_blocks :: "quota_config \<Rightarrow> rat \<Rightarrow> int \<Rightarrow> int \<Rightarrow> int \<Rightarrow> int \<Rightarrow> int \<Rightarrow> bool" where
  "quota_blocks quota credit cooldown tokens inflight reservation now \<longleftrightarrow>
     credit < 1 \<or> cooldown > now \<or> tokens + reservation > qc_tokens_per_minute quota \<or>
     inflight \<ge> qc_max_concurrent quota"

text \<open>The verdict on one group: its clock never goes back, its window is the last minute of that clock.\<close>

definition quota_clock :: "int \<Rightarrow> quota_row \<Rightarrow> int" where
  "quota_clock now q = max now (qs_updated_at q)"

definition quota_credit :: "quota_config \<Rightarrow> int \<Rightarrow> quota_row \<Rightarrow> rat" where
  "quota_credit quota now q = refilled quota (qs_credit q) (quota_clock now q - qs_updated_at q)"

definition quota_verdict :: "configuration \<Rightarrow> execution \<Rightarrow> int \<Rightarrow> bool \<times> int \<Rightarrow> string \<Rightarrow> quota_row \<Rightarrow> db \<Rightarrow> bool \<times> int" where
  "quota_verdict cfg e now acc grp q d =
     (fst acc \<and> \<not> quota_blocks (the_quota cfg grp) (quota_credit (the_quota cfg grp) now q) (qs_cooldown_until q)
        (window_tokens d grp (quota_clock now q - 60000)) (group_inflight d grp) (e_reservation e) now,
      max (snd acc) (quota_clock now q))"

definition quota_step :: "configuration \<Rightarrow> execution \<Rightarrow> int \<Rightarrow> bool \<times> int \<Rightarrow> string \<Rightarrow> (bool \<times> int) op" where
  "quota_step cfg e now acc grp =
     (let quota = the_quota cfg grp in
      tx_seq (tx_insert_or_ignore (\<lambda>x y. qs_group_name x = qs_group_name y) db_quotas db_quotas_update
         \<lparr>qs_group_name = grp, qs_credit = of_int (qc_burst_requests quota), qs_updated_at = now, qs_cooldown_until = 0\<rparr>)
      (tx_bind (tx_find db_quotas (\<lambda>q. qs_group_name q = grp)) (\<lambda>q.
       tx_seq (tx_update db_quotas_update (\<lambda>x. qs_group_name x = grp)
            (\<lambda>x. x\<lparr>qs_credit := quota_credit quota now q, qs_updated_at := quota_clock now q\<rparr>))
          (tx_gets (quota_verdict cfg e now acc grp q)))))"

definition model_groups :: "configuration \<Rightarrow> string \<Rightarrow> string list" where
  "model_groups cfg model = elems (mo_quota_groups (the_model cfg model))"

definition check_quotas :: "configuration \<Rightarrow> execution \<Rightarrow> int \<Rightarrow> (bool \<times> int) op" where
  "check_quotas cfg e now = tx_fold (quota_step cfg e now) (True, now) (model_groups cfg (e_model e))"

definition capacity_reason :: string where
  "capacity_reason = ''waiting for shared rate, cooldown, or concurrency capacity''"

definition attempt_of :: "db \<Rightarrow> execution \<Rightarrow> int \<Rightarrow> attempt_row" where
  "attempt_of d e sent = \<lparr>at_attempt_id = next_seq (db_attempts d), at_call_id = e_call_id e,
     at_system_id = e_system_id e, at_dispatched_at = sent, at_reservation = e_reservation e, at_state = Running,
     at_throttled = False, at_input_tokens = 0, at_output_tokens = 0\<rparr>"

text \<open>The durable record of a dispatch: credit, reservations, the attempt, and the running call.\<close>

definition dispatch :: "configuration \<Rightarrow> execution \<Rightarrow> int \<Rightarrow> int \<Rightarrow> unit op" where
  "dispatch cfg e dispatchAt now =
     tx_seq (tx_foreach (\<lambda>grp. tx_update db_quotas_update (\<lambda>q. qs_group_name q = grp)
               (\<lambda>q. q\<lparr>qs_credit := qs_credit q - 1\<rparr>)) (model_groups cfg (e_model e)))
     (tx_seq (charge_system (e_system_id e) (\<lambda>s. s\<lparr>sy_reserved_tokens := sy_reserved_tokens s + e_reservation e\<rparr>))
     (tx_seq (charge_goal (e_system_id e) (e_goal_id e)
               (\<lambda>g. g\<lparr>gl_reserved_tokens := gl_reserved_tokens g + e_reservation e, gl_state := Running\<rparr>))
     (tx_seq (chargeAgents e (e_reservation e) 0)
     (tx_bind (tx_gets (\<lambda>d. next_seq (db_attempts d))) (\<lambda>seq.
      tx_seq (tx_modify (\<lambda>d. db_attempts_update (\<lambda>rs. rs @ [attempt_of d e dispatchAt]) d))
     (tx_seq (update_system (e_system_id e) (\<lambda>s. s\<lparr>sy_last_admission := seq\<rparr>))
     (tx_seq (update_call (e_call_id e) (\<lambda>c. c\<lparr>mc_state := Running, mc_reason := '''', mc_usage_known := False,
               mc_attempts := mc_attempts c + 1, mc_dispatched_at := dispatchAt,
               mc_queue_wait_ms := mc_queue_wait_ms c + max (now - e_queued_at e) 0\<rparr>))
     (auditExecution (e_system_id e) (e_activation_id e) ''model.dispatch'' (e_revision e) now))))))))"

datatype candidate_outcome = Skipped | Waits | Dispatched

text \<open>
  One candidate of the queue: refused, without capacity, someone else's turn, or dispatched once
  the approvals of its local tools admit another task.
\<close>

definition admit_uses :: "configuration \<Rightarrow> execution \<Rightarrow> int \<Rightarrow> int \<Rightarrow> candidate_outcome op" where
  "admit_uses cfg e dispatchAt now =
     tx_bind (tx_try (admitLearningUses e now)) (\<lambda>r.
     case r of
       Inl err \<Rightarrow> if DeniedTask err then tx_seq (terminalCall e Rejected (error_text err)) (tx_return Skipped)
                  else tx_fail err
     | Inr _ \<Rightarrow> tx_seq (dispatch cfg e dispatchAt now) (tx_return Dispatched))"

definition admit_capacity :: "configuration \<Rightarrow> execution \<Rightarrow> execution \<Rightarrow> int \<Rightarrow> candidate_outcome op" where
  "admit_capacity cfg session e now =
     tx_bind (check_quotas cfg e now) (\<lambda>(allowed, dispatchAt).
     if \<not> allowed then tx_seq (update_call (e_call_id e) (\<lambda>c. c\<lparr>mc_reason := capacity_reason\<rparr>)) (tx_return Skipped)
     else if e_call_id e \<noteq> e_call_id session then tx_return Waits
     else admit_uses cfg e dispatchAt now)"

definition admit_candidate :: "(string \<Rightarrow> string) \<Rightarrow> configuration \<Rightarrow> execution \<Rightarrow> int \<Rightarrow> string \<times> string \<Rightarrow>
    candidate_outcome op" where
  "admit_candidate H cfg session now i =
     tx_bind (readExecution (fst i) (snd i)) (\<lambda>e.
     tx_bind (readSystem H localAdministrator (e_system_id e)) (\<lambda>saved.
     tx_bind (or_else (candidate_refusal (Inspect H cfg saved) e now) (checkTaskAdmission H cfg e now)) (\<lambda>reason.
     if reason \<noteq> '''' then tx_seq (terminalCall e Rejected reason) (tx_return Skipped)
     else admit_capacity cfg session e now)))"

fun admit_loop :: "(string \<Rightarrow> string) \<Rightarrow> configuration \<Rightarrow> execution \<Rightarrow> int \<Rightarrow> (string \<times> string) list \<Rightarrow> bool op" where
  "admit_loop H cfg session now [] = tx_return False"
| "admit_loop H cfg session now (i # ids) =
     tx_bind (admit_candidate H cfg session now i) (\<lambda>outcome.
     case outcome of Skipped \<Rightarrow> admit_loop H cfg session now ids
     | Waits \<Rightarrow> tx_return False | Dispatched \<Rightarrow> tx_return True)"

definition admit :: "(string \<Rightarrow> string) \<Rightarrow> configuration \<Rightarrow> execution \<Rightarrow> int \<Rightarrow> (execution \<times> bool) op" where
  "admit H cfg session now = transaction
     (tx_bind (authorizeCall session) (\<lambda>current.
      if e_state current \<noteq> Queued then tx_return (current, False) else
      tx_bind (tx_gets admission_queue) (\<lambda>ids.
      tx_bind (admit_loop H cfg session now ids) (\<lambda>admitted.
      tx_bind (readExecution (e_system_id session) (e_call_id session)) (\<lambda>e.
      tx_return (e, admitted))))))"

section \<open>Settlement\<close>

record provider_result =
  pr_text :: string
  pr_input :: int
  pr_output :: int
  pr_known :: bool
  pr_reason :: string
  pr_retry :: bool
  pr_cooldown :: "int option"
  pr_retry_delay :: int
  pr_actions :: "model_tool_call list"

definition is_running_attempt :: "execution \<Rightarrow> attempt_row \<Rightarrow> bool" where
  "is_running_attempt e a \<longleftrightarrow> at_call_id a = e_call_id e \<and> at_state a = Running"

text \<open>Known usage replaces the reservation in every ledger; unknown usage stays reserved.\<close>

definition settle_usage :: "execution \<Rightarrow> provider_result \<Rightarrow> unit op" where
  "settle_usage e p =
     (if pr_known p then
        let actual = pr_input p + pr_output p in
        tx_seq (chargeAgents e (- e_reservation e) actual)
        (tx_seq (charge_system (e_system_id e) (\<lambda>s. s\<lparr>sy_reserved_tokens := sy_reserved_tokens s - e_reservation e,
                   sy_used_tokens := sy_used_tokens s + actual\<rparr>))
        (tx_seq (charge_goal (e_system_id e) (e_goal_id e) (\<lambda>g. g\<lparr>gl_reserved_tokens := gl_reserved_tokens g - e_reservation e,
                   gl_used_tokens := gl_used_tokens g + actual\<rparr>))
        (tx_update db_attempts_update (is_running_attempt e)
           (\<lambda>a. a\<lparr>at_state := Known, at_input_tokens := pr_input p, at_output_tokens := pr_output p,
                  at_reservation := max (at_reservation a) actual, at_throttled := pr_retry p\<rparr>))))
      else tx_update db_attempts_update (is_running_attempt e) (\<lambda>a. a\<lparr>at_state := Unknown\<rparr>))"

definition cool_group :: "configuration \<Rightarrow> int \<Rightarrow> int \<times> bool \<Rightarrow> string \<Rightarrow> (int \<times> bool) op" where
  "cool_group cfg cooldown acc grp =
     tx_seq (tx_update db_quotas_update (\<lambda>q. qs_group_name q = grp)
               (\<lambda>q. q\<lparr>qs_cooldown_until := max (qs_cooldown_until q) cooldown\<rparr>))
     (tx_gets (\<lambda>d. (min (fst acc) (qc_max_wait_seconds (the_quota cfg grp)),
        snd acc \<and> \<not> group_queued d grp \<ge> qc_queue_capacity (the_quota cfg grp))))"

text \<open>A throttled call is queued again while attempts, lifetime and capacity allow it.\<close>

definition requeue :: "execution \<Rightarrow> int \<Rightarrow> int \<Rightarrow> string \<Rightarrow> (run_state \<times> string) op" where
  "requeue e wait now reason =
     tx_seq (update_call (e_call_id e)
       (\<lambda>c. c\<lparr>mc_wait_deadline := min (e_deadline e) (now + wait * 1000), mc_queued_at := now\<rparr>))
     (tx_seq (update_goal (e_system_id e) (e_goal_id e) (\<lambda>g. g\<lparr>gl_state := Waiting\<rparr>))
     (tx_return (Queued, reason)))"

definition retry_reason :: "bool \<Rightarrow> string \<Rightarrow> string" where
  "retry_reason available reason =
     (if available then reason else ''provider throttled request; retry queue capacity exhausted'')"

definition settle_retry :: "configuration \<Rightarrow> execution \<Rightarrow> provider_result \<Rightarrow> int \<Rightarrow> run_state \<times> string \<Rightarrow>
    (run_state \<times> string) op" where
  "settle_retry cfg e p now outcome =
     (if \<not> pr_retry p then tx_return outcome else
      let cooldown = (case pr_cooldown p of Some t \<Rightarrow> t | None \<Rightarrow> now + pr_retry_delay p) in
      tx_bind (tx_fold (cool_group cfg cooldown) (3600, True) (model_groups cfg (e_model e))) (\<lambda>(wait, available).
      tx_bind (tx_find db_systems (\<lambda>s. sy_system_id s = e_system_id e)) (\<lambda>s.
      if e_attempts e < 3 \<and> now < e_deadline e \<and> sy_state s = SRunning \<and> available
      then requeue e wait now (retry_reason available (snd outcome))
      else tx_return (fst outcome, retry_reason available (snd outcome)))))"

definition settle :: "configuration \<Rightarrow> execution \<Rightarrow> provider_result \<Rightarrow> int \<Rightarrow> unit op" where
  "settle cfg session p now = transaction
     (tx_bind (authorizeCall session) (\<lambda>e.
      if e_state e \<noteq> Running then tx_return () else
      tx_seq (settle_usage e p)
      (tx_bind (settle_retry cfg e p now
          (if pr_known p then if pr_reason p \<noteq> '''' then Failed else Completed else Unknown, pr_reason p)) (\<lambda>(state, reason).
       tx_seq (update_call (e_call_id e) (\<lambda>c. c\<lparr>mc_state := state, mc_reason := reason, mc_response := pr_text p,
                mc_input_tokens := mc_input_tokens c + pr_input p, mc_output_tokens := mc_output_tokens c + pr_output p,
                mc_usage_known := pr_known p, mc_actions := pr_actions p\<rparr>))
       (auditExecution (e_system_id e) (e_activation_id e) (''model.'' @ state_name state) (e_revision e) now)))))"

record quota_view =
  qv_group :: string
  qv_request_credit :: rat
  qv_cooldown_until :: int
  qv_reserved_rate_tokens :: int
  qv_in_flight :: int
  qv_queued :: int
  qv_limits :: quota_config
  qv_attempts :: int
  qv_throttles :: int

definition quota_view_of :: "db \<Rightarrow> int \<Rightarrow> string \<times> quota_config \<Rightarrow> quota_view" where
  "quota_view_of d clock nq = (case nq of (name, quota) \<Rightarrow>
     let q = List.find (\<lambda>q. qs_group_name q = name) (db_quotas d);
         updated = (case q of Some q \<Rightarrow> qs_updated_at q | None \<Rightarrow> 0);
         now = max clock updated;
         mine = (\<lambda>a. in_group d name (at_call_id a))
     in \<lparr>qv_group = name,
         qv_request_credit = (case q of Some q \<Rightarrow> refilled quota (qs_credit q) (now - updated)
                              | None \<Rightarrow> of_int (qc_burst_requests quota)),
         qv_cooldown_until = (case q of Some q \<Rightarrow> qs_cooldown_until q | None \<Rightarrow> 0),
         qv_reserved_rate_tokens = window_tokens d name (now - 60000),
         qv_in_flight = group_inflight d name, qv_queued = group_queued d name, qv_limits = quota,
         qv_attempts = count_where mine (db_attempts d),
         qv_throttles = count_where (\<lambda>a. mine a \<and> at_throttled a) (db_attempts d)\<rparr>)"

definition quotas :: "configuration \<Rightarrow> int \<Rightarrow> quota_view list op" where
  "quotas cfg clock = tx_gets (\<lambda>d. map (quota_view_of d clock) (cf_quota_groups cfg))"

end
