(* ===== verification/Admission.thy ===== *)
theory Admission
  imports Broker
begin

text \<open>
  What the broker guarantees: a dispatch fits the budgets of the system, the goal and every
  accountable agent and the limits of every shared quota group, is recorded before any request
  starts, happens only for a queued call and in fair order; a refusal costs nothing; the ledger
  of reserved tokens equals the reservations of the attempts whose usage is not known.
\<close>

section \<open>What a read tells of the rows\<close>

lemma readExecution_ok: "readExecution s i d = (Inr e, d') \<longleftrightarrow> d' = d \<and>
    (\<exists>c g. call_of d s i = Some c \<and> goal_of d (mc_system_id c) (mc_goal_id c) = Some g \<and> e = execution_of d c g)"
  by (auto simp: readExecution_def split: option.splits)

lemma authorizeCall_ok: "authorizeCall session d = (Inr e, d') \<longleftrightarrow> d' = d \<and>
    readExecution (e_system_id session) (e_call_id session) d = (Inr e, d) \<and>
    e_activation_id e = e_activation_id session \<and> e_activation_owner e = e_activation_owner session \<and>
    e_revision e = e_revision session \<and> e_goal_id e = e_goal_id session"
proof
  assume "authorizeCall session d = (Inr e, d')"
  then show "d' = d \<and> readExecution (e_system_id session) (e_call_id session) d = (Inr e, d) \<and>
    e_activation_id e = e_activation_id session \<and> e_activation_owner e = e_activation_owner session \<and>
    e_revision e = e_revision session \<and> e_goal_id e = e_goal_id session"
    unfolding authorizeCall_def
    by (elim tx_bind_ok tx_seq_ok) (auto dest: pure_state [OF readExecution_pure])
next
  assume "d' = d \<and> readExecution (e_system_id session) (e_call_id session) d = (Inr e, d) \<and>
    e_activation_id e = e_activation_id session \<and> e_activation_owner e = e_activation_owner session \<and>
    e_revision e = e_revision session \<and> e_goal_id e = e_goal_id session"
  then show "authorizeCall session d = (Inr e, d')"
    by (simp add: authorizeCall_def tx_bind_def tx_seq_def tx_reject_def tx_return_def)
qed

lemma call_of_row: "call_of d s i = Some c \<Longrightarrow> c \<in> set (db_calls d) \<and> mc_system_id c = s \<and> (i = '''' \<or> mc_call_id c = i)"
  by (auto simp: call_of_def dest: find_SomeD)

lemma goal_of_row: "goal_of d s i = Some g \<Longrightarrow> g \<in> set (db_goals d) \<and> gl_system_id g = s \<and> gl_goal_id g = i"
  by (auto simp: goal_of_def dest: find_SomeD)

text \<open>The saved system record shows its row and its current revision.\<close>

definition shows_rows :: "db \<Rightarrow> string \<Rightarrow> string \<Rightarrow> system_record \<Rightarrow> bool" where
  "shows_rows d p i r \<longleftrightarrow> (\<exists>s rv. s \<in> set (db_systems d) \<and> rv \<in> set (db_revisions d) \<and>
    sy_system_id s = i \<and> sy_owner s = p \<and> rv_system_id rv = i \<and> rv_revision rv = sy_revision s \<and>
    sr_id r = i \<and> sr_state r = sy_state s \<and> sr_revision r = sy_revision s \<and>
    sr_used_tokens r = sy_used_tokens s \<and> sr_reserved_tokens r = sy_reserved_tokens s \<and>
    sr_configuration r = rv_definition rv \<and> sr_grants r = rv_grants rv)"

lemma readSystemRow_ok:
  assumes "readSystemRow p i d = (Inr (s, r), d')"
  shows "d' = d \<and> s \<in> set (db_systems d) \<and> r \<in> set (db_revisions d) \<and> sy_system_id s = i \<and> sy_owner s = p \<and>
    rv_system_id r = i \<and> rv_revision r = sy_revision s"
  using assms unfolding readSystemRow_def tx_no_rows_ok
  by (elim tx_bind_ok) (auto dest!: find_SomeD)

definition same_rows :: "system_record \<Rightarrow> system_record \<Rightarrow> bool" where
  "same_rows r r' \<longleftrightarrow> sr_id r = sr_id r' \<and> sr_state r = sr_state r' \<and> sr_revision r = sr_revision r' \<and>
    sr_used_tokens r = sr_used_tokens r' \<and> sr_reserved_tokens r = sr_reserved_tokens r' \<and>
    sr_configuration r = sr_configuration r' \<and> sr_grants r = sr_grants r'"

lemma with_execution_ok: "with_execution i r d = (Inr r', d') \<Longrightarrow> same_rows r r'"
  unfolding with_execution_def
  by (elim tx_bind_ok) (auto simp: same_rows_def split: option.splits)

lemma shows_rows_same: "same_rows r r' \<Longrightarrow> shows_rows d p i r = shows_rows d p i r'"
  by (simp add: same_rows_def shows_rows_def)

lemma shows_rows_of:
  "s \<in> set (db_systems d) \<Longrightarrow> rv \<in> set (db_revisions d) \<Longrightarrow> sy_system_id s = i \<Longrightarrow> sy_owner s = p \<Longrightarrow>
   rv_system_id rv = i \<Longrightarrow> rv_revision rv = sy_revision s \<Longrightarrow>
   shows_rows d p i ((system_record_of s rv locals)\<lparr>sr_goal := g\<rparr>)"
  unfolding shows_rows_def by (rule exI [of _ s], rule exI [of _ rv]) (simp add: system_record_of_def)

lemma readSystem_ok:
  assumes "readSystem H p i d = (Inr r, d')"
  shows "d' = d" and "shows_rows d p i r"
proof -
  show "d' = d" by (rule pure_state [OF readSystem_pure assms])
  from assms obtain s rv d1 locals d2 goal d3 where row: "readSystemRow p i d = (Inr (s, rv), d1)"
    and r: "with_execution i ((system_record_of s rv locals)\<lparr>sr_goal := map_option initial_goal_of goal\<rparr>) d3 = (Inr r, d')"
    unfolding readSystem_def by (auto elim!: tx_bind_ok)
  from readSystemRow_ok [OF row] show "shows_rows d p i r"
    unfolding shows_rows_same [OF with_execution_ok [OF r], symmetric] by (intro shows_rows_of) auto
qed

section \<open>Columns an admission never changes\<close>

definition call_static :: "call_row \<Rightarrow> string \<times> string \<times> string \<times> string \<times> string \<times> int \<times> string \<times> int \<times> int \<times> string" where
  "call_static c = (mc_call_id c, mc_system_id c, mc_goal_id c, mc_task_id c, mc_activation_id c, mc_revision c,
     mc_model c, mc_reservation c, mc_deadline c, mc_agent_id c)"

definition exec_static :: "execution \<Rightarrow> string \<times> string \<times> string \<times> string \<times> string \<times> int \<times> string \<times> int \<times> int \<times> string" where
  "exec_static e = (e_call_id e, e_system_id e, e_goal_id e, e_task_id e, e_activation_id e, e_revision e,
     e_model e, e_reservation e, e_deadline e, e_agent_id e)"

definition goal_static :: "goal_row \<Rightarrow> string \<times> string \<times> int" where
  "goal_static g = (gl_system_id g, gl_goal_id g, gl_token_budget g)"

definition statics :: "db \<Rightarrow> _" where
  "statics d = (map call_static (db_calls d), map goal_static (db_goals d))"

definition core :: "db \<Rightarrow> _" where
  "core d = (db_systems d, db_goals d, db_usage d, db_attempts d, db_agents d, db_agent_revisions d, db_tasks d,
     db_revisions d, db_groups d, db_audit d)"

lemma exec_static_of: "exec_static (execution_of d c g) = call_static c"
  by (simp add: exec_static_def call_static_def execution_of_def)

lemma goal_of_statics:
  assumes "statics d = statics d'"
  shows "(goal_of d s i = None) = (goal_of d' s i = None)"
proof -
  have "rel_option (\<lambda>x y. goal_static x = goal_static y) (goal_of d s i) (goal_of d' s i)"
    unfolding goal_of_def
  proof (rule find_agree)
    show "map goal_static (db_goals d) = map goal_static (db_goals d')" using assms by (simp add: statics_def)
  qed (simp add: goal_static_def)
  then show ?thesis by (cases "goal_of d s i"; cases "goal_of d' s i") auto
qed

lemma call_of_statics:
  assumes "statics d = statics d'"
  shows "rel_option (\<lambda>x y. call_static x = call_static y) (call_of d s i) (call_of d' s i)"
  unfolding call_of_def
proof (rule find_agree)
  show "map call_static (rev (db_calls d)) = map call_static (rev (db_calls d'))"
    using assms by (simp add: statics_def rev_map [symmetric])
next
  fix x y :: call_row assume "call_static x = call_static y"
  then show "(mc_system_id x = s \<and> (i = '''' \<or> mc_call_id x = i) \<and> goal_of d (mc_system_id x) (mc_goal_id x) \<noteq> None) =
    (mc_system_id y = s \<and> (i = '''' \<or> mc_call_id y = i) \<and> goal_of d' (mc_system_id y) (mc_goal_id y) \<noteq> None)"
    using goal_of_statics [OF assms] by (auto simp: call_static_def)
qed

lemma readExecution_statics:
  assumes "statics d = statics d'" "readExecution s i d = (Inr e, d1)" "readExecution s i d' = (Inr e', d1')"
  shows "exec_static e = exec_static e'"
  using call_of_statics [OF assms(1), of s i] assms(2,3) by (auto simp: readExecution_ok exec_static_of)

section \<open>The body of the admission loop\<close>

text \<open>Quota bookkeeping and the count of local-tool uses touch nothing else.\<close>

definition standing :: "db \<Rightarrow> _" where
  "standing d = (core d, db_calls d)"

lemmas frame_rules = frame.rels db_frame.reads

lemma check_quotas_standing: "tx_rel (same standing) (check_quotas cfg e now)"
  unfolding check_quotas_def quota_step_def
  by (intro frame_rules db_frame.rel_update db_frame.rel_insert_or_ignore) (simp_all add: same_def standing_def core_def)

lemma admitLearningUses_standing: "tx_rel (same standing) (admitLearningUses e now)"
  unfolding admitLearningUses_def consume_use_def
  by (intro frame_rules db_frame.rel_update db_frame.rel_insert db_frame.rel_pure [OF pending_use_pure]
      db_frame.rel_pure [OF readTask_pure]) (simp_all add: same_def standing_def core_def)

lemma learning_refusal_pure [reading]: "tx_rel (=) (learning_refusal H cfg t now)"
  unfolding learning_refusal_def denied_text_def by (intro pure_rules reading)

lemma pins_refusal_pure [reading]: "tx_rel (=) (pins_refusal H cfg e t now)"
  unfolding pins_refusal_def by (intro pure_rules reading)

lemma agents_afford_pure [reading]: "tx_rel (=) (agents_afford e ids)"
  by (induction ids) (auto intro!: pure_rules)

lemma or_else_pure [reading]: "tx_rel (=) m \<Longrightarrow> tx_rel (=) (or_else r m)"
  unfolding or_else_def by (intro pure_rules)

lemma checkTaskAdmission_pure [reading]: "tx_rel (=) (checkTaskAdmission H cfg e now)"
  unfolding checkTaskAdmission_def grants_refusal_def ledger_refusal_def budgetAgents_def by (intro pure_rules reading)

text \<open>What a candidate leaves behind when it is passed over.\<close>

definition rejects :: "execution \<Rightarrow> string \<Rightarrow> db \<Rightarrow> db \<Rightarrow> bool" where
  "rejects e reason d d' \<longleftrightarrow> core d' = core d \<and>
     db_calls d' = update_where (\<lambda>c. mc_system_id c = e_system_id e \<and> mc_call_id c = e_call_id e)
       (\<lambda>c. c\<lparr>mc_state := Rejected, mc_reason := reason\<rparr>) (db_calls d)"

definition defers :: "execution \<Rightarrow> db \<Rightarrow> db \<Rightarrow> bool" where
  "defers e d d' \<longleftrightarrow> core d' = core d \<and>
     db_calls d' = update_where (\<lambda>c. mc_call_id c = e_call_id e) (\<lambda>c. c\<lparr>mc_reason := capacity_reason\<rparr>) (db_calls d)"

text \<open>A candidate passes every check that reads: grants, budgets, and the shared quotas.\<close>

definition eligible :: "(string \<Rightarrow> string) \<Rightarrow> configuration \<Rightarrow> execution \<Rightarrow> int \<Rightarrow> db \<Rightarrow> bool" where
  "eligible H cfg e now d \<longleftrightarrow>
     (\<exists>saved. readSystem H localAdministrator (e_system_id e) d = (Inr saved, d) \<and>
        candidate_refusal (Inspect H cfg saved) e now = '''') \<and>
     checkTaskAdmission H cfg e now d = (Inr '''', d) \<and>
     (\<exists>sent dq. check_quotas cfg e now d = (Inr (True, sent), dq))"

lemma or_else_ok:
  "or_else r m d = (Inr reason, d') \<Longrightarrow> tx_rel (=) m \<Longrightarrow>
   d' = d \<and> (reason = '''' \<longrightarrow> r = '''' \<and> m d = (Inr '''', d))"
  by (auto simp: or_else_def split: if_splits dest: pure_state)

lemma standing_state: "tx_rel (same standing) m \<Longrightarrow> m d = (r, d') \<Longrightarrow> core d' = core d \<and> db_calls d' = db_calls d"
  by (drule tx_rel_sameD [of _ _ d]) (simp add: standing_def)

lemma admit_uses_cases:
  assumes "admit_uses cfg e sent now d = (Inr outcome, d')"
  obtains (rejected) reason where "outcome = Skipped" "rejects e reason d d'"
  | (dispatched) d1 where "outcome = Dispatched" "core d1 = core d" "db_calls d1 = db_calls d"
      "dispatch cfg e sent now d1 = (Inr (), d')"
proof -
  from assms obtain r d1 where u: "admitLearningUses e now d = (r, d1)"
    and rest: "(case r of
       Inl err \<Rightarrow> if DeniedTask err then tx_seq (terminalCall e Rejected (error_text err)) (tx_return Skipped)
                  else tx_fail err
     | Inr _ \<Rightarrow> tx_seq (dispatch cfg e sent now) (tx_return Dispatched)) d1 = (Inr outcome, d')"
    unfolding admit_uses_def by (elim tx_bind_ok) simp
  note k = standing_state [OF admitLearningUses_standing u]
  show thesis
  proof (cases r)
    case (Inl err)
    with rest k have "outcome = Skipped" "rejects e (error_text err) d d'"
      by (auto simp: rejects_def terminalCall_def core_def elim!: tx_seq_ok split: if_splits)
    then show thesis by (rule rejected)
  next
    case (Inr x)
    with rest have "outcome = Dispatched" "dispatch cfg e sent now d1 = (Inr (), d')"
      by (auto elim!: tx_seq_ok)
    with k show thesis by (intro dispatched) auto
  qed
qed

lemma admit_capacity_cases:
  assumes "admit_capacity cfg session e now d = (Inr outcome, d')"
  obtains (deferred) "outcome = Skipped" "defers e d d'"
  | (waits) "outcome = Waits" "core d' = core d" "db_calls d' = db_calls d"
  | (rejected) reason where "outcome = Skipped" "rejects e reason d d'"
  | (dispatched) dq sent d1 where "outcome = Dispatched" "check_quotas cfg e now d = (Inr (True, sent), dq)"
      "e_call_id e = e_call_id session" "core d1 = core d" "db_calls d1 = db_calls d"
      "dispatch cfg e sent now d1 = (Inr (), d')"
proof -
  from assms obtain allowed sent dq where q: "check_quotas cfg e now d = (Inr (allowed, sent), dq)"
    and rest: "(if \<not> allowed then tx_seq (update_call (e_call_id e) (\<lambda>c. c\<lparr>mc_reason := capacity_reason\<rparr>)) (tx_return Skipped)
     else if e_call_id e \<noteq> e_call_id session then tx_return Waits
     else admit_uses cfg e sent now) dq = (Inr outcome, d')"
    unfolding admit_capacity_def by (elim tx_bind_ok) auto
  note k = standing_state [OF check_quotas_standing q]
  consider "\<not> allowed" | "allowed" "e_call_id e \<noteq> e_call_id session" | "allowed" "e_call_id e = e_call_id session" by blast
  then show thesis
  proof cases
    case 1
    with rest k have "outcome = Skipped" "defers e d d'"
      by (auto simp: defers_def update_call_def core_def elim!: tx_seq_ok)
    then show thesis by (rule deferred)
  next
    case 2 with rest k waits show thesis by auto
  next
    case 3
    with rest have "admit_uses cfg e sent now dq = (Inr outcome, d')" by simp
    then show thesis
    proof (cases rule: admit_uses_cases)
      case (rejected reason)
      with k have "rejects e reason d d'" by (auto simp: rejects_def)
      with rejected show thesis using that(3) by blast
    next
      case (dispatched d1)
      with k q 3 show thesis using that(4) by auto
    qed
  qed
qed

lemma admit_candidate_cases:
  assumes "admit_candidate H cfg session now i d = (Inr outcome, d')"
  obtains (rejected) e reason where "outcome = Skipped" "readExecution (fst i) (snd i) d = (Inr e, d)" "rejects e reason d d'"
  | (deferred) e where "outcome = Skipped" "readExecution (fst i) (snd i) d = (Inr e, d)" "defers e d d'"
  | (waits) "outcome = Waits" "core d' = core d" "db_calls d' = db_calls d"
  | (dispatched) e d1 sent where "outcome = Dispatched" "readExecution (fst i) (snd i) d = (Inr e, d)"
      "e_call_id e = e_call_id session" "eligible H cfg e now d" "core d1 = core d" "db_calls d1 = db_calls d"
      "dispatch cfg e sent now d1 = (Inr (), d')"
proof -
  from assms obtain e d1 saved d2 reason d3 where e: "readExecution (fst i) (snd i) d = (Inr e, d1)"
    and saved: "readSystem H localAdministrator (e_system_id e) d1 = (Inr saved, d2)"
    and reason: "or_else (candidate_refusal (Inspect H cfg saved) e now) (checkTaskAdmission H cfg e now) d2 = (Inr reason, d3)"
    and rest: "(if reason \<noteq> '''' then tx_seq (terminalCall e Rejected reason) (tx_return Skipped)
     else admit_capacity cfg session e now) d3 = (Inr outcome, d')"
    unfolding admit_candidate_def by (elim tx_bind_ok) blast
  have [simp]: "d1 = d" using e by (rule pure_state [OF readExecution_pure])
  have [simp]: "d2 = d" using readSystem_ok(1) [OF saved] by simp
  have [simp]: "d3 = d" using or_else_ok [OF reason checkTaskAdmission_pure] by simp
  note e = e [simplified] and saved = saved [simplified] and reason = reason [simplified]
  show thesis
  proof (cases "reason = ''''")
    case False
    with rest have "outcome = Skipped" "rejects e reason d d'"
      by (auto simp: rejects_def terminalCall_def core_def elim!: tx_seq_ok)
    then show thesis using e rejected by blast
  next
    case True
    have ok: "candidate_refusal (Inspect H cfg saved) e now = ''''" "checkTaskAdmission H cfg e now d = (Inr '''', d)"
      using or_else_ok [OF reason checkTaskAdmission_pure] True by blast+
    from True rest have "admit_capacity cfg session e now d = (Inr outcome, d')" by simp
    then show thesis
    proof (cases rule: admit_capacity_cases)
      case deferred then show thesis using e that(2) by blast
    next
      case waits then show thesis using that(3) by blast
    next
      case (rejected reason) then show thesis using e that(1) by blast
    next
      case (dispatched dq sent d1)
      then have "eligible H cfg e now d" using saved ok by (auto simp: eligible_def)
      with dispatched show thesis using e that(4) by blast
    qed
  qed
qed

section \<open>The loop\<close>

fun passed_over :: "execution list \<Rightarrow> db \<Rightarrow> db \<Rightarrow> bool" where
  "passed_over [] d d' \<longleftrightarrow> core d' = core d \<and> db_calls d' = db_calls d"
| "passed_over (e # es) d d' \<longleftrightarrow>
     (\<exists>d1. ((\<exists>reason. rejects e reason d d1) \<or> defers e d d1) \<and> passed_over es d1 d')"

definition names :: "execution \<Rightarrow> string \<times> string \<Rightarrow> bool" where
  "names e i \<longleftrightarrow> e_system_id e = fst i \<and> (snd i = '''' \<or> e_call_id e = snd i)"

lemma readExecution_names: "readExecution (fst i) (snd i) d = (Inr e, d') \<Longrightarrow> names e i"
  by (auto simp: names_def readExecution_ok execution_of_def dest: call_of_row)

text \<open>A successful loop passed over a prefix of the queue, then dispatched or stopped.\<close>

lemma admit_loop_cases:
  assumes "admit_loop H cfg session now ids d = (Inr admitted, d')"
  obtains (refused) pre post es where "\<not> admitted" "ids = pre @ post" "list_all2 names es pre" "passed_over es d d'"
  | (admitted) pre i post es e d1 d2 sent where "admitted" "ids = pre @ i # post" "list_all2 names es pre"
      "passed_over es d d1" "readExecution (fst i) (snd i) d1 = (Inr e, d1)" "e_call_id e = e_call_id session"
      "eligible H cfg e now d1" "core d2 = core d1" "db_calls d2 = db_calls d1"
      "dispatch cfg e sent now d2 = (Inr (), d')"
  using assms
proof (induction ids arbitrary: d thesis)
  case Nil
  then show thesis by (intro Nil.prems(1) [of "[]" "[]" "[]"]) auto
next
  case (Cons i ids)
  from Cons.prems(3) obtain outcome d1 where o: "admit_candidate H cfg session now i d = (Inr outcome, d1)"
    and rest: "(case outcome of Skipped \<Rightarrow> admit_loop H cfg session now ids
     | Waits \<Rightarrow> tx_return False | Dispatched \<Rightarrow> tx_return True) d1 = (Inr admitted, d')"
    by (auto elim: tx_bind_ok)
  have skip: thesis if "outcome = Skipped" "readExecution (fst i) (snd i) d = (Inr e, d)"
      "(\<exists>reason. rejects e reason d d1) \<or> defers e d d1" for e
  proof -
    from that(1) rest have "admit_loop H cfg session now ids d1 = (Inr admitted, d')" by simp
    then show thesis
    proof (rule Cons.IH [rotated 2])
      fix pre post es assume "\<not> admitted" "ids = pre @ post" "list_all2 names es pre" "passed_over es d1 d'"
      with that readExecution_names [OF that(2)] show thesis
        by (intro Cons.prems(1) [of "i # pre" post "e # es"]) auto
    next
      fix pre i' post es e' d1' d2 sent
      assume a: "admitted" "ids = pre @ i' # post" "list_all2 names es pre" "passed_over es d1 d1'"
        "readExecution (fst i') (snd i') d1' = (Inr e', d1')" "e_call_id e' = e_call_id session"
        "eligible H cfg e' now d1'" "core d2 = core d1'" "db_calls d2 = db_calls d1'"
        "dispatch cfg e' sent now d2 = (Inr (), d')"
      show thesis
        by (rule Cons.prems(2) [of "i # pre" i' post "e # es" d1' e' d2 sent])
          (use a that readExecution_names [OF that(2)] in auto)
    qed
  qed
  from o show thesis
  proof (cases rule: admit_candidate_cases)
    case (rejected e reason) then show thesis using skip by blast
  next
    case (deferred e) then show thesis using skip by blast
  next
    case waits
    with rest show thesis by (intro Cons.prems(1) [of "[]" "i # ids" "[]"]) auto
  next
    case (dispatched e d2 sent)
    show thesis
      by (rule Cons.prems(2) [of "[]" i ids "[]" d e d2 sent]) (use dispatched rest in auto)
  qed
qed

text \<open>Passing over changes the state or the reason of calls, and nothing else.\<close>

lemma rejects_statics: "rejects e reason d d' \<Longrightarrow> core d' = core d \<and> statics d' = statics d"
  by (auto simp: rejects_def statics_def core_def call_static_def intro!: map_update_where)

lemma defers_statics: "defers e d d' \<Longrightarrow> core d' = core d \<and> statics d' = statics d"
  by (auto simp: defers_def statics_def core_def call_static_def intro!: map_update_where)

lemma passed_over_statics: "passed_over es d d' \<Longrightarrow> core d' = core d \<and> statics d' = statics d"
proof (induction es arbitrary: d)
  case Nil then show ?case by (simp add: statics_def core_def)
next
  case (Cons e es)
  then show ?case by (auto dest!: rejects_statics defers_statics)
qed

section \<open>The dispatch\<close>

lemma update_where_each:
  assumes "distinct ids" and "\<And>r. key (f r) = key r" and "\<And>r. P (f r) = P r"
  shows "fold (\<lambda>i. update_where (\<lambda>r. P r \<and> key r = i) f) ids rs = update_where (\<lambda>r. P r \<and> key r \<in> set ids) f rs"
  using assms(1)
proof (induction ids arbitrary: rs)
  case Nil then show ?case by (simp add: update_where_def)
next
  case (Cons i ids)
  then have "fold (\<lambda>i. update_where (\<lambda>r. P r \<and> key r = i) f) (i # ids) rs =
      update_where (\<lambda>r. P r \<and> key r \<in> set ids) f (update_where (\<lambda>r. P r \<and> key r = i) f rs)" by simp
  also have "\<dots> = update_where (\<lambda>r. P r \<and> key r \<in> set (i # ids)) f rs"
    using Cons.prems by (auto simp: update_where_def assms(2,3))
  finally show ?case .
qed

lemma tx_foreach_update:
  "tx_foreach (\<lambda>i. tx_update upd (P i) (f i)) ids d = (Inr (), fold (\<lambda>i. upd (update_where (P i) (f i))) ids d)"
  by (induction ids arbitrary: d) (auto simp: tx_return_def tx_seq_def tx_bind_def tx_update_def tx_modify_def)

lemma fold_usage_update: "fold (\<lambda>i. db_usage_update (g i)) ids d = db_usage_update (fold g ids) d"
  by (induction ids arbitrary: d) (auto simp: comp_def)

lemma fold_quotas_update: "fold (\<lambda>i. db_quotas_update (g i)) ids d = db_quotas_update (fold g ids) d"
  by (induction ids arbitrary: d) (auto simp: comp_def)

text \<open>Every accountable agent is charged, once.\<close>

definition charge_usage :: "db \<Rightarrow> execution \<Rightarrow> int \<Rightarrow> int \<Rightarrow> usage_row list \<Rightarrow> usage_row list" where
  "charge_usage d e reserved used = update_where
     (\<lambda>u. (us_system_id u = e_system_id e \<and> us_goal_id u = e_goal_id e) \<and> us_agent_id u \<in> set (ledger_agents d e))
     (\<lambda>u. u\<lparr>us_reserved_tokens := us_reserved_tokens u + reserved, us_used_tokens := us_used_tokens u + used\<rparr>)"

lemma chargeAgents_run:
  "chargeAgents e reserved used d = (Inr (), db_usage_update (charge_usage d e reserved used) d)"
proof -
  have "fold (\<lambda>i. update_where (\<lambda>u. (us_system_id u = e_system_id e \<and> us_goal_id u = e_goal_id e) \<and> us_agent_id u = i)
      (\<lambda>u. u\<lparr>us_reserved_tokens := us_reserved_tokens u + reserved, us_used_tokens := us_used_tokens u + used\<rparr>))
      (ledger_agents d e) = charge_usage d e reserved used"
    unfolding charge_usage_def by (intro ext update_where_each) (simp_all add: ledger_agents_def)
  then show ?thesis
    unfolding chargeAgents_def budgetAgents_def tx_bind_def tx_gets_def
    by (simp only: prod.case sum.case tx_foreach_update fold_usage_update)
qed

definition started :: "execution \<Rightarrow> int \<Rightarrow> int \<Rightarrow> call_row \<Rightarrow> call_row" where
  "started e sent now c = c\<lparr>mc_state := Running, mc_reason := '''', mc_usage_known := False,
     mc_attempts := mc_attempts c + 1, mc_dispatched_at := sent,
     mc_queue_wait_ms := mc_queue_wait_ms c + max (now - e_queued_at e) 0\<rparr>"

lemma update_where_twice:
  "(\<And>r. P (f r) = P r) \<Longrightarrow> update_where P g (update_where P f rs) = update_where P (\<lambda>r. g (f r)) rs"
  by (auto simp: update_where_def)

lemma ledger_agents_same: "db_agents d = db_agents d' \<Longrightarrow> db_tasks d = db_tasks d' \<Longrightarrow> ledger_agents d e = ledger_agents d' e"
  by (simp add: ledger_agents_def agent_lineage_def task_lineage_def Let_def)

lemma dispatch_ok:
  assumes "dispatch cfg e sent now d = (Inr (), d')"
  shows "db_attempts d' = db_attempts d @ [attempt_of d e sent]"
    and "db_systems d' = update_where (\<lambda>s. sy_system_id s = e_system_id e)
      (\<lambda>s. s\<lparr>sy_reserved_tokens := sy_reserved_tokens s + e_reservation e, sy_last_admission := next_seq (db_attempts d)\<rparr>) (db_systems d)"
    and "db_goals d' = update_where (\<lambda>g. gl_system_id g = e_system_id e \<and> gl_goal_id g = e_goal_id e)
      (\<lambda>g. g\<lparr>gl_reserved_tokens := gl_reserved_tokens g + e_reservation e, gl_state := Running\<rparr>) (db_goals d)"
    and "db_usage d' = charge_usage d e (e_reservation e) 0 (db_usage d)"
    and "db_calls d' = update_where (\<lambda>c. mc_call_id c = e_call_id e) (started e sent now) (db_calls d)"
proof -
  define d1 where "d1 = fold (\<lambda>g. db_quotas_update (update_where (\<lambda>q. qs_group_name q = g) (\<lambda>q. q\<lparr>qs_credit := qs_credit q - 1\<rparr>)))
      (model_groups cfg (e_model e)) d"
  have d1: "db_attempts d1 = db_attempts d" "db_systems d1 = db_systems d" "db_goals d1 = db_goals d"
      "db_usage d1 = db_usage d" "db_calls d1 = db_calls d" "db_agents d1 = db_agents d" "db_tasks d1 = db_tasks d"
    by (simp_all add: d1_def fold_quotas_update)
  note ledger = ledger_agents_same [OF d1(6,7)]
  note run = assms [unfolded dispatch_def tx_foreach_update charge_system_def charge_goal_def update_system_def update_call_def auditExecution_def]
  from run show "db_attempts d' = db_attempts d @ [attempt_of d e sent]"
    by (elim tx_seq_ok tx_bind_ok)
      (auto simp: chargeAgents_run tx_foreach_update d1 attempt_of_def simp flip: d1_def)
  from run show "db_systems d' = update_where (\<lambda>s. sy_system_id s = e_system_id e)
      (\<lambda>s. s\<lparr>sy_reserved_tokens := sy_reserved_tokens s + e_reservation e, sy_last_admission := next_seq (db_attempts d)\<rparr>) (db_systems d)"
    by (elim tx_seq_ok tx_bind_ok)
      (auto simp: chargeAgents_run tx_foreach_update d1 update_where_twice simp flip: d1_def)
  from run show "db_goals d' = update_where (\<lambda>g. gl_system_id g = e_system_id e \<and> gl_goal_id g = e_goal_id e)
      (\<lambda>g. g\<lparr>gl_reserved_tokens := gl_reserved_tokens g + e_reservation e, gl_state := Running\<rparr>) (db_goals d)"
    by (elim tx_seq_ok tx_bind_ok)
      (auto simp: chargeAgents_run tx_foreach_update d1 simp flip: d1_def)
  from run show "db_usage d' = charge_usage d e (e_reservation e) 0 (db_usage d)"
    by (elim tx_seq_ok tx_bind_ok)
      (auto simp: chargeAgents_run tx_foreach_update d1 charge_usage_def ledger_agents_def agent_lineage_def task_lineage_def
        Let_def simp flip: d1_def)
  from run show "db_calls d' = update_where (\<lambda>c. mc_call_id c = e_call_id e) (started e sent now) (db_calls d)"
    by (elim tx_seq_ok tx_bind_ok)
      (auto simp: chargeAgents_run tx_foreach_update d1 started_def [abs_def] simp flip: d1_def)
qed

lemma dispatch_statics: "dispatch cfg e sent now d = (Inr (), d') \<Longrightarrow> statics d' = statics d"
  by (auto simp: statics_def dispatch_ok call_static_def goal_static_def started_def intro!: map_update_where)

section \<open>Budgets and quotas at a dispatch\<close>

text \<open>Call identities: the UNIQUE key of model_calls, and no call without one.\<close>

definition keyed_calls :: "db \<Rightarrow> bool" where
  "keyed_calls d \<longleftrightarrow> distinct (map mc_call_id (db_calls d)) \<and> '''' \<notin> mc_call_id ` set (db_calls d)"

lemma keyed_calls_statics: "statics d = statics d' \<Longrightarrow> keyed_calls d = keyed_calls d'"
proof -
  assume "statics d = statics d'"
  then have "map fst (map call_static (db_calls d)) = map fst (map call_static (db_calls d'))"
    by (simp add: statics_def)
  then have "map mc_call_id (db_calls d) = map mc_call_id (db_calls d')"
    by (simp add: comp_def call_static_def)
  then show ?thesis unfolding keyed_calls_def by (metis list.set_map)
qed

lemma call_static_row:
  assumes "statics d = statics d'" "c \<in> set (db_calls d)"
  obtains c' where "c' \<in> set (db_calls d')" "call_static c' = call_static c"
proof -
  from assms(2) have "call_static c \<in> set (map call_static (db_calls d))" by simp
  also have "map call_static (db_calls d) = map call_static (db_calls d')" using assms(1) by (simp add: statics_def)
  finally show thesis using that by auto
qed

lemma keyed_row: "keyed_calls d \<Longrightarrow> c \<in> set (db_calls d) \<Longrightarrow> c' \<in> set (db_calls d) \<Longrightarrow>
    mc_call_id c = mc_call_id c' \<Longrightarrow> c = c'"
  by (auto simp: keyed_calls_def intro: distinct_key_unique)

text \<open>In a keyed table a call's identity determines what is read of it.\<close>

lemma readExecution_row:
  assumes "readExecution s i d = (Inr e, d')"
  obtains c where "c \<in> set (db_calls d)" "exec_static e = call_static c" "mc_system_id c = s" "i = '''' \<or> mc_call_id c = i"
    "mc_state c = e_state e" "mc_attempts c = e_attempts e"
  using assms by (auto simp: readExecution_ok execution_of_def exec_static_def call_static_def dest!: call_of_row)

lemma readExecution_keyed:
  assumes "keyed_calls d" "statics d = statics d'" "readExecution s i d = (Inr e, d1)"
    and "readExecution s' i' d' = (Inr e', d2)" "i \<noteq> ''''" "i' = i \<or> i' = e_call_id e"
  shows "exec_static e = exec_static e'"
proof -
  obtain c where c: "c \<in> set (db_calls d)" "exec_static e = call_static c" "i = '''' \<or> mc_call_id c = i"
    using readExecution_row [OF assms(3)] by blast
  obtain c' where c': "c' \<in> set (db_calls d')" "exec_static e' = call_static c'" "i' = '''' \<or> mc_call_id c' = i'"
    using readExecution_row [OF assms(4)] by blast
  obtain c'' where c'': "c'' \<in> set (db_calls d)" "call_static c'' = call_static c'"
    using call_static_row [OF assms(2) [symmetric] c'(1)] by blast
  have "e_call_id e = mc_call_id c" using c(2) by (simp add: exec_static_def call_static_def)
  with assms(5,6) c(3) c'(3) have "mc_call_id c' = mc_call_id c" by auto
  with c''(2) have "mc_call_id c'' = mc_call_id c" by (simp add: call_static_def)
  with keyed_row [OF assms(1) c''(1) c(1)] have "c'' = c" by simp
  with c c' c'' show ?thesis by simp
qed

lemma Inspect_fields:
  "sr_state (Inspect H cfg r) = sr_state r" "sr_revision (Inspect H cfg r) = sr_revision r"
  "sr_remaining_tokens (Inspect H cfg r) =
     sl_token_budget (sc_limits (sr_configuration r)) - sr_used_tokens r - sr_reserved_tokens r"
  "sr_id (Inspect H cfg r) = sr_id r" "sr_configuration (Inspect H cfg r) = sr_configuration r"
  "sr_grants (Inspect H cfg r) = sr_grants r"
  by (simp_all add: Inspect_def Let_def split: option.splits)

text \<open>The reservation fits the remaining budget of the system and of the goal.\<close>

definition fits_budgets :: "db \<Rightarrow> execution \<Rightarrow> bool" where
  "fits_budgets d e \<longleftrightarrow>
     (\<exists>s \<in> set (db_systems d). \<exists>rv \<in> set (db_revisions d).
        sy_system_id s = e_system_id e \<and> rv_system_id rv = e_system_id e \<and> rv_revision rv = sy_revision s \<and>
        (sy_state s = SRunning \<or> sy_state s = SPaused) \<and> sy_revision s = e_revision e \<and>
        sy_used_tokens s + sy_reserved_tokens s + e_reservation e \<le> sl_token_budget (sc_limits (rv_definition rv))) \<and>
     (\<exists>g \<in> set (db_goals d). gl_system_id g = e_system_id e \<and> gl_goal_id g = e_goal_id e \<and>
        gl_used_tokens g + gl_reserved_tokens g + e_reservation e \<le> gl_token_budget g)"

lemma eligible_fits:
  assumes "eligible H cfg e now d" "readExecution s i d = (Inr e, d1)"
  shows "fits_budgets d e"
proof -
  from assms(1) obtain saved where saved: "readSystem H localAdministrator (e_system_id e) d = (Inr saved, d)"
    and ok: "candidate_refusal (Inspect H cfg saved) e now = ''''"
    unfolding eligible_def by blast
  from readSystem_ok(2) [OF saved] obtain sy rv where rows: "sy \<in> set (db_systems d)" "rv \<in> set (db_revisions d)"
    "sy_system_id sy = e_system_id e" "rv_system_id rv = e_system_id e" "rv_revision rv = sy_revision sy"
    "sr_state saved = sy_state sy" "sr_revision saved = sy_revision sy" "sr_used_tokens saved = sy_used_tokens sy"
    "sr_reserved_tokens saved = sy_reserved_tokens sy" "sr_configuration saved = rv_definition rv"
    unfolding shows_rows_def by blast
  from assms(2) obtain c g where g: "goal_of d (mc_system_id c) (mc_goal_id c) = Some g" "e = execution_of d c g"
    by (auto simp: readExecution_ok)
  from goal_of_row [OF g(1)] g(2) have goal: "g \<in> set (db_goals d)" "gl_system_id g = e_system_id e"
    "gl_goal_id g = e_goal_id e" "e_goal_budget e = gl_token_budget g" "e_goal_used e = gl_used_tokens g"
    "e_goal_reserved e = gl_reserved_tokens g"
    by (auto simp: execution_of_def)
  from ok have "sr_state saved = SRunning \<or> sr_state saved = SPaused" "sr_revision saved = e_revision e"
    "e_reservation e \<le> sr_remaining_tokens (Inspect H cfg saved)"
    "e_reservation e \<le> e_goal_budget e - e_goal_used e - e_goal_reserved e"
    by (auto simp: candidate_refusal_def Inspect_fields split: if_splits)
  with rows goal show ?thesis
    unfolding fits_budgets_def Inspect_fields by (intro conjI bexI [of _ sy] bexI [of _ rv] bexI [of _ g]) auto
qed

text \<open>The agents of both ancestries can afford it, and each shared group has room.\<close>

lemma agents_afford_all:
  "agents_afford e ids d = (Inr True, d') \<Longrightarrow> i \<in> set ids \<Longrightarrow>
   \<exists>left. agent_allowance d e i = Some left \<and> e_reservation e \<le> left"
  by (induction ids) (auto elim!: tx_bind_ok split: if_splits)

lemma or_else_empty: "or_else r m d = (Inr '''', d') \<Longrightarrow> r = '''' \<and> m d = (Inr '''', d')"
  by (auto simp: or_else_def split: if_splits)

lemma authorizeModel_text: "authorizeModel cfg s m = Some e \<Longrightarrow> '''' = error_text e \<Longrightarrow> False"
  by (auto simp: authorizeModel_def check_def split: if_splits)

lemma grants_refusal_agents:
  assumes "grants_refusal H cfg e t now d = (Inr '''', d')"
  shows "\<exists>d1. agents_afford e (ledger_agents d e) d = (Inr True, d1)"
proof -
  from assms obtain reason d1 where l: "learning_refusal H cfg t now d = (Inr reason, d1)"
    and r: "or_else reason (tx_bind (pins_refusal H cfg e t now) (\<lambda>reason. or_else reason (ledger_refusal e))) d1 = (Inr '''', d')"
    unfolding grants_refusal_def by (elim tx_bind_ok) blast
  from or_else_empty [OF r] obtain reason' d2 where p: "pins_refusal H cfg e t now d1 = (Inr reason', d2)"
    and r': "or_else reason' (ledger_refusal e) d2 = (Inr '''', d')"
    by (elim conjE tx_bind_ok) blast
  have "d2 = d" using pure_state [OF learning_refusal_pure l] pure_state [OF pins_refusal_pure p] by simp
  with or_else_empty [OF r'] show ?thesis
    by (auto simp: ledger_refusal_def budgetAgents_def elim!: tx_bind_ok split: if_splits)
qed

lemma checkTaskAdmission_agents:
  assumes "checkTaskAdmission H cfg e now d = (Inr '''', d)"
    and "tx_optional (readTask (e_system_id e) (e_task_id e)) d = (Inr (Some t), d)"
  shows "\<exists>d1. agents_afford e (ledger_agents d e) d = (Inr True, d1)"
proof -
  from assms obtain a d1 g d2 sys d3 where
    a: "readAgent (t_system_id t) (t_agent_id t) (t_revision t) d = (Inr a, d1)" and
    g: "readGoal (e_system_id e) (e_goal_id e) d1 = (Inr g, d2)" and
    r: "readSystem H localAdministrator (e_system_id e) d2 = (Inr sys, d3)" and
    rest: "(case authorizeModel cfg (sr_configuration sys) (e_model e) of Some err \<Rightarrow> tx_return (error_text err)
     | None \<Rightarrow> grants_refusal H cfg e t now) d3 = (Inr '''', d)"
    unfolding checkTaskAdmission_def by (auto elim!: tx_bind_ok split: if_splits)
  have d3: "d3 = d"
    using pure_state [OF readAgent_pure a] pure_state [OF readGoal_pure g] pure_state [OF readSystem_pure r] by simp
  show ?thesis
  proof (cases "authorizeModel cfg (sr_configuration sys) (e_model e)")
    case None
    with rest d3 show ?thesis by (auto intro: grants_refusal_agents)
  next
    case (Some err)
    with rest authorizeModel_text [OF Some] show ?thesis by simp
  qed
qed

lemma eligible_agents:
  assumes "checkTaskAdmission H cfg e now d = (Inr '''', d)"
    and "t \<in> set (db_tasks d)" "t_system_id t = e_system_id e" "t_id t = e_task_id e" "i \<in> set (ledger_agents d e)"
  shows "\<exists>left. agent_allowance d e i = Some left \<and> e_reservation e \<le> left"
proof -
  have "List.find (\<lambda>t. t_system_id t = e_system_id e \<and> t_id t = e_task_id e) (db_tasks d) \<noteq> None"
    using find_NoneD assms(2-4) by (metis (mono_tags, lifting))
  then obtain t' where t': "tx_optional (readTask (e_system_id e) (e_task_id e)) d = (Inr (Some t'), d)"
    by (auto simp: tx_optional_Some readTask_def)
  have "\<exists>d1. agents_afford e (ledger_agents d e) d = (Inr True, d1)"
    using checkTaskAdmission_agents [OF assms(1) t'] .
  then show ?thesis using agents_afford_all assms(5) by blast
qed

text \<open>
  The room of a shared group, written over its rows: its stored quota (a group without a row
  starts with its burst), the clock that never goes back, the credit refilled per millisecond up
  to the burst, the cooldown, the reservations dispatched in the minute before the clock, and the
  attempts in flight.
\<close>

definition stored_quota :: "configuration \<Rightarrow> int \<Rightarrow> db \<Rightarrow> string \<Rightarrow> quota_row" where
  "stored_quota cfg now d grp = (case List.find (\<lambda>q. qs_group_name q = grp) (db_quotas d) of Some q \<Rightarrow> q
     | None \<Rightarrow> \<lparr>qs_group_name = grp, qs_credit = of_int (qc_burst_requests (the_quota cfg grp)), qs_updated_at = now,
         qs_cooldown_until = 0\<rparr>)"

definition group_attempts :: "db \<Rightarrow> string \<Rightarrow> attempt_row list" where
  "group_attempts d grp = filter (\<lambda>a. \<exists>g \<in> set (db_groups d). cg_group_name g = grp \<and> cg_call_id g = at_call_id a) (db_attempts d)"

definition quota_room :: "configuration \<Rightarrow> db \<Rightarrow> execution \<Rightarrow> int \<Rightarrow> string \<Rightarrow> bool" where
  "quota_room cfg d e now grp \<longleftrightarrow>
     (let quota = the_quota cfg grp; q = stored_quota cfg now d grp; clock = max now (qs_updated_at q) in
      1 \<le> min (of_int (qc_burst_requests quota))
             (qs_credit q + of_int (clock - qs_updated_at q) * of_int (qc_requests_per_minute quota) / 60000) \<and>
      qs_cooldown_until q \<le> now \<and>
      sum_list (map at_reservation (filter (\<lambda>a. clock - 60000 < at_dispatched_at a) (group_attempts d grp))) + e_reservation e
        \<le> qc_tokens_per_minute quota \<and>
      int (length (filter (\<lambda>a. at_state a = Running) (group_attempts d grp))) < qc_max_concurrent quota)"

text \<open>What a check of the quotas at one time leaves as it is: clock, credit and cooldown of each group.\<close>

definition quota_level :: "configuration \<Rightarrow> int \<Rightarrow> db \<Rightarrow> string \<Rightarrow> int \<times> rat \<times> int" where
  "quota_level cfg now d grp = (let q = stored_quota cfg now d grp in
     (quota_clock now q, quota_credit (the_quota cfg grp) now q, qs_cooldown_until q))"

lemma quota_room_blocks:
  "quota_room cfg d e now grp \<longleftrightarrow> (case quota_level cfg now d grp of (clock, credit, cooldown) \<Rightarrow>
     \<not> quota_blocks (the_quota cfg grp) credit cooldown (window_tokens d grp (clock - 60000)) (group_inflight d grp)
        (e_reservation e) now)"
proof -
  have "window_tokens d grp start = sum_list (map at_reservation (filter (\<lambda>a. start < at_dispatched_at a) (group_attempts d grp)))"
    "group_inflight d grp = int (length (filter (\<lambda>a. at_state a = Running) (group_attempts d grp)))" for start
    by (auto simp: window_tokens_def group_inflight_def in_group_def group_attempts_def sum_where_def count_where_def
        row_simps intro!: arg_cong [of _ _ sum_list] arg_cong [of _ _ "map at_reservation"] arg_cong [of _ _ length] filter_cong)
  then show ?thesis
    by (auto simp: quota_room_def quota_level_def quota_blocks_def quota_credit_def quota_clock_def refilled_def Let_def)
qed

lemma quota_room_same:
  assumes "core d' = core d" "quota_level cfg now d' grp = quota_level cfg now d grp"
  shows "quota_room cfg d' e now grp = quota_room cfg d e now grp"
  using assms by (simp add: quota_room_blocks window_tokens_def group_inflight_def in_group_def core_def)

lemma quota_room_reserved: "e_reservation e = e_reservation e' \<Longrightarrow> quota_room cfg d e now grp = quota_room cfg d e' now grp"
  by (simp add: quota_room_def)

definition refreshed :: "configuration \<Rightarrow> int \<Rightarrow> db \<Rightarrow> string \<Rightarrow> quota_row list" where
  "refreshed cfg now d grp = (let q = stored_quota cfg now d grp in
     update_where (\<lambda>x. qs_group_name x = grp)
       (\<lambda>x. x\<lparr>qs_credit := quota_credit (the_quota cfg grp) now q, qs_updated_at := quota_clock now q\<rparr>)
       (if list_ex (\<lambda>x. qs_group_name x = grp) (db_quotas d) then db_quotas d else db_quotas d @ [q]))"

lemma find_stored:
  "List.find (\<lambda>q. qs_group_name q = grp)
     (if list_ex (\<lambda>x. qs_group_name x = grp) (db_quotas d) then db_quotas d else db_quotas d @ [stored_quota cfg now d grp]) =
   Some (stored_quota cfg now d grp)"
proof (cases "List.find (\<lambda>q. qs_group_name q = grp) (db_quotas d)")
  case None
  then have "\<not> list_ex (\<lambda>x. qs_group_name x = grp) (db_quotas d)" by (auto simp: list_ex_iff find_None_iff)
  with None show ?thesis by (simp add: find_append stored_quota_def)
next
  case (Some q)
  then have "list_ex (\<lambda>x. qs_group_name x = grp) (db_quotas d)" by (auto simp: list_ex_iff dest: find_SomeD)
  with Some show ?thesis by (simp add: stored_quota_def)
qed

lemma stored_name: "qs_group_name (stored_quota cfg now d grp) = grp"
  by (auto simp: stored_quota_def split: option.splits dest: find_SomeD)

lemma quota_step_run:
  "quota_step cfg e now acc grp d =
     (Inr (quota_verdict cfg e now acc grp (stored_quota cfg now d grp) (d\<lparr>db_quotas := refreshed cfg now d grp\<rparr>)),
      d\<lparr>db_quotas := refreshed cfg now d grp\<rparr>)"
proof (cases "list_ex (\<lambda>x. qs_group_name x = grp) (db_quotas d)")
  case True
  then show ?thesis
    using find_stored [of grp d cfg now]
    by (cases d) (simp add: quota_step_def tx_insert_or_ignore_def tx_find_def tx_update_def tx_defs Let_def refreshed_def
        eq_commute [of grp])
next
  case False
  then have "stored_quota cfg now d grp = \<lparr>qs_group_name = grp, qs_credit = of_int (qc_burst_requests (the_quota cfg grp)),
      qs_updated_at = now, qs_cooldown_until = 0\<rparr>"
    by (auto simp: stored_quota_def list_ex_iff split: option.splits dest: find_SomeD)
  with False show ?thesis
    using find_stored [of grp d cfg now]
    by (cases d) (simp add: quota_step_def tx_insert_or_ignore_def tx_find_def tx_update_def tx_defs Let_def refreshed_def
        eq_commute [of grp])
qed

lemma stored_refreshed:
  "stored_quota cfg now (d\<lparr>db_quotas := refreshed cfg now d grp\<rparr>) g =
     (let q = stored_quota cfg now d g in
      if g = grp then q\<lparr>qs_credit := quota_credit (the_quota cfg grp) now q, qs_updated_at := quota_clock now q\<rparr> else q)"
proof (cases "g = grp")
  case True
  have "List.find (\<lambda>q. qs_group_name q = grp) (refreshed cfg now d grp) = Some (stored_quota cfg now d grp
      \<lparr>qs_credit := quota_credit (the_quota cfg grp) now (stored_quota cfg now d grp),
       qs_updated_at := quota_clock now (stored_quota cfg now d grp)\<rparr>)"
    unfolding refreshed_def Let_def by (subst find_update_where) (simp_all add: find_stored stored_name del: if_split)
  with True show ?thesis
    by (simp add: stored_quota_def [of cfg now "d\<lparr>db_quotas := refreshed cfg now d grp\<rparr>"] Let_def)
next
  case False
  then have "List.find (\<lambda>q. qs_group_name q = g) (refreshed cfg now d grp) = List.find (\<lambda>q. qs_group_name q = g) (db_quotas d)"
    by (auto simp: refreshed_def Let_def find_update_where find_append stored_name option.map_ident_strong
        split: option.splits dest!: find_SomeD intro!: option.map_ident_strong)
  with False show ?thesis by (simp add: stored_quota_def)
qed

lemma quota_level_refreshed: "quota_level cfg now (d\<lparr>db_quotas := refreshed cfg now d grp\<rparr>) g = quota_level cfg now d g"
  by (auto simp: quota_level_def stored_refreshed Let_def quota_clock_def quota_credit_def refilled_def)

lemma quota_step_ok:
  assumes "quota_step cfg e now acc grp d = (Inr acc', d')"
  shows "core d' = core d \<and> quota_level cfg now d' = quota_level cfg now d \<and> snd acc \<le> snd acc' \<and>
    (fst acc' \<longleftrightarrow> fst acc \<and> quota_room cfg d e now grp)"
proof -
  let ?d = "d\<lparr>db_quotas := refreshed cfg now d grp\<rparr>"
  have d': "d' = ?d" and acc': "acc' = quota_verdict cfg e now acc grp (stored_quota cfg now d grp) ?d"
    using assms by (auto simp: quota_step_run)
  have "fst acc' \<longleftrightarrow> fst acc \<and> quota_room cfg d e now grp"
    by (simp add: acc' quota_verdict_def quota_room_blocks quota_level_def Let_def window_tokens_def group_inflight_def in_group_def)
  then show ?thesis
    by (simp add: d' acc' core_def quota_level_refreshed fun_eq_iff quota_verdict_def)
qed

text \<open>The check of a call's groups allows it exactly when each of them has room.\<close>

lemma check_quotas_ok:
  assumes "check_quotas cfg e now d = (Inr (allowed, sent), d')"
  shows "quota_level cfg now d' = quota_level cfg now d \<and>
    (allowed \<longleftrightarrow> (\<forall>grp \<in> set (model_groups cfg (e_model e)). quota_room cfg d e now grp))"
proof -
  have "tx_fold (quota_step cfg e now) acc gs d = (Inr (allowed, sent), d') \<Longrightarrow>
      quota_level cfg now d' = quota_level cfg now d \<and> (allowed \<longleftrightarrow> fst acc \<and> (\<forall>grp \<in> set gs. quota_room cfg d e now grp))"
    for acc gs d
  proof (induction gs arbitrary: acc d)
    case (Cons grp gs)
    then obtain acc' d1 where s: "quota_step cfg e now acc grp d = (Inr acc', d1)"
      and r: "tx_fold (quota_step cfg e now) acc' gs d1 = (Inr (allowed, sent), d')"
      by (auto elim!: tx_bind_ok)
    note step = quota_step_ok [OF s]
    have "quota_room cfg d1 e now g = quota_room cfg d e now g" for g
      using step by (intro quota_room_same) auto
    with Cons.IH [OF r] step show ?case by auto
  qed auto
  from this [OF assms [unfolded check_quotas_def]] show ?thesis by simp
qed

section \<open>Why a candidate is passed over\<close>

text \<open>
  A candidate is refused when its system does not run or has another revision or is blocked, when
  one of its deadlines passed, when the budget of its system or of its goal does not cover its
  reservation, or when its grants refuse it.
\<close>

definition refused :: "(string \<Rightarrow> string) \<Rightarrow> configuration \<Rightarrow> execution \<Rightarrow> int \<Rightarrow> db \<Rightarrow> bool" where
  "refused H cfg e now d \<longleftrightarrow>
     (\<exists>s. readSystem H localAdministrator (e_system_id e) d = (Inr s, d) \<and>
        (sr_state s \<noteq> SRunning \<and> sr_state s \<noteq> SPaused \<or> sr_revision s \<noteq> e_revision e \<or>
         sr_blocked_reason (Inspect H cfg s) \<noteq> '''' \<or> e_wait_deadline e \<le> now \<or> e_deadline e \<le> now \<or>
         sl_token_budget (sc_limits (sr_configuration s)) < sr_used_tokens s + sr_reserved_tokens s + e_reservation e \<or>
         e_goal_budget e < e_goal_used e + e_goal_reserved e + e_reservation e)) \<or>
     (\<exists>reason. reason \<noteq> '''' \<and> checkTaskAdmission H cfg e now d = (Inr reason, d))"

text \<open>
  A candidate is held up when it is refused, whatever the rows of the calls and of the quotas, or
  when one of its groups has no room.
\<close>

definition held_up :: "(string \<Rightarrow> string) \<Rightarrow> configuration \<Rightarrow> int \<Rightarrow> db \<Rightarrow> execution \<Rightarrow> bool" where
  "held_up H cfg now d e \<longleftrightarrow> (\<exists>cs qs. refused H cfg e now (d\<lparr>db_calls := cs, db_quotas := qs\<rparr>)) \<or>
     (\<exists>grp \<in> set (model_groups cfg (e_model e)). \<not> quota_room cfg d e now grp)"

definition beside :: "db \<Rightarrow> db" where
  "beside d = d\<lparr>db_calls := [], db_quotas := []\<rparr>"

lemma beside_apart: "beside d' = beside d \<Longrightarrow> d' = d\<lparr>db_calls := db_calls d', db_quotas := db_quotas d'\<rparr>"
  by (cases d; cases d') (simp add: beside_def)

lemma beside_core: "beside d' = beside d \<Longrightarrow> core d' = core d"
  by (drule beside_apart, erule ssubst) (simp add: core_def)

lemma check_quotas_beside: "tx_rel (same beside) (check_quotas cfg e now)"
  unfolding check_quotas_def quota_step_def
  by (intro frame_rules db_frame.rel_update db_frame.rel_insert_or_ignore) (simp_all add: same_def beside_def)

lemma refused_kept:
  assumes "beside d' = beside d" "refused H cfg e now d'"
  shows "\<exists>cs qs. refused H cfg e now (d\<lparr>db_calls := cs, db_quotas := qs\<rparr>)"
  using assms(2) beside_apart [OF assms(1)] by metis

lemma held_up_kept:
  assumes "beside d' = beside d" "quota_level cfg now d' = quota_level cfg now d" "held_up H cfg now d' e"
  shows "held_up H cfg now d e"
proof -
  have "quota_room cfg d' e now grp = quota_room cfg d e now grp" for grp
    using beside_core [OF assms(1)] assms(2) by (intro quota_room_same) auto
  moreover have "beside (d'\<lparr>db_calls := cs, db_quotas := qs\<rparr>) = beside d" for cs qs
    using assms(1) by (simp add: beside_def)
  ultimately show ?thesis using assms(3) refused_kept unfolding held_up_def by blast
qed

lemma candidate_refusal_refused:
  assumes "readSystem H localAdministrator (e_system_id e) d = (Inr s, d)" "candidate_refusal (Inspect H cfg s) e now \<noteq> ''''"
  shows "refused H cfg e now d"
  using assms by (auto simp: refused_def candidate_refusal_def Inspect_fields split: if_splits)

text \<open>Only the row of the candidate itself changes when it is passed over.\<close>

definition only_call :: "string \<Rightarrow> db \<Rightarrow> db \<Rightarrow> bool" where
  "only_call i d d' \<longleftrightarrow> (\<exists>P f. db_calls d' = update_where P f (db_calls d) \<and>
     (\<forall>c. P c \<longrightarrow> mc_call_id c = i \<and> mc_call_id (f c) = i))"

lemma find_update_other: "(\<And>r. P r \<Longrightarrow> \<not> Q r \<and> \<not> Q (f r)) \<Longrightarrow> List.find Q (update_where P f rs) = List.find Q rs"
  by (induction rs) (auto simp: row_simps)

lemma readExecution_other:
  assumes "beside d' = beside d" "only_call k d d'" "i \<noteq> ''''" "i \<noteq> k" "readExecution s i d' = (Inr e, d')"
  shows "readExecution s i d = (Inr e, d)"
proof -
  have d': "db_goals d' = db_goals d" "db_tasks d' = db_tasks d" using beside_core [OF assms(1)] by (simp_all add: core_def)
  obtain P f where Pf: "db_calls d' = update_where P f (db_calls d)" "\<And>c. P c \<Longrightarrow> mc_call_id c = k \<and> mc_call_id (f c) = k"
    using assms(2) unfolding only_call_def by blast
  have "rev (db_calls d') = update_where P f (rev (db_calls d))" by (simp add: Pf(1) update_where_def rev_map)
  then have "call_of d' s i = call_of d s i"
    unfolding call_of_def goal_of_def d' using assms(3,4) Pf(2) by (simp only:) (rule find_update_other, auto)
  then show ?thesis
    using assms(5) d' by (simp add: readExecution_ok goal_of_def execution_of_def task_state_of_def)
qed

lemma admit_capacity_skipped:
  assumes "admit_capacity cfg session e now d = (Inr Skipped, d')"
  shows "e_call_id e = e_call_id session \<or>
    beside d' = beside d \<and> quota_level cfg now d' = quota_level cfg now d \<and> only_call (e_call_id e) d d' \<and>
    (\<exists>grp \<in> set (model_groups cfg (e_model e)). \<not> quota_room cfg d e now grp)"
proof -
  from assms obtain allowed sent dq where q: "check_quotas cfg e now d = (Inr (allowed, sent), dq)"
    and step: "(if \<not> allowed then tx_seq (update_call (e_call_id e) (\<lambda>c. c\<lparr>mc_reason := capacity_reason\<rparr>)) (tx_return Skipped)
     else if e_call_id e \<noteq> e_call_id session then tx_return Waits
     else admit_uses cfg e sent now) dq = (Inr Skipped, d')"
    unfolding admit_capacity_def by (elim tx_bind_ok) auto
  show ?thesis
  proof (cases "e_call_id e = e_call_id session")
    case False
    with step have "\<not> allowed" by (auto split: if_splits)
    with step have d': "d' = dq\<lparr>db_calls := update_where (\<lambda>c. mc_call_id c = e_call_id e)
        (\<lambda>c. c\<lparr>mc_reason := capacity_reason\<rparr>) (db_calls dq)\<rparr>"
      by (cases dq) (auto simp: update_call_def elim!: tx_seq_ok)
    have "beside dq = beside d" using check_quotas_beside q by (metis snd_conv tx_rel_sameD)
    moreover have "db_calls dq = db_calls d" using standing_state [OF check_quotas_standing q] by simp
    moreover have "quota_level cfg now d' = quota_level cfg now dq" by (simp add: d' quota_level_def stored_quota_def fun_eq_iff)
    moreover have "only_call (e_call_id e) dq d'"
      unfolding only_call_def d'
      by (intro exI [of _ "\<lambda>c. mc_call_id c = e_call_id e"] exI [of _ "\<lambda>c. c\<lparr>mc_reason := capacity_reason\<rparr>"]) simp
    moreover have "beside d' = beside dq" by (simp add: d' beside_def)
    moreover note check_quotas_ok [OF q] \<open>\<not> allowed\<close>
    ultimately show ?thesis by (simp add: only_call_def)
  qed simp
qed

lemma admit_candidate_skipped:
  assumes "admit_candidate H cfg session now i d = (Inr Skipped, d')"
  obtains e where "readExecution (fst i) (snd i) d = (Inr e, d)" "e_call_id e = e_call_id session"
  | e where "readExecution (fst i) (snd i) d = (Inr e, d)" "beside d' = beside d"
      "quota_level cfg now d' = quota_level cfg now d" "only_call (e_call_id e) d d'" "held_up H cfg now d e"
proof -
  from assms obtain e d1 saved d2 reason d3 where e: "readExecution (fst i) (snd i) d = (Inr e, d1)"
    and saved: "readSystem H localAdministrator (e_system_id e) d1 = (Inr saved, d2)"
    and reason: "or_else (candidate_refusal (Inspect H cfg saved) e now) (checkTaskAdmission H cfg e now) d2 = (Inr reason, d3)"
    and step: "(if reason \<noteq> '''' then tx_seq (terminalCall e Rejected reason) (tx_return Skipped)
     else admit_capacity cfg session e now) d3 = (Inr Skipped, d')"
    unfolding admit_candidate_def by (elim tx_bind_ok) blast
  have [simp]: "d1 = d" using e by (rule pure_state [OF readExecution_pure])
  have [simp]: "d2 = d" using readSystem_ok(1) [OF saved] by simp
  have [simp]: "d3 = d" using or_else_ok [OF reason checkTaskAdmission_pure] by simp
  note e = e [simplified] and saved = saved [simplified] and reason = reason [simplified] and step = step [simplified]
  show thesis
  proof (cases "reason = ''''")
    case False
    have "refused H cfg e now d"
    proof (cases "candidate_refusal (Inspect H cfg saved) e now = ''''")
      case True
      with reason False show ?thesis by (auto simp: or_else_def refused_def)
    qed (rule candidate_refusal_refused [OF saved])
    then have "held_up H cfg now d e" using refused_kept [of d d] by (auto simp: held_up_def)
    moreover from False step have d': "d' = d\<lparr>db_calls := update_where (\<lambda>c. mc_system_id c = e_system_id e \<and> mc_call_id c = e_call_id e)
        (\<lambda>c. c\<lparr>mc_state := Rejected, mc_reason := reason\<rparr>) (db_calls d)\<rparr>"
      by (cases d) (auto simp: terminalCall_def elim!: tx_seq_ok)
    moreover have "only_call (e_call_id e) d d'"
      unfolding only_call_def d'
      by (intro exI [of _ "\<lambda>c. mc_system_id c = e_system_id e \<and> mc_call_id c = e_call_id e"]
          exI [of _ "\<lambda>c. c\<lparr>mc_state := Rejected, mc_reason := reason\<rparr>"]) simp
    ultimately show thesis using e by (intro that(2)) (auto simp: beside_def quota_level_def stored_quota_def)
  next
    case True
    with step have "admit_capacity cfg session e now d = (Inr Skipped, d')" by simp
    from admit_capacity_skipped [OF this] show thesis using e that by (auto simp: held_up_def)
  qed
qed

text \<open>A dispatched candidate is the session's own call, and each of its groups has room.\<close>

lemma admit_candidate_dispatched:
  assumes "admit_candidate H cfg session now i d = (Inr Dispatched, d')"
  shows "\<exists>e. readExecution (fst i) (snd i) d = (Inr e, d) \<and> e_call_id e = e_call_id session \<and>
    (\<forall>grp \<in> set (model_groups cfg (e_model e)). quota_room cfg d e now grp)"
  using assms by (cases rule: admit_candidate_cases) (auto simp: eligible_def dest: check_quotas_ok)

lemma admit_loop_fair:
  assumes "admit_loop H cfg session now ids d = (Inr True, d')" "distinct (map snd ids)" "'''' \<notin> snd ` set ids"
  obtains pre i post e where "ids = pre @ i # post" "snd i = e_call_id session" "readExecution (fst i) (snd i) d = (Inr e, d)"
    "\<forall>grp \<in> set (model_groups cfg (e_model e)). quota_room cfg d e now grp"
    "\<forall>j \<in> set pre. \<exists>b. readExecution (fst j) (snd j) d = (Inr b, d) \<and> held_up H cfg now d b"
  using assms
proof (induction ids arbitrary: d thesis)
  case (Cons i ids)
  from Cons.prems(2) obtain o' d1 where c: "admit_candidate H cfg session now i d = (Inr o', d1)"
    and l: "(case o' of Skipped \<Rightarrow> admit_loop H cfg session now ids
     | Waits \<Rightarrow> tx_return False | Dispatched \<Rightarrow> tx_return True) d1 = (Inr True, d')"
    by (auto elim: tx_bind_ok)
  have i: "snd i \<noteq> ''''" "'''' \<notin> snd ` set ids" "distinct (map snd ids)" "snd i \<notin> snd ` set ids"
    using Cons.prems(3,4) by auto
  have own: "e_call_id e = snd i" if "readExecution (fst i) (snd i) d = (Inr e, d)" for e
    using readExecution_names [OF that] i by (simp add: names_def)
  show thesis
  proof (cases o')
    case Waits with l show thesis by simp
  next
    case Dispatched
    obtain e where e: "readExecution (fst i) (snd i) d = (Inr e, d)" "e_call_id e = e_call_id session"
      "\<forall>grp \<in> set (model_groups cfg (e_model e)). quota_room cfg d e now grp"
      using admit_candidate_dispatched [OF c [unfolded Dispatched]] by blast
    show thesis by (rule Cons.prems(1) [of "[]" i ids e]) (use e own [OF e(1)] in auto)
  next
    case Skipped
    with l have "admit_loop H cfg session now ids d1 = (Inr True, d')" by simp
    from this i(3,2) obtain pre k post b where k: "ids = pre @ k # post" "snd k = e_call_id session"
      "readExecution (fst k) (snd k) d1 = (Inr b, d1)"
      "\<forall>grp \<in> set (model_groups cfg (e_model b)). quota_room cfg d1 b now grp"
      "\<forall>j \<in> set pre. \<exists>b. readExecution (fst j) (snd j) d1 = (Inr b, d1) \<and> held_up H cfg now d1 b"
      by (rule Cons.IH [rotated])
    from c [unfolded Skipped] show thesis
    proof (cases rule: admit_candidate_skipped)
      case (1 e)
      with own k i(4) show thesis by force
    next
      case (2 e)
      have reads: "readExecution (fst j) (snd j) d = (Inr x, d)"
        if "j \<in> set ids" "readExecution (fst j) (snd j) d1 = (Inr x, d1)" for j x
      proof (rule readExecution_other [OF 2(2,4) _ _ that(2)])
        show "snd j \<noteq> ''''" using i(2) that(1) by force
        show "snd j \<noteq> e_call_id e" unfolding own [OF 2(1)] using i(4) that(1) by (metis imageI)
      qed
      have room: "quota_room cfg d b now grp" if "grp \<in> set (model_groups cfg (e_model b))" for grp
        using bspec [OF k(4) that] quota_room_same [OF beside_core [OF 2(2)]] 2(3) by simp
      have "\<exists>b. readExecution (fst j) (snd j) d = (Inr b, d) \<and> held_up H cfg now d b" if "j \<in> set pre" for j
      proof -
        have "j \<in> set ids" using that k(1) by simp
        with bspec [OF k(5) that] reads held_up_kept [OF 2(2,3)] show ?thesis by blast
      qed
      with 2 have passed: "\<forall>j \<in> set (i # pre). \<exists>b. readExecution (fst j) (snd j) d = (Inr b, d) \<and> held_up H cfg now d b"
        by auto
      have "readExecution (fst k) (snd k) d = (Inr b, d)" by (rule reads [OF _ k(3)]) (simp add: k(1))
      then show thesis using k(1,2) room passed by (intro Cons.prems(1) [of "i # pre" k post b]) auto
    qed
  qed
qed simp

section \<open>Properties of admission\<close>

lemma core_fits: "core d = core d' \<Longrightarrow> fits_budgets d e = fits_budgets d' e"
  by (simp add: fits_budgets_def core_def)

lemma exec_static_fits: "exec_static e = exec_static e' \<Longrightarrow> fits_budgets d e = fits_budgets d e'"
  by (simp add: fits_budgets_def exec_static_def)

lemma admission_queue_rows:
  assumes "i \<in> set (admission_queue d)"
  obtains c where "c \<in> set (db_calls d)" "mc_state c = Queued" "i = (mc_system_id c, mc_call_id c)"
  using assms by (auto simp: admission_queue_def dest!: in_set_takeD)

text \<open>The facts of a granted admission, from the state the operation started in.\<close>

lemma admit_granted:
  assumes "admit H cfg session now d = (Inr (r, True), d')" "keyed_calls d"
  obtains pre i post es e d1 d2 sent where "admission_queue d = pre @ i # post" "list_all2 names es pre"
    "passed_over es d d1" "readExecution (fst i) (snd i) d1 = (Inr e, d1)" "e_call_id e = e_call_id session"
    "eligible H cfg e now d1" "core d1 = core d" "core d2 = core d" "db_calls d2 = db_calls d1" "statics d1 = statics d"
    "dispatch cfg e sent now d2 = (Inr (), d')" "exec_static e = exec_static r" "e_call_id session \<noteq> ''''"
proof -
  from assms(1) obtain current where a: "authorizeCall session d = (Inr current, d)" "e_state current = Queued"
    and l: "admit_loop H cfg session now (admission_queue d) d = (Inr True, d')"
    and r: "readExecution (e_system_id session) (e_call_id session) d' = (Inr r, d')"
    unfolding admit_def
    by (auto elim!: tx_bind_ok split: if_splits simp: authorizeCall_ok readExecution_ok)
  from l show thesis
  proof (cases rule: admit_loop_cases)
    case (admitted pre i post es e d1 d2 sent)
    have st: "statics d1 = statics d" "core d1 = core d" using passed_over_statics [OF admitted(4)] by auto
    have st2: "statics d2 = statics d1" using admitted(8,9) by (simp add: statics_def core_def)
    have st': "statics d' = statics d1" using dispatch_statics [OF admitted(10)] st2 by simp
    have keyed: "keyed_calls d1" using assms(2) keyed_calls_statics [OF st(1)] by simp
    obtain c where c: "c \<in> set (db_calls d1)" "exec_static e = call_static c"
      using readExecution_row [OF admitted(5)] by blast
    have "e_call_id e = mc_call_id c" using c(2) by (simp add: exec_static_def call_static_def)
    with keyed c(1) have ne: "e_call_id e \<noteq> ''''" by (force simp: keyed_calls_def)
    have "exec_static e = exec_static r"
    proof -
      have "i \<in> set (admission_queue d)" using admitted(2) by simp
      then have "snd i \<noteq> ''''" using assms(2) by (elim admission_queue_rows) (force simp: keyed_calls_def)
      then have "readExecution (e_system_id e) (e_call_id e) d1 = (Inr e, d1)"
        using readExecution_names [OF admitted(5)] admitted(5) by (auto simp: names_def)
      then show ?thesis
        using readExecution_keyed [OF keyed st' [symmetric] _ r ne] admitted(6) by auto
    qed
    with admitted st ne show thesis using that [of pre i post es d1 e d2 sent] by auto
  qed simp
qed

lemma admission_queue_distinct:
  assumes "keyed_calls d"
  shows "distinct (map snd (admission_queue d))"
proof -
  let ?qs = "sort_key (\<lambda>c. case last_admission_of d (mc_system_id c) of Some n \<Rightarrow> n | None \<Rightarrow> 0) (sort_key mc_sequence
     (filter (\<lambda>c. mc_state c = Queued \<and> last_admission_of d (mc_system_id c) \<noteq> None) (db_calls d)))"
  have "distinct (map mc_call_id (db_calls d))" using assms by (simp add: keyed_calls_def)
  then have "distinct (db_calls d)" "inj_on mc_call_id (set (db_calls d))" by (simp_all add: distinct_map)
  then have "distinct (map mc_call_id ?qs)" by (auto simp: distinct_map intro: inj_on_subset)
  then have "distinct (take MaxOperators (map mc_call_id ?qs))" by (rule distinct_take)
  then show ?thesis by (simp add: admission_queue_def comp_def take_map)
qed

text \<open>
  A granted admission, judged by the rows it started from: the call's groups had room, and every
  call before it in the queue was held up.
\<close>

lemma admit_fair:
  assumes "admit H cfg session now d = (Inr (r, True), d')" "keyed_calls d"
  obtains pre post e where "admission_queue d = pre @ (e_system_id r, e_call_id r) # post"
    "readExecution (e_system_id r) (e_call_id r) d = (Inr e, d)" "exec_static e = exec_static r"
    "\<forall>grp \<in> set (model_groups cfg (e_model e)). quota_room cfg d e now grp"
    "\<forall>j \<in> set pre. \<exists>b. readExecution (fst j) (snd j) d = (Inr b, d) \<and> held_up H cfg now d b"
proof -
  have nonempty: "snd j \<noteq> ''''" if "j \<in> set (admission_queue d)" for j
    using that assms(2) by (elim admission_queue_rows) (force simp: keyed_calls_def)
  from assms(1) have l: "admit_loop H cfg session now (admission_queue d) d = (Inr True, d')"
    unfolding admit_def by (auto elim!: tx_bind_ok split: if_splits simp: authorizeCall_ok readExecution_ok)
  obtain i' e' d1 where g: "i' \<in> set (admission_queue d)" "readExecution (fst i') (snd i') d1 = (Inr e', d1)"
    "e_call_id e' = e_call_id session" "statics d1 = statics d" "exec_static e' = exec_static r"
    using admit_granted [OF assms] by (metis in_set_conv_decomp)
  from l obtain pre i post e where f: "admission_queue d = pre @ i # post" "snd i = e_call_id session"
    "readExecution (fst i) (snd i) d = (Inr e, d)"
    "\<forall>grp \<in> set (model_groups cfg (e_model e)). quota_room cfg d e now grp"
    "\<forall>j \<in> set pre. \<exists>b. readExecution (fst j) (snd j) d = (Inr b, d) \<and> held_up H cfg now d b"
    by (rule admit_loop_fair) (use nonempty admission_queue_distinct [OF assms(2)] in force)+
  have "snd i' = snd i" using readExecution_names [OF g(2)] nonempty [OF g(1)] g(3) f(2) by (simp add: names_def)
  with g(1) f(1) admission_queue_distinct [OF assms(2)] have i: "i' = i"
    by (metis distinct_map in_set_conv_decomp inj_onD)
  have st: "exec_static e = exec_static r"
    using readExecution_statics [OF g(4) [symmetric] f(3)] g(2,5) i by simp
  have "i = (e_system_id r, e_call_id r)"
    using readExecution_names [OF f(3)] nonempty [OF g(1)] st i by (cases i) (simp add: names_def exec_static_def)
  with f st show thesis by (intro that) auto
qed

definition affordable :: "db \<Rightarrow> execution \<Rightarrow> bool" where
  "affordable d e \<longleftrightarrow> list_all (\<lambda>i. case agent_allowance d e i of None \<Rightarrow> False | Some left \<Rightarrow> e_reservation e \<le> left)
     (ledger_agents d e)"

lemma core_affordable:
  assumes "core d = core d'"
  shows "affordable d e = affordable d' e"
proof -
  have "db_agents d = db_agents d'" "db_tasks d = db_tasks d'" "db_usage d = db_usage d'"
    using assms by (simp_all add: core_def)
  then show ?thesis
    unfolding affordable_def agent_allowance_def agent_of_def usage_of_def ledger_agents_def agent_lineage_def
      task_lineage_def by (simp only:)
qed

lemma exec_static_affordable:
  assumes "exec_static e = exec_static e'"
  shows "affordable d e = affordable d e'"
proof -
  have "e_system_id e = e_system_id e'" "e_goal_id e = e_goal_id e'" "e_agent_id e = e_agent_id e'"
    "e_task_id e = e_task_id e'" "e_reservation e = e_reservation e'"
    using assms by (simp_all add: exec_static_def)
  then show ?thesis unfolding affordable_def agent_allowance_def ledger_agents_def by (simp only:)
qed

lemma eligible_affordable:
  assumes "eligible H cfg e now d" "t \<in> set (db_tasks d)" "t_system_id t = e_system_id e" "t_id t = e_task_id e"
  shows "affordable d e"
  unfolding affordable_def list_all_iff
proof
  fix i assume "i \<in> set (ledger_agents d e)"
  moreover have "checkTaskAdmission H cfg e now d = (Inr '''', d)" using assms(1) by (simp add: eligible_def)
  ultimately obtain left where "agent_allowance d e i = Some left" "e_reservation e \<le> left"
    using eligible_agents assms(2-4) by blast
  then show "case agent_allowance d e i of None \<Rightarrow> False | Some left \<Rightarrow> e_reservation e \<le> left" by simp
qed

text \<open>
  C1. No dispatch overspends: when a call is admitted, its reservation fits what its system and
  its goal had left, and, when its task is known, what every accountable agent had left.
\<close>

theorem admit_within_budget:
  assumes "admit H cfg session now d = (Inr (r, True), d')" "keyed_calls d"
  shows "fits_budgets d r \<and>
    ((\<exists>t \<in> set (db_tasks d). t_system_id t = e_system_id r \<and> t_id t = e_task_id r) \<longrightarrow> affordable d r)"
proof -
  obtain i e d1 where e: "readExecution (fst i) (snd i) d1 = (Inr e, d1)" "eligible H cfg e now d1"
    "core d1 = core d" "exec_static e = exec_static r"
    using admit_granted [OF assms] by metis
  have "fits_budgets d r"
    using eligible_fits [OF e(2,1)] core_fits [OF e(3)] exec_static_fits [OF e(4)] by blast
  moreover have "affordable d r" if "t \<in> set (db_tasks d)" "t_system_id t = e_system_id r" "t_id t = e_task_id r" for t
  proof -
    from e(3,4) that have "t \<in> set (db_tasks d1)" "t_system_id t = e_system_id e" "t_id t = e_task_id e"
      by (simp_all add: core_def exec_static_def)
    from eligible_affordable [OF e(2) this] show ?thesis
      using core_affordable [OF e(3)] exec_static_affordable [OF e(4)] by blast
  qed
  ultimately show ?thesis by blast
qed

text \<open>
  C2. No dispatch exceeds a shared quota: in every group of the call's model the request credit,
  refilled since the group's last update and never above its burst, covers a request, no cooldown
  runs, the reservations dispatched in the minute before the group's clock and the call's own fit
  the tokens per minute, and fewer attempts than the concurrency limit are in flight.
\<close>

theorem admit_within_quotas:
  assumes "admit H cfg session now d = (Inr (r, True), d')" "keyed_calls d" "grp \<in> set (model_groups cfg (e_model r))"
  shows "quota_room cfg d r now grp"
proof -
  obtain e where e: "exec_static e = exec_static r"
    "\<forall>grp \<in> set (model_groups cfg (e_model e)). quota_room cfg d e now grp"
    by (rule admit_fair [OF assms(1,2)])
  have "e_model e = e_model r" "e_reservation e = e_reservation r" using e(1) by (simp_all add: exec_static_def)
  with e(2) assms(3) show ?thesis using quota_room_reserved by metis
qed

lemma admit_refused:
  assumes "admit H cfg session now d = (res, d')" "\<not> (\<exists>r. res = Inr (r, True))"
  shows "core d' = core d \<and> statics d' = statics d"
proof (cases res)
  case (Inl err)
  with assms(1) have "d' = d" unfolding admit_def by (auto dest: transaction_failed)
  then show ?thesis by simp
next
  case (Inr x)
  with assms obtain r where "admit H cfg session now d = (Inr (r, False), d')"
    by (cases x) (metis (full_types))
  then have "d' = d \<or> (\<exists>d1. admit_loop H cfg session now (admission_queue d) d = (Inr False, d'))"
    unfolding admit_def
    by (auto elim!: tx_bind_ok split: if_splits simp: authorizeCall_ok readExecution_ok)
  then show ?thesis
  proof
    assume "\<exists>d1. admit_loop H cfg session now (admission_queue d) d = (Inr False, d')"
    then show ?thesis by (auto elim!: admit_loop_cases dest: passed_over_statics)
  qed simp
qed

text \<open>
  C3. An admission is recorded durably and once: exactly one attempt is added, running, with the
  call's reservation, the same amount is reserved on the call's system and goal, and the agents
  of the ledger are charged it. Without an admission, on a refusal or an error, no ledger and no
  attempt changes.
\<close>

theorem admit_records:
  assumes "keyed_calls d"
  shows "case admit H cfg session now d of
      (Inr (r, True), d') \<Rightarrow>
        (\<exists>a. db_attempts d' = db_attempts d @ [a] \<and> at_call_id a = e_call_id r \<and> at_system_id a = e_system_id r \<and>
             at_reservation a = e_reservation r \<and> at_state a = Running) \<and>
        map sy_reserved_tokens (db_systems d') =
          map (\<lambda>s. sy_reserved_tokens s + (if sy_system_id s = e_system_id r then e_reservation r else 0)) (db_systems d) \<and>
        map gl_reserved_tokens (db_goals d') =
          map (\<lambda>g. gl_reserved_tokens g + (if gl_system_id g = e_system_id r \<and> gl_goal_id g = e_goal_id r
             then e_reservation r else 0)) (db_goals d) \<and>
        db_usage d' = charge_usage d r (e_reservation r) 0 (db_usage d)
    | (_, d') \<Rightarrow> db_systems d' = db_systems d \<and> db_goals d' = db_goals d \<and> db_usage d' = db_usage d \<and>
        db_attempts d' = db_attempts d"
proof (cases "admit H cfg session now d")
  case (Pair res d')
  show ?thesis
  proof (cases "\<exists>r. res = Inr (r, True)")
    case True
    then obtain r where admitted: "admit H cfg session now d = (Inr (r, True), d')" using Pair by auto
    obtain e d2 sent where e: "dispatch cfg e sent now d2 = (Inr (), d')" "core d2 = core d" "exec_static e = exec_static r"
      using admit_granted [OF admitted assms] by metis
    have eq: "e_call_id e = e_call_id r" "e_system_id e = e_system_id r" "e_goal_id e = e_goal_id r"
        "e_reservation e = e_reservation r" "e_agent_id e = e_agent_id r" "e_task_id e = e_task_id r"
      using e(3) by (simp_all add: exec_static_def)
    have rows: "db_attempts d2 = db_attempts d" "db_systems d2 = db_systems d" "db_goals d2 = db_goals d"
        "db_usage d2 = db_usage d" "db_agents d2 = db_agents d" "db_tasks d2 = db_tasks d"
      using e(2) by (simp_all add: core_def)
    have ledger: "ledger_agents d2 e = ledger_agents d r"
      using rows eq by (simp add: ledger_agents_def agent_lineage_def task_lineage_def)
    note run = dispatch_ok [OF e(1)]
    have "db_attempts d' = db_attempts d @ [attempt_of d2 e sent]" using run(1) rows by simp
    moreover have "map sy_reserved_tokens (db_systems d') =
          map (\<lambda>s. sy_reserved_tokens s + (if sy_system_id s = e_system_id r then e_reservation r else 0)) (db_systems d)"
      unfolding run(2) rows eq update_where_def by simp
    moreover have "map gl_reserved_tokens (db_goals d') =
          map (\<lambda>g. gl_reserved_tokens g + (if gl_system_id g = e_system_id r \<and> gl_goal_id g = e_goal_id r
             then e_reservation r else 0)) (db_goals d)"
      unfolding run(3) rows eq update_where_def by simp
    moreover have "db_usage d' = charge_usage d r (e_reservation r) 0 (db_usage d)"
      unfolding run(4) charge_usage_def rows ledger eq ..
    moreover have "at_call_id (attempt_of d2 e sent) = e_call_id r" "at_system_id (attempt_of d2 e sent) = e_system_id r"
        "at_reservation (attempt_of d2 e sent) = e_reservation r" "at_state (attempt_of d2 e sent) = Running"
      using eq by (simp_all add: attempt_of_def)
    moreover have "res = Inr (r, True)" using Pair admitted by simp
    ultimately show ?thesis unfolding Pair by auto
  next
    case False
    then have "\<not> (\<exists>r. res = Inr (r, True))" .
    from admit_refused [OF Pair this] have same: "db_systems d' = db_systems d \<and> db_goals d' = db_goals d \<and>
        db_usage d' = db_usage d \<and> db_attempts d' = db_attempts d"
      by (simp add: core_def)
    show ?thesis
    proof (cases res)
      case (Inl err) then show ?thesis unfolding Pair using same by simp
    next
      case (Inr x)
      then obtain r where "res = Inr (r, False)" using False by (cases x) (metis (full_types))
      then show ?thesis unfolding Pair using same by simp
    qed
  qed
qed

end
