(* ===== verification/Ledger.thy ===== *)
theory Ledger
  imports Admission
begin

text \<open>
  Order and conservation: a dispatch never overtakes an earlier call that could run, and the
  reserved tokens of every system are the reservations of the attempts whose usage is not known
  to the broker, through queueing, admission, cancellation and settlement.
\<close>

section \<open>Rows of calls that are passed over\<close>

definition call_touched :: "execution list \<Rightarrow> call_row \<Rightarrow> call_row \<Rightarrow> bool" where
  "call_touched es c c' \<longleftrightarrow> call_static c' = call_static c \<and>
     (c' = c \<or> (\<exists>e \<in> set es. e_call_id e = mc_call_id c) \<and> (mc_state c' = mc_state c \<or> mc_state c' = Rejected))"

lemma list_all2_update_where: "(\<And>r. r \<in> set rs \<Longrightarrow> R r (if P r then f r else r)) \<Longrightarrow> list_all2 R rs (update_where P f rs)"
  by (induction rs) (auto simp: row_simps)

lemma rejects_rows: "rejects e reason d d' \<Longrightarrow> list_all2 (call_touched [e]) (db_calls d) (db_calls d')"
  by (auto simp: rejects_def call_touched_def call_static_def intro!: list_all2_update_where)

lemma defers_rows: "defers e d d' \<Longrightarrow> list_all2 (call_touched [e]) (db_calls d) (db_calls d')"
  by (auto simp: defers_def call_touched_def call_static_def intro!: list_all2_update_where)

lemma call_touched_trans: "call_touched [e] c c' \<Longrightarrow> call_touched es c' c'' \<Longrightarrow> call_touched (e # es) c c''"
  by (auto simp: call_touched_def call_static_def)

lemma passed_over_rows: "passed_over es d d' \<Longrightarrow> list_all2 (call_touched es) (db_calls d) (db_calls d')"
proof (induction es arbitrary: d)
  case Nil
  then show ?case by (simp add: call_touched_def list_all2_refl)
next
  case (Cons e es)
  then obtain d1 where d1: "list_all2 (call_touched [e]) (db_calls d) (db_calls d1)" "passed_over es d1 d'"
    using rejects_rows defers_rows by fastforce
  show ?case
    using list_all2_trans [OF call_touched_trans d1(1) Cons.IH [OF d1(2)]] .
qed

lemma list_all2_row: "list_all2 R xs ys \<Longrightarrow> y \<in> set ys \<Longrightarrow> \<exists>x \<in> set xs. R x y"
  by (induction rule: list_all2_induct) auto

lemma list_all2_row_left: "list_all2 R xs ys \<Longrightarrow> x \<in> set xs \<Longrightarrow> \<exists>y \<in> set ys. R x y"
  by (induction rule: list_all2_induct) auto

text \<open>A call that was passed over is rejected, or waits for shared capacity.\<close>

definition held_back :: "call_row \<Rightarrow> bool" where
  "held_back c \<longleftrightarrow> mc_state c = Rejected \<or> mc_reason c = capacity_reason"

lemma held_back_kept:
  assumes "(\<exists>reason. rejects e reason d d') \<or> defers e d d'"
    and "\<And>c. c \<in> set (db_calls d) \<Longrightarrow> P (mc_system_id c) (mc_call_id c) \<Longrightarrow> held_back c"
    and "c \<in> set (db_calls d')" "P (mc_system_id c) (mc_call_id c) \<or> mc_system_id c = e_system_id e \<and> mc_call_id c = e_call_id e"
  shows "held_back c"
proof -
  have held [simp]: "held_back (x\<lparr>mc_state := Rejected, mc_reason := reason\<rparr>)" "held_back (x\<lparr>mc_reason := capacity_reason\<rparr>)"
    for x :: call_row and reason
    by (simp_all add: held_back_def)
  show ?thesis using assms by (auto simp: rejects_def defers_def set_update_where split: if_splits)
qed

lemma passed_over_held:
  assumes "passed_over es d d'"
    and "\<And>c. c \<in> set (db_calls d) \<Longrightarrow> P (mc_system_id c) (mc_call_id c) \<Longrightarrow> held_back c"
    and "c \<in> set (db_calls d')"
    and "P (mc_system_id c) (mc_call_id c) \<or> (\<exists>e \<in> set es. mc_system_id c = e_system_id e \<and> mc_call_id c = e_call_id e)"
  shows "held_back c"
  using assms
proof (induction es arbitrary: d P)
  case (Cons e es)
  from Cons.prems(1) obtain d1 where d1: "(\<exists>reason. rejects e reason d d1) \<or> defers e d d1" "passed_over es d1 d'" by auto
  show ?case
  proof (rule Cons.IH [OF d1(2), of "\<lambda>s i. P s i \<or> s = e_system_id e \<and> i = e_call_id e"])
    fix c assume "c \<in> set (db_calls d1)" "P (mc_system_id c) (mc_call_id c) \<or> mc_system_id c = e_system_id e \<and> mc_call_id c = e_call_id e"
    then show "held_back c" using held_back_kept [OF d1(1) Cons.prems(2)] by blast
  qed (use Cons.prems in auto)
qed auto

section \<open>Fair order\<close>

lemma admit_pre_held:
  assumes "admit H cfg session now d = (Inr (r, True), d')" "keyed_calls d"
    and q0: "admission_queue d = pre0 @ (e_system_id r, e_call_id r) # post0"
  shows "\<forall>c \<in> set (db_calls d'). (mc_system_id c, mc_call_id c) \<in> set pre0 \<longrightarrow> held_back c"
proof -
  obtain pre i post es e d1 d2 sent where q: "admission_queue d = pre @ i # post" and es: "list_all2 names es pre"
    and passed: "passed_over es d d1" and read: "readExecution (fst i) (snd i) d1 = (Inr e, d1)"
    and d2: "db_calls d2 = db_calls d1" and run: "dispatch cfg e sent now d2 = (Inr (), d')"
    and eq: "exec_static e = exec_static r"
    by (rule admit_granted [OF assms(1,2)])
  have nonempty: "snd j \<noteq> ''''" if "j \<in> set (admission_queue d)" for j
    using that assms(2) by (elim admission_queue_rows) (force simp: keyed_calls_def)
  have i: "i = (e_system_id r, e_call_id r)"
    using readExecution_names [OF read] eq nonempty [of i] q by (cases i) (simp add: names_def exec_static_def)
  have "held_back c" if c: "c \<in> set (db_calls d')" "(mc_system_id c, mc_call_id c) \<in> set pre" for c
  proof -
    have "snd i \<notin> snd ` set pre" using admission_queue_distinct [OF assms(2)] q by auto
    then have ne: "mc_call_id c \<noteq> snd i" using imageI [OF c(2), of snd] by (metis snd_conv)
    have "snd i = e_call_id e" using readExecution_names [OF read] nonempty [of i] q by (simp add: names_def)
    with c(1) ne have c1: "c \<in> set (db_calls d1)"
      by (auto simp: dispatch_ok(5) [OF run] d2 set_update_where started_def)
    obtain e' where e': "e' \<in> set es" "names e' (mc_system_id c, mc_call_id c)"
      using list_all2_row [OF es c(2)] by blast
    moreover have "mc_call_id c \<noteq> ''''" using nonempty [of "(mc_system_id c, mc_call_id c)"] c(2) q by simp
    ultimately show ?thesis
      by (intro passed_over_held [OF passed _ c1, of "\<lambda>_ _. False"]) (auto simp: names_def intro!: bexI [of _ e'])
  qed
  moreover have "pre = pre0"
    using q q0 i admission_queue_distinct [OF assms(2)]
    by (auto simp: append_eq_append_conv2 append_eq_Cons_conv Cons_eq_append_conv)
  ultimately show ?thesis by blast
qed

text \<open>A list sorted by age and then by a rank is in lexicographic order of rank and age.\<close>

lemma sorted_wrt_two_keys:
  fixes f g :: "'a \<Rightarrow> int"
  shows "sorted_wrt (\<lambda>x y. f x < f y \<or> f x = f y \<and> g x \<le> g y) (sort_key f (sort_key g xs))"
proof -
  have "sorted_wrt (\<lambda>x y. f x < f y \<or> f x = f y \<and> g x \<le> g y) zs"
    if "sorted (map f zs)" "\<And>k. sorted (map g (filter (\<lambda>y. f y = k) zs))" for zs
    using that
  proof (induction zs)
    case (Cons z zs)
    have "f z < f y \<or> f z = f y \<and> g z \<le> g y" if "y \<in> set zs" for y
      using that Cons.prems(1) Cons.prems(2) [of "f z"] by fastforce
    moreover have "sorted (map g (filter (\<lambda>y. f y = k) zs))" for k
      using Cons.prems(2) [of k] by (auto split: if_splits)
    ultimately show ?case using Cons.prems(1) by (simp add: Cons.IH)
  qed simp
  from this [of "sort_key f (sort_key g xs)"] show ?thesis by (simp add: sort_key_stable sorted_filter)
qed

text \<open>
  The fair order, over the rows: a call of a system that was admitted longer ago comes first, and
  calls of equal rank come by age.
\<close>

definition ahead :: "db \<Rightarrow> call_row \<Rightarrow> call_row \<Rightarrow> bool" where
  "ahead d b c \<longleftrightarrow> (\<exists>s t. List.find (\<lambda>s. sy_system_id s = mc_system_id b) (db_systems d) = Some s \<and>
     List.find (\<lambda>s. sy_system_id s = mc_system_id c) (db_systems d) = Some t \<and>
     (sy_last_admission s < sy_last_admission t \<or>
      sy_last_admission s = sy_last_admission t \<and> mc_sequence b < mc_sequence c))"

lemma admission_queue_order:
  assumes "admission_queue d = pre @ i # post"
  obtains c where "c \<in> set (db_calls d)" "mc_state c = Queued" "i = (mc_system_id c, mc_call_id c)"
    "\<And>b. b \<in> set (db_calls d) \<Longrightarrow> mc_state b = Queued \<Longrightarrow> ahead d b c \<Longrightarrow> (mc_system_id b, mc_call_id b) \<in> set pre"
proof -
  let ?rank = "\<lambda>c. case last_admission_of d (mc_system_id c) of Some n \<Rightarrow> n | None \<Rightarrow> 0"
  let ?key = "\<lambda>c. (mc_system_id c, mc_call_id c)"
  let ?queued = "filter (\<lambda>c. mc_state c = Queued \<and> last_admission_of d (mc_system_id c) \<noteq> None) (db_calls d)"
  let ?qs = "sort_key ?rank (sort_key mc_sequence ?queued)"
  from assms obtain xs c ys where t: "take MaxOperators ?qs = xs @ c # ys" "map ?key xs = pre" "?key c = i"
    unfolding admission_queue_def map_eq_append_conv map_eq_Cons_conv by blast
  obtain zs where qs: "?qs = xs @ c # zs"
  proof
    show "?qs = xs @ c # (ys @ drop MaxOperators ?qs)"
      using append_take_drop_id [of MaxOperators ?qs] unfolding t(1) append.assoc append_Cons by (rule sym)
  qed
  have "c \<in> set ?qs" unfolding qs by simp
  then have c: "c \<in> set ?queued" by simp
  have "(mc_system_id b, mc_call_id b) \<in> set pre" if b: "b \<in> set (db_calls d)" "mc_state b = Queued" "ahead d b c" for b
  proof -
    have rank: "?rank b < ?rank c \<or> ?rank b = ?rank c \<and> mc_sequence b < mc_sequence c"
      and known: "last_admission_of d (mc_system_id b) \<noteq> None"
      using b(3) by (auto simp: ahead_def last_admission_of_def)
    have "b \<in> set ?qs" using b(1,2) known by simp
    then have "b \<in> set (xs @ c # zs)" by (simp only: flip: qs)
    moreover have "sorted_wrt (\<lambda>x y. ?rank x < ?rank y \<or> ?rank x = ?rank y \<and> mc_sequence x \<le> mc_sequence y)
        (xs @ c # zs)"
      using sorted_wrt_two_keys [of ?rank mc_sequence ?queued] by (simp only: flip: qs)
    ultimately have "b \<in> set xs" using rank unfolding sorted_wrt_append set_append sorted_wrt.simps list.set by fastforce
    then show ?thesis using t(2) by force
  qed
  then show thesis using c t(3) by (intro that [of c]) auto
qed

text \<open>
  C4. Admission is fair. The admitted call is a queued call, and every queued call ahead of it, of
  a system admitted longer ago or of equal rank and older, was considered before it and held up:
  its system, deadlines, budgets or grants refused it, or one of its shared groups had no room. It
  is then rejected or waits for shared capacity. A later caller never overtakes an earlier call
  that could be dispatched.
\<close>

theorem admit_in_order:
  assumes "admit H cfg session now d = (Inr (r, True), d')" "keyed_calls d"
  shows "\<exists>pre post. admission_queue d = pre @ (e_system_id r, e_call_id r) # post \<and>
    (\<exists>c \<in> set (db_calls d). mc_state c = Queued \<and> mc_system_id c = e_system_id r \<and> mc_call_id c = e_call_id r \<and>
       (\<forall>b \<in> set (db_calls d). mc_state b = Queued \<and> ahead d b c \<longrightarrow> (mc_system_id b, mc_call_id b) \<in> set pre)) \<and>
    (\<forall>j \<in> set pre. \<exists>e. readExecution (fst j) (snd j) d = (Inr e, d) \<and> held_up H cfg now d e) \<and>
    (\<forall>c \<in> set (db_calls d'). (mc_system_id c, mc_call_id c) \<in> set pre \<longrightarrow> held_back c)"
proof -
  from admit_fair [OF assms] obtain pre post where q: "admission_queue d = pre @ (e_system_id r, e_call_id r) # post"
    and held: "\<forall>j \<in> set pre. \<exists>e. readExecution (fst j) (snd j) d = (Inr e, d) \<and> held_up H cfg now d e" by metis
  from admission_queue_order [OF q] obtain c where "c \<in> set (db_calls d)" "mc_state c = Queued"
    "mc_system_id c = e_system_id r" "mc_call_id c = e_call_id r"
    "\<forall>b \<in> set (db_calls d). mc_state b = Queued \<and> ahead d b c \<longrightarrow> (mc_system_id b, mc_call_id b) \<in> set pre"
    by (metis prod.inject)
  with q held admit_pre_held [OF assms q] show ?thesis by blast
qed

section \<open>The ledger\<close>

text \<open>What a system's reservation must be: the attempts whose usage never became known.\<close>

definition unsettled :: "db \<Rightarrow> string \<Rightarrow> int" where
  "unsettled d systemID = sum_where (\<lambda>a. at_system_id a = systemID \<and> at_state a \<noteq> Known) at_reservation (db_attempts d)"

definition running_calls :: "db \<Rightarrow> (string \<times> string \<times> int) list" where
  "running_calls d = map (\<lambda>c. (mc_call_id c, mc_system_id c, mc_reservation c)) (filter (\<lambda>c. mc_state c = Running) (db_calls d))"

definition running_attempts :: "db \<Rightarrow> (string \<times> string \<times> int) list" where
  "running_attempts d =
     map (\<lambda>a. (at_call_id a, at_system_id a, at_reservation a)) (filter (\<lambda>a. at_state a = Running) (db_attempts d))"

text \<open>
  The books balance: every system's reservation is its unsettled total, and the running calls
  are exactly the calls with a running attempt, which holds the call's reservation.
\<close>

definition ledger :: "db \<Rightarrow> bool" where
  "ledger d \<longleftrightarrow> keyed_calls d \<and>
     (\<forall>s \<in> set (db_systems d). sy_reserved_tokens s = unsettled d (sy_system_id s)) \<and>
     distinct (map fst (running_attempts d)) \<and> set (running_attempts d) = set (running_calls d)"

lemma ledger_congI:
  assumes "map mc_call_id (db_calls d') = map mc_call_id (db_calls d)" "set (running_calls d') = set (running_calls d)"
    and "db_attempts d' = db_attempts d"
    and "\<And>s'. s' \<in> set (db_systems d') \<Longrightarrow> \<exists>s \<in> set (db_systems d). sy_system_id s = sy_system_id s' \<and>
      sy_reserved_tokens s = sy_reserved_tokens s'"
    and "ledger d"
  shows "ledger d'"
proof -
  have "keyed_calls d'" using assms(1,5) unfolding ledger_def keyed_calls_def by (metis list.set_map)
  moreover have "running_attempts d' = running_attempts d" "unsettled d' = unsettled d"
    using assms(3) by (simp_all add: running_attempts_def unsettled_def fun_eq_iff)
  moreover have "sy_reserved_tokens s' = unsettled d (sy_system_id s')" if "s' \<in> set (db_systems d')" for s'
    using assms(4) [OF that] assms(5) by (auto simp: ledger_def)
  ultimately show ?thesis using assms(2,5) by (simp add: ledger_def)
qed

text \<open>Rejecting or deferring queued calls, and queueing or canceling calls that were not dispatched.\<close>

lemma running_calls_update:
  assumes "\<And>c. c \<in> set (db_calls d) \<Longrightarrow> P c \<Longrightarrow> mc_state c \<noteq> Running \<and> mc_state (f c) \<noteq> Running \<or>
      mc_state (f c) = mc_state c \<and> mc_call_id (f c) = mc_call_id c \<and> mc_system_id (f c) = mc_system_id c \<and>
      mc_reservation (f c) = mc_reservation c"
    and "db_calls d' = update_where P f (db_calls d)"
  shows "running_calls d' = running_calls d"
proof -
  have "map (\<lambda>c. (mc_call_id c, mc_system_id c, mc_reservation c)) (filter (\<lambda>c. mc_state c = Running) (update_where P f cs)) =
      map (\<lambda>c. (mc_call_id c, mc_system_id c, mc_reservation c)) (filter (\<lambda>c. mc_state c = Running) cs)"
    if "set cs \<subseteq> set (db_calls d)" for cs
    using that
  proof (induction cs)
    case (Cons c cs)
    with assms(1) [of c] show ?case by (auto simp: row_simps)
  qed (simp add: row_simps)
  with assms(2) show ?thesis by (simp add: running_calls_def)
qed

lemma terminalCall_ledger:
  assumes "ledger d" "undispatched (e_state e)" "readExecution s i d = (Inr e, d)" "state \<noteq> Running"
    and "terminalCall e state reason d = (r, d')"
  shows "ledger d'"
proof -
  obtain c where c: "c \<in> set (db_calls d)" "e_call_id e = mc_call_id c" "mc_state c = e_state e"
    using readExecution_row [OF assms(3)] by (auto simp: exec_static_def call_static_def)
  have keyed: "keyed_calls d" using assms(1) by (simp add: ledger_def)
  have d': "d' = db_calls_update (update_where (\<lambda>c. mc_system_id c = e_system_id e \<and> mc_call_id c = e_call_id e)
       (\<lambda>c. c\<lparr>mc_state := state, mc_reason := reason\<rparr>)) d"
    using assms(5) by (auto simp: terminalCall_def)
  have "running_calls d' = running_calls d"
  proof (rule running_calls_update)
    fix x assume "x \<in> set (db_calls d)" "mc_system_id x = e_system_id e \<and> mc_call_id x = e_call_id e"
    then have "x = c" using keyed_row [OF keyed _ c(1)] c(2) by simp
    then show "mc_state x \<noteq> Running \<and> mc_state (x\<lparr>mc_state := state, mc_reason := reason\<rparr>) \<noteq> Running \<or>
      mc_state (x\<lparr>mc_state := state, mc_reason := reason\<rparr>) = mc_state x \<and>
      mc_call_id (x\<lparr>mc_state := state, mc_reason := reason\<rparr>) = mc_call_id x \<and>
      mc_system_id (x\<lparr>mc_state := state, mc_reason := reason\<rparr>) = mc_system_id x \<and>
      mc_reservation (x\<lparr>mc_state := state, mc_reason := reason\<rparr>) = mc_reservation x"
      using c(3) assms(2,4) by (auto simp: undispatched_def)
  qed (simp add: d')
  then show ?thesis
    by (intro ledger_congI [OF _ _ _ _ assms(1)]) (auto simp: d' map_update_where)
qed

lemma passed_over_running:
  assumes "passed_over es d d'" "list_all2 names es pre" "set pre \<subseteq> set (admission_queue d)" "keyed_calls d"
  shows "running_calls d' = running_calls d"
proof -
  have queued: "mc_state c = Queued" if c: "c \<in> set (db_calls d)" and e: "e \<in> set es" "e_call_id e = mc_call_id c" for c e
  proof -
    obtain i where i: "i \<in> set pre" "names e i" using list_all2_row_left [OF assms(2) e(1)] by blast
    then obtain x where x: "x \<in> set (db_calls d)" "mc_state x = Queued" "i = (mc_system_id x, mc_call_id x)"
      using assms(3) admission_queue_rows by blast
    have "mc_call_id x \<noteq> ''''" using x(1) assms(4) by (force simp: keyed_calls_def)
    with i x e(2) have "mc_call_id x = mc_call_id c" by (simp add: names_def)
    then show ?thesis using keyed_row [OF assms(4) x(1) c] x(2) by simp
  qed
  let ?key = "\<lambda>c. (mc_call_id c, mc_system_id c, mc_reservation c)"
  have "map ?key (filter (\<lambda>c. mc_state c = Running) ys) = map ?key (filter (\<lambda>c. mc_state c = Running) xs)"
    if "list_all2 (call_touched es) xs ys" "set xs \<subseteq> set (db_calls d)" for xs ys
    using that
  proof (induction rule: list_all2_induct)
    case (Cons x xs y ys)
    have "y = x \<or> mc_state x = Queued \<and> mc_state y \<noteq> Running"
      using Cons.hyps(1) Cons.prems queued by (auto simp: call_touched_def)
    moreover have "?key y = ?key x" using Cons.hyps(1) by (simp add: call_touched_def call_static_def)
    ultimately show ?case using Cons by auto
  qed simp
  from this [OF passed_over_rows [OF assms(1)]] show ?thesis by (simp add: running_calls_def)
qed

lemma statics_call_ids: "statics d = statics d' \<Longrightarrow> map mc_call_id (db_calls d) = map mc_call_id (db_calls d')"
  by (drule arg_cong [where f = "\<lambda>p. map fst (fst p)"]) (simp add: statics_def comp_def call_static_def)

lemma passed_over_ledger:
  assumes "passed_over es d d'" "list_all2 names es pre" "set pre \<subseteq> set (admission_queue d)" "ledger d"
  shows "ledger d'"
proof -
  have "keyed_calls d" using assms(4) by (simp add: ledger_def)
  with assms passed_over_running passed_over_statics [OF assms(1)] show ?thesis
    by (intro ledger_congI [OF _ _ _ _ assms(4)]) (auto simp: core_def intro: statics_call_ids)
qed

section \<open>Admission keeps the books\<close>

lemma unsettled_append: "db_attempts d' = db_attempts d @ [a] \<Longrightarrow>
    unsettled d' s = unsettled d s + (if at_system_id a = s \<and> at_state a \<noteq> Known then at_reservation a else 0)"
  by (simp add: unsettled_def row_simps)

lemma running_calls_keys:
  "keyed_calls d \<Longrightarrow> c \<in> set (db_calls d) \<Longrightarrow> (mc_call_id c, s, r) \<in> set (running_calls d) \<Longrightarrow>
   mc_state c = Running \<and> s = mc_system_id c \<and> r = mc_reservation c"
proof -
  assume "keyed_calls d" "c \<in> set (db_calls d)" "(mc_call_id c, s, r) \<in> set (running_calls d)"
  moreover from this(3) obtain x where "x \<in> set (db_calls d)" "mc_state x = Running" "mc_call_id x = mc_call_id c"
    "s = mc_system_id x" "r = mc_reservation x"
    by (auto simp: running_calls_def)
  ultimately show ?thesis using keyed_row [of d x c] by auto
qed

text \<open>An update by call identity changes one row.\<close>

lemma keyed_update:
  assumes "keyed_calls d" "c \<in> set (db_calls d)"
  obtains xs ys where "db_calls d = xs @ c # ys"
    "\<And>f. update_where (\<lambda>x. mc_call_id x = mc_call_id c) f (db_calls d) = xs @ f c # ys"
    "mc_call_id c \<notin> mc_call_id ` set (xs @ ys)"
proof -
  from assms(2) obtain xs ys where split: "db_calls d = xs @ c # ys" by (auto dest: split_list)
  with assms(1) have fresh: "mc_call_id c \<notin> mc_call_id ` set (xs @ ys)" by (auto simp: keyed_calls_def)
  then have "mc_call_id x \<noteq> mc_call_id c" if "x \<in> set xs \<union> set ys" for x
    using that by (metis image_eqI set_append)
  then have "update_where (\<lambda>x. mc_call_id x = mc_call_id c) f xs = xs"
      "update_where (\<lambda>x. mc_call_id x = mc_call_id c) f ys = ys" for f
    by (intro update_where_none; blast)+
  with split fresh show thesis by (intro that) (simp_all add: row_simps)
qed

lemma dispatch_ledger:
  assumes "ledger d" "dispatch cfg e sent now d = (Inr (), d')"
    and "c \<in> set (db_calls d)" "exec_static e = call_static c" "mc_state c = Queued"
  shows "ledger d'"
proof -
  note run = dispatch_ok [OF assms(2)]
  have eq: "e_call_id e = mc_call_id c" "e_system_id e = mc_system_id c" "e_reservation e = mc_reservation c"
    using assms(4) by (simp_all add: exec_static_def call_static_def)
  have keyed: "keyed_calls d" and books: "set (running_attempts d) = set (running_calls d)" "distinct (map fst (running_attempts d))"
    using assms(1) by (simp_all add: ledger_def)
  have keyed': "keyed_calls d'"
    using keyed keyed_calls_statics [OF dispatch_statics [OF assms(2)]] by simp
  let ?new = "(mc_call_id c, mc_system_id c, mc_reservation c)"
  have attempts: "running_attempts d' = running_attempts d @ [?new]"
    using run(1) eq by (simp add: running_attempts_def attempt_of_def)
  have fresh: "mc_call_id c \<notin> fst ` set (running_attempts d)"
  proof
    assume "mc_call_id c \<in> fst ` set (running_attempts d)"
    then obtain s r where "(mc_call_id c, s, r) \<in> set (running_calls d)" using books(1) by force
    then show False using running_calls_keys [OF keyed assms(3)] assms(5) by simp
  qed
  have "set (running_calls d') = insert ?new (set (running_calls d))"
  proof (rule keyed_update [OF keyed assms(3)])
    fix xs ys assume "db_calls d = xs @ c # ys"
      "\<And>f. update_where (\<lambda>x. mc_call_id x = mc_call_id c) f (db_calls d) = xs @ f c # ys"
    then show ?thesis using assms(5) unfolding running_calls_def run(5) eq by (auto simp: started_def)
  qed
  moreover have "sy_reserved_tokens s = unsettled d' (sy_system_id s)" if "s \<in> set (db_systems d')" for s
  proof -
    from that obtain x where x: "x \<in> set (db_systems d)" "sy_system_id s = sy_system_id x"
      "sy_reserved_tokens s = sy_reserved_tokens x + (if sy_system_id x = e_system_id e then e_reservation e else 0)"
      unfolding run(2) by (auto simp: set_update_where)
    have "sy_reserved_tokens x = unsettled d (sy_system_id x)" using assms(1) x(1) by (simp add: ledger_def)
    then show ?thesis using x unsettled_append [OF run(1)] by (simp add: attempt_of_def)
  qed
  ultimately show ?thesis
    using keyed' attempts fresh books by (simp add: ledger_def)
qed

lemma admit_balanced:
  assumes "ledger d"
  shows "ledger (snd (admit H cfg session now d))"
proof (cases "admit H cfg session now d")
  case (Pair res d')
  have keyed: "keyed_calls d" using assms by (simp add: ledger_def)
  show ?thesis
  proof (cases "\<exists>r. res = Inr (r, True)")
    case True
    then obtain r where run: "admit H cfg session now d = (Inr (r, True), d')" using Pair by auto
    obtain pre i post es e d1 d2 sent where q: "admission_queue d = pre @ i # post" and es: "list_all2 names es pre"
      and passed: "passed_over es d d1" and read: "readExecution (fst i) (snd i) d1 = (Inr e, d1)"
      and d2: "core d2 = core d" "core d1 = core d" "db_calls d2 = db_calls d1" and disp: "dispatch cfg e sent now d2 = (Inr (), d')"
      and st: "statics d1 = statics d"
      by (rule admit_granted [OF run keyed])
    have l1: "ledger d1" using passed_over_ledger [OF passed es _ assms] q by auto
    then have l2: "ledger d2"
      by (rule ledger_congI [rotated -1]) (use d2 in \<open>auto simp: core_def running_calls_def\<close>)
    have "i \<in> set (admission_queue d)" using q by simp
    then obtain x where x: "x \<in> set (db_calls d)" "mc_state x = Queued" "i = (mc_system_id x, mc_call_id x)"
      by (rule admission_queue_rows)
    obtain c where c: "c \<in> set (db_calls d1)" "exec_static e = call_static c" "snd i = '''' \<or> mc_call_id c = snd i"
      using readExecution_row [OF read] by blast
    have ne: "mc_call_id x \<noteq> ''''" using x(1) keyed by (force simp: keyed_calls_def)
    obtain y where y: "y \<in> set (db_calls d)" "call_touched es y c"
      using list_all2_row [OF passed_over_rows [OF passed] c(1)] by blast
    have "mc_call_id y = mc_call_id x" using y(2) c(3) x(3) ne by (auto simp: call_touched_def call_static_def)
    then have "y = x" using keyed_row [OF keyed y(1) x(1)] by simp
    moreover have "e' \<notin> set es" if "e_call_id e' = mc_call_id x" for e'
    proof
      assume "e' \<in> set es"
      then obtain j where j: "j \<in> set pre" "names e' j" using list_all2_row_left [OF es] by blast
      then obtain z where "z \<in> set (db_calls d)" "j = (mc_system_id z, mc_call_id z)"
        using admission_queue_rows [of j d] q by auto
      then have "snd j \<noteq> ''''" using keyed by (force simp: keyed_calls_def)
      with j(2) that x(3) have "snd j = snd i" by (simp add: names_def)
      moreover have "snd i \<notin> snd ` set pre" using admission_queue_distinct [OF keyed] q by auto
      ultimately show False using imageI [OF j(1), of snd] by simp
    qed
    ultimately have "c = x" using y(2) by (auto simp: call_touched_def)
    with c x d2(3) show ?thesis unfolding Pair snd_conv by (intro dispatch_ledger [OF l2 disp]) auto
  next
    case False
    show ?thesis
    proof (cases res)
      case (Inl err)
      with Pair have "d' = d" unfolding admit_def by (auto dest: transaction_failed)
      then show ?thesis using Pair assms by simp
    next
      case (Inr x)
      with False Pair obtain r where "admit H cfg session now d = (Inr (r, False), d')"
        by (cases x) (metis (full_types))
      then have "d' = d \<or> admit_loop H cfg session now (admission_queue d) d = (Inr False, d')"
        unfolding admit_def
        by (auto elim!: tx_bind_ok split: if_splits simp: authorizeCall_ok readExecution_ok)
      then show ?thesis
      proof
        assume "admit_loop H cfg session now (admission_queue d) d = (Inr False, d')"
        then obtain pre post es where "admission_queue d = pre @ post" "list_all2 names es pre" "passed_over es d d'"
          by (rule admit_loop_cases) auto
        then show ?thesis using passed_over_ledger [OF _ _ _ assms] Pair by auto
      qed (use Pair assms in simp)
    qed
  qed
qed

text \<open>
  C6. Admission keeps the books: if every system's reservation is the sum of its unsettled attempts
  and the running calls are those with a running attempt, the same holds after any admission,
  whether it dispatches, rejects, defers or fails.
\<close>

theorem admit_ledger:
  assumes "ledger d"
  shows "ledger (snd (admit H cfg session now d))"
  using assms by (rule admit_balanced)

section \<open>Settlement\<close>

definition goal_money :: "goal_row \<Rightarrow> string \<times> string \<times> int \<times> int" where
  "goal_money g = (gl_system_id g, gl_goal_id g, gl_used_tokens g, gl_reserved_tokens g)"

lemma cool_groups_standing: "tx_rel (same standing) (tx_fold (cool_group cfg cooldown) acc gs)"
  unfolding cool_group_def
  by (intro frame_rules db_frame.rel_update) (simp add: same_def standing_def core_def)

lemma cool_groups_goals: "tx_rel (same db_goals) (tx_fold (cool_group cfg cooldown) acc gs)"
  unfolding cool_group_def
  by (intro frame_rules db_frame.rel_update) (simp add: same_def)

lemma update_where_id: "update_where P (\<lambda>r. r) rs = rs"
  by (simp add: update_where_def)

text \<open>A retry sets the queueing times of the call and the state of its goal, nothing of the books.\<close>

lemma settle_retry_ok:
  assumes "settle_retry cfg e p now outcome d = (Inr (state, reason), d')"
  obtains f where "db_calls d' = update_where (\<lambda>c. mc_call_id c = e_call_id e) f (db_calls d)"
    "\<And>c. call_static (f c) = call_static c"
    "db_systems d' = db_systems d" "db_attempts d' = db_attempts d" "db_usage d' = db_usage d"
    "map goal_money (db_goals d') = map goal_money (db_goals d)"
    "state = fst outcome \<or> state = Queued \<and> pr_retry p \<and> e_attempts e < 3 \<and> now < e_deadline e"
proof (cases "pr_retry p")
  case False
  with assms have "d' = d" "state = fst outcome" by (auto simp: settle_retry_def)
  then show thesis using that [of "\<lambda>c. c"] by (simp add: update_where_id)
next
  case True
  with assms obtain wait available d1 s where
    cool: "tx_fold (cool_group cfg (case pr_cooldown p of Some t \<Rightarrow> t | None \<Rightarrow> now + pr_retry_delay p)) (3600, True)
       (model_groups cfg (e_model e)) d = (Inr (wait, available), d1)"
    and rest: "(if e_attempts e < 3 \<and> now < e_deadline e \<and> sy_state (s :: system_row) = SRunning \<and> available
      then requeue e wait now (retry_reason available (snd outcome))
      else tx_return (fst outcome, retry_reason available (snd outcome))) d1 = (Inr (state, reason), d')"
    unfolding settle_retry_def Let_def by (auto elim!: tx_bind_ok)
  have d1: "core d1 = core d" "db_calls d1 = db_calls d" "db_goals d1 = db_goals d"
    using standing_state [OF cool_groups_standing cool] tx_rel_result [OF cool_groups_goals cool] by (simp_all add: same_def)
  show thesis
  proof (cases "e_attempts e < 3 \<and> now < e_deadline e \<and> sy_state s = SRunning \<and> available")
    case False
    with rest have "d' = d1" "state = fst outcome" by auto
    then show thesis using d1 that [of "\<lambda>c. c"] by (simp add: update_where_id core_def)
  next
    case again: True
    let ?f = "\<lambda>c. c\<lparr>mc_wait_deadline := min (e_deadline e) (now + wait * 1000), mc_queued_at := now\<rparr>"
    from again rest have "requeue e wait now (retry_reason available (snd outcome)) d1 = (Inr (state, reason), d')" by simp
    then have d': "d' = db_goals_update (update_where (\<lambda>g. gl_system_id g = e_system_id e \<and> gl_goal_id g = e_goal_id e)
          (\<lambda>g. g\<lparr>gl_state := Waiting\<rparr>)) (db_calls_update (update_where (\<lambda>c. mc_call_id c = e_call_id e) ?f) d1)"
      and "state = Queued"
      by (auto simp: requeue_def update_call_def update_goal_def elim!: tx_seq_ok)
    then show thesis
      using d1 again True by (intro that [of ?f]) (auto simp: core_def call_static_def goal_money_def intro!: map_update_where)
  qed
qed

definition settled :: "provider_result \<Rightarrow> attempt_row \<Rightarrow> attempt_row" where
  "settled p a = (if pr_known p
     then a\<lparr>at_state := Known, at_input_tokens := pr_input p, at_output_tokens := pr_output p,
            at_reservation := max (at_reservation a) (pr_input p + pr_output p), at_throttled := pr_retry p\<rparr>
     else a\<lparr>at_state := Unknown\<rparr>)"

lemma settle_usage_ok:
  assumes "settle_usage e p d = (Inr (), d')"
  shows "db_calls d' = db_calls d"
    and "db_attempts d' = update_where (is_running_attempt e) (settled p) (db_attempts d)"
    and "db_systems d' = (if pr_known p then update_where (\<lambda>s. sy_system_id s = e_system_id e)
       (\<lambda>s. s\<lparr>sy_reserved_tokens := sy_reserved_tokens s - e_reservation e,
              sy_used_tokens := sy_used_tokens s + (pr_input p + pr_output p)\<rparr>) (db_systems d) else db_systems d)"
    and "db_goals d' = (if pr_known p then update_where (\<lambda>g. gl_system_id g = e_system_id e \<and> gl_goal_id g = e_goal_id e)
       (\<lambda>g. g\<lparr>gl_reserved_tokens := gl_reserved_tokens g - e_reservation e,
              gl_used_tokens := gl_used_tokens g + (pr_input p + pr_output p)\<rparr>) (db_goals d) else db_goals d)"
    and "db_usage d' = (if pr_known p then charge_usage d e (- e_reservation e) (pr_input p + pr_output p) (db_usage d)
       else db_usage d)"
  using assms
  by (auto simp: settle_usage_def charge_system_def charge_goal_def chargeAgents_run Let_def settled_def [abs_def]
      elim!: tx_seq_ok split: if_splits)

lemma settle_cases:
  assumes "settle cfg session p now d = (Inr (), d')"
  obtains (idle) e where "readExecution (e_system_id session) (e_call_id session) d = (Inr e, d)" "e_state e \<noteq> Running" "d' = d"
  | (settled) e d1 d2 state reason where "readExecution (e_system_id session) (e_call_id session) d = (Inr e, d)"
      "e_state e = Running" "settle_usage e p d = (Inr (), d1)"
      "settle_retry cfg e p now (if pr_known p then if pr_reason p \<noteq> '''' then Failed else Completed else Unknown, pr_reason p) d1
         = (Inr (state, reason), d2)"
      "db_systems d' = db_systems d2" "db_goals d' = db_goals d2" "db_usage d' = db_usage d2" "db_attempts d' = db_attempts d2"
      "db_calls d' = update_where (\<lambda>c. mc_call_id c = e_call_id e) (\<lambda>c. c\<lparr>mc_state := state, mc_reason := reason,
         mc_response := pr_text p, mc_input_tokens := mc_input_tokens c + pr_input p,
         mc_output_tokens := mc_output_tokens c + pr_output p, mc_usage_known := pr_known p, mc_actions := pr_actions p\<rparr>) (db_calls d2)"
proof -
  from assms obtain e where e: "readExecution (e_system_id session) (e_call_id session) d = (Inr e, d)"
    and rest: "(if e_state e \<noteq> Running then tx_return () else
      tx_seq (settle_usage e p)
      (tx_bind (settle_retry cfg e p now
          (if pr_known p then if pr_reason p \<noteq> '''' then Failed else Completed else Unknown, pr_reason p)) (\<lambda>(state, reason).
       tx_seq (update_call (e_call_id e) (\<lambda>c. c\<lparr>mc_state := state, mc_reason := reason, mc_response := pr_text p,
                mc_input_tokens := mc_input_tokens c + pr_input p, mc_output_tokens := mc_output_tokens c + pr_output p,
                mc_usage_known := pr_known p, mc_actions := pr_actions p\<rparr>))
       (auditExecution (e_system_id e) (e_activation_id e) (''model.'' @ state_name state) (e_revision e) now)))) d = (Inr (), d')"
    unfolding settle_def transaction_ok by (elim tx_bind_ok) (auto simp: authorizeCall_ok)
  show thesis
  proof (cases "e_state e = Running")
    case False
    with rest e idle show thesis by simp
  next
    case True
    with rest obtain d1 state reason d2 where "settle_usage e p d = (Inr (), d1)"
      "settle_retry cfg e p now (if pr_known p then if pr_reason p \<noteq> '''' then Failed else Completed else Unknown, pr_reason p) d1
         = (Inr (state, reason), d2)"
      "tx_seq (update_call (e_call_id e) (\<lambda>c. c\<lparr>mc_state := state, mc_reason := reason, mc_response := pr_text p,
                mc_input_tokens := mc_input_tokens c + pr_input p, mc_output_tokens := mc_output_tokens c + pr_output p,
                mc_usage_known := pr_known p, mc_actions := pr_actions p\<rparr>))
       (auditExecution (e_system_id e) (e_activation_id e) (''model.'' @ state_name state) (e_revision e) now) d2 = (Inr (), d')"
      by (simp only: not_True_eq_False if_False simp_thms) (elim tx_seq_ok tx_bind_ok, simp split: prod.splits)
    with e True show thesis
      by (intro settled [of e d1 state reason d2]) (auto simp: update_call_def auditExecution_def elim!: tx_seq_ok)
  qed
qed

definition release :: "bool \<Rightarrow> int \<Rightarrow> int \<Rightarrow> int \<times> int \<Rightarrow> int \<times> int" where
  "release hit reservation actual money =
     (if hit then (fst money - reservation, snd money + actual) else money)"

text \<open>
  C5. Settlement is exact: a call that is not running is left alone; known usage gives back the
  reservation and books the input and output tokens on the system, the goal and every agent of
  the ledger; unknown usage stays reserved everywhere. Either way no other system or goal is
  touched, and the call's running attempts become known or unknown.
\<close>

theorem settle_exact:
  assumes "settle cfg session p now d = (Inr (), d')"
    and "readExecution (e_system_id session) (e_call_id session) d = (Inr e, d)"
  shows "if e_state e \<noteq> Running then d' = d else
    map (\<lambda>s. (sy_reserved_tokens s, sy_used_tokens s)) (db_systems d') =
      map (\<lambda>s. release (pr_known p \<and> sy_system_id s = e_system_id e) (e_reservation e) (pr_input p + pr_output p)
             (sy_reserved_tokens s, sy_used_tokens s)) (db_systems d) \<and>
    map (\<lambda>g. (gl_reserved_tokens g, gl_used_tokens g)) (db_goals d') =
      map (\<lambda>g. release (pr_known p \<and> gl_system_id g = e_system_id e \<and> gl_goal_id g = e_goal_id e) (e_reservation e)
             (pr_input p + pr_output p) (gl_reserved_tokens g, gl_used_tokens g)) (db_goals d) \<and>
    db_usage d' = (if pr_known p then charge_usage d e (- e_reservation e) (pr_input p + pr_output p) (db_usage d) else db_usage d) \<and>
    db_attempts d' = update_where (is_running_attempt e) (settled p) (db_attempts d)"
  using assms(1)
proof (cases rule: settle_cases)
  case (idle e')
  with assms(2) show ?thesis by simp
next
  case (settled e' d1 d2 state reason)
  then have [simp]: "e' = e" using assms(2) by simp
  note usage = settle_usage_ok [OF settled(3)]
  from settled(4) obtain f where retry: "db_systems d2 = db_systems d1" "db_attempts d2 = db_attempts d1"
    "db_usage d2 = db_usage d1" "map goal_money (db_goals d2) = map goal_money (db_goals d1)"
    by (rule settle_retry_ok)
  have "map (\<lambda>s. (sy_reserved_tokens s, sy_used_tokens s)) (db_systems d') =
      map (\<lambda>s. release (pr_known p \<and> sy_system_id s = e_system_id e) (e_reservation e) (pr_input p + pr_output p)
             (sy_reserved_tokens s, sy_used_tokens s)) (db_systems d)"
    using settled(5) retry(1) usage(3) by (simp add: update_where_def release_def)
  moreover have "map (\<lambda>g. (gl_reserved_tokens g, gl_used_tokens g)) (db_goals d') =
      map (\<lambda>g. release (pr_known p \<and> gl_system_id g = e_system_id e \<and> gl_goal_id g = e_goal_id e) (e_reservation e)
             (pr_input p + pr_output p) (gl_reserved_tokens g, gl_used_tokens g)) (db_goals d)"
  proof -
    have "map (\<lambda>g. (gl_reserved_tokens g, gl_used_tokens g)) (db_goals d') =
        map (\<lambda>(_, _, u, r). (r, u)) (map goal_money (db_goals d2))"
      using settled(6) by (simp add: goal_money_def)
    also have "\<dots> = map (\<lambda>g. (gl_reserved_tokens g, gl_used_tokens g)) (db_goals d1)"
      unfolding retry(4) by (simp add: goal_money_def)
    also have "\<dots> = map (\<lambda>g. release (pr_known p \<and> gl_system_id g = e_system_id e \<and> gl_goal_id g = e_goal_id e) (e_reservation e)
             (pr_input p + pr_output p) (gl_reserved_tokens g, gl_used_tokens g)) (db_goals d)"
      using usage(4) by (simp add: update_where_def release_def)
    finally show ?thesis .
  qed
  ultimately show ?thesis using settled(2,7,8) retry(2,3) usage(2,5) by simp
qed

section \<open>Settlement, queueing and cancellation keep the books\<close>

lemma settled_sum:
  assumes "distinct (map fst keys)" "(i, s, r) \<in> set keys"
    and "keys = map (\<lambda>a. (at_call_id a, at_system_id a, at_reservation a)) (filter (\<lambda>a. at_state a = Running) as)"
    and "e_call_id e = i" "pr_known p"
  shows "sum_where (\<lambda>a. at_system_id a = x \<and> at_state a \<noteq> Known) at_reservation (update_where (is_running_attempt e) (settled p) as) =
    sum_where (\<lambda>a. at_system_id a = x \<and> at_state a \<noteq> Known) at_reservation as - (if x = s then r else 0)"
  using assms(1-3)
proof (induction as arbitrary: keys)
  case Nil then show ?case by simp
next
  case (Cons a as)
  show ?case
  proof (cases "at_state a = Running \<and> at_call_id a = i")
    case True
    with Cons.prems have "i \<notin> fst ` set (map (\<lambda>a. (at_call_id a, at_system_id a, at_reservation a)) (filter (\<lambda>a. at_state a = Running) as))"
      and a: "at_system_id a = s" "at_reservation a = r"
      by (auto simp: image_iff)
    then have "update_where (is_running_attempt e) (settled p) as = as"
      using assms(4) by (intro update_where_none) (force simp: is_running_attempt_def)
    moreover have "is_running_attempt e a" using True assms(4) by (simp add: is_running_attempt_def)
    moreover have "at_state (settled p a) = Known" using assms(5) by (simp add: settled_def)
    ultimately show ?thesis using True a by (simp add: row_simps)
  next
    case False
    with Cons.prems have "sum_where (\<lambda>a. at_system_id a = x \<and> at_state a \<noteq> Known) at_reservation
        (update_where (is_running_attempt e) (settled p) as) =
      sum_where (\<lambda>a. at_system_id a = x \<and> at_state a \<noteq> Known) at_reservation as - (if x = s then r else 0)"
      by (intro Cons.IH [OF _ _ refl]) (auto split: if_splits)
    moreover have "\<not> is_running_attempt e a" using False assms(4) by (auto simp: is_running_attempt_def)
    ultimately show ?thesis by (simp add: row_simps)
  qed
qed

lemma unsettled_unknown:
  "\<not> pr_known p \<Longrightarrow> sum_where (\<lambda>a. at_system_id a = x \<and> at_state a \<noteq> Known) at_reservation (update_where (is_running_attempt e) (settled p) as) =
    sum_where (\<lambda>a. at_system_id a = x \<and> at_state a \<noteq> Known) at_reservation as"
  by (rule sum_where_update) (simp add: settled_def is_running_attempt_def)

lemma settled_attempts: "map (\<lambda>a. (at_call_id a, at_system_id a, at_reservation a))
     (filter (\<lambda>a. at_state a = Running) (update_where (is_running_attempt e) (settled p) as)) =
   filter (\<lambda>k. fst k \<noteq> e_call_id e) (map (\<lambda>a. (at_call_id a, at_system_id a, at_reservation a)) (filter (\<lambda>a. at_state a = Running) as))"
  by (induction as) (auto simp: row_simps is_running_attempt_def settled_def)

lemma settle_balanced:
  assumes "ledger d"
  shows "ledger (snd (settle cfg session p now d))"
proof (cases "settle cfg session p now d")
  case (Pair res d')
  show ?thesis
  proof (cases res)
    case (Inl err)
    with Pair have "d' = d" unfolding settle_def by (auto dest: transaction_failed)
    then show ?thesis using Pair assms by simp
  next
    case (Inr u)
    then have run: "settle cfg session p now d = (Inr (), d')" using Pair by simp
    then show ?thesis
    proof (cases rule: settle_cases)
      case idle then show ?thesis using run assms by simp
    next
      case (settled e d1 d2 state reason)
      have keyed: "keyed_calls d" and books: "set (running_attempts d) = set (running_calls d)"
        "distinct (map fst (running_attempts d))" using assms by (simp_all add: ledger_def)
      obtain c where c: "c \<in> set (db_calls d)" "exec_static e = call_static c" "mc_state c = Running"
        using readExecution_row [OF settled(1)] settled(2) by metis
      have eq: "e_call_id e = mc_call_id c" "e_system_id e = mc_system_id c" "e_reservation e = mc_reservation c"
        using c(2) by (simp_all add: exec_static_def call_static_def)
      note usage = settle_usage_ok [OF settled(3)]
      from settled(4) obtain f where retry: "db_systems d2 = db_systems d1" "db_attempts d2 = db_attempts d1"
          "db_calls d2 = update_where (\<lambda>c. mc_call_id c = e_call_id e) f (db_calls d1)" "\<And>c. call_static (f c) = call_static c"
        and outcome: "state = (if pr_known p then if pr_reason p \<noteq> '''' then Failed else Completed else Unknown) \<or> state = Queued"
        by (rule settle_retry_ok) (use that in auto)
      have static: "mc_call_id (f c) = mc_call_id c" for c using retry(4) [of c] by (simp add: call_static_def)
      define g where "g = (\<lambda>c. (f c)\<lparr>mc_state := state, mc_reason := reason, mc_response := pr_text p,
         mc_input_tokens := mc_input_tokens (f c) + pr_input p, mc_output_tokens := mc_output_tokens (f c) + pr_output p,
         mc_usage_known := pr_known p, mc_actions := pr_actions p\<rparr>)"
      have calls: "db_calls d' = update_where (\<lambda>c. mc_call_id c = e_call_id e) g (db_calls d)"
        unfolding settled(9) retry(3) usage(1) g_def by (rule update_where_twice) (simp add: static)
      have "keyed_calls d'"
      proof -
        have "map mc_call_id (db_calls d') = map mc_call_id (db_calls d)"
          unfolding calls by (rule map_update_where) (simp add: g_def static)
        with keyed show ?thesis unfolding keyed_calls_def by (metis list.set_map)
      qed
      moreover have attempts: "running_attempts d' = filter (\<lambda>k. fst k \<noteq> mc_call_id c) (running_attempts d)"
        unfolding running_attempts_def settled(8) retry(2) usage(2) settled_attempts eq ..
      moreover have "running_calls d' = filter (\<lambda>k. fst k \<noteq> mc_call_id c) (running_calls d)"
      proof (rule keyed_update [OF keyed c(1)])
        fix xs ys assume split: "db_calls d = xs @ c # ys"
          "\<And>f. update_where (\<lambda>x. mc_call_id x = mc_call_id c) f (db_calls d) = xs @ f c # ys"
          "mc_call_id c \<notin> mc_call_id ` set (xs @ ys)"
        have "mc_state (g c) \<noteq> Running" using outcome by (auto simp: g_def split: if_splits)
        moreover have "filter (\<lambda>k. fst k \<noteq> mc_call_id c) (map (\<lambda>c. (mc_call_id c, mc_system_id c, mc_reservation c)) (filter (\<lambda>c. mc_state c = Running) zs)) =
            map (\<lambda>c. (mc_call_id c, mc_system_id c, mc_reservation c)) (filter (\<lambda>c. mc_state c = Running) zs)"
          if "set zs \<subseteq> set (xs @ ys)" for zs
        proof -
          have "mc_call_id z \<noteq> mc_call_id c" if "z \<in> set zs" for z
            using that \<open>set zs \<subseteq> _\<close> split(3) by (metis image_eqI subsetD)
          then show ?thesis by (auto simp: filter_id_conv)
        qed
        ultimately show ?thesis unfolding running_calls_def calls eq split(2) using split(1) by simp
      qed
      moreover have "sy_reserved_tokens s = unsettled d' (sy_system_id s)" if "s \<in> set (db_systems d')" for s
      proof -
        from that obtain x where x: "x \<in> set (db_systems d)" "sy_system_id s = sy_system_id x"
          "sy_reserved_tokens s = sy_reserved_tokens x - (if pr_known p \<and> sy_system_id x = e_system_id e then e_reservation e else 0)"
          unfolding settled(5) retry(1) usage(3) by (auto simp: set_update_where split: if_splits)
        have "(mc_call_id c, mc_system_id c, mc_reservation c) \<in> set (running_attempts d)"
          unfolding books(1) using c by (force simp: running_calls_def)
        then have "unsettled d' y = unsettled d y - (if pr_known p \<and> y = e_system_id e then e_reservation e else 0)" for y
          using settled_sum [OF books(2) _ running_attempts_def eq(1)] unsettled_unknown [of p]
          by (cases "pr_known p") (simp_all add: unsettled_def settled(8) retry(2) usage(2) eq)
        then show ?thesis using x assms by (simp add: ledger_def)
      qed
      ultimately show ?thesis using books run by (simp add: ledger_def distinct_map_filter)
    qed
  qed
qed

text \<open>
  C7. Settlement keeps the books: releasing known usage, keeping unknown usage reserved and queueing
  a throttled call again all leave every system's reservation equal to its unsettled attempts.
\<close>

theorem settle_ledger:
  assumes "ledger d"
  shows "ledger (snd (settle cfg session p now d))"
  using assms by (rule settle_balanced)

section \<open>Queueing and cancelling a call\<close>

lemma queue_call_balanced:
  assumes "ledger d"
  shows "ledger (snd (queue_call session d))"
proof (cases "queue_call session d")
  case (Pair res d')
  show ?thesis
  proof (cases res)
    case (Inl err)
    with Pair have "d' = d" unfolding queue_call_def by (auto dest: transaction_failed)
    then show ?thesis using Pair assms by simp
  next
    case (Inr u)
    then obtain e where e: "readExecution (e_system_id session) (e_call_id session) d = (Inr e, d)"
      and rest: "tx_when (e_state e = AwaitingWorker)
        (tx_seq (update_call (e_call_id e) (\<lambda>c. c\<lparr>mc_state := Queued\<rparr>))
           (update_goal (e_system_id e) (e_goal_id e) (\<lambda>g. g\<lparr>gl_state := Waiting\<rparr>))) d = (Inr (), d')"
      using Pair unfolding queue_call_def by (auto simp: transaction_ok authorizeCall_ok elim!: tx_bind_ok)
    show ?thesis
    proof (cases "e_state e = AwaitingWorker")
      case False with rest Pair assms show ?thesis by (simp add: tx_when_def)
    next
      case True
      obtain c where c: "c \<in> set (db_calls d)" "e_call_id e = mc_call_id c" "mc_state c = AwaitingWorker"
        using readExecution_row [OF e] True by (auto simp: exec_static_def call_static_def)
      have keyed: "keyed_calls d" using assms by (simp add: ledger_def)
      have calls: "db_calls d' = update_where (\<lambda>x. mc_call_id x = e_call_id e) (\<lambda>x. x\<lparr>mc_state := Queued\<rparr>) (db_calls d)"
        and others: "db_systems d' = db_systems d" "db_attempts d' = db_attempts d"
        using rest True by (auto simp: tx_when_def update_call_def update_goal_def elim!: tx_seq_ok)
      have "running_calls d' = running_calls d"
      proof (rule running_calls_update [OF _ calls])
        fix x assume "x \<in> set (db_calls d)" "mc_call_id x = e_call_id e"
        then have "x = c" using keyed_row [OF keyed _ c(1)] c(2) by simp
        then show "mc_state x \<noteq> Running \<and> mc_state (x\<lparr>mc_state := Queued\<rparr>) \<noteq> Running \<or>
          mc_state (x\<lparr>mc_state := Queued\<rparr>) = mc_state x \<and> mc_call_id (x\<lparr>mc_state := Queued\<rparr>) = mc_call_id x \<and>
          mc_system_id (x\<lparr>mc_state := Queued\<rparr>) = mc_system_id x \<and> mc_reservation (x\<lparr>mc_state := Queued\<rparr>) = mc_reservation x"
          using c(3) by simp
      qed
      then have "ledger d'" by (intro ledger_congI [OF _ _ _ _ assms]) (auto simp: calls others map_update_where)
      then show ?thesis using Pair by simp
    qed
  qed
qed

text \<open>
  Queueing a call for dispatch keeps the books: it starts nothing and charges nothing.
\<close>

lemma queue_call_ledger:
  assumes "ledger d"
  shows "ledger (snd (queue_call session d))"
  using assms by (rule queue_call_balanced)

lemma CancelModelCall_balanced:
  assumes "ledger d"
  shows "ledger (snd (CancelModelCall session d))"
proof (cases "CancelModelCall session d")
  case (Pair res d')
  show ?thesis
  proof (cases res)
    case (Inl err)
    with Pair have "d' = d" unfolding CancelModelCall_def by (auto dest: transaction_failed)
    then show ?thesis using Pair assms by simp
  next
    case (Inr r)
    then obtain e where e: "readExecution (e_system_id session) (e_call_id session) d = (Inr e, d)"
      and rest: "(if undispatched (e_state e)
        then tx_seq (terminalCall e Canceled cancel_reason)
             (tx_return (e\<lparr>e_state := Canceled, e_reason := cancel_reason\<rparr>))
        else tx_return e) d = (Inr r, d')"
      using Pair unfolding CancelModelCall_def by (auto simp: transaction_ok authorizeCall_ok elim!: tx_bind_ok)
    show ?thesis
    proof (cases "undispatched (e_state e)")
      case False with rest Pair assms show ?thesis by simp
    next
      case True
      with rest obtain u where "terminalCall e Canceled cancel_reason d = (Inr u, d')" by (auto elim: tx_seq_ok)
      from terminalCall_ledger [OF assms True e _ this] show ?thesis using Pair by simp
    qed
  qed
qed

text \<open>
  Cancelling a call keeps the books: only a call that was never dispatched is cancelled, so no
  reservation is dropped or left behind.
\<close>

lemma CancelModelCall_ledger:
  assumes "ledger d"
  shows "ledger (snd (CancelModelCall session d))"
  using assms by (rule CancelModelCall_balanced)

end
