(* ===== verification/Team.thy ===== *)
theory Team
  imports Broker
begin

text \<open>
  The operations on the tasks of a team: events and mailboxes (emitEvent, initializeRootTask of
  team_store.go), the next model call of a task (prepareNextCall, updateConversation,
  AppendToolResult of team_ops.go), the wake of a continuous goal (continuous.go) and the end of a
  task (terminateTask). A payload column holds the JSON value that was marshalled into it.
  terminateTask fails the waiting parents one after another when a result cannot be delivered;
  it recurses over the number of tasks, which theory Tasks shows to be enough.
\<close>

section \<open>Events\<close>

definition MaxTaskTurns :: int where "MaxTaskTurns = 8"
definition MaxGoalTasks :: int where "MaxGoalTasks = 64"
definition MaxGoalEvents :: int where "MaxGoalEvents = 256"
definition MaxSystemEvents :: int where "MaxSystemEvents = 4096"
definition MaxEventDepth :: int where "MaxEventDepth = 16"

definition event_depth :: "task_row \<Rightarrow> string \<Rightarrow> int op" where
  "event_depth t causation =
     (if causation = '''' then tx_return 0 else
      tx_bind (tx_find db_events (\<lambda>v. ev_system_id v = t_system_id t \<and> ev_event_id v = causation)) (\<lambda>v.
      tx_return (ev_depth v + 1)))"

text \<open>
  The events counted against the system and the goal: all of them for a goal with a lifetime, those
  of the last day and, for the goal's share, of this task for a continuous one. Live tasks
  reserve the event that will report their end.
\<close>

definition counted_event :: "task_row \<Rightarrow> bool \<Rightarrow> int \<Rightarrow> event_row \<Rightarrow> bool" where
  "counted_event t ongoing now v \<longleftrightarrow>
     ev_system_id v = t_system_id t \<and> (\<not> ongoing \<or> ev_created_at v > now - 86400000)"

definition goal_event :: "task_row \<Rightarrow> bool \<Rightarrow> int \<Rightarrow> event_row \<Rightarrow> bool" where
  "goal_event t ongoing now v \<longleftrightarrow>
     counted_event t ongoing now v \<and> ev_goal_id v = t_goal_id t \<and> (\<not> ongoing \<or> ev_task_id v = t_id t)"

definition live_task :: "string \<Rightarrow> task_row \<Rightarrow> bool" where
  "live_task systemID x \<longleftrightarrow> t_system_id x = systemID \<and> live (t_state x)"

definition event_refused :: "db \<Rightarrow> task_row \<Rightarrow> bool \<Rightarrow> string \<Rightarrow> int \<Rightarrow> int \<Rightarrow> bool" where
  "event_refused d t ongoing source depth now \<longleftrightarrow>
     count_where (counted_event t ongoing now) (db_events d) +
       count_where (live_task (t_system_id t)) (db_tasks d) \<ge> MaxSystemEvents \<or>
     count_where (goal_event t ongoing now) (db_events d) +
       count_where (\<lambda>x. live_task (t_system_id t) x \<and> t_goal_id x = t_goal_id t) (db_tasks d) \<ge> MaxGoalEvents \<or>
     count_where (\<lambda>m. mb_system_id m = t_system_id t \<and> mb_recipient m = t_agent_id t \<and>
         (mb_state m = MPending \<or> mb_state m = MLeased)) (db_mailboxes d) +
       count_where (\<lambda>x. live_task (t_system_id t) x \<and> t_parent x = t_id t) (db_tasks d) \<ge> 64 \<or>
     depth > MaxEventDepth \<or>
     (has_prefix source ''agent_'' \<and>
       count_where (\<lambda>v. ev_system_id v = t_system_id t \<and> ev_source v = source \<and> ev_created_at v > now - 60000)
         (db_events d) \<ge> 32)"

definition event_of :: "db \<Rightarrow> string \<Rightarrow> task_row \<Rightarrow> string \<Rightarrow> string \<Rightarrow> string \<Rightarrow> json \<Rightarrow> int \<Rightarrow> int \<Rightarrow> int \<Rightarrow> event_row" where
  "event_of d i t kind source causation payload depth deadline now =
    \<lparr>ev_sequence = next_seq (db_events d), ev_event_id = i, ev_system_id = t_system_id t, ev_type = kind, ev_source = source,
     ev_recipient = t_agent_id t, ev_goal_id = t_goal_id t, ev_task_id = t_id t, ev_correlation_id = t_id t,
     ev_causation_id = causation, ev_created_at = now, ev_expires_at = deadline,
     ev_authorization_ref = t_agent_id t @ '':'' @ dec_int (t_revision t), ev_depth = depth, ev_payload = payload\<rparr>"

definition mailbox_of :: "db \<Rightarrow> string \<Rightarrow> task_row \<Rightarrow> mailbox_row" where
  "mailbox_of d i t =
    \<lparr>mb_sequence = next_seq (db_mailboxes d), mb_system_id = t_system_id t, mb_event_id = i, mb_recipient = t_agent_id t,
     mb_task_id = t_id t, mb_state = MPending, mb_lease_owner = '''', mb_lease_until = 0, mb_attempts = 0,
     mb_not_before = 0, mb_reason = '''', mb_applied = False\<rparr>"

definition insert_event :: "string \<Rightarrow> task_row \<Rightarrow> string \<Rightarrow> string \<Rightarrow> string \<Rightarrow> json \<Rightarrow> int \<Rightarrow> int \<Rightarrow> int \<Rightarrow> unit op" where
  "insert_event i t kind source causation payload depth deadline now =
     tx_bind (tx_gets (\<lambda>d. event_of d i t kind source causation payload depth deadline now)) (\<lambda>v.
     tx_bind (tx_gets (\<lambda>d. mailbox_of d i t)) (\<lambda>m.
     tx_seq (tx_insert ''events'' (\<lambda>x y. ev_event_id x = ev_event_id y) db_events db_events_update v)
       (tx_insert ''mailboxes'' (\<lambda>x y. mb_system_id x = mb_system_id y \<and> mb_event_id x = mb_event_id y \<and>
          mb_recipient x = mb_recipient y) db_mailboxes db_mailboxes_update m)))"

definition emitEvent :: "task_row \<Rightarrow> string \<Rightarrow> string \<Rightarrow> string \<Rightarrow> json \<Rightarrow> int \<Rightarrow> string op" where
  "emitEvent t kind source causation payload now =
     tx_seq (tx_reject (length (marshal payload) > MaxEventBytes) (FieldError ''event'' ''payload exceeds 8 KiB''))
     (tx_bind (readGoal (t_system_id t) (t_goal_id t)) (\<lambda>g.
      tx_bind (event_depth t causation) (\<lambda>depth.
      tx_bind (tx_gets (\<lambda>d. event_refused d t (gl_continuous g) source depth now)) (\<lambda>refused.
      tx_seq (tx_reject refused (FieldError ''events'' ''event budget, queue, or causation limit exhausted''))
      (tx_bind (NewID ''event_'') (\<lambda>i.
       tx_seq (tx_reject (\<not> gl_continuous g \<and> gl_deadline g \<le> now \<and> kind \<noteq> ''task.result'')
                 (FieldError ''event'' ''goal lifetime has expired''))
       (tx_seq (insert_event i t kind source causation payload depth (gl_deadline g) now) (tx_return i))))))))"

section \<open>The root task\<close>

definition operator_agent :: "system_record \<Rightarrow> agent_row" where
  "operator_agent record = \<lparr>ag_system_id = sr_id record, ag_agent_id = sr_operator_id record, ag_parent_id = '''',
     ag_goal_id = '''', ag_name = ''operator'', ag_revision = sr_revision record, ag_state = CActive, ag_depth = 0,
     ag_token_budget = sl_token_budget (sc_limits (sr_configuration record)), ag_max_turns = MaxTaskTurns\<rparr>"

text \<open>INSERT ... ON CONFLICT DO UPDATE: an existing operator is revised and activated.\<close>

definition upsert_operator :: "agent_row \<Rightarrow> unit op" where
  "upsert_operator a = tx_modify (db_agents_update (\<lambda>rs.
     if exists_where (\<lambda>x. ag_system_id x = ag_system_id a \<and> ag_agent_id x = ag_agent_id a) rs
     then update_where (\<lambda>x. ag_system_id x = ag_system_id a \<and> ag_agent_id x = ag_agent_id a)
            (\<lambda>x. x\<lparr>ag_revision := ag_revision a, ag_state := CActive, ag_token_budget := ag_token_budget a\<rparr>) rs
     else rs @ [a]))"

definition operator_record :: "system_record \<Rightarrow> agent_record" where
  "operator_record record = \<lparr>a_system_id = sr_id record, a_id = sr_operator_id record, a_parent = '''', a_goal_id = '''',
     a_name = ''operator'', a_revision = sr_revision record, a_state = CActive, a_depth = 0,
     a_token_budget = sl_token_budget (sc_limits (sr_configuration record)), a_max_turns = MaxTaskTurns,
     a_definition = sc_operator (sr_configuration record), a_tools = gr_operator_tools (sr_grants record), a_available = False\<rparr>"

definition insert_usage :: "string \<Rightarrow> string \<Rightarrow> string \<Rightarrow> int \<Rightarrow> unit op" where
  "insert_usage systemID agentID goalID turns = tx_insert ''agent_usage''
     (\<lambda>x y. us_system_id x = us_system_id y \<and> us_agent_id x = us_agent_id y \<and> us_goal_id x = us_goal_id y)
     db_usage db_usage_update
     \<lparr>us_system_id = systemID, us_agent_id = agentID, us_goal_id = goalID, us_used_tokens = 0, us_reserved_tokens = 0,
      us_turns = turns\<rparr>"

definition insert_task :: "task_row \<Rightarrow> unit op" where
  "insert_task = tx_insert ''tasks'' (\<lambda>x y. t_system_id x = t_system_id y \<and> t_id x = t_id y) db_tasks db_tasks_update"

text \<open>A task row with the column defaults.\<close>

definition new_task :: "string \<Rightarrow> string \<Rightarrow> string \<Rightarrow> string \<Rightarrow> int \<Rightarrow> string \<Rightarrow> tool_pin list \<Rightarrow> chat_message list \<Rightarrow> task_row" where
  "new_task systemID taskID goalID agentID revision parent pins conversation =
    \<lparr>t_system_id = systemID, t_id = taskID, t_goal_id = goalID, t_agent_id = agentID, t_revision = revision, t_parent = parent,
     t_state = Queued, t_control = CActive, t_tools = pins, t_conversation = conversation, t_turns = 1, t_deadline = 0,
     t_call_id = '''', t_waiting_tool = '''', t_response = '''', t_reason = '''', t_learning_id = '''', t_learning_role = ''''\<rparr>"

definition initializeRootTask :: "system_record \<Rightarrow> execution \<Rightarrow> int \<Rightarrow> unit op" where
  "initializeRootTask record e now =
     tx_seq (upsert_operator (operator_agent record))
     (tx_seq (insertAgentRevision (operator_record record))
     (tx_seq (insert_usage (sr_id record) (sr_operator_id record) (e_goal_id e) 1)
     (tx_seq (insert_task ((new_task (sr_id record) (e_task_id e) (e_goal_id e) (sr_operator_id record) (sr_revision record) ''''
                (gr_operator_tools (sr_grants record)) [message ''user'' (e_prompt e)])
                \<lparr>t_call_id := e_call_id e, t_deadline := e_deadline e\<rparr>))
     (tx_seq (update_goal (sr_id record) (e_goal_id e) (\<lambda>g. g\<lparr>gl_deadline := if gl_continuous g then 0 else e_deadline e\<rparr>))
     (tx_bind (readTask (sr_id record) (e_task_id e)) (\<lambda>t.
      tx_bind (emitEvent t ''task.ready'' localAdministrator '''' (JObj []) now) (\<lambda>_. tx_return ())))))))"

section \<open>The next model call of a task\<close>

definition updateConversation :: "task_row \<Rightarrow> unit op" where
  "updateConversation t =
     tx_seq (tx_reject (length (marshal (json_conversation (t_conversation t))) > MaxFrame)
               (FieldError ''conversation'' ''continuation exceeds 64 KiB''))
       (tx_update db_tasks_update (\<lambda>x. t_system_id x = t_system_id t \<and> t_id x = t_id t)
          (\<lambda>x. x\<lparr>t_conversation := t_conversation t\<rparr>))"

definition AppendToolResult :: "task_row \<Rightarrow> execution \<Rightarrow> string \<Rightarrow> task_row" where
  "AppendToolResult t e result = t\<lparr>t_conversation := t_conversation t @
     [\<lparr>cm_role = ''assistant'', cm_content = e_response e, cm_tool_calls = e_actions e, cm_tool_call_id = ''''\<rparr>,
      \<lparr>cm_role = ''tool'', cm_content = result, cm_tool_calls = [], cm_tool_call_id = mt_id (hd (e_actions e))\<rparr>]\<rparr>"

text \<open>The record of the system with the pinned agent in place of its operator.\<close>

definition pinned_record :: "system_record \<Rightarrow> agent_record \<Rightarrow> tool_pin list \<Rightarrow> system_record" where
  "pinned_record record a pins = record\<lparr>
     sr_configuration := (sr_configuration record)\<lparr>sc_operator := a_definition a\<rparr>,
     sr_grants := (sr_grants record)\<lparr>gr_model := oc_model (a_definition a),
       gr_sandbox_profile := oc_sandbox_profile (a_definition a), gr_operator_tools := pins\<rparr>\<rparr>"

text \<open>The capacity of the shared queues: the wait bound of the groups, or a refusal.\<close>

definition queue_room :: "configuration \<Rightarrow> int \<Rightarrow> int \<Rightarrow> string \<Rightarrow> int op" where
  "queue_room cfg reservation wait grp =
     tx_bind (tx_gets (\<lambda>d. group_queued d grp)) (\<lambda>queued.
     tx_seq (tx_reject (queued \<ge> qc_queue_capacity (the_quota cfg grp) \<or>
               reservation > qc_tokens_per_minute (the_quota cfg grp))
               (FieldError ''quota'' ''continuation cannot fit model queue/token capacity''))
       (tx_return (min wait (qc_max_wait_seconds (the_quota cfg grp)))))"

definition insert_call :: "call_row \<Rightarrow> unit op" where
  "insert_call c =
     tx_seq (tx_reject (mc_reservation c \<le> 0) (ErrConstraint ''model_calls''))
       (tx_insert ''model_calls'' (\<lambda>x y. mc_call_id x = mc_call_id y \<or> mc_activation_id x = mc_activation_id y)
          db_calls db_calls_update c)"

definition insert_groups :: "string \<Rightarrow> string \<Rightarrow> string list \<Rightarrow> unit op" where
  "insert_groups callID systemID grps = tx_foreach (\<lambda>grp. tx_insert ''call_groups''
     (\<lambda>x y. cg_call_id x = cg_call_id y \<and> cg_group_name x = cg_group_name y) db_groups db_groups_update
     \<lparr>cg_call_id = callID, cg_system_id = systemID, cg_group_name = grp\<rparr>) grps"

text \<open>A model_calls row with the column defaults.\<close>

definition new_call :: "db \<Rightarrow> string \<Rightarrow> task_row \<Rightarrow> string \<Rightarrow> string \<Rightarrow> int \<Rightarrow> string \<Rightarrow> int \<Rightarrow> int \<Rightarrow> int \<Rightarrow> int \<Rightarrow> string \<Rightarrow> call_row" where
  "new_call d callID t activationID owner revision model reservation now deadline wait body =
    \<lparr>mc_sequence = next_seq (db_calls d), mc_call_id = callID, mc_system_id = t_system_id t, mc_goal_id = t_goal_id t,
     mc_task_id = t_id t, mc_activation_id = activationID, mc_activation_owner = owner, mc_revision = revision,
     mc_model = model, mc_stream = False, mc_state = AwaitingWorker, mc_reason = '''', mc_response = '''',
     mc_reservation = reservation, mc_attempts = 0, mc_input_tokens = 0, mc_output_tokens = 0, mc_usage_known = False,
     mc_queue_wait_ms = 0, mc_created_at = now, mc_queued_at = now, mc_deadline = deadline,
     mc_wait_deadline = min deadline (now + wait * 1000), mc_dispatched_at = 0, mc_agent_id = t_agent_id t,
     mc_request = body, mc_actions = []\<rparr>"

definition insert_new_call :: "string \<Rightarrow> task_row \<Rightarrow> string \<Rightarrow> string \<Rightarrow> int \<Rightarrow> string \<Rightarrow> int \<Rightarrow> int \<Rightarrow> int \<Rightarrow> int \<Rightarrow> string \<Rightarrow> unit op" where
  "insert_new_call callID t activationID owner revision model reservation now deadline wait body =
     tx_bind (tx_gets (\<lambda>d. new_call d callID t activationID owner revision model reservation now deadline wait body)) insert_call"

definition record_call :: "configuration \<Rightarrow> task_row \<Rightarrow> string \<Rightarrow> int \<Rightarrow> string \<Rightarrow> int \<Rightarrow> int \<Rightarrow> int \<Rightarrow> int \<Rightarrow> string \<Rightarrow> unit op" where
  "record_call cfg t owner revision model reservation now deadline wait body =
     tx_bind (NewID ''call_'') (\<lambda>callID.
     tx_bind (NewID ''activation_'') (\<lambda>activationID.
     tx_seq (insert_new_call callID t activationID owner revision model reservation now deadline wait body)
     (tx_seq (insert_groups callID (t_system_id t) (model_groups cfg model))
     (tx_seq (tx_update db_tasks_update (\<lambda>x. t_system_id x = t_system_id t \<and> t_id x = t_id t)
        (\<lambda>x. x\<lparr>t_call_id := callID, t_turns := t_turns x + 1, t_state := Queued, t_conversation := t_conversation t,
               t_waiting_tool := '''', t_reason := '''', t_deadline := deadline\<rparr>))
       (tx_update db_usage_update (\<lambda>u. us_system_id u = t_system_id t \<and> us_agent_id u = t_agent_id t \<and>
          us_goal_id u = t_goal_id t) (\<lambda>u. u\<lparr>us_turns := us_turns u + 1\<rparr>))))))"

definition next_deadline :: "configuration \<Rightarrow> task_row \<Rightarrow> goal_row \<Rightarrow> string \<Rightarrow> int \<Rightarrow> int" where
  "next_deadline cfg t g model now =
     (if \<not> gl_continuous g then gl_deadline g
      else if t_deadline t = 0 then taskDeadline cfg model (gl_lifetime g) now else t_deadline t)"

text \<open>Whether the pinned agent may take another turn, before the request is built.\<close>

definition authorize_turn :: "(string \<Rightarrow> string) \<Rightarrow> configuration \<Rightarrow> system_record \<Rightarrow> task_row \<Rightarrow> agent_record \<Rightarrow> int \<Rightarrow> unit op" where
  "authorize_turn H cfg record t a now =
     tx_seq (tx_reject (a_state a = CStopped \<or> t_control t = CStopped) ErrExecutionConflict)
     (tx_seq (case authorizeModel cfg (sr_configuration record) (oc_model (a_definition a)) of
         Some e \<Rightarrow> tx_fail e | None \<Rightarrow> tx_return ())
     (tx_seq (authorizePins H cfg (t_system_id t) (t_tools t) now)
     (tx_bind (tx_find db_usage (\<lambda>u. us_system_id u = t_system_id t \<and> us_agent_id u = t_agent_id t \<and>
                 us_goal_id u = t_goal_id t)) (\<lambda>u.
      tx_bind (goalIsContinuous t) (\<lambda>ongoing.
      tx_reject ((\<not> ongoing \<and> us_turns u \<ge> a_max_turns a) \<or> t_turns t \<ge> MaxTaskTurns)
        (FieldError ''turns'' ''agent/task turn limit exhausted''))))))"

definition prepareNextCall :: "(string \<Rightarrow> string) \<Rightarrow> configuration \<Rightarrow> task_row \<Rightarrow> string \<Rightarrow> int \<Rightarrow> unit op" where
  "prepareNextCall H cfg t owner now =
     tx_bind (readSystem H localAdministrator (t_system_id t)) (\<lambda>saved.
     let record = Inspect H cfg saved in
     tx_seq (tx_reject (sr_blocked_reason record \<noteq> '''') (FieldError ''grants'' (sr_blocked_reason record)))
     (tx_bind (readAgent (t_system_id t) (t_agent_id t) (t_revision t)) (\<lambda>a.
      let model = oc_model (a_definition a) in
      tx_seq (authorize_turn H cfg record t a now)
      (tx_bind (tx_lift (ConversationRequest H cfg (pinned_record record a (t_tools t)) (t_conversation t) False)) (\<lambda>(body, reservation).
       tx_bind (readGoal (t_system_id t) (t_goal_id t)) (\<lambda>g.
       let deadline = next_deadline cfg t g model now in
       tx_seq (tx_reject (now \<ge> deadline) (FieldError ''deadline'' ''task or goal lifetime exhausted''))
       (tx_seq (tx_reject (reservation > gl_token_budget g - gl_used_tokens g - gl_reserved_tokens g \<or>
                  reservation > sr_remaining_tokens record) (FieldError ''budget'' ''goal or system budget exhausted''))
       (tx_bind (tx_fold (queue_room cfg reservation) 3600 (model_groups cfg model)) (\<lambda>wait.
        record_call cfg t owner (sr_revision record) model reservation now deadline wait body))))))))) "

section \<open>Waking a continuous goal\<close>

text \<open>
  The recent conversation a fresh task starts from: newest first, the user and assistant messages
  without tool calls other than the goal itself, until eight messages or 8 KiB are reached.
\<close>

definition carried :: "string \<Rightarrow> chat_message \<Rightarrow> bool" where
  "carried prompt m \<longleftrightarrow> (cm_role m = ''user'' \<or> cm_role m = ''assistant'') \<and> cm_tool_calls m = [] \<and> cm_content m \<noteq> prompt"

fun recent_messages :: "string \<Rightarrow> chat_message list \<Rightarrow> nat \<Rightarrow> nat \<Rightarrow> chat_message list" where
  "recent_messages prompt [] n bytes = []"
| "recent_messages prompt (m # ms) n bytes =
     (if \<not> carried prompt m then recent_messages prompt ms n bytes
      else if n = 8 \<or> bytes + length (cm_content m) > 8192 then []
      else m # recent_messages prompt ms (n + 1) (bytes + length (cm_content m)))"

definition continuation_note :: "task_row \<Rightarrow> string" where
  "continuation_note previous =
     ''Continuing the same goal. Only bounded recent conversation follows; use scoped memory/artifacts for older context. Previous task outcome: '' @
     state_name (t_state previous) @ ''. '' @ t_reason previous @ '' Do not replay actions with unknown outcomes.''"

definition continued_conversation :: "string \<Rightarrow> task_row \<Rightarrow> chat_message list" where
  "continued_conversation prompt previous =
     (let history = t_conversation previous @ (if t_response previous \<noteq> '''' then [message ''assistant'' (t_response previous)] else [])
      in [message ''user'' prompt, message ''user'' (continuation_note previous)] @ rev (recent_messages prompt (rev history) 0 0))"

text \<open>The goal joined with its system, as the query reads them.\<close>

definition goal_and_state :: "string \<Rightarrow> string \<Rightarrow> (goal_row \<times> system_state) op" where
  "goal_and_state systemID goalID = tx_row (\<lambda>d.
     case goal_of d systemID goalID of None \<Rightarrow> None
     | Some g \<Rightarrow> map_option (\<lambda>s. (g, sy_state s)) (List.find (\<lambda>s. sy_system_id s = systemID) (db_systems d)))"

definition live_task_of :: "string \<Rightarrow> string \<Rightarrow> string \<Rightarrow> task_row \<Rightarrow> bool" where
  "live_task_of systemID agentID goalID t \<longleftrightarrow>
     live_task systemID t \<and> t_agent_id t = agentID \<and> t_goal_id t = goalID"

definition start_continuation :: "task_row \<Rightarrow> agent_record \<Rightarrow> string \<Rightarrow> task_row op" where
  "start_continuation previous agent prompt =
     tx_bind (tx_count db_tasks (\<lambda>t. live_task (t_system_id previous) t \<and> t_goal_id t = t_goal_id previous)) (\<lambda>active.
     tx_seq (tx_reject (active \<ge> MaxGoalTasks) (FieldError ''tasks'' ''continuous goal active-task capacity exhausted''))
     (tx_bind (NewID ''task_'') (\<lambda>i.
      tx_seq (insert_task ((new_task (t_system_id previous) i (t_goal_id previous) (a_id agent) (a_revision agent) (t_parent previous)
                (filter (\<lambda>p. p \<in> set (t_tools previous)) (a_tools agent))
                (continued_conversation prompt previous))\<lparr>t_turns := 0\<rparr>))
      (readTask (t_system_id previous) i))))"

text \<open>The agent's live task of the goal, or a fresh one.\<close>

definition live_or_fresh :: "task_row \<Rightarrow> agent_record \<Rightarrow> string \<Rightarrow> task_row op" where
  "live_or_fresh previous agent prompt =
     tx_bind (tx_optional (tx_find db_tasks (live_task_of (t_system_id previous) (t_agent_id previous) (t_goal_id previous)))) (\<lambda>current.
     case current of Some t \<Rightarrow> readTask (t_system_id previous) (t_id t)
     | None \<Rightarrow> start_continuation previous agent prompt)"

definition wakeContinuousTask :: "task_row \<Rightarrow> task_row op" where
  "wakeContinuousTask previous =
     (if \<not> TaskTerminal (t_state previous) then tx_return previous else
      tx_bind (goal_and_state (t_system_id previous) (t_goal_id previous)) (\<lambda>(g, state).
      tx_seq (tx_reject (\<not> gl_continuous g \<or> gl_control g = CStopped \<or> (state \<noteq> SRunning \<and> state \<noteq> SPaused) \<or>
                t_control previous = CStopped \<or> t_learning_id previous \<noteq> '''') ErrExecutionConflict)
      (tx_bind (readAgent (t_system_id previous) (t_agent_id previous) 0) (\<lambda>agent.
       tx_seq (tx_reject (a_state agent = CStopped) ErrExecutionConflict) (live_or_fresh previous agent (gl_prompt g))))))"

text \<open>The events that carry input to a task.\<close>

definition input_kinds :: "string list" where
  "input_kinds = [''user.input'', ''schedule.fired'', ''memory.changed'', ''task.notice'']"

definition event_row_of :: "db \<Rightarrow> string \<Rightarrow> string \<Rightarrow> event_row option" where
  "event_row_of d systemID eventID =
     List.find (\<lambda>v. ev_system_id v = systemID \<and> ev_event_id v = eventID) (db_events d)"

definition pending_input :: "db \<Rightarrow> string \<Rightarrow> string \<Rightarrow> mailbox_row \<Rightarrow> bool" where
  "pending_input d systemID taskID m \<longleftrightarrow> mb_system_id m = systemID \<and> mb_task_id m = taskID \<and> mb_state m = MPending \<and>
     (case event_row_of d systemID (mb_event_id m) of None \<Rightarrow> False | Some v \<Rightarrow> ev_type v \<in> set input_kinds)"

definition move_inputs :: "string \<Rightarrow> string \<Rightarrow> string \<Rightarrow> unit op" where
  "move_inputs systemID taskID nextID = tx_modify (\<lambda>d.
     db_mailboxes_update (update_where (pending_input d systemID taskID) (\<lambda>m. m\<lparr>mb_task_id := nextID\<rparr>)) d)"

definition continuePendingInput :: "task_row \<Rightarrow> unit op" where
  "continuePendingInput task =
     tx_bind (tx_gets (\<lambda>d. exists_where (pending_input d (t_system_id task) (t_id task)) (db_mailboxes d))) (\<lambda>pending.
     tx_when pending
       (tx_bind (wakeContinuousTask task) (\<lambda>nxt. move_inputs (t_system_id task) (t_id task) (t_id nxt))))"

definition emitTaskWakeup :: "task_row \<Rightarrow> string \<Rightarrow> string \<Rightarrow> string \<Rightarrow> string \<Rightarrow> int \<Rightarrow> (error + task_row \<times> string) op" where
  "emitTaskWakeup task kind source cause content now = tx_savepoint
     (tx_bind (wakeContinuousTask task) (\<lambda>nxt.
      tx_bind (emitEvent nxt kind source cause (JObj [(''content'', JStr content)]) now) (\<lambda>event.
      tx_return (nxt, event))))"

section \<open>The end of a task\<close>

text \<open>What ends with the task itself: its triggers, its row, its undispatched call, its mail.\<close>

definition cancel_triggers :: "task_row \<Rightarrow> unit op" where
  "cancel_triggers t =
     tx_seq (tx_update db_schedules_update (\<lambda>s. sd_system_id s = t_system_id t \<and> sd_task_id s = t_id t \<and> sd_state s = TgActive)
               (\<lambda>s. s\<lparr>sd_state := TgCanceled, sd_reason := ''owning task is terminal''\<rparr>))
       (tx_update db_subscriptions_update (\<lambda>s. sn_system_id s = t_system_id t \<and> sn_task_id s = t_id t \<and> sn_state s = TgActive)
          (\<lambda>s. s\<lparr>sn_state := TgCanceled, sn_reason := ''owning task is terminal''\<rparr>))"

definition end_task :: "task_row \<Rightarrow> run_state \<Rightarrow> string \<Rightarrow> string \<Rightarrow> unit op" where
  "end_task t state response reason =
     tx_seq (tx_update db_tasks_update (\<lambda>x. t_system_id x = t_system_id t \<and> t_id x = t_id t)
               (\<lambda>x. x\<lparr>t_state := state, t_response := response, t_reason := reason\<rparr>))
       (tx_update db_calls_update (\<lambda>c. mc_system_id c = t_system_id t \<and> mc_task_id c = t_id t \<and> undispatched (mc_state c))
          (\<lambda>c. c\<lparr>mc_state := state, mc_reason := reason\<rparr>))"

definition kill_mail :: "task_row \<Rightarrow> run_state \<Rightarrow> unit op" where
  "kill_mail t state = tx_update db_mailboxes_update
     (\<lambda>m. mb_system_id m = t_system_id t \<and> mb_task_id m = t_id t \<and> mb_state m = MPending)
     (\<lambda>m. m\<lparr>mb_state := MDead, mb_reason := ''task is terminal: '' @ state_name state\<rparr>)"

definition idle_goal :: "task_row \<Rightarrow> unit op" where
  "idle_goal t = tx_modify (\<lambda>d. db_goals_update
     (update_where (\<lambda>g. gl_system_id g = t_system_id t \<and> gl_goal_id g = t_goal_id t \<and> gl_control g \<noteq> CStopped)
       (\<lambda>g. g\<lparr>gl_state := if exists_where (\<lambda>x. live_task (t_system_id t) x \<and> t_goal_id x = t_goal_id t) (db_tasks d)
                         then Running else Waiting\<rparr>)) d)"

definition leased_in :: "db \<Rightarrow> string \<Rightarrow> bool" where
  "leased_in d systemID = exists_where (\<lambda>m. mb_system_id m = systemID \<and> mb_state m = MLeased) (db_mailboxes d)"

text \<open>The end of the root task ends its goal, and the system with it.\<close>

definition end_goal :: "task_row \<Rightarrow> run_state \<Rightarrow> unit op" where
  "end_goal t state =
     tx_seq (update_goal (t_system_id t) (t_goal_id t) (\<lambda>g. g\<lparr>gl_state := state\<rparr>))
     (tx_seq (tx_modify (\<lambda>d. db_systems_update (update_where (\<lambda>s. sy_system_id s = t_system_id t)
        (\<lambda>s. s\<lparr>sy_state := if sy_state s = SStopping \<or> sy_state s = SStopped
                          then (if leased_in d (t_system_id t) then SStopping else SStopped) else SInactive\<rparr>)) d))
       (tx_update db_agents_update (\<lambda>a. ag_system_id a = t_system_id t \<and> ag_goal_id a = t_goal_id t)
          (\<lambda>a. a\<lparr>ag_state := CStopped\<rparr>)))"

definition settle_task :: "task_row \<Rightarrow> bool \<Rightarrow> run_state \<Rightarrow> string \<Rightarrow> string \<Rightarrow> unit op" where
  "settle_task t ongoing state response reason =
     tx_seq (tx_when (\<not> ongoing \<or> state \<noteq> Completed \<or> t_learning_id t \<noteq> '''') (cancel_triggers t))
     (tx_seq (end_task t state response reason)
     (tx_seq (tx_when (ongoing \<and> state = Completed \<and> t_learning_id t = '''')
               (continuePendingInput (t\<lparr>t_state := state, t_response := response, t_reason := reason\<rparr>)))
     (tx_seq (kill_mail t state) (tx_when ongoing (idle_goal t)))))"

definition result_payload :: "task_row \<Rightarrow> run_state \<Rightarrow> json" where
  "result_payload t state = JObj [(''state'', JStr (state_name state)), (''task_id'', JStr (t_id t))]"

definition out_of_fuel :: error where
  "out_of_fuel = ErrInternal ''task chain longer than the task table''"

text \<open>Every step ends a task that was live; the chain of parents is at most the task table.\<close>

fun terminate_steps :: "nat \<Rightarrow> task_row \<Rightarrow> run_state \<Rightarrow> string \<Rightarrow> string \<Rightarrow> string \<Rightarrow> string \<Rightarrow> int \<Rightarrow> unit op" where
  "terminate_steps 0 t state response reason source cause now = tx_fail out_of_fuel"
| "terminate_steps (Suc n) t state response reason source cause now =
     (if TaskTerminal (t_state t) then tx_return () else
      tx_bind (goalIsContinuous t) (\<lambda>ongoing.
      tx_seq (settle_task t ongoing state response reason)
      (if t_learning_id t \<noteq> '''' then tx_return ()
       else if t_parent t = '''' then tx_when (\<not> ongoing \<or> state = Canceled) (end_goal t state)
       else tx_bind (readTask (t_system_id t) (t_parent t)) (\<lambda>parent.
         if TaskTerminal (t_state parent) \<or> t_control parent = CStopped then tx_return ()
         else tx_bind (tx_try (emitEvent parent ''task.result'' source cause (result_payload t state) now)) (\<lambda>sent.
         case sent of Inr _ \<Rightarrow> tx_return ()
         | Inl e \<Rightarrow> if \<not> DeniedTask e then tx_fail e
             else terminate_steps n parent Rejected '''' (''child result delivery rejected: '' @ error_text e)
                    ''runtime'' cause now)))))"

definition terminateTask :: "task_row \<Rightarrow> run_state \<Rightarrow> string \<Rightarrow> string \<Rightarrow> string \<Rightarrow> string \<Rightarrow> int \<Rightarrow> unit op" where
  "terminateTask t state response reason source cause now =
     tx_bind (tx_gets (\<lambda>d. length (db_tasks d))) (\<lambda>n. terminate_steps (n + 2) t state response reason source cause now)"

section \<open>Stopping work\<close>

definition stop_scope :: "string \<Rightarrow> string \<Rightarrow> string \<Rightarrow> (string \<times> string) op" where
  "stop_scope systemID scope i =
     (if scope \<noteq> ''agent'' then tx_return (scope, i) else
      tx_bind (tx_gets (\<lambda>d. if exists_where (\<lambda>s. sy_system_id s = systemID \<and> sy_operator_id s = i) (db_systems d)
          then List.find (\<lambda>g. gl_system_id g = systemID \<and> gl_continuous g \<and> live (gl_state g)) (db_goals d) else None)) (\<lambda>found.
      tx_return (case found of None \<Rightarrow> (scope, i) | Some g \<Rightarrow> (''goal'', gl_goal_id g))))"

text \<open>The tasks of the scope and all tasks delegated from them, of which the live ones stop.\<close>

definition in_scope :: "string \<Rightarrow> string \<Rightarrow> task_row \<Rightarrow> bool" where
  "in_scope scope i t \<longleftrightarrow> scope = ''system'' \<or> (scope = ''goal'' \<and> t_goal_id t = i) \<or> (scope = ''agent'' \<and> t_agent_id t = i)"

definition stopped_tasks :: "db \<Rightarrow> string \<Rightarrow> string \<Rightarrow> string \<Rightarrow> task_row list" where
  "stopped_tasks d systemID scope i =
     (let rows = filter (\<lambda>t. t_system_id t = systemID) (db_tasks d);
          selected = recursive_rows (\<lambda>t s. t_parent t = t_id s) rows (filter (in_scope scope i) rows)
      in filter (\<lambda>t. t \<in> set selected \<and> live (t_state t)) rows)"

definition stop_task :: "string \<Rightarrow> string \<Rightarrow> string \<Rightarrow> int \<Rightarrow> string \<Rightarrow> unit op" where
  "stop_task systemID source reason now taskID =
     tx_bind (readTask systemID taskID) (\<lambda>t.
     tx_seq (tx_when (t_parent t = '''') (update_system systemID (\<lambda>s. s\<lparr>sy_state := SStopping\<rparr>)))
     (tx_bind (tx_gets (\<lambda>d. exists_where (\<lambda>m. mb_system_id m = systemID \<and> mb_task_id m = taskID \<and> mb_state m = MLeased)
          (db_mailboxes d))) (\<lambda>leased.
      tx_when (\<not> leased)
        (tx_seq (terminateTask t Canceled '''' reason source '''' now)
          (tx_update db_calls_update (\<lambda>c. mc_system_id c = systemID \<and> mc_task_id c = taskID \<and> undispatched (mc_state c))
             (\<lambda>c. c\<lparr>mc_state := Canceled, mc_reason := ''stopped before dispatch''\<rparr>))))))"

definition stopped_goal :: "string \<Rightarrow> string \<Rightarrow> string \<Rightarrow> goal_row \<Rightarrow> bool" where
  "stopped_goal systemID scope i g \<longleftrightarrow> gl_system_id g = systemID \<and> gl_continuous g \<and> gl_control g = CStopped \<and>
     (scope = ''system'' \<or> gl_goal_id g = i)"

definition in_stopped_goal :: "db \<Rightarrow> string \<Rightarrow> string \<Rightarrow> string \<Rightarrow> string \<Rightarrow> bool" where
  "in_stopped_goal d systemID scope i goalID \<longleftrightarrow>
     exists_where (\<lambda>g. stopped_goal systemID scope i g \<and> gl_goal_id g = goalID) (db_goals d)"

definition owned_by_stopped :: "db \<Rightarrow> string \<Rightarrow> string \<Rightarrow> string \<Rightarrow> string \<Rightarrow> bool" where
  "owned_by_stopped d systemID scope i taskID \<longleftrightarrow>
     exists_where (\<lambda>t. t_system_id t = systemID \<and> t_id t = taskID \<and> in_stopped_goal d systemID scope i (t_goal_id t)) (db_tasks d)"

definition stop_agents :: "string \<Rightarrow> string \<Rightarrow> string \<Rightarrow> unit op" where
  "stop_agents systemID scope i = tx_modify (\<lambda>d. db_agents_update (update_where
     (\<lambda>a. ag_system_id a = systemID \<and>
        (exists_where (\<lambda>s. sy_system_id s = systemID \<and> sy_operator_id s = ag_agent_id a) (db_systems d) \<or>
         in_stopped_goal d systemID scope i (ag_goal_id a)))
     (\<lambda>a. a\<lparr>ag_state := CStopped\<rparr>)) d)"

definition stop_triggers :: "string \<Rightarrow> string \<Rightarrow> string \<Rightarrow> unit op" where
  "stop_triggers systemID scope i = tx_modify (\<lambda>d.
     db_subscriptions_update (update_where
       (\<lambda>s. sn_system_id s = systemID \<and> sn_state s = TgActive \<and> owned_by_stopped d systemID scope i (sn_task_id s))
       (\<lambda>s. s\<lparr>sn_state := TgCanceled, sn_reason := ''continuous goal stopped''\<rparr>))
     (db_schedules_update (update_where
       (\<lambda>s. sd_system_id s = systemID \<and> sd_state s = TgActive \<and> owned_by_stopped d systemID scope i (sd_task_id s))
       (\<lambda>s. s\<lparr>sd_state := TgCanceled, sd_reason := ''continuous goal stopped''\<rparr>)) d))"

definition stopping_goal :: "string \<Rightarrow> string \<Rightarrow> string \<Rightarrow> goal_row \<Rightarrow> bool" where
  "stopping_goal systemID scope i g \<longleftrightarrow> gl_system_id g = systemID \<and> gl_continuous g \<and>
     (scope = ''system'' \<or> gl_goal_id g = i) \<and> (live (gl_state g) \<or> gl_state g = Canceled)"

definition stop_goals :: "string \<Rightarrow> string \<Rightarrow> string \<Rightarrow> unit op" where
  "stop_goals systemID scope i =
     tx_bind (tx_count db_goals (stopping_goal systemID scope i)) (\<lambda>n.
     tx_seq (tx_update db_goals_update (stopping_goal systemID scope i)
               (\<lambda>g. g\<lparr>gl_control := CStopped, gl_state := Canceled\<rparr>))
     (tx_when (n > 0)
       (tx_seq (stop_agents systemID scope i)
       (tx_seq (stop_triggers systemID scope i)
         (tx_modify (\<lambda>d. db_systems_update (update_where (\<lambda>s. sy_system_id s = systemID)
            (\<lambda>s. s\<lparr>sy_state := if leased_in d systemID then SStopping else SStopped\<rparr>)) d))))))"

definition stopTasks :: "string \<Rightarrow> string \<Rightarrow> string \<Rightarrow> string \<Rightarrow> string \<Rightarrow> int \<Rightarrow> string list op" where
  "stopTasks systemID scope0 id0 source reason now =
     tx_bind (stop_scope systemID scope0 id0) (\<lambda>(scope, i).
     tx_bind (tx_gets (\<lambda>d. stopped_tasks d systemID scope i)) (\<lambda>tasks.
     tx_seq (tx_foreach (\<lambda>t. tx_update db_tasks_update (\<lambda>x. t_system_id x = systemID \<and> t_id x = t_id t)
               (\<lambda>x. x\<lparr>t_control := CStopped\<rparr>)) tasks)
     (tx_seq (tx_foreach (\<lambda>t. stop_task systemID source reason now (t_id t)) tasks)
     (tx_seq (tx_when (scope = ''system'' \<or> scope = ''goal'') (stop_goals systemID scope i))
       (tx_return (map t_call_id tasks))))))"

end
