(* ===== verification/Books.thy ===== *)
theory Books
  imports Ledger Team
begin

text \<open>
  The books under the operations on tasks: emitting events, preparing calls, waking and ending
  tasks, stopping work. \<open>books\<close> adds to the ledger that every attempt belongs to a known system,
  so that a system created later starts without debts. An operation that leaves the columns of
  \<open>money\<close> alone keeps the books; the others change calls that are not running.
\<close>

definition books :: "db \<Rightarrow> bool" where
  "books d \<longleftrightarrow> ledger d \<and> (\<forall>a \<in> set (db_attempts d). at_system_id a \<in> sy_system_id ` set (db_systems d))"

definition money :: "db \<Rightarrow> (string \<times> int) list \<times> call_row list \<times> attempt_row list" where
  "money d = (map (\<lambda>s. (sy_system_id s, sy_reserved_tokens s)) (db_systems d), db_calls d, db_attempts d)"

named_theorems accounting \<open>operations that keep the books\<close>

lemma same_reserved:
  assumes "map (\<lambda>s. (sy_system_id s, sy_reserved_tokens s)) xs = map (\<lambda>s. (sy_system_id s, sy_reserved_tokens s)) ys"
  shows "(\<forall>s \<in> set xs. sy_reserved_tokens s = f (sy_system_id s)) = (\<forall>s \<in> set ys. sy_reserved_tokens s = f (sy_system_id s))"
    and "sy_system_id ` set xs = sy_system_id ` set ys"
proof -
  from assms have s: "(\<lambda>s. (sy_system_id s, sy_reserved_tokens s)) ` set xs = (\<lambda>s. (sy_system_id s, sy_reserved_tokens s)) ` set ys"
    by (metis list.set_map)
  have all: "(\<forall>s \<in> set zs. sy_reserved_tokens s = f (sy_system_id s)) =
      (\<forall>(i, r) \<in> (\<lambda>s. (sy_system_id s, sy_reserved_tokens s)) ` set zs. r = f i)" for zs by auto
  show "(\<forall>s \<in> set xs. sy_reserved_tokens s = f (sy_system_id s)) = (\<forall>s \<in> set ys. sy_reserved_tokens s = f (sy_system_id s))"
    unfolding all s ..
  have ids: "sy_system_id ` set zs = fst ` (\<lambda>s. (sy_system_id s, sy_reserved_tokens s)) ` set zs" for zs by (simp add: image_image)
  show "sy_system_id ` set xs = sy_system_id ` set ys" unfolding ids s ..
qed

lemma books_money:
  assumes "money d = money d'"
  shows "books d = books d'"
proof -
  have parts: "map (\<lambda>s. (sy_system_id s, sy_reserved_tokens s)) (db_systems d) = map (\<lambda>s. (sy_system_id s, sy_reserved_tokens s)) (db_systems d')"
    "db_calls d = db_calls d'" "db_attempts d = db_attempts d'"
    using assms by (simp_all add: money_def)
  then have "unsettled d = unsettled d'" "running_attempts d = running_attempts d'" "running_calls d = running_calls d'"
    "keyed_calls d = keyed_calls d'"
    by (simp_all add: unsettled_def fun_eq_iff running_attempts_def running_calls_def keyed_calls_def)
  then show ?thesis
    using same_reserved [OF parts(1)] parts by (simp add: books_def ledger_def)
qed

lemma accounting_same: "tx_rel (same money) m \<Longrightarrow> tx_rel (keeps books) m"
  unfolding tx_rel_def same_def keeps_def using books_money by blast

text \<open>An update of calls that starts and ends no running one.\<close>

lemma books_calls:
  assumes "books d" "\<And>c. c \<in> set (db_calls d) \<Longrightarrow> P c \<Longrightarrow> mc_state c \<noteq> Running \<and> mc_state (f c) \<noteq> Running \<or>
      mc_state (f c) = mc_state c \<and> mc_reservation (f c) = mc_reservation c"
    and "\<And>c. mc_call_id (f c) = mc_call_id c \<and> mc_system_id (f c) = mc_system_id c"
  shows "books (db_calls_update (update_where P f) d)"
proof -
  let ?d = "db_calls_update (update_where P f) d"
  have "running_calls ?d = running_calls d"
    by (rule running_calls_update [of d P f]) (use assms(2,3) in auto)
  then have "ledger ?d"
    using assms(1,3) by (intro ledger_congI [of ?d d]) (auto simp: books_def map_update_where)
  then show ?thesis using assms(1) by (simp add: books_def)
qed

lemma accounting_calls:
  assumes "\<And>c. P c \<Longrightarrow> mc_state c \<noteq> Running \<and> mc_state (f c) \<noteq> Running \<or>
      mc_state (f c) = mc_state c \<and> mc_reservation (f c) = mc_reservation c"
    and "\<And>c. mc_call_id (f c) = mc_call_id c \<and> mc_system_id (f c) = mc_system_id c"
  shows "tx_rel (keeps books) (tx_update db_calls_update P f)"
  by (rule db_invariant.rel_update) (use assms in \<open>auto simp: keeps_def intro!: books_calls\<close>)

lemma books_insert_call:
  assumes "books d" "mc_call_id c \<noteq> ''''" "mc_state c \<noteq> Running" "\<not> list_ex (\<lambda>y. mc_call_id c = mc_call_id y) (db_calls d)"
  shows "books (db_calls_update (\<lambda>rs. rs @ [c]) d)"
  using assms by (auto simp: books_def ledger_def keyed_calls_def running_attempts_def running_calls_def unsettled_def list_ex_iff)

lemma accounting_insert_call: "mc_call_id c \<noteq> '''' \<Longrightarrow> mc_state c \<noteq> Running \<Longrightarrow> tx_rel (keeps books) (insert_call c)"
  unfolding insert_call_def
  by (intro invariant.rels db_invariant.rel_insert)
    (auto simp: keeps_def list_ex_iff intro!: books_insert_call)

lemmas accounting_rules = invariant.rels db_invariant.reads

section \<open>Events and tasks leave the money alone\<close>

lemmas money_rules = frame_rules db_frame.rel_update db_frame.rel_insert db_frame.rel_insert_or_ignore db_frame.rel_new_id
  frame.rel_modify db_frame.rel_pure

lemma emitEvent_money: "tx_rel (same money) (emitEvent t kind source causation payload now)"
  unfolding emitEvent_def insert_event_def event_depth_def readGoal_def
  by (intro frame_rules db_frame.rel_insert db_frame.rel_new_id) (simp_all add: same_def money_def)

lemma wakeContinuousTask_money: "tx_rel (same money) (wakeContinuousTask t)"
  unfolding wakeContinuousTask_def live_or_fresh_def start_continuation_def goal_and_state_def insert_task_def
  by (intro frame_rules db_frame.rel_insert db_frame.rel_new_id db_frame.rel_pure [OF readAgent_pure]
      db_frame.rel_pure [OF readTask_pure]) (simp_all add: same_def money_def)

lemma continuePendingInput_money: "tx_rel (same money) (continuePendingInput t)"
  unfolding continuePendingInput_def move_inputs_def
  by (intro frame_rules wakeContinuousTask_money frame.rel_modify) (simp_all add: same_def money_def)

lemma emitTaskWakeup_money: "tx_rel (same money) (emitTaskWakeup t kind source cause content now)"
  unfolding emitTaskWakeup_def by (intro frame_rules wakeContinuousTask_money emitEvent_money)

lemma updateConversation_money: "tx_rel (same money) (updateConversation t)"
  unfolding updateConversation_def by (intro frame_rules db_frame.rel_update) (simp_all add: same_def money_def)

lemma initializeRootTask_money: "tx_rel (same money) (initializeRootTask record e now)"
  unfolding initializeRootTask_def upsert_operator_def insertAgentRevision_def insert_usage_def insert_task_def update_goal_def
  by (intro frame_rules frame.rel_modify db_frame.rel_insert db_frame.rel_insert_or_ignore db_frame.rel_update emitEvent_money
      db_frame.rel_pure [OF readTask_pure]) (simp_all add: same_def money_def)

section \<open>Preparing, ending and stopping\<close>

lemma NewID_nonempty: "NewID p d = (Inr i, d') \<Longrightarrow> p \<noteq> '''' \<Longrightarrow> i \<noteq> ''''"
  by (auto simp: NewID_def split: list.splits)

lemma NewID_books [accounting]: "tx_rel (keeps books) (NewID p)"
  by (rule accounting_same) (intro db_frame.rel_new_id, simp add: same_def money_def)

text \<open>What follows a fresh identity may use that it is not empty.\<close>

lemma books_fresh:
  assumes "p \<noteq> ''''" "\<And>i. i \<noteq> '''' \<Longrightarrow> tx_rel (keeps books) (k i)"
  shows "tx_rel (keeps books) (tx_bind (NewID p) k)"
  by (rule invariant.rel_bind_known [OF NewID_books])
    (use assms NewID_nonempty in \<open>auto simp: tx_rel_def\<close>)

lemma insert_new_call_books:
  "callID \<noteq> '''' \<Longrightarrow> tx_rel (keeps books) (insert_new_call callID t activationID owner revision model reservation now deadline wait body)"
  unfolding insert_new_call_def
  by (rule invariant.rel_bind_known [OF invariant.rel_gets])
    (use accounting_insert_call in \<open>auto simp: tx_rel_def new_call_def\<close>)

lemma record_call_money:
  "tx_rel (same money) (insert_groups callID systemID grps)"
  "tx_rel (same money) (tx_update db_tasks_update P f)"
  "tx_rel (same money) (tx_update db_usage_update Q g)"
  unfolding insert_groups_def
  by (intro frame_rules db_frame.rel_insert db_frame.rel_update; simp add: same_def money_def)+

lemma record_call_books: "tx_rel (keeps books) (record_call cfg t owner revision model reservation now deadline wait body)"
  unfolding record_call_def
  by (intro books_fresh invariant.rel_seq insert_new_call_books accounting_same [OF record_call_money(1)]
      accounting_same [OF record_call_money(2)] accounting_same [OF record_call_money(3)]) simp_all

lemma prepareNextCall_books [accounting]: "tx_rel (keeps books) (prepareNextCall H cfg t owner now)"
  unfolding prepareNextCall_def Let_def authorize_turn_def queue_room_def readGoal_def
  by (intro accounting_rules record_call_books db_invariant.rel_pure [OF readSystem_pure] db_invariant.rel_pure [OF readAgent_pure]
      db_invariant.rel_pure [OF authorizePins_pure] db_invariant.rel_pure [OF goalIsContinuous_pure])

lemma settle_task_books [accounting]:
  "state \<noteq> Running \<Longrightarrow> tx_rel (keeps books) (settle_task t ongoing state response reason)"
proof -
  assume state: "state \<noteq> Running"
  have money: "tx_rel (same money) (cancel_triggers t)" "tx_rel (same money) (kill_mail t state)" "tx_rel (same money) (idle_goal t)"
    unfolding cancel_triggers_def kill_mail_def idle_goal_def
    by (intro frame_rules db_frame.rel_update frame.rel_modify; simp add: same_def money_def)+
  have "tx_rel (keeps books) (end_task t state response reason)"
    unfolding end_task_def
    by (intro invariant.rel_seq accounting_same [OF record_call_money(2)] accounting_calls) (use state in \<open>auto simp: undispatched_def\<close>)
  then show ?thesis
    unfolding settle_task_def
    by (intro invariant.rel_seq invariant.rel_when accounting_same [OF money(1)] accounting_same [OF money(2)]
        accounting_same [OF money(3)] accounting_same [OF continuePendingInput_money])
qed

lemma end_goal_money: "tx_rel (same money) (end_goal t state)"
  unfolding end_goal_def update_goal_def
  by (intro frame_rules db_frame.rel_update frame.rel_modify) (auto simp: same_def money_def update_where_def)

lemma terminate_steps_books:
  "state \<noteq> Running \<Longrightarrow> tx_rel (keeps books) (terminate_steps n t state response reason source cause now)"
proof (induction n arbitrary: t state response reason source)
  case 0 then show ?case by (simp add: invariant.rel_fail)
next
  case (Suc n)
  show ?case
    unfolding terminate_steps.simps
    by (intro accounting_rules settle_task_books Suc.IH Suc.prems accounting_same [OF end_goal_money] accounting_same [OF emitEvent_money]
        db_invariant.rel_pure [OF goalIsContinuous_pure] db_invariant.rel_pure [OF readTask_pure]) simp
qed

lemma terminateTask_books [accounting]:
  "state \<noteq> Running \<Longrightarrow> tx_rel (keeps books) (terminateTask t state response reason source cause now)"
  unfolding terminateTask_def by (intro accounting_rules terminate_steps_books)

lemma stopTasks_books [accounting]: "tx_rel (keeps books) (stopTasks systemID scope i source reason now)"
proof -
  have money: "tx_rel (same money) (stop_goals s c j)" "tx_rel (same money) (update_system s (\<lambda>x. x\<lparr>sy_state := st\<rparr>))"
    "tx_rel (same money) (stop_scope s c j)" for s c j st
    unfolding stop_goals_def stop_agents_def stop_triggers_def update_system_def stop_scope_def
    by (intro frame_rules db_frame.rel_update frame.rel_modify; auto simp: same_def money_def update_where_def)+
  have "tx_rel (keeps books) (stop_task systemID source reason now taskID)" for taskID
    unfolding stop_task_def
    by (intro accounting_rules terminateTask_books accounting_same [OF money(2)] accounting_calls db_invariant.rel_pure [OF readTask_pure])
      (auto simp: undispatched_def)
  then show ?thesis
    unfolding stopTasks_def
    by (intro accounting_rules accounting_same [OF money(1)] accounting_same [OF money(3)] accounting_same [OF record_call_money(2)])
qed

end
