(* ===== verification/Validation.thy ===== *)
theory Validation
  imports Systems
begin

text \<open>
  What an accepted configuration guarantees: the properties of Configuration.Validate,
  ValidateSystem, creationDefinition, GrantsFor and narrowToolPins (src/internal/state), with a
  small accepted configuration on which each is applied.
\<close>

section \<open>An accepted configuration\<close>

definition sound_services :: host_services where
  "sound_services = \<lparr>parse_url = (\<lambda>u. Some \<lparr>ep_scheme = ''http'', ep_hostname = ''localhost'', ep_has_user = False,
       ep_raw_query = '''', ep_fragment = '''', ep_opaque = '''', ep_path = ''/v1''\<rparr>),
     parse_ip_loopback = (\<lambda>h. None), lookup_env = (\<lambda>n. None)\<rparr>"

definition sound_quota :: quota_config where
  "sound_quota = \<lparr>qc_requests_per_minute = 60, qc_tokens_per_minute = 1000, qc_burst_requests = 2,
     qc_max_concurrent = 2, qc_queue_capacity = 4, qc_max_wait_seconds = 30\<rparr>"

definition sound_model :: model_config where
  "sound_model = \<lparr>mo_provider = ''p'', mo_model = ''m'', mo_quota_groups = Some [''q''], mo_max_output_tokens = 10,
     mo_input_headroom_percent = 0\<rparr>"

definition sound_profile :: sandbox_config where
  "sound_profile = zero_sandbox\<lparr>sb_read := Some [''inputs/a''], sb_read_write := Some [''output''], sb_network := ''blocked''\<rparr>"

definition sound_skill :: "string list \<Rightarrow> tool_config" where
  "sound_skill deps = zero_tool\<lparr>tc_kind := ''skill'', tc_version := 1, tc_description := ''d'', tc_content := ''c'',
     tc_requires_tools := Some deps\<rparr>"

definition sound_cfg :: configuration where
  "sound_cfg = \<lparr>cf_runtime_digest = '''', cf_learning = None, cf_bootstrap = None, cf_schema_version = 1,
     cf_data_dir = ''/d'',
     cf_providers = [(''p'', \<lparr>pc_adapter = ''ollama'', pc_base_url = ''u'', pc_api_key_env = '''', pc_timeout_seconds = 0\<rparr>)],
     cf_models = [(''default'', sound_model)], cf_quota_groups = [(''q'', sound_quota)],
     cf_sandbox_profiles = [(''worker'', sound_profile)],
     cf_tools = [(''shared.a'', sound_skill [''shared.b'']), (''shared.b'', sound_skill [])]\<rparr>"

definition sound_system :: system_config where
  "sound_system = \<lparr>sc_name = ''s'', sc_constraints = '''', sc_models = None, sc_tools = Some [''shared.a'', ''shared.b''],
     sc_operator = \<lparr>oc_prompt = ''work'', oc_model = ''default'', oc_tools = Some [''shared.b''], oc_sandbox_profile = ''worker''\<rparr>,
     sc_limits = \<lparr>sl_max_agents = 2, sl_max_active_agents = 1, sl_token_budget = 500\<rparr>\<rparr>"

named_theorems sound \<open>evaluation of the accepted configuration\<close>

lemmas text_eval [sound] = blank_def trim_space_def runes.simps decode_rune.simps is_space_def byte_def rune_at_def
  valid_utf8_def is_control_def

lemma sound_names [sound]: "ConfigName ''p''" "ConfigName ''q''" "ConfigName ''default''" "ConfigName ''worker''"
  "ConfigName ''shared.a''" "ConfigName ''shared.b''"
  by code_simp+

lemma sound_paths [sound]: "sandbox_paths_ok False [] [''inputs/a'']" "sandbox_paths_ok True [] [''output'']"
  by code_simp+

lemma sound_no_builtin [sound]: "BuiltinTool ''shared.a'' = None" "BuiltinTool ''shared.b'' = None"
  by (simp_all add: BuiltinTool_def builtin_descriptions_def)

lemma sound_tools [sound]: "Tool sound_cfg ''shared.a'' = Some (sound_skill [''shared.b''])"
  "Tool sound_cfg ''shared.b'' = Some (sound_skill [])"
  by (simp_all add: Tool_def sound) (simp_all add: sound_cfg_def)

lemma sound_requires [sound]: "requires sound_cfg ''shared.a'' = [''shared.b'']" "requires sound_cfg ''shared.b'' = []"
  by (simp_all add: requires_def the_tool_def sound) (simp_all add: sound_skill_def)

lemma sound_fields [sound]: "cf_learning sound_cfg = None"
  "cf_schema_version sound_cfg = 1" "cf_bootstrap sound_cfg = None" "cf_data_dir sound_cfg = ''/d''"
  "cf_providers sound_cfg = [(''p'', \<lparr>pc_adapter = ''ollama'', pc_base_url = ''u'', pc_api_key_env = '''', pc_timeout_seconds = 0\<rparr>)]"
  "cf_models sound_cfg = [(''default'', sound_model)]" "cf_quota_groups sound_cfg = [(''q'', sound_quota)]"
  "cf_sandbox_profiles sound_cfg = [(''worker'', sound_profile)]"
  "cf_tools sound_cfg = [(''shared.a'', sound_skill [''shared.b'']), (''shared.b'', sound_skill [])]"
  by (simp_all add: sound_cfg_def)

lemma sound_dependencies [sound]: "validate_dependencies sound_cfg = None"
  by (simp add: validate_dependencies_def numeral_eq_Suc sound)

lemma sound_parts:
  "validate_provider sound_services (''p'', \<lparr>pc_adapter = ''ollama'', pc_base_url = ''u'', pc_api_key_env = '''', pc_timeout_seconds = 0\<rparr>) = None"
  "validate_quota (''q'', sound_quota) = None"
  "validate_model sound_cfg (''default'', sound_model) = None"
  "validate_profile (''worker'', sound_profile) = None"
  "validate_tool sound_cfg (''shared.a'', sound_skill [''shared.b'']) = None"
  "validate_tool sound_cfg (''shared.b'', sound_skill []) = None"
proof -
  show "validate_provider sound_services (''p'', \<lparr>pc_adapter = ''ollama'', pc_base_url = ''u'', pc_api_key_env = '''', pc_timeout_seconds = 0\<rparr>) = None"
    by (simp add: validate_provider_def validate_endpoint_def loopback_host_def trim_right_slash_def sound_services_def sound
        first_error_Cons first_error_Nil check_None check_def)
  show "validate_quota (''q'', sound_quota) = None"
    by (simp add: validate_quota_def quota_bound_def sound_quota_def sound first_error_Cons first_error_Nil check_None)
  show "validate_model sound_cfg (''default'', sound_model) = None"
    by (simp add: validate_model_def sound first_error_Cons first_error_Nil check_None UniqueNames_None has_def get_def)
      (simp add: sound_model_def sound_quota_def sound check_def Let_def UniqueNames_None first_error_Cons first_error_Nil)
  show "validate_profile (''worker'', sound_profile) = None"
    by (simp add: validate_profile_def ValidateSandbox_def sandbox_list_def sound_profile_def zero_sandbox_def sound
        first_error_Cons first_error_Nil check_None del: sandbox_paths_ok.simps)
  show "validate_tool sound_cfg (''shared.a'', sound_skill [''shared.b'']) = None"
    "validate_tool sound_cfg (''shared.b'', sound_skill []) = None"
    by (simp_all add: validate_tool_def sound first_error_Cons first_error_Nil check_None UniqueNames_None has_prefix_def)
      (simp_all add: sound_skill_def sound check_def UniqueNames_None first_error_Cons first_error_Nil)
qed

lemma sound_valid: "Validate sound_services sound_cfg = None"
  by (simp add: Validate_def first_error_append first_error_Cons first_error_Nil check_None sound sound_parts nul_def)

lemma sound_system_valid: "ValidateSystem sound_cfg sound_system = None"
  by (simp add: ValidateSystem_def Let_def first_error_Cons first_error_Nil sound_system_def
      validateSystemName_def check_None sound UniqueNames_None closed_grants_def has_def)

section \<open>Configurations\<close>

text \<open>
  C10. An accepted configuration bounds its capacity: every quota group has positive, bounded
  limits, and every model names a configured provider and at least one distinct, configured
  quota group whose token limit its output cap fits.
\<close>

theorem Validate_capacity:
  assumes "Validate sv cfg = None"
  shows "(\<forall>(n, q) \<in> set (cf_quota_groups cfg). quota_ok q) \<and> (\<forall>(n, m) \<in> set (cf_models cfg). model_ok cfg m)"
  using Validate_parts(1,2) [OF assms] by blast

theorem Validate_capacity_applied: "quota_ok sound_quota \<and> model_ok sound_cfg sound_model"
  using Validate_capacity [OF sound_valid] by (simp add: sound)

text \<open>
  C9. Accepted tools have no circular dependencies: along requires_tools the configured tools
  form an acyclic graph, so expanding a grant to its dependencies always ends.
\<close>

theorem Validate_acyclic:
  assumes "Validate sv cfg = None"
  shows "acyclic (depends (requires cfg) (map fst (cf_tools cfg)))"
  by (rule validate_dependencies_acyclic [OF Validate_parts(4) [OF assms]])

theorem Validate_acyclic_applied: "acyclic (depends (requires sound_cfg) [''shared.a'', ''shared.b''])"
  using Validate_acyclic [OF sound_valid] by (simp add: sound)

text \<open>
  C8. Accepted sandbox profiles are confined: every readable path lies below inputs, scratch or
  output and every writable one below scratch or output, no path has an empty, dot or dot-dot
  element, a backslash or a NUL, and the network is blocked.
\<close>

theorem Validate_confined:
  assumes "Validate sv cfg = None" "(n, p) \<in> set (cf_sandbox_profiles cfg)"
  shows "(\<forall>v \<in> set (elems (sb_read p)). confined {''scratch'', ''output'', ''inputs''} v) \<and>
         (\<forall>v \<in> set (elems (sb_read_write p)). confined {''scratch'', ''output''} v) \<and> sb_network p = ''blocked''"
proof -
  from Validate_parts(3) [OF assms] have "ValidateSandbox (''sandbox_profiles.'' @ n) p = None"
    by (simp add: validate_profile_def first_error_Cons first_error_Nil)
  then show ?thesis by (rule ValidateSandbox_confined)
qed

theorem Validate_confined_applied: "confined {''scratch'', ''output''} ''output'' \<and> sb_network sound_profile = ''blocked''"
  using Validate_confined [OF sound_valid, of "''worker''" sound_profile]
  by (simp add: sound sound_profile_def)

section \<open>System definitions\<close>

text \<open>
  C11. An accepted system definition is self-contained: its operator's model is configured and
  allowed, its limits are ordered and bounded, its operator holds no tool the system was not
  granted, and every granted tool exists with its dependencies granted in the same scope.
\<close>

theorem ValidateSystem_sound:
  assumes "ValidateSystem cfg s = None"
  shows "system_ok cfg s"
  by (rule ValidateSystem_ok [OF assms])

theorem ValidateSystem_sound_applied: "system_ok sound_cfg sound_system"
  by (rule ValidateSystem_sound [OF sound_system_valid])

text \<open>What the configured bootstrap section gives, the defaults keep.\<close>

lemma bootstrap_defaults_keeps:
  "sc_constraints (bootstrap_defaults cfg g) = sc_constraints g"
  "sc_tools g = None \<or> sc_tools (bootstrap_defaults cfg g) = sc_tools g"
  "sc_models g = None \<or> sc_models (bootstrap_defaults cfg g) = sc_models g"
  "sc_limits g = zero_limits \<or> sc_limits (bootstrap_defaults cfg g) = sc_limits g"
  "oc_tools (sc_operator g) = None \<or> oc_tools (sc_operator (bootstrap_defaults cfg g)) = oc_tools (sc_operator g)"
  by (simp_all add: bootstrap_defaults_def fill_operator_def Let_def)


definition sound_command :: create_system_command where
  "sound_command = \<lparr>cs_name = ''s'', cs_goal = Some ''win'', cs_constraints = '''', cs_token_budget = 9\<rparr>"

definition bootstrapped_cfg :: configuration where
  "bootstrapped_cfg = sound_cfg\<lparr>cf_bootstrap := Some (sound_system\<lparr>sc_name := '''', sc_models := Some [''default'']\<rparr>)\<rparr>"

lemma bootstrapped_requires [sound]:
  "requires bootstrapped_cfg = requires sound_cfg" "Tool bootstrapped_cfg = Tool sound_cfg"
  "cf_models bootstrapped_cfg = cf_models sound_cfg" "cf_sandbox_profiles bootstrapped_cfg = cf_sandbox_profiles sound_cfg"
  by (auto simp: requires_def the_tool_def Tool_def bootstrapped_cfg_def fun_eq_iff split: option.splits)

lemma sound_valid_budget [sound]: "1 \<le> b \<Longrightarrow> n = '''' \<or> n = ''s'' \<Longrightarrow>
    ValidateSystem bootstrapped_cfg (sound_system\<lparr>sc_name := n, sc_models := Some [''default''],
      sc_limits := \<lparr>sl_max_agents = 2, sl_max_active_agents = 1, sl_token_budget = b\<rparr>\<rparr>) = None"
  by (auto simp: ValidateSystem_def Let_def first_error_Cons first_error_Nil sound_system_def
      validateSystemName_def check_None sound UniqueNames_None closed_grants_def has_def)

lemma sound_bootstrap [sound]:
  "BootstrapSystem bootstrapped_cfg = Inr (sound_system\<lparr>sc_name := '''', sc_models := Some [''default'']\<rparr>)"
proof -
  have "bootstrap_defaults bootstrapped_cfg (sound_system\<lparr>sc_name := '''', sc_models := Some [''default'']\<rparr>) =
      sound_system\<lparr>sc_name := '''', sc_models := Some [''default'']\<rparr>"
    by (simp add: bootstrap_defaults_def fill_operator_def sound_system_def zero_limits_def)
  moreover have "sound_system\<lparr>sc_name := '''', sc_models := Some [''default'']\<rparr> =
      sound_system\<lparr>sc_name := '''', sc_models := Some [''default''],
        sc_limits := \<lparr>sl_max_agents = 2, sl_max_active_agents = 1, sl_token_budget = 500\<rparr>\<rparr>"
    by (simp add: sound_system_def)
  ultimately show ?thesis
    using sound_valid_budget [of 500 "''''"] by (simp add: BootstrapSystem_def bootstrapped_cfg_def [THEN arg_cong [where f = cf_bootstrap]])
qed

lemma sound_creation:
  obtains s where "creationDefinition bootstrapped_cfg sound_command = Inr s"
proof -
  have "\<exists>s. creationDefinition bootstrapped_cfg sound_command = Inr s"
    using sound_valid_budget [of 9 "''s''"]
    by (simp add: Let_def creationDefinition_def sound_command_def sound join_constraints_def validateSystemName_def check_def
        sound_system_def)
  then show thesis using that by blast
qed


section \<open>Grants\<close>

text \<open>
  C13. The grants of an accepted definition pin exactly its tools: one pin per tool in order,
  with the version and content digest the configuration has, and the operator's pins are among
  the system's.
\<close>

theorem GrantsFor_pins:
  assumes "ValidateSystem cfg s = None"
  shows "map pin_name (gr_system_tools (GrantsFor H cfg s)) = elems (sc_tools s) \<and>
    map pin_name (gr_operator_tools (GrantsFor H cfg s)) = elems (oc_tools (sc_operator s)) \<and>
    set (gr_operator_tools (GrantsFor H cfg s)) \<subseteq> set (gr_system_tools (GrantsFor H cfg s)) \<and>
    (\<forall>p \<in> set (gr_system_tools (GrantsFor H cfg s)). \<exists>t. Tool cfg (pin_name p) = Some t \<and>
       pin_version p = tc_version t \<and> pin_digest p = JsonDigest H (json_tool t))"
proof -
  have ok: "set (elems (oc_tools (sc_operator s))) \<subseteq> set (elems (sc_tools s))"
    "\<forall>n \<in> set (elems (sc_tools s)). Tool cfg n \<noteq> None"
    using ValidateSystem_ok [OF assms] by (simp_all add: system_ok_def)
  have "map (\<lambda>n. if n \<in> set (elems (sc_tools s)) then pin_of H cfg n else zero_pin) (elems (oc_tools (sc_operator s))) =
      map (pin_of H cfg) (elems (oc_tools (sc_operator s)))"
    using ok(1) by (intro map_cong) auto
  then have op: "gr_operator_tools (GrantsFor H cfg s) = map (pin_of H cfg) (elems (oc_tools (sc_operator s)))"
    by (simp only: GrantsFor_def system_grants.simps)
  have sys: "gr_system_tools (GrantsFor H cfg s) = map (pin_of H cfg) (elems (sc_tools s))" by (simp add: GrantsFor_def)
  have "\<exists>t. Tool cfg n = Some t \<and> tc_version (the_tool cfg n) = tc_version t \<and>
      JsonDigest H (json_tool (the_tool cfg n)) = JsonDigest H (json_tool t)" if "n \<in> set (elems (sc_tools s))" for n
    using ok(2) that by (auto simp: the_tool_def split: option.splits)
  moreover have "pin_of H cfg ` set (elems (oc_tools (sc_operator s))) \<subseteq> pin_of H cfg ` set (elems (sc_tools s))"
    using ok(1) by (rule image_mono)
  ultimately show ?thesis unfolding op sys by (simp add: comp_def) (simp add: pin_of_def comp_def)
qed

theorem GrantsFor_pins_applied:
  "map pin_name (gr_operator_tools (GrantsFor rev sound_cfg sound_system)) = [''shared.b'']"
  using GrantsFor_pins [OF sound_system_valid, of rev] by (simp add: sound_system_def)



end
