(* ===== verification/Scenario.thy ===== *)
theory Scenario
  imports Ledger Validation
begin

text \<open>
  A small deployment on which the properties are applied: one provider and model with a shared
  quota group, one running system with its operator, one goal, its root task and the queued
  model call of that task. The digest function is constant, so that the saved digests agree.
\<close>

definition sample_digest :: "string \<Rightarrow> string" where
  "sample_digest s = ''d''"

definition sample_quota :: quota_config where
  "sample_quota = \<lparr>qc_requests_per_minute = 60, qc_tokens_per_minute = 1000, qc_burst_requests = 2,
     qc_max_concurrent = 2, qc_queue_capacity = 4, qc_max_wait_seconds = 30\<rparr>"

definition sample_cfg :: configuration where
  "sample_cfg = \<lparr>cf_runtime_digest = '''', cf_learning = None, cf_bootstrap = None, cf_schema_version = 1,
     cf_data_dir = ''/d'',
     cf_providers = [(''p'', \<lparr>pc_adapter = ''openai-chat-completions'', pc_base_url = ''u'', pc_api_key_env = ''K'', pc_timeout_seconds = 0\<rparr>)],
     cf_models = [(''default'', \<lparr>mo_provider = ''p'', mo_model = ''m'', mo_quota_groups = Some [''q''],
        mo_max_output_tokens = 10, mo_input_headroom_percent = 0\<rparr>)],
     cf_quota_groups = [(''q'', sample_quota)],
     cf_sandbox_profiles = [(''worker'', zero_sandbox)], cf_tools = []\<rparr>"

definition sample_operator :: operator_config where
  "sample_operator = \<lparr>oc_prompt = ''work'', oc_model = ''default'', oc_tools = Some [], oc_sandbox_profile = ''worker''\<rparr>"

definition sample_definition :: system_config where
  "sample_definition = \<lparr>sc_name = ''s'', sc_constraints = '''', sc_models = None, sc_tools = Some [],
     sc_operator = sample_operator, sc_limits = \<lparr>sl_max_agents = 2, sl_max_active_agents = 1, sl_token_budget = 500\<rparr>\<rparr>"

definition sample_system :: system_row where
  "sample_system = \<lparr>sy_system_id = ''sys'', sy_owner = localAdministrator, sy_operator_id = ''op'', sy_state = SRunning,
     sy_revision = 1, sy_used_tokens = 0, sy_reserved_tokens = 0, sy_last_admission = 0, sy_created_at = 0\<rparr>"

definition sample_goal :: goal_row where
  "sample_goal = \<lparr>gl_goal_id = ''g'', gl_system_id = ''sys'', gl_owner = localAdministrator, gl_prompt = ''go'',
     gl_state = Waiting, gl_token_budget = 400, gl_used_tokens = 0, gl_reserved_tokens = 0, gl_is_initial = True,
     gl_control = CActive, gl_deadline = 90000, gl_continuous = False, gl_lifetime = 0\<rparr>"

definition sample_call :: call_row where
  "sample_call = \<lparr>mc_sequence = 1, mc_call_id = ''call'', mc_system_id = ''sys'', mc_goal_id = ''g'', mc_task_id = ''t'',
     mc_activation_id = ''act'', mc_activation_owner = ''own'', mc_revision = 1, mc_model = ''default'', mc_stream = False,
     mc_state = Queued, mc_reason = '''', mc_response = '''', mc_reservation = 100, mc_attempts = 0, mc_input_tokens = 0,
     mc_output_tokens = 0, mc_usage_known = False, mc_queue_wait_ms = 0, mc_created_at = 0, mc_queued_at = 0,
     mc_deadline = 90000, mc_wait_deadline = 30000, mc_dispatched_at = 0, mc_agent_id = ''op'', mc_request = '''',
     mc_actions = []\<rparr>"

definition sample_task :: task_row where
  "sample_task = \<lparr>t_system_id = ''sys'', t_id = ''t'', t_goal_id = ''g'', t_agent_id = ''op'', t_revision = 1,
     t_parent = '''', t_state = Running, t_control = CActive, t_tools = [], t_conversation = [message ''user'' ''go''],
     t_turns = 1, t_deadline = 90000, t_call_id = ''call'', t_waiting_tool = '''', t_response = '''', t_reason = '''',
     t_learning_id = '''', t_learning_role = ''''\<rparr>"

definition sample_db :: db where
  "sample_db = (empty_db [''01'', ''02'', ''03'', ''04''])\<lparr>
     db_systems := [sample_system],
     db_revisions := [\<lparr>rv_system_id = ''sys'', rv_revision = 1, rv_config_id = ''d'', rv_definition = sample_definition,
        rv_grants = GrantsFor sample_digest sample_cfg sample_definition, rv_token_budget = 500, rv_created_at = 0\<rparr>],
     db_goals := [sample_goal],
     db_calls := [sample_call],
     db_groups := [\<lparr>cg_call_id = ''call'', cg_system_id = ''sys'', cg_group_name = ''q''\<rparr>],
     db_agents := [\<lparr>ag_system_id = ''sys'', ag_agent_id = ''op'', ag_parent_id = '''', ag_goal_id = '''', ag_name = ''operator'',
        ag_revision = 1, ag_state = CActive, ag_depth = 0, ag_token_budget = 500, ag_max_turns = 8\<rparr>],
     db_agent_revisions := [\<lparr>ar_system_id = ''sys'', ar_agent_id = ''op'', ar_revision = 1, ar_definition = sample_operator,
        ar_tools = []\<rparr>],
     db_usage := [\<lparr>us_system_id = ''sys'', us_agent_id = ''op'', us_goal_id = ''g'', us_used_tokens = 0,
        us_reserved_tokens = 0, us_turns = 1\<rparr>],
     db_tasks := [sample_task]\<rparr>"

text \<open>The session of the worker that holds the call.\<close>

definition sample_session :: execution where
  "sample_session = execution_of sample_db sample_call sample_goal"

section \<open>Evaluation\<close>

named_theorems sample \<open>the rows of the scenario and the fields they have\<close>

lemma sample_tables [sample]:
  "db_entropy sample_db = [''01'', ''02'', ''03'', ''04'']"
  "db_systems sample_db = [sample_system]" "db_goals sample_db = [sample_goal]" "db_calls sample_db = [sample_call]"
  "db_tasks sample_db = [sample_task]" "db_attempts sample_db = []" "db_quotas sample_db = []"
  "db_approvals sample_db = []" "db_uses sample_db = []" "db_audit sample_db = []" "db_mailboxes sample_db = []"
  "db_events sample_db = []" "db_receipts sample_db = []" "db_revocations sample_db = []"
  by (simp_all add: sample_db_def empty_db_def)

lemma sample_read [sample]: "readExecution ''sys'' ''call'' sample_db = (Inr sample_session, sample_db)"
  by (simp add: readExecution_def tx_row_def call_of_def goal_of_def sample sample_call_def sample_goal_def sample_session_def)

lemma sample_session_fields [sample]:
  "e_call_id sample_session = ''call''" "e_system_id sample_session = ''sys''" "e_goal_id sample_session = ''g''"
  "e_task_id sample_session = ''t''" "e_state sample_session = Queued" "e_agent_id sample_session = ''op''"
  "e_reservation sample_session = 100" "e_model sample_session = ''default''" "e_revision sample_session = 1"
  "e_wait_deadline sample_session = 30000" "e_deadline sample_session = 90000" "e_goal_budget sample_session = 400"
  "e_goal_used sample_session = 0" "e_goal_reserved sample_session = 0"
  by (simp_all add: sample_session_def execution_of_def sample_call_def sample_goal_def)


lemma sample_valid: "ValidateSystem sample_cfg sample_definition = None"
  by (simp add: ValidateSystem_def Let_def first_error_Cons sample_definition_def sample_operator_def sample_cfg_def
      validateSystemName_def check_None text_eval has_def UniqueNames_None closed_grants_def)

lemma sample_authorized [sample]: "authorizeCall sample_session sample_db = (Inr sample_session, sample_db)"
  by (simp add: authorizeCall_def tx_defs sample)

definition sample_revision :: revision_row where
  "sample_revision = \<lparr>rv_system_id = ''sys'', rv_revision = 1, rv_config_id = ''d'', rv_definition = sample_definition,
     rv_grants = GrantsFor sample_digest sample_cfg sample_definition, rv_token_budget = 500, rv_created_at = 0\<rparr>"

lemma sample_revisions [sample]: "db_revisions sample_db = [sample_revision]"
  by (simp add: sample_db_def sample_revision_def)

lemma sample_grants [sample]: "gr_system_tools (GrantsFor sample_digest sample_cfg sample_definition) = []"
  by (simp add: GrantsFor_def sample_definition_def)

lemma sample_row [sample]: "readSystemRow localAdministrator ''sys'' sample_db = (Inr (sample_system, sample_revision), sample_db)"
  by (simp add: readSystemRow_def tx_no_rows_def tx_find_def tx_defs sample sample_system_def sample_revision_def localAdministrator_def)

definition sample_record :: system_record where
  "sample_record = (system_record_of sample_system sample_revision [])\<lparr>sr_goal := Some (initial_goal_of sample_goal),
     sr_execution := Some sample_session\<rparr>"

lemma sample_readSystem [sample]: "readSystem sample_digest localAdministrator ''sys'' sample_db = (Inr sample_record, sample_db)"
proof -
  have e: "readExecution ''sys'' '''' sample_db = (Inr sample_session, sample_db)"
    by (simp add: readExecution_def tx_row_def call_of_def goal_of_def sample sample_call_def sample_goal_def sample_session_def)
  have g: "gl_system_id sample_goal = ''sys''" "gl_owner sample_goal = localAdministrator" "gl_is_initial sample_goal"
    by (simp_all add: sample_goal_def)
  have [simp]: "sy_system_id sample_system = ''sys''" "rv_grants sample_revision = GrantsFor sample_digest sample_cfg sample_definition"
    "e_continuous sample_session = False"
    by (simp_all add: sample_system_def sample_revision_def sample_session_def execution_of_def sample_goal_def)
  show ?thesis
    by (simp add: readSystem_def tx_bind_def sample loadLocalTools_def with_execution_def tx_optional_def tx_find_def
      tx_row_def tx_return_def tx_gets_def sample_record_def e g)
      (simp add: system_record_of_def)
qed

lemma sample_row_fields [sample]: "sy_system_id sample_system = ''sys''" "sy_owner sample_system = localAdministrator"
  "sy_revision sample_system = 1" "sy_state sample_system = SRunning" "rv_system_id sample_revision = ''sys''" "rv_revision sample_revision = 1"
  "rv_grants sample_revision = GrantsFor sample_digest sample_cfg sample_definition"
  "gl_system_id sample_goal = ''sys''" "gl_goal_id sample_goal = ''g''" "gl_owner sample_goal = localAdministrator" "gl_is_initial sample_goal"
  "gl_continuous sample_goal = False" "gl_state sample_goal = Waiting" "gl_control sample_goal = CActive"
  by (simp_all add: sample_system_def sample_revision_def sample_goal_def)

lemma sample_inspect [sample]: "candidate_refusal (Inspect sample_digest sample_cfg sample_record) sample_session 1000 = ''''"
  by (simp add: candidate_refusal_def Inspect_def sample_record_def system_record_of_def WithLocalTools_def Let_def
      sample_revision_def sample_valid sample_system_def sample)
    (simp add: sample_definition_def)

lemma sample_task_read [sample]: "readTask ''sys'' ''t'' sample_db = (Inr sample_task, sample_db)"
  by (simp add: readTask_def tx_find_def tx_row_def sample) (simp add: sample_task_def)

lemma sample_task_fields [sample]:
  "t_system_id sample_task = ''sys''" "t_agent_id sample_task = ''op''" "t_revision sample_task = 1" "t_goal_id sample_task = ''g''"
  "t_control sample_task = CActive" "t_state sample_task = Running" "t_tools sample_task = []" "t_learning_id sample_task = ''''"
  "t_id sample_task = ''t''" "t_parent sample_task = ''''"
  by (simp_all add: sample_task_def)

definition sample_agent :: agent_record where
  "sample_agent = \<lparr>a_system_id = ''sys'', a_id = ''op'', a_parent = '''', a_goal_id = '''', a_name = ''operator'', a_revision = 1,
     a_state = CActive, a_depth = 0, a_token_budget = 500, a_max_turns = 8, a_definition = sample_operator, a_tools = [],
     a_available = False\<rparr>"

lemma sample_agent_read [sample]: "readAgent ''sys'' ''op'' 1 sample_db = (Inr sample_agent, sample_db)"
  by (simp add: readAgent_def tx_row_def agent_of_def agent_revision_of_def sample_db_def empty_db_def agent_record_of_def
      occupied_def exists_where_def sample_task_def live_def sample_agent_def)

lemma sample_agent_fields [sample]: "a_state sample_agent = CActive" "oc_model (a_definition sample_agent) = ''default''"
  by (simp_all add: sample_agent_def sample_operator_def)

lemma sample_goal_read [sample]: "readGoal ''sys'' ''g'' sample_db = (Inr sample_goal, sample_db)"
  by (simp add: readGoal_def tx_find_def tx_row_def sample)

lemma sample_model [sample]: "authorizeModel sample_cfg (sr_configuration sample_record) ''default'' = None"
  by (simp add: authorizeModel_def check_None has_def sample_cfg_def AllowedModels_def sample_record_def system_record_of_def
      sample_revision_def sample_definition_def sample_operator_def)

lemma sample_ledger [sample]: "ledger_agents sample_db sample_session = [''op'']"
  by (simp add: ledger_agents_def agent_lineage_def task_lineage_def Let_def sample sample_db_def recursive_rows.simps)

lemma sample_allowance [sample]: "agent_allowance sample_db sample_session ''op'' = Some 500"
  by (simp add: agent_allowance_def agent_of_def usage_of_def sample sample_db_def)

lemma sample_admissible [sample]: "checkTaskAdmission sample_digest sample_cfg sample_session 1000 sample_db = (Inr '''', sample_db)"
proof -
  have "gl_control sample_goal = CActive" by (simp add: sample_goal_def)
  then show ?thesis
    by (simp add: checkTaskAdmission_def grants_refusal_def ledger_refusal_def budgetAgents_def learning_refusal_def
        pins_refusal_def authorizePins_def loadLocalTools_def or_else_def pins_closed_def Let_def TaskTerminal_def
        tx_bind_def tx_seq_def tx_optional_def tx_return_def tx_gets_def tx_try_def tx_row_def tx_reject_def sample)
qed

lemma sample_queue [sample]: "admission_queue sample_db = [(''sys'', ''call'')]"
  by (simp add: admission_queue_def last_admission_of_def sample MaxOperators_def)
    (simp add: sample_call_def sample_system_def)

lemma sample_groups [sample]: "model_groups sample_cfg ''default'' = [''q'']" "the_quota sample_cfg ''q'' = sample_quota"
  by (simp_all add: model_groups_def get_def sample_cfg_def)

lemma sample_quotas [sample]:
  "check_quotas sample_cfg sample_session 1000 sample_db =
     (Inr (True, 1000), sample_db\<lparr>db_quotas := [\<lparr>qs_group_name = ''q'', qs_credit = 2, qs_updated_at = 1000, qs_cooldown_until = 0\<rparr>]\<rparr>)"
  by (simp add: check_quotas_def quota_step_def tx_insert_or_ignore_def tx_find_def tx_update_def tx_defs quota_verdict_def
      quota_blocks_def quota_credit_def quota_clock_def refilled_def window_tokens_def group_inflight_def in_group_def sample
      sample_quota_def Let_def row_simps)

lemma sample_uses [sample]: "admitLearningUses sample_session 1000 (sample_db\<lparr>db_quotas := qs\<rparr>) = (Inr (), sample_db\<lparr>db_quotas := qs\<rparr>)"
  by (simp add: admitLearningUses_def readTask_def tx_find_def tx_optional_def tx_defs sample)

lemma sample_dispatch: "fst (dispatch sample_cfg sample_session 1000 1000 (sample_db\<lparr>db_quotas := qs\<rparr>)) = Inr ()"
  by (simp add: dispatch_def charge_system_def charge_goal_def update_system_def update_call_def auditExecution_def
      tx_update_checked_def tx_defs tx_foreach_update chargeAgents_run sample system_ledger_ok_def goal_ledger_ok_def row_simps)
    (simp add: tx_update_def tx_defs sample row_simps sample_system_def sample_goal_def system_ledger_ok_def goal_ledger_ok_def)

lemma sample_admit:
  obtains r d' where "admit sample_digest sample_cfg sample_session 1000 sample_db = (Inr (r, True), d')"
proof -
  let ?d = "sample_db\<lparr>db_quotas := [\<lparr>qs_group_name = ''q'', qs_credit = 2, qs_updated_at = 1000, qs_cooldown_until = 0\<rparr>]\<rparr>"
  obtain d' where run: "dispatch sample_cfg sample_session 1000 1000 ?d = (Inr (), d')"
    using sample_dispatch by (metis prod.collapse)
  have st: "statics d' = statics sample_db"
    using dispatch_statics [OF run] by (simp add: statics_def)
  obtain c where "call_of d' ''sys'' ''call'' = Some c"
    using call_of_statics [OF st, of "''sys''" "''call''"] sample_read by (auto simp: readExecution_ok option_rel_Some2)
  moreover from this have "goal_of d' (mc_system_id c) (mc_goal_id c) \<noteq> None"
    by (auto simp: call_of_def dest: find_SomeD)
  ultimately obtain r where r: "readExecution ''sys'' ''call'' d' = (Inr r, d')" by (auto simp: readExecution_ok)
  have "admit sample_digest sample_cfg sample_session 1000 sample_db = (Inr (r, True), d')"
    by (simp add: admit_def admit_candidate_def admit_capacity_def admit_uses_def tx_defs or_else_def sample run r)
  then show thesis by (rule that)
qed

lemma sample_keyed: "keyed_calls sample_db"
  by (simp add: keyed_calls_def sample) (simp add: sample_call_def)

section \<open>The admission properties, applied\<close>

theorem admit_within_budget_applied:
  "\<exists>r d'. admit sample_digest sample_cfg sample_session 1000 sample_db = (Inr (r, True), d') \<and> fits_budgets sample_db r"
proof -
  obtain r d' where run: "admit sample_digest sample_cfg sample_session 1000 sample_db = (Inr (r, True), d')"
    by (rule sample_admit)
  from admit_within_budget [OF run sample_keyed] run show ?thesis by blast
qed

theorem admit_in_order_applied:
  "\<exists>r d' pre post. admit sample_digest sample_cfg sample_session 1000 sample_db = (Inr (r, True), d') \<and>
     admission_queue sample_db = pre @ (e_system_id r, e_call_id r) # post"
proof -
  obtain r d' where run: "admit sample_digest sample_cfg sample_session 1000 sample_db = (Inr (r, True), d')"
    by (rule sample_admit)
  from admit_in_order [OF run sample_keyed] run show ?thesis by blast
qed

lemma sample_started:
  assumes "admit sample_digest sample_cfg sample_session 1000 sample_db = (Inr (r, True), d')"
  shows "e_system_id r = ''sys'' \<and> e_call_id r = ''call'' \<and> e_model r = ''default'' \<and> e_reservation r = 100"
proof -
  obtain i e d1 where i: "i \<in> set (admission_queue sample_db)" and e: "readExecution (fst i) (snd i) d1 = (Inr e, d1)"
    "core d1 = core sample_db" "statics d1 = statics sample_db" "exec_static e = exec_static r"
    using admit_granted [OF assms sample_keyed] by (metis in_set_conv_decomp)
  then have "readExecution ''sys'' ''call'' d1 = (Inr e, d1)" by (simp add: sample)
  then obtain c where c: "call_of d1 ''sys'' ''call'' = Some c" "exec_static e = call_static c"
    by (auto simp: readExecution_ok exec_static_def execution_of_def call_static_def)
  moreover have "call_of sample_db ''sys'' ''call'' = Some sample_call"
    by (simp add: call_of_def goal_of_def sample) (simp add: sample_call_def sample_goal_def)
  ultimately have "call_static c = call_static sample_call"
    using call_of_statics [OF e(3), of "''sys''" "''call''"] by simp
  with c(2) e(4) show ?thesis by (simp add: exec_static_def call_static_def sample_call_def)
qed

theorem admit_within_quotas_applied:
  "\<exists>r d'. admit sample_digest sample_cfg sample_session 1000 sample_db = (Inr (r, True), d') \<and>
     quota_room sample_cfg sample_db r 1000 ''q''"
proof -
  obtain r d' where run: "admit sample_digest sample_cfg sample_session 1000 sample_db = (Inr (r, True), d')"
    by (rule sample_admit)
  then have "''q'' \<in> set (model_groups sample_cfg (e_model r))" using sample_started by (simp add: sample)
  from admit_within_quotas [OF run sample_keyed this] run show ?thesis by blast
qed

theorem admit_records_applied:
  "\<exists>r d' a. admit sample_digest sample_cfg sample_session 1000 sample_db = (Inr (r, True), d') \<and>
     db_attempts d' = [a] \<and> at_call_id a = ''call'' \<and> at_state a = Running"
proof -
  obtain r d' where run: "admit sample_digest sample_cfg sample_session 1000 sample_db = (Inr (r, True), d')"
    by (rule sample_admit)
  from admit_records [OF sample_keyed, of sample_digest sample_cfg sample_session 1000] run sample_started [OF run]
  show ?thesis by (auto simp: sample)
qed

section \<open>The settlement properties, applied\<close>

text \<open>The same deployment with the call running: its attempt holds the reservation everywhere.\<close>

definition sample_attempt :: attempt_row where
  "sample_attempt = \<lparr>at_attempt_id = 1, at_call_id = ''call'', at_system_id = ''sys'', at_dispatched_at = 1000,
     at_reservation = 100, at_state = Running, at_throttled = False, at_input_tokens = 0, at_output_tokens = 0\<rparr>"

definition sample_running :: db where
  "sample_running = sample_db\<lparr>db_calls := [sample_call\<lparr>mc_state := Running, mc_attempts := 1\<rparr>],
     db_systems := [sample_system\<lparr>sy_reserved_tokens := 100\<rparr>], db_goals := [sample_goal\<lparr>gl_reserved_tokens := 100\<rparr>],
     db_attempts := [sample_attempt]\<rparr>"

definition sample_result :: provider_result where
  "sample_result = \<lparr>pr_text = ''done'', pr_input = 30, pr_output = 9, pr_known = True, pr_reason = '''', pr_retry = False,
     pr_cooldown = None, pr_retry_delay = 0, pr_actions = []\<rparr>"

definition sample_running_session :: execution where
  "sample_running_session = execution_of sample_running (sample_call\<lparr>mc_state := Running, mc_attempts := 1\<rparr>)
     (sample_goal\<lparr>gl_reserved_tokens := 100\<rparr>)"

lemma sample_running_read [sample]:
  "readExecution ''sys'' ''call'' sample_running = (Inr sample_running_session, sample_running)"
  by (simp add: readExecution_def tx_row_def call_of_def goal_of_def sample_running_def sample_running_session_def)
    (simp add: sample_call_def sample_goal_def)

lemma sample_running_fields [sample]:
  "e_call_id sample_running_session = ''call''" "e_system_id sample_running_session = ''sys''"
  "e_goal_id sample_running_session = ''g''" "e_state sample_running_session = Running"
  "e_agent_id sample_running_session = ''op''" "e_task_id sample_running_session = ''t''"
  "e_reservation sample_running_session = 100"
  by (simp_all add: sample_running_session_def execution_of_def sample_call_def sample_goal_def)

lemma sample_ledger_ok: "ledger sample_running"
  by (simp add: ledger_def keyed_calls_def running_attempts_def running_calls_def unsettled_def sample_running_def
      sample_attempt_def sum_where_def) (simp add: sample_call_def sample_system_def)

lemma sample_settle:
  obtains d' where "settle sample_cfg sample_running_session sample_result 2000 sample_running = (Inr (), d')"
proof -
  have "fst (settle sample_cfg sample_running_session sample_result 2000 sample_running) = Inr ()"
    by (simp add: settle_def settle_usage_def settle_retry_def charge_system_def charge_goal_def update_call_def
        auditExecution_def authorizeCall_def chargeAgents_run tx_update_checked_def tx_defs sample Let_def)
      (simp add: sample_result_def sample_running_def tx_update_def tx_defs sample row_simps sample_system_def sample_goal_def
        system_ledger_ok_def goal_ledger_ok_def)
  then show thesis by (metis that prod.collapse)
qed

theorem settle_exact_applied:
  "\<exists>d'. settle sample_cfg sample_running_session sample_result 2000 sample_running = (Inr (), d') \<and>
     map (\<lambda>s. (sy_reserved_tokens s, sy_used_tokens s)) (db_systems d') = [(0, 39)] \<and>
     map (\<lambda>g. (gl_reserved_tokens g, gl_used_tokens g)) (db_goals d') = [(0, 39)]"
proof -
  obtain d' where run: "settle sample_cfg sample_running_session sample_result 2000 sample_running = (Inr (), d')"
    by (rule sample_settle)
  have "readExecution (e_system_id sample_running_session) (e_call_id sample_running_session) sample_running =
      (Inr sample_running_session, sample_running)" by (simp add: sample)
  from settle_exact [OF run this] run show ?thesis
    by (simp add: sample sample_result_def release_def)
      (simp add: sample_running_def sample_system_def sample_goal_def)
qed

theorem settle_ledger_applied: "ledger (snd (settle sample_cfg sample_running_session sample_result 2000 sample_running))"
  by (rule settle_ledger [OF sample_ledger_ok])

theorem admit_ledger_applied: "ledger (snd (admit sample_digest sample_cfg sample_session 1000 sample_running))"
  by (rule admit_ledger [OF sample_ledger_ok])

end
