(* ===== verification/Tasks.thy ===== *)
theory Tasks
  imports Books Scenario
begin

text \<open>
  What the operations on tasks promise: an emitted event keeps every queue and budget of events
  within its bound, the task that continues a goal inherits no more than its predecessor had, and
  ending a task ends a chain of waiting parents that is never longer than the task table.
\<close>

section \<open>Events stay bounded\<close>

lemma NewID_ok: "NewID p d = (Inr i, d') \<Longrightarrow> \<exists>hs. d' = d\<lparr>db_entropy := hs\<rparr>"
  by (auto simp: NewID_def split: list.splits)

lemma readGoal_ok: "readGoal s i d = (Inr g, d') \<Longrightarrow> g \<in> set (db_goals d) \<and> gl_system_id g = s \<and> gl_goal_id g = i \<and> d' = d"
  by (auto simp: readGoal_def dest!: find_SomeD)

lemma event_depth_pure: "tx_rel (=) (event_depth t c)"
  unfolding event_depth_def by (intro pure_rules)

lemma emitEvent_ok:
  assumes "emitEvent t kind source causation payload now d = (Inr i, d')"
  obtains g depth hs where "g \<in> set (db_goals d)" "gl_system_id g = t_system_id t" "gl_goal_id g = t_goal_id t"
    "List.find (\<lambda>g. gl_system_id g = t_system_id t \<and> gl_goal_id g = t_goal_id t) (db_goals d) = Some g"
    "length (marshal payload) \<le> MaxEventBytes"
    "event_depth t causation d = (Inr depth, d)" "\<not> event_refused d t (gl_continuous g) source depth now"
    "gl_continuous g \<or> now < gl_deadline g \<or> kind = ''task.result''"
    "d' = d\<lparr>db_entropy := hs, db_events := db_events d @ [event_of d i t kind source causation payload depth (gl_deadline g) now],
        db_mailboxes := db_mailboxes d @ [mailbox_of d i t]\<rparr>"
proof -
  from assms obtain g depth d1 where steps: "readGoal (t_system_id t) (t_goal_id t) d = (Inr g, d)"
    "length (marshal payload) \<le> MaxEventBytes" "event_depth t causation d = (Inr depth, d)"
    "\<not> event_refused d t (gl_continuous g) source depth now" "NewID ''event_'' d = (Inr i, d1)"
    "gl_continuous g \<or> now < gl_deadline g \<or> kind = ''task.result''"
    "insert_event i t kind source causation payload depth (gl_deadline g) now d1 = (Inr (), d')"
    by (auto simp: emitEvent_def runs pure_run [OF event_depth_pure] elim!: tx_bind_ok tx_seq_ok)
  obtain hs where "d1 = d\<lparr>db_entropy := hs\<rparr>" using NewID_ok [OF steps(5)] by blast
  moreover have "List.find (\<lambda>g. gl_system_id g = t_system_id t \<and> gl_goal_id g = t_goal_id t) (db_goals d) = Some g"
    using steps(1) by (simp add: readGoal_def)
  ultimately show thesis using steps readGoal_ok [OF steps(1)]
    by (intro that [of g depth hs]) (auto simp: insert_event_def event_of_def mailbox_of_def elim!: tx_bind_ok tx_seq_ok)
qed

lemma event_depth_ok:
  assumes "event_depth t causation d = (Inr depth, d)"
  shows "if causation = '''' then depth = 0
    else \<exists>w \<in> set (db_events d). ev_system_id w = t_system_id t \<and> ev_event_id w = causation \<and> depth = ev_depth w + 1"
  using assms unfolding event_depth_def by (auto elim!: tx_bind_ok dest!: find_SomeD split: if_splits)

text \<open>
  C18. Events stay bounded. An accepted event appends one event and one pending delivery, to its
  own task only, while the goal is continuous or alive or when it reports a result; its payload is
  at most 8192 bytes, its depth is one more than that of the event that caused it, 0 without a
  cause, and at most 16. After it the events of the system and those of the goal, with one reserved
  for each live task, are at most 4096 and 256: all of them for a goal with a lifetime, those of
  the last day, and for the goal's share those of the task, for a continuous goal. The recipient
  has at most 64 open deliveries and awaited results, and an agent is the source of at most 32
  events of the last minute.
\<close>

theorem emitEvent_bounded:
  assumes "emitEvent t kind source causation payload now d = (Inr i, d')"
  shows "\<exists>v m g. db_events d' = db_events d @ [v] \<and> db_mailboxes d' = db_mailboxes d @ [m] \<and>
    ev_event_id v = i \<and> ev_task_id v = t_id t \<and> ev_payload v = payload \<and> mb_event_id m = i \<and> mb_task_id m = t_id t \<and> mb_state m = MPending \<and>
    ev_type v = kind \<and> ev_source v = source \<and> ev_recipient v = t_agent_id t \<and> mb_recipient m = t_agent_id t \<and>
    ev_causation_id v = causation \<and> ev_created_at v = now \<and>
    List.find (\<lambda>g. gl_system_id g = t_system_id t \<and> gl_goal_id g = t_goal_id t) (db_goals d) = Some g \<and>
    ev_expires_at v = gl_deadline g \<and> (gl_continuous g \<or> now < gl_deadline g \<or> kind = ''task.result'') \<and>
    length (marshal payload) \<le> 8192 \<and> ev_depth v \<le> 16 \<and>
    (if causation = '''' then ev_depth v = 0
     else \<exists>w \<in> set (db_events d). ev_system_id w = t_system_id t \<and> ev_event_id w = causation \<and> ev_depth v = ev_depth w + 1) \<and>
    count_where (\<lambda>w. ev_system_id w = t_system_id t \<and> (if gl_continuous g then now - 86400000 < ev_created_at w else True))
      (db_events d') +
    count_where (\<lambda>x. t_system_id x = t_system_id t \<and> t_state x \<in> {Queued, Running, Waiting}) (db_tasks d') \<le> 4096 \<and>
    count_where (\<lambda>w. ev_system_id w = t_system_id t \<and> ev_goal_id w = t_goal_id t \<and>
        (if gl_continuous g then now - 86400000 < ev_created_at w \<and> ev_task_id w = t_id t else True)) (db_events d') +
      count_where (\<lambda>x. t_system_id x = t_system_id t \<and> t_state x \<in> {Queued, Running, Waiting} \<and> t_goal_id x = t_goal_id t)
        (db_tasks d') \<le> 256 \<and>
    count_where (\<lambda>m. mb_system_id m = t_system_id t \<and> mb_recipient m = t_agent_id t \<and> (mb_state m = MPending \<or> mb_state m = MLeased))
      (db_mailboxes d') +
      count_where (\<lambda>x. t_system_id x = t_system_id t \<and> t_state x \<in> {Queued, Running, Waiting} \<and> t_parent x = t_id t) (db_tasks d') \<le> 64 \<and>
    (has_prefix source ''agent_'' \<longrightarrow> count_where (\<lambda>v. ev_system_id v = t_system_id t \<and> ev_source v = source \<and>
       ev_created_at v > now - 60000) (db_events d') \<le> 32)"
  using assms
proof (rule emitEvent_ok)
  fix g depth hs
  assume g: "List.find (\<lambda>g. gl_system_id g = t_system_id t \<and> gl_goal_id g = t_goal_id t) (db_goals d) = Some g"
      "gl_continuous g \<or> now < gl_deadline g \<or> kind = ''task.result''"
    and depth: "event_depth t causation d = (Inr depth, d)"
    and ok: "length (marshal payload) \<le> MaxEventBytes" "\<not> event_refused d t (gl_continuous g) source depth now"
    and d': "d' = d\<lparr>db_entropy := hs, db_events := db_events d @ [event_of d i t kind source causation payload depth (gl_deadline g) now],
        db_mailboxes := db_mailboxes d @ [mailbox_of d i t]\<rparr>"
  have counted: "counted_event t (gl_continuous g) now =
      (\<lambda>w. ev_system_id w = t_system_id t \<and> (if gl_continuous g then now - 86400000 < ev_created_at w else True))"
    "goal_event t (gl_continuous g) now = (\<lambda>w. ev_system_id w = t_system_id t \<and> ev_goal_id w = t_goal_id t \<and>
        (if gl_continuous g then now - 86400000 < ev_created_at w \<and> ev_task_id w = t_id t else True))"
    by (auto simp: counted_event_def goal_event_def fun_eq_iff)
  have live: "live_task (t_system_id t) = (\<lambda>x. t_system_id x = t_system_id t \<and> t_state x \<in> {Queued, Running, Waiting})"
    by (auto simp: live_task_def live_def fun_eq_iff)
  show ?thesis
    using g ok event_depth_ok [OF depth] unfolding event_refused_def counted live
    by (intro exI [of _ "event_of d i t kind source causation payload depth (gl_deadline g) now"] exI [of _ "mailbox_of d i t"]
        exI [of _ g])
      (auto simp: d' event_of_def mailbox_of_def count_where_append count_where_simps MaxEventBytes_def MaxEventDepth_def
        MaxSystemEvents_def MaxGoalEvents_def conj_assoc)
qed

section \<open>Errors an operation never gives\<close>

definition never :: "error \<Rightarrow> 'a op \<Rightarrow> bool" where
  "never e m \<longleftrightarrow> (\<forall>d. fst (m d) \<noteq> Inl e)"

lemma never_basic:
  "never e (tx_return x)" "never e (tx_gets f)" "never e (tx_modify g)" "never e (tx_update upd P h)" "never e (tx_try m)"
  "never e (tx_count rows P)" "never e (tx_select rows P)" "never e (tx_insert_or_ignore c rows upd x)"
  by (simp_all add: never_def tx_return_def tx_gets_def tx_modify_def tx_update_def tx_try_def tx_count_def tx_select_def
      tx_insert_or_ignore_def split: prod.splits)

lemma never_fail: "e' \<noteq> e \<Longrightarrow> never e (tx_fail e')"
  by (simp add: never_def tx_fail_def)

lemma never_reject: "e' \<noteq> e \<Longrightarrow> never e (tx_reject b e')"
  by (simp add: tx_reject_def never_fail never_basic)

lemma never_find: "e \<noteq> ErrNoRows \<Longrightarrow> never e (tx_find rows P)"
  by (auto simp: never_def tx_find_def tx_row_def split: option.splits)

lemma never_row: "e \<noteq> ErrNoRows \<Longrightarrow> never e (tx_row f)"
  by (auto simp: never_def tx_row_def split: option.splits)

lemma never_insert: "e \<noteq> ErrConstraint name \<Longrightarrow> never e (tx_insert name c rows upd x)"
  by (simp add: never_def tx_insert_def)

lemma never_NewID: "e \<noteq> ErrInternal ''generate identity'' \<Longrightarrow> never e (NewID p)"
  by (simp add: never_def NewID_def split: list.splits)

lemma never_bind: "never e m \<Longrightarrow> (\<And>x. never e (k x)) \<Longrightarrow> never e (tx_bind m k)"
  unfolding never_def tx_bind_def by (auto split: prod.splits sum.splits) (metis fst_conv)

lemma never_seq: "never e m \<Longrightarrow> never e n \<Longrightarrow> never e (tx_seq m n)"
  by (simp add: tx_seq_def never_bind)

lemma never_when: "never e m \<Longrightarrow> never e (tx_when b m)"
  by (simp add: tx_when_def never_basic)

lemma never_optional: "never e m \<Longrightarrow> never e (tx_optional m)"
  unfolding never_def tx_optional_def by (auto split: prod.splits sum.splits error.splits) (metis fst_conv)+

lemma never_if: "never e m \<Longrightarrow> never e n \<Longrightarrow> never e (if b then m else n)"
  by simp

lemma never_option: "never e m \<Longrightarrow> (\<And>x. never e (k x)) \<Longrightarrow> never e (case r of None \<Rightarrow> m | Some x \<Rightarrow> k x)"
  by (simp split: option.splits)

lemma never_prod: "(\<And>x y. never e (k x y)) \<Longrightarrow> never e (case p of (x, y) \<Rightarrow> k x y)"
  by (simp split: prod.splits)

lemmas never_rules = never_basic never_fail never_reject never_find never_row never_insert never_NewID never_bind never_seq
  never_when never_optional never_if never_option never_prod

lemma fuel_errors [simp]: "out_of_fuel \<noteq> ErrNoRows" "out_of_fuel \<noteq> ErrConstraint t" "out_of_fuel \<noteq> FieldError f p"
  "FieldError f p \<noteq> out_of_fuel" "ErrExecutionConflict \<noteq> out_of_fuel" "out_of_fuel \<noteq> ErrInternal ''generate identity''"
  "\<not> DeniedTask out_of_fuel"
  by (simp_all add: out_of_fuel_def)

lemma readTask_fuel: "never out_of_fuel (readTask s i)"
  unfolding readTask_def by (intro never_rules) simp_all

lemma emitEvent_fuel: "never out_of_fuel (emitEvent t kind source cause payload now)"
  unfolding emitEvent_def readGoal_def event_depth_def insert_event_def by (intro never_rules) simp_all

lemma goalIsContinuous_fuel: "never out_of_fuel (goalIsContinuous t)"
  unfolding goalIsContinuous_def readGoal_def by (intro never_rules) simp_all

lemma wakeContinuousTask_fuel: "never out_of_fuel (wakeContinuousTask t)"
  unfolding wakeContinuousTask_def live_or_fresh_def goal_and_state_def readAgent_def start_continuation_def insert_task_def
  by (intro never_rules readTask_fuel) simp_all

lemma settle_task_fuel: "never out_of_fuel (settle_task t ongoing state response reason)"
  unfolding settle_task_def cancel_triggers_def end_task_def continuePendingInput_def move_inputs_def kill_mail_def idle_goal_def
  by (intro never_rules wakeContinuousTask_fuel)

lemma end_goal_fuel: "never out_of_fuel (end_goal t state)"
  unfolding end_goal_def update_goal_def by (intro never_rules)

section \<open>Ending tasks only ends tasks\<close>

text \<open>
  Ending a task other than by completion creates no task and changes no row but by ending it:
  its state becomes terminal and its response and reason are set.
\<close>

definition ended :: "task_row \<Rightarrow> task_row \<Rightarrow> bool" where
  "ended x y \<longleftrightarrow> y = x \<or> TaskTerminal (t_state y) \<and>
     y = x\<lparr>t_state := t_state y, t_response := t_response y, t_reason := t_reason y\<rparr>"

definition ending :: "db \<Rightarrow> db \<Rightarrow> bool" where
  "ending d d' \<longleftrightarrow> list_all2 ended (db_tasks d) (db_tasks d')"

lemma ended_trans: "ended x y \<Longrightarrow> ended y z \<Longrightarrow> ended x z"
  by (cases x; cases y; cases z) (auto simp: ended_def)

interpretation ending: db_preorder ending
proof unfold_locales
  show "ending d d" for d by (simp add: ending_def list_all2_same ended_def)
  show "ending d d1 \<Longrightarrow> ending d1 d2 \<Longrightarrow> ending d d2" for d d1 d2
    unfolding ending_def by (rule list_all2_trans [of ended ended ended]) (auto intro: ended_trans)
qed

lemma ending_same: "tx_rel (same db_tasks) m \<Longrightarrow> tx_rel ending m"
  by (simp add: tx_rel_def same_def ending_def list_all2_same ended_def)

lemma ended_terminal: "ended x y \<Longrightarrow> TaskTerminal (t_state x) \<Longrightarrow> TaskTerminal (t_state y)"
  by (auto simp: ended_def)

lemma ended_keeps: "ended x y \<Longrightarrow> t_system_id y = t_system_id x \<and> t_id y = t_id x \<and> t_control y = t_control x \<and>
    t_call_id y = t_call_id x \<and> t_parent y = t_parent x"
  by (cases x; cases y) (auto simp: ended_def)

lemma ending_row: "ending d d' \<Longrightarrow> y \<in> set (db_tasks d') \<Longrightarrow> \<exists>x \<in> set (db_tasks d). ended x y"
  unfolding ending_def by (rule list_all2_row)

lemma emitEvent_tasks: "tx_rel (same db_tasks) (emitEvent t kind source causation payload now)"
  unfolding emitEvent_def insert_event_def event_depth_def readGoal_def
  by (intro frame_rules db_frame.rel_insert db_frame.rel_new_id) (simp_all add: same_def)

lemma end_goal_tasks: "tx_rel (same db_tasks) (end_goal t state)"
  unfolding end_goal_def update_goal_def by (intro frame_rules db_frame.rel_update frame.rel_modify) (simp_all add: same_def)

lemma around_task_tasks:
  "tx_rel (same db_tasks) (cancel_triggers t)" "tx_rel (same db_tasks) (kill_mail t state)" "tx_rel (same db_tasks) (idle_goal t)"
  unfolding cancel_triggers_def kill_mail_def idle_goal_def
  by (intro frame_rules db_frame.rel_update frame.rel_modify; simp add: same_def)+

lemma end_task_ending: "TaskTerminal state \<Longrightarrow> tx_rel ending (end_task t state response reason)"
  unfolding end_task_def
  by (intro ending.rels ending.rel_update ending_same db_frame.rel_update)
    (auto simp: ending_def same_def intro!: list_all2_update_where simp: ended_def)

lemma settle_task_ending:
  "TaskTerminal state \<Longrightarrow> state \<noteq> Completed \<Longrightarrow> tx_rel ending (settle_task t ongoing state response reason)"
  unfolding settle_task_def
  by (intro ending.rel_seq ending.rel_when end_task_ending ending_same [OF around_task_tasks(1)] ending_same [OF around_task_tasks(2)]
      ending_same [OF around_task_tasks(3)]) auto

lemma terminate_steps_ending:
  "TaskTerminal state \<Longrightarrow> state \<noteq> Completed \<Longrightarrow> tx_rel ending (terminate_steps n t state response reason source cause now)"
proof (induction n arbitrary: t state response reason source)
  case 0 then show ?case by (simp add: ending.rel_fail)
next
  case (Suc n)
  show ?case
    unfolding terminate_steps.simps
    by (intro ending.rels settle_task_ending Suc.IH Suc.prems ending_same [OF end_goal_tasks] ending_same [OF emitEvent_tasks]
        ending.rel_pure [OF goalIsContinuous_pure] ending.rel_pure [OF readTask_pure]) (simp_all add: TaskTerminal_def)
qed

section \<open>The chain of parents is within the task table\<close>

definition task_key :: "task_row \<Rightarrow> string \<times> string" where
  "task_key x = (t_system_id x, t_id x)"

definition end_row :: "run_state \<Rightarrow> string \<Rightarrow> string \<Rightarrow> task_row \<Rightarrow> task_row" where
  "end_row state response reason x = x\<lparr>t_state := state, t_response := response, t_reason := reason\<rparr>"

lemma end_row_simps [simp]: "t_state (end_row s r z x) = s" "task_key (end_row s r z x) = task_key x"
  by (simp_all add: end_row_def task_key_def)

definition open_tasks :: "db \<Rightarrow> nat" where
  "open_tasks d = length (filter (\<lambda>x. \<not> TaskTerminal (t_state x)) (db_tasks d))"

text \<open>Waking a goal gives a live task of the agent, or starts one that no row had before.\<close>

lemma wake_ok:
  assumes "wakeContinuousTask p d = (Inr y, d')" "TaskTerminal (t_state p)"
  obtains (running) "d' = d" "y \<in> set (db_tasks d)" "t_system_id y = t_system_id p"
    | (started) g agent where "goal_of d (t_system_id p) (t_goal_id p) = Some g" "gl_continuous g" "gl_control g \<noteq> CStopped"
        "readAgent (t_system_id p) (t_agent_id p) 0 d = (Inr agent, d)" "a_state agent \<noteq> CStopped"
        "t_control p \<noteq> CStopped" "t_learning_id p = ''''"
        "start_continuation p agent (gl_prompt g) d = (Inr y, d')"
proof -

  from assms obtain g agent where steps: "goal_of d (t_system_id p) (t_goal_id p) = Some g"
    "gl_continuous g" "gl_control g \<noteq> CStopped" "t_control p \<noteq> CStopped" "t_learning_id p = ''''"
    "readAgent (t_system_id p) (t_agent_id p) 0 d = (Inr agent, d)" "a_state agent \<noteq> CStopped"
    "live_or_fresh p agent (gl_prompt g) d = (Inr y, d')"
    by (auto simp: wakeContinuousTask_def goal_and_state_def runs elim!: tx_bind_ok tx_seq_ok split: option.splits)
  show thesis
  proof (cases "List.find (live_task_of (t_system_id p) (t_agent_id p) (t_goal_id p)) (db_tasks d)")
    case None
    with steps show ?thesis
      by (intro started) (auto simp: live_or_fresh_def tx_bind_def tx_optional_def tx_find_def tx_row_def)
  next
    case (Some t)
    with steps have "readTask (t_system_id p) (t_id t) d = (Inr y, d')"
      by (auto simp: live_or_fresh_def tx_bind_def tx_optional_def tx_find_def tx_row_def)
    then show ?thesis by (intro running) (auto simp: readTask_def dest: find_SomeD)
  qed
qed

lemma start_continuation_ok:
  assumes "start_continuation p agent prompt d = (Inr y, d')"
  obtains i hs where "y = (new_task (t_system_id p) i (t_goal_id p) (a_id agent) (a_revision agent) (t_parent p)
      (filter (\<lambda>q. q \<in> set (t_tools p)) (a_tools agent)) (continued_conversation prompt p))\<lparr>t_turns := 0\<rparr>"
    "d' = d\<lparr>db_entropy := hs, db_tasks := db_tasks d @ [y]\<rparr>" "task_key y \<notin> task_key ` set (db_tasks d)"
proof -
  let ?new = "\<lambda>i. (new_task (t_system_id p) i (t_goal_id p) (a_id agent) (a_revision agent) (t_parent p)
      (filter (\<lambda>q. q \<in> set (t_tools p)) (a_tools agent)) (continued_conversation prompt p))\<lparr>t_turns := 0\<rparr>"
  from assms obtain i d1 where i: "NewID ''task_'' d = (Inr i, d1)" "insert_task (?new i) d1 = (Inr (), d')"
    "readTask (t_system_id p) i d' = (Inr y, d')"
    by (auto simp: start_continuation_def runs tx_count_def elim!: tx_bind_ok tx_seq_ok)
  from NewID_ok [OF i(1)] obtain hs where d1: "d1 = d\<lparr>db_entropy := hs\<rparr>" by blast
  have fresh: "\<forall>x \<in> set (db_tasks d). \<not> (t_system_id x = t_system_id p \<and> t_id x = i)"
    using i(2) by (auto simp: insert_task_def d1 list_ex_iff new_task_def)
  then have none: "List.find (\<lambda>x. t_system_id x = t_system_id p \<and> t_id x = i) (db_tasks d) = None"
    by (auto simp: find_None_iff)
  have d': "d' = d\<lparr>db_entropy := hs, db_tasks := db_tasks d @ [?new i]\<rparr>" using i(2) by (simp add: insert_task_def d1)
  have y: "y = ?new i" using i(3) none by (simp add: readTask_def d' find_append new_task_def)
  show thesis by (rule that [OF y]) (use d' y fresh in \<open>auto simp: task_key_def new_task_def\<close>)
qed

lemma wake_tasks:
  assumes "wakeContinuousTask p d = (Inr y, d')"
  shows "\<exists>extra. db_tasks d' = db_tasks d @ extra \<and> length extra \<le> 1 \<and> task_key ` set extra \<inter> task_key ` set (db_tasks d) = {}"
proof (cases "TaskTerminal (t_state p)")
  case False
  with assms show ?thesis by (simp add: wakeContinuousTask_def)
next
  case True
  from assms True show ?thesis
    by (cases rule: wake_ok) (auto elim!: start_continuation_ok intro: exI [of _ "[y]"])
qed

lemma continue_tasks:
  assumes "continuePendingInput p d = (Inr (), d')"
  shows "\<exists>extra. db_tasks d' = db_tasks d @ extra \<and> length extra \<le> 1 \<and> task_key ` set extra \<inter> task_key ` set (db_tasks d) = {}"
proof (cases "exists_where (pending_input d (t_system_id p) (t_id p)) (db_mailboxes d)")
  case False
  with assms show ?thesis by (auto simp: continuePendingInput_def tx_bind_def tx_gets_def tx_when_def)
next
  case True
  with assms obtain y d1 where "wakeContinuousTask p d = (Inr y, d1)" "db_tasks d' = db_tasks d1"
    by (auto simp: continuePendingInput_def tx_when_def move_inputs_def elim!: tx_bind_ok)
  with wake_tasks show ?thesis by metis
qed

text \<open>Settling a task ends the rows of its key and, when a goal goes on, adds one row at most.\<close>

lemma settle_task_tasks:
  assumes "settle_task t ongoing state response reason d = (Inr (), d')"
  shows "\<exists>extra. db_tasks d' = update_where (\<lambda>x. task_key x = task_key t) (end_row state response reason) (db_tasks d) @ extra \<and>
    length extra \<le> 1 \<and> (state \<noteq> Completed \<longrightarrow> extra = []) \<and> task_key ` set extra \<inter> task_key ` set (db_tasks d) = {}"
proof -
  let ?t = "t\<lparr>t_state := state, t_response := response, t_reason := reason\<rparr>"
  let ?c = "ongoing \<and> state = Completed \<and> t_learning_id t = ''''"
  from assms obtain d1 d2 d3 where d: "tx_when (\<not> ongoing \<or> state \<noteq> Completed \<or> t_learning_id t \<noteq> '''') (cancel_triggers t) d = (Inr (), d1)"
    "end_task t state response reason d1 = (Inr (), d2)" "tx_when ?c (continuePendingInput ?t) d2 = (Inr (), d3)"
    and rest: "tx_seq (kill_mail t state) (tx_when ongoing (idle_goal t)) d3 = (Inr (), d')"
    unfolding settle_task_def by (elim tx_seq_ok [where m = "tx_when _ _"] tx_seq_ok [where m = "end_task t state response reason"])
  have d1: "db_tasks d1 = db_tasks d"
    using d(1) tx_rel_result [OF frame.rel_when [OF around_task_tasks(1)]] by (metis same_def)
  have d': "db_tasks d' = db_tasks d3"
    using rest tx_rel_result [OF frame.rel_seq [OF around_task_tasks(2) frame.rel_when [OF around_task_tasks(3)]]] by (metis same_def)
  have d2: "db_tasks d2 = update_where (\<lambda>x. task_key x = task_key t) (end_row state response reason) (db_tasks d)"
    using d(2) d1 by (auto simp: end_task_def task_key_def end_row_def update_where_def elim!: tx_seq_ok)
  then have "map task_key (db_tasks d2) = map task_key (db_tasks d)" by (simp add: map_update_where)
  then have keys: "task_key ` set (db_tasks d2) = task_key ` set (db_tasks d)" by (metis list.set_map)
  show ?thesis
  proof (cases ?c)
    case True
    with d(3) have "continuePendingInput ?t d2 = (Inr (), d3)" by (simp add: tx_when_def)
    from continue_tasks [OF this, unfolded keys] obtain extra where "db_tasks d3 = db_tasks d2 @ extra" "length extra \<le> 1"
      "task_key ` set extra \<inter> task_key ` set (db_tasks d) = {}" by blast
    with True show ?thesis by (intro exI [of _ extra]) (simp add: d' d2)
  next
    case False
    with d(3) have "d3 = d2" by (simp add: tx_when_def)
    then show ?thesis by (simp add: d' d2)
  qed
qed

lemma ended_rows_open:
  "length (filter (\<lambda>x. \<not> TaskTerminal (t_state x)) (update_where (\<lambda>x. task_key x = k) (end_row st r z) xs)) \<le>
     length (filter (\<lambda>x. \<not> TaskTerminal (t_state x)) xs)" if "TaskTerminal st"
  using that by (induction xs) (auto simp: row_simps)

lemma ended_rows_fewer:
  assumes "TaskTerminal st" "x \<in> set xs" "task_key x = k" "\<not> TaskTerminal (t_state x)"
  shows "length (filter (\<lambda>x. \<not> TaskTerminal (t_state x)) (update_where (\<lambda>x. task_key x = k) (end_row st r z) xs)) <
     length (filter (\<lambda>x. \<not> TaskTerminal (t_state x)) xs)"
  using assms(2-)
proof (induction xs)
  case (Cons a xs)
  with ended_rows_open [OF assms(1), of k r z xs] assms(1) show ?case
    by (cases "x = a") (auto simp: row_simps)
qed simp

lemma never_at_bind:
  "never e m \<Longrightarrow> (\<And>x d'. m d = (Inr x, d') \<Longrightarrow> fst (k x d') \<noteq> Inl e) \<Longrightarrow> fst (tx_bind m k d) \<noteq> Inl e"
  unfolding never_def tx_bind_def by (auto split: prod.splits sum.splits) (metis fst_conv)

lemma never_at_seq:
  "never e m \<Longrightarrow> (\<And>d'. m d = (Inr (), d') \<Longrightarrow> fst (n d') \<noteq> Inl e) \<Longrightarrow> fst (tx_seq m n d) \<noteq> Inl e"
  unfolding tx_seq_def by (rule never_at_bind) auto

lemma never_at_if:
  "(b \<Longrightarrow> fst (m d) \<noteq> r) \<Longrightarrow> (\<not> b \<Longrightarrow> fst (n d) \<noteq> r) \<Longrightarrow> fst ((if b then m else n) d) \<noteq> r"
  by simp

lemma never_at: "never e m \<Longrightarrow> fst (m d) \<noteq> Inl e"
  by (simp add: never_def)

text \<open>One step: it gives no fuel error when the step for the parent, where one is taken, gives none.\<close>

lemma terminate_step_fuel:
  assumes "\<And>ongoing d1 parent d2 e. settle_task t ongoing state response reason d = (Inr (), d1) \<Longrightarrow>
      readTask (t_system_id t) (t_parent t) d1 = (Inr parent, d1) \<Longrightarrow> \<not> TaskTerminal (t_state parent) \<Longrightarrow>
      db_tasks d2 = db_tasks d1 \<Longrightarrow>
      fst (terminate_steps n parent Rejected '''' (''child result delivery rejected: '' @ error_text e) ''runtime'' cause now d2) \<noteq> Inl out_of_fuel"
  shows "fst (terminate_steps (Suc n) t state response reason source cause now d) \<noteq> Inl out_of_fuel"
proof -
  have sent: "fst ((case sent of Inr _ \<Rightarrow> tx_return ()
         | Inl e \<Rightarrow> if \<not> DeniedTask e then tx_fail e
             else terminate_steps n parent Rejected '''' (''child result delivery rejected: '' @ error_text e)
                    ''runtime'' cause now) d2) \<noteq> Inl out_of_fuel"
    if run: "settle_task t ongoing state response reason d = (Inr (), d1)" "fst (readTask (t_system_id t) (t_parent t) d1) = Inr parent"
      "\<not> TaskTerminal (t_state parent)"
      "emitEvent parent ''task.result'' source cause (result_payload t state) now d1 = (sent, d2)"
    for ongoing parent sent d1 d2
  proof (cases sent)
    case (Inl e)
    have emit: "emitEvent parent ''task.result'' source cause (result_payload t state) now d1 = (Inl e, d2)" using run(4) Inl by simp
    have "db_tasks d2 = db_tasks d1" using tx_rel_result [OF emitEvent_tasks emit] by (simp add: same_def)
    moreover have "e \<noteq> out_of_fuel"
      using never_at [OF emitEvent_fuel, of parent "''task.result''" source cause "result_payload t state" now d1] by (auto simp: emit)
    ultimately show ?thesis using assms [OF run(1) _ run(3)] run(2) Inl by (simp add: tx_fail_def runs)
  qed (simp add: tx_return_def)
  have ret: "fst (tx_return () d') \<noteq> Inl out_of_fuel" for d' :: db by (simp add: tx_return_def)
  show ?thesis
    unfolding terminate_steps.simps
    by (intro never_at_if never_at_bind never_at_seq goalIsContinuous_fuel settle_task_fuel readTask_fuel never_basic ret
        never_at [OF never_when [OF end_goal_fuel]]) (auto simp: runs elim!: notE [OF sent])
qed

lemma terminate_enough:
  assumes "open_tasks d \<le> n" "\<exists>x \<in> set (db_tasks d). task_key x = task_key t \<and> \<not> TaskTerminal (t_state x)"
  shows "fst (terminate_steps n t Rejected response reason source cause now d) \<noteq> Inl out_of_fuel"
  using assms
proof (induction n arbitrary: t response reason source d)
  case 0
  then show ?case by (auto simp: open_tasks_def filter_empty_conv)
next
  case (Suc n)
  from Suc.prems(2) obtain x where x: "x \<in> set (db_tasks d)" "task_key x = task_key t" "\<not> TaskTerminal (t_state x)" by blast
  show ?case
  proof (rule terminate_step_fuel)
    fix ongoing d1 parent e and d2 :: db
    assume settle: "settle_task t ongoing Rejected response reason d = (Inr (), d1)"
      and parent: "readTask (t_system_id t) (t_parent t) d1 = (Inr parent, d1)" "\<not> TaskTerminal (t_state parent)"
      and tasks: "db_tasks d2 = db_tasks d1"
    from settle_task_tasks [OF settle] have "open_tasks d1 < open_tasks d"
      using ended_rows_fewer [OF _ x(1,2,3)] by (simp add: open_tasks_def TaskTerminal_def)
    moreover have "parent \<in> set (db_tasks d2)" using parent(1) tasks by (auto simp: readTask_def dest: find_SomeD)
    ultimately show "fst (terminate_steps n parent Rejected '''' (''child result delivery rejected: '' @ error_text e) ''runtime'' cause now d2)
        \<noteq> Inl out_of_fuel"
      using Suc.prems(1) parent(2) tasks by (intro Suc.IH) (auto simp: open_tasks_def)
  qed
qed

text \<open>
  One operation does what another does except where that one gives the error \<open>e\<close>: with \<open>e\<close> the
  fuel error, more fuel gives the same run.
\<close>

definition unless :: "error \<Rightarrow> 'a op \<Rightarrow> 'a op \<Rightarrow> bool" where
  "unless e m m' \<longleftrightarrow> (\<forall>d. fst (m d) \<noteq> Inl e \<longrightarrow> m' d = m d)"

lemma unless_refl: "unless e m m"
  by (simp add: unless_def)

lemma unless_fail: "unless e (tx_fail e) m"
  by (simp add: unless_def tx_fail_def)

lemma unless_bind:
  assumes "\<And>x. unless e (k x) (k' x)"
  shows "unless e (tx_bind m k) (tx_bind m k')"
  using assms by (auto simp: unless_def tx_bind_def split: prod.splits sum.splits)

lemma unless_seq: "unless e n n' \<Longrightarrow> unless e (tx_seq m n) (tx_seq m n')"
  unfolding tx_seq_def by (rule unless_bind)

lemma unless_if: "unless e m m' \<Longrightarrow> unless e n n' \<Longrightarrow> unless e (if b then m else n) (if b then m' else n')"
  by simp

lemma unless_sum: "(\<And>x. unless e (f x) (f' x)) \<Longrightarrow> unless e (case r of Inl x \<Rightarrow> f x | Inr y \<Rightarrow> g y) (case r of Inl x \<Rightarrow> f' x | Inr y \<Rightarrow> g y)"
  by (simp add: unless_refl split: sum.splits)

lemma terminate_more_fuel:
  "unless out_of_fuel (terminate_steps n t state response reason source cause now)
     (terminate_steps (n + k) t state response reason source cause now)"
proof (induction n arbitrary: t state response reason source)
  case 0
  then show ?case by (simp add: unless_fail)
next
  case (Suc n)
  show ?case
    unfolding add_Suc terminate_steps.simps
    by (intro unless_if unless_bind unless_seq unless_sum unless_refl Suc.IH)
qed

text \<open>
  C19. Ending a task terminates. The recursion of terminateTask over waiting parents ends within the
  steps the model allows: the model's own error never occurs, and any larger number of steps gives
  the same result and the same database, so the bound is not part of the behaviour.
\<close>

theorem terminateTask_enough:
  assumes "length (db_tasks d) + 2 \<le> n"
  shows "fst (terminateTask t state response reason source cause now d) \<noteq> Inl out_of_fuel \<and>
    terminate_steps n t state response reason source cause now d = terminateTask t state response reason source cause now d"
proof -
  let ?n = "length (db_tasks d) + 1"
  have enough: "fst (terminate_steps (Suc ?n) t state response reason source cause now d) \<noteq> Inl out_of_fuel"
  proof (rule terminate_step_fuel)
    fix ongoing d1 parent e and d2 :: db
    assume settle: "settle_task t ongoing state response reason d = (Inr (), d1)"
      and parent: "readTask (t_system_id t) (t_parent t) d1 = (Inr parent, d1)" "\<not> TaskTerminal (t_state parent)"
      and tasks: "db_tasks d2 = db_tasks d1"
    from settle_task_tasks [OF settle] have "length (db_tasks d1) \<le> ?n" by auto
    then have "open_tasks d2 \<le> ?n"
      unfolding open_tasks_def tasks by (rule order_trans [OF length_filter_le])
    moreover have "parent \<in> set (db_tasks d2)" using parent(1) tasks by (auto simp: readTask_def dest: find_SomeD)
    ultimately show "fst (terminate_steps ?n parent Rejected '''' (''child result delivery rejected: '' @ error_text e) ''runtime'' cause now d2)
        \<noteq> Inl out_of_fuel"
      using parent(2) by (intro terminate_enough) auto
  qed
  have run: "terminateTask t state response reason source cause now d = terminate_steps (Suc ?n) t state response reason source cause now d"
    by (simp add: terminateTask_def tx_bind_def tx_gets_def del: terminate_steps.simps)
  obtain k where n: "n = Suc ?n + k" using assms by (metis add.commute add_Suc_right le_Suc_ex Suc_1 add_2_eq_Suc')
  from terminate_more_fuel [of "Suc ?n" t state response reason source cause now k] enough show ?thesis
    by (simp add: unless_def run n del: terminate_steps.simps)
qed

theorem terminateTask_enough_applied:
  "fst (terminateTask sample_task Failed '''' ''r'' ''runtime'' '''' 1000 sample_db) \<noteq> Inl out_of_fuel \<and>
   terminate_steps 3 sample_task Failed '''' ''r'' ''runtime'' '''' 1000 sample_db =
     terminateTask sample_task Failed '''' ''r'' ''runtime'' '''' 1000 sample_db"
  by (rule terminateTask_enough) (simp_all add: TaskTerminal_def sample)

section \<open>A continued goal\<close>

lemma recent_messages_bounds:
  "n \<le> 8 \<Longrightarrow> b \<le> 8192 \<Longrightarrow> length (recent_messages prompt ms n b) + n \<le> 8 \<and>
     sum_list (map (\<lambda>m. length (cm_content m)) (recent_messages prompt ms n b)) + b \<le> 8192 \<and>
     set (recent_messages prompt ms n b) \<subseteq> {m \<in> set ms. carried prompt m}"
proof (induction ms arbitrary: n b)
  case (Cons m ms)
  show ?case
  proof (cases "carried prompt m \<and> n \<noteq> 8 \<and> b + length (cm_content m) \<le> 8192")
    case True
    with Cons.IH [of "n + 1" "b + length (cm_content m)"] Cons.prems show ?thesis by auto
  next
    case False
    with Cons show ?thesis by auto
  qed
qed simp


section \<open>Applications\<close>

lemma sample_emit:
  obtains i d' where "emitEvent sample_task ''task.ready'' localAdministrator '''' (JObj []) 1000 sample_db = (Inr i, d')"
proof -
  have small: "length (marshal (JObj [])) \<le> MaxEventBytes" by (simp add: MaxEventBytes_def)
  have open_goal: "\<not> event_refused sample_db sample_task (gl_continuous sample_goal) localAdministrator 0 1000"
    by (simp add: event_refused_def sample count_where_def MaxSystemEvents_def MaxGoalEvents_def MaxEventDepth_def
        localAdministrator_def has_prefix_def)
  have "\<exists>i d'. emitEvent sample_task ''task.ready'' localAdministrator '''' (JObj []) 1000 sample_db = (Inr i, d')"
    using small open_goal
    by (simp add: emitEvent_def event_depth_def insert_event_def event_of_def mailbox_of_def NewID_def tx_insert_def tx_defs sample not_le)
      (simp add: sample_goal_def)
  then show thesis using that by blast
qed

theorem emitEvent_bounded_applied:
  "\<exists>i d'. emitEvent sample_task ''task.ready'' localAdministrator '''' (JObj []) 1000 sample_db = (Inr i, d') \<and>
     length (db_events d') = 1"
proof -
  obtain i d' where run: "emitEvent sample_task ''task.ready'' localAdministrator '''' (JObj []) 1000 sample_db = (Inr i, d')"
    by (rule sample_emit)
  from emitEvent_bounded [OF run] run show ?thesis by (auto simp: sample)
qed

text \<open>A completed task of a goal that goes on.\<close>

definition ongoing_db :: db where
  "ongoing_db = sample_db\<lparr>db_goals := [sample_goal\<lparr>gl_continuous := True\<rparr>], db_tasks := [sample_task\<lparr>t_state := Completed\<rparr>]\<rparr>"

lemma ongoing_wake:
  obtains y d' where "wakeContinuousTask (sample_task\<lparr>t_state := Completed\<rparr>) ongoing_db = (Inr y, d')" "length (db_tasks d') = 2"
proof -
  have agent: "readAgent ''sys'' ''op'' 0 ongoing_db = (Inr (sample_agent\<lparr>a_available := True\<rparr>), ongoing_db)"
    by (simp add: readAgent_def tx_row_def agent_of_def agent_revision_of_def ongoing_db_def sample_db_def empty_db_def agent_record_of_def
        occupied_def exists_where_def sample_task_def live_def sample_agent_def)
  have goal: "goal_of ongoing_db ''sys'' ''g'' = Some (sample_goal\<lparr>gl_continuous := True\<rparr>)"
    by (simp add: goal_of_def ongoing_db_def sample_goal_def)
  have "\<exists>y d'. wakeContinuousTask (sample_task\<lparr>t_state := Completed\<rparr>) ongoing_db = (Inr y, d') \<and> length (db_tasks d') = 2"
    using agent goal
    by (simp add: wakeContinuousTask_def live_or_fresh_def start_continuation_def goal_and_state_def NewID_def insert_task_def readTask_def
        tx_insert_def tx_find_def tx_optional_def tx_count_def tx_defs sample TaskTerminal_def)
      (simp add: ongoing_db_def sample sample_system_def sample_goal_def live_task_of_def live_task_def live_def count_where_def MaxGoalTasks_def
        new_task_def tx_defs start_continuation_def NewID_def insert_task_def readTask_def tx_insert_def tx_find_def tx_count_def)
  then show thesis using that by blast
qed


end
