(* ===== verification/Clock.thy ===== *)
theory Clock
  imports Prelude GoText
begin

text \<open>
  Instants (knowledge.go): time.Parse of an RFC 3339 timestamp, element by element as the general
  parser of the standard library reads the layout, and NextCron. The zone database and the cron
  library (github.com/robfig/cron) are the argument \<open>trigger_services\<close>: whether a zone loads,
  and the schedule an expression parses to, as the next instant after a given one. Instants are
  milliseconds since the epoch.
\<close>

record trigger_services =
  ts_zone :: "string \<Rightarrow> bool"
  ts_cron :: "string \<Rightarrow> (int \<Rightarrow> int option) option"

definition NextCron :: "trigger_services \<Rightarrow> string \<Rightarrow> string \<Rightarrow> int \<Rightarrow> error + int" where
  "NextCron ts expression zone0 after =
     (if length expression > 256 \<or> fields_length expression \<noteq> 5 \<or> zone0 = ''Local'' \<or> length zone0 > 128
      then Inl (FieldError ''cron'' ''requires five fields and an explicit IANA zone (default UTC)'')
      else
       let zone = (if zone0 = '''' then ''UTC'' else zone0) in
       if \<not> ts_zone ts zone then Inl (FieldError ''timezone'' ''unknown IANA zone'') else
       case ts_cron ts (''CRON_TZ='' @ zone @ '' '' @ expression) of
         None \<Rightarrow> Inl (FieldError ''cron'' ''invalid expression'')
       | Some next \<Rightarrow> (case next after of
            None \<Rightarrow> Inl (FieldError ''cron'' ''no occurrence within the parser's five-year horizon'')
          | Some t \<Rightarrow> Inr t))"

section \<open>RFC 3339\<close>

text \<open>A number of exactly \<open>n\<close> digits, a literal, and a number of one or two digits (the hour).\<close>

definition digits_value :: "string \<Rightarrow> int" where
  "digits_value s = foldl (\<lambda>v c. 10 * v + int (byte c - 48)) 0 s"

definition take_number :: "nat \<Rightarrow> string \<Rightarrow> (int \<times> string) option" where
  "take_number n s =
     (if length s \<ge> n \<and> list_all digit (take n s) then Some (digits_value (take n s), drop n s) else None)"

definition take_char :: "char \<Rightarrow> string \<Rightarrow> string option" where
  "take_char c s = (case s of [] \<Rightarrow> None | x # xs \<Rightarrow> if x = c then Some xs else None)"

definition take_hour :: "string \<Rightarrow> (int \<times> string) option" where
  "take_hour s = (case take_number 2 s of Some r \<Rightarrow> Some r | None \<Rightarrow> take_number 1 s)"

text \<open>An optional fraction after a period or a comma, of which nine digits count, in milliseconds.\<close>

definition take_fraction :: "string \<Rightarrow> int \<times> string" where
  "take_fraction s = (case s of
       x # y # xs \<Rightarrow>
         if (x = CHR ''.'' \<or> x = CHR '','') \<and> digit y then
           (let ds = takeWhile digit (y # xs) in
            (digits_value (take 3 (ds @ ''00'')), dropWhile digit (y # xs)))
         else (0, s)
     | _ \<Rightarrow> (0, s))"

text \<open>The zone: Z, or a signed offset whose range test admits 24 hours and 60 minutes.\<close>

definition take_zone :: "string \<Rightarrow> int option" where
  "take_zone s =
     (if s = ''Z'' then Some 0
      else if length s = 6 \<and> s ! 3 = CHR '':'' \<and> (s ! 0 = CHR ''+'' \<or> s ! 0 = CHR ''-'') then
        (case (take_number 2 (take 2 (drop 1 s)), take_number 2 (drop 4 s)) of
           (Some (h, _), Some (m, _)) \<Rightarrow>
             if h > 24 \<or> m > 60 then None
             else Some ((if s ! 0 = CHR ''-'' then -1 else 1) * (h * 3600 + m * 60))
         | _ \<Rightarrow> None)
      else None)"

definition leap_year :: "int \<Rightarrow> bool" where
  "leap_year y \<longleftrightarrow> y mod 4 = 0 \<and> (y mod 100 \<noteq> 0 \<or> y mod 400 = 0)"

definition days_in :: "int \<Rightarrow> int \<Rightarrow> int" where
  "days_in y m = (if m = 2 then (if leap_year y then 29 else 28)
     else if m = 4 \<or> m = 6 \<or> m = 9 \<or> m = 11 then 30 else 31)"

text \<open>Days from 1970-01-01 in the proleptic Gregorian calendar.\<close>

definition days_before_year :: "int \<Rightarrow> int" where
  "days_before_year y = 365 * (y - 1970) + ((y - 1) div 4 - 492) - ((y - 1) div 100 - 19) + ((y - 1) div 400 - 4)"

definition day_number :: "int \<Rightarrow> int \<Rightarrow> int \<Rightarrow> int" where
  "day_number y m d = days_before_year y + sum_list (map (\<lambda>k. days_in y (int k)) [1..<nat m]) + d - 1"

definition take_date :: "string \<Rightarrow> (int \<times> string) option" where
  "take_date s =
     Option.bind (take_number 4 s) (\<lambda>(y, s). Option.bind (take_char (CHR ''-'') s) (\<lambda>s.
     Option.bind (take_number 2 s) (\<lambda>(m, s). Option.bind (take_char (CHR ''-'') s) (\<lambda>s.
     Option.bind (take_number 2 s) (\<lambda>(d, s).
     if m < 1 \<or> m > 12 \<or> d < 1 \<or> d > days_in y m then None else Some (day_number y m d, s))))))"

definition take_clock :: "string \<Rightarrow> (int \<times> string) option" where
  "take_clock s =
     Option.bind (take_hour s) (\<lambda>(h, s). Option.bind (take_char (CHR '':'') s) (\<lambda>s.
     Option.bind (take_number 2 s) (\<lambda>(m, s). Option.bind (take_char (CHR '':'') s) (\<lambda>s.
     Option.bind (take_number 2 s) (\<lambda>(x, s).
     if h > 23 \<or> m > 59 \<or> x > 59 then None else Some (h * 3600 + m * 60 + x, s))))))"

definition parse_time :: "string \<Rightarrow> int option" where
  "parse_time s =
     Option.bind (take_date s) (\<lambda>(day, s). Option.bind (take_char (CHR ''T'') s) (\<lambda>s.
     Option.bind (take_clock s) (\<lambda>(sec, s).
     (let (ms, s) = take_fraction s in
      map_option (\<lambda>offset. (day * 86400 + sec - offset) * 1000 + ms) (take_zone s)))))"

lemma NextCron_bounds:
  "NextCron ts expression zone after = Inr t \<Longrightarrow> length expression \<le> 256 \<and> fields_length expression = 5 \<and>
     length zone \<le> 128 \<and> ts_zone ts (if zone = '''' then ''UTC'' else zone)"
  by (auto simp: NextCron_def Let_def split: if_splits option.splits)

text \<open>The epoch, a leap day, and an offset.\<close>

lemma parse_time_examples:
  "parse_time ''1970-01-01T00:00:00Z'' = Some 0"
  "parse_time ''2024-02-29T23:59:59.25Z'' = Some 1709251199250"
  "parse_time ''2025-06-01T12:00:00+02:00'' = Some 1748772000000"
  "parse_time ''2023-02-29T00:00:00Z'' = None"
  by code_simp+

end
