(* ===== verification/Knowledge.thy ===== *)
theory Knowledge
  imports Team Clock
begin

text \<open>
  Scoped memory, schedules and subscriptions (knowledge.go) and the wakeups they cause
  (wakeups.go). A memory entry has an immutable scope and owner, a head with its current
  revision and state, and one row per revision; a subscription or schedule belongs to a task and
  is moved to the task that continues it.
\<close>

section \<open>Memory\<close>

record memory_command =
  mm_id :: string
  mm_revision :: int
  mm_scope :: string
  mm_owner :: string
  mm_content :: string
  mm_evidence :: string
  mm_confidence :: int
  mm_artifacts :: "string slice"
  mm_retention :: int

definition json_memory_command :: "memory_command \<Rightarrow> json" where
  "json_memory_command c = JObj (field_omit (mm_id c = '''') ''memory_id'' (JStr (mm_id c)) @
     field ''expected_revision'' (JInt (mm_revision c)) @ field ''scope'' (JStr (mm_scope c)) @
     field_omit (mm_owner c = '''') ''owner_id'' (JStr (mm_owner c)) @ field ''content'' (JStr (mm_content c)) @
     field ''evidence'' (JStr (mm_evidence c)) @ field ''confidence'' (JInt (mm_confidence c)) @
     field ''artifacts'' (jstrings (mm_artifacts c)) @ field ''retention_seconds'' (JInt (mm_retention c)))"

record memory_query =
  mq_scope :: string
  mq_owner :: string
  mq_query :: string
  mq_after :: string
  mq_pending :: bool

record memory_entry =
  me_id :: string
  me_revision :: int
  me_scope :: string
  me_owner :: string
  me_state :: string
  me_content :: string
  me_evidence :: string
  me_confidence :: int
  me_artifacts :: "string list"
  me_author :: string
  me_goal_id :: string
  me_task_id :: string
  me_created :: int
  me_expires :: int

definition json_memory_entry :: "memory_entry \<Rightarrow> json" where
  "json_memory_entry e = JObj
    [(''memory_id'', JStr (me_id e)), (''revision'', JInt (me_revision e)), (''scope'', JStr (me_scope e)),
     (''owner_id'', JStr (me_owner e)), (''state'', JStr (me_state e)), (''content'', JStr (me_content e)),
     (''evidence'', JStr (me_evidence e)), (''confidence'', JInt (me_confidence e)),
     (''artifacts'', JArr (map JStr (me_artifacts e))), (''author'', JStr (me_author e)),
     (''goal_id'', JStr (me_goal_id e)), (''task_id'', JStr (me_task_id e)),
     (''created_at_ms'', JInt (me_created e)), (''expires_at_ms'', JInt (me_expires e))]"

text \<open>Whose memory a scope means: a worker never names an owner, an administrator may.\<close>

definition known_agent :: "db \<Rightarrow> string \<Rightarrow> string \<Rightarrow> bool" where
  "known_agent d systemID i =
     (exists_where (\<lambda>a. ag_system_id a = systemID \<and> ag_agent_id a = i) (db_agents d) \<or>
      exists_where (\<lambda>s. sy_system_id s = systemID \<and> sy_operator_id s = i) (db_systems d))"

definition memoryOwner :: "task_row \<Rightarrow> string \<Rightarrow> string \<Rightarrow> bool \<Rightarrow> string op" where
  "memoryOwner t scope owner admin =
     (if \<not> admin \<and> owner \<noteq> '''' then tx_fail (FieldError ''owner_id'' ''identity is derived from the worker session'')
      else if scope = ''system'' then
        tx_seq (tx_reject (owner \<noteq> '''') (FieldError ''owner_id'' ''system memory has no private owner'')) (tx_return '''')
      else if scope = ''agent'' then
        let i = (if owner = '''' then t_agent_id t else owner) in
        tx_bind (tx_gets (\<lambda>d. known_agent d (t_system_id t) i)) (\<lambda>known.
        tx_seq (tx_reject (\<not> known) ErrSystemNotFound) (tx_return i))
      else if scope = ''task'' then
        let i = (if owner = '''' then t_id t else owner) in
        tx_bind (tx_no_rows (readTask (t_system_id t) i) ErrSystemNotFound) (\<lambda>_. tx_return i)
      else tx_fail (FieldError ''scope'' ''requires task, agent or system''))"

definition memory_bounds :: "memory_command \<Rightarrow> error option" where
  "memory_bounds c = first_error
     [check (blank (mm_content c) \<or> length (mm_content c) > 4096 \<or> length (mm_evidence c) > 1024 \<or>
             mm_confidence c < 0 \<or> mm_confidence c > 100 \<or> mm_retention c < 1 \<or> mm_retention c > 365 * 86400 \<or>
             length (elems (mm_artifacts c)) > 8)
        (FieldError ''memory'' ''invalid content, provenance, confidence, retention or artifact bound''),
      check (length (marshal (json_memory_command c)) > 6144) (FieldError ''memory'' ''encoded entry exceeds 6 KiB''),
      UniqueNames (elems (mm_artifacts c)) ''artifacts'']"

definition tx_checked :: "error option \<Rightarrow> unit op" where
  "tx_checked e = (case e of None \<Rightarrow> tx_return () | Some e \<Rightarrow> tx_fail e)"

text \<open>An entry may cite artifacts of its system, a worker's entry those of its own task.\<close>

definition cite_artifact :: "task_row \<Rightarrow> bool \<Rightarrow> string \<Rightarrow> unit op" where
  "cite_artifact t admin i =
     tx_bind (tx_no_rows (tx_find db_artifacts (\<lambda>a. af_system_id a = t_system_id t \<and> af_artifact_id a = i)) ErrSystemNotFound) (\<lambda>a.
     tx_reject (\<not> admin \<and> af_task_id a \<noteq> t_id t) ErrSystemNotFound)"

definition current_head :: "string \<Rightarrow> memory_command \<Rightarrow> string \<Rightarrow> int \<Rightarrow> memory_head_row \<Rightarrow> bool" where
  "current_head systemID c owner now h \<longleftrightarrow> mh_system_id h = systemID \<and> mh_memory_id h = mm_id c \<and> mh_scope h = mm_scope c \<and>
     mh_owner_id h = owner \<and> mh_state h \<noteq> ''deleted'' \<and> mh_expires_at h > now"

text \<open>The identity and revision of the entry: a new one, or the next of an existing one.\<close>

definition memory_identity :: "task_row \<Rightarrow> memory_command \<Rightarrow> string \<Rightarrow> bool \<Rightarrow> int \<Rightarrow> (string \<times> int) op" where
  "memory_identity t c owner admin now =
     (if mm_id c = '''' then
        tx_seq (tx_reject (mm_revision c \<noteq> 0) ErrRevisionConflict)
        (tx_bind (tx_count db_memory_heads (\<lambda>h. mh_system_id h = t_system_id t)) (\<lambda>n.
         tx_seq (tx_reject (n \<ge> 512) (FieldError ''memory'' ''system memory-ID capacity exhausted''))
         (tx_bind (NewID ''memory_'') (\<lambda>i. tx_return (i, 1)))))
      else
        tx_seq (tx_reject (\<not> admin \<and> mm_scope c = ''system'') (FieldError ''memory'' ''submit a new shared-memory proposal for review''))
        (tx_bind (tx_no_rows (tx_find db_memory_heads (current_head (t_system_id t) c owner now)) ErrSystemNotFound) (\<lambda>h.
         tx_seq (tx_reject (mh_revision h \<noteq> mm_revision c) ErrRevisionConflict)
         (tx_seq (tx_reject (mh_revision h + 1 > 32) (FieldError ''memory'' ''revision capacity exhausted''))
         (tx_return (mm_id c, mh_revision h + 1))))))"

text \<open>INSERT ... ON CONFLICT DO UPDATE on the head.\<close>

definition upsert_head :: "memory_head_row \<Rightarrow> unit op" where
  "upsert_head h = tx_modify (db_memory_heads_update (\<lambda>rs.
     if exists_where (\<lambda>x. mh_system_id x = mh_system_id h \<and> mh_memory_id x = mh_memory_id h) rs
     then update_where (\<lambda>x. mh_system_id x = mh_system_id h \<and> mh_memory_id x = mh_memory_id h)
            (\<lambda>x. x\<lparr>mh_revision := mh_revision h, mh_state := mh_state h, mh_expires_at := mh_expires_at h\<rparr>) rs
     else rs @ [h]))"

definition memory_entry_of :: "task_row \<Rightarrow> memory_command \<Rightarrow> string \<Rightarrow> bool \<Rightarrow> string \<Rightarrow> int \<Rightarrow> int \<Rightarrow> memory_entry" where
  "memory_entry_of t c owner admin i revision now =
    \<lparr>me_id = i, me_revision = revision, me_scope = mm_scope c, me_owner = owner,
     me_state = (if \<not> admin \<and> mm_scope c = ''system'' then ''pending'' else ''active''),
     me_content = mm_content c, me_evidence = mm_evidence c, me_confidence = mm_confidence c,
     me_artifacts = elems (mm_artifacts c), me_author = (if admin then localAdministrator else t_agent_id t),
     me_goal_id = t_goal_id t, me_task_id = t_id t, me_created = now, me_expires = now + mm_retention c * 1000\<rparr>"

definition store_entry :: "string \<Rightarrow> memory_entry \<Rightarrow> unit op" where
  "store_entry systemID e =
     tx_seq (upsert_head \<lparr>mh_system_id = systemID, mh_memory_id = me_id e, mh_scope = me_scope e, mh_owner_id = me_owner e,
               mh_revision = me_revision e, mh_state = me_state e, mh_expires_at = me_expires e\<rparr>)
       (tx_insert ''memory_revisions'' (\<lambda>x y. mr_system_id x = mr_system_id y \<and> mr_memory_id x = mr_memory_id y \<and>
          mr_revision x = mr_revision y) db_memory_revisions db_memory_revisions_update
          \<lparr>mr_system_id = systemID, mr_memory_id = me_id e, mr_revision = me_revision e, mr_content = me_content e,
           mr_evidence = me_evidence e, mr_confidence = me_confidence e, mr_artifacts = Some (me_artifacts e),
           mr_author = me_author e, mr_goal_id = me_goal_id e, mr_task_id = me_task_id e, mr_created_at = me_created e\<rparr>)"

definition putMemory :: "task_row \<Rightarrow> memory_command \<Rightarrow> bool \<Rightarrow> int \<Rightarrow> memory_entry op" where
  "putMemory t c admin now =
     tx_bind (memoryOwner t (mm_scope c) (mm_owner c) admin) (\<lambda>owner.
     tx_seq (tx_checked (memory_bounds c))
     (tx_seq (tx_foreach (cite_artifact t admin) (elems (mm_artifacts c)))
     (tx_bind (memory_identity t c owner admin now) (\<lambda>(i, revision).
      let e = memory_entry_of t c owner admin i revision now in
      tx_seq (store_entry (t_system_id t) e) (tx_return e)))))"

section \<open>Search\<close>

record memory_search_result =
  se_untrusted :: bool
  se_entries :: "memory_entry list"
  se_next :: string

definition json_search_result :: "memory_search_result \<Rightarrow> json" where
  "json_search_result r = JObj (field ''untrusted_data'' (JBool (se_untrusted r)) @
     field ''entries'' (JArr (map json_memory_entry (se_entries r))) @
     field_omit (se_next r = '''') ''next'' (JStr (se_next r)))"

text \<open>SQL lower and instr: ASCII case, and a substring.\<close>

definition ascii_lower :: "string \<Rightarrow> string" where
  "ascii_lower s = map (\<lambda>c. if upper_letter c then char_of (byte c + 32) else c) s"

fun contains :: "string \<Rightarrow> string \<Rightarrow> bool" where
  "contains [] p = (p = [])"
| "contains (c # s) p = (has_prefix (c # s) p \<or> contains s p)"

text \<open>Authorization is part of the query, before text matching and the page.\<close>

definition visible_head :: "string \<Rightarrow> memory_query \<Rightarrow> string \<Rightarrow> bool \<Rightarrow> int \<Rightarrow> memory_head_row \<Rightarrow> bool" where
  "visible_head systemID q owner admin now h \<longleftrightarrow> mh_system_id h = systemID \<and> mh_scope h = mq_scope q \<and> mh_owner_id h = owner \<and>
     (mh_state h = ''active'' \<or> (admin \<and> mq_pending q \<and> mh_state h = ''pending'')) \<and> mh_expires_at h > now \<and>
     mh_memory_id h > mq_after q"

definition entry_of :: "memory_head_row \<Rightarrow> memory_revision_row \<Rightarrow> memory_entry" where
  "entry_of h r = \<lparr>me_id = mh_memory_id h, me_revision = mh_revision h, me_scope = mh_scope h, me_owner = mh_owner_id h,
     me_state = mh_state h, me_content = mr_content r, me_evidence = mr_evidence r, me_confidence = mr_confidence r,
     me_artifacts = elems (mr_artifacts r), me_author = mr_author r, me_goal_id = mr_goal_id r, me_task_id = mr_task_id r,
     me_created = mr_created_at r, me_expires = mh_expires_at h\<rparr>"

definition found_entries :: "db \<Rightarrow> string \<Rightarrow> memory_query \<Rightarrow> string \<Rightarrow> bool \<Rightarrow> int \<Rightarrow> memory_entry list" where
  "found_entries d systemID q owner admin now =
     concat (map (\<lambda>h. map (entry_of h) (filter (\<lambda>r. mr_system_id r = mh_system_id h \<and> mr_memory_id r = mh_memory_id h \<and>
          mr_revision r = mh_revision h \<and> contains (ascii_lower (mr_content r)) (ascii_lower (mq_query q))) (db_memory_revisions d)))
       (sort_key mh_memory_id (filter (visible_head systemID q owner admin now) (db_memory_heads d))))"

text \<open>At most ten entries, within the size of an event; the identity of the last one when more follow.\<close>

fun collect_entries :: "memory_entry list \<Rightarrow> nat \<Rightarrow> memory_entry list \<Rightarrow> error + (memory_entry list \<times> string)" where
  "collect_entries acc bytes [] = Inr (acc, '''')"
| "collect_entries acc bytes (e # es) =
     (let n = length (marshal (json_memory_entry e)) in
      if length acc = 10 \<or> bytes + n > MaxEventBytes - 128 then
        (if acc = [] then Inl (FieldError ''memory'' ''stored entry exceeds retrieval limit'') else Inr (acc, me_id (last acc)))
      else collect_entries (acc @ [e]) (bytes + n + 1) es)"

definition searchMemory :: "task_row \<Rightarrow> memory_query \<Rightarrow> bool \<Rightarrow> int \<Rightarrow> memory_search_result op" where
  "searchMemory t q admin now =
     tx_bind (memoryOwner t (mq_scope q) (mq_owner q) admin) (\<lambda>owner.
     tx_seq (tx_reject (length (mq_query q) > 256 \<or> length (mq_after q) > 64 \<or> (\<not> admin \<and> mq_pending q))
               (FieldError ''memory'' ''query exceeds scope or size limits''))
     (tx_bind (tx_gets (\<lambda>d. collect_entries [] 64 (take 11 (found_entries d (t_system_id t) q owner admin now)))) (\<lambda>r.
      tx_bind (tx_lift r) (\<lambda>(entries, next_id).
      tx_return \<lparr>se_untrusted = True, se_entries = entries, se_next = next_id\<rparr>))))"

section \<open>Schedules and subscriptions\<close>

record schedule_command =
  sk_agent_id :: string
  sk_at :: string
  sk_cron :: string
  sk_timezone :: string
  sk_content :: string
  sk_budget :: int

record subscription_command =
  su_agent_id :: string
  su_type :: string
  su_scope :: string
  su_budget :: int

definition schedule_due :: "trigger_services \<Rightarrow> schedule_command \<Rightarrow> string \<Rightarrow> int \<Rightarrow> error + int" where
  "schedule_due ts c timezone now =
     (if sk_cron c \<noteq> '''' then NextCron ts (sk_cron c) timezone now
      else case parse_time (sk_at c) of None \<Rightarrow> Inl (FieldError ''at'' ''requires an RFC3339 timestamp'')
           | Some t \<Rightarrow> if sk_budget c \<noteq> 1 then Inl (FieldError ''trigger_budget'' ''one-shot schedules require one trigger'')
                       else Inr t)"

definition createSchedule :: "trigger_services \<Rightarrow> task_row \<Rightarrow> schedule_command \<Rightarrow> string \<Rightarrow> int \<Rightarrow> string op" where
  "createSchedule ts t c creator now =
     tx_seq (tx_reject ((sk_at c = '''') = (sk_cron c = '''') \<or> blank (sk_content c) \<or> length (sk_content c) > 2048 \<or>
               sk_budget c < 1 \<or> sk_budget c > 8)
               (FieldError ''schedule'' ''requires exactly one at/cron, bounded content and 1-8 triggers''))
     (let timezone = (if sk_timezone c = '''' then ''UTC'' else sk_timezone c) in
      tx_bind (tx_lift (schedule_due ts c timezone now)) (\<lambda>due.
      tx_bind (readGoal (t_system_id t) (t_goal_id t)) (\<lambda>g.
      tx_seq (tx_reject (due \<le> now \<or> (gl_deadline g > 0 \<and> due \<ge> gl_deadline g))
                (FieldError ''schedule'' ''occurrence must be future and within the owning goal's lifetime''))
      (tx_bind (tx_count db_schedules (\<lambda>s. sd_system_id s = t_system_id t)) (\<lambda>n.
       tx_seq (tx_reject (n \<ge> 128) (FieldError ''schedule'' ''system schedule capacity exhausted''))
       (tx_bind (NewID ''schedule_'') (\<lambda>i.
        tx_seq (tx_insert ''schedules'' (\<lambda>x y. sd_system_id x = sd_system_id y \<and> sd_schedule_id x = sd_schedule_id y)
                  db_schedules db_schedules_update
                  \<lparr>sd_system_id = t_system_id t, sd_schedule_id = i, sd_task_id = t_id t, sd_creator = creator,
                   sd_expression = sk_cron c, sd_timezone = timezone, sd_content = sk_content c, sd_next_due = due,
                   sd_expires_at = gl_deadline g, sd_remaining = sk_budget c, sd_state = TgActive, sd_reason = ''''\<rparr>)
          (tx_return i))))))))"

definition HasTaskTool :: "task_row \<Rightarrow> string \<Rightarrow> bool" where
  "HasTaskTool t name = list_ex (\<lambda>p. pin_name p = name) (t_tools t)"

definition subscription_scope :: "task_row \<Rightarrow> subscription_command \<Rightarrow> unit op" where
  "subscription_scope t c =
     (if su_type c = ''memory.changed'' then
        tx_bind (memoryOwner t (su_scope c) '''' False) (\<lambda>_.
        tx_reject (\<not> HasTaskTool t ''runtime.memory.search'') (FieldError ''subscription'' ''memory retrieval grant required''))
      else tx_reject (su_scope c \<noteq> '''') (FieldError ''scope'' ''task completion subscriptions are same-goal only''))"

definition createSubscription :: "task_row \<Rightarrow> subscription_command \<Rightarrow> string \<Rightarrow> int \<Rightarrow> string op" where
  "createSubscription t c creator now =
     tx_seq (tx_reject ((su_type c \<noteq> ''memory.changed'' \<and> su_type c \<noteq> ''task.completed'') \<or> su_budget c < 1 \<or> su_budget c > 8)
               (FieldError ''subscription'' ''unsupported type or trigger budget''))
     (tx_seq (subscription_scope t c)
     (tx_bind (tx_count db_subscriptions (\<lambda>s. sn_system_id s = t_system_id t)) (\<lambda>n.
      tx_seq (tx_reject (n \<ge> 128) (FieldError ''subscription'' ''system subscription capacity exhausted''))
      (tx_bind (readGoal (t_system_id t) (t_goal_id t)) (\<lambda>g.
       tx_seq (tx_reject (gl_deadline g > 0 \<and> gl_deadline g \<le> now) (FieldError ''subscription'' ''goal lifetime expired''))
       (tx_bind (NewID ''subscription_'') (\<lambda>i.
        tx_seq (tx_insert ''subscriptions'' (\<lambda>x y. sn_system_id x = sn_system_id y \<and> sn_subscription_id x = sn_subscription_id y)
                  db_subscriptions db_subscriptions_update
                  \<lparr>sn_system_id = t_system_id t, sn_subscription_id = i, sn_task_id = t_id t, sn_creator = creator,
                   sn_type = su_type c, sn_scope = su_scope c, sn_expires_at = gl_deadline g, sn_remaining = su_budget c,
                   sn_state = TgActive, sn_reason = ''''\<rparr>)
          (tx_return i))))))))"

section \<open>Wakeups\<close>

text \<open>Whether a task may be woken now; a reason says that it never may.\<close>

record wake_target =
  wt_system :: system_state
  wt_agent :: control
  wt_goal :: goal_row

definition wake_target_of :: "db \<Rightarrow> task_row \<Rightarrow> wake_target option" where
  "wake_target_of d t =
     Option.bind (List.find (\<lambda>s. sy_system_id s = t_system_id t) (db_systems d)) (\<lambda>s.
     Option.bind (agent_of d (t_system_id t) (t_agent_id t)) (\<lambda>a.
     map_option (\<lambda>g. \<lparr>wt_system = sy_state s, wt_agent = ag_state a, wt_goal = g\<rparr>) (goal_of d (t_system_id t) (t_goal_id t))))"

definition wake_stopped :: "task_row \<Rightarrow> wake_target \<Rightarrow> bool" where
  "wake_stopped t w \<longleftrightarrow>
     (TaskTerminal (t_state t) \<and> \<not> (gl_continuous (wt_goal w) \<and> t_state t = Completed)) \<or> t_control t = CStopped \<or>
     gl_control (wt_goal w) = CStopped \<or> wt_agent w = CStopped \<or> wt_system w = SStopped \<or> wt_system w = SStopping"

definition wake_active :: "task_row \<Rightarrow> wake_target \<Rightarrow> bool" where
  "wake_active t w \<longleftrightarrow> wt_system w = SRunning \<and> wt_agent w = CActive \<and> gl_control (wt_goal w) = CActive \<and> t_control t = CActive"

definition narrowed_reason :: "task_row \<Rightarrow> string op" where
  "narrowed_reason t =
     (if \<not> TaskTerminal (t_state t) then tx_return '''' else
      tx_bind (readAgent (t_system_id t) (t_agent_id t) 0) (\<lambda>a.
      tx_return (if list_all (\<lambda>p. p \<in> set (a_tools a)) (t_tools t) then '''' else ''wake source grant narrowed by agent revision'')))"

definition pins_reason :: "(string \<Rightarrow> string) \<Rightarrow> configuration \<Rightarrow> task_row \<Rightarrow> int \<Rightarrow> string op" where
  "pins_reason H cfg t now =
     tx_bind (tx_try (authorizePins H cfg (t_system_id t) (t_tools t) now)) (\<lambda>r.
     case r of Inl e \<Rightarrow> denied_text e | Inr _ \<Rightarrow> tx_return '''')"

definition wakeEligible :: "(string \<Rightarrow> string) \<Rightarrow> configuration \<Rightarrow> task_row \<Rightarrow> int \<Rightarrow> (bool \<times> string) op" where
  "wakeEligible H cfg t now =
     tx_bind (tx_row (\<lambda>d. wake_target_of d t)) (\<lambda>w.
     if wake_stopped t w then tx_return (False, ''target stopped or terminal'')
     else if \<not> gl_continuous (wt_goal w) \<and> gl_deadline (wt_goal w) \<le> now then tx_return (False, ''goal expired'')
     else tx_bind (pins_reason H cfg t now) (\<lambda>reason.
          tx_bind (or_else reason (narrowed_reason t)) (\<lambda>reason.
          tx_return (reason = '''' \<and> wake_active t w, reason))))"

definition set_subscription :: "string \<Rightarrow> string \<Rightarrow> (subscription_row \<Rightarrow> subscription_row) \<Rightarrow> unit op" where
  "set_subscription systemID i f = tx_update db_subscriptions_update
     (\<lambda>s. sn_system_id s = systemID \<and> sn_subscription_id s = i) f"

definition set_schedule :: "string \<Rightarrow> string \<Rightarrow> (schedule_row \<Rightarrow> schedule_row) \<Rightarrow> unit op" where
  "set_schedule systemID i f = tx_update db_schedules_update
     (\<lambda>s. sd_system_id s = systemID \<and> sd_schedule_id s = i) f"

text \<open>What a subscription listens to: not itself, its own goal, its own scope.\<close>

definition subscription_hears :: "task_row \<Rightarrow> string \<Rightarrow> string \<Rightarrow> string \<Rightarrow> subscription_row \<Rightarrow> task_row \<Rightarrow> bool" where
  "subscription_hears source kind scope owner s t \<longleftrightarrow>
     \<not> (t_id source \<noteq> '''' \<and> t_agent_id t = t_agent_id source) \<and>
     \<not> (kind = ''task.completed'' \<and> t_goal_id t \<noteq> t_goal_id source) \<and>
     \<not> (kind = ''memory.changed'' \<and> (sn_scope s \<noteq> scope \<or> (scope = ''task'' \<and> owner \<noteq> t_id t) \<or>
          (scope = ''agent'' \<and> owner \<noteq> t_agent_id t)))"

definition subscription_reason :: "string \<Rightarrow> subscription_row \<Rightarrow> task_row \<Rightarrow> string \<Rightarrow> int \<Rightarrow> string" where
  "subscription_reason kind s t reason now =
     (if kind = ''memory.changed'' \<and> \<not> HasTaskTool t ''runtime.memory.search'' then ''memory retrieval grant unavailable''
      else if sn_creator s \<noteq> localAdministrator \<and> \<not> HasTaskTool t ''runtime.events.subscribe'' then ''subscription grant unavailable''
      else if sn_expires_at s > 0 \<and> sn_expires_at s \<le> now then ''subscription expired''
      else reason)"

definition deliver_notice :: "task_row \<Rightarrow> string \<Rightarrow> string \<Rightarrow> string \<Rightarrow> int \<Rightarrow> subscription_row \<Rightarrow> task_row \<Rightarrow> unit op" where
  "deliver_notice source kind cause reference now s t =
     tx_bind (emitTaskWakeup t (if kind = ''task.completed'' then ''task.notice'' else ''memory.changed'') (t_agent_id source) cause
        (''Notification (untrusted data): '' @ kind @ '' '' @ reference) now) (\<lambda>r.
     case r of
       Inl e \<Rightarrow> if \<not> DeniedTask e then tx_fail e
         else set_subscription (t_system_id t) (sn_subscription_id s) (\<lambda>x. x\<lparr>sn_state := TgFailed, sn_reason := error_text e\<rparr>)
     | Inr (nxt, _) \<Rightarrow> set_subscription (t_system_id nxt) (sn_subscription_id s)
         (\<lambda>x. x\<lparr>sn_task_id := t_id nxt, sn_state := (if sn_remaining x = 1 then TgCompleted else TgActive),
                sn_remaining := sn_remaining x - 1\<rparr>))"

definition notify_one :: "(string \<Rightarrow> string) \<Rightarrow> configuration \<Rightarrow> task_row \<Rightarrow> string \<Rightarrow> string \<Rightarrow> string \<Rightarrow> string \<Rightarrow> string \<Rightarrow> int \<Rightarrow> subscription_row \<Rightarrow> unit op" where
  "notify_one H cfg source kind scope owner cause reference now s =
     (if sn_task_id s = t_id source then tx_return () else
      tx_bind (readTask (t_system_id source) (sn_task_id s)) (\<lambda>t.
      if \<not> subscription_hears source kind scope owner s t then tx_return () else
      tx_bind (wakeEligible H cfg t now) (\<lambda>(ready, reason0).
      let reason = subscription_reason kind s t reason0 now in
      if reason \<noteq> '''' then
        set_subscription (t_system_id t) (sn_subscription_id s) (\<lambda>x. x\<lparr>sn_state := TgCanceled, sn_reason := reason\<rparr>)
      else deliver_notice source kind cause reference now s t)))"

definition listeners :: "db \<Rightarrow> string \<Rightarrow> string \<Rightarrow> subscription_row list" where
  "listeners d systemID kind =
     sort_key sn_subscription_id (filter (\<lambda>s. sn_system_id s = systemID \<and> sn_type s = kind \<and> sn_state s = TgActive) (db_subscriptions d))"

definition notifySubscriptions :: "(string \<Rightarrow> string) \<Rightarrow> configuration \<Rightarrow> task_row \<Rightarrow> string \<Rightarrow> string \<Rightarrow> string \<Rightarrow> string \<Rightarrow> string \<Rightarrow> int \<Rightarrow> unit op" where
  "notifySubscriptions H cfg source kind scope owner cause reference now =
     tx_bind (tx_gets (\<lambda>d. listeners d (t_system_id source) kind)) (\<lambda>subscriptions.
     tx_foreach (notify_one H cfg source kind scope owner cause reference now) subscriptions)"

section \<open>The pump\<close>

text \<open>Expired and deleted memory, and expired subscriptions.\<close>

definition dead_head :: "int \<Rightarrow> memory_head_row \<Rightarrow> bool" where
  "dead_head now h \<longleftrightarrow> mh_expires_at h \<le> now \<or> mh_state h = ''deleted''"

definition expire_memory :: "int \<Rightarrow> unit op" where
  "expire_memory now =
     tx_seq (tx_modify (\<lambda>d. db_memory_revisions_update (filter (\<lambda>r.
        \<not> exists_where (\<lambda>h. mh_system_id h = mr_system_id r \<and> mh_memory_id h = mr_memory_id r \<and> dead_head now h) (db_memory_heads d))) d))
     (tx_seq (tx_update db_memory_heads_update (\<lambda>h. mh_expires_at h \<le> now \<and> mh_state h \<noteq> ''deleted'')
        (\<lambda>h. h\<lparr>mh_state := ''deleted''\<rparr>))
     (tx_update db_subscriptions_update (\<lambda>s. sn_state s = TgActive \<and> sn_expires_at s > 0 \<and> sn_expires_at s \<le> now)
        (\<lambda>s. s\<lparr>sn_state := TgExpired, sn_reason := ''subscription lifetime expired''\<rparr>)))"

text \<open>Tasks whose lifetime ran out while they wait, unless a worker holds their mail.\<close>

definition leased_task :: "db \<Rightarrow> task_row \<Rightarrow> bool" where
  "leased_task d t = exists_where (\<lambda>m. mb_system_id m = t_system_id t \<and> mb_task_id m = t_id t \<and> mb_state m = MLeased) (db_mailboxes d)"

definition expired_task :: "db \<Rightarrow> int \<Rightarrow> task_row \<Rightarrow> bool" where
  "expired_task d now t \<longleftrightarrow>
     (case goal_of d (t_system_id t) (t_goal_id t) of None \<Rightarrow> False
      | Some g \<Rightarrow> (\<not> gl_continuous g \<and> t_state t = Waiting \<and> gl_deadline g \<le> now) \<or>
                  (gl_continuous g \<and> (t_state t = Waiting \<or> t_state t = Queued) \<and> t_deadline t > 0 \<and> t_deadline t \<le> now)) \<and>
     \<not> leased_task d t"

definition expire_tasks :: "int \<Rightarrow> unit op" where
  "expire_tasks now =
     tx_bind (tx_gets (\<lambda>d. take 512 (filter (expired_task d now) (db_tasks d)))) (\<lambda>ts.
     tx_foreach (\<lambda>x. tx_bind (readTask (t_system_id x) (t_id x)) (\<lambda>t.
        terminateTask t Failed '''' ''goal lifetime expired while waiting'' ''runtime'' '''' now)) ts)"

text \<open>The due schedules whose target is dead, expired, or ready.\<close>

definition due_schedule :: "db \<Rightarrow> int \<Rightarrow> schedule_row \<Rightarrow> bool" where
  "due_schedule d now s \<longleftrightarrow> sd_state s = TgActive \<and> sd_next_due s \<le> now \<and>
     (case List.find (\<lambda>t. t_system_id t = sd_system_id s \<and> t_id t = sd_task_id s) (db_tasks d) of None \<Rightarrow> False
      | Some t \<Rightarrow> (case wake_target_of d t of None \<Rightarrow> False
          | Some w \<Rightarrow> (sd_expires_at s > 0 \<and> sd_expires_at s \<le> now) \<or> wake_stopped t w \<or> wake_active t w))"

definition due_schedules :: "db \<Rightarrow> int \<Rightarrow> schedule_row list" where
  "due_schedules d now = take 128 (sort_key sd_next_due (sort_key sd_schedule_id (filter (due_schedule d now) (db_schedules d))))"

definition schedule_verdict :: "schedule_row \<Rightarrow> task_row \<Rightarrow> bool \<times> string \<Rightarrow> int \<Rightarrow> bool \<times> string \<times> trigger_state" where
  "schedule_verdict s t r now =
     (if sd_expires_at s > 0 \<and> sd_expires_at s \<le> now then (False, ''schedule expired'', TgExpired)
      else if sd_creator s \<noteq> localAdministrator \<and> \<not> HasTaskTool t ''runtime.schedule.create''
        then (False, ''scheduling grant unavailable'', TgCanceled)
      else (fst r, snd r, TgCanceled))"

text \<open>After an occurrence: missed ones are coalesced, the next one is after now.\<close>

definition next_cursor :: "trigger_services \<Rightarrow> schedule_row \<Rightarrow> int \<Rightarrow> error + (int \<times> trigger_state)" where
  "next_cursor ts s now =
     (if sd_expression s \<noteq> '''' \<and> sd_remaining s > 1 then
        (case NextCron ts (sd_expression s) (sd_timezone s) now of Inl e \<Rightarrow> Inl e
         | Inr next_due \<Rightarrow> Inr (next_due, if sd_expires_at s = 0 \<or> next_due < sd_expires_at s then TgActive else TgCompleted))
      else Inr (sd_next_due s, TgCompleted))"

definition record_occurrence :: "trigger_services \<Rightarrow> schedule_row \<Rightarrow> task_row \<Rightarrow> string \<Rightarrow> int \<Rightarrow> unit op" where
  "record_occurrence ts s nxt event now =
     tx_seq (tx_insert ''schedule_occurrences'' (\<lambda>x y. so_system_id x = so_system_id y \<and> so_schedule_id x = so_schedule_id y \<and> so_due x = so_due y)
               db_occurrences db_occurrences_update
               \<lparr>so_system_id = sd_system_id s, so_schedule_id = sd_schedule_id s, so_due = sd_next_due s, so_event_id = event\<rparr>)
     (tx_bind (tx_lift (next_cursor ts s now)) (\<lambda>(due, state).
      set_schedule (sd_system_id s) (sd_schedule_id s)
        (\<lambda>x. x\<lparr>sd_next_due := due, sd_remaining := sd_remaining x - 1, sd_state := state, sd_task_id := t_id nxt\<rparr>)))"

definition scheduled_content :: "schedule_row \<Rightarrow> string" where
  "scheduled_content s = ''Scheduled context (untrusted data; '' @ sd_schedule_id s @ ''): '' @ sd_content s"

definition fire_schedule :: "trigger_services \<Rightarrow> schedule_row \<Rightarrow> task_row \<Rightarrow> int \<Rightarrow> unit op" where
  "fire_schedule ts s t now =
     tx_bind (tx_gets (\<lambda>d. exists_where (\<lambda>x. so_system_id x = sd_system_id s \<and> so_schedule_id x = sd_schedule_id s \<and>
        so_due x = sd_next_due s) (db_occurrences d))) (\<lambda>recorded.
     tx_seq (tx_reject recorded (ErrInternal ''schedule cursor did not advance with its occurrence''))
     (tx_bind (emitTaskWakeup t ''schedule.fired'' (sd_creator s) '''' (scheduled_content s) now) (\<lambda>r.
      case r of
        Inl e \<Rightarrow> if \<not> DeniedTask e then tx_fail e
          else set_schedule (sd_system_id s) (sd_schedule_id s) (\<lambda>x. x\<lparr>sd_state := TgFailed, sd_reason := error_text e\<rparr>)
      | Inr (nxt, event) \<Rightarrow> record_occurrence ts s nxt event now)))"

definition pump_schedule :: "(string \<Rightarrow> string) \<Rightarrow> trigger_services \<Rightarrow> configuration \<Rightarrow> int \<Rightarrow> schedule_row \<Rightarrow> unit op" where
  "pump_schedule H ts cfg now s =
     tx_bind (readTask (sd_system_id s) (sd_task_id s)) (\<lambda>t.
     tx_bind (wakeEligible H cfg t now) (\<lambda>r.
     let (ready, reason, state) = schedule_verdict s t r now in
     if ready then fire_schedule ts s t now
     else if reason = '''' then tx_return ()
     else set_schedule (sd_system_id s) (sd_schedule_id s) (\<lambda>x. x\<lparr>sd_state := state, sd_reason := reason\<rparr>)))"

definition pumpWakeups :: "(string \<Rightarrow> string) \<Rightarrow> trigger_services \<Rightarrow> configuration \<Rightarrow> int \<Rightarrow> unit op" where
  "pumpWakeups H ts cfg now =
     tx_seq (expire_memory now)
     (tx_seq (expire_tasks now)
     (tx_bind (tx_gets (\<lambda>d. due_schedules d now)) (\<lambda>due.
      tx_foreach (pump_schedule H ts cfg now) due)))"

end
