(* ===== verification/Lifecycle.thy ===== *)
theory Lifecycle
  imports Knowledge
begin

text \<open>
  The commands on whole systems (store.go and execution_store.go): \<open>command\<close> replays a stored
  receipt or runs a mutation and records its receipt in the same transaction, and CreateSystem,
  ReviseSystem, StartSystem and StopSystem are its mutations. A receipt stores the response as
  JSON; \<open>stored_response\<close> is what decoding it gives back.
\<close>

section \<open>Receipts\<close>

definition stored_response :: "system_record \<Rightarrow> system_record" where
  "stored_response r = (receipt_record r)\<lparr>sr_configuration := stored_definition (sr_configuration r)\<rparr>"

definition receipt_of :: "db \<Rightarrow> string \<Rightarrow> string \<Rightarrow> receipt_row option" where
  "receipt_of d actor key = List.find (\<lambda>r. cr_principal r = actor \<and> cr_command_key r = key) (db_receipts d)"

definition replay :: "(string \<Rightarrow> string) \<Rightarrow> string \<Rightarrow> receipt_row \<Rightarrow> system_record op" where
  "replay H hash r =
     tx_seq (tx_reject (cr_request_hash r \<noteq> hash) ErrCommandConflict)
     (tx_bind (loadLocalTools H (sr_id (cr_response r)) (gr_system_tools (sr_grants (cr_response r)))) (\<lambda>locals.
      tx_return ((cr_response r)\<lparr>sr_local_tools := locals\<rparr>)))"

definition record_receipt :: "string \<Rightarrow> string \<Rightarrow> string \<Rightarrow> int \<Rightarrow> system_record \<Rightarrow> unit op" where
  "record_receipt actor key hash now result = tx_insert ''command_receipts''
     (\<lambda>x y. cr_principal x = cr_principal y \<and> cr_command_key x = cr_command_key y) db_receipts db_receipts_update
     \<lparr>cr_principal = actor, cr_command_key = key, cr_request_hash = hash, cr_system_id = sr_id result,
      cr_response = stored_response result, cr_created_at = now\<rparr>"

definition fresh_command :: "string \<Rightarrow> string \<Rightarrow> string \<Rightarrow> int \<Rightarrow> system_record op \<Rightarrow> system_record op" where
  "fresh_command actor key hash now mutate =
     tx_bind mutate (\<lambda>result. tx_seq (record_receipt actor key hash now result) (tx_return result))"

definition command :: "(string \<Rightarrow> string) \<Rightarrow> string \<Rightarrow> string \<Rightarrow> string \<Rightarrow> int \<Rightarrow> system_record op \<Rightarrow> system_record op" where
  "command H actor key hash now mutate = transaction
     (tx_bind (tx_gets (\<lambda>d. receipt_of d actor key)) (\<lambda>receipt.
      case receipt of Some r \<Rightarrow> replay H hash r | None \<Rightarrow> fresh_command actor key hash now mutate))"

section \<open>CreateSystem\<close>

definition json_create_command :: "create_system_command \<Rightarrow> json" where
  "json_create_command c = JObj (field ''name'' (JStr (cs_name c)) @
     field ''goal'' (case cs_goal c of None \<Rightarrow> JNull | Some g \<Rightarrow> JStr g) @
     field_omit (cs_constraints c = '''') ''constraints'' (JStr (cs_constraints c)) @
     field_omit (cs_token_budget c = 0) ''token_budget'' (JInt (cs_token_budget c)))"

text \<open>A systems row with the column defaults, and the record CreateSystem returns.\<close>

definition new_system :: "string \<Rightarrow> string \<Rightarrow> string \<Rightarrow> int \<Rightarrow> system_row" where
  "new_system systemID owner operatorID now =
    \<lparr>sy_system_id = systemID, sy_owner = owner, sy_operator_id = operatorID, sy_state = SInactive, sy_revision = 1,
     sy_used_tokens = 0, sy_reserved_tokens = 0, sy_last_admission = 0, sy_created_at = now\<rparr>"

definition insert_system :: "system_row \<Rightarrow> unit op" where
  "insert_system = tx_insert ''systems'' (\<lambda>x y. sy_system_id x = sy_system_id y \<or> sy_operator_id x = sy_operator_id y)
     db_systems db_systems_update"

definition created_record :: "(string \<Rightarrow> string) \<Rightarrow> configuration \<Rightarrow> string \<Rightarrow> string \<Rightarrow> string \<Rightarrow> system_config \<Rightarrow> int \<Rightarrow> system_record" where
  "created_record H cfg configID systemID operatorID definition now =
    \<lparr>sr_local_tools = [], sr_id = systemID, sr_operator_id = operatorID, sr_state = SInactive, sr_continuous = False,
     sr_idle = False, sr_revision = 1, sr_configuration_id = configID, sr_configuration = definition,
     sr_grants = GrantsFor H cfg definition, sr_used_tokens = 0, sr_reserved_tokens = 0, sr_remaining_tokens = 0,
     sr_goal = None, sr_created_at = now, sr_blocked_reason = '''', sr_execution = None, sr_command_result = None\<rparr>"

text \<open>A goals row with the column defaults; one initial goal per system.\<close>

definition new_goal :: "string \<Rightarrow> string \<Rightarrow> string \<Rightarrow> string \<Rightarrow> run_state \<Rightarrow> int \<Rightarrow> bool \<Rightarrow> goal_row" where
  "new_goal goalID systemID owner prompt state budget initial =
    \<lparr>gl_goal_id = goalID, gl_system_id = systemID, gl_owner = owner, gl_prompt = prompt, gl_state = state,
     gl_token_budget = budget, gl_used_tokens = 0, gl_reserved_tokens = 0, gl_is_initial = initial, gl_control = CActive,
     gl_deadline = 0, gl_continuous = False, gl_lifetime = 0\<rparr>"

definition insert_goal :: "goal_row \<Rightarrow> unit op" where
  "insert_goal = tx_insert ''goals''
     (\<lambda>x y. gl_goal_id x = gl_goal_id y \<or> (gl_is_initial x \<and> gl_is_initial y \<and> gl_system_id x = gl_system_id y))
     db_goals db_goals_update"

definition create_goal :: "string \<Rightarrow> system_record \<Rightarrow> string option \<Rightarrow> system_record op" where
  "create_goal owner record goal =
     (case goal of None \<Rightarrow> tx_return record
      | Some prompt \<Rightarrow>
         tx_bind (NewID ''goal_'') (\<lambda>goalID.
         let budget = sl_token_budget (sc_limits (sr_configuration record)) in
         tx_seq (insert_goal (new_goal goalID (sr_id record) owner prompt Pending budget True))
           (tx_return (record\<lparr>sr_goal := Some \<lparr>ig_id = goalID, ig_system_id = sr_id record, ig_prompt = prompt,
              ig_state = Pending, ig_token_budget = budget\<rparr>\<rparr>))))"

definition create_system :: "(string \<Rightarrow> string) \<Rightarrow> string \<Rightarrow> create_system_command \<Rightarrow> configuration \<Rightarrow> string \<Rightarrow> int \<Rightarrow> system_record op" where
  "create_system H actor c cfg configID now =
     tx_bind (tx_lift (creationDefinition cfg c)) (\<lambda>definition.
     tx_bind (NewID ''sys_'') (\<lambda>systemID.
     tx_bind (NewID ''agent_'') (\<lambda>operatorID.
     let record = created_record H cfg configID systemID operatorID definition now in
     tx_seq (insert_system (new_system systemID actor operatorID now))
     (tx_seq (insertRevision record actor ''system.create'' now)
     (create_goal actor record (cs_goal c))))))"

definition CreateSystem :: "(string \<Rightarrow> string) \<Rightarrow> string \<Rightarrow> string \<Rightarrow> create_system_command \<Rightarrow> configuration \<Rightarrow> string \<Rightarrow> int \<Rightarrow> system_record op" where
  "CreateSystem H actor key c cfg configID now =
     command H actor key
       (JsonDigest H (JObj [(''operation'', JStr ''system.create''), (''command'', json_create_command c)])) now
       (create_system H actor c cfg configID now)"

section \<open>ReviseSystem\<close>

record revise_system_command =
  rc_expected_revision :: int
  rc_configuration :: "system_config option"
  rc_local_tools :: "tool_pin list"

definition json_revise_command :: "revise_system_command \<Rightarrow> json" where
  "json_revise_command c = JObj (field ''expected_revision'' (JInt (rc_expected_revision c)) @
     field ''configuration'' (case rc_configuration c of None \<Rightarrow> JNull | Some s \<Rightarrow> json_system s) @
     field_omit (rc_local_tools c = []) ''local_tools'' (JArr (map json_pin (rc_local_tools c))))"

text \<open>A system whose work may not be replaced under it.\<close>

definition busy :: "system_state \<Rightarrow> bool" where
  "busy state \<longleftrightarrow> state = SRunning \<or> state = SStopping \<or> state = SPaused"

definition revised_record :: "(string \<Rightarrow> string) \<Rightarrow> configuration \<Rightarrow> system_record \<Rightarrow> (string \<times> tool_config) list \<Rightarrow>
    system_config \<Rightarrow> string \<Rightarrow> system_record" where
  "revised_record H cfg record locals definition configID =
     record\<lparr>sr_local_tools := locals, sr_configuration := definition, sr_configuration_id := configID,
            sr_revision := sr_revision record + 1, sr_grants := GrantsFor H cfg definition\<rparr>"

definition store_revision :: "system_record \<Rightarrow> string \<Rightarrow> int \<Rightarrow> unit op" where
  "store_revision record actor now =
     tx_seq (insertRevision record actor ''system.revise'' now)
       (tx_update db_systems_update (\<lambda>s. sy_system_id s = sr_id record \<and> sy_owner s = actor)
          (\<lambda>s. s\<lparr>sy_revision := sr_revision record\<rparr>))"

definition revise_system :: "(string \<Rightarrow> string) \<Rightarrow> string \<Rightarrow> string \<Rightarrow> revise_system_command \<Rightarrow> configuration \<Rightarrow> string \<Rightarrow> int \<Rightarrow> system_record op" where
  "revise_system H actor systemID c cfg0 configID now =
     tx_bind (readSystem H actor systemID) (\<lambda>record.
     tx_seq (tx_reject (rc_expected_revision c \<noteq> sr_revision record) ErrRevisionConflict)
     (tx_seq (tx_reject (busy (sr_state record)) ErrExecutionConflict)
     (case rc_configuration c of None \<Rightarrow> tx_fail (FieldError ''configuration'' ''is required'')
      | Some definition \<Rightarrow>
         tx_bind (loadLocalTools H (sr_id record) (gr_system_tools (sr_grants record) @ rc_local_tools c)) (\<lambda>locals.
         let cfg = WithLocalTools cfg0 locals; revised = revised_record H cfg record locals definition configID in
         tx_seq (tx_checked (ValidateSystem cfg definition))
         (tx_seq (tx_reject (sl_token_budget (sc_limits definition) < sr_used_tokens record + sr_reserved_tokens record)
                   (FieldError ''limits.token_budget'' ''cannot be lower than consumed or reserved usage''))
         (tx_seq (authorizePins H cfg (sr_id record) (gr_system_tools (sr_grants revised)) now)
         (tx_seq (store_revision revised actor now) (tx_return revised))))))))"

definition ReviseSystem :: "(string \<Rightarrow> string) \<Rightarrow> string \<Rightarrow> string \<Rightarrow> string \<Rightarrow> revise_system_command \<Rightarrow> configuration \<Rightarrow> string \<Rightarrow> int \<Rightarrow> system_record op" where
  "ReviseSystem H actor key systemID c cfg configID now =
     command H actor key
       (JsonDigest H (JObj [(''operation'', JStr ''system.revise''), (''system_id'', JStr systemID), (''command'', json_revise_command c)])) now
       (revise_system H actor systemID c cfg configID now)"

section \<open>StartSystem\<close>

record start_system_command =
  st_expected_revision :: int
  st_goal :: "string option"
  st_token_budget :: int
  st_lifetime_seconds :: int
  st_stream :: bool
  st_continuous :: bool

definition json_start_command :: "start_system_command \<Rightarrow> json" where
  "json_start_command c = JObj (field ''expected_revision'' (JInt (st_expected_revision c)) @
     (case st_goal c of None \<Rightarrow> [] | Some g \<Rightarrow> field ''goal'' (JStr g)) @
     field_omit (st_token_budget c = 0) ''token_budget'' (JInt (st_token_budget c)) @
     field_omit (st_lifetime_seconds c = 0) ''lifetime_seconds'' (JInt (st_lifetime_seconds c)) @
     field_omit (\<not> st_stream c) ''stream'' (JBool True) @
     field_omit (\<not> st_continuous c) ''continuous'' (JBool True))"

definition active_systems :: "db \<Rightarrow> int" where
  "active_systems d = count_where (\<lambda>s. sy_state s = SRunning \<or> sy_state s = SStopping) (db_systems d)"

text \<open>The goal to work on: the given one, or the pending initial goal with its identity.\<close>

definition start_goal :: "start_system_command \<Rightarrow> system_record \<Rightarrow> string \<times> initial_goal option" where
  "start_goal c record =
     (case st_goal c of Some g \<Rightarrow> (g, None)
      | None \<Rightarrow> (case sr_goal record of
           Some g \<Rightarrow> if ig_state g = Pending then (ig_prompt g, if ig_id g = '''' then None else Some g) else ('''', None)
         | None \<Rightarrow> ('''', None)))"

definition start_budget :: "start_system_command \<Rightarrow> system_record \<Rightarrow> initial_goal option \<Rightarrow> int" where
  "start_budget c record goal =
     (if st_token_budget c \<noteq> 0 then st_token_budget c
      else case goal of None \<Rightarrow> sr_remaining_tokens record
           | Some g \<Rightarrow> min (sr_remaining_tokens record) (ig_token_budget g))"

definition start_refusal :: "start_system_command \<Rightarrow> system_record \<Rightarrow> string \<Rightarrow> int \<Rightarrow> error option" where
  "start_refusal c record prompt budget = first_error
     [check (blank prompt \<or> length prompt > 32768)
        (FieldError ''goal'' ''requires a new 1-32768 byte goal, or a pending initial goal''),
      check (st_lifetime_seconds c < 0 \<or> st_lifetime_seconds c > 86400)
        (FieldError ''lifetime_seconds'' ''must be 0 (default) or 1-86400; only administrator starts may extend goal lifetime''),
      check (budget < 1 \<or> budget > sr_remaining_tokens record)
        (FieldError ''token_budget'' ''exhausted budget or goal cap exceeds remaining system allowance'')]"

text \<open>The shared queues have room for the first request: the wait bound, or a refusal.\<close>

definition start_room :: "configuration \<Rightarrow> int \<Rightarrow> int \<Rightarrow> string \<Rightarrow> int op" where
  "start_room cfg reservation wait grp =
     tx_seq (tx_reject (reservation > qc_tokens_per_minute (the_quota cfg grp))
               (FieldError ''quota'' ''request cannot fit token capacity''))
     (tx_bind (tx_gets (\<lambda>d. group_queued d grp)) (\<lambda>queued.
      tx_seq (tx_reject (queued \<ge> qc_queue_capacity (the_quota cfg grp)) (FieldError ''quota'' ''model queue is full''))
        (tx_return (min wait (qc_max_wait_seconds (the_quota cfg grp))))))"

definition claim_goal :: "string \<Rightarrow> string \<Rightarrow> string \<Rightarrow> int \<Rightarrow> initial_goal option \<Rightarrow> string op" where
  "claim_goal actor systemID prompt budget goal =
     (case goal of
        None \<Rightarrow> tx_bind (NewID ''goal_'') (\<lambda>goalID.
          tx_seq (insert_goal (new_goal goalID systemID actor prompt Queued budget False)) (tx_return goalID))
      | Some g \<Rightarrow>
          tx_seq (tx_reject (budget > ig_token_budget g) (FieldError ''token_budget'' ''cannot expand the pending goal's cap''))
          (tx_seq (update_goal systemID (ig_id g) (\<lambda>x. x\<lparr>gl_state := Queued, gl_token_budget := budget\<rparr>))
            (tx_return (ig_id g))))"

text \<open>The first call of the root task.\<close>

definition first_call :: "db \<Rightarrow> string \<Rightarrow> string \<Rightarrow> string \<Rightarrow> string \<Rightarrow> string \<Rightarrow> system_record \<Rightarrow> bool \<Rightarrow> int \<Rightarrow> int \<Rightarrow> int \<Rightarrow> int \<Rightarrow> string \<Rightarrow> call_row" where
  "first_call d callID taskID goalID activationID owner record stream reservation now deadline wait body =
    (new_call d callID (new_task (sr_id record) taskID goalID (sr_operator_id record) 0 '''' [] []) activationID owner
       (sr_revision record) (gr_model (sr_grants record)) reservation now deadline wait body)
       \<lparr>mc_stream := stream, mc_wait_deadline := now + wait * 1000\<rparr>"

definition start_call :: "string \<Rightarrow> string \<Rightarrow> string \<Rightarrow> string \<Rightarrow> string \<Rightarrow> system_record \<Rightarrow> bool \<Rightarrow> int \<Rightarrow> int \<Rightarrow> int \<Rightarrow> int \<Rightarrow> string \<Rightarrow> unit op" where
  "start_call callID taskID goalID activationID owner record stream reservation now deadline wait body =
     tx_bind (tx_gets (\<lambda>d. first_call d callID taskID goalID activationID owner record stream reservation now deadline wait body)) insert_call"

definition task_frame :: "string \<Rightarrow> string \<Rightarrow> message_frame" where
  "task_frame callID prompt = \<lparr>ms_type = ''task'', ms_data = prompt, ms_id = callID\<rparr>"

text \<open>What StartSystem writes once the goal is accepted.\<close>

definition launch :: "configuration \<Rightarrow> string \<Rightarrow> string \<Rightarrow> start_system_command \<Rightarrow> system_record \<Rightarrow> string \<Rightarrow> string \<Rightarrow> int \<Rightarrow> int \<Rightarrow> string \<Rightarrow> int \<Rightarrow> unit op" where
  "launch cfg actor owner c record prompt goalID reservation wait body now =
     tx_bind (NewID ''call_'') (\<lambda>callID.
     tx_bind (NewID ''task_'') (\<lambda>taskID.
     tx_bind (NewID ''activation_'') (\<lambda>activationID.
     let systemID = sr_id record; model = gr_model (sr_grants record);
         deadline = taskDeadline cfg model (st_lifetime_seconds c) now in
     tx_seq (tx_reject (CheckFrame (task_frame callID prompt) \<noteq> None)
               (FieldError ''goal'' ''encoded worker input exceeds frame limit''))
     (tx_seq (update_goal systemID goalID (\<lambda>g. g\<lparr>gl_continuous := st_continuous c, gl_lifetime := st_lifetime_seconds c\<rparr>))
     (tx_seq (start_call callID taskID goalID activationID owner record (st_stream c) reservation now deadline wait body)
     (tx_seq (insert_groups callID systemID (model_groups cfg model))
     (tx_seq (update_system systemID (\<lambda>s. s\<lparr>sy_state := SRunning\<rparr>))
     (tx_seq (auditExecution systemID actor ''system.start'' (sr_revision record) now)
     (tx_bind (readExecution systemID callID) (\<lambda>e. initializeRootTask record e now))))))))))"

definition admit_start :: "(string \<Rightarrow> string) \<Rightarrow> configuration \<Rightarrow> string \<Rightarrow> start_system_command \<Rightarrow> system_record \<Rightarrow> string \<Rightarrow> int \<Rightarrow> int \<Rightarrow> (string \<times> int \<times> int) op" where
  "admit_start H cfg systemID c record prompt budget now =
     tx_bind (tx_lift (ModelRequest H cfg (record\<lparr>sr_continuous := st_continuous c\<rparr>) prompt (st_stream c))) (\<lambda>(body, reservation).
     tx_seq (tx_reject (reservation > budget)
               (FieldError ''token_budget'' ''estimated input plus output cap cannot fit the goal budget''))
     (tx_seq (authorizePins H cfg systemID (gr_operator_tools (sr_grants record)) now)
     (tx_bind (tx_fold (start_room cfg reservation) 3600 (model_groups cfg (gr_model (sr_grants record)))) (\<lambda>wait.
      tx_return (body, reservation, wait)))))"

definition start_system :: "(string \<Rightarrow> string) \<Rightarrow> string \<Rightarrow> string \<Rightarrow> string \<Rightarrow> start_system_command \<Rightarrow> configuration \<Rightarrow> int \<Rightarrow> system_record op" where
  "start_system H actor systemID owner c cfg now =
     tx_bind (readSystem H actor systemID) (\<lambda>saved.
     tx_seq (tx_reject (sr_revision saved \<noteq> st_expected_revision c) ErrRevisionConflict)
     (tx_seq (tx_reject (busy (sr_state saved)) ErrExecutionConflict)
     (let record = Inspect H cfg saved in
      tx_seq (tx_reject (sr_blocked_reason record \<noteq> '''') (FieldError ''grants'' (sr_blocked_reason record)))
      (tx_bind (tx_gets active_systems) (\<lambda>active.
       tx_seq (tx_reject (active \<ge> int MaxOperators) (FieldError ''execution'' ''daemon operator capacity exhausted''))
       (let (prompt, goal) = start_goal c record; budget = start_budget c record goal in
        tx_seq (tx_checked (start_refusal c record prompt budget))
        (tx_bind (admit_start H cfg systemID c record prompt budget now) (\<lambda>(body, reservation, wait).
         tx_bind (claim_goal actor systemID prompt budget goal) (\<lambda>goalID.
         tx_seq (launch cfg actor owner c (record\<lparr>sr_continuous := st_continuous c\<rparr>) prompt goalID reservation wait body now)
           (readSystem H actor systemID))))))))))"

definition StartSystem :: "(string \<Rightarrow> string) \<Rightarrow> string \<Rightarrow> string \<Rightarrow> string \<Rightarrow> string \<Rightarrow> start_system_command \<Rightarrow> configuration \<Rightarrow> int \<Rightarrow> system_record op" where
  "StartSystem H actor key systemID owner c cfg now =
     command H actor key
       (JsonDigest H (JObj [(''Operation'', JStr ''system.start''), (''SystemID'', JStr systemID), (''Command'', json_start_command c)])) now
       (start_system H actor systemID owner c cfg now)"

section \<open>StopSystem\<close>

definition stop_system :: "(string \<Rightarrow> string) \<Rightarrow> string \<Rightarrow> string \<Rightarrow> int \<Rightarrow> system_record op" where
  "stop_system H actor systemID now =
     tx_bind (readSystem H actor systemID) (\<lambda>record.
     tx_seq (update_system systemID (\<lambda>s. s\<lparr>sy_state := if busy (sr_state record) then SStopping else SStopped\<rparr>))
     (tx_seq (tx_update db_goals_update (\<lambda>g. gl_system_id g = systemID \<and> gl_state g = Pending) (\<lambda>g. g\<lparr>gl_state := Canceled\<rparr>))
     (tx_seq (tx_update db_goals_update (\<lambda>g. gl_system_id g = systemID \<and> live (gl_state g)) (\<lambda>g. g\<lparr>gl_control := CStopped\<rparr>))
     (tx_bind (stopTasks systemID ''system'' '''' localAdministrator ''stopped by administrator'' now) (\<lambda>_.
      tx_seq (auditExecution systemID actor ''system.stop'' (sr_revision record) now)
        (readSystem H actor systemID))))))"

definition StopSystem :: "(string \<Rightarrow> string) \<Rightarrow> string \<Rightarrow> string \<Rightarrow> string \<Rightarrow> int \<Rightarrow> system_record op" where
  "StopSystem H actor key systemID now =
     command H actor key (JsonDigest H (JArr [JStr ''system.stop'', JStr systemID])) now (stop_system H actor systemID now)"

end
