(* ===== verification/Receipts.thy ===== *)
theory Receipts
  imports Tasks Lifecycle
begin

text \<open>
  What the commands on whole systems promise: a command key is used once, a created system can
  be read back, and a revision replaces the current one only when it is the expected one and
  leaves every earlier revision in place.
\<close>

section \<open>Replaying a command\<close>

lemma receipt_of_recorded:
  assumes "record_receipt actor key hash now r d = (Inr (), d')"
  shows "receipt_of d' actor key = Some \<lparr>cr_principal = actor, cr_command_key = key, cr_request_hash = hash,
      cr_system_id = sr_id r, cr_response = stored_response r, cr_created_at = now\<rparr>"
proof -
  have "List.find (\<lambda>x. cr_principal x = actor \<and> cr_command_key x = key) (db_receipts d) = None"
    using assms by (auto simp: record_receipt_def list_ex_iff find_None_iff)
  then show ?thesis using assms by (auto simp: receipt_of_def record_receipt_def find_append)
qed

lemma replay_pure: "tx_rel (=) (replay H hash r)"
  unfolding replay_def by (intro pure_rules reading)

text \<open>A command that succeeds leaves a receipt with its hash; a fresh one stores its response.\<close>

lemma command_receipt:
  assumes "command H actor key hash now mutate d = (Inr r, d')"
  shows "\<exists>x. receipt_of d' actor key = Some x \<and> cr_request_hash x = hash \<and>
    (receipt_of d actor key = None \<longrightarrow> cr_response x = stored_response r)"
proof (cases "receipt_of d actor key")
  case None
  with assms obtain d1 where "record_receipt actor key hash now r d1 = (Inr (), d')"
    by (auto simp: command_def fresh_command_def elim!: tx_bind_ok tx_seq_ok)
  then show ?thesis by (auto dest: receipt_of_recorded)
next
  case (Some x)
  with assms have run: "replay H hash x d = (Inr r, d')" by (auto simp: command_def elim!: tx_bind_ok)
  then have "cr_request_hash x = hash" by (auto simp: replay_def elim!: tx_seq_ok)
  with Some pure_state [OF replay_pure run] show ?thesis by simp
qed

lemma command_known:
  assumes "receipt_of d actor key = Some x"
  shows "command H actor key hash now mutate d = (fst (replay H hash x d), d)"
proof -
  have "snd (replay H hash x d) = d" by (rule pure_snd [OF replay_pure])
  then show ?thesis
    using assms by (cases "replay H hash x d") (auto simp: command_def transaction_def tx_bind_def tx_gets_def split: sum.splits)
qed

lemma command_fresh:
  assumes "command H actor key hash now mutate d = (Inr r, d')" "receipt_of d actor key = None"
  obtains d1 where "mutate d = (Inr r, d1)" "record_receipt actor key hash now r d1 = (Inr (), d')"
  using assms by (auto simp: command_def fresh_command_def elim!: tx_bind_ok tx_seq_ok)

text \<open>
  C15. A command key is used once. After a command has succeeded, the same request under the same key
  runs nothing: it changes nothing and answers with the stored response, with the local tools of
  the grants loaded again. Any other request under that key is a conflict and changes nothing, and
  a command that fails leaves the database as it was.
\<close>

theorem command_idempotent:
  assumes "command H actor key hash now mutate d = (Inr r, d')" and "receipt_of d actor key = None"
  shows "(\<forall>later other. command H actor key hash later other d' =
      (map_sum id (\<lambda>locals. (stored_response r)\<lparr>sr_local_tools := locals\<rparr>)
         (fst (loadLocalTools H (sr_id r) (gr_system_tools (sr_grants r)) d')), d')) \<and>
    (\<forall>later other hash'. hash' \<noteq> hash \<longrightarrow> command H actor key hash' later other d' = (Inl ErrCommandConflict, d')) \<and>
    (\<forall>later key' hash' other e d''. command H actor key' hash' later other d' = (Inl e, d'') \<longrightarrow> d'' = d')"
proof (intro conjI allI impI)
  from command_receipt [OF assms(1)] assms(2) obtain x where x: "receipt_of d' actor key = Some x"
    "cr_request_hash x = hash" "cr_response x = stored_response r" by auto
  have grants: "gr_system_tools (sr_grants (stored_response r)) = gr_system_tools (sr_grants r)" "sr_id (stored_response r) = sr_id r"
    by (simp_all add: stored_response_def receipt_record_def)
  show "command H actor key hash later other d' = (map_sum id (\<lambda>locals. (stored_response r)\<lparr>sr_local_tools := locals\<rparr>)
         (fst (loadLocalTools H (sr_id r) (gr_system_tools (sr_grants r)) d')), d')" for later other
    unfolding command_known [OF x(1)]
    using x(2,3) by (simp add: replay_def tx_seq_def tx_bind_def tx_reject_def tx_return_def grants split: prod.splits sum.splits)
  show "command H actor key hash' later other d' = (Inl ErrCommandConflict, d')" if "hash' \<noteq> hash" for later other hash'
    unfolding command_known [OF x(1)] using x(2) that by (simp add: replay_def tx_seq_def tx_bind_def tx_reject_def tx_fail_def)
  show "d'' = d'" if "command H actor key' hash' later other d' = (Inl e, d'')" for later key' hash' other e d''
    using that unfolding command_def by (rule transaction_failed)
qed

section \<open>Creating a system\<close>

definition shared_tools :: "configuration \<Rightarrow> bool" where
  "shared_tools cfg \<longleftrightarrow> (\<forall>t \<in> set (cf_tools cfg). \<not> local_name (fst t))"

lemma shared_tool_names:
  assumes "ValidateSystem cfg s = None" "shared_tools cfg" "p \<in> set (gr_system_tools (GrantsFor H cfg s))"
  shows "\<not> local_name (pin_name p)"
proof -
  have "pin_name p \<in> set (elems (sc_tools s))" using assms(3) by (auto simp: GrantsFor_def pin_of_def)
  then obtain t where t: "Tool cfg (pin_name p) = Some t"
    using ValidateSystem_ok [OF assms(1)] by (auto simp: system_ok_def)
  have "\<not> local_name n" if "map_of builtin_descriptions n = Some x" for n x
    using map_of_SomeD [OF that] by (auto simp: builtin_descriptions_def local_name_def has_prefix_def)
  then show ?thesis
    using t assms(2) by (auto simp: Tool_def BuiltinTool_def shared_tools_def split: option.splits dest!: map_of_SomeD)
qed

lemma loadLocalTools_none:
  assumes "\<And>p. p \<in> set pins \<Longrightarrow> \<not> local_name (pin_name p)"
  shows "loadLocalTools H i pins d = (Inr [], d)"
proof -
  have "tx_fold (loadLocalTool H i) acc pins d = (Inr acc, d)" for acc
    using assms by (induction pins) (simp_all add: loadLocalTool_def tx_return_def tx_bind_def)
  then show ?thesis by (simp add: loadLocalTools_def)
qed

text \<open>What creation writes, with the identities it drew.\<close>

lemma create_system_ok:
  assumes "create_system H actor c cfg configID now d = (Inr r, d')"
  obtains s g hs goal where "creationDefinition cfg c = Inr s" "cs_goal c = Some goal"
    "r = (created_record H cfg configID (sr_id r) (sr_operator_id r) s now)\<lparr>sr_goal := Some
       \<lparr>ig_id = g, ig_system_id = sr_id r, ig_prompt = goal, ig_state = Pending, ig_token_budget = sl_token_budget (sc_limits s)\<rparr>\<rparr>"
    "sr_id r \<notin> sy_system_id ` set (db_systems d)"
    "\<forall>x \<in> set (db_revisions d). \<not> (rv_system_id x = sr_id r \<and> rv_revision x = 1)"
    "\<forall>x \<in> set (db_goals d). \<not> (gl_is_initial x \<and> gl_system_id x = sr_id r)"
    "d' = d\<lparr>db_entropy := hs, db_systems := db_systems d @ [new_system (sr_id r) actor (sr_operator_id r) now],
       db_revisions := db_revisions d @ [\<lparr>rv_system_id = sr_id r, rv_revision = 1, rv_config_id = configID, rv_definition = stored_definition s,
         rv_grants = GrantsFor H cfg s, rv_token_budget = sl_token_budget (sc_limits s), rv_created_at = now\<rparr>],
       db_audit := db_audit d @ [\<lparr>au_system_id = sr_id r, au_principal = actor, au_action = ''system.create'', au_revision = 1, au_created_at = now\<rparr>],
       db_goals := db_goals d @ [new_goal g (sr_id r) actor goal Pending (sl_token_budget (sc_limits s)) True]\<rparr>"
proof -
  from assms obtain s where s: "creationDefinition cfg c = Inr s"
    by (cases "creationDefinition cfg c") (simp_all add: create_system_def tx_bind_def tx_lift_def)
  then obtain goal where goal: "cs_goal c = Some goal" by (auto simp: creationDefinition_def split: option.splits)
  with assms obtain i j d1 d2 d3 d4 where ids: "NewID ''sys_'' d = (Inr i, d1)" "NewID ''agent_'' d1 = (Inr j, d2)"
    and steps: "insert_system (new_system i actor j now) d2 = (Inr (), d3)"
      "insertRevision (created_record H cfg configID i j s now) actor ''system.create'' now d3 = (Inr (), d4)"
      "create_goal actor (created_record H cfg configID i j s now) (Some goal) d4 = (Inr r, d')"
    by (auto simp: create_system_def Let_def s elim!: tx_bind_ok tx_seq_ok)
  have r: "sr_id r = i" "sr_operator_id r = j" using steps(3) by (auto simp: create_goal_def Let_def created_record_def elim!: tx_bind_ok tx_seq_ok)
  from steps(3) obtain g d5 where g: "NewID ''goal_'' d4 = (Inr g, d5)"
    "insert_goal (new_goal g i actor goal Pending (sl_token_budget (sc_limits s)) True) d5 = (Inr (), d')"
    "r = (created_record H cfg configID i j s now)\<lparr>sr_goal := Some
       \<lparr>ig_id = g, ig_system_id = i, ig_prompt = goal, ig_state = Pending, ig_token_budget = sl_token_budget (sc_limits s)\<rparr>\<rparr>"
    by (auto simp: create_goal_def Let_def created_record_def elim!: tx_bind_ok tx_seq_ok)
  obtain h1 h2 h3 where h: "d1 = d\<lparr>db_entropy := h1\<rparr>" "d2 = d1\<lparr>db_entropy := h2\<rparr>" "d5 = d4\<lparr>db_entropy := h3\<rparr>"
    using NewID_ok [OF ids(1)] NewID_ok [OF ids(2)] NewID_ok [OF g(1)] by blast
  show thesis
    by (rule that [of s goal g h3], insert steps(1,2) s goal g(2) h)
      (auto simp: r g(3) insert_system_def insertRevision_def insert_goal_def auditExecution_def created_record_def new_system_def
        new_goal_def list_ex_iff elim!: tx_bind_ok tx_seq_ok)
qed

text \<open>Reading a system whose rows are known, without calls and local tools.\<close>

lemma readSystem_new:
  assumes "List.find (\<lambda>x. sy_system_id x = i \<and> sy_owner x = actor) (db_systems d) = Some s" "sy_system_id s = i"
    and "List.find (\<lambda>x. rv_system_id x = i \<and> rv_revision x = sy_revision s) (db_revisions d) = Some v"
    and "List.find (\<lambda>g. gl_system_id g = i \<and> gl_owner g = actor \<and> gl_is_initial g) (db_goals d) = Some g"
    and "\<forall>c \<in> set (db_calls d). mc_system_id c \<noteq> i"
    and "\<And>p. p \<in> set (gr_system_tools (rv_grants v)) \<Longrightarrow> \<not> local_name (pin_name p)"
  shows "readSystem H actor i d = (Inr ((system_record_of s v [])\<lparr>sr_goal := Some (initial_goal_of g)\<rparr>), d)"
proof -
  have "call_of d i '''' = None" using assms(5) by (auto simp: call_of_def find_None_iff)
  then have "readExecution i '''' d = (Inl ErrNoRows, d)" by (simp add: readExecution_def tx_row_def)
  moreover have "readSystemRow actor i d = (Inr (s, v), d)"
    using assms(1-3) by (simp add: readSystemRow_def tx_no_rows_def tx_bind_def tx_find_def tx_row_def tx_return_def)
  ultimately show ?thesis
    using assms(2,4) loadLocalTools_none [OF assms(6)]
    by (simp add: readSystem_def with_execution_def tx_bind_def tx_optional_def tx_find_def tx_row_def tx_return_def)
qed

text \<open>
  C16. Creation and reading agree. A system created under a fresh key is valid, inactive and without
  spending, its budget is positive, the revision stored is its first, and reading it back gives the
  record that was returned, with the definition as it is stored.
\<close>

theorem CreateSystem_readable:
  assumes "CreateSystem H actor key c cfg configID now d = (Inr r, d')" and "receipt_of d actor key = None"
    and "shared_tools cfg" and "\<forall>x \<in> set (db_calls d). mc_system_id x \<in> sy_system_id ` set (db_systems d)"
  shows "GetSystem H actor (sr_id r) d' =
      (Inr (r\<lparr>sr_configuration := stored_definition (sr_configuration r)\<rparr>), d') \<and>
    ValidateSystem cfg (sr_configuration r) = None \<and> sl_token_budget (sc_limits (sr_configuration r)) > 0 \<and>
    sr_state r = SInactive \<and> sr_revision r = 1 \<and> sr_used_tokens r = 0 \<and> sr_reserved_tokens r = 0"
proof -
  obtain d1 where run: "create_system H actor c cfg configID now d = (Inr r, d1)" and
    rec: "record_receipt actor key (JsonDigest H (JObj [(''operation'', JStr ''system.create''), (''command'', json_create_command c)])) now r d1 = (Inr (), d')"
    using assms(1,2) unfolding CreateSystem_def by (rule command_fresh)
  from run show ?thesis
  proof (rule create_system_ok)
    fix s g hs goal
    assume def: "creationDefinition cfg c = Inr s"
      and r: "r = (created_record H cfg configID (sr_id r) (sr_operator_id r) s now)\<lparr>sr_goal := Some
       \<lparr>ig_id = g, ig_system_id = sr_id r, ig_prompt = goal, ig_state = Pending, ig_token_budget = sl_token_budget (sc_limits s)\<rparr>\<rparr>"
      and fresh: "sr_id r \<notin> sy_system_id ` set (db_systems d)"
        "\<forall>x \<in> set (db_revisions d). \<not> (rv_system_id x = sr_id r \<and> rv_revision x = 1)"
        "\<forall>x \<in> set (db_goals d). \<not> (gl_is_initial x \<and> gl_system_id x = sr_id r)"
      and d1: "d1 = d\<lparr>db_entropy := hs, db_systems := db_systems d @ [new_system (sr_id r) actor (sr_operator_id r) now],
       db_revisions := db_revisions d @ [\<lparr>rv_system_id = sr_id r, rv_revision = 1, rv_config_id = configID, rv_definition = stored_definition s,
         rv_grants = GrantsFor H cfg s, rv_token_budget = sl_token_budget (sc_limits s), rv_created_at = now\<rparr>],
       db_audit := db_audit d @ [\<lparr>au_system_id = sr_id r, au_principal = actor, au_action = ''system.create'', au_revision = 1, au_created_at = now\<rparr>],
       db_goals := db_goals d @ [new_goal g (sr_id r) actor goal Pending (sl_token_budget (sc_limits s)) True]\<rparr>"
    let ?s = "new_system (sr_id r) actor (sr_operator_id r) now"
    let ?g = "new_goal g (sr_id r) actor goal Pending (sl_token_budget (sc_limits s)) True"
    have valid: "ValidateSystem cfg s = None" using creationDefinition_ok [OF def] by blast
    have d': "db_systems d' = db_systems d @ [?s]" "db_goals d' = db_goals d @ [?g]" "db_calls d' = db_calls d"
      "db_revisions d' = db_revisions d1" using rec by (auto simp: record_receipt_def d1)
    have none: "List.find (\<lambda>x. sy_system_id x = sr_id r \<and> sy_owner x = actor) (db_systems d) = None"
      "List.find (\<lambda>x. rv_system_id x = sr_id r \<and> rv_revision x = 1) (db_revisions d) = None"
      "List.find (\<lambda>x. gl_system_id x = sr_id r \<and> gl_owner x = actor \<and> gl_is_initial x) (db_goals d) = None"
      using fresh by (auto simp: find_None_iff image_iff)
    have read: "readSystem H actor (sr_id r) d' = (Inr ((system_record_of ?s (last (db_revisions d1)) [])\<lparr>sr_goal := Some (initial_goal_of ?g)\<rparr>), d')"
    proof (rule readSystem_new)
      show "\<forall>c \<in> set (db_calls d'). mc_system_id c \<noteq> sr_id r" using assms(4) fresh(1) d'(3) by metis
      show "\<not> local_name (pin_name p)" if "p \<in> set (gr_system_tools (rv_grants (last (db_revisions d1))))" for p
        using that shared_tool_names [OF valid assms(3)] by (simp add: d1)
    qed (use none in \<open>simp_all add: d' d1 find_append new_system_def new_goal_def\<close>)
    have eq: "(system_record_of ?s (last (db_revisions d1)) [])\<lparr>sr_goal := Some (initial_goal_of ?g)\<rparr> =
        r\<lparr>sr_configuration := stored_definition (sr_configuration r)\<rparr>"
      by (subst (2) r, subst (2) r) (simp add: d1 system_record_of_def initial_goal_of_def new_system_def new_goal_def created_record_def)
    have fields: "sr_configuration r = s" "sr_state r = SInactive" "sr_revision r = 1" "sr_used_tokens r = 0" "sr_reserved_tokens r = 0"
      by (subst r, simp add: created_record_def)+
    show ?thesis
      using read valid ValidateSystem_ok [OF valid] by (simp add: GetSystem_def read_only_def eq fields system_ok_def)
  qed
qed

section \<open>Revising a system\<close>

lemma readSystem_parts:
  assumes "readSystem H actor i d = (Inr r, d')"
  obtains s v where "s \<in> set (db_systems d)" "sy_system_id s = i" "sy_owner s = actor" "v \<in> set (db_revisions d)"
    "rv_system_id v = i" "rv_revision v = sy_revision s" "sr_id r = i" "sr_operator_id r = sy_operator_id s" "sr_revision r = sy_revision s"
    "sr_state r = sy_state s" "sr_used_tokens r = sy_used_tokens s" "sr_reserved_tokens r = sy_reserved_tokens s"
    "sr_configuration r = rv_definition v" "sr_grants r = rv_grants v" "d' = d"
proof -
  have "d' = d" using pure_state [OF readSystem_pure assms] .
  with assms show thesis
    by (auto simp: readSystem_def readSystemRow_def with_execution_def system_record_of_def
        elim!: tx_bind_ok dest!: find_SomeD intro!: that split: option.splits)
qed

text \<open>
  C17. Revisions are optimistic and never lose history. A revision is accepted only from the owner,
  only when the expected revision is the current one and the system is not at work, and only for a
  definition that is valid with the approved local tools and whose budget covers what is already
  spent or reserved. It adds one revision row with the next number, moves the system to it, and
  changes no other row of the systems, the revisions or any other table but the audit and receipts.
\<close>

theorem ReviseSystem_history:
  assumes "ReviseSystem H actor key systemID c cfg configID now d = (Inr r, d')" and "receipt_of d actor key = None"
  shows "\<exists>s sc. s \<in> set (db_systems d) \<and> sy_system_id s = systemID \<and> sy_owner s = actor \<and>
    sy_revision s = rc_expected_revision c \<and> \<not> busy (sy_state s) \<and> rc_configuration c = Some sc \<and>
    ValidateSystem (WithLocalTools cfg (sr_local_tools r)) sc = None \<and>
    sy_used_tokens s + sy_reserved_tokens s \<le> sl_token_budget (sc_limits sc) \<and>
    sr_revision r = sy_revision s + 1 \<and> sr_configuration r = sc \<and>
    (\<exists>v. rv_system_id v = systemID \<and> rv_revision v = sr_revision r \<and> rv_definition v = stored_definition sc \<and>
       rv_grants v = GrantsFor H (WithLocalTools cfg (sr_local_tools r)) sc \<and>
       d' = d\<lparr>db_revisions := db_revisions d @ [v], db_audit := db_audit d', db_receipts := db_receipts d',
         db_systems := update_where (\<lambda>x. sy_system_id x = systemID \<and> sy_owner x = actor)
           (\<lambda>x. x\<lparr>sy_revision := sr_revision r\<rparr>) (db_systems d)\<rparr>)"
proof -
  obtain d1 where run: "revise_system H actor systemID c cfg configID now d = (Inr r, d1)" and
    rec: "record_receipt actor key (JsonDigest H (JObj [(''operation'', JStr ''system.revise''), (''system_id'', JStr systemID), (''command'', json_revise_command c)])) now r d1 = (Inr (), d')"
    using assms unfolding ReviseSystem_def by (rule command_fresh)
  from run obtain rec0 sc locals where read: "readSystem H actor systemID d = (Inr rec0, d)"
    and guards: "rc_expected_revision c = sr_revision rec0" "\<not> busy (sr_state rec0)" "rc_configuration c = Some sc"
      "ValidateSystem (WithLocalTools cfg locals) sc = None"
      "sr_used_tokens rec0 + sr_reserved_tokens rec0 \<le> sl_token_budget (sc_limits sc)"
    and r: "r = revised_record H (WithLocalTools cfg locals) rec0 locals sc configID"
    and store: "store_revision r actor now d = (Inr (), d1)"
    by (auto simp: revise_system_def Let_def tx_checked_def runs elim!: tx_bind_ok tx_seq_ok split: option.splits)
  from read obtain s where s: "s \<in> set (db_systems d)" "sy_system_id s = systemID" "sy_owner s = actor"
    "sr_id rec0 = systemID" "sr_revision rec0 = sy_revision s" "sr_state rec0 = sy_state s"
    "sr_used_tokens rec0 = sy_used_tokens s" "sr_reserved_tokens rec0 = sy_reserved_tokens s"
    by (rule readSystem_parts)
  show ?thesis
    using guards s store rec
    by (intro exI [of _ s] exI [of _ sc] conjI exI [of _ "last (db_revisions d')"])
      (auto simp: r revised_record_def store_revision_def insertRevision_def auditExecution_def record_receipt_def elim!: tx_seq_ok)
qed

section \<open>Applications\<close>

text \<open>A system created in an empty database.\<close>

lemma created:
  obtains r d' where "CreateSystem sample_digest localAdministrator ''k'' sound_command bootstrapped_cfg ''c'' 0
      (empty_db [''1'', ''2'', ''3'']) = (Inr r, d')"
proof -
  obtain s where s: "creationDefinition bootstrapped_cfg sound_command = Inr s" by (rule sound_creation)
  have goal: "cs_goal sound_command = Some ''win''" by (simp add: sound_command_def)
  have "\<exists>r d'. CreateSystem sample_digest localAdministrator ''k'' sound_command bootstrapped_cfg ''c'' 0
      (empty_db [''1'', ''2'', ''3'']) = (Inr r, d')"
    by (simp add: CreateSystem_def command_def fresh_command_def create_system_def create_goal_def NewID_def insert_system_def
        insertRevision_def insert_goal_def auditExecution_def record_receipt_def tx_insert_def tx_defs Let_def s receipt_of_def
        goal empty_db_def)
  then show thesis using that by blast
qed

lemma empty_tables [sample]: "db_receipts (empty_db hs) = []" "db_calls (empty_db hs) = []" "db_systems (empty_db hs) = []"
  by (simp_all add: empty_db_def)

theorem command_idempotent_applied:
  "\<exists>r d'. CreateSystem sample_digest localAdministrator ''k'' sound_command bootstrapped_cfg ''c'' 0 (empty_db [''1'', ''2'', ''3'']) = (Inr r, d') \<and>
     command sample_digest localAdministrator ''k'' ''other'' 5 (tx_return r) d' = (Inl ErrCommandConflict, d')"
proof -
  obtain r d' where run: "CreateSystem sample_digest localAdministrator ''k'' sound_command bootstrapped_cfg ''c'' 0
      (empty_db [''1'', ''2'', ''3'']) = (Inr r, d')" by (rule created)
  show ?thesis
    using command_idempotent [OF run [unfolded CreateSystem_def]] run by (auto simp: receipt_of_def sample JsonDigest_def sample_digest_def)
qed

theorem CreateSystem_readable_applied:
  "\<exists>r d'. GetSystem sample_digest localAdministrator (sr_id r) d' = (Inr (r\<lparr>sr_configuration := stored_definition (sr_configuration r)\<rparr>), d') \<and>
     sr_state r = SInactive"
proof -
  obtain r d' where run: "CreateSystem sample_digest localAdministrator ''k'' sound_command bootstrapped_cfg ''c'' 0
      (empty_db [''1'', ''2'', ''3'']) = (Inr r, d')" by (rule created)
  have "shared_tools bootstrapped_cfg"
    by (simp add: shared_tools_def bootstrapped_cfg_def sound local_name_def has_prefix_def)
  with CreateSystem_readable [OF run] show ?thesis by (auto simp: receipt_of_def sample)
qed

text \<open>A revision of an inactive system to the definition it has.\<close>

definition idle_db :: db where
  "idle_db = (empty_db [])\<lparr>db_systems := [sample_system\<lparr>sy_state := SInactive\<rparr>], db_revisions := [sample_revision], db_goals := [sample_goal]\<rparr>"

lemma idle_tables [sample]: "db_systems idle_db = [sample_system\<lparr>sy_state := SInactive\<rparr>]" "db_revisions idle_db = [sample_revision]"
  "db_goals idle_db = [sample_goal]" "db_calls idle_db = []" "db_receipts idle_db = []" "db_tasks idle_db = []" "db_approvals idle_db = []"
  by (simp_all add: idle_db_def empty_db_def)

definition idle_record :: system_record where
  "idle_record = (system_record_of (sample_system\<lparr>sy_state := SInactive\<rparr>) sample_revision [])\<lparr>sr_goal := Some (initial_goal_of sample_goal)\<rparr>"

lemma idle_read [sample]: "readSystem sample_digest localAdministrator ''sys'' idle_db = (Inr idle_record, idle_db)"
  unfolding idle_record_def by (rule readSystem_new) (simp_all add: sample)

lemma idle_fields [sample]: "sr_id idle_record = ''sys''" "sr_revision idle_record = 1" "sr_state idle_record = SInactive"
  "sr_used_tokens idle_record = 0" "sr_reserved_tokens idle_record = 0"
  "sr_grants idle_record = GrantsFor sample_digest sample_cfg sample_definition" "sr_configuration idle_record = sample_definition"
  by (simp_all add: idle_record_def system_record_of_def sample) (simp_all add: sample_system_def sample_revision_def)

definition idle_revision :: revise_system_command where
  "idle_revision = \<lparr>rc_expected_revision = 1, rc_configuration = Some sample_definition, rc_local_tools = []\<rparr>"

theorem ReviseSystem_history_applied:
  "\<exists>r d'. ReviseSystem sample_digest localAdministrator ''k'' ''sys'' idle_revision sample_cfg ''d'' 5 idle_db = (Inr r, d') \<and> sr_revision r = 2"
proof -
  let ?r = "revised_record sample_digest sample_cfg idle_record [] sample_definition ''d''"
  have load: "loadLocalTools sample_digest ''sys'' [] d = (Inr [], d)" for d by (rule loadLocalTools_none) simp
  have pins: "authorizePins sample_digest sample_cfg ''sys'' [] 5 idle_db = (Inr (), idle_db)"
    by (simp add: authorizePins_def load pins_closed_def tx_defs WithLocalTools_def or_else_def)
  have c: "rc_expected_revision idle_revision = 1" "rc_configuration idle_revision = Some sample_definition" "rc_local_tools idle_revision = []"
    by (simp_all add: idle_revision_def)
  have budget: "sl_token_budget (sc_limits sample_definition) = 500" by (simp add: sample_definition_def)
  have grants: "gr_system_tools (sr_grants ?r) = []" by (simp add: revised_record_def sample)
  obtain d1 where store: "store_revision ?r localAdministrator 5 idle_db = (Inr (), d1)" "db_receipts d1 = []"
    by (simp add: store_revision_def insertRevision_def tx_insert_def auditExecution_def tx_update_def tx_defs sample revised_record_def)
  have "revise_system sample_digest localAdministrator ''sys'' idle_revision sample_cfg ''d'' 5 idle_db = (Inr ?r, d1)"
    by (simp add: revise_system_def tx_bind_def tx_seq_def tx_reject_def tx_return_def sample c busy_def load tx_checked_def sample_valid
        WithLocalTools_def budget Let_def grants pins store(1) tx_lift_def)
  then have "\<exists>r d'. ReviseSystem sample_digest localAdministrator ''k'' ''sys'' idle_revision sample_cfg ''d'' 5 idle_db = (Inr r, d')"
    using store(2) by (simp add: ReviseSystem_def command_def fresh_command_def record_receipt_def tx_insert_def tx_defs receipt_of_def sample)
  then obtain r d' where run: "ReviseSystem sample_digest localAdministrator ''k'' ''sys'' idle_revision sample_cfg ''d'' 5 idle_db = (Inr r, d')"
    by blast
  from ReviseSystem_history [OF run] run show ?thesis by (auto simp: receipt_of_def sample idle_revision_def)
qed

end
