(* ===== verification/Stopping.thy ===== *)
theory Stopping
  imports Receipts
begin

text \<open>
  Stopping work. While tasks are ended, leases stay as they are and calls only leave the queue;
  after StopSystem every task of the system that is still live is stopped and held by a worker,
  whose end of the activation will end it.
\<close>

section \<open>What ending tasks leaves alone\<close>

definition leases :: "db \<Rightarrow> mailbox_row list" where
  "leases d = filter (\<lambda>m. mb_state m = MLeased) (db_mailboxes d)"

lemma filter_update_where:
  "(\<And>r. P r \<Longrightarrow> \<not> Q r \<and> \<not> Q (f r)) \<Longrightarrow> filter Q (update_where P f rs) = filter Q rs"
  by (induction rs) (auto simp: row_simps)

lemma emitEvent_leases: "tx_rel (same leases) (emitEvent t kind source causation payload now)"
proof -
  have "tx_rel (same leases) (insert_event i t kind source causation payload depth deadline now)" for i depth deadline
    by (auto simp: tx_rel_def insert_event_def tx_defs tx_insert_def mailbox_of_def same_def leases_def)
  then show ?thesis
    unfolding emitEvent_def event_depth_def readGoal_def
    by (intro frame_rules db_frame.rel_new_id) (simp_all add: same_def leases_def)
qed

lemma wakeContinuousTask_leases: "tx_rel (same leases) (wakeContinuousTask t)"
  unfolding wakeContinuousTask_def live_or_fresh_def start_continuation_def goal_and_state_def insert_task_def
  by (intro frame_rules db_frame.rel_insert db_frame.rel_new_id db_frame.rel_pure [OF readAgent_pure]
      db_frame.rel_pure [OF readTask_pure]) (simp_all add: same_def leases_def)

lemma settle_task_leases: "tx_rel (same leases) (settle_task t ongoing state response reason)"
  unfolding settle_task_def cancel_triggers_def end_task_def continuePendingInput_def move_inputs_def kill_mail_def idle_goal_def
  by (intro frame_rules db_frame.rel_update frame.rel_modify wakeContinuousTask_leases)
    (auto simp: same_def leases_def pending_input_def intro!: filter_update_where [symmetric])

lemma end_goal_leases: "tx_rel (same leases) (end_goal t state)"
  unfolding end_goal_def update_goal_def
  by (intro frame_rules db_frame.rel_update frame.rel_modify) (simp_all add: same_def leases_def)

lemma terminate_steps_leases: "tx_rel (same leases) (terminate_steps n t state response reason source cause now)"
proof (induction n arbitrary: t state response reason source)
  case 0 then show ?case by (simp add: frame.rel_fail)
next
  case (Suc n)
  show ?case
    unfolding terminate_steps.simps
    by (intro frame_rules settle_task_leases end_goal_leases emitEvent_leases Suc.IH
        db_frame.rel_pure [OF goalIsContinuous_pure] db_frame.rel_pure [OF readTask_pure])
qed

section \<open>Calls only leave the queue\<close>

definition call_ended :: "call_row \<Rightarrow> call_row \<Rightarrow> bool" where
  "call_ended x y \<longleftrightarrow> mc_system_id y = mc_system_id x \<and> mc_task_id y = mc_task_id x \<and>
     (undispatched (mc_state y) \<longrightarrow> undispatched (mc_state x))"

definition dequeuing :: "db \<Rightarrow> db \<Rightarrow> bool" where
  "dequeuing d d' \<longleftrightarrow> list_all2 call_ended (db_calls d) (db_calls d')"

interpretation dequeuing: db_preorder dequeuing
proof unfold_locales
  show "dequeuing d d" for d by (simp add: dequeuing_def list_all2_same call_ended_def)
  show "dequeuing d d1 \<Longrightarrow> dequeuing d1 d2 \<Longrightarrow> dequeuing d d2" for d d1 d2
    unfolding dequeuing_def by (rule list_all2_trans [of call_ended call_ended call_ended]) (auto simp: call_ended_def)
qed

lemma dequeuing_same: "tx_rel (same db_calls) m \<Longrightarrow> tx_rel dequeuing m"
  by (simp add: tx_rel_def same_def dequeuing_def list_all2_same call_ended_def)

lemma dequeuing_calls:
  "(\<And>c. P c \<Longrightarrow> call_ended c (f c)) \<Longrightarrow> tx_rel dequeuing (tx_update db_calls_update P f)"
  by (rule dequeuing.rel_update) (auto simp: dequeuing_def call_ended_def intro!: list_all2_update_where)

lemma money_calls: "tx_rel (same money) m \<Longrightarrow> tx_rel (same db_calls) m"
  by (simp add: tx_rel_def same_def money_def)

lemma settle_task_dequeuing:
  assumes "\<not> undispatched state"
  shows "tx_rel dequeuing (settle_task t ongoing state response reason)"
proof -
  have "tx_rel (same money) (cancel_triggers t)" "tx_rel (same money) (kill_mail t state)" "tx_rel (same money) (idle_goal t)"
    unfolding cancel_triggers_def kill_mail_def idle_goal_def
    by (intro frame_rules db_frame.rel_update frame.rel_modify; simp add: same_def money_def)+
  note same = this [THEN money_calls, THEN dequeuing_same]
  have "tx_rel dequeuing (end_task t state response reason)"
    unfolding end_task_def
    by (intro dequeuing.rel_seq dequeuing_calls dequeuing_same [OF money_calls [OF record_call_money(2)]])
      (use assms in \<open>simp add: call_ended_def\<close>)
  then show ?thesis
    unfolding settle_task_def
    by (intro dequeuing.rel_seq dequeuing.rel_when same dequeuing_same [OF money_calls [OF continuePendingInput_money]])
qed

lemma terminal_dispatched: "TaskTerminal state \<Longrightarrow> \<not> undispatched state"
  by (auto simp: TaskTerminal_def undispatched_def)

lemma terminate_steps_dequeuing:
  "TaskTerminal state \<Longrightarrow> tx_rel dequeuing (terminate_steps n t state response reason source cause now)"
proof (induction n arbitrary: t state response reason source)
  case 0 then show ?case by (simp add: dequeuing.rel_fail)
next
  case (Suc n)
  show ?case
    unfolding terminate_steps.simps
    by (intro dequeuing.rels settle_task_dequeuing Suc.IH dequeuing_same [OF money_calls [OF end_goal_money]]
        terminal_dispatched [OF Suc.prems] dequeuing_same [OF money_calls [OF emitEvent_money]]
        dequeuing.rel_pure [OF goalIsContinuous_pure] dequeuing.rel_pure [OF readTask_pure]) (simp add: TaskTerminal_def)
qed

lemma terminateTask_rels:
  "tx_rel (same leases) (terminateTask t state response reason source cause now)"
  "TaskTerminal state \<Longrightarrow> tx_rel dequeuing (terminateTask t state response reason source cause now)"
  "TaskTerminal state \<Longrightarrow> state \<noteq> Completed \<Longrightarrow> tx_rel ending (terminateTask t state response reason source cause now)"
  unfolding terminateTask_def
  by (intro frame_rules terminate_steps_leases dequeuing.rels terminate_steps_dequeuing ending.rels terminate_steps_ending; assumption)+

section \<open>What stopping one task establishes\<close>

text \<open>The end of a task, once reported, is the end of every row of its key.\<close>

lemma terminate_ends:
  assumes run: "terminate_steps (Suc n) t state response reason source cause now d = (Inr (), d')"
    and st: "TaskTerminal state" "state \<noteq> Completed" and open_row: "\<not> TaskTerminal (t_state t)"
  shows "\<forall>x \<in> set (db_tasks d'). task_key x = task_key t \<longrightarrow> TaskTerminal (t_state x)"
proof -
  define rest where "rest = (\<lambda>ongoing. if t_learning_id t \<noteq> '''' then tx_return ()
       else if t_parent t = '''' then tx_when (\<not> ongoing \<or> state = Canceled) (end_goal t state)
       else tx_bind (readTask (t_system_id t) (t_parent t)) (\<lambda>parent.
         if TaskTerminal (t_state parent) \<or> t_control parent = CStopped then tx_return ()
         else tx_bind (tx_try (emitEvent parent ''task.result'' source cause (result_payload t state) now)) (\<lambda>sent.
         case sent of Inr _ \<Rightarrow> tx_return ()
         | Inl e \<Rightarrow> if \<not> DeniedTask e then tx_fail e
             else terminate_steps n parent Rejected '''' (''child result delivery rejected: '' @ error_text e)
                    ''runtime'' cause now)))"
  have "tx_rel ending (rest ongoing)" for ongoing
    unfolding rest_def
    by (intro ending.rels terminate_steps_ending ending_same [OF end_goal_tasks] ending_same [OF emitEvent_tasks]
        ending.rel_pure [OF readTask_pure]) (simp_all add: TaskTerminal_def)
  moreover have "tx_bind (goalIsContinuous t) (\<lambda>ongoing. tx_seq (settle_task t ongoing state response reason) (rest ongoing)) d = (Inr (), d')"
    using run open_row by (simp add: rest_def)
  moreover from this obtain ongoing d1 where settle: "settle_task t ongoing state response reason d = (Inr (), d1)" and "rest ongoing d1 = (Inr (), d')"
    by (auto simp: runs elim!: tx_bind_ok tx_seq_ok)
  ultimately have "ending d1 d'" by (metis tx_rel_result)
  have "db_tasks d1 = update_where (\<lambda>x. task_key x = task_key t) (end_row state response reason) (db_tasks d)"
    using settle_task_tasks [OF settle] st(2) by auto
  then have "\<forall>x \<in> set (db_tasks d1). task_key x = task_key t \<longrightarrow> TaskTerminal (t_state x)"
    using st(1) by (auto simp: set_update_where)
  with \<open>ending d1 d'\<close> show ?thesis
    using ending_row ended_terminal ended_keeps by (metis task_key_def)
qed

text \<open>A task of the key is held by a worker, or ended and without a call that waits for dispatch.\<close>

definition held :: "db \<Rightarrow> string \<times> string \<Rightarrow> bool" where
  "held d k \<longleftrightarrow> (\<exists>m \<in> set (leases d). (mb_system_id m, mb_task_id m) = k)"

definition task_halted :: "db \<Rightarrow> string \<times> string \<Rightarrow> bool" where
  "task_halted d k \<longleftrightarrow> held d k \<or> (\<forall>x \<in> set (db_tasks d). task_key x = k \<longrightarrow> TaskTerminal (t_state x)) \<and>
     (\<forall>c \<in> set (db_calls d). (mc_system_id c, mc_task_id c) = k \<longrightarrow> \<not> undispatched (mc_state c))"

definition winding :: "db \<Rightarrow> db \<Rightarrow> bool" where
  "winding d d' \<longleftrightarrow> ending d d' \<and> dequeuing d d' \<and> leases d' = leases d"

lemma winding_task_halted: "winding d d' \<Longrightarrow> task_halted d k \<Longrightarrow> task_halted d' k"
proof -
  assume w: "winding d d'" and h: "task_halted d k"
  have "TaskTerminal (t_state y)" if "y \<in> set (db_tasks d')" "task_key y = k"
    "\<forall>x \<in> set (db_tasks d). task_key x = k \<longrightarrow> TaskTerminal (t_state x)" for y
    using w that ending_row ended_terminal ended_keeps unfolding winding_def by (metis task_key_def)
  moreover have "\<not> undispatched (mc_state c)" if "c \<in> set (db_calls d')" "(mc_system_id c, mc_task_id c) = k"
    "\<forall>c \<in> set (db_calls d). (mc_system_id c, mc_task_id c) = k \<longrightarrow> \<not> undispatched (mc_state c)" for c
    using w that list_all2_row [of call_ended "db_calls d" "db_calls d'" c] unfolding winding_def dequeuing_def call_ended_def by metis
  ultimately show ?thesis using w h unfolding task_halted_def held_def winding_def by metis
qed

lemma winding_trans: "winding d d1 \<Longrightarrow> winding d1 d2 \<Longrightarrow> winding d d2"
  unfolding winding_def by (metis ending.R_trans dequeuing.R_trans)

lemma winding_keys: "winding d d' \<Longrightarrow> map task_key (db_tasks d') = map task_key (db_tasks d)"
  unfolding winding_def ending_def
proof (elim conjE)
  assume "list_all2 ended (db_tasks d) (db_tasks d')"
  then show ?thesis by (induction rule: list_all2_induct) (auto simp: task_key_def dest: ended_keeps)
qed

lemma stop_task_winding:
  assumes "stop_task systemID source reason now taskID d = (Inr (), d')"
  shows "winding d d'"
proof -
  have update: "tx_rel (same db_tasks) (update_system systemID f)" "tx_rel (same db_calls) (update_system systemID f)"
    "tx_rel (same leases) (update_system systemID f)" for f
    unfolding update_system_def by (intro db_frame.rel_update; simp add: same_def leases_def)+
  have calls: "tx_rel (same db_tasks) (tx_update db_calls_update P f)" "tx_rel (same leases) (tx_update db_calls_update P f)" for P f
    by (intro db_frame.rel_update; simp add: same_def leases_def)+
  have canceled: "TaskTerminal Canceled" "Canceled \<noteq> Completed" by (simp_all add: TaskTerminal_def)
  have "tx_rel ending (stop_task systemID source reason now taskID)"
    unfolding stop_task_def
    by (intro ending.rels ending.rel_pure [OF readTask_pure] ending_same [OF update(1)] ending_same [OF calls(1)]
        terminateTask_rels(3) [OF canceled])
  moreover have "tx_rel dequeuing (stop_task systemID source reason now taskID)"
    unfolding stop_task_def
    by (intro dequeuing.rels dequeuing.rel_pure [OF readTask_pure] dequeuing_same [OF update(2)] dequeuing_calls
        terminateTask_rels(2) [OF canceled(1)]) (simp add: call_ended_def undispatched_def)
  moreover have "tx_rel (same leases) (stop_task systemID source reason now taskID)"
    unfolding stop_task_def
    by (intro frame_rules db_frame.rel_pure [OF readTask_pure] update(3) calls(2) terminateTask_rels(1))
  ultimately show ?thesis
    using assms unfolding winding_def by (metis tx_rel_result same_def)
qed

lemma stop_task_halts:
  assumes run: "stop_task systemID source reason now taskID d = (Inr (), d')"
    and keys: "distinct (map task_key (db_tasks d))"
  shows "task_halted d' (systemID, taskID)"
proof -
  from run obtain t d1 where t: "readTask systemID taskID d = (Inr t, d)"
    and d1: "tx_when (t_parent t = '''') (update_system systemID (\<lambda>s. s\<lparr>sy_state := SStopping\<rparr>)) d = (Inr (), d1)"
    and rest: "tx_when (\<not> exists_where (\<lambda>m. mb_system_id m = systemID \<and> mb_task_id m = taskID \<and> mb_state m = MLeased) (db_mailboxes d1))
        (tx_seq (terminateTask t Canceled '''' reason source '''' now)
          (tx_update db_calls_update (\<lambda>c. mc_system_id c = systemID \<and> mc_task_id c = taskID \<and> undispatched (mc_state c))
             (\<lambda>c. c\<lparr>mc_state := Canceled, mc_reason := ''stopped before dispatch''\<rparr>))) d1 = (Inr (), d')"
    by (auto simp: stop_task_def runs elim!: tx_bind_ok tx_seq_ok)
  have same1: "db_tasks d1 = db_tasks d" using d1 by (auto simp: tx_when_def update_system_def split: if_splits)
  have tk: "t \<in> set (db_tasks d)" "task_key t = (systemID, taskID)" using t by (auto simp: readTask_def task_key_def dest!: find_SomeD)
  show ?thesis
  proof (cases "exists_where (\<lambda>m. mb_system_id m = systemID \<and> mb_task_id m = taskID \<and> mb_state m = MLeased) (db_mailboxes d1)")
    case True
    with rest have "d' = d1" by (simp add: tx_when_def)
    with True show ?thesis by (auto simp: task_halted_def held_def leases_def exists_where_iff)
  next
    case False
    with rest obtain d2 where fin: "terminateTask t Canceled '''' reason source '''' now d1 = (Inr (), d2)"
      and d': "d' = db_calls_update (update_where (\<lambda>c. mc_system_id c = systemID \<and> mc_task_id c = taskID \<and> undispatched (mc_state c))
             (\<lambda>c. c\<lparr>mc_state := Canceled, mc_reason := ''stopped before dispatch''\<rparr>)) d2"
      by (auto simp: tx_when_def elim!: tx_seq_ok)
    have "\<forall>x \<in> set (db_tasks d2). task_key x = (systemID, taskID) \<longrightarrow> TaskTerminal (t_state x)"
    proof (cases "TaskTerminal (t_state t)")
      case True
      have "ending d1 d2" using tx_rel_result [OF terminateTask_rels(3) fin] by (simp add: TaskTerminal_def)
      moreover have "TaskTerminal (t_state x)" if "x \<in> set (db_tasks d1)" "task_key x = (systemID, taskID)" for x
        using distinct_key_unique [OF keys, of x t] that tk True by (simp add: same1)
      ultimately show ?thesis using ending_row ended_terminal ended_keeps by (metis task_key_def)
    next
      case False
      from fin have "terminate_steps (Suc (length (db_tasks d1) + 1)) t Canceled '''' reason source '''' now d1 = (Inr (), d2)"
        by (simp add: terminateTask_def tx_bind_def tx_gets_def del: terminate_steps.simps)
      from terminate_ends [OF this _ _ False] tk(2) show ?thesis by (simp add: TaskTerminal_def)
    qed
    then have "\<forall>x \<in> set (db_tasks d'). task_key x = (systemID, taskID) \<longrightarrow> TaskTerminal (t_state x)" by (simp add: d')
    moreover have "\<not> undispatched (mc_state c)" if c: "c \<in> set (db_calls d')" "(mc_system_id c, mc_task_id c) = (systemID, taskID)" for c
    proof -
      have "\<not> undispatched Canceled" by (simp add: undispatched_def)
      moreover from c(1) obtain c0 where "c = (if mc_system_id c0 = systemID \<and> mc_task_id c0 = taskID \<and> undispatched (mc_state c0)
          then c0\<lparr>mc_state := Canceled, mc_reason := ''stopped before dispatch''\<rparr> else c0)"
        unfolding d' calls_table.rows_set set_update_where by (rule imageE)
      ultimately show ?thesis using c(2) by (cases "undispatched (mc_state c0)") (simp_all split: if_splits)
    qed
    ultimately show ?thesis by (simp add: task_halted_def)
  qed
qed

section \<open>Stopping a system\<close>

lemma updated_row:
  assumes "y \<in> set (update_where P f rs)"
  obtains x where "x \<in> set rs" "P x" "y = f x" | "y \<in> set rs" "\<not> P y"
  using assms unfolding set_update_where by (auto split: if_splits)

text \<open>A loop that establishes a fact for each element, which later rounds keep.\<close>

lemma foreach_establishes:
  assumes "tx_foreach f xs s = (Inr (), s')" and "I s"
    and "\<And>x s s'. x \<in> set xs \<Longrightarrow> I s \<Longrightarrow> f x s = (Inr (), s') \<Longrightarrow> I s' \<and> Q x s'"
    and "\<And>x y s s'. x \<in> set xs \<Longrightarrow> I s \<Longrightarrow> f x s = (Inr (), s') \<Longrightarrow> Q y s \<Longrightarrow> Q y s'"
  shows "I s' \<and> (\<forall>x \<in> set xs. Q x s')"
proof -
  have keep: "I s' \<and> (\<forall>y. Q y s \<longrightarrow> Q y s')" if "tx_foreach f ys s = (Inr (), s')" "I s" "set ys \<subseteq> set xs" for ys s s'
    using that
  proof (induction ys arbitrary: s)
    case (Cons y ys)
    then obtain s1 where "f y s = (Inr (), s1)" "tx_foreach f ys s1 = (Inr (), s')" by (auto elim: tx_seq_ok)
    with Cons assms(3,4) show ?case by (metis list.set_intros(1) set_subset_Cons subset_eq)
  qed simp
  have "\<forall>x \<in> set ys. Q x s'" if "tx_foreach f ys s = (Inr (), s')" "I s" "set ys \<subseteq> set xs" for ys s s'
    using that
  proof (induction ys arbitrary: s)
    case (Cons y ys)
    then obtain s1 where s1: "f y s = (Inr (), s1)" "tx_foreach f ys s1 = (Inr (), s')" by (auto elim: tx_seq_ok)
    have y: "I s1" "Q y s1" using assms(3) [of y s s1] s1(1) Cons.prems by auto
    have "Q y s'" using keep [OF s1(2) y(1)] y(2) Cons.prems(3) by auto
    with Cons.IH [OF s1(2) y(1)] Cons.prems(3) show ?case by auto
  qed simp
  with keep assms(1,2) show ?thesis by blast
qed

lemma control_rows:
  assumes "tx_foreach (\<lambda>t. tx_update db_tasks_update (\<lambda>x. t_system_id x = systemID \<and> t_id x = t_id t)
      (\<lambda>x. x\<lparr>t_control := CStopped\<rparr>)) ts d = (Inr (), d')"
  shows "db_tasks d' = map (\<lambda>x. if t_system_id x = systemID \<and> t_id x \<in> t_id ` set ts then x\<lparr>t_control := CStopped\<rparr> else x) (db_tasks d)"
    and "db_mailboxes d' = db_mailboxes d" "db_calls d' = db_calls d" "db_goals d' = db_goals d" "db_systems d' = db_systems d"
  using assms
  by (induction ts arbitrary: d) (auto simp: update_where_def comp_def elim!: tx_seq_ok)

lemma stop_goals_tasks:
  "tx_rel (same db_tasks) (stop_goals systemID scope i)" "tx_rel (same db_mailboxes) (stop_goals systemID scope i)"
  "tx_rel (same db_calls) (stop_goals systemID scope i)"
  unfolding stop_goals_def stop_agents_def stop_triggers_def
  by (intro frame_rules db_frame.rel_update frame.rel_modify; simp add: same_def)+

lemma stop_goals_goals:
  assumes "stop_goals systemID scope i d = (Inr (), d')"
  shows "db_goals d' = update_where (stopping_goal systemID scope i) (\<lambda>g. g\<lparr>gl_control := CStopped, gl_state := Canceled\<rparr>) (db_goals d)"
  using assms
  by (auto simp: stop_goals_def stop_agents_def stop_triggers_def tx_when_def tx_count_def elim!: tx_bind_ok tx_seq_ok split: if_splits)

text \<open>Stopping a scope halts every task of it that was live, and stops the live continuous goals.\<close>

lemma stopTasks_system:
  assumes run: "stopTasks systemID ''system'' i source reason now d = (Inr ids, d')"
    and keys: "distinct (map task_key (db_tasks d))"
  shows "map task_key (db_tasks d') = map task_key (db_tasks d)"
    and "\<forall>t \<in> set (db_tasks d). live_task systemID t \<longrightarrow> task_halted d' (task_key t)"
    and "\<forall>x \<in> set (db_tasks d'). live_task systemID x \<longrightarrow> t_control x = CStopped \<and> held d' (task_key x)"
    and "\<forall>g \<in> set (db_goals d'). gl_system_id g = systemID \<and> gl_continuous g \<longrightarrow> \<not> live (gl_state g)"
proof -
  let ?ts = "stopped_tasks d systemID ''system'' i"
  from run obtain d1 d2 where d1: "tx_foreach (\<lambda>t. tx_update db_tasks_update (\<lambda>x. t_system_id x = systemID \<and> t_id x = t_id t)
      (\<lambda>x. x\<lparr>t_control := CStopped\<rparr>)) ?ts d = (Inr (), d1)"
    and d2: "tx_foreach (\<lambda>t. stop_task systemID source reason now (t_id t)) ?ts d1 = (Inr (), d2)"
    and d': "stop_goals systemID ''system'' i d2 = (Inr (), d')"
    by (auto simp: stopTasks_def stop_scope_def tx_when_def elim!: tx_bind_ok tx_seq_ok)
  have ts: "set ?ts = {t \<in> set (db_tasks d). live_task systemID t}"
    by (auto simp: stopped_tasks_def Let_def in_scope_def live_task_def intro: recursive_rows_start)
  have keys1: "map task_key (db_tasks d1) = map task_key (db_tasks d)"
    using control_rows(1) [OF d1] by (auto simp: task_key_def)
  have loop: "winding d1 d2 \<and> (\<forall>t \<in> set ?ts. task_halted d2 (systemID, t_id t))"
  proof (rule foreach_establishes [OF d2, where I = "winding d1" and Q = "\<lambda>t s. task_halted s (systemID, t_id t)"])
    show "winding d1 d1" by (simp add: winding_def ending.R_refl dequeuing.R_refl)
  next
    fix t s s' assume w: "winding d1 s" and step: "stop_task systemID source reason now (t_id t) s = (Inr (), s')"
    have "distinct (map task_key (db_tasks s))" using winding_keys [OF w] keys keys1 by simp
    then show "winding d1 s' \<and> task_halted s' (systemID, t_id t)"
      using stop_task_winding [OF step] stop_task_halts [OF step] winding_trans [OF w] by blast
  next
    fix t s s' and y :: task_row assume "stop_task systemID source reason now (t_id t) s = (Inr (), s')" "task_halted s (systemID, t_id y)"
    then show "task_halted s' (systemID, t_id y)" using stop_task_winding winding_task_halted by blast
  qed
  have same: "db_tasks d' = db_tasks d2" "db_mailboxes d' = db_mailboxes d2" "db_calls d' = db_calls d2"
    using stop_goals_tasks [THEN tx_rel_result, OF d'] by (simp_all add: same_def)
  show "map task_key (db_tasks d') = map task_key (db_tasks d)"
    using winding_keys loop keys1 same by metis
  have halt: "task_halted d' k = task_halted d2 k" for k by (simp only: task_halted_def held_def leases_def same)
  show halts: "\<forall>t \<in> set (db_tasks d). live_task systemID t \<longrightarrow> task_halted d' (task_key t)"
  proof (intro ballI impI)
    fix t assume t: "t \<in> set (db_tasks d)" "live_task systemID t"
    then have "t_system_id t = systemID" by (simp add: live_task_def)
    moreover have "t \<in> set ?ts" using t ts by simp
    then have "task_halted d2 (systemID, t_id t)" using loop by blast
    ultimately show "task_halted d' (task_key t)" by (simp only: halt task_key_def)
  qed
  show "\<forall>x \<in> set (db_tasks d'). live_task systemID x \<longrightarrow> t_control x = CStopped \<and> held d' (task_key x)"
  proof (intro ballI impI)
    fix x assume x: "x \<in> set (db_tasks d')" "live_task systemID x"
    then obtain x1 where x1: "x1 \<in> set (db_tasks d1)" "ended x1 x"
      using loop ending_row same by (metis winding_def)
    with x(2) have "x = x1" by (auto simp: ended_def live_task_def live_def TaskTerminal_def)
    with x1(1) obtain x0 where x0: "x0 \<in> set (db_tasks d)"
      "x = (if t_system_id x0 = systemID \<and> t_id x0 \<in> t_id ` set ?ts then x0\<lparr>t_control := CStopped\<rparr> else x0)"
      unfolding control_rows(1) [OF d1] set_map by blast
    show "t_control x = CStopped \<and> held d' (task_key x)"
    proof (cases "t_system_id x0 = systemID \<and> t_id x0 \<in> t_id ` set ?ts")
      case True
      have x_eq: "x = x0\<lparr>t_control := CStopped\<rparr>" using x0(2) unfolding if_P [OF True] .
      then have "live_task systemID x0" using x(2) by (simp add: live_task_def)
      then have "task_halted d' (task_key x)" using halts x0(1) by (simp add: x_eq task_key_def)
      then have "held d' (task_key x)" using x by (auto simp: task_halted_def live_task_def live_def TaskTerminal_def)
      with x_eq show ?thesis by simp
    next
      case False
      from x0(2) have "x = x0" unfolding if_not_P [OF False] .
      with x(2) x0(1) ts False show ?thesis by (auto simp only: live_task_def)
    qed
  qed
  show "\<forall>g \<in> set (db_goals d'). gl_system_id g = systemID \<and> gl_continuous g \<longrightarrow> \<not> live (gl_state g)"
  proof (intro ballI impI)
    fix g assume "g \<in> set (db_goals d')" and g: "gl_system_id g = systemID \<and> gl_continuous g"
    from this(1) [unfolded stop_goals_goals [OF d']] show "\<not> live (gl_state g)"
    proof (cases rule: updated_row)
      case (1 g0)
      then show ?thesis by (simp add: live_def)
    next
      case 2
      with g show ?thesis by (simp add: stopping_goal_def)
    qed
  qed
qed

section \<open>A stopping system stays so\<close>

definition winding_down :: "string \<Rightarrow> db \<Rightarrow> bool" where
  "winding_down systemID d \<longleftrightarrow> (\<forall>s \<in> set (db_systems d). sy_system_id s = systemID \<longrightarrow> sy_state s = SStopping \<or> sy_state s = SStopped)"

lemma winding_down_same: "tx_rel (same db_systems) m \<Longrightarrow> tx_rel (keeps (winding_down i)) m"
  by (simp add: tx_rel_def same_def keeps_def winding_down_def)

lemma event_task_systems:
  "tx_rel (same db_systems) (emitEvent t kind source causation payload now)"
  "tx_rel (same db_systems) (settle_task t ongoing state response reason)"
  unfolding emitEvent_def insert_event_def event_depth_def readGoal_def settle_task_def cancel_triggers_def end_task_def
    continuePendingInput_def move_inputs_def kill_mail_def idle_goal_def wakeContinuousTask_def live_or_fresh_def
    start_continuation_def goal_and_state_def insert_task_def
  by (intro frame_rules db_frame.rel_insert db_frame.rel_new_id db_frame.rel_update frame.rel_modify db_frame.rel_pure [OF readAgent_pure]
      db_frame.rel_pure [OF readTask_pure]; simp add: same_def)+

lemma winding_down_systems:
  assumes "\<And>d s. sy_system_id (f d s) = sy_system_id s"
    and "\<And>d s. sy_system_id s = i \<Longrightarrow> sy_state s = SStopping \<or> sy_state s = SStopped \<Longrightarrow> sy_state (f d s) = SStopping \<or> sy_state (f d s) = SStopped"
  shows "tx_rel (keeps (winding_down i)) (tx_modify (\<lambda>d. db_systems_update (update_where P (f d)) d))"
proof -
  have "winding_down i (db_systems_update (update_where P (f d)) d)" if d: "winding_down i d" for d
    unfolding winding_down_def systems_table.rows_set
  proof (intro ballI impI)
    fix s assume "s \<in> set (update_where P (f d) (db_systems d))" and i: "sy_system_id s = i"
    from this(1) show "sy_state s = SStopping \<or> sy_state s = SStopped"
    proof (cases rule: updated_row)
      case (1 x)
      with assms(1) [of d x] assms(2) [of x d] i d show ?thesis by (simp add: winding_down_def)
    next
      case 2
      with i d show ?thesis by (simp add: winding_down_def)
    qed
  qed
  then show ?thesis by (simp add: tx_rel_def tx_modify_def keeps_def)
qed

lemma winding_down_set:
  assumes "st = SStopping \<or> st = SStopped"
  shows "winding_down i (db_systems_update (update_where (\<lambda>s. sy_system_id s = i) (\<lambda>s. s\<lparr>sy_state := st\<rparr>)) d)"
  unfolding winding_down_def systems_table.rows_set
  by (intro ballI impI, erule updated_row) (use assms in simp_all)

lemma end_goal_winding_down: "tx_rel (keeps (winding_down i)) (end_goal t state)"
  unfolding end_goal_def update_goal_def
  by (intro accounting_rules db_invariant.rel_update winding_down_systems) (auto simp: keeps_def winding_down_def)

lemma terminate_steps_winding_down: "tx_rel (keeps (winding_down i)) (terminate_steps n t state response reason source cause now)"
proof (induction n arbitrary: t state response reason source)
  case 0 then show ?case by (simp add: invariant.rel_fail)
next
  case (Suc n)
  show ?case
    unfolding terminate_steps.simps
    by (intro accounting_rules winding_down_same [OF event_task_systems(1)] winding_down_same [OF event_task_systems(2)]
        end_goal_winding_down Suc.IH db_invariant.rel_pure [OF goalIsContinuous_pure] db_invariant.rel_pure [OF readTask_pure])
qed

lemma stopTasks_winding_down: "tx_rel (keeps (winding_down i)) (stopTasks i scope j source reason now)"
proof -
  have update: "tx_rel (keeps (winding_down i)) (update_system i (\<lambda>s. s\<lparr>sy_state := SStopping\<rparr>))"
    unfolding update_system_def tx_update_def by (rule winding_down_systems) simp_all
  have rows: "tx_rel (same db_systems) (tx_update db_tasks_update P f)" "tx_rel (same db_systems) (tx_update db_calls_update Q g)"
    "tx_rel (same db_systems) (stop_scope i s k)" for P f Q g s k
    unfolding stop_scope_def by (intro frame_rules db_frame.rel_update; simp add: same_def)+
  have task: "tx_rel (keeps (winding_down i)) (stop_task i source reason now taskID)" for taskID
    unfolding stop_task_def terminateTask_def
    by (intro accounting_rules update terminate_steps_winding_down winding_down_same [OF rows(2)] db_invariant.rel_pure [OF readTask_pure])
  have stop_rest: "tx_rel (same db_systems) (stop_agents i s k)" "tx_rel (same db_systems) (stop_triggers i s k)" for s k
    unfolding stop_agents_def stop_triggers_def by (intro frame.rel_modify; simp add: same_def)+
  have goals: "tx_rel (keeps (winding_down i)) (stop_goals i s k)" for s k
    unfolding stop_goals_def
    by (intro accounting_rules db_invariant.rel_update winding_down_systems winding_down_same [OF stop_rest(1)]
        winding_down_same [OF stop_rest(2)]) (auto simp: keeps_def winding_down_def)
  show ?thesis
    unfolding stopTasks_def
    by (intro accounting_rules task goals winding_down_same [OF rows(1)] winding_down_same [OF rows(3)])
qed

text \<open>
  C21. Stopping a system stops its work. After StopSystem the system is stopping or stopped, it has the
  tasks it had, every one of them that is still live is marked stopped and held by a worker's lease
  (whose end of the activation ends it), every task that was live and is not held has no model call
  waiting for dispatch, and no continuous goal of the system is live.
\<close>

theorem StopSystem_stops:
  assumes "StopSystem H actor key systemID now d = (Inr r, d')" and "receipt_of d actor key = None"
    and "distinct (map task_key (db_tasks d))"
  shows "map task_key (db_tasks d') = map task_key (db_tasks d) \<and>
    (\<forall>t \<in> set (db_tasks d'). live_task systemID t \<longrightarrow> t_control t = CStopped \<and> held d' (task_key t)) \<and>
    (\<forall>t \<in> set (db_tasks d). live_task systemID t \<longrightarrow> held d' (task_key t) \<or>
       (\<forall>c \<in> set (db_calls d'). (mc_system_id c, mc_task_id c) = task_key t \<longrightarrow> \<not> undispatched (mc_state c))) \<and>
    (\<forall>g \<in> set (db_goals d'). gl_system_id g = systemID \<and> gl_continuous g \<longrightarrow> \<not> live (gl_state g)) \<and>
    winding_down systemID d'"
proof -
  obtain d5 where run: "stop_system H actor systemID now d = (Inr r, d5)" and
    rec: "record_receipt actor key (JsonDigest H (JArr [JStr ''system.stop'', JStr systemID])) now r d5 = (Inr (), d')"
    using assms(1,2) unfolding StopSystem_def by (rule command_fresh)
  from run show ?thesis
    unfolding stop_system_def
  proof (elim tx_bind_ok tx_seq_ok)
    fix rec0 d0 d1 d2 d3 d4 da ids
    assume read: "readSystem H actor systemID d = (Inr rec0, d0)" and d1: "update_system systemID (\<lambda>s. s\<lparr>sy_state := if busy (sr_state rec0) then SStopping else SStopped\<rparr>) d0 = (Inr (), d1)"
    and goals: "tx_update db_goals_update (\<lambda>g. gl_system_id g = systemID \<and> gl_state g = Pending) (\<lambda>g. g\<lparr>gl_state := Canceled\<rparr>) d1 = (Inr (), d2)"
      "tx_update db_goals_update (\<lambda>g. gl_system_id g = systemID \<and> live (gl_state g)) (\<lambda>g. g\<lparr>gl_control := CStopped\<rparr>) d2 = (Inr (), d3)"
    and d4: "stopTasks systemID ''system'' '''' localAdministrator ''stopped by administrator'' now d3 = (Inr ids, d4)"
    and audit: "auditExecution systemID actor ''system.stop'' (sr_revision rec0) now d4 = (Inr (), da)"
    and result: "readSystem H actor systemID da = (Inr r, d5)"
    have d0: "d0 = d" "d5 = da" using read result by (simp_all add: runs)
    have tables: "db_tasks d' = db_tasks d4" "db_mailboxes d' = db_mailboxes d4" "db_calls d' = db_calls d4" "db_goals d' = db_goals d4"
      "db_systems d' = db_systems d4"
      using rec audit d0(2) by (auto simp: record_receipt_def auditExecution_def)
    have d3_tables: "db_tasks d3 = db_tasks d" "db_calls d3 = db_calls d" using d1 goals d0 by (auto simp: update_system_def)
    have "db_systems d3 = db_systems d1" using goals by simp
    moreover have "winding_down systemID d1"
      using d1 unfolding update_system_def tx_update_ok by (auto intro!: winding_down_set)
    ultimately have "winding_down systemID d3" by (simp add: winding_down_def)
    with tx_rel_result [OF stopTasks_winding_down d4] have "winding_down systemID d4" by (simp add: keeps_def)
    then have down: "winding_down systemID d'" by (simp add: winding_down_def tables)
    note stop = stopTasks_system [OF d4, unfolded d3_tables, OF assms(3)]
    have same: "held d' k = held d4 k" "task_halted d' k = task_halted d4 k" for k
      by (simp_all only: task_halted_def held_def leases_def tables)
    show ?thesis
      using stop down unfolding tables same by (auto simp: task_halted_def)
  qed
qed

section \<open>Application\<close>

text \<open>A running system with one waiting root task that no worker holds.\<close>

definition waiting_db :: db where
  "waiting_db = (empty_db [])\<lparr>db_systems := [sample_system], db_revisions := [sample_revision], db_goals := [sample_goal],
     db_tasks := [sample_task\<lparr>t_state := Waiting, t_call_id := ''''\<rparr>]\<rparr>"

lemma waiting_tables [sample]: "db_systems waiting_db = [sample_system]" "db_revisions waiting_db = [sample_revision]"
  "db_goals waiting_db = [sample_goal]" "db_tasks waiting_db = [sample_task\<lparr>t_state := Waiting, t_call_id := ''''\<rparr>]"
  "db_calls waiting_db = []" "db_mailboxes waiting_db = []" "db_receipts waiting_db = []" "db_schedules waiting_db = []"
  "db_subscriptions waiting_db = []" "db_agents waiting_db = []" "db_events waiting_db = []"
  by (simp_all add: waiting_db_def empty_db_def)

definition stopping_db :: db where
  "stopping_db = waiting_db\<lparr>db_systems := [sample_system\<lparr>sy_state := SStopping\<rparr>], db_goals := [sample_goal\<lparr>gl_control := CStopped\<rparr>]\<rparr>"

lemma waiting_scope: "stopped_tasks stopping_db ''sys'' ''system'' '''' = [sample_task\<lparr>t_state := Waiting, t_call_id := ''''\<rparr>]"
  by (subst stopped_tasks_def, subst recursive_rows.simps)
    (simp add: stopping_db_def in_scope_def Let_def sample live_def)

lemma waiting_ends:
  "\<exists>d1. stop_task ''sys'' localAdministrator ''stopped by administrator'' 1000 ''t''
      (stopping_db\<lparr>db_tasks := [sample_task\<lparr>t_state := Waiting, t_call_id := '''', t_control := CStopped\<rparr>]\<rparr>) = (Inr (), d1) \<and>
     db_systems d1 = [sample_system\<lparr>sy_state := SStopped\<rparr>] \<and> db_revisions d1 = [sample_revision] \<and>
     db_goals d1 = [sample_goal\<lparr>gl_control := CStopped, gl_state := Canceled\<rparr>] \<and> db_calls d1 = [] \<and> db_receipts d1 = [] \<and> db_mailboxes d1 = []"
  by (simp add: stopping_db_def sample stop_task_def tx_defs tx_update_def readTask_def tx_find_def update_system_def row_simps terminateTask_def
      numeral_eq_Suc goalIsContinuous_def readGoal_def settle_task_def cancel_triggers_def end_task_def kill_mail_def end_goal_def
      update_goal_def TaskTerminal_def exists_where_iff leased_in_def)

lemma waiting_run:
  "\<exists>ids d1. stopTasks ''sys'' ''system'' '''' localAdministrator ''stopped by administrator'' 1000 stopping_db = (Inr ids, d1) \<and>
     db_systems d1 = [sample_system\<lparr>sy_state := SStopped\<rparr>] \<and> db_revisions d1 = [sample_revision] \<and>
     db_goals d1 = [sample_goal\<lparr>gl_control := CStopped, gl_state := Canceled\<rparr>] \<and> db_calls d1 = [] \<and> db_receipts d1 = []"
proof -
  have control: "tx_foreach (\<lambda>t. tx_update db_tasks_update (\<lambda>x. t_system_id x = ''sys'' \<and> t_id x = t_id t) (\<lambda>x. x\<lparr>t_control := CStopped\<rparr>))
      [sample_task\<lparr>t_state := Waiting, t_call_id := ''''\<rparr>] stopping_db =
      (Inr (), stopping_db\<lparr>db_tasks := [sample_task\<lparr>t_state := Waiting, t_call_id := '''', t_control := CStopped\<rparr>]\<rparr>)"
    by (simp add: tx_defs tx_update_def stopping_db_def sample row_simps)
  obtain d1 where d1: "stop_task ''sys'' localAdministrator ''stopped by administrator'' 1000 ''t''
      (stopping_db\<lparr>db_tasks := [sample_task\<lparr>t_state := Waiting, t_call_id := '''', t_control := CStopped\<rparr>]\<rparr>) = (Inr (), d1)"
    "db_systems d1 = [sample_system\<lparr>sy_state := SStopped\<rparr>] \<and> db_revisions d1 = [sample_revision] \<and>
     db_goals d1 = [sample_goal\<lparr>gl_control := CStopped, gl_state := Canceled\<rparr>] \<and> db_calls d1 = [] \<and> db_receipts d1 = []"
    using waiting_ends by blast
  have goals: "stop_goals ''sys'' ''system'' '''' d1 = (Inr (), d1)"
    using d1(2) by (simp add: stop_goals_def tx_defs tx_update_def tx_count_def stopping_goal_def sample row_simps)
  show ?thesis
    using d1(2) by (simp add: stopTasks_def stop_scope_def tx_bind_def tx_seq_def tx_gets_def tx_when_def tx_return_def waiting_scope control d1(1) goals sample
        del: tx_foreach.simps) (simp add: tx_defs d1(1) sample goals)
qed

lemma waiting_stopped:
  obtains r d' where "StopSystem sample_digest localAdministrator ''k'' ''sys'' 1000 waiting_db = (Inr r, d')"
proof -
  have read: "readSystem sample_digest localAdministrator ''sys'' d =
      (Inr ((system_record_of s sample_revision [])\<lparr>sr_goal := Some (initial_goal_of g)\<rparr>), d)"
    if "db_systems d = [s]" "db_revisions d = [sample_revision]" "db_goals d = [g]" "db_calls d = []"
      "sy_system_id s = ''sys''" "sy_owner s = localAdministrator" "sy_revision s = 1"
      "gl_system_id g = ''sys''" "gl_owner g = localAdministrator" "gl_is_initial g" for d s g
    by (rule readSystem_new) (use that in \<open>simp_all add: sample\<close>)
  have first: "readSystem sample_digest localAdministrator ''sys'' waiting_db =
      (Inr ((system_record_of sample_system sample_revision [])\<lparr>sr_goal := Some (initial_goal_of sample_goal)\<rparr>), waiting_db)"
    by (rule read) (simp_all add: sample)
  obtain ids d1 where d1: "stopTasks ''sys'' ''system'' '''' localAdministrator ''stopped by administrator'' 1000 stopping_db = (Inr ids, d1)"
    "db_systems d1 = [sample_system\<lparr>sy_state := SStopped\<rparr>]" "db_revisions d1 = [sample_revision]"
    "db_goals d1 = [sample_goal\<lparr>gl_control := CStopped, gl_state := Canceled\<rparr>]" "db_calls d1 = []" "db_receipts d1 = []"
    using waiting_run by blast
  let ?audit = "db_audit_update (\<lambda>rs. rs @ [\<lparr>au_system_id = ''sys'', au_principal = localAdministrator, au_action = ''system.stop'',
       au_revision = 1, au_created_at = 1000\<rparr>]) d1"
  have last: "readSystem sample_digest localAdministrator ''sys'' ?audit = (Inr ((system_record_of (sample_system\<lparr>sy_state := SStopped\<rparr>)
      sample_revision [])\<lparr>sr_goal := Some (initial_goal_of (sample_goal\<lparr>gl_control := CStopped, gl_state := Canceled\<rparr>))\<rparr>), ?audit)"
    by (rule read) (simp_all add: sample d1)
  have set: "update_system ''sys'' (\<lambda>s. s\<lparr>sy_state := SStopping\<rparr>) waiting_db = (Inr (), waiting_db\<lparr>db_systems := [sample_system\<lparr>sy_state := SStopping\<rparr>]\<rparr>)"
    by (simp add: update_system_def tx_update_def tx_modify_def sample row_simps)
  have goals: "tx_update db_goals_update (\<lambda>g. gl_system_id g = ''sys'' \<and> gl_state g = Pending) (\<lambda>g. g\<lparr>gl_state := Canceled\<rparr>)
      (waiting_db\<lparr>db_systems := [sample_system\<lparr>sy_state := SStopping\<rparr>]\<rparr>) = (Inr (), waiting_db\<lparr>db_systems := [sample_system\<lparr>sy_state := SStopping\<rparr>]\<rparr>)"
    "tx_update db_goals_update (\<lambda>g. gl_system_id g = ''sys'' \<and> live (gl_state g)) (\<lambda>g. g\<lparr>gl_control := CStopped\<rparr>)
      (waiting_db\<lparr>db_systems := [sample_system\<lparr>sy_state := SStopping\<rparr>]\<rparr>) = (Inr (), stopping_db)"
    by (simp_all add: tx_update_def tx_modify_def sample row_simps stopping_db_def live_def)
  have audit: "auditExecution ''sys'' localAdministrator ''system.stop'' 1 1000 d1 = (Inr (), ?audit)"
    by (simp add: auditExecution_def tx_modify_def)
  have rec0: "sr_state ((system_record_of sample_system sample_revision [])\<lparr>sr_goal := g\<rparr>) = SRunning"
    "sr_revision ((system_record_of sample_system sample_revision [])\<lparr>sr_goal := g\<rparr>) = 1" for g
    by (simp_all add: system_record_of_def sample)
  have "\<exists>r d'. stop_system sample_digest localAdministrator ''sys'' 1000 waiting_db = (Inr r, d') \<and> db_receipts d' = []"
    by (simp add: stop_system_def tx_bind_def tx_seq_def first rec0 busy_def set goals d1(1) audit last del: tx_update_ok)
      (simp add: d1(6))
  then obtain r d' where run: "stop_system sample_digest localAdministrator ''sys'' 1000 waiting_db = (Inr r, d')" "db_receipts d' = []" by blast
  then have "\<exists>r d'. StopSystem sample_digest localAdministrator ''k'' ''sys'' 1000 waiting_db = (Inr r, d')"
    by (simp add: StopSystem_def command_def fresh_command_def record_receipt_def tx_insert_def tx_defs receipt_of_def sample)
  then show thesis using that by blast
qed

theorem StopSystem_stops_applied:
  "\<exists>r d'. StopSystem sample_digest localAdministrator ''k'' ''sys'' 1000 waiting_db = (Inr r, d') \<and> winding_down ''sys'' d'"
proof -
  obtain r d' where run: "StopSystem sample_digest localAdministrator ''k'' ''sys'' 1000 waiting_db = (Inr r, d')" by (rule waiting_stopped)
  from StopSystem_stops [OF run] run show ?thesis by (simp add: receipt_of_def sample)
qed

end
