(* ===== verification/Commands.thy ===== *)
theory Commands
  imports Lifecycle
begin

text \<open>
  The administrator's commands inside a system (commands.go and the artifacts of registry.go):
  \<open>mutation\<close> wraps each in \<open>command\<close>, so that a key is used once, appends it to the audit and
  stores its result with the system's record. The handlers follow: tool drafts, revocation and
  assignment, input and attachments, pause, resume and stop, memory, schedules and subscriptions,
  protected checks and feedback.
\<close>

section \<open>mutation\<close>

definition mutation_hash :: "(string \<Rightarrow> string) \<Rightarrow> string \<Rightarrow> string \<Rightarrow> json \<Rightarrow> string" where
  "mutation_hash H operation systemID body =
     JsonDigest H (JObj [(''Operation'', JStr operation), (''SystemID'', JStr systemID), (''Body'', body)])"

definition mutate_system :: "(string \<Rightarrow> string) \<Rightarrow> string \<Rightarrow> string \<Rightarrow> int \<Rightarrow> (system_record \<Rightarrow> json op) \<Rightarrow> system_record op" where
  "mutate_system H systemID operation now mutate =
     tx_bind (readSystem H localAdministrator systemID) (\<lambda>record.
     tx_bind (mutate record) (\<lambda>result.
     tx_seq (auditExecution systemID localAdministrator operation (sr_revision record) now)
     (tx_bind (readSystem H localAdministrator systemID) (\<lambda>record.
      tx_return (record\<lparr>sr_command_result := Some result\<rparr>)))))"

definition mutation :: "(string \<Rightarrow> string) \<Rightarrow> string \<Rightarrow> string \<Rightarrow> string \<Rightarrow> json \<Rightarrow> int \<Rightarrow> (system_record \<Rightarrow> json op) \<Rightarrow> system_record op" where
  "mutation H key systemID operation body now mutate =
     command H localAdministrator key (mutation_hash H operation systemID body) now
       (mutate_system H systemID operation now mutate)"

text \<open>A handler that names an object beside the command: struct\{ID; Command\}.\<close>

definition json_named :: "string \<Rightarrow> string \<Rightarrow> json \<Rightarrow> json" where
  "json_named name i body = JObj [(name, JStr i), (''Command'', body)]"

section \<open>Drafts, revocation and assignment\<close>

definition ProposeTool :: "(string \<Rightarrow> string) \<Rightarrow> configuration \<Rightarrow> string \<Rightarrow> string \<Rightarrow> draft_command \<Rightarrow> int \<Rightarrow> system_record op" where
  "ProposeTool H cfg key systemID c now = mutation H key systemID ''tool.propose'' (json_draft_command c) now (\<lambda>s.
     tx_bind (submitDraft H cfg (sr_id s) localAdministrator '''' '''' c) (\<lambda>i.
     tx_return (JObj [(''state'', JStr ''draft''), (''tool_id'', JStr i)])))"

record change_draft_command =
  cd_version :: int
  cd_state :: string

definition json_change_draft :: "change_draft_command \<Rightarrow> json" where
  "json_change_draft c = JObj [(''version'', JInt (cd_version c)), (''state'', JStr (cd_state c))]"

definition change_draft :: "change_draft_command \<Rightarrow> string \<Rightarrow> system_record \<Rightarrow> json op" where
  "change_draft c i s =
     (let mine = (\<lambda>t. td_system_id t = sr_id s \<and> td_tool_id t = i \<and> td_version t = cd_version c) in
      tx_bind (tx_count db_drafts mine) (\<lambda>n.
      tx_seq (tx_update db_drafts_update mine (\<lambda>t. t\<lparr>td_state := if cd_state c = ''rejected'' then DRejected else DDisabled\<rparr>))
      (tx_seq (tx_reject (n \<noteq> 1) ErrSystemNotFound)
      (tx_seq (tx_update db_evaluations_update (\<lambda>e. le_system_id e = sr_id s \<and> le_tool_id e = i \<and> le_version e = cd_version c \<and>
                 le_state e \<noteq> LQueued \<and> le_state e \<noteq> LEvaluating)
                 (\<lambda>e. e\<lparr>le_state := if cd_state c = ''rejected'' then LRejected else LDisabled\<rparr>))
      (tx_return (JObj [(''state'', JStr (cd_state c)), (''tool_id'', JStr i)]))))))"

definition ChangeDraftState :: "(string \<Rightarrow> string) \<Rightarrow> string \<Rightarrow> string \<Rightarrow> change_draft_command \<Rightarrow> string \<Rightarrow> int \<Rightarrow> system_record op" where
  "ChangeDraftState H key systemID c i now =
     (if cd_version c < 1 \<or> (cd_state c \<noteq> ''rejected'' \<and> cd_state c \<noteq> ''disabled'')
      then tx_fail (FieldError ''state'' ''revisions may only be rejected or disabled here; approval requires exact protected evaluation evidence'')
      else mutation H key systemID ''tool.draft-state'' (json_named ''ID'' i (json_change_draft c)) now (change_draft c i))"

record revoke_tool_command =
  rt_name :: string
  rt_version :: int

definition json_revoke_tool :: "revoke_tool_command \<Rightarrow> json" where
  "json_revoke_tool c = JObj [(''name'', JStr (rt_name c)), (''version'', JInt (rt_version c))]"

definition revocable :: "configuration \<Rightarrow> string \<Rightarrow> revoke_tool_command \<Rightarrow> db \<Rightarrow> error option" where
  "revocable cfg systemID c d =
     (if local_name (rt_name c) then
        check (count_where (\<lambda>a. la_system_id a = systemID \<and> la_tool_id a = rt_name c \<and> la_version a = rt_version c) (db_approvals d) \<noteq> 1)
          (FieldError ''tool'' ''no approved local version in this system'')
      else check (case Tool cfg (rt_name c) of None \<Rightarrow> True | Some t \<Rightarrow> rt_version c \<noteq> tc_version t)
          (FieldError ''tool'' ''unknown or stale shared version''))"

definition revoke_tool :: "configuration \<Rightarrow> revoke_tool_command \<Rightarrow> system_record \<Rightarrow> json op" where
  "revoke_tool cfg c s =
     tx_bind (tx_gets (revocable cfg (sr_id s) c)) (\<lambda>e.
     tx_seq (tx_checked e)
     (tx_seq (tx_insert_or_ignore (=) db_revocations db_revocations_update
               \<lparr>rk_system_id = sr_id s, rk_name = rt_name c, rk_version = rt_version c\<rparr>)
       (tx_return (json_revoke_tool c))))"

definition RevokeTool :: "(string \<Rightarrow> string) \<Rightarrow> configuration \<Rightarrow> string \<Rightarrow> string \<Rightarrow> revoke_tool_command \<Rightarrow> int \<Rightarrow> system_record op" where
  "RevokeTool H cfg key systemID c now = mutation H key systemID ''tool.revoke'' (json_revoke_tool c) now (revoke_tool cfg c)"

record assign_tools_command =
  as_expected_revision :: int
  as_tools :: "tool_pin slice"

definition json_assign_tools :: "assign_tools_command \<Rightarrow> json" where
  "json_assign_tools c = JObj [(''expected_revision'', JInt (as_expected_revision c)), (''tools'', jslice json_pin (as_tools c))]"

definition json_agent :: "agent_record \<Rightarrow> json" where
  "json_agent a = JObj (field ''system_id'' (JStr (a_system_id a)) @ field ''agent_id'' (JStr (a_id a)) @
     field_omit (a_parent a = '''') ''parent_id'' (JStr (a_parent a)) @ field_omit (a_goal_id a = '''') ''goal_id'' (JStr (a_goal_id a)) @
     field ''name'' (JStr (a_name a)) @ field ''revision'' (JInt (a_revision a)) @ field ''state'' (JStr (control_name (a_state a))) @
     field ''depth'' (JInt (a_depth a)) @ field ''token_budget'' (JInt (a_token_budget a)) @ field ''max_turns'' (JInt (a_max_turns a)) @
     field ''definition'' (json_operator (a_definition a)) @ field ''tools'' (JArr (map json_pin (a_tools a))) @
     field ''available'' (JBool (a_available a)))"

definition assigned_agent :: "agent_record \<Rightarrow> tool_pin list \<Rightarrow> agent_record" where
  "assigned_agent a pins = a\<lparr>a_revision := a_revision a + 1, a_tools := pins,
     a_definition := (a_definition a)\<lparr>oc_tools := Some (map pin_name pins)\<rparr>\<rparr>"

definition revise_agent_row :: "agent_record \<Rightarrow> unit op" where
  "revise_agent_row a =
     tx_seq (insertAgentRevision a)
       (tx_update db_agents_update (\<lambda>x. ag_system_id x = a_system_id a \<and> ag_agent_id x = a_id a)
          (\<lambda>x. x\<lparr>ag_revision := a_revision a\<rparr>))"

definition assign_tools :: "(string \<Rightarrow> string) \<Rightarrow> configuration \<Rightarrow> assign_tools_command \<Rightarrow> string \<Rightarrow> int \<Rightarrow> system_record \<Rightarrow> json op" where
  "assign_tools H cfg c agentID now s =
     (let pins = elems (as_tools c) in
      tx_seq (tx_reject (agentID = sr_operator_id s)
                (FieldError ''agent'' ''revise the stopped system configuration to assign operator tools''))
      (tx_bind (tx_no_rows (readAgent (sr_id s) agentID 0) ErrSystemNotFound) (\<lambda>a.
       tx_seq (tx_reject (a_state a = CStopped) ErrExecutionConflict)
       (tx_seq (tx_reject (as_expected_revision c \<noteq> a_revision a) ErrRevisionConflict)
       (tx_seq (tx_reject (\<not> set pins \<subseteq> set (gr_system_tools (sr_grants s)))
                 (FieldError ''tools'' ''assignment is not an exact system-granted pin''))
       (tx_seq (tx_checked (UniqueNames (map pin_name pins) ''tools''))
       (tx_seq (authorizePins H cfg (sr_id s) pins now)
       (tx_seq (revise_agent_row (assigned_agent a pins))
         (tx_return (json_agent (assigned_agent a pins)))))))))))"

definition AssignTools :: "(string \<Rightarrow> string) \<Rightarrow> configuration \<Rightarrow> string \<Rightarrow> string \<Rightarrow> assign_tools_command \<Rightarrow> string \<Rightarrow> int \<Rightarrow> system_record op" where
  "AssignTools H cfg key systemID c agentID now =
     mutation H key systemID ''agent.assign-tools'' (json_named ''AgentID'' agentID (json_assign_tools c)) now
       (assign_tools H cfg c agentID now)"

section \<open>Input\<close>

text \<open>The task input goes to: a live one of the agent, or the last one of a continuous goal.\<close>

definition task_owners :: "db \<Rightarrow> task_row \<Rightarrow> (agent_row \<times> goal_row) option" where
  "task_owners d t = Option.bind (agent_of d (t_system_id t) (t_agent_id t)) (\<lambda>a.
     map_option (\<lambda>g. (a, g)) (goal_of d (t_system_id t) (t_goal_id t)))"

definition accepts_input :: "db \<Rightarrow> string \<Rightarrow> string \<Rightarrow> task_row \<Rightarrow> bool" where
  "accepts_input d systemID agentID t \<longleftrightarrow> t_system_id t = systemID \<and> t_agent_id t = agentID \<and> live (t_state t) \<and>
     t_control t \<noteq> CStopped \<and>
     (case task_owners d t of None \<Rightarrow> False | Some (a, g) \<Rightarrow> ag_state a \<noteq> CStopped \<and> gl_control g \<noteq> CStopped)"

definition resumable_task :: "db \<Rightarrow> string \<Rightarrow> string \<Rightarrow> string \<Rightarrow> task_row \<Rightarrow> bool" where
  "resumable_task d systemID agentID goalID t \<longleftrightarrow> t_system_id t = systemID \<and> t_agent_id t = agentID \<and> t_goal_id t = goalID \<and>
     t_control t \<noteq> CStopped \<and> t_learning_id t = '''' \<and>
     (case agent_of d systemID agentID of None \<Rightarrow> False | Some a \<Rightarrow> ag_state a \<noteq> CStopped)"

definition previous_task :: "system_record \<Rightarrow> string \<Rightarrow> task_row op" where
  "previous_task s agentID =
     (case sr_execution s of None \<Rightarrow> tx_fail ErrSystemNotFound
      | Some e \<Rightarrow> if \<not> sr_continuous s then tx_fail ErrSystemNotFound
          else tx_bind (tx_no_rows (tx_row (\<lambda>d. List.find (resumable_task d (sr_id s) agentID (e_goal_id e)) (rev (db_tasks d))))
                          ErrSystemNotFound) (\<lambda>t. readTask (sr_id s) (t_id t)))"

definition inputTask :: "system_record \<Rightarrow> string \<Rightarrow> task_row op" where
  "inputTask s agentID0 =
     tx_seq (tx_reject (sr_state s \<noteq> SRunning \<and> sr_state s \<noteq> SPaused) ErrExecutionConflict)
     (let agentID = (if agentID0 = '''' then sr_operator_id s else agentID0) in
      tx_bind (tx_gets (\<lambda>d. List.find (accepts_input d (sr_id s) agentID) (db_tasks d))) (\<lambda>found.
      case found of None \<Rightarrow> previous_task s agentID
      | Some x \<Rightarrow> tx_bind (readTask (sr_id s) (t_id x)) (\<lambda>t.
          tx_seq (tx_reject (t_learning_id t \<noteq> '''') (FieldError ''evaluation'' ''protected inputs cannot be amended''))
            (tx_return t))))"

definition json_content :: "string \<Rightarrow> json" where
  "json_content content = JObj [(''content'', JStr content)]"

record add_input_command =
  ai_agent_id :: string
  ai_content :: string

definition json_add_input :: "add_input_command \<Rightarrow> json" where
  "json_add_input c = JObj (field_omit (ai_agent_id c = '''') ''agent_id'' (JStr (ai_agent_id c)) @ field ''content'' (JStr (ai_content c)))"

definition add_input :: "add_input_command \<Rightarrow> int \<Rightarrow> system_record \<Rightarrow> json op" where
  "add_input c now s =
     tx_bind (inputTask s (ai_agent_id c)) (\<lambda>t.
     tx_bind (wakeContinuousTask t) (\<lambda>t.
     tx_bind (emitEvent t ''user.input'' localAdministrator '''' (json_content (ai_content c)) now) (\<lambda>i.
     tx_return (JObj [(''event_id'', JStr i), (''state'', JStr ''pending'')]))))"

definition AddInput :: "(string \<Rightarrow> string) \<Rightarrow> string \<Rightarrow> string \<Rightarrow> add_input_command \<Rightarrow> int \<Rightarrow> system_record op" where
  "AddInput H key systemID c now =
     (if blank (ai_content c) \<or> length (ai_content c) > 4096 then tx_fail (FieldError ''content'' ''requires 1-4096 bytes'')
      else mutation H key systemID ''user.input'' (json_add_input c) now (add_input c now))"

record attachment_command =
  ac_agent_id :: string
  ac_name :: string
  ac_content :: string

definition json_attachment :: "attachment_command \<Rightarrow> json" where
  "json_attachment c = JObj (field_omit (ac_agent_id c = '''') ''agent_id'' (JStr (ac_agent_id c)) @
     field ''name'' (JStr (ac_name c)) @ field ''content'' (JStr (ac_content c)))"

definition attachment_data :: "attachment_command \<Rightarrow> string" where
  "attachment_data c = marshal (JObj [(''name'', JStr (ac_name c)), (''text'', JStr (ac_content c))])"

definition attachment_refusal :: "attachment_command \<Rightarrow> error option" where
  "attachment_refusal c = first_error
     [check (blank (ac_name c) \<or> length (ac_name c) > 128 \<or>
             list_ex (\<lambda>x. x = CHR ''/'' \<or> x = CHR 0x5C \<or> x = nul) (ac_name c) \<or>
             ac_content c = '''' \<or> length (ac_content c) > 3072 \<or> nul \<in> set (ac_content c))
        (FieldError ''attachment'' ''requires a display name and 1-3072 bytes of UTF-8 text; host paths and executable uploads are not supported''),
      check (length (attachment_data c) > 4096) (FieldError ''attachment'' ''encoded text attachment exceeds 4096 bytes'')]"

definition insert_artifact :: "artifact_row \<Rightarrow> unit op" where
  "insert_artifact = tx_insert ''artifacts'' (\<lambda>x y. af_system_id x = af_system_id y \<and> af_artifact_id x = af_artifact_id y)
     db_artifacts db_artifacts_update"

definition attachment_text :: "attachment_command \<Rightarrow> string \<Rightarrow> string" where
  "attachment_text c i = ''Attachment (untrusted data; '' @ i @ ''; '' @ ac_name c @ ''):'' @ [newline] @ ac_content c"

definition add_attachment :: "(string \<Rightarrow> string) \<Rightarrow> attachment_command \<Rightarrow> int \<Rightarrow> system_record \<Rightarrow> json op" where
  "add_attachment H c now s =
     tx_bind (inputTask s (ac_agent_id c)) (\<lambda>t.
     tx_bind (wakeContinuousTask t) (\<lambda>t.
     tx_bind (tx_count db_artifacts (\<lambda>a. af_system_id a = sr_id s)) (\<lambda>n.
     tx_seq (tx_reject (n \<ge> 2048) (FieldError ''artifacts'' ''system artifact capacity exhausted''))
     (tx_bind (NewID ''artifact_'') (\<lambda>i.
      tx_seq (insert_artifact \<lparr>af_system_id = sr_id s, af_artifact_id = i, af_goal_id = t_goal_id t, af_task_id = t_id t,
                af_digest = H (attachment_data c), af_content = attachment_data c\<rparr>)
      (tx_bind (emitEvent t ''user.input'' localAdministrator '''' (json_content (attachment_text c i)) now) (\<lambda>event.
       tx_return (JObj [(''artifact_id'', JStr i), (''event_id'', JStr event), (''state'', JStr ''pending'')]))))))))"

definition AddAttachment :: "(string \<Rightarrow> string) \<Rightarrow> string \<Rightarrow> string \<Rightarrow> attachment_command \<Rightarrow> int \<Rightarrow> system_record op" where
  "AddAttachment H key systemID c now =
     (case attachment_refusal c of Some e \<Rightarrow> tx_fail e
      | None \<Rightarrow> mutation H key systemID ''attachment.add'' (json_attachment c) now (add_attachment H c now))"

section \<open>Pause, resume and stop\<close>

datatype control_scope = ScopeSystem | ScopeGoal | ScopeAgent

datatype control_action = Pause | Resume | Stop

fun scope_name :: "control_scope \<Rightarrow> string" where
  "scope_name ScopeSystem = ''system''"
| "scope_name ScopeGoal = ''goal''"
| "scope_name ScopeAgent = ''agent''"

fun action_name :: "control_action \<Rightarrow> string" where
  "action_name Pause = ''pause''"
| "action_name Resume = ''resume''"
| "action_name Stop = ''stop''"

fun control_of :: "control_action \<Rightarrow> control" where
  "control_of Pause = CPaused"
| "control_of Resume = CActive"
| "control_of Stop = CStopped"

fun system_state_of :: "control_action \<Rightarrow> system_state" where
  "system_state_of Pause = SPaused"
| "system_state_of Resume = SRunning"
| "system_state_of Stop = SStopping"

definition control_system :: "control_action \<Rightarrow> system_record \<Rightarrow> unit op" where
  "control_system action s =
     tx_seq (tx_reject (sr_state s = SStopped \<or> sr_state s = SStopping \<or> sr_state s = SInactive) ErrExecutionConflict)
       (update_system (sr_id s) (\<lambda>x. x\<lparr>sy_state := system_state_of action\<rparr>))"

definition control_goal :: "control_action \<Rightarrow> string \<Rightarrow> system_record \<Rightarrow> unit op" where
  "control_goal action i s =
     tx_bind (tx_no_rows (readGoal (sr_id s) i) ErrSystemNotFound) (\<lambda>g.
     tx_seq (tx_reject (TaskTerminal (gl_state g) \<or> gl_control g = CStopped) ErrExecutionConflict)
       (update_goal (sr_id s) i (\<lambda>x. x\<lparr>gl_control := control_of action\<rparr>)))"

definition control_agent :: "control_action \<Rightarrow> string \<Rightarrow> system_record \<Rightarrow> unit op" where
  "control_agent action i s =
     tx_bind (tx_no_rows (readAgent (sr_id s) i 0) ErrSystemNotFound) (\<lambda>a.
     tx_seq (tx_reject (a_state a = CStopped) ErrExecutionConflict)
       (tx_update db_agents_update (\<lambda>x. ag_system_id x = sr_id s \<and> ag_agent_id x = i)
          (\<lambda>x. x\<lparr>ag_state := control_of action\<rparr>)))"

definition set_control :: "control_scope \<Rightarrow> control_action \<Rightarrow> string \<Rightarrow> system_record \<Rightarrow> unit op" where
  "set_control scope action i s =
     (case scope of ScopeSystem \<Rightarrow> control_system action s | ScopeGoal \<Rightarrow> control_goal action i s
      | ScopeAgent \<Rightarrow> control_agent action i s)"

text \<open>A nil list of calls is marshalled as null, the empty list of a pause as an empty array.\<close>

definition json_control_result :: "control_scope \<Rightarrow> control_action \<Rightarrow> string \<Rightarrow> json \<Rightarrow> json" where
  "json_control_result scope action i calls = JObj [(''scope'', JStr (scope_name scope)), (''id'', JStr i),
     (''action'', JStr (action_name action)), (''affected_calls'', calls)]"

definition resume_check :: "(string \<Rightarrow> string) \<Rightarrow> configuration \<Rightarrow> system_record \<Rightarrow> unit op" where
  "resume_check H cfg s =
     (let blocked = sr_blocked_reason (Inspect H cfg s) in tx_reject (blocked \<noteq> '''') (FieldError ''grants'' blocked))"

definition control_handler :: "(string \<Rightarrow> string) \<Rightarrow> configuration \<Rightarrow> control_scope \<Rightarrow> control_action \<Rightarrow> string \<Rightarrow> int \<Rightarrow> system_record \<Rightarrow> json op" where
  "control_handler H cfg scope action i now s =
     tx_seq (set_control scope action i s)
     (tx_seq (tx_when (action = Resume) (resume_check H cfg s))
     (if action = Stop then
        tx_bind (stopTasks (sr_id s) (scope_name scope) i localAdministrator ''stopped by administrator'' now) (\<lambda>calls.
        tx_return (json_control_result scope action i (if calls = [] then JNull else JArr (map JStr calls))))
      else tx_return (json_control_result scope action i (JArr []))))"

text \<open>Scope and action are checked before anything else; other names are refused.\<close>

definition Control :: "(string \<Rightarrow> string) \<Rightarrow> configuration \<Rightarrow> string \<Rightarrow> string \<Rightarrow> control_scope option \<Rightarrow> control_action option \<Rightarrow> string \<Rightarrow> int \<Rightarrow> system_record op" where
  "Control H cfg key systemID scope action i now =
     (case (scope, action) of
        (Some scope, Some action) \<Rightarrow>
          mutation H key systemID (scope_name scope @ ''.'' @ action_name action) (JObj [(''ID'', JStr i)]) now
            (control_handler H cfg scope action i now)
      | _ \<Rightarrow> tx_fail ErrSystemNotFound)"

section \<open>Memory\<close>

text \<open>The administrator's session: the operator agent for the owner, no task as the source.\<close>

definition session_task :: "string \<Rightarrow> string \<Rightarrow> task_row" where
  "session_task systemID agentID =
    \<lparr>t_system_id = systemID, t_id = '''', t_goal_id = '''', t_agent_id = agentID, t_revision = 0, t_parent = '''',
     t_state = Queued, t_control = CActive, t_tools = [], t_conversation = [], t_turns = 0, t_deadline = 0, t_call_id = '''',
     t_waiting_tool = '''', t_response = '''', t_reason = '''', t_learning_id = '''', t_learning_role = ''''\<rparr>"

definition put_memory :: "(string \<Rightarrow> string) \<Rightarrow> configuration \<Rightarrow> memory_command \<Rightarrow> int \<Rightarrow> system_record \<Rightarrow> json op" where
  "put_memory H cfg c now s =
     tx_bind (putMemory (session_task (sr_id s) (sr_operator_id s)) c True now) (\<lambda>e.
     tx_seq (notifySubscriptions H cfg (session_task (sr_id s) localAdministrator) ''memory.changed'' (me_scope e) (me_owner e) '''' (me_id e) now)
       (tx_return (JObj [(''expires_at_ms'', JInt (me_expires e)), (''memory_id'', JStr (me_id e)),
          (''revision'', JInt (me_revision e)), (''state'', JStr (me_state e))])))"

definition PutMemory :: "(string \<Rightarrow> string) \<Rightarrow> configuration \<Rightarrow> string \<Rightarrow> string \<Rightarrow> memory_command \<Rightarrow> int \<Rightarrow> system_record op" where
  "PutMemory H cfg key systemID c now = mutation H key systemID ''memory.put'' (json_memory_command c) now (put_memory H cfg c now)"

definition live_head :: "string \<Rightarrow> string \<Rightarrow> int \<Rightarrow> memory_head_row \<Rightarrow> bool" where
  "live_head systemID i now h \<longleftrightarrow> mh_system_id h = systemID \<and> mh_memory_id h = i \<and> mh_expires_at h > now \<and> mh_state h \<noteq> ''deleted''"

definition set_memory_state :: "string \<Rightarrow> string \<Rightarrow> string \<Rightarrow> unit op" where
  "set_memory_state systemID i state =
     tx_update db_memory_heads_update (\<lambda>h. mh_system_id h = systemID \<and> mh_memory_id h = i) (\<lambda>h. h\<lparr>mh_state := state\<rparr>)"

definition change_memory :: "(string \<Rightarrow> string) \<Rightarrow> configuration \<Rightarrow> int \<Rightarrow> string \<Rightarrow> bool \<Rightarrow> int \<Rightarrow> system_record \<Rightarrow> json op" where
  "change_memory H cfg revision i approve now s =
     tx_bind (tx_no_rows (tx_find db_memory_heads (live_head (sr_id s) i now)) ErrSystemNotFound) (\<lambda>h.
     tx_seq (tx_reject (mh_revision h \<noteq> revision) ErrRevisionConflict)
     (tx_seq (if approve then
         tx_seq (tx_reject (mh_scope h \<noteq> ''system'' \<or> mh_state h \<noteq> ''pending'') ErrExecutionConflict)
         (tx_seq (set_memory_state (sr_id s) i ''active'')
           (notifySubscriptions H cfg (session_task (sr_id s) localAdministrator) ''memory.changed'' (mh_scope h) (mh_owner_id h) '''' i now))
       else
         tx_seq (set_memory_state (sr_id s) i ''deleted'')
           (tx_modify (db_memory_revisions_update (filter (\<lambda>r. \<not> (mr_system_id r = sr_id s \<and> mr_memory_id r = i))))))
     (tx_return (JObj [(''action'', JStr (if approve then ''approve'' else ''delete'')), (''memory_id'', JStr i),
        (''revision'', JInt (mh_revision h))]))))"

definition ChangeMemoryState :: "(string \<Rightarrow> string) \<Rightarrow> configuration \<Rightarrow> string \<Rightarrow> string \<Rightarrow> int \<Rightarrow> string \<Rightarrow> string \<Rightarrow> int \<Rightarrow> system_record op" where
  "ChangeMemoryState H cfg key systemID revision i action now =
     (if action \<noteq> ''approve'' \<and> action \<noteq> ''delete'' then tx_fail ErrSystemNotFound
      else mutation H key systemID (''memory.'' @ action) (json_named ''ID'' i (JObj [(''expected_revision'', JInt revision)])) now
             (change_memory H cfg revision i (action = ''approve'') now))"

definition SearchMemory :: "(string \<Rightarrow> string) \<Rightarrow> string \<Rightarrow> memory_query \<Rightarrow> int \<Rightarrow> memory_search_result op" where
  "SearchMemory H systemID q now = read_only
     (tx_bind (readSystem H localAdministrator systemID) (\<lambda>record.
      searchMemory (session_task systemID (sr_operator_id record)) q True now))"

section \<open>Triggers\<close>

definition json_schedule :: "schedule_command \<Rightarrow> json" where
  "json_schedule c = JObj (field_omit (sk_agent_id c = '''') ''agent_id'' (JStr (sk_agent_id c)) @
     field_omit (sk_at c = '''') ''at'' (JStr (sk_at c)) @ field_omit (sk_cron c = '''') ''cron'' (JStr (sk_cron c)) @
     field_omit (sk_timezone c = '''') ''timezone'' (JStr (sk_timezone c)) @ field ''content'' (JStr (sk_content c)) @
     field ''trigger_budget'' (JInt (sk_budget c)))"

definition json_subscription :: "subscription_command \<Rightarrow> json" where
  "json_subscription c = JObj (field_omit (su_agent_id c = '''') ''agent_id'' (JStr (su_agent_id c)) @
     field ''type'' (JStr (su_type c)) @ field ''scope'' (JStr (su_scope c)) @ field ''trigger_budget'' (JInt (su_budget c)))"

text \<open>The task a trigger will wake, whose grants still hold.\<close>

definition trigger_task :: "(string \<Rightarrow> string) \<Rightarrow> configuration \<Rightarrow> system_record \<Rightarrow> string \<Rightarrow> error \<Rightarrow> int \<Rightarrow> task_row op" where
  "trigger_task H cfg s agentID refusal now =
     tx_bind (inputTask s agentID) (\<lambda>t.
     tx_seq (tx_reject (TaskTerminal (t_state t) \<and> t_state t \<noteq> Completed) refusal)
     (tx_seq (authorizePins H cfg (sr_id s) (t_tools t) now) (tx_return t)))"

definition CreateSchedule :: "(string \<Rightarrow> string) \<Rightarrow> trigger_services \<Rightarrow> configuration \<Rightarrow> string \<Rightarrow> string \<Rightarrow> schedule_command \<Rightarrow> int \<Rightarrow> system_record op" where
  "CreateSchedule H ts cfg key systemID c now = mutation H key systemID ''schedule.create'' (json_schedule c) now (\<lambda>s.
     tx_bind (trigger_task H cfg s (sk_agent_id c) (FieldError ''schedule'' ''failed work requires new human input before scheduling'') now) (\<lambda>t.
     tx_bind (createSchedule ts t c localAdministrator now) (\<lambda>i.
     tx_return (JObj [(''schedule_id'', JStr i), (''state'', JStr ''active'')]))))"

definition CreateSubscription :: "(string \<Rightarrow> string) \<Rightarrow> configuration \<Rightarrow> string \<Rightarrow> string \<Rightarrow> subscription_command \<Rightarrow> int \<Rightarrow> system_record op" where
  "CreateSubscription H cfg key systemID c now = mutation H key systemID ''subscription.create'' (json_subscription c) now (\<lambda>s.
     tx_bind (trigger_task H cfg s (su_agent_id c) (FieldError ''subscription'' ''failed work requires new human input before subscribing'') now) (\<lambda>t.
     tx_bind (createSubscription t c localAdministrator now) (\<lambda>i.
     tx_return (JObj [(''state'', JStr ''active''), (''subscription_id'', JStr i)]))))"

definition cancel_trigger :: "string \<Rightarrow> bool \<Rightarrow> system_record \<Rightarrow> json op" where
  "cancel_trigger i schedule s =
     (if schedule then
        tx_bind (tx_count db_schedules (\<lambda>x. sd_system_id x = sr_id s \<and> sd_schedule_id x = i)) (\<lambda>n.
        tx_seq (set_schedule (sr_id s) i (\<lambda>x. x\<lparr>sd_state := TgCanceled, sd_reason := ''canceled by administrator''\<rparr>))
        (tx_seq (tx_reject (n \<noteq> 1) ErrSystemNotFound)
        (tx_return (JObj [(''schedule_id'', JStr i), (''state'', JStr ''canceled'')]))))
      else
        tx_bind (tx_count db_subscriptions (\<lambda>x. sn_system_id x = sr_id s \<and> sn_subscription_id x = i)) (\<lambda>n.
        tx_seq (set_subscription (sr_id s) i (\<lambda>x. x\<lparr>sn_state := TgCanceled, sn_reason := ''canceled by administrator''\<rparr>))
        (tx_seq (tx_reject (n \<noteq> 1) ErrSystemNotFound)
        (tx_return (JObj [(''state'', JStr ''canceled''), (''subscription_id'', JStr i)])))))"

definition CancelTrigger :: "(string \<Rightarrow> string) \<Rightarrow> string \<Rightarrow> string \<Rightarrow> string \<Rightarrow> bool \<Rightarrow> int \<Rightarrow> system_record op" where
  "CancelTrigger H key systemID i schedule now =
     mutation H key systemID ((if schedule then ''schedules'' else ''subscriptions'') @ ''.cancel'') (JObj [(''ID'', JStr i)]) now
       (cancel_trigger i schedule)"

section \<open>Protected checks and feedback\<close>

definition json_case :: "protected_case \<Rightarrow> json" where
  "json_case c = JObj [(''input'', JStr (pt_input c)), (''expected'', JStr (pt_expected c))]"

definition insert_check :: "check_row \<Rightarrow> unit op" where
  "insert_check = tx_insert ''learning_checks'' (\<lambda>x y. lk_system_id x = lk_system_id y \<and> lk_check_id x = lk_check_id y)
     db_checks db_checks_update"

definition create_checks :: "(string \<Rightarrow> string) \<Rightarrow> protected_case list \<Rightarrow> int \<Rightarrow> system_record \<Rightarrow> json op" where
  "create_checks H cases now s =
     tx_bind (tx_count db_checks (\<lambda>c. lk_system_id c = sr_id s)) (\<lambda>n.
     tx_seq (tx_reject (n \<ge> 64) (FieldError ''checks'' ''protected check capacity exhausted''))
     (tx_bind (NewID ''check_'') (\<lambda>i.
      let digest = JsonDigest H (JArr (map json_case cases)) in
      tx_seq (insert_check \<lparr>lk_system_id = sr_id s, lk_check_id = i, lk_cases = cases, lk_digest = digest, lk_created_at = now\<rparr>)
        (tx_return (JObj [(''check_id'', JStr i), (''digest'', JStr digest)])))))"

definition CreateChecks :: "(string \<Rightarrow> string) \<Rightarrow> string \<Rightarrow> string \<Rightarrow> protected_case list \<Rightarrow> int \<Rightarrow> system_record op" where
  "CreateChecks H key systemID cases now =
     (case ProtectedCases cases of Inl e \<Rightarrow> tx_fail e
      | Inr _ \<Rightarrow> mutation H key systemID ''learning.checks'' (JObj [(''cases'', JArr (map json_case cases))]) now (create_checks H cases now))"

record feedback_command =
  fc_task_id :: string
  fc_rating :: string
  fc_content :: string

definition json_feedback :: "feedback_command \<Rightarrow> json" where
  "json_feedback c = JObj [(''task_id'', JStr (fc_task_id c)), (''rating'', JStr (fc_rating c)), (''content'', JStr (fc_content c))]"

definition insert_feedback :: "feedback_row \<Rightarrow> unit op" where
  "insert_feedback = tx_insert ''learning_feedback'' (\<lambda>x y. lf_system_id x = lf_system_id y \<and> lf_feedback_id x = lf_feedback_id y)
     db_feedback db_feedback_update"

definition add_feedback :: "feedback_command \<Rightarrow> int \<Rightarrow> system_record \<Rightarrow> json op" where
  "add_feedback c now s =
     tx_bind (readTask (sr_id s) (fc_task_id c)) (\<lambda>_.
     tx_bind (tx_count db_feedback (\<lambda>f. lf_system_id f = sr_id s)) (\<lambda>n.
     tx_seq (tx_reject (n \<ge> 512) (FieldError ''feedback'' ''feedback capacity exhausted''))
     (tx_bind (NewID ''feedback_'') (\<lambda>i.
      tx_seq (insert_feedback \<lparr>lf_system_id = sr_id s, lf_feedback_id = i, lf_task_id = fc_task_id c,
                lf_rating = fc_rating c, lf_content = fc_content c, lf_created_at = now\<rparr>)
        (tx_return (JObj [(''feedback_id'', JStr i)]))))))"

definition AddFeedback :: "(string \<Rightarrow> string) \<Rightarrow> string \<Rightarrow> string \<Rightarrow> feedback_command \<Rightarrow> int \<Rightarrow> system_record op" where
  "AddFeedback H key systemID c now =
     (if (fc_rating c \<noteq> ''success'' \<and> fc_rating c \<noteq> ''failure'') \<or> blank (fc_content c) \<or> length (fc_content c) > 2048
      then tx_fail (FieldError ''feedback'' ''requires success/failure and 1-2048 bytes of evidence'')
      else mutation H key systemID ''learning.feedback'' (json_feedback c) now (add_feedback c now))"

end
