(* ===== verification/Learning.thy ===== *)
theory Learning
  imports Commands
begin

text \<open>
  Protected learning (generated.go, learning.go, evaluations.go, learning_execution.go and
  evaluation_workflow.go): a proposed draft is evaluated once against human-owned cases, its
  evidence is recorded with a digest over everything it depends on, and only an approval of that
  digest makes it a tool. The Go parser is the argument \<open>go_parser\<close> (the package name and the
  unquoted imports of a source that parses), the files of generated binaries are
  \<open>artifact_files\<close>. The daemon is taken to run on Linux/amd64.
\<close>

section \<open>Generated sources and binaries\<close>

type_synonym go_parser = "string \<Rightarrow> (string \<times> string option list) option"

definition import_refused :: "string option \<Rightarrow> bool" where
  "import_refused p = (case p of None \<Rightarrow> True | Some path \<Rightarrow>
     path = ''C'' \<or> CHR ''.'' \<in> set path \<or> CHR 0x5C \<in> set path \<or> has_prefix path ''/'' \<or>
     has_prefix path ''vendor/'' \<or> has_prefix path ''internal/'')"

definition ValidateGeneratedSource :: "go_parser \<Rightarrow> string \<Rightarrow> error option" where
  "ValidateGeneratedSource gp source =
     (if source = '''' \<or> length source > MaxEventBytes then Some (FieldError ''source'' ''requires 1-8192 bytes of Go source'')
      else case gp source of
        None \<Rightarrow> Some (FieldError ''source'' ''requires syntactically valid package main'')
      | Some (name, imports) \<Rightarrow>
          if name \<noteq> ''main'' then Some (FieldError ''source'' ''requires syntactically valid package main'')
          else check (list_ex import_refused imports) (FieldError ''source'' ''only standard-library imports are supported''))"

definition GeneratedProfile :: "sandbox_config \<Rightarrow> error option" where
  "GeneratedProfile p = first_error
     [check (sb_resources p = None \<or> sb_resource_root p = '''')
        (FieldError ''sandbox'' ''generated execution requires the qualified Linux/amd64 delegated resource profile''),
      ValidateSandbox ''sandbox'' p,
      check (elems (sb_read p) \<noteq> [''inputs''] \<or>
             (elems (sb_read_write p) \<noteq> [''scratch'', ''output''] \<and> elems (sb_read_write p) \<noteq> [''output'', ''scratch'']))
        (FieldError ''sandbox'' ''generated work requires only read-only inputs and bounded scratch/output'')]"

definition MaxGeneratedBinary :: nat where
  "MaxGeneratedBinary = 33554432"

record artifact_files =
  fl_read :: "string \<Rightarrow> error + string"
  fl_write :: "string \<Rightarrow> string \<Rightarrow> error option"

definition GeneratedArtifactPath :: "string \<Rightarrow> string \<Rightarrow> string \<Rightarrow> error + string" where
  "GeneratedArtifactPath dataDir systemID digest =
     (if \<not> SystemIDPattern systemID \<or> length digest \<noteq> 64 \<or> \<not> list_all lower_hex digest
      then Inl (FieldError ''artifact'' ''invalid generated artifact identity'')
      else Inr (path_clean (dataDir @ ''/generated/'' @ systemID @ ''/'' @ digest)))"

definition SaveGeneratedArtifact :: "(string \<Rightarrow> string) \<Rightarrow> artifact_files \<Rightarrow> string \<Rightarrow> string \<Rightarrow> string \<Rightarrow> error + string" where
  "SaveGeneratedArtifact H fs dataDir systemID binary =
     (if binary = '''' \<or> length binary > MaxGeneratedBinary then Inl (FieldError ''artifact'' ''binary exceeds bound'')
      else case GeneratedArtifactPath dataDir systemID (H binary) of Inl e \<Rightarrow> Inl e
        | Inr path \<Rightarrow> (case fl_write fs path binary of Some e \<Rightarrow> Inl e | None \<Rightarrow> Inr (H binary)))"

definition ReadGeneratedArtifact :: "(string \<Rightarrow> string) \<Rightarrow> artifact_files \<Rightarrow> string \<Rightarrow> string \<Rightarrow> string \<Rightarrow> error + string" where
  "ReadGeneratedArtifact H fs dataDir systemID digest =
     (case GeneratedArtifactPath dataDir systemID digest of Inl e \<Rightarrow> Inl e
      | Inr path \<Rightarrow> (case fl_read fs path of Inl e \<Rightarrow> Inl e
          | Inr bytes \<Rightarrow> if bytes = '''' \<or> length bytes > MaxGeneratedBinary \<or> H bytes \<noteq> digest
              then Inl (FieldError ''artifact'' ''approved binary changed or exceeds size bound'') else Inr bytes))"

definition CandidateDefinition :: "draft_command \<Rightarrow> int \<Rightarrow> string \<Rightarrow> string \<Rightarrow> tool_config" where
  "CandidateDefinition draft version binary profile =
    \<lparr>tc_kind = dc_kind draft, tc_version = version, tc_description = dc_description draft, tc_content = dc_content draft,
     tc_requires_tools = dc_requires draft, tc_binary_digest = binary, tc_profile_digest = profile, tc_runtime_digest = ''''\<rparr>"

section \<open>Queueing an evaluation\<close>

record evaluate_command =
  ve_tool_id :: string
  ve_version :: int
  ve_check_id :: string
  ve_task_id :: string
  ve_baseline :: "tool_pin option"

definition json_evaluate :: "evaluate_command \<Rightarrow> json" where
  "json_evaluate c = JObj (field ''tool_id'' (JStr (ve_tool_id c)) @ field ''version'' (JInt (ve_version c)) @
     field ''check_id'' (JStr (ve_check_id c)) @ field ''task_id'' (JStr (ve_task_id c)) @
     (case ve_baseline c of None \<Rightarrow> [] | Some p \<Rightarrow> field ''baseline'' (json_pin p)))"

text \<open>The originating task, its agent and goal, all active and within lifetime and budget.\<close>

definition evaluation_origin :: "system_record \<Rightarrow> string \<Rightarrow> int \<Rightarrow> (task_row \<times> agent_record \<times> goal_row) op" where
  "evaluation_origin s taskID now =
     tx_seq (tx_reject (sr_state s \<noteq> SRunning \<or> sl_token_budget (sc_limits (sr_configuration s)) \<le> sr_used_tokens s + sr_reserved_tokens s)
               ErrExecutionConflict)
     (tx_bind (tx_no_rows (readTask (sr_id s) taskID) ErrSystemNotFound) (\<lambda>origin.
      tx_seq (tx_reject (TaskTerminal (t_state origin) \<or> t_control origin \<noteq> CActive \<or> t_learning_id origin \<noteq> '''') ErrExecutionConflict)
      (tx_bind (readAgent (sr_id s) (t_agent_id origin) (t_revision origin)) (\<lambda>parent.
       tx_seq (tx_reject (a_state parent \<noteq> CActive \<or> a_depth parent \<ge> 8) ErrExecutionConflict)
       (tx_bind (readGoal (sr_id s) (t_goal_id origin)) (\<lambda>g.
        tx_seq (tx_reject (gl_control g \<noteq> CActive \<or> (gl_deadline g > 0 \<and> gl_deadline g \<le> now) \<or> t_deadline origin \<le> now \<or>
                  gl_token_budget g \<le> gl_used_tokens g + gl_reserved_tokens g)
                  (FieldError ''goal'' ''evaluation exceeds remaining goal lifetime or budget''))
          (tx_return (origin, parent, g))))))))"

text \<open>A generated tool needs the qualified profile, a toolchain and a valid source; its toolchain digest.\<close>

definition generated_toolchain :: "go_parser \<Rightarrow> configuration \<Rightarrow> sandbox_config \<Rightarrow> draft_command \<Rightarrow> error + string" where
  "generated_toolchain gp cfg profile draft =
     (if dc_kind draft \<noteq> ''executable'' then Inr ''''
      else if elems (dc_requires draft) \<noteq> [] then Inl (FieldError ''capabilities'' ''generated tools cannot call brokers or other tools'')
      else case GeneratedProfile profile of Some e \<Rightarrow> Inl e | None \<Rightarrow>
        (case cf_learning cfg of None \<Rightarrow> Inl (FieldError ''learning'' ''a pinned local Go toolchain is required'')
         | Some l \<Rightarrow> (case ValidateGeneratedSource gp (dc_content draft) of Some e \<Rightarrow> Inl e | None \<Rightarrow> Inr (lc_toolchain_digest l))))"

definition goal_evaluations :: "db \<Rightarrow> string \<Rightarrow> string \<Rightarrow> int" where
  "goal_evaluations d systemID goalID =
     count_where (\<lambda>e. le_system_id e = systemID \<and>
       exists_where (\<lambda>t. t_system_id t = systemID \<and> t_id t = le_origin_task e \<and> t_goal_id t = goalID) (db_tasks d)) (db_evaluations d)"

definition evaluation_capacity :: "system_record \<Rightarrow> evaluate_command \<Rightarrow> string \<Rightarrow> int \<Rightarrow> db \<Rightarrow> error option" where
  "evaluation_capacity s c goalID cases d = first_error
     [check (exists_where (\<lambda>e. le_system_id e = sr_id s \<and> le_tool_id e = ve_tool_id c \<and> le_version e = ve_version c) (db_evaluations d))
        (FieldError ''evaluation'' ''this revision was already evaluated; submit a new immutable version''),
      check (goal_evaluations d (sr_id s) goalID \<ge> 4) (FieldError ''evaluation'' ''four evaluations per goal allowed''),
      check (count_where (\<lambda>a. ag_system_id a = sr_id s \<and> ag_state a \<noteq> CStopped) (db_agents d) \<ge>
               sl_max_agents (sc_limits (sr_configuration s)) \<or>
             count_where (\<lambda>t. t_system_id t = sr_id s \<and> t_goal_id t = goalID) (db_tasks d) + 2 * cases > 64)
        (FieldError ''evaluation'' ''ordinary agent/task capacity exhausted'')]"

definition paragraph_break :: string where
  "paragraph_break = [newline, newline]"

text \<open>The prompts with and without the candidate, over the pins of the originating task.\<close>

definition prompt_step :: "configuration \<Rightarrow> draft_command \<Rightarrow> tool_pin option \<Rightarrow> string \<Rightarrow> tool_pin \<Rightarrow>
    string \<times> string \<times> bool \<Rightarrow> error + (string \<times> string \<times> bool)" where
  "prompt_step cfg draft base profileDigest pin acc =
     (case acc of (baseline, candidate, found) \<Rightarrow>
      let tool = the_tool cfg (pin_name pin); replaced = (base = Some pin) in
      if replaced \<and> tc_kind tool \<noteq> dc_kind draft then Inl (FieldError ''baseline'' ''baseline kind differs from candidate'')
      else if replaced \<and> dc_kind draft = ''executable'' \<and> (tc_binary_digest tool = '''' \<or> tc_profile_digest tool \<noteq> profileDigest)
        then Inl (FieldError ''baseline'' ''requires an approved generated tool with the same capabilities'')
      else if tc_kind tool = ''skill''
        then Inr (baseline @ paragraph_break @ tc_content tool,
                  if replaced then candidate else candidate @ paragraph_break @ tc_content tool, found \<or> replaced)
      else Inr (baseline, candidate, found \<or> replaced))"

fun evaluation_prompts :: "configuration \<Rightarrow> draft_command \<Rightarrow> tool_pin option \<Rightarrow> string \<Rightarrow> tool_pin list \<Rightarrow>
    string \<times> string \<times> bool \<Rightarrow> error + (string \<times> string \<times> bool)" where
  "evaluation_prompts cfg draft base profileDigest [] acc = Inr acc"
| "evaluation_prompts cfg draft base profileDigest (p # ps) acc =
     (case prompt_step cfg draft base profileDigest p acc of Inl e \<Rightarrow> Inl e
      | Inr acc' \<Rightarrow> evaluation_prompts cfg draft base profileDigest ps acc')"

definition candidate_prompts :: "configuration \<Rightarrow> draft_command \<Rightarrow> tool_pin option \<Rightarrow> string \<Rightarrow> string \<Rightarrow> tool_pin list \<Rightarrow> error + (string \<times> string)" where
  "candidate_prompts cfg draft base profileDigest prompt pins =
     (case evaluation_prompts cfg draft base profileDigest pins (prompt, prompt, base = None) of Inl e \<Rightarrow> Inl e
      | Inr (baseline, candidate0, found) \<Rightarrow>
         if \<not> found then Inl (FieldError ''baseline'' ''baseline must be an exact originating task pin'') else
         let candidate = candidate0 @ paragraph_break @ dc_content draft in
         if length baseline > 32768 \<or> (dc_kind draft = ''skill'' \<and> length candidate > 32768)
         then Inl (FieldError ''evaluation'' ''combined prompts exceed context bound'')
         else if list_ex (\<lambda>n. n \<notin> pin_name ` set pins) (elems (dc_requires draft))
         then Inl (FieldError ''requires_tools'' ''evaluation cannot expand originating task capabilities'')
         else Inr (baseline, candidate))"

definition evaluation_agent :: "string \<Rightarrow> string \<Rightarrow> agent_record \<Rightarrow> string \<Rightarrow> int \<Rightarrow> string \<Rightarrow> agent_record" where
  "evaluation_agent systemID agentID parent goalID budget prompt =
    \<lparr>a_system_id = systemID, a_id = agentID, a_parent = a_id parent, a_goal_id = goalID, a_name = ''protected-evaluation'',
     a_revision = 1, a_state = CActive, a_depth = a_depth parent + 1, a_token_budget = min (a_token_budget parent) budget,
     a_max_turns = 8, a_definition = (a_definition parent)\<lparr>oc_tools := Some [], oc_prompt := prompt\<rparr>, a_tools = [],
     a_available = False\<rparr>"

definition agent_row_of :: "agent_record \<Rightarrow> agent_row" where
  "agent_row_of a = \<lparr>ag_system_id = a_system_id a, ag_agent_id = a_id a, ag_parent_id = a_parent a, ag_goal_id = a_goal_id a,
     ag_name = a_name a, ag_revision = a_revision a, ag_state = a_state a, ag_depth = a_depth a,
     ag_token_budget = a_token_budget a, ag_max_turns = a_max_turns a\<rparr>"

definition insert_agent :: "agent_row \<Rightarrow> unit op" where
  "insert_agent = tx_insert ''agents'' (\<lambda>x y. ag_system_id x = ag_system_id y \<and> ag_agent_id x = ag_agent_id y)
     db_agents db_agents_update"

text \<open>The agent of an evaluation; a skill's candidate prompt is its second revision.\<close>

definition create_evaluator :: "agent_record \<Rightarrow> draft_command \<Rightarrow> string \<Rightarrow> unit op" where
  "create_evaluator a draft candidate =
     tx_seq (insert_agent (agent_row_of a))
     (tx_seq (insertAgentRevision a)
     (tx_seq (insert_usage (a_system_id a) (a_id a) (a_goal_id a) 0)
     (tx_when (dc_kind draft = ''skill'')
       (insertAgentRevision (a\<lparr>a_revision := 2, a_definition := (a_definition a)\<lparr>oc_prompt := candidate\<rparr>\<rparr>)))))"

definition insert_evaluation :: "evaluation_row \<Rightarrow> unit op" where
  "insert_evaluation = tx_insert ''learning_evaluations''
     (\<lambda>x y. le_system_id x = le_system_id y \<and> (le_evaluation_id x = le_evaluation_id y \<or>
        (le_tool_id x = le_tool_id y \<and> le_version x = le_version y))) db_evaluations db_evaluations_update"

definition new_evaluation :: "configuration \<Rightarrow> system_record \<Rightarrow> evaluate_command \<Rightarrow> string \<Rightarrow> string \<Rightarrow> string \<Rightarrow> string \<Rightarrow> string \<Rightarrow> string \<Rightarrow> bool \<Rightarrow> bool \<Rightarrow> evaluation_row" where
  "new_evaluation cfg s c i originID agentID prompt profileDigest toolchain notify skill =
    \<lparr>le_system_id = sr_id s, le_evaluation_id = i, le_tool_id = ve_tool_id c, le_version = ve_version c,
     le_check_id = ve_check_id c, le_origin_task = originID, le_agent_id = agentID,
     le_baseline = \<lparr>bl_prompt = prompt, bl_tool = ve_baseline c\<rparr>, le_profile_digest = profileDigest,
     le_toolchain_digest = toolchain, le_runtime_digest = cf_runtime_digest cfg, le_system_revision = sr_revision s,
     le_configuration_digest = gr_definitions_digest (sr_grants s), le_notify = notify,
     le_state = (if skill then LEvaluating else LQueued), le_evidence = Some [], le_artifact_digest = '''',
     le_definition = zero_tool, le_digest = '''', le_reason = ''''\<rparr>"

text \<open>One task per protected case and role, or the build task of a generated tool.\<close>

definition evaluation_task :: "(string \<Rightarrow> string) \<Rightarrow> configuration \<Rightarrow> string \<Rightarrow> agent_record \<Rightarrow> task_row \<Rightarrow> string \<Rightarrow> string \<Rightarrow> string \<Rightarrow> int \<Rightarrow> string \<times> string \<Rightarrow> unit op" where
  "evaluation_task H cfg owner a origin i source input now role =
     tx_bind (NewID ''task_'') (\<lambda>taskID.
     tx_seq (insert_task ((new_task (a_system_id a) taskID (t_goal_id origin) (a_id a) (if fst role = ''candidate'' then 2 else 1)
               (t_id origin) [] [message ''user'' input])
               \<lparr>t_turns := 0, t_learning_id := i, t_learning_role := snd role, t_deadline := t_deadline origin\<rparr>))
     (tx_bind (readTask (a_system_id a) taskID) (\<lambda>t.
      tx_seq (tx_when (fst role \<noteq> ''build'') (prepareNextCall H cfg t owner now))
      (tx_bind (emitEvent t (if fst role = ''build'' then ''tool.evaluate'' else ''task.ready'') source '''' (JObj []) now) (\<lambda>_.
       tx_return ())))))"

definition case_roles :: "draft_command \<Rightarrow> nat \<Rightarrow> (string \<times> string) list" where
  "case_roles draft index = map (\<lambda>role. (role, role @ [char_of (48 + index)]))
     (if dc_kind draft = ''executable'' then (if index = 0 then [''build''] else []) else [''baseline'', ''candidate''])"

definition evaluation_tasks :: "(string \<Rightarrow> string) \<Rightarrow> configuration \<Rightarrow> string \<Rightarrow> agent_record \<Rightarrow> task_row \<Rightarrow> string \<Rightarrow> string \<Rightarrow> draft_command \<Rightarrow> int \<Rightarrow> protected_case list \<Rightarrow> unit op" where
  "evaluation_tasks H cfg owner a origin i source draft now cases =
     tx_foreach (\<lambda>(index, c). tx_foreach (evaluation_task H cfg owner a origin i source (pt_input c) now) (case_roles draft index))
       (enumerate 0 cases)"

definition readChecks :: "string \<Rightarrow> string \<Rightarrow> protected_case list op" where
  "readChecks systemID checkID =
     tx_bind (tx_no_rows (tx_find db_checks (\<lambda>c. lk_system_id c = systemID \<and> lk_check_id c = checkID)) ErrSystemNotFound) (\<lambda>c.
     tx_lift (ProtectedCases (lk_cases c)))"

text \<open>Draft, cases, capability and toolchain of the evaluation.\<close>

definition evaluation_subject :: "(string \<Rightarrow> string) \<Rightarrow> go_parser \<Rightarrow> configuration \<Rightarrow> system_record \<Rightarrow> evaluate_command \<Rightarrow> task_row \<Rightarrow> agent_record \<Rightarrow> int \<Rightarrow>
    (draft_command \<times> protected_case list \<times> string \<times> string) op" where
  "evaluation_subject H gp cfg s c origin parent now =
     tx_bind (readLearningDraft (sr_id s) (ve_tool_id c) (ve_version c)) (\<lambda>draft.
     tx_bind (readChecks (sr_id s) (ve_check_id c)) (\<lambda>cases.
     tx_seq (authorizePins H cfg (sr_id s) (t_tools origin) now)
     (let profile = the_profile cfg (oc_sandbox_profile (a_definition parent)) in
      tx_bind (tx_lift (generated_toolchain gp cfg profile draft)) (\<lambda>toolchain.
      tx_return (draft, cases, JsonDigest H (json_sandbox profile), toolchain)))))"

definition store_evaluation :: "(string \<Rightarrow> string) \<Rightarrow> configuration \<Rightarrow> string \<Rightarrow> system_record \<Rightarrow> evaluate_command \<Rightarrow> string \<Rightarrow> task_row \<Rightarrow> agent_record \<Rightarrow> goal_row \<Rightarrow>
    draft_command \<Rightarrow> protected_case list \<Rightarrow> string \<Rightarrow> string \<Rightarrow> string \<Rightarrow> string \<Rightarrow> int \<Rightarrow> json op" where
  "store_evaluation H cfg owner s c source origin parent g draft cases profileDigest toolchain baseline candidate now =
     tx_bind (NewID ''evaluation_'') (\<lambda>i.
     tx_bind (NewID ''agent_'') (\<lambda>agentID.
     let a = evaluation_agent (sr_id s) agentID parent (t_goal_id origin)
               (gl_token_budget g - gl_used_tokens g - gl_reserved_tokens g) baseline;
         skill = (dc_kind draft = ''skill'') in
     tx_seq (create_evaluator a draft candidate)
     (tx_seq (insert_evaluation (new_evaluation cfg s c i (t_id origin) agentID baseline profileDigest toolchain
               (source \<noteq> localAdministrator) skill))
     (tx_seq (evaluation_tasks H cfg owner a origin i source draft now cases)
     (tx_return (JObj [(''evaluation_id'', JStr i), (''state'', JStr (if skill then ''evaluating'' else ''queued''))]))))))"

definition queueLearning :: "(string \<Rightarrow> string) \<Rightarrow> go_parser \<Rightarrow> configuration \<Rightarrow> string \<Rightarrow> system_record \<Rightarrow> evaluate_command \<Rightarrow> string \<Rightarrow> int \<Rightarrow> json op" where
  "queueLearning H gp cfg owner s c source now =
     tx_bind (evaluation_origin s (ve_task_id c) now) (\<lambda>(origin, parent, g).
     tx_bind (evaluation_subject H gp cfg s c origin parent now) (\<lambda>(draft, cases, profileDigest, toolchain).
     tx_bind (tx_gets (evaluation_capacity s c (t_goal_id origin) (int (length cases)))) (\<lambda>e.
     tx_seq (tx_checked e)
     (tx_bind (loadLocalTools H (sr_id s) (t_tools origin)) (\<lambda>locals.
      tx_bind (tx_lift (candidate_prompts (WithLocalTools cfg locals) draft (ve_baseline c) profileDigest
                 (oc_prompt (a_definition parent)) (t_tools origin))) (\<lambda>(baseline, candidate).
      store_evaluation H cfg owner s c source origin parent g draft cases profileDigest toolchain baseline candidate now))))))"

definition EvaluateLearning :: "(string \<Rightarrow> string) \<Rightarrow> go_parser \<Rightarrow> configuration \<Rightarrow> string \<Rightarrow> string \<Rightarrow> string \<Rightarrow> evaluate_command \<Rightarrow> int \<Rightarrow> system_record op" where
  "EvaluateLearning H gp cfg owner key systemID c now =
     mutation H key systemID ''learning.evaluate'' (json_evaluate c) now (\<lambda>s. queueLearning H gp cfg owner s c localAdministrator now)"

section \<open>Approval\<close>

record approve_command =
  pv_digest :: string
  pv_expires_seconds :: int
  pv_task_uses :: int

definition json_approve :: "approve_command \<Rightarrow> json" where
  "json_approve c = JObj [(''digest'', JStr (pv_digest c)), (''expires_seconds'', JInt (pv_expires_seconds c)),
     (''task_uses'', JInt (pv_task_uses c))]"

definition insert_approval :: "approval_row \<Rightarrow> unit op" where
  "insert_approval = tx_insert ''learning_approvals''
     (\<lambda>x y. la_system_id x = la_system_id y \<and> la_tool_id x = la_tool_id y \<and> la_version x = la_version y)
     db_approvals db_approvals_update"

definition approval_of :: "(string \<Rightarrow> string) \<Rightarrow> evaluation_row \<Rightarrow> approve_command \<Rightarrow> int \<Rightarrow> approval_row" where
  "approval_of H e c now =
    \<lparr>la_system_id = le_system_id e, la_tool_id = le_tool_id e, la_version = le_version e, la_evaluation_id = le_evaluation_id e,
     la_definition = le_definition e, la_digest = JsonDigest H (json_tool (le_definition e)),
     la_expires_at = now + pv_expires_seconds c * 1000, la_remaining_tasks = pv_task_uses c\<rparr>"

definition approve_learning :: "(string \<Rightarrow> string) \<Rightarrow> artifact_files \<Rightarrow> configuration \<Rightarrow> approve_command \<Rightarrow> string \<Rightarrow> int \<Rightarrow> system_record \<Rightarrow> json op" where
  "approve_learning H fs cfg c i now s0 =
     tx_bind (tx_no_rows (tx_find db_evaluations (\<lambda>e. le_system_id e = sr_id s0 \<and> le_evaluation_id e = i)) ErrSystemNotFound) (\<lambda>e.
     tx_seq (tx_reject (le_state e \<noteq> LPendingApproval \<or> le_digest e \<noteq> pv_digest c)
               (FieldError ''approval'' ''stale, replayed or mismatched evaluation approval''))
     (let s = Inspect H cfg s0 in
      tx_seq (tx_reject (sr_revision s \<noteq> le_system_revision e \<or> gr_definitions_digest (sr_grants s) \<noteq> le_configuration_digest e \<or>
                sr_blocked_reason s \<noteq> '''') (FieldError ''approval'' ''evaluated configuration or baseline revision changed''))
      (tx_bind (readLearningDraft (sr_id s) (le_tool_id e) (le_version e)) (\<lambda>_.
       tx_bind (tx_lift (if tc_kind (le_definition e) = ''executable''
                         then ReadGeneratedArtifact H fs (cf_data_dir cfg) (sr_id s) (tc_binary_digest (le_definition e)) else Inr '''')) (\<lambda>_.
       tx_seq (insert_approval (approval_of H e c now))
       (tx_seq (tx_update db_evaluations_update (\<lambda>x. le_system_id x = sr_id s \<and> le_evaluation_id x = i) (\<lambda>x. x\<lparr>le_state := LActive\<rparr>))
       (tx_return (json_pin \<lparr>pin_name = le_tool_id e, pin_version = le_version e,
          pin_digest = JsonDigest H (json_tool (le_definition e))\<rparr>))))))))"

definition ApproveLearning :: "(string \<Rightarrow> string) \<Rightarrow> artifact_files \<Rightarrow> configuration \<Rightarrow> string \<Rightarrow> string \<Rightarrow> approve_command \<Rightarrow> string \<Rightarrow> int \<Rightarrow> system_record op" where
  "ApproveLearning H fs cfg key systemID c i now =
     (if length (pv_digest c) \<noteq> 64 \<or> pv_expires_seconds c < 1 \<or> pv_expires_seconds c > 86400 \<or> pv_task_uses c < 1 \<or> pv_task_uses c > 64
      then tx_fail (FieldError ''approval'' ''requires an exact evidence digest, 1-86400 second lifetime and 1-64 task uses'')
      else mutation H key systemID ''learning.approve'' (json_named ''ID'' i (json_approve c)) now
             (approve_learning H fs cfg c i now))"

section \<open>Finishing an evaluation\<close>

definition zero_draft :: draft_command where
  "zero_draft = \<lparr>dc_tool_id = '''', dc_expected_version = 0, dc_kind = '''', dc_description = '''', dc_content = '''', dc_requires = None\<rparr>"

text \<open>
  What readEvaluation returns beside an error the code goes on with: the draft of a rejected
  candidate is known but for its dependencies, after a refused case list nothing of it is.
\<close>

definition draft_parts :: "draft_row \<Rightarrow> draft_command \<times> error option" where
  "draft_parts t =
     (let draft = zero_draft\<lparr>dc_kind := td_kind t, dc_description := td_description t, dc_content := td_content t\<rparr> in
      if td_state t \<noteq> DDraft then (draft, Some (FieldError ''draft'' ''candidate is rejected or disabled''))
      else (draft\<lparr>dc_requires := td_requires_tools t\<rparr>, None))"

definition evaluation_parts :: "string \<Rightarrow> string \<Rightarrow> (learning_evaluation \<times> error option) op" where
  "evaluation_parts systemID evaluationID =
     tx_bind (tx_find db_evaluations (\<lambda>e. le_system_id e = systemID \<and> le_evaluation_id e = evaluationID)) (\<lambda>e.
     tx_bind (tx_find db_checks (\<lambda>c. lk_system_id c = systemID \<and> lk_check_id c = le_check_id e)) (\<lambda>c.
     case ProtectedCases (lk_cases c) of
       Inl err \<Rightarrow> tx_return (\<lparr>ln_row = e, ln_cases = [], ln_check_digest = lk_digest c, ln_draft = zero_draft\<rparr>, Some err)
     | Inr cases \<Rightarrow>
         tx_bind (tx_no_rows (tx_find db_drafts (\<lambda>t. td_system_id t = systemID \<and> td_tool_id t = le_tool_id e \<and>
                    td_version t = le_version e)) ErrSystemNotFound) (\<lambda>t.
         let (draft, err) = draft_parts t in
         tx_return (\<lparr>ln_row = e, ln_cases = cases, ln_check_digest = lk_digest c, ln_draft = draft\<rparr>, err))))"

definition evidence_failure :: "learning_evaluation \<Rightarrow> learning_evidence list \<Rightarrow> error option \<Rightarrow> error option" where
  "evidence_failure e evidence failure =
     (case failure of Some f \<Rightarrow> Some f
      | None \<Rightarrow> if list_ex (\<lambda>v. \<not> lv_candidate_passed v) evidence then Some (ErrInternal ''candidate failed a protected acceptance check'')
          else if length evidence \<noteq> length (ln_cases e) then Some (ErrInternal ''protected cases did not all complete'')
          else None)"

definition json_baseline :: "evaluation_baseline \<Rightarrow> json" where
  "json_baseline b = JObj (field ''prompt'' (JStr (bl_prompt b)) @
     (case bl_tool b of None \<Rightarrow> [] | Some p \<Rightarrow> field ''tool'' (json_pin p)))"

definition json_evidence :: "learning_evidence \<Rightarrow> json" where
  "json_evidence v = JObj [(''input'', JStr (lv_input v)), (''expected'', JStr (lv_expected v)),
     (''baseline'', JStr (lv_baseline v)), (''candidate'', JStr (lv_candidate v)),
     (''baseline_passed'', JBool (lv_baseline_passed v)), (''candidate_passed'', JBool (lv_candidate_passed v))]"

definition build_settings :: string where
  "build_settings = ''abi=1;CGO_ENABLED=0;GOTOOLCHAIN=local;GOPROXY=off;GOSUMDB=off;GOENV=off;GO111MODULE=off;GOOS=linux;GOARCH=amd64;trimpath;buildvcs=false''"

definition json_outcome :: "learning_evaluation \<Rightarrow> tool_config \<Rightarrow> learning_evidence slice \<Rightarrow> json" where
  "json_outcome e definition evidence = (let row = ln_row e in JObj
    [(''ToolID'', JStr (le_tool_id row)), (''Version'', JInt (le_version row)), (''CheckDigest'', JStr (ln_check_digest e)),
     (''Baseline'', json_baseline (le_baseline row)), (''Definition'', json_tool definition),
     (''Evidence'', jslice json_evidence evidence), (''ToolchainDigest'', JStr (le_toolchain_digest row)),
     (''RuntimeDigest'', JStr (le_runtime_digest row)), (''BuildSettings'', JStr build_settings),
     (''SystemRevision'', JInt (le_system_revision row)), (''ConfigurationDigest'', JStr (le_configuration_digest row))])"

definition candidate_of :: "learning_evaluation \<Rightarrow> string \<Rightarrow> tool_config" where
  "candidate_of e artifact =
     (let definition = CandidateDefinition (ln_draft e) (le_version (ln_row e)) artifact '''' in
      if dc_kind (ln_draft e) = ''executable''
      then definition\<lparr>tc_profile_digest := le_profile_digest (ln_row e), tc_runtime_digest := le_runtime_digest (ln_row e)\<rparr>
      else definition)"

definition unfinished :: "string \<Rightarrow> string \<Rightarrow> evaluation_row \<Rightarrow> bool" where
  "unfinished systemID i x \<longleftrightarrow> le_system_id x = systemID \<and> le_evaluation_id x = i \<and> (le_state x = LQueued \<or> le_state x = LEvaluating)"

definition finished_state :: "error option \<Rightarrow> evaluation_state" where
  "finished_state failure = (if failure = None then LPendingApproval else LFailed)"

definition record_outcome :: "string \<Rightarrow> learning_evaluation \<Rightarrow> learning_evidence slice \<Rightarrow> string \<Rightarrow> tool_config \<Rightarrow> string \<Rightarrow> error option \<Rightarrow> unit op" where
  "record_outcome systemID e evidence artifact definition digest failure =
     (let mine = unfinished systemID (le_evaluation_id (ln_row e)) in
      tx_bind (tx_count db_evaluations mine) (\<lambda>n.
      tx_seq (tx_update db_evaluations_update mine (\<lambda>x. x\<lparr>le_state := finished_state failure,
                le_reason := (case failure of None \<Rightarrow> '''' | Some f \<Rightarrow> take 8192 (error_text f)), le_evidence := evidence,
                le_artifact_digest := artifact, le_definition := definition, le_digest := digest\<rparr>))
      (tx_seq (tx_reject (n \<noteq> 1) (FieldError ''evaluation'' ''evaluation already finished or was disabled''))
      (tx_update db_agents_update (\<lambda>a. ag_system_id a = systemID \<and> ag_agent_id a = le_agent_id (ln_row e))
         (\<lambda>a. a\<lparr>ag_state := CStopped\<rparr>)))))"

definition outcome_notice :: "learning_evaluation \<Rightarrow> error option \<Rightarrow> string \<Rightarrow> string" where
  "outcome_notice e failure digest = ''Protected evaluation '' @ le_evaluation_id (ln_row e) @ '' finished: '' @
     (if failure = None then ''pending_approval'' else ''failed'') @ ''. Evidence digest: '' @ digest @
     ''. This is evidence, not approval or an assignment.''"

definition notify_origin :: "string \<Rightarrow> learning_evaluation \<Rightarrow> string \<Rightarrow> int \<Rightarrow> unit op" where
  "notify_origin systemID e content now =
     tx_bind (readTask systemID (le_origin_task (ln_row e))) (\<lambda>origin.
     tx_when (\<not> TaskTerminal (t_state origin) \<and> t_control origin \<noteq> CStopped)
       (tx_bind (tx_try (emitEvent origin ''task.notice'' ''runtime'' '''' (json_content content) now)) (\<lambda>sent.
        case sent of Inr _ \<Rightarrow> tx_return ()
        | Inl err \<Rightarrow> if \<not> DeniedTask err then tx_fail err
            else terminateTask origin Rejected '''' (''evaluation notification rejected: '' @ error_text err) ''runtime'' '''' now)))"

definition finishEvaluation :: "(string \<Rightarrow> string) \<Rightarrow> string \<Rightarrow> learning_evaluation \<Rightarrow> learning_evidence slice \<Rightarrow> string \<Rightarrow> error option \<Rightarrow> int \<Rightarrow> unit op" where
  "finishEvaluation H systemID e evidence artifact failure0 now =
     (let failure = evidence_failure e (elems evidence) failure0; definition = candidate_of e artifact;
          digest = JsonDigest H (json_outcome e definition evidence) in
      tx_seq (record_outcome systemID e evidence artifact definition digest failure)
        (tx_when (le_notify (ln_row e)) (notify_origin systemID e (outcome_notice e failure digest) now)))"

section \<open>Evaluations whose tasks have ended\<close>

definition ended_evaluation :: "db \<Rightarrow> evaluation_row \<Rightarrow> bool" where
  "ended_evaluation d e \<longleftrightarrow> (le_state e = LQueued \<or> le_state e = LEvaluating) \<and>
     \<not> exists_where (\<lambda>t. live_task (le_system_id e) t \<and> t_learning_id t = le_evaluation_id e) (db_tasks d)"

text \<open>The outcome of one role on one case.\<close>

definition role_result :: "string \<Rightarrow> string \<Rightarrow> string \<Rightarrow> nat \<Rightarrow> task_row op" where
  "role_result systemID i role index = tx_find db_tasks
     (\<lambda>t. t_system_id t = systemID \<and> t_learning_id t = i \<and> t_learning_role t = role @ [char_of (48 + index)])"

definition passed :: "task_row \<Rightarrow> protected_case \<Rightarrow> bool" where
  "passed t c \<longleftrightarrow> t_state t = Completed \<and> t_response t = pt_expected c"

definition role_failure :: "task_row \<Rightarrow> error option \<Rightarrow> error option" where
  "role_failure t failure = (if t_state t \<noteq> Completed
     then Some (ErrInternal (''protected model evaluation did not complete: '' @ t_reason t)) else failure)"

definition skill_evidence :: "string \<Rightarrow> string \<Rightarrow> error option \<times> learning_evidence list \<Rightarrow> nat \<times> protected_case \<Rightarrow>
    (error option \<times> learning_evidence list) op" where
  "skill_evidence systemID i acc ic =
     tx_bind (role_result systemID i ''baseline'' (fst ic)) (\<lambda>b.
     tx_bind (role_result systemID i ''candidate'' (fst ic)) (\<lambda>t.
     tx_return (role_failure t (role_failure b (fst acc)), snd acc @
       [\<lparr>lv_input = pt_input (snd ic), lv_expected = pt_expected (snd ic), lv_baseline = take 4096 (t_response b),
         lv_candidate = take 4096 (t_response t), lv_baseline_passed = passed b (snd ic), lv_candidate_passed = passed t (snd ic)\<rparr>])))"

definition pump_failure :: "(string \<Rightarrow> string) \<Rightarrow> configuration \<Rightarrow> string \<Rightarrow> learning_evaluation \<Rightarrow> error option \<Rightarrow> int \<Rightarrow> error option op" where
  "pump_failure H cfg systemID e err now =
     tx_bind (case err of Some f \<Rightarrow> tx_return (Some f)
        | None \<Rightarrow> tx_bind (tx_try (learningEligible H cfg systemID e now)) (\<lambda>r.
            tx_return (case r of Inl f \<Rightarrow> Some f | Inr _ \<Rightarrow> None))) (\<lambda>failure.
     tx_return (if dc_kind (ln_draft e) = ''executable'' \<and> failure = None
       then Some (ErrInternal ''build outcome unknown after interruption; submit a new revision'') else failure))"

definition pump_evaluation :: "(string \<Rightarrow> string) \<Rightarrow> configuration \<Rightarrow> int \<Rightarrow> evaluation_row \<Rightarrow> unit op" where
  "pump_evaluation H cfg now x =
     (let systemID = le_system_id x; i = le_evaluation_id x in
      tx_bind (evaluation_parts systemID i) (\<lambda>(e, err).
      tx_bind (pump_failure H cfg systemID e err now) (\<lambda>failure.
      if dc_kind (ln_draft e) = ''skill'' then
        tx_bind (tx_fold (skill_evidence systemID i) (failure, []) (enumerate 0 (ln_cases e))) (\<lambda>(failure, evidence).
        finishEvaluation H systemID e (if evidence = [] then None else Some evidence) '''' failure now)
      else finishEvaluation H systemID e None '''' failure now)))"

definition pumpLearning :: "(string \<Rightarrow> string) \<Rightarrow> configuration \<Rightarrow> int \<Rightarrow> unit op" where
  "pumpLearning H cfg now =
     tx_bind (tx_gets (\<lambda>d. take 64 (filter (ended_evaluation d) (db_evaluations d)))) (\<lambda>es.
     tx_foreach (pump_evaluation H cfg now) es)"

section \<open>The build task of a generated tool\<close>

text \<open>The lease of a build, as the record of a call that is no model call; its state is empty, here Pending.\<close>

definition build_execution :: "task_row \<Rightarrow> string \<Rightarrow> string \<Rightarrow> int \<Rightarrow> int \<Rightarrow> execution" where
  "build_execution t i eventID deadline revision =
    \<lparr>e_learning_id = i, e_call_id = i, e_system_id = t_system_id t, e_goal_id = t_goal_id t, e_task_id = t_id t,
     e_activation_id = i, e_activation_owner = '''', e_revision = revision, e_model = '''', e_stream = False,
     e_state = Pending, e_reason = '''', e_response = '''', e_reservation = 0, e_attempts = 0, e_input_tokens = 0,
     e_output_tokens = 0, e_usage_known = False, e_created_at = 0, e_queued_at = 0, e_deadline = deadline,
     e_wait_deadline = 0, e_dispatched_at = 0, e_prompt = '''', e_goal_budget = 0, e_goal_used = 0, e_goal_reserved = 0,
     e_task_state = Pending, e_continuous = False, e_queue_wait_ms = 0, e_retries = 0, e_agent_id = t_agent_id t,
     e_request = '''', e_actions = [], e_event_id = eventID\<rparr>"

definition lease_build :: "string \<Rightarrow> task_row \<Rightarrow> string \<Rightarrow> string \<Rightarrow> int \<Rightarrow> unit op" where
  "lease_build owner t i eventID deadline =
     tx_seq (tx_update db_evaluations_update (\<lambda>x. le_system_id x = t_system_id t \<and> le_evaluation_id x = i) (\<lambda>x. x\<lparr>le_state := LEvaluating\<rparr>))
     (tx_seq (tx_update db_tasks_update (\<lambda>x. t_system_id x = t_system_id t \<and> t_id x = t_id t) (\<lambda>x. x\<lparr>t_state := Running\<rparr>))
     (tx_update db_mailboxes_update (\<lambda>m. mb_system_id m = t_system_id t \<and> mb_event_id m = eventID)
        (\<lambda>m. m\<lparr>mb_state := MLeased, mb_lease_owner := owner, mb_lease_until := deadline, mb_attempts := mb_attempts m + 1\<rparr>)))"

definition claimLearning :: "(string \<Rightarrow> string) \<Rightarrow> configuration \<Rightarrow> string \<Rightarrow> system_record \<Rightarrow> task_row \<Rightarrow> string \<Rightarrow> int \<Rightarrow> execution op" where
  "claimLearning H cfg owner record t eventID now =
     tx_bind (readEvaluation (t_system_id t) (t_learning_id t)) (\<lambda>e.
     tx_seq (tx_reject (le_state (ln_row e) \<noteq> LQueued \<or> t_learning_role t \<noteq> ''build0'')
               (FieldError ''evaluation'' ''build is not safely replayable''))
     (tx_seq (learningEligible H cfg (t_system_id t) e now)
     (tx_bind (readGoal (t_system_id t) (t_goal_id t)) (\<lambda>g.
      let deadline = min (if gl_deadline g = 0 then t_deadline t else gl_deadline g) (now + 120000); i = le_evaluation_id (ln_row e) in
      tx_seq (lease_build owner t i eventID deadline)
        (tx_return (build_execution t i eventID deadline (sr_revision record)))))))"

record generated_evaluation =
  ge_evaluation :: learning_evaluation
  ge_profile :: string
  ge_baseline :: tool_config

definition PrepareEvaluation :: "(string \<Rightarrow> string) \<Rightarrow> execution \<Rightarrow> generated_evaluation op" where
  "PrepareEvaluation H session = read_only
     (tx_bind (readEvaluation (e_system_id session) (e_learning_id session)) (\<lambda>e.
      tx_bind (readTask (e_system_id session) (le_origin_task (ln_row e))) (\<lambda>origin.
      tx_bind (readAgent (e_system_id session) (t_agent_id origin) (t_revision origin)) (\<lambda>a.
      tx_bind (case bl_tool (le_baseline (ln_row e)) of None \<Rightarrow> tx_return zero_tool
         | Some p \<Rightarrow> tx_bind (loadLocalTools H (e_system_id session) [p]) (\<lambda>tools.
             tx_return (case map_of tools (pin_name p) of None \<Rightarrow> zero_tool | Some t \<Rightarrow> t))) (\<lambda>base.
      tx_return \<lparr>ge_evaluation = e, ge_profile = oc_sandbox_profile (a_definition a), ge_baseline = base\<rparr>)))))"

text \<open>errors.Join of two errors that may be absent.\<close>

definition join_errors :: "error option \<Rightarrow> error option \<Rightarrow> error option" where
  "join_errors a b = (case (a, b) of (None, _) \<Rightarrow> b | (_, None) \<Rightarrow> a
     | (Some x, Some y) \<Rightarrow> Some (Joined x y))"

definition complete_task :: "string \<Rightarrow> execution \<Rightarrow> error option \<Rightarrow> unit op" where
  "complete_task owner session failure =
     tx_seq (tx_update db_tasks_update (\<lambda>t. t_system_id t = e_system_id session \<and> t_id t = e_task_id session)
        (\<lambda>t. t\<lparr>t_state := if failure = None then Completed else Failed,
               t_reason := (case failure of None \<Rightarrow> '''' | Some f \<Rightarrow> error_text f)\<rparr>))
     (tx_update db_mailboxes_update (\<lambda>m. mb_system_id m = e_system_id session \<and> mb_event_id m = e_event_id session \<and> mb_lease_owner m = owner)
        (\<lambda>m. m\<lparr>mb_state := MAcked, mb_applied := True\<rparr>))"

definition eligible_failure :: "(string \<Rightarrow> string) \<Rightarrow> configuration \<Rightarrow> string \<Rightarrow> learning_evaluation \<Rightarrow> error option \<Rightarrow> int \<Rightarrow> error option op" where
  "eligible_failure H cfg systemID e failure now =
     (case failure of Some f \<Rightarrow> tx_return (Some f)
      | None \<Rightarrow> tx_bind (tx_try (learningEligible H cfg systemID e now)) (\<lambda>r.
          tx_return (case r of Inl f \<Rightarrow> Some f | Inr _ \<Rightarrow> None)))"

definition CompleteEvaluation :: "(string \<Rightarrow> string) \<Rightarrow> artifact_files \<Rightarrow> configuration \<Rightarrow> string \<Rightarrow> execution \<Rightarrow> learning_evidence slice \<Rightarrow> string \<Rightarrow> error option \<Rightarrow> int \<Rightarrow> error option op" where
  "CompleteEvaluation H fs cfg owner session evidence binary failure0 now = transaction
     (tx_bind (evaluation_parts (e_system_id session) (e_learning_id session)) (\<lambda>(e, err).
      tx_bind (eligible_failure H cfg (e_system_id session) e (join_errors failure0 err) now) (\<lambda>failure1.
      let (artifact, failure) = (case failure1 of Some f \<Rightarrow> ('''', Some f)
            | None \<Rightarrow> (case SaveGeneratedArtifact H fs (cf_data_dir cfg) (e_system_id session) binary of
                Inl f \<Rightarrow> ('''', Some f) | Inr a \<Rightarrow> (a, None))) in
      tx_seq (finishEvaluation H (e_system_id session) e evidence artifact failure now)
      (tx_seq (complete_task owner session failure) (tx_return failure)))))"

end
