(* ===== verification/Delivery.thy ===== *)
theory Delivery
  imports Learning
begin

text \<open>
  Mailbox delivery (team.go): \<open>claim\<close> pumps wakeups and evaluations and leases the next deliverable
  event to a worker, \<open>finishDelivery\<close> ends the activation and decides how the task goes on, and
  \<open>RecoverExecutions\<close> repairs what a restart interrupted. The loop of claim is cut into the
  refusal of a candidate, the preparation of its task (a new call, the inputs, a child's result)
  and the lease; each step gives the task to go on with, or None when the candidate is done.
  Payloads are those the store itself encoded, read by their keys.
\<close>

section \<open>Inputs\<close>

definition payload_field :: "string \<Rightarrow> json \<Rightarrow> string" where
  "payload_field k v = (case v of JObj kvs \<Rightarrow> (case map_of kvs k of Some (JStr s) \<Rightarrow> s | _ \<Rightarrow> '''') | _ \<Rightarrow> '''')"

definition input_mail :: "db \<Rightarrow> task_row \<Rightarrow> string \<Rightarrow> (mailbox_row \<times> event_row) list" where
  "input_mail d t exclude =
     sort_key (mb_sequence \<circ> fst)
       (concat (map (\<lambda>m. case event_row_of d (mb_system_id m) (mb_event_id m) of None \<Rightarrow> []
           | Some v \<Rightarrow> if ev_type v \<in> set input_kinds then [(m, v)] else [])
         (filter (\<lambda>m. mb_system_id m = t_system_id t \<and> mb_task_id m = t_id t \<and> mb_state m = MPending \<and> \<not> mb_applied m \<and>
            mb_event_id m \<noteq> exclude) (db_mailboxes d))))"

definition set_mail :: "string \<Rightarrow> string \<Rightarrow> (mailbox_row \<Rightarrow> mailbox_row) \<Rightarrow> unit op" where
  "set_mail systemID eventID f = tx_update db_mailboxes_update (\<lambda>m. mb_system_id m = systemID \<and> mb_event_id m = eventID) f"

definition acknowledge :: "string \<Rightarrow> string \<Rightarrow> unit op" where
  "acknowledge systemID eventID = set_mail systemID eventID (\<lambda>m. m\<lparr>mb_state := MAcked, mb_applied := True\<rparr>)"

text \<open>The pending inputs are appended to the conversation and acknowledged; the changed task.\<close>

definition consumeInputs :: "task_row \<Rightarrow> string \<Rightarrow> task_row op" where
  "consumeInputs t exclude =
     tx_bind (tx_gets (\<lambda>d. input_mail d t exclude)) (\<lambda>mail.
     let t' = t\<lparr>t_conversation := t_conversation t @ map (\<lambda>(m, v). message ''user'' (payload_field ''content'' (ev_payload v))) mail\<rparr> in
     tx_seq (updateConversation t')
     (tx_seq (tx_foreach (\<lambda>(m, v). acknowledge (t_system_id t) (mb_event_id m)) mail) (tx_return t')))"

definition unheard_mail :: "db \<Rightarrow> task_row \<Rightarrow> mailbox_row \<Rightarrow> bool" where
  "unheard_mail d t m \<longleftrightarrow> mb_system_id m = t_system_id t \<and> mb_task_id m = t_id t \<and> mb_state m = MPending \<and>
     (case event_row_of d (mb_system_id m) (mb_event_id m) of None \<Rightarrow> False | Some v \<Rightarrow> ev_type v \<noteq> ''task.progress'')"

definition queueContinuation :: "task_row \<Rightarrow> string \<Rightarrow> int \<Rightarrow> unit op" where
  "queueContinuation t cause now =
     tx_bind (tx_gets (\<lambda>d. exists_where (unheard_mail d t) (db_mailboxes d))) (\<lambda>pending.
     tx_when (\<not> pending) (tx_bind (emitEvent t ''task.continue'' (t_agent_id t) cause (JObj []) now) (\<lambda>_. tx_return ())))"

section \<open>The candidates of claim\<close>

type_synonym candidate = "mailbox_row \<times> event_row"

definition delivery_target :: "db \<Rightarrow> mailbox_row \<Rightarrow> (task_row \<times> wake_target) option" where
  "delivery_target d m =
     Option.bind (List.find (\<lambda>t. t_system_id t = mb_system_id m \<and> t_id t = mb_task_id m) (db_tasks d)) (\<lambda>t.
     map_option (\<lambda>w. (t, w)) (wake_target_of d t))"

definition delivery_dead :: "task_row \<Rightarrow> wake_target \<Rightarrow> candidate \<Rightarrow> int \<Rightarrow> bool" where
  "delivery_dead t w c now \<longleftrightarrow>
     TaskTerminal (t_state t) \<or> t_control t = CStopped \<or> wt_agent w = CStopped \<or> gl_control (wt_goal w) = CStopped \<or>
     wt_system w = SStopping \<or> wt_system w = SStopped \<or> (ev_expires_at (snd c) > 0 \<and> ev_expires_at (snd c) \<le> now) \<or>
     mb_attempts (fst c) \<ge> 3"

definition deliverable :: "db \<Rightarrow> int \<Rightarrow> candidate \<Rightarrow> bool" where
  "deliverable d now c \<longleftrightarrow>
     mb_state (fst c) = MPending \<and> mb_not_before (fst c) \<le> now \<and>
     \<not> exists_where (\<lambda>l. mb_system_id l = mb_system_id (fst c) \<and> mb_recipient l = mb_recipient (fst c) \<and> mb_state l = MLeased) (db_mailboxes d) \<and>
     (case delivery_target d (fst c) of None \<Rightarrow> False
      | Some (t, w) \<Rightarrow> delivery_dead t w c now \<or>
          (wake_active t w \<and> (t_state t \<noteq> Waiting \<or> t_waiting_tool t = '''' \<or>
             ev_type (snd c) = ''task.result'' \<or> ev_type (snd c) = ''task.progress'')))"

definition with_event :: "db \<Rightarrow> mailbox_row \<Rightarrow> candidate list" where
  "with_event d m = (case event_row_of d (mb_system_id m) (mb_event_id m) of None \<Rightarrow> [] | Some v \<Rightarrow> [(m, v)])"

definition delivery_queue :: "db \<Rightarrow> int \<Rightarrow> candidate list" where
  "delivery_queue d now =
     take 512 (sort_key (\<lambda>c. case last_admission_of d (mb_system_id (fst c)) of Some n \<Rightarrow> n | None \<Rightarrow> 0)
       (sort_key (\<lambda>c. mb_sequence (fst c)) (filter (deliverable d now) (concat (map (with_event d) (db_mailboxes d))))))"

text \<open>A step that a denial ends by rejecting the task.\<close>

definition reject_task :: "task_row \<Rightarrow> string \<Rightarrow> error \<Rightarrow> int \<Rightarrow> 'a option op" where
  "reject_task t eventID e now =
     tx_seq (terminateTask t Rejected '''' (error_text e) ''runtime'' eventID now) (tx_return None)"

definition or_reject :: "task_row \<Rightarrow> string \<Rightarrow> int \<Rightarrow> 'a op \<Rightarrow> 'a option op" where
  "or_reject t eventID now m =
     tx_bind (tx_try m) (\<lambda>r. case r of Inr x \<Rightarrow> tx_return (Some x)
       | Inl e \<Rightarrow> if DeniedTask e then reject_task t eventID e now else tx_fail e)"

definition then_some :: "'a option op \<Rightarrow> ('a \<Rightarrow> 'b option op) \<Rightarrow> 'b option op" where
  "then_some m k = tx_bind m (\<lambda>r. case r of None \<Rightarrow> tx_return None | Some x \<Rightarrow> k x)"

definition dead_reason :: string where
  "dead_reason = ''delivery expired, stopped, terminal, or retry limit exhausted''"

definition dead_letter :: "task_row \<Rightarrow> wake_target \<Rightarrow> candidate \<Rightarrow> int \<Rightarrow> 'a option op" where
  "dead_letter t w c now =
     (let halted = (t_control t = CStopped \<or> wt_agent w = CStopped \<or> gl_control (wt_goal w) = CStopped \<or>
                    wt_system w = SStopping \<or> wt_system w = SStopped) in
      tx_seq (set_mail (t_system_id t) (mb_event_id (fst c)) (\<lambda>m. m\<lparr>mb_state := MDead, mb_reason := dead_reason\<rparr>))
      (tx_seq (tx_when (\<not> TaskTerminal (t_state t))
                (terminateTask t (if halted then Canceled else Failed) '''' dead_reason ''runtime'' (mb_event_id (fst c)) now))
        (tx_return None)))"

section \<open>The task of a candidate goes on\<close>

text \<open>A new call for the task as it now stands.\<close>

definition next_call :: "(string \<Rightarrow> string) \<Rightarrow> configuration \<Rightarrow> string \<Rightarrow> int \<Rightarrow> task_row \<Rightarrow> task_row op" where
  "next_call H cfg owner now t =
     tx_seq (prepareNextCall H cfg t owner now) (readTask (t_system_id t) (t_id t))"

definition first_turn :: "(string \<Rightarrow> string) \<Rightarrow> configuration \<Rightarrow> string \<Rightarrow> int \<Rightarrow> string \<Rightarrow> task_row \<Rightarrow> task_row option op" where
  "first_turn H cfg owner now eventID t =
     (if t_call_id t = '''' then or_reject t eventID now (next_call H cfg owner now t) else tx_return (Some t))"

definition wake_turn :: "(string \<Rightarrow> string) \<Rightarrow> configuration \<Rightarrow> string \<Rightarrow> int \<Rightarrow> string \<Rightarrow> task_row \<Rightarrow> task_row option op" where
  "wake_turn H cfg owner now eventID t =
     (if t_state t = Waiting \<and> t_waiting_tool t = '''' then
        or_reject t eventID now (tx_bind (consumeInputs t '''') (next_call H cfg owner now))
      else tx_return (Some t))"

definition child_result :: "task_row \<Rightarrow> json" where
  "child_result child = JObj [(''reason'', JStr (t_reason child)), (''response'', JStr (t_response child)),
     (''state'', JStr (state_name (t_state child))), (''task_id'', JStr (t_id child))]"

definition accept_result :: "task_row \<Rightarrow> task_row \<Rightarrow> bool" where
  "accept_result t child \<longleftrightarrow> t_waiting_tool t \<noteq> '''' \<and> t_parent child = t_id t \<and> t_goal_id child = t_goal_id t \<and>
     TaskTerminal (t_state child)"

definition with_result :: "task_row \<Rightarrow> task_row \<Rightarrow> task_row" where
  "with_result t child = t\<lparr>t_conversation := t_conversation t @
     [\<lparr>cm_role = ''tool'', cm_content = marshal (child_result child), cm_tool_calls = [], cm_tool_call_id = t_waiting_tool t\<rparr>]\<rparr>"

definition result_turn :: "(string \<Rightarrow> string) \<Rightarrow> configuration \<Rightarrow> string \<Rightarrow> int \<Rightarrow> candidate \<Rightarrow> task_row \<Rightarrow> task_row option op" where
  "result_turn H cfg owner now c t =
     (if ev_type (snd c) \<noteq> ''task.result'' \<or> mb_applied (fst c) then tx_return (Some t) else
      tx_bind (readTask (t_system_id t) (payload_field ''task_id'' (ev_payload (snd c)))) (\<lambda>child.
      if \<not> accept_result t child then
        tx_seq (set_mail (t_system_id t) (mb_event_id (fst c))
                  (\<lambda>m. m\<lparr>mb_state := MDead, mb_reason := ''reply is outside this continuation''\<rparr>)) (tx_return None)
      else or_reject t (mb_event_id (fst c)) now
        (tx_bind (consumeInputs (with_result t child) (mb_event_id (fst c))) (next_call H cfg owner now))))"

definition delivered_kinds :: "string list" where
  "delivered_kinds = [''task.ready'', ''task.continue'', ''task.result'', ''user.input'', ''schedule.fired'', ''memory.changed'', ''task.notice'']"

text \<open>An undispatched first request takes the inputs that arrived since; then the worker's record.\<close>

definition renew_request :: "call_row \<Rightarrow> string \<Rightarrow> int \<Rightarrow> call_row" where
  "renew_request x body reservation = x\<lparr>mc_request := body, mc_reservation := reservation\<rparr>"

definition refresh_request :: "configuration \<Rightarrow> (string \<Rightarrow> string) \<Rightarrow> system_record \<Rightarrow> execution \<Rightarrow> string \<Rightarrow> int \<Rightarrow> task_row \<Rightarrow> (system_record \<times> task_row) option op" where
  "refresh_request cfg H record e eventID now t0 =
     then_some (or_reject t0 eventID now (consumeInputs t0 '''')) (\<lambda>t.
     tx_bind (pinnedTaskRecord record e) (\<lambda>pinned.
     case ConversationRequest H cfg pinned (t_conversation t) (e_stream e) of
       Inl err \<Rightarrow> reject_task t eventID err now
     | Inr (body, reservation) \<Rightarrow>
         tx_seq (tx_reject (reservation \<le> 0) (ErrConstraint ''model_calls''))
         (tx_seq (update_call (e_call_id e) (\<lambda>x. renew_request x body reservation))
         (tx_return (Some (pinned, t))))))"

definition worker_record :: "configuration \<Rightarrow> (string \<Rightarrow> string) \<Rightarrow> system_record \<Rightarrow> execution \<Rightarrow> string \<Rightarrow> int \<Rightarrow> task_row \<Rightarrow> (system_record \<times> task_row) option op" where
  "worker_record cfg H record e eventID now t =
     (if e_state e = AwaitingWorker \<and> e_attempts e = 0 then refresh_request cfg H record e eventID now t
      else tx_bind (pinnedTaskRecord record e) (\<lambda>pinned. tx_return (Some (pinned, t))))"

definition lease_mail :: "string \<Rightarrow> int \<Rightarrow> mailbox_row \<Rightarrow> mailbox_row" where
  "lease_mail owner deadline m = m\<lparr>mb_state := MLeased, mb_lease_owner := owner, mb_lease_until := deadline,
     mb_attempts := mb_attempts m + 1, mb_applied := True\<rparr>"

definition lease :: "string \<Rightarrow> task_row \<Rightarrow> execution \<Rightarrow> string \<Rightarrow> execution op" where
  "lease owner t e eventID =
     tx_seq (update_call (e_call_id e) (\<lambda>x. x\<lparr>mc_activation_owner := owner\<rparr>))
     (tx_seq (tx_update db_tasks_update (\<lambda>x. t_system_id x = t_system_id t \<and> t_id x = t_id t) (\<lambda>x. x\<lparr>t_state := Running\<rparr>))
     (tx_seq (set_mail (t_system_id t) eventID (lease_mail owner (e_deadline e)))
     (tx_bind (readExecution (t_system_id t) (e_call_id e)) (\<lambda>e.
      tx_return (e\<lparr>e_event_id := eventID,
        e_prompt := (case t_conversation t of [] \<Rightarrow> e_prompt e | x # _ \<Rightarrow> cm_content x)\<rparr>)))))"

definition activate :: "(string \<Rightarrow> string) \<Rightarrow> configuration \<Rightarrow> string \<Rightarrow> system_record \<Rightarrow> string \<Rightarrow> int \<Rightarrow> task_row \<Rightarrow> (system_record \<times> execution) option op" where
  "activate H cfg owner saved eventID now t =
     tx_bind (readExecution (t_system_id t) (t_call_id t)) (\<lambda>e.
     let record = Inspect H cfg saved in
     if sr_blocked_reason record \<noteq> '''' then reject_task t eventID (ErrInternal (sr_blocked_reason record)) now else
     then_some (or_reject t eventID now (authorizePins H cfg (t_system_id t) (t_tools t) now)) (\<lambda>_.
     then_some (worker_record cfg H record e eventID now t) (\<lambda>(pinned, t).
     tx_bind (lease owner t e eventID) (\<lambda>e. tx_return (Some (pinned, e))))))"

definition deliver :: "(string \<Rightarrow> string) \<Rightarrow> configuration \<Rightarrow> string \<Rightarrow> system_record \<Rightarrow> int \<Rightarrow> candidate \<Rightarrow> task_row \<Rightarrow> (system_record \<times> execution) option op" where
  "deliver H cfg owner record now c t =
     (let eventID = mb_event_id (fst c); kind = ev_type (snd c) in
      then_some (first_turn H cfg owner now eventID t) (\<lambda>t.
      if t_state t = Waiting \<and> t_waiting_tool t \<noteq> '''' \<and> kind \<noteq> ''task.result'' then tx_return None else
      then_some (wake_turn H cfg owner now eventID t) (\<lambda>t.
      then_some (result_turn H cfg owner now c t) (\<lambda>t.
      tx_seq (tx_reject (kind \<notin> set delivered_kinds) (ErrInternal ''unsupported stored event type''))
        (activate H cfg owner record eventID now t)))))"

definition claim_build :: "(string \<Rightarrow> string) \<Rightarrow> configuration \<Rightarrow> string \<Rightarrow> system_record \<Rightarrow> string \<Rightarrow> int \<Rightarrow> task_row \<Rightarrow> (system_record \<times> execution) option op" where
  "claim_build H cfg owner record eventID now t =
     tx_bind (tx_try (claimLearning H cfg owner record t eventID now)) (\<lambda>r.
     case r of Inr e \<Rightarrow> tx_return (Some (record, e))
     | Inl err \<Rightarrow> if \<not> DeniedTask err then tx_fail err
         else tx_seq (terminateTask t Failed '''' (error_text err) ''runtime'' eventID now) (tx_return None))"

definition active_in :: "(string \<times> string) list \<Rightarrow> string \<Rightarrow> int" where
  "active_in active systemID = count_where (\<lambda>(_, s). s = systemID) active"

definition claim_candidate :: "(string \<Rightarrow> string) \<Rightarrow> configuration \<Rightarrow> string \<Rightarrow> (string \<times> string) list \<Rightarrow> int \<Rightarrow> candidate \<Rightarrow> (system_record \<times> execution) option op" where
  "claim_candidate H cfg owner active now c =
     tx_bind (readTask (mb_system_id (fst c)) (mb_task_id (fst c))) (\<lambda>t.
     if map_of active (t_agent_id t) \<noteq> None then tx_return None else
     tx_bind (readSystem H localAdministrator (mb_system_id (fst c))) (\<lambda>record.
     tx_bind (readAgent (mb_system_id (fst c)) (t_agent_id t) (t_revision t)) (\<lambda>a.
     tx_bind (readGoal (t_system_id t) (t_goal_id t)) (\<lambda>g.
     let w = \<lparr>wt_system = sr_state record, wt_agent = a_state a, wt_goal = g\<rparr>; eventID = mb_event_id (fst c) in
     if delivery_dead t w c now then dead_letter t w c now
     else if \<not> wake_active t w then tx_return None
     else if active_in active (t_system_id t) \<ge> sl_max_active_agents (sc_limits (sr_configuration record)) then tx_return None
     else if ev_type (snd c) = ''tool.evaluate'' then claim_build H cfg owner record eventID now t
     else if ev_type (snd c) = ''task.progress'' then tx_seq (acknowledge (t_system_id t) eventID) (tx_return None)
     else deliver H cfg owner record now c t))))"

fun claim_loop :: "(string \<Rightarrow> string) \<Rightarrow> configuration \<Rightarrow> string \<Rightarrow> (string \<times> string) list \<Rightarrow> int \<Rightarrow> candidate list \<Rightarrow> (system_record \<times> execution) option op" where
  "claim_loop H cfg owner active now [] = tx_return None"
| "claim_loop H cfg owner active now (c # cs) =
     tx_bind (claim_candidate H cfg owner active now c) (\<lambda>r.
     case r of None \<Rightarrow> claim_loop H cfg owner active now cs | Some x \<Rightarrow> tx_return (Some x))"

text \<open>A stopping system whose last lease ended has stopped.\<close>

definition settle_stopping :: "unit op" where
  "settle_stopping = tx_modify (\<lambda>d. db_systems_update (update_where (\<lambda>s. sy_state s = SStopping \<and> \<not> leased_in d (sy_system_id s))
     (\<lambda>s. s\<lparr>sy_state := SStopped\<rparr>)) d)"

definition claim :: "(string \<Rightarrow> string) \<Rightarrow> trigger_services \<Rightarrow> configuration \<Rightarrow> string \<Rightarrow> (string \<times> string) list \<Rightarrow> int \<Rightarrow> (system_record \<times> execution) option op" where
  "claim H ts cfg owner active now = transaction
     (tx_seq (pumpWakeups H ts cfg now)
     (tx_seq (pumpLearning H cfg now)
     (tx_bind (tx_gets (\<lambda>d. delivery_queue d now)) (\<lambda>candidates.
      tx_bind (claim_loop H cfg owner active now candidates) (\<lambda>r.
      tx_seq settle_stopping (tx_return r))))))"

section \<open>The end of an activation\<close>

definition halted :: "task_row \<Rightarrow> goal_row \<Rightarrow> system_state \<Rightarrow> bool" where
  "halted t g state \<longleftrightarrow> state = SStopping \<or> state = SStopped \<or> gl_control g = CStopped \<or> t_control t = CStopped"

text \<open>A worker that outlived its task only loses its lease.\<close>

definition drop_lease :: "string \<Rightarrow> execution \<Rightarrow> task_row \<Rightarrow> unit op" where
  "drop_lease owner session t =
     tx_seq (tx_update db_mailboxes_update (\<lambda>m. mb_system_id m = t_system_id t \<and> mb_event_id m = e_event_id session \<and>
               mb_lease_owner m = owner \<and> mb_state m = MLeased)
               (\<lambda>m. m\<lparr>mb_state := MDead, mb_reason := ''activation ended after task termination''\<rparr>))
       settle_stopping"

definition unknown_tools :: "db \<Rightarrow> execution \<Rightarrow> bool" where
  "unknown_tools d e = exists_where (\<lambda>c. tl_system_id c = e_system_id e \<and> tl_call_id c = e_call_id e \<and>
     (tl_state c = Running \<or> tl_state c = Unknown)) (db_tool_calls d)"

definition requeue_delivery :: "execution \<Rightarrow> task_row \<Rightarrow> unit op" where
  "requeue_delivery session t =
     tx_seq (tx_update db_tasks_update (\<lambda>x. t_system_id x = t_system_id t \<and> t_id x = t_id t)
               (\<lambda>x. x\<lparr>t_state := if t_state x = Waiting then Waiting else Queued\<rparr>))
       (set_mail (t_system_id t) (e_event_id session) (\<lambda>m. m\<lparr>mb_state := MPending, mb_lease_owner := '''', mb_lease_until := 0\<rparr>))"

definition resumable_call :: "execution \<Rightarrow> bool" where
  "resumable_call e \<longleftrightarrow> e_state e = AwaitingWorker \<or> (e_state e = Queued \<and> e_attempts e = 0) \<or> e_state e = Completed"

definition delivery_attempts :: "string \<Rightarrow> execution \<Rightarrow> task_row \<Rightarrow> int op" where
  "delivery_attempts owner session t =
     (if e_event_id session = '''' then tx_return 0 else
      tx_bind (tx_find db_mailboxes (\<lambda>m. mb_system_id m = t_system_id t \<and> mb_event_id m = e_event_id session \<and>
                 mb_lease_owner m = owner)) (\<lambda>m. tx_return (mb_attempts m)))"

definition retry_delivery :: "execution \<Rightarrow> execution \<Rightarrow> task_row \<Rightarrow> int \<Rightarrow> int \<Rightarrow> unit op" where
  "retry_delivery session e t attempts now =
     tx_seq (update_call (e_call_id e) (\<lambda>c. c\<lparr>mc_state := AwaitingWorker, mc_reason := ''worker failed before dispatch; bounded retry pending''\<rparr>))
     (tx_seq (tx_update db_tasks_update (\<lambda>x. t_system_id x = t_system_id t \<and> t_id x = t_id t) (\<lambda>x. x\<lparr>t_state := Queued\<rparr>))
     (set_mail (t_system_id t) (e_event_id session) (\<lambda>m. m\<lparr>mb_state := MPending, mb_not_before := now + 2 ^ nat attempts * 1000,
        mb_reason := ''worker failed before dispatch''\<rparr>)))"

definition delivery_reason :: "execution \<Rightarrow> error \<Rightarrow> string" where
  "delivery_reason e workerErr =
     (if (e_state e = Unknown \<or> e_state e = Failed \<or> e_state e = Canceled \<or> e_state e = Rejected) \<and> e_reason e \<noteq> ''''
      then e_reason e else TaskFailureReason workerErr)"

definition settle_mail :: "execution \<Rightarrow> execution \<Rightarrow> task_row \<Rightarrow> error option \<Rightarrow> unit op" where
  "settle_mail session e t workerErr =
     tx_when (e_event_id session \<noteq> '''')
       (set_mail (t_system_id t) (e_event_id session) (\<lambda>m. case workerErr of
          None \<Rightarrow> m\<lparr>mb_state := MAcked, mb_reason := ''''\<rparr>
        | Some w \<Rightarrow> m\<lparr>mb_state := MDead, mb_reason := delivery_reason e w\<rparr>))"

text \<open>
  How a task whose worker and call succeeded goes on: None when that is decided and recorded, or
  the state and reason it ends with.
\<close>

definition go_on :: "(string \<Rightarrow> string) \<Rightarrow> configuration \<Rightarrow> string \<Rightarrow> execution \<Rightarrow> execution \<Rightarrow> int \<Rightarrow> task_row \<Rightarrow> (run_state \<times> string) option op" where
  "go_on H cfg owner session e now t =
     tx_bind (tx_try (prepareNextCall H cfg t owner now)) (\<lambda>r.
     case r of Inl err \<Rightarrow> if DeniedTask err then tx_return (Some (Rejected, error_text err)) else tx_fail err
     | Inr _ \<Rightarrow>
       tx_bind (tx_try (queueContinuation t (e_event_id session) now)) (\<lambda>r.
       case r of Inl err \<Rightarrow> if DeniedTask err then reject_task t (e_event_id session) err now else tx_fail err
       | Inr _ \<Rightarrow> tx_seq (auditExecution (t_system_id t) (t_agent_id t) ''task.continue'' (e_revision e) now) (tx_return None)))"

definition rest :: "(string \<Rightarrow> string) \<Rightarrow> configuration \<Rightarrow> execution \<Rightarrow> execution \<Rightarrow> task_row \<Rightarrow> int \<Rightarrow> (run_state \<times> string) option op" where
  "rest H cfg session e t now =
     (if e_continuous e \<and> mt_name (hd (e_actions e)) = WireToolName H ''runtime.task.wait'' then
        tx_seq (terminateTask t Completed (t_reason t) (t_reason t) (t_agent_id t) (e_event_id session) now)
        (tx_seq (notifySubscriptions H cfg t ''task.completed'' '''' '''' (e_event_id session) (t_id t) now)
        (tx_seq (auditExecution (t_system_id t) (t_agent_id t) ''task.completed'' (e_revision e) now) (tx_return None)))
      else tx_seq (auditExecution (t_system_id t) (t_agent_id t) ''task.waiting'' (e_revision e) now) (tx_return None))"

definition after_tool :: "(string \<Rightarrow> string) \<Rightarrow> configuration \<Rightarrow> string \<Rightarrow> execution \<Rightarrow> execution \<Rightarrow> task_row \<Rightarrow> int \<Rightarrow> (run_state \<times> string) option op" where
  "after_tool H cfg owner session e t now =
     tx_bind (tx_find db_tool_calls (\<lambda>c. tl_system_id c = t_system_id t \<and> tl_call_id c = e_call_id e \<and>
                tl_tool_call_id c = mt_id (hd (e_actions e)))) (\<lambda>c.
     tx_seq (tx_reject (tl_state c \<noteq> Completed) (ErrInternal ''tool completion lacks durable receipt''))
     (if t_state t = Waiting then rest H cfg session e t now
      else go_on H cfg owner session e now (AppendToolResult t e (tl_result c))))"

definition active_triggers :: "db \<Rightarrow> task_row \<Rightarrow> bool" where
  "active_triggers d t \<longleftrightarrow>
     exists_where (\<lambda>s. sd_system_id s = t_system_id t \<and> sd_task_id s = t_id t \<and> sd_state s = TgActive) (db_schedules d) \<or>
     exists_where (\<lambda>s. sn_system_id s = t_system_id t \<and> sn_task_id s = t_id t \<and> sn_state s = TgActive) (db_subscriptions d)"

definition with_answer :: "task_row \<Rightarrow> execution \<Rightarrow> task_row" where
  "with_answer t e = t\<lparr>t_conversation := t_conversation t @ [message ''assistant'' (e_response e)]\<rparr>"

definition await_triggers :: "execution \<Rightarrow> task_row \<Rightarrow> int \<Rightarrow> unit op" where
  "await_triggers e t now =
     tx_seq (updateConversation (with_answer t e))
     (tx_seq (tx_update db_tasks_update (\<lambda>x. t_system_id x = t_system_id t \<and> t_id x = t_id t)
        (\<lambda>x. x\<lparr>t_state := Waiting, t_waiting_tool := '''', t_reason := ''awaiting scheduled or subscribed input''\<rparr>))
     (auditExecution (t_system_id t) (t_agent_id t) ''task.waiting'' (e_revision e) now))"

definition after_answer :: "(string \<Rightarrow> string) \<Rightarrow> configuration \<Rightarrow> string \<Rightarrow> execution \<Rightarrow> execution \<Rightarrow> task_row \<Rightarrow> int \<Rightarrow> (run_state \<times> string) option op" where
  "after_answer H cfg owner session e t now =
     tx_bind (tx_gets (\<lambda>d. exists_where (pending_input d (t_system_id t) (t_id t)) (db_mailboxes d))) (\<lambda>pending.
     if e_continuous e then tx_return (Some (Completed, e_reason e))
     else if pending then go_on H cfg owner session e now (with_answer t e)
     else tx_bind (tx_gets (\<lambda>d. active_triggers d t)) (\<lambda>triggers.
       if triggers then tx_seq (await_triggers e t now) (tx_return None)
       else tx_return (Some (Completed, e_reason e))))"

definition outcome :: "(string \<Rightarrow> string) \<Rightarrow> configuration \<Rightarrow> string \<Rightarrow> execution \<Rightarrow> execution \<Rightarrow> task_row \<Rightarrow> error option \<Rightarrow> bool \<Rightarrow> int \<Rightarrow> (run_state \<times> string) option op" where
  "outcome H cfg owner session e t workerErr stopped now =
     (if workerErr = None \<and> e_state e = Completed \<and> \<not> stopped then
        (if length (e_actions e) = 1 then after_tool H cfg owner session e t now else after_answer H cfg owner session e t now)
      else tx_return (Some (if stopped then (Canceled, ''execution canceled'') else (Failed, e_reason e))))"

definition final_state :: "execution \<Rightarrow> bool \<Rightarrow> run_state \<Rightarrow> run_state" where
  "final_state e stopped state = (if e_state e = Rejected \<and> \<not> stopped then Rejected else state)"

definition final_reason :: "error option \<Rightarrow> string \<Rightarrow> string" where
  "final_reason workerErr reason =
     (case workerErr of Some w \<Rightarrow> if reason = '''' then TaskFailureReason w else reason | None \<Rightarrow> reason)"

definition end_delivery :: "(string \<Rightarrow> string) \<Rightarrow> configuration \<Rightarrow> execution \<Rightarrow> execution \<Rightarrow> task_row \<Rightarrow> bool \<Rightarrow> run_state \<Rightarrow> string \<Rightarrow> int \<Rightarrow> unit op" where
  "end_delivery H cfg session e t stopped state reason now =
     tx_seq (tx_when (undispatched (e_state e)) (terminalCall e state reason))
     (tx_seq (terminateTask t state (e_response e) reason (t_agent_id t) (e_event_id session) now)
     (tx_seq (tx_when (state = Completed)
               (notifySubscriptions H cfg t ''task.completed'' '''' '''' (e_event_id session) (t_id t) now))
     (tx_seq (tx_when (stopped \<and> t_parent t = '''') (tx_modify (\<lambda>d. db_systems_update
               (update_where (\<lambda>s. sy_system_id s = t_system_id t)
                 (\<lambda>s. s\<lparr>sy_state := if leased_in d (t_system_id t) then SStopping else SStopped\<rparr>)) d)))
     (tx_seq settle_stopping
       (auditExecution (t_system_id t) (t_agent_id t) (''task.'' @ state_name state) (e_revision e) now)))))"

definition conclude :: "(string \<Rightarrow> string) \<Rightarrow> configuration \<Rightarrow> string \<Rightarrow> execution \<Rightarrow> execution \<Rightarrow> task_row \<Rightarrow> error option \<Rightarrow> bool \<Rightarrow> int \<Rightarrow> unit op" where
  "conclude H cfg owner session e t workerErr stopped now =
     tx_seq (settle_mail session e t workerErr)
     (tx_bind (outcome H cfg owner session e t workerErr stopped now) (\<lambda>r.
      case r of None \<Rightarrow> tx_return ()
      | Some (state, reason) \<Rightarrow> end_delivery H cfg session e t stopped (final_state e stopped state) (final_reason workerErr reason) now))"

definition finish_live :: "(string \<Rightarrow> string) \<Rightarrow> configuration \<Rightarrow> string \<Rightarrow> bool \<Rightarrow> execution \<Rightarrow> execution \<Rightarrow> task_row \<Rightarrow> error option \<Rightarrow> bool \<Rightarrow> int \<Rightarrow> unit op" where
  "finish_live H cfg owner shuttingDown session e t workerErr canceled now =
     tx_bind (goal_and_state (t_system_id t) (t_goal_id t)) (\<lambda>(g, state).
     tx_bind (tx_gets (\<lambda>d. unknown_tools d e)) (\<lambda>unknown.
     if shuttingDown \<and> \<not> halted t g state \<and> resumable_call e \<and> \<not> unknown then requeue_delivery session t else
     let stopped = (canceled \<and> \<not> e_continuous e) \<or> halted t g state in
     tx_bind (delivery_attempts owner session t) (\<lambda>attempts.
     if workerErr \<noteq> None \<and> \<not> stopped \<and> e_attempts e = 0 \<and> undispatched (e_state e) \<and> attempts < 3
     then retry_delivery session e t attempts now
     else conclude H cfg owner session e t workerErr stopped now)))"

definition finishDelivery :: "(string \<Rightarrow> string) \<Rightarrow> configuration \<Rightarrow> string \<Rightarrow> bool \<Rightarrow> execution \<Rightarrow> error option \<Rightarrow> bool \<Rightarrow> int \<Rightarrow> unit op" where
  "finishDelivery H cfg owner shuttingDown session workerErr canceled now = transaction
     (tx_bind (authorizeCall session) (\<lambda>e.
      tx_bind (readTask (e_system_id e) (e_task_id e)) (\<lambda>t.
      if t_call_id t \<noteq> e_call_id e \<or> TaskTerminal (t_state t) then drop_lease owner session t
      else finish_live H cfg owner shuttingDown session e t workerErr canceled now)))"

section \<open>Recovery\<close>

definition fail_builds :: "unit op" where
  "fail_builds =
     tx_seq (tx_update db_tasks_update (\<lambda>t. t_learning_role t = ''build0'' \<and> t_state t = Running)
        (\<lambda>t. t\<lparr>t_state := Failed, t_reason := ''daemon restarted during generated build; not retried''\<rparr>))
     (tx_modify (\<lambda>d. db_mailboxes_update (update_where (\<lambda>m. exists_where (\<lambda>t. t_system_id t = mb_system_id m \<and> t_id t = mb_task_id m \<and>
          t_learning_role t = ''build0'' \<and> t_state t = Failed) (db_tasks d))
        (\<lambda>m. m\<lparr>mb_state := MDead, mb_reason := ''generated build outcome unknown''\<rparr>)) d))"

definition unknown_outcomes :: "unit op" where
  "unknown_outcomes =
     tx_seq (tx_update db_attempts_update (\<lambda>a. at_state a = Running) (\<lambda>a. a\<lparr>at_state := Unknown\<rparr>))
     (tx_seq (tx_update db_calls_update (\<lambda>c. mc_state c = Running)
        (\<lambda>c. c\<lparr>mc_state := Unknown, mc_reason := ''daemon restarted after dispatch; outcome requires reconciliation''\<rparr>))
     (tx_update db_tool_calls_update (\<lambda>c. tl_state c = Running)
        (\<lambda>c. c\<lparr>tl_state := Unknown, tl_result := ''daemon restarted during tool dispatch; not retried''\<rparr>)))"

definition finished_wait :: "db \<Rightarrow> mailbox_row \<Rightarrow> bool" where
  "finished_wait d m \<longleftrightarrow> mb_state m = MPending \<and> mb_applied m \<and>
     exists_where (\<lambda>t. t_system_id t = mb_system_id m \<and> t_id t = mb_task_id m \<and> t_state t = Waiting \<and>
       exists_where (\<lambda>c. tl_system_id c = t_system_id t \<and> tl_call_id c = t_call_id t \<and> tl_state c = Completed) (db_tool_calls d)) (db_tasks d)"

definition release_leases :: "unit op" where
  "release_leases =
     tx_seq (tx_update db_mailboxes_update (\<lambda>m. mb_state m = MLeased)
        (\<lambda>m. m\<lparr>mb_state := MPending, mb_lease_owner := '''', mb_lease_until := 0\<rparr>))
     (tx_seq (tx_modify (\<lambda>d. db_mailboxes_update (update_where (finished_wait d) (\<lambda>m. m\<lparr>mb_state := MAcked\<rparr>)) d))
     (tx_update db_tasks_update (\<lambda>t. t_state t = Running) (\<lambda>t. t\<lparr>t_state := Queued\<rparr>)))"

definition unrecoverable :: "db \<Rightarrow> task_row \<Rightarrow> bool" where
  "unrecoverable d t \<longleftrightarrow> live (t_state t) \<and>
     exists_where (\<lambda>c. mc_call_id c = t_call_id t \<and>
       (mc_state c = Unknown \<or> mc_state c = Failed \<or> mc_state c = Canceled \<or> mc_state c = Rejected \<or>
        exists_where (\<lambda>u. tl_system_id u = t_system_id t \<and> tl_call_id u = mc_call_id c \<and> tl_state u = Unknown) (db_tool_calls d))) (db_calls d)"

definition fail_unrecoverable :: "int \<Rightarrow> task_row \<Rightarrow> unit op" where
  "fail_unrecoverable now x =
     tx_bind (readTask (t_system_id x) (t_id x)) (\<lambda>t.
     tx_seq (terminateTask t Failed '''' ''daemon restarted with an unrecoverable outcome'' ''runtime'' '''' now)
     (tx_bind (goalIsContinuous t) (\<lambda>ongoing.
      tx_when (t_parent t = '''' \<and> \<not> ongoing) (update_system (t_system_id t) (\<lambda>s. s\<lparr>sy_state := SStopped\<rparr>)))))"

text \<open>Calls, goals and systems without tasks end.\<close>

definition has_task :: "db \<Rightarrow> call_row \<Rightarrow> bool" where
  "has_task d c = exists_where (\<lambda>t. t_system_id t = mc_system_id c \<and> t_id t = mc_task_id c) (db_tasks d)"

definition goal_has_task :: "db \<Rightarrow> goal_row \<Rightarrow> bool" where
  "goal_has_task d g = exists_where (\<lambda>t. t_system_id t = gl_system_id g \<and> t_goal_id t = gl_goal_id g) (db_tasks d)"

definition abandoned :: "db \<Rightarrow> system_row \<Rightarrow> bool" where
  "abandoned d s \<longleftrightarrow> (sy_state s = SRunning \<or> sy_state s = SStopping) \<and>
     \<not> exists_where (live_task (sy_system_id s)) (db_tasks d) \<and>
     \<not> exists_where (\<lambda>g. gl_system_id g = sy_system_id s \<and> gl_continuous g \<and> gl_control g \<noteq> CStopped \<and> live (gl_state g)) (db_goals d)"

definition end_orphans :: "unit op" where
  "end_orphans =
     tx_seq (tx_modify (\<lambda>d. db_calls_update (update_where (\<lambda>c. undispatched (mc_state c) \<and> \<not> has_task d c)
        (\<lambda>c. c\<lparr>mc_state := Failed, mc_reason := ''legacy activation has no resumable mailbox''\<rparr>)) d))
     (tx_seq (tx_modify (\<lambda>d. db_goals_update (update_where (\<lambda>g. live (gl_state g) \<and> \<not> goal_has_task d g)
        (\<lambda>g. g\<lparr>gl_state := Failed\<rparr>)) d))
     (tx_modify (\<lambda>d. db_systems_update (update_where (abandoned d) (\<lambda>s. s\<lparr>sy_state := SStopped\<rparr>)) d)))"

definition RecoverExecutions :: "int \<Rightarrow> unit op" where
  "RecoverExecutions now = transaction
     (tx_seq fail_builds (tx_seq unknown_outcomes (tx_seq release_leases
     (tx_bind (tx_gets (\<lambda>d. filter (unrecoverable d) (db_tasks d))) (\<lambda>ts.
      tx_seq (tx_foreach (fail_unrecoverable now) ts) end_orphans)))))"

definition taskSnapshot :: "string \<Rightarrow> string \<Rightarrow> task_row op" where
  "taskSnapshot systemID taskID = read_only (readTask systemID taskID)"

end
