(* ===== verification/JsonText.thy ===== *)
theory JsonText
  imports GoJson
begin

text \<open>
  The input side of encoding/json as the program uses it, and DecodeJSON with ScanJSONValue
  (src/internal/protocol/json.go): the grammar of one value with its nesting limit and its
  rule on object keys, and the decoding of a value into a Go struct, field by field, unknown
  fields refused. Decoding loops carry fuel; \<open>scan_enough\<close> shows that the fuel DecodeJSON gives
  is never what ends them. The lower-case table of unicode.ToLower outside ASCII is a
  parameter. The lemmas say that an accepted
  text is nested at most 33 levels with distinct lower-case keys in every object.
\<close>

section \<open>Runes to bytes\<close>

definition encode_rune :: "nat \<Rightarrow> string" where
  "encode_rune n =
     (if n < 128 then [char_of n]
      else if n < 2048 then [char_of (192 + n div 64), char_of (128 + n mod 64)]
      else if n < 65536 then [char_of (224 + n div 4096), char_of (128 + n div 64 mod 64), char_of (128 + n mod 64)]
      else [char_of (240 + n div 262144), char_of (128 + n div 4096 mod 64), char_of (128 + n div 64 mod 64),
            char_of (128 + n mod 64)])"

definition rune_error :: nat where
  "rune_error = 65533"

text \<open>
  strings.ToLower, with the table of the runes outside ASCII as a parameter; an invalid byte
  does not occur in a decoded key.
\<close>

definition lower_rune :: "(nat \<Rightarrow> nat) \<Rightarrow> nat \<Rightarrow> nat" where
  "lower_rune wide n = (if 65 \<le> n \<and> n \<le> 90 then n + 32 else if n < 128 then n else wide n)"

definition to_lower :: "(nat \<Rightarrow> nat) \<Rightarrow> string \<Rightarrow> string" where
  "to_lower wide s = concat (map (\<lambda>p. case fst p of None \<Rightarrow> encode_rune rune_error | Some n \<Rightarrow> encode_rune (lower_rune wide n)) (runes s))"

text \<open>
  foldName of encoding/json compares field names by the smallest rune of each folding class:
  capitals for ASCII letters, and two classes reach ASCII from outside it (U+017F folds to S,
  U+212A to K). The other classes hold no ASCII rune and cannot match a field of the program.
\<close>

definition fold_rune :: "nat \<Rightarrow> nat" where
  "fold_rune n = (if 97 \<le> n \<and> n \<le> 122 then n - 32 else if n = 383 then 83 else if n = 8490 then 75 else n)"

definition fold_name :: "string \<Rightarrow> nat list" where
  "fold_name s = map (\<lambda>p. case fst p of None \<Rightarrow> rune_error | Some n \<Rightarrow> fold_rune n) (runes s)"

section \<open>Scanning a value\<close>

text \<open>A decoded value; a number keeps its literal, as with UseNumber.\<close>

datatype jval =
    VNull
  | VBool bool
  | VNum string
  | VStr string
  | VArr "jval list"
  | VObj "(string \<times> jval) list"

definition json_space :: "char \<Rightarrow> bool" where
  "json_space c \<longleftrightarrow> c = CHR 0x20 \<or> c = CHR 0x09 \<or> c = CHR 0x0A \<or> c = CHR 0x0D"

definition skip_space :: "string \<Rightarrow> string" where
  "skip_space s = dropWhile json_space s"

definition hex_value :: "char \<Rightarrow> nat option" where
  "hex_value c = (let b = byte c in
     if 48 \<le> b \<and> b \<le> 57 then Some (b - 48)
     else if 97 \<le> b \<and> b \<le> 102 then Some (b - 87)
     else if 65 \<le> b \<and> b \<le> 70 then Some (b - 55)
     else None)"

text \<open>Four hexadecimal digits.\<close>

definition hex4 :: "string \<Rightarrow> nat option" where
  "hex4 s = (case map hex_value (take 4 s) of
      [Some a, Some b, Some c, Some d] \<Rightarrow> Some (a * 4096 + b * 256 + c * 16 + d)
    | _ \<Rightarrow> None)"

definition surrogate :: "nat \<Rightarrow> bool" where
  "surrogate n \<longleftrightarrow> 55296 \<le> n \<and> n < 57344"

text \<open>The second half of a surrogate pair, spelled as another escape.\<close>

definition low_half :: "nat \<Rightarrow> string \<Rightarrow> nat option" where
  "low_half hi s =
     (if has_prefix s [CHR 0x5C, CHR ''u''] \<and> hi < 56320 then
        (case hex4 (drop 2 s) of None \<Rightarrow> None
         | Some lo \<Rightarrow> if 56320 \<le> lo \<and> lo < 57344 then Some (65536 + (hi - 55296) * 1024 + (lo - 56320)) else None)
      else None)"

definition plain_escape :: "char \<Rightarrow> char option" where
  "plain_escape c =
     (if c = CHR 0x22 \<or> c = CHR 0x5C \<or> c = CHR ''/'' then Some c
      else if c = CHR ''b'' then Some (CHR 0x08)
      else if c = CHR ''f'' then Some (CHR 0x0C)
      else if c = CHR ''n'' then Some (CHR 0x0A)
      else if c = CHR ''r'' then Some (CHR 0x0D)
      else if c = CHR ''t'' then Some (CHR 0x09)
      else None)"

definition prepend :: "string \<Rightarrow> (string \<times> string) option \<Rightarrow> (string \<times> string) option" where
  "prepend bs r = map_option (\<lambda>(t, rest). (bs @ t, rest)) r"

text \<open>A string after its opening quote: its value and what follows the closing quote.\<close>

function unescape :: "string \<Rightarrow> (string \<times> string) option" where
  "unescape [] = None"
| "unescape (c # cs) =
     (if c = CHR 0x22 then Some ([], cs)
      else if byte c < 32 then None
      else if c \<noteq> CHR 0x5C then prepend [c] (unescape cs)
      else if cs = [] then None
      else if hd cs \<noteq> CHR ''u'' then
        (case plain_escape (hd cs) of None \<Rightarrow> None | Some x \<Rightarrow> prepend [x] (unescape (drop 1 cs)))
      else case hex4 (drop 1 cs) of None \<Rightarrow> None
      | Some n \<Rightarrow>
          if \<not> surrogate n then prepend (encode_rune n) (unescape (drop 5 cs))
          else case low_half n (drop 5 cs) of
            None \<Rightarrow> prepend (encode_rune rune_error) (unescape (drop 5 cs))
          | Some m \<Rightarrow> prepend (encode_rune m) (unescape (drop 11 cs)))"
  by pat_completeness auto
termination by (relation "measure length") auto

text \<open>The longest prefix that is a number, by the states of the scanner.\<close>

definition digits :: "string \<Rightarrow> string \<times> string" where
  "digits s = (takeWhile digit s, dropWhile digit s)"

definition scan_fraction :: "string \<Rightarrow> (string \<times> string) option" where
  "scan_fraction s =
     (if s \<noteq> [] \<and> hd s = CHR ''.'' then
        (case digits (tl s) of (ds, rest) \<Rightarrow> if ds = [] then None else Some (CHR ''.'' # ds, rest))
      else Some ([], s))"

definition scan_exponent :: "string \<Rightarrow> (string \<times> string) option" where
  "scan_exponent s =
     (if s \<noteq> [] \<and> (hd s = CHR ''e'' \<or> hd s = CHR ''E'') then
        (let signed = tl s \<noteq> [] \<and> (hd (tl s) = CHR ''+'' \<or> hd (tl s) = CHR ''-'');
             n = (if signed then 2 else 1) in
         case digits (drop n s) of (ds, rest) \<Rightarrow> if ds = [] then None else Some (take n s @ ds, rest))
      else Some ([], s))"

definition scan_integer :: "string \<Rightarrow> (string \<times> string) option" where
  "scan_integer s =
     (if s \<noteq> [] \<and> hd s = CHR ''0'' then Some (''0'', tl s)
      else case digits s of (ds, rest) \<Rightarrow> if ds = [] then None else Some (ds, rest))"

definition scan_unsigned :: "string \<Rightarrow> (string \<times> string) option" where
  "scan_unsigned s =
     (case scan_integer s of None \<Rightarrow> None | Some (i, s1) \<Rightarrow>
      case scan_fraction s1 of None \<Rightarrow> None | Some (f, s2) \<Rightarrow>
      case scan_exponent s2 of None \<Rightarrow> None | Some (x, s3) \<Rightarrow> Some (i @ f @ x, s3))"

definition scan_number :: "string \<Rightarrow> (string \<times> string) option" where
  "scan_number s =
     (if s \<noteq> [] \<and> hd s = CHR ''-'' then prepend ''-'' (scan_unsigned (tl s)) else scan_unsigned s)"

definition scan_literal :: "string \<Rightarrow> (jval \<times> string) option" where
  "scan_literal s =
     (if has_prefix s ''true'' then Some (VBool True, drop 4 s)
      else if has_prefix s ''false'' then Some (VBool False, drop 5 s)
      else if has_prefix s ''null'' then Some (VNull, drop 4 s)
      else map_option (\<lambda>(lit, rest). (VNum lit, rest)) (scan_number s))"

text \<open>What follows the expected delimiter, white space before it skipped.\<close>

definition expect :: "char \<Rightarrow> string \<Rightarrow> string option" where
  "expect c s = (case skip_space s of [] \<Rightarrow> None | d # rest \<Rightarrow> if d = c then Some rest else None)"

text \<open>
  One value at a depth, its elements, and its members with the keys seen so far. The rule on
  a key and the nesting limit are arguments: ScanJSONValue refuses a key seen before or not in
  lower case and stops below depth 32; json.Unmarshal takes any key and stops at its own limit.
\<close>

definition strict_key :: "(nat \<Rightarrow> nat) \<Rightarrow> string list \<Rightarrow> string \<Rightarrow> bool" where
  "strict_key wide seen key \<longleftrightarrow> key \<notin> set seen \<and> key = to_lower wide key"

definition any_key :: "string list \<Rightarrow> string \<Rightarrow> bool" where
  "any_key seen key = True"

fun scan_value :: "(string list \<Rightarrow> string \<Rightarrow> bool) \<Rightarrow> nat \<Rightarrow> nat \<Rightarrow> nat \<Rightarrow> string \<Rightarrow> (jval \<times> string) option"
and scan_elements :: "(string list \<Rightarrow> string \<Rightarrow> bool) \<Rightarrow> nat \<Rightarrow> nat \<Rightarrow> nat \<Rightarrow> string \<Rightarrow> (jval list \<times> string) option"
and scan_members :: "(string list \<Rightarrow> string \<Rightarrow> bool) \<Rightarrow> nat \<Rightarrow> nat \<Rightarrow> nat \<Rightarrow> string list \<Rightarrow> string \<Rightarrow> ((string \<times> jval) list \<times> string) option"
where
  "scan_value ok lim 0 depth s = None"
| "scan_value ok lim (Suc n) depth s =
     (if depth > lim then None
      else case expect (CHR ''{'') s of
        Some s1 \<Rightarrow>
          (case expect (CHR ''}'') s1 of Some s2 \<Rightarrow> Some (VObj [], s2)
           | None \<Rightarrow> map_option (\<lambda>(kvs, r). (VObj kvs, r)) (scan_members ok lim n depth [] s1))
      | None \<Rightarrow>
        (case expect (CHR ''['') s of
          Some s1 \<Rightarrow>
            (case expect (CHR '']'') s1 of Some s2 \<Rightarrow> Some (VArr [], s2)
             | None \<Rightarrow> map_option (\<lambda>(vs, r). (VArr vs, r)) (scan_elements ok lim n depth s1))
        | None \<Rightarrow>
          (case expect (CHR 0x22) s of
            Some s1 \<Rightarrow> map_option (\<lambda>(t, r). (VStr t, r)) (unescape s1)
          | None \<Rightarrow> scan_literal (skip_space s))))"
| "scan_elements ok lim 0 depth s = None"
| "scan_elements ok lim (Suc n) depth s =
     (case scan_value ok lim n (depth + 1) s of None \<Rightarrow> None
      | Some (v, s1) \<Rightarrow>
          (case expect (CHR '','') s1 of
             Some s2 \<Rightarrow> map_option (\<lambda>(vs, r). (v # vs, r)) (scan_elements ok lim n depth s2)
           | None \<Rightarrow> map_option (\<lambda>r. ([v], r)) (expect (CHR '']'') s1)))"
| "scan_members ok lim 0 depth seen s = None"
| "scan_members ok lim (Suc n) depth seen s =
     (case expect (CHR 0x22) s of None \<Rightarrow> None
      | Some s1 \<Rightarrow>
        (case unescape s1 of None \<Rightarrow> None
         | Some (key, s2) \<Rightarrow>
            if \<not> ok seen key then None
            else case expect (CHR '':'') s2 of None \<Rightarrow> None
            | Some s3 \<Rightarrow>
              (case scan_value ok lim n (depth + 1) s3 of None \<Rightarrow> None
               | Some (v, s4) \<Rightarrow>
                  (case expect (CHR '','') s4 of
                     Some s5 \<Rightarrow> map_option (\<lambda>(kvs, r). ((key, v) # kvs, r)) (scan_members ok lim n depth (key # seen) s5)
                   | None \<Rightarrow> map_option (\<lambda>r. ([(key, v)], r)) (expect (CHR ''}'') s4)))))"

definition scan_fuel :: "string \<Rightarrow> nat" where
  "scan_fuel s = 2 * length s + 2"

definition ScanJSONValue :: "(nat \<Rightarrow> nat) \<Rightarrow> nat \<Rightarrow> string \<Rightarrow> (jval \<times> string) option" where
  "ScanJSONValue wide depth s = scan_value (strict_key wide) 32 (scan_fuel s) depth s"

text \<open>json.Unmarshal: the whole text is one value; unknown members are the target's business.\<close>

definition json_unmarshal :: "(jval \<Rightarrow> 'a option) \<Rightarrow> string \<Rightarrow> 'a option" where
  "json_unmarshal target data =
     (case scan_value any_key 10000 (scan_fuel data) 0 data of None \<Rightarrow> None
      | Some (v, rest) \<Rightarrow> if skip_space rest \<noteq> [] then None else target v)"

text \<open>DecodeJSON into a target whose decoding from a value is given.\<close>

definition DecodeJSON :: "(nat \<Rightarrow> nat) \<Rightarrow> (jval \<Rightarrow> 'a option) \<Rightarrow> string \<Rightarrow> error + 'a" where
  "DecodeJSON wide target data =
     (if \<not> valid_utf8 data then Inl (ErrInternal ''JSON must be valid UTF-8'')
      else case ScanJSONValue wide 0 data of
        None \<Rightarrow> Inl (ErrInternal ''JSON contains invalid, duplicate, or incorrectly cased fields'')
      | Some (v, rest) \<Rightarrow>
          if skip_space rest \<noteq> [] then Inl (ErrInternal ''JSON must contain exactly one value'')
          else case target v of
            None \<Rightarrow> Inl (ErrInternal ''JSON contains an unknown field or an invalid field type'')
          | Some x \<Rightarrow> Inr x)"

section \<open>Decoding into Go values\<close>

text \<open>
  A decoder changes the value it is given; null leaves everything but slices and pointers as
  it was. A struct is decoded member by member, the field found by its exact name first and by
  its folded name otherwise; an unknown member is an error.
\<close>

type_synonym 'a decoder = "jval \<Rightarrow> 'a \<Rightarrow> 'a option"

definition into_string :: "(string \<Rightarrow> 'a \<Rightarrow> 'a) \<Rightarrow> 'a decoder" where
  "into_string upd v x = (case v of VNull \<Rightarrow> Some x | VStr s \<Rightarrow> Some (upd s x) | _ \<Rightarrow> None)"

definition into_bool :: "(bool \<Rightarrow> 'a \<Rightarrow> 'a) \<Rightarrow> 'a decoder" where
  "into_bool upd v x = (case v of VNull \<Rightarrow> Some x | VBool b \<Rightarrow> Some (upd b x) | _ \<Rightarrow> None)"

fun read_digits :: "nat \<Rightarrow> string \<Rightarrow> nat" where
  "read_digits acc [] = acc"
| "read_digits acc (c # cs) = read_digits (10 * acc + (byte c - 48)) cs"

text \<open>strconv.ParseInt in base 10 of a number literal, for a 64-bit field.\<close>

definition int64_range :: "int \<Rightarrow> bool" where
  "int64_range i \<longleftrightarrow> - (2 ^ 63) \<le> i \<and> i < 2 ^ 63"

definition parse_int64 :: "string \<Rightarrow> int option" where
  "parse_int64 lit =
     (let neg = lit \<noteq> [] \<and> hd lit = CHR ''-''; ds = (if neg then tl lit else lit);
          i = (if neg then - int (read_digits 0 ds) else int (read_digits 0 ds)) in
      if ds \<noteq> [] \<and> list_all digit ds \<and> int64_range i then Some i else None)"

definition into_int :: "(int \<Rightarrow> 'a \<Rightarrow> 'a) \<Rightarrow> 'a decoder" where
  "into_int upd v x = (case v of VNull \<Rightarrow> Some x | VNum lit \<Rightarrow> map_option (\<lambda>i. upd i x) (parse_int64 lit) | _ \<Rightarrow> None)"

fun decode_each :: "'b decoder \<Rightarrow> 'b \<Rightarrow> jval list \<Rightarrow> 'b list option" where
  "decode_each dec zero [] = Some []"
| "decode_each dec zero (v # vs) =
     (case dec v zero of None \<Rightarrow> None | Some y \<Rightarrow> map_option (\<lambda>ys. y # ys) (decode_each dec zero vs))"

definition into_slice :: "'b decoder \<Rightarrow> 'b \<Rightarrow> ('b slice \<Rightarrow> 'a \<Rightarrow> 'a) \<Rightarrow> 'a decoder" where
  "into_slice dec zero upd v x =
     (case v of VNull \<Rightarrow> Some (upd None x)
      | VArr vs \<Rightarrow> map_option (\<lambda>ys. upd (Some ys) x) (decode_each dec zero vs)
      | _ \<Rightarrow> None)"

definition into_strings :: "(string slice \<Rightarrow> 'a \<Rightarrow> 'a) \<Rightarrow> 'a decoder" where
  "into_strings upd = into_slice (into_string (\<lambda>s _. s)) '''' upd"

text \<open>A field that is itself a struct, in place or behind a pointer that null clears.\<close>

definition into_struct :: "'b decoder \<Rightarrow> ('a \<Rightarrow> 'b) \<Rightarrow> ('b \<Rightarrow> 'a \<Rightarrow> 'a) \<Rightarrow> 'a decoder" where
  "into_struct dec sel upd v x = map_option (\<lambda>y. upd y x) (dec v (sel x))"

definition into_pointer :: "'b decoder \<Rightarrow> 'b \<Rightarrow> ('a \<Rightarrow> 'b option) \<Rightarrow> ('b option \<Rightarrow> 'a \<Rightarrow> 'a) \<Rightarrow> 'a decoder" where
  "into_pointer dec zero sel upd v x =
     (case v of VNull \<Rightarrow> Some (upd None x)
      | _ \<Rightarrow> map_option (\<lambda>y. upd (Some y) x) (dec v (case sel x of None \<Rightarrow> zero | Some y \<Rightarrow> y)))"

definition find_field :: "(string \<times> 'f) list \<Rightarrow> string \<Rightarrow> 'f option" where
  "find_field flds key =
     (case map_of flds key of Some f \<Rightarrow> Some f
      | None \<Rightarrow> map_option snd (List.find (\<lambda>p. fold_name (fst p) = fold_name key) flds))"

fun decode_members :: "(string \<times> 'a decoder) list \<Rightarrow> (string \<times> jval) list \<Rightarrow> 'a \<Rightarrow> 'a option" where
  "decode_members flds [] x = Some x"
| "decode_members flds ((k, v) # kvs) x =
     (case find_field flds k of None \<Rightarrow> None
      | Some f \<Rightarrow> (case f v x of None \<Rightarrow> None | Some y \<Rightarrow> decode_members flds kvs y))"

definition into_fields :: "(string \<times> 'a decoder) list \<Rightarrow> 'a decoder" where
  "into_fields flds v x = (case v of VNull \<Rightarrow> Some x | VObj kvs \<Rightarrow> decode_members flds kvs x | _ \<Rightarrow> None)"

section \<open>Scanning consumes its input\<close>

lemma skip_space_length: "length (skip_space s) \<le> length s"
  by (simp add: skip_space_def length_dropWhile_le)

lemma expect_length: "expect c s = Some r \<Longrightarrow> length r < length s"
  using skip_space_length [of s] by (auto simp: expect_def split: list.splits if_splits)

lemma prepend_some: "prepend bs r = Some (t, rest) \<longleftrightarrow> (\<exists>u. r = Some (u, rest) \<and> t = bs @ u)"
  by (auto simp: prepend_def)

lemma unescape_length: "unescape s = Some (t, r) \<Longrightarrow> length r < length s"
proof (induction s arbitrary: t rule: unescape.induct)
  case (2 c cs)
  consider (quote) "c = CHR 0x22" | (low) "c \<noteq> CHR 0x22" "byte c < 32"
    | (raw) "c \<noteq> CHR 0x22" "\<not> byte c < 32" "c \<noteq> CHR 0x5C" | (empty) "c = CHR 0x5C" "cs = []" "\<not> byte c < 32"
    | (plain) "c = CHR 0x5C" "cs \<noteq> []" "hd cs \<noteq> CHR ''u''" "\<not> byte c < 32"
    | (unicode) "c = CHR 0x5C" "cs \<noteq> []" "hd cs = CHR ''u''" "\<not> byte c < 32" by blast
  then show ?case
  proof cases
    case raw
    with 2 show ?thesis by (auto simp: prepend_some)
  next
    case plain
    then obtain x where x: "plain_escape (hd cs) = Some x" using 2 by (auto split: option.splits)
    with 2(2) plain 2(6) show ?thesis by (auto simp: prepend_some) fastforce
  next
    case unicode
    then obtain n where n: "hex4 (drop 1 cs) = Some n" using 2 by (auto split: option.splits)
    show ?thesis
    proof (cases "surrogate n")
      case False
      with 2(3) [OF _ unicode(4) _ _ _ n] unicode n 2(6) show ?thesis by (fastforce simp: prepend_some)
    next
      case True
      show ?thesis
      proof (cases "low_half n (drop 5 cs)")
        case None
        with 2(4) [OF _ unicode(4) _ _ _ n _ None] True unicode n 2(6) show ?thesis by (fastforce simp: prepend_some)
      next
        case (Some m)
        with 2(5) [OF _ unicode(4) _ _ _ n _ Some] True unicode n 2(6) show ?thesis by (fastforce simp: prepend_some)
      qed
    qed
  qed (use 2 in auto)
qed simp

lemma digits_length: "digits s = (ds, r) \<Longrightarrow> length s = length ds + length r"
  by (auto simp: digits_def) (metis length_append takeWhile_dropWhile_id)

lemma scan_integer_length: "scan_integer s = Some (t, r) \<Longrightarrow> length r < length s"
  using digits_length [of s] by (cases s) (auto simp: scan_integer_def split: if_splits prod.splits)

lemma scan_fraction_length: "scan_fraction s = Some (t, r) \<Longrightarrow> length r \<le> length s"
  using digits_length [of "tl s"] by (cases s) (auto simp: scan_fraction_def split: if_splits prod.splits)

lemma scan_exponent_length:
  assumes "scan_exponent s = Some (t, r)"
  shows "length r \<le> length s"
proof (cases "s \<noteq> [] \<and> (hd s = CHR ''e'' \<or> hd s = CHR ''E'')")
  case True
  obtain n ds where "digits (drop n s) = (ds, r)"
    using assms True by (auto simp: scan_exponent_def Let_def split: if_splits prod.splits)
  from digits_length [OF this] have "length r \<le> length (drop n s)" by simp
  then show ?thesis by simp
qed (use assms in \<open>auto simp: scan_exponent_def\<close>)

lemma scan_unsigned_length: "scan_unsigned s = Some (t, r) \<Longrightarrow> length r < length s"
  using scan_integer_length scan_fraction_length scan_exponent_length
  by (fastforce simp: scan_unsigned_def split: option.splits)

lemma scan_number_length: "scan_number s = Some (t, r) \<Longrightarrow> length r < length s"
  using scan_unsigned_length [of s] scan_unsigned_length [of "tl s"]
  by (cases s) (auto simp: scan_number_def prepend_some split: if_splits)

lemma has_prefix_length: "has_prefix s p \<Longrightarrow> length p \<le> length s"
  by (auto simp: has_prefix_def) (metis length_take min.cobounded1)

lemma scan_literal_length: "scan_literal s = Some (v, r) \<Longrightarrow> length r < length s"
  using scan_number_length [of s] has_prefix_length [of s "''true''"] has_prefix_length [of s "''false''"]
    has_prefix_length [of s "''null''"]
  by (auto simp: scan_literal_def split: if_splits)

lemma scan_length:
  "scan_value ok lim n depth s = Some (v, r) \<Longrightarrow> length r < length s"
  "scan_elements ok lim n depth s = Some (vs, r) \<Longrightarrow> length r < length s"
  "scan_members ok lim n depth seen s = Some (kvs, r) \<Longrightarrow> length r < length s"
proof (induction ok lim n depth s and ok lim n depth s and ok lim n depth seen s arbitrary: v r and vs r and kvs r
    rule: scan_value_scan_elements_scan_members.induct)
  case (2 ok lim n depth s)
  show ?case
  proof (cases "expect (CHR ''{'') s")
    case (Some s1)
    with 2 expect_length [OF Some] show ?thesis
      by (fastforce split: option.splits if_splits dest: expect_length)
  next
    case None
    note brace = None
    show ?thesis
    proof (cases "expect (CHR ''['') s")
      case (Some s1)
      with 2 brace expect_length [OF Some] show ?thesis
        by (fastforce split: option.splits if_splits dest: expect_length)
    next
      case None
      with 2(3) brace skip_space_length [of s] show ?thesis
        by (fastforce split: option.splits if_splits dest: expect_length unescape_length scan_literal_length)
    qed
  qed
next
  case (4 ok lim n depth s)
  then show ?case by (fastforce split: option.splits dest: expect_length)
next
  case (6 ok lim n depth seen s)
  then show ?case by (fastforce split: option.splits if_splits dest: expect_length unescape_length)
qed simp_all

section \<open>The fuel is enough\<close>

lemma scan_fuel_irrelevant:
  "2 * length s + 1 \<le> n \<Longrightarrow> 2 * length s + 1 \<le> m \<Longrightarrow> scan_value ok lim n depth s = scan_value ok lim m depth s"
  "2 * length s + 2 \<le> n \<Longrightarrow> 2 * length s + 2 \<le> m \<Longrightarrow> scan_elements ok lim n depth s = scan_elements ok lim m depth s"
  "2 * length s + 2 \<le> n \<Longrightarrow> 2 * length s + 2 \<le> m \<Longrightarrow>
     scan_members ok lim n depth seen s = scan_members ok lim m depth seen s"
proof (induction ok lim n depth s and ok lim n depth s and ok lim n depth seen s arbitrary: m and m and m
    rule: scan_value_scan_elements_scan_members.induct)
  case (2 ok lim n depth s)
  from 2(4) obtain k where m: "m = Suc k" by (cases m) auto
  have "scan_members ok lim n depth [] s1 = scan_members ok lim k depth [] s1" if "expect (CHR ''{'') s = Some s1"
      "expect (CHR ''}'') s1 = None" "\<not> depth > lim" for s1
    using 2(2) [OF that(3) that(1) that(2), of k] 2(3,4) m expect_length [OF that(1)] by simp
  moreover have "scan_elements ok lim n depth s1 = scan_elements ok lim k depth s1" if "expect (CHR ''{'') s = None"
      "expect (CHR ''['') s = Some s1" "expect (CHR '']'') s1 = None" "\<not> depth > lim" for s1
    using 2(1) [OF that(4) that(1) that(2) that(3), of k] 2(3,4) m expect_length [OF that(2)] by simp
  ultimately show ?case unfolding m by (simp split: option.splits)
next
  case (4 ok lim n depth s)
  from 4(4) obtain k where m: "m = Suc k" by (cases m) auto
  have v: "scan_value ok lim n (depth + 1) s = scan_value ok lim k (depth + 1) s"
    using 4(1) [of k] 4(3,4) m by simp
  have "scan_elements ok lim n depth s2 = scan_elements ok lim k depth s2"
    if "scan_value ok lim n (depth + 1) s = Some (x, s1)" "expect (CHR '','') s1 = Some s2" for x s1 s2
    using 4(2) [OF that(1) refl that(2), of k] 4(3,4) m scan_length(1) [OF that(1)] expect_length [OF that(2)] by simp
  then show ?case unfolding m scan_elements.simps v by (auto split: option.splits)
next
  case (6 ok lim n depth seen s)
  from 6(4) obtain k where m: "m = Suc k" by (cases m) auto
  have v: "scan_value ok lim n (depth + 1) s3 = scan_value ok lim k (depth + 1) s3"
    if "expect (CHR 0x22) s = Some s1" "unescape s1 = Some (key, s2)"
      "\<not> \<not> ok seen key" "expect (CHR '':'') s2 = Some s3" for s1 key s2 s3
    using 6(1) [OF that(1,2) refl that(3,4), of k] 6(3,4) m expect_length [OF that(1)] expect_length [OF that(4)]
      unescape_length [OF that(2)] by simp
  have "scan_members ok lim n depth (key # seen) s5 = scan_members ok lim k depth (key # seen) s5"
    if "expect (CHR 0x22) s = Some s1" "unescape s1 = Some (key, s2)"
      "\<not> \<not> ok seen key" "expect (CHR '':'') s2 = Some s3"
      "scan_value ok lim n (depth + 1) s3 = Some (x, s4)" "expect (CHR '','') s4 = Some s5" for s1 key s2 s3 x s4 s5
    using 6(2) [OF that(1,2) refl that(3,4,5) refl that(6), of k] 6(3,4) m expect_length [OF that(1)]
      expect_length [OF that(4)] expect_length [OF that(6)] unescape_length [OF that(2)] scan_length(1) [OF that(5)] by simp
  with v show ?case unfolding m scan_members.simps by (auto split: option.splits)
qed simp_all

lemma scan_enough: "scan_fuel s \<le> n \<Longrightarrow> scan_value (strict_key wide) 32 n depth s = ScanJSONValue wide depth s"
  unfolding ScanJSONValue_def by (rule scan_fuel_irrelevant) (simp_all add: scan_fuel_def)

section \<open>What an accepted value looks like\<close>

fun json_levels :: "jval \<Rightarrow> nat" where
  "json_levels (VArr vs) = Suc (fold max (map json_levels vs) 0)"
| "json_levels (VObj kvs) = Suc (fold max (map (\<lambda>kv. json_levels (snd kv)) kvs) 0)"
| "json_levels _ = 1"

text \<open>Every object of the value has distinct keys, each its own lower case.\<close>

fun keys_ok :: "(nat \<Rightarrow> nat) \<Rightarrow> jval \<Rightarrow> bool" where
  "keys_ok wide (VArr vs) = list_all (keys_ok wide) vs"
| "keys_ok wide (VObj kvs) =
     (distinct (map fst kvs) \<and> list_all (\<lambda>kv. to_lower wide (fst kv) = fst kv \<and> keys_ok wide (snd kv)) kvs)"
| "keys_ok wide _ = True"

lemma fold_max_le: "fold max xs a \<le> (b::nat) \<longleftrightarrow> a \<le> b \<and> (\<forall>x \<in> set xs. x \<le> b)"
  by (induction xs arbitrary: a) auto

lemma levels_arr: "json_levels (VArr vs) + depth \<le> b \<longleftrightarrow>
    Suc depth \<le> b \<and> (\<forall>v \<in> set vs. json_levels v + Suc depth \<le> b)"
proof (cases "Suc depth \<le> b")
  case True
  then obtain c where b: "b = Suc depth + c" using le_Suc_ex by blast
  have "fold max (map json_levels vs) 0 \<le> c \<longleftrightarrow> (\<forall>v \<in> set vs. json_levels v \<le> c)" by (simp add: fold_max_le)
  then show ?thesis unfolding b by (simp add: add.commute)
qed simp

lemma levels_obj: "json_levels (VObj kvs) + depth \<le> b \<longleftrightarrow>
    Suc depth \<le> b \<and> (\<forall>kv \<in> set kvs. json_levels (snd kv) + Suc depth \<le> b)"
  using levels_arr [of "map snd kvs" depth b] by (simp add: comp_def)

lemma scan_literal_shape: "scan_literal s = Some (v, r) \<Longrightarrow> json_levels v = 1 \<and> keys_ok wide v"
  by (auto simp: scan_literal_def split: if_splits)

lemma scan_shape:
  "scan_value (strict_key wide) 32 n depth s = Some (v, r) \<Longrightarrow> json_levels v + depth \<le> 33 \<and> keys_ok wide v"
  "scan_elements (strict_key wide) 32 n depth s = Some (vs, r) \<Longrightarrow> \<forall>v \<in> set vs. json_levels v + Suc depth \<le> 33 \<and> keys_ok wide v"
  "scan_members (strict_key wide) 32 n depth seen s = Some (kvs, r) \<Longrightarrow> distinct (map fst kvs) \<and> fst ` set kvs \<inter> set seen = {} \<and>
     (\<forall>kv \<in> set kvs. to_lower wide (fst kv) = fst kv \<and> json_levels (snd kv) + Suc depth \<le> 33 \<and> keys_ok wide (snd kv))"
proof (induction "strict_key wide" "32 :: nat" n depth s and "strict_key wide" "32 :: nat" n depth s and
    "strict_key wide" "32 :: nat" n depth seen s arbitrary: v r and vs r and kvs r
    rule: scan_value_scan_elements_scan_members.induct)
  case (2 n depth s)
  then have d: "\<not> depth > 32" by (auto split: if_splits)
  consider (obj) s1 where "expect (CHR ''{'') s = Some s1"
    | (arr) s1 where "expect (CHR ''{'') s = None" "expect (CHR ''['') s = Some s1"
    | (str) s1 where "expect (CHR ''{'') s = None" "expect (CHR ''['') s = None" "expect (CHR 0x22) s = Some s1"
    | (lit) "expect (CHR ''{'') s = None" "expect (CHR ''['') s = None" "expect (CHR 0x22) s = None"
    by fastforce
  then show ?case
  proof cases
    case obj
    show ?thesis
    proof (cases "expect (CHR ''}'') s1")
      case None
      then obtain kvs where "scan_members (strict_key wide) 32 n depth [] s1 = Some (kvs, r)" "v = VObj kvs" using 2(3) d obj by auto
      from 2(2) [OF d obj None this(1)] d show ?thesis unfolding \<open>v = VObj kvs\<close> by (simp add: levels_obj list_all_iff del: json_levels.simps)
    qed (use 2 d obj in auto)
  next
    case arr
    show ?thesis
    proof (cases "expect (CHR '']'') s1")
      case None
      then obtain vs where "scan_elements (strict_key wide) 32 n depth s1 = Some (vs, r)" "v = VArr vs" using 2(3) d arr by auto
      from 2(1) [OF d arr None this(1)] d show ?thesis unfolding \<open>v = VArr vs\<close> by (simp add: levels_arr list_all_iff del: json_levels.simps)
    qed (use 2 d arr in auto)
  next
    case str
    with 2(3) d show ?thesis by (auto split: option.splits)
  next
    case lit
    with 2(3) d scan_literal_shape show ?thesis by fastforce
  qed
next
  case (4 n depth s)
  then show ?case by (fastforce split: option.splits)
next
  case (6 n depth seen s)
  then obtain s1 key s2 s3 x s4 where step: "expect (CHR 0x22) s = Some s1" "unescape s1 = Some (key, s2)"
      "\<not> \<not> strict_key wide seen key" "expect (CHR '':'') s2 = Some s3"
      "scan_value (strict_key wide) 32 n (depth + 1) s3 = Some (x, s4)" by (auto split: option.splits if_splits)
  have x: "json_levels x + Suc depth \<le> 33 \<and> keys_ok wide x" using 6(1) [OF step(1,2) refl step(3,4,5)] by simp
  show ?case
  proof (cases "expect (CHR '','') s4")
    case None
    with 6(3) step x show ?thesis by (auto simp: strict_key_def)
  next
    case (Some s5)
    with 6(3) step obtain kvs' where "scan_members (strict_key wide) 32 n depth (key # seen) s5 = Some (kvs', r)" "kvs = (key, x) # kvs'"
      by auto
    with 6(2) [OF step(1,2) refl step(3,4,5) refl Some this(1)] step(3) x show ?thesis by (auto simp: strict_key_def)
  qed
qed simp_all

text \<open>What the strict scanner accepts, the lenient one accepts, with the same result.\<close>

lemma scan_lenient:
  "scan_value ok most n depth s = Some (v, r) \<Longrightarrow> most \<le> most' \<Longrightarrow> scan_value any_key most' n depth s = Some (v, r)"
  "scan_elements ok most n depth s = Some (vs, r) \<Longrightarrow> most \<le> most' \<Longrightarrow> scan_elements any_key most' n depth s = Some (vs, r)"
  "scan_members ok most n depth seen s = Some (kvs, r) \<Longrightarrow> most \<le> most' \<Longrightarrow> scan_members any_key most' n depth seen s = Some (kvs, r)"
proof (induction ok most n depth s and ok most n depth s and ok most n depth seen s arbitrary: v r and vs r and kvs r
    rule: scan_value_scan_elements_scan_members.induct)
  case (2 ok most n depth s)
  then show ?case by (auto split: option.splits if_splits)
next
  case (4 ok most n depth s)
  then show ?case by (auto split: option.splits prod.splits)
next
  case (6 ok most n depth seen s)
  then show ?case by (auto simp: any_key_def split: option.splits prod.splits if_splits)
qed simp_all

text \<open>
  Decoded data is one value, which the library's own reading of the same text, without the rule on
  keys and with its own limit on nesting, gives too.
\<close>

lemma decode_json_ok:
  assumes "DecodeJSON wide target data = Inr x"
  shows "\<exists>v. json_unmarshal Some data = Some v \<and> target v = Some x \<and> json_levels v \<le> 33 \<and> keys_ok wide v \<and> valid_utf8 data"
proof -
  obtain v rest where scan: "ScanJSONValue wide 0 data = Some (v, rest)" "skip_space rest = []" "target v = Some x" "valid_utf8 data"
    using assms by (auto simp: DecodeJSON_def split: if_splits option.splits)
  from scan_lenient(1) [OF scan(1) [unfolded ScanJSONValue_def], of 10000] scan(2)
  have "json_unmarshal Some data = Some v" by (simp add: json_unmarshal_def)
  with scan scan_shape(1) [of wide _ 0 data v rest] show ?thesis unfolding ScanJSONValue_def by auto
qed

end
