(* ===== verification/JsonRound.thy ===== *)
theory JsonRound
  imports JsonText
begin

text \<open>
  What encoding/json writes is what the scanner of DecodeJSON reads: UTF-8 encoding and
  decoding of runes are inverse, every escape is undone, and a marshalled value is scanned
  back to the same value with nothing left over. Used for every frame and payload that one
  part of the program encodes and another decodes.
\<close>

section \<open>Decoding undoes encoding: strings\<close>

lemma mod_64: "z \<le> 63 \<Longrightarrow> (64 * k + z) mod 64 = (z :: nat)"
  by simp

lemma encode_four:
  "65536 \<le> n \<Longrightarrow> n div 262144 + 240 < 256 \<Longrightarrow> map byte (encode_rune n) =
     [n div 262144 + 240, n div 4096 mod 64 + 128, n div 64 mod 64 + 128, n mod 64 + 128]"
  by (simp add: encode_rune_def byte_char_of add.commute less_trans [OF mod_less_divisor])

lemma encode_three:
  "2048 \<le> n \<Longrightarrow> n < 65536 \<Longrightarrow> map byte (encode_rune n) =
     [n div 4096 + 224, n div 64 mod 64 + 128, n mod 64 + 128]"
  by (simp add: encode_rune_def byte_char_of add.commute less_trans [OF mod_less_divisor])

lemma three_bytes_rune:
  assumes "224 \<le> b0" "b0 \<le> 239" "three_bytes b0 b1 b2" "n = (b0 - 224) * 4096 + (b1 - 128) * 64 + (b2 - 128)"
  shows "2048 \<le> n \<and> n < 65536 \<and> n div 4096 + 224 = b0 \<and> n div 64 mod 64 + 128 = b1 \<and> n mod 64 + 128 = b2"
proof -
  obtain x y z where b: "b0 = 224 + x" "b1 = 128 + y" "b2 = 128 + z"
    using assms by (metis three_bytes_high le_add_diff_inverse)
  have r: "x \<le> 15" "y \<le> 63" "z \<le> 63" "x = 0 \<Longrightarrow> 32 \<le> y"
    using assms b by (auto simp: three_bytes_def cont_def split: if_splits)
  have n: "n = x * 4096 + y * 64 + z" using assms(4) b by simp
  have "n = 64 * (x * 64 + y) + z" using n by simp
  then have "n mod 64 = z" by (simp only: mod_64 [OF r(3)])
  moreover have "n div 4096 = x" "n div 64 = x * 64 + y" using n r by auto
  moreover have "2048 \<le> n" using n r by (cases "x = 0") auto
  moreover have "n < 65536" using n r by linarith
  ultimately show ?thesis using b r by simp
qed

lemma four_bytes_rune:
  assumes "four_bytes b0 b1 b2 b3" "n = (b0 - 240) * 262144 + (b1 - 128) * 4096 + (b2 - 128) * 64 + (b3 - 128)"
  shows "65536 \<le> n \<and> n div 262144 + 240 = b0 \<and> n div 4096 mod 64 + 128 = b1 \<and> n div 64 mod 64 + 128 = b2 \<and>
    n mod 64 + 128 = b3"
proof -
  have "240 \<le> b0" using assms(1) by (simp add: four_bytes_def)
  then obtain x y z w where b: "b0 = 240 + x" "b1 = 128 + y" "b2 = 128 + z" "b3 = 128 + w"
    using assms(1) by (metis four_bytes_high le_add_diff_inverse)
  have r: "x \<le> 4" "y \<le> 63" "z \<le> 63" "w \<le> 63" "x = 0 \<Longrightarrow> 16 \<le> y"
    using assms(1) b by (auto simp: four_bytes_def cont_def split: if_splits)
  have n: "n = x * 262144 + y * 4096 + z * 64 + w" using assms(2) b by simp
  have "n div 262144 = x" "n div 4096 = x * 64 + y" "n div 64 = x * 4096 + y * 64 + z" using n r by auto
  moreover have "n = 64 * (x * 4096 + y * 64 + z) + w" using n by simp
  then have "n mod 64 = w" by (simp only: mod_64 [OF r(4)])
  moreover have "x * 4096 + y * 64 + z = 64 * (x * 64 + y) + z" by simp
  then have "(x * 4096 + y * 64 + z) mod 64 = z" by (simp only: mod_64 [OF r(3)])
  moreover have "65536 \<le> n" using n r by (cases "x = 0") auto
  ultimately show ?thesis using b r by simp
qed

text \<open>The four shapes of a decoded sequence.\<close>

lemma decode_rune_cases:
  assumes "decode_rune bs = Some (n, w)"
  obtains (one) b0 bs1 where "bs = b0 # bs1" "b0 < 128" "n = b0" "w = 1"
    | (two) b0 b1 bs2 where "bs = b0 # b1 # bs2" "\<not> b0 < 128" "194 \<le> b0" "b0 \<le> 223" "cont b1" "w = 2"
        "n = (b0 - 192) * 64 + (b1 - 128)"
    | (three) b0 b1 b2 bs3 where "bs = b0 # b1 # b2 # bs3" "\<not> b0 < 128" "\<not> b0 \<le> 223" "224 \<le> b0" "b0 \<le> 239"
        "three_bytes b0 b1 b2" "w = 3" "n = (b0 - 224) * 4096 + (b1 - 128) * 64 + (b2 - 128)"
    | (four) b0 b1 b2 b3 bs4 where "bs = b0 # b1 # b2 # b3 # bs4" "\<not> b0 < 128" "\<not> b0 \<le> 223" "\<not> b0 \<le> 239" "four_bytes b0 b1 b2 b3"
        "w = 4" "n = (b0 - 240) * 262144 + (b1 - 128) * 4096 + (b2 - 128) * 64 + (b3 - 128)"
proof (cases bs)
  case (Cons b0 bs1)
  show ?thesis
  proof (cases "b0 < 128")
    case True
    with assms Cons one show ?thesis by simp
  next
    case ge: False
    then obtain b1 bs2 where b1: "bs1 = b1 # bs2" using assms Cons by (cases bs1) auto
    show ?thesis
    proof (cases "194 \<le> b0 \<and> b0 \<le> 223")
      case True
      with assms Cons ge b1 two show ?thesis by (simp split: if_splits)
    next
      case no2: False
      then obtain b2 bs3 where b2: "bs2 = b2 # bs3" using assms Cons ge b1 by (cases bs2) auto
      show ?thesis
      proof (cases "224 \<le> b0 \<and> b0 \<le> 239")
        case True
        with assms Cons ge b1 b2 no2 three show ?thesis by (simp split: if_splits)
      next
        case no3: False
        then obtain b3 bs4 where b3: "bs3 = b3 # bs4" using assms Cons ge b1 b2 no2 by (cases bs3) auto
        have "four_bytes b0 b1 b2 b3" "w = 4" "n = (b0 - 240) * 262144 + (b1 - 128) * 4096 + (b2 - 128) * 64 + (b3 - 128)"
          using assms Cons ge b1 b2 b3 no2 no3 by (simp_all split: if_splits)
        moreover from this(1) have "\<not> b0 \<le> 223" "\<not> b0 \<le> 239" by (simp_all add: four_bytes_def)
        ultimately show ?thesis using four Cons ge b1 b2 b3 by blast
      qed
    qed
  qed
qed (use assms in simp)

lemma encode_decode:
  assumes "decode_rune bs = Some (n, w)" and "\<forall>b \<in> set bs. b < 256"
  shows "map byte (encode_rune n) = take w bs"
proof (cases bs)
  case (Cons b0 bs1)
  consider (one) "b0 < 128"
    | (two) b1 bs2 where "bs1 = b1 # bs2" "194 \<le> b0" "b0 \<le> 223" "cont b1"
    | (three) b1 b2 bs3 where "bs1 = b1 # b2 # bs3" "224 \<le> b0" "b0 \<le> 239" "three_bytes b0 b1 b2"
    | (four) b1 b2 b3 bs4 where "bs1 = b1 # b2 # b3 # bs4" "four_bytes b0 b1 b2 b3"
    using assms(1) Cons by (auto split: if_splits list.splits)
  then show ?thesis
  proof cases
    case one
    with assms Cons show ?thesis by (auto simp: encode_rune_def byte_char_of)
  next
    case two
    obtain x where x: "b0 = 192 + x" using two(2) le_Suc_ex [of 192 b0] by auto
    obtain y where y: "b1 = 128 + y" using two(4) le_Suc_ex [of 128 b1] by (auto simp: cont_def)
    note b = x y
    have r: "2 \<le> x" "x \<le> 31" "y \<le> 63" using two b by (auto simp: cont_def)
    have "n = x * 64 + y" "w = 2" using assms(1) Cons two b by auto
    moreover from this(1) have "n div 64 = x" "n mod 64 = y" "128 \<le> n" "n < 2048" using r by auto
    ultimately show ?thesis using Cons two b r by (simp add: encode_rune_def byte_char_of numeral_2_eq_2)
  next
    case three
    then have n: "n = (b0 - 224) * 4096 + (b1 - 128) * 64 + (b2 - 128)" and w: "w = 3" using assms(1) Cons by auto
    from three_bytes_rune [OF three(2-4) n] encode_three [of n] Cons three(1) w show ?thesis by simp
  next
    case four
    have "240 \<le> b0" using four(2) by (simp add: four_bytes_def)
    then have n: "n = (b0 - 240) * 262144 + (b1 - 128) * 4096 + (b2 - 128) * 64 + (b3 - 128)" and w: "w = 4"
      using assms(1) Cons four by auto
    have "b0 < 256" using assms(2) Cons by simp
    with four_bytes_rune [OF four(2) n] encode_four [of n] Cons four(1) w show ?thesis by simp
  qed
qed (use assms in simp)

lemma rune_at_encode:
  assumes "rune_at (c # cs) = Some (n, w)"
  shows "encode_rune n = c # take (w - 1) cs"
proof -
  have d: "decode_rune (map byte (take 4 (c # cs))) = Some (n, w)" using assms by (simp add: rune_at_def)
  from decode_rune_width [OF this] have w: "1 \<le> w" "w \<le> 4" by blast+
  have "byte x < 256" for x by (simp add: byte_def)
  with encode_decode [OF d] have "map byte (encode_rune n) = take w (map byte (take 4 (c # cs)))" by auto
  also have "\<dots> = map byte (take w (c # cs))" using w by (cases w) (simp_all add: take_map min_absorb1)
  also have "take w (c # cs) = c # take (w - 1) cs" using w by (cases w) auto
  finally show ?thesis using byte_inj by (metis inj_map_eq_map injI)
qed

lemma runes_encode: "(Some n, bs) \<in> set (runes s) \<Longrightarrow> bs = encode_rune n"
proof (induction s rule: runes.induct)
  case (2 c cs)
  show ?case
  proof (cases "rune_at (c # cs)")
    case None
    with 2 show ?thesis by auto
  next
    case (Some p)
    then obtain r w where p: "rune_at (c # cs) = Some (r, w)" by (cases p) auto
    from 2(3) p consider "n = r" "bs = c # take (w - 1) cs" | "(Some n, bs) \<in> set (runes (drop (w - 1) cs))" by auto
    then show ?thesis using rune_at_encode [OF p] 2(2) [OF p refl] by cases auto
  qed
qed simp

text \<open>A decoded rune is below 128 and its own byte, or all its bytes are at least 128.\<close>

lemma encode_rune_bytes:
  "n < 128 \<and> encode_rune n = [char_of n] \<or> (\<forall>c \<in> set (encode_rune n). 128 \<le> byte c)"
  if "(Some n, encode_rune n) \<in> set (runes s)"
  using that
proof (induction s rule: runes.induct)
  case (2 c cs)
  show ?case
  proof (cases "n < 128")
    case True
    then show ?thesis by (simp add: encode_rune_def)
  next
    case False
    show ?thesis
    proof (cases "rune_at (c # cs)")
      case None
      with 2 show ?thesis by auto
    next
      case (Some p)
      then obtain r w where p: "rune_at (c # cs) = Some (r, w)" by (cases p) auto
      from 2(3) p consider "n = r" | "(Some n, encode_rune n) \<in> set (runes (drop (w - 1) cs))" by auto
      then show ?thesis
      proof cases
        case 1
        have "w \<le> 4" using p decode_rune_width unfolding rune_at_def by blast
        from rune_at_bytes [OF p this] have "\<forall>x \<in> set (c # take (w - 1) cs). 128 \<le> byte x"
          using False 1 rune_at_encode [OF p] p
          by (auto simp: rune_at_def split: if_splits)
        with rune_at_encode [OF p] 1 show ?thesis by simp
      next
        case 2
        with "2.IH"(2) [OF p refl] show ?thesis by simp
      qed
    qed
  qed
qed simp

lemma unescape_raw: "\<forall>c \<in> set bs. 128 \<le> byte c \<Longrightarrow> unescape (bs @ t) = prepend bs (unescape t)"
proof (induction bs)
  case Nil
  then show ?case by (cases "unescape t") (auto simp: prepend_def)
next
  case (Cons c bs)
  have "c \<noteq> CHR 0x22" "c \<noteq> CHR 0x5C" "\<not> byte c < 32" using Cons(2) by (auto simp: byte_def)
  with Cons show ?case by (cases "unescape t") (auto simp: prepend_def)
qed

lemma hex_value_hex_char: "k < 16 \<Longrightarrow> hex_value (hex_char k) = Some k"
  by (auto simp: hex_value_def hex_char_def byte_char_of Let_def)

lemma hex4_low: "n < 256 \<Longrightarrow> hex4 (''00'' @ hex_char (n div 16) # hex_char (n mod 16) # t) = Some n"
  using hex_value_hex_char [of "n div 16"] hex_value_hex_char [of "n mod 16"]
  by (simp add: hex4_def hex_value_def byte_def Let_def)

lemma unescape_escaped:
  "unescape (CHR 0x5C # CHR ''u'' # h1 # h2 # h3 # h4 # t) = prepend (encode_rune n) (unescape t)"
  if "hex4 [h1, h2, h3, h4] = Some n" "\<not> surrogate n"
proof -
  have "hex4 (h1 # h2 # h3 # h4 # t) = Some n" using that(1) by (simp add: hex4_def)
  with that(2) show ?thesis by (simp add: byte_def eval_nat_numeral)
qed

lemma unescape_plain:
  "plain_escape e = Some x \<Longrightarrow> e \<noteq> CHR ''u'' \<Longrightarrow> unescape (CHR 0x5C # e # t) = prepend [x] (unescape t)"
  by (simp add: byte_def)

lemma unescape_rune:
  assumes "(Some n, bs) \<in> set (runes s)"
  shows "unescape (json_rune (Some n, bs) @ t) = prepend bs (unescape t)"
proof -
  have bs: "bs = encode_rune n" using assms by (rule runes_encode)
  consider (named) "n \<in> {34, 92, 8, 12, 10, 13, 9}"
    | (low) "n \<notin> {34, 92, 8, 12, 10, 13, 9}" "n < 32 \<or> n = 60 \<or> n = 62 \<or> n = 38"
    | (sep) "n = 8232 \<or> n = 8233"
    | (raw) "n \<notin> {34, 92, 8, 12, 10, 13, 9, 60, 62, 38, 8232, 8233}" "\<not> n < 32" by auto
  then show ?thesis
  proof cases
    case named
    then have "\<exists>e x. json_rune (Some n, bs) = [CHR 0x5C, e] \<and> plain_escape e = Some x \<and> e \<noteq> CHR ''u'' \<and> encode_rune n = [x]"
      unfolding insert_iff empty_iff
      by (elim disjE) (simp_all add: json_rune_def encode_rune_def plain_escape_def char_of_def bit_0)
    with unescape_plain bs show ?thesis by (auto simp del: unescape.simps)
  next
    case low
    then have n: "n < 256" "\<not> surrogate n" by (auto simp: surrogate_def)
    have "json_rune (Some n, bs) = CHR 0x5C # ''u00'' @ [hex_char (n div 16), hex_char (n mod 16)]"
      using low by (simp add: json_rune_def)
    with unescape_escaped [OF _ n(2), of "CHR ''0''" "CHR ''0''" "hex_char (n div 16)" "hex_char (n mod 16)" t]
      hex4_low [OF n(1), of "[]"] bs show ?thesis by (simp del: unescape.simps)
  next
    case sep
    have "hex4 ''2028'' = Some 8232" "hex4 ''2029'' = Some 8233"
      by code_simp+
    then have "unescape (CHR 0x5C # ''u2028'' @ t) = prepend (encode_rune 8232) (unescape t)"
        "unescape (CHR 0x5C # ''u2029'' @ t) = prepend (encode_rune 8233) (unescape t)"
      using unescape_escaped [of "CHR ''2''" "CHR ''0''" "CHR ''2''" _ _ t] by (simp_all add: surrogate_def del: unescape.simps)
    moreover have "json_rune (Some n, bs) = (if n = 8232 then CHR 0x5C # ''u2028'' else CHR 0x5C # ''u2029'')"
      using sep by (auto simp: json_rune_def)
    ultimately show ?thesis using sep unfolding bs by (auto simp del: unescape.simps)
  next
    case raw
    then have j: "json_rune (Some n, bs) = bs" by (simp add: json_rune_def)
    from encode_rune_bytes [of n s] assms bs
    consider "n < 128" "bs = [char_of n]" | "\<forall>c \<in> set bs. 128 \<le> byte c" by auto
    then show ?thesis
    proof cases
      case 1
      then have b: "byte (char_of n) = n" by (simp add: byte_char_of)
      have "char_of n \<noteq> CHR 0x22"
      proof
        assume "char_of n = CHR 0x22"
        with b have "n = byte (CHR 0x22)" by simp
        with raw show False by (simp add: byte_def)
      qed
      moreover have "char_of n \<noteq> CHR 0x5C"
      proof
        assume "char_of n = CHR 0x5C"
        with b have "n = byte (CHR 0x5C)" by simp
        with raw show False by (simp add: byte_def)
      qed
      moreover have "unescape (bs @ t) = prepend bs (unescape t)" unfolding 1(2) using calculation b raw(2) by simp
      ultimately show ?thesis using j by simp
    next
      case 2
      with j show ?thesis by (simp add: unescape_raw del: unescape.simps)
    qed
  qed
qed

lemma unescape_json_string:
  assumes "valid_utf8 s"
  shows "unescape (concat (map json_rune (runes s)) @ CHR 0x22 # t) = Some (s, t)"
proof -
  have "unescape (concat (map json_rune rs) @ CHR 0x22 # t) = Some (concat (map snd rs), t)"
    if "set rs \<subseteq> set (runes s)" for rs
    using that
  proof (induction rs)
    case (Cons p rs)
    obtain n bs where p: "p = (Some n, bs)" using assms Cons(2) by (cases p) (auto simp: valid_utf8_def list_all_iff)
    with Cons unescape_rune [of n bs s] show ?case by (simp add: prepend_def del: unescape.simps)
  qed simp
  from this [OF subset_refl] show ?thesis by (simp add: concat_runes)
qed

section \<open>Decoding undoes encoding: values\<close>

text \<open>The decoded form of a marshalled value, and the values whose text DecodeJSON accepts.\<close>

fun value_of :: "json \<Rightarrow> jval" where
  "value_of JNull = VNull"
| "value_of (JBool b) = VBool b"
| "value_of (JInt i) = VNum (dec_int i)"
| "value_of (JStr s) = VStr s"
| "value_of (JRaw s) = VStr s"
| "value_of (JArr xs) = VArr (map value_of xs)"
| "value_of (JObj kvs) = VObj (map (\<lambda>kv. (fst kv, value_of (snd kv))) kvs)"

definition lower_key :: "(nat \<Rightarrow> nat) \<Rightarrow> string \<Rightarrow> bool" where
  "lower_key wide k \<longleftrightarrow> valid_utf8 k \<and> to_lower wide k = k"

fun readable :: "(nat \<Rightarrow> nat) \<Rightarrow> nat \<Rightarrow> json \<Rightarrow> bool" where
  "readable wide depth (JStr s) \<longleftrightarrow> valid_utf8 s \<and> depth \<le> 32"
| "readable wide depth (JRaw s) \<longleftrightarrow> False"
| "readable wide depth (JArr xs) \<longleftrightarrow> depth \<le> 32 \<and> list_all (readable wide (Suc depth)) xs"
| "readable wide depth (JObj kvs) \<longleftrightarrow> depth \<le> 32 \<and> distinct (map fst kvs) \<and>
     list_all (\<lambda>kv. lower_key wide (fst kv) \<and> readable wide (Suc depth) (snd kv)) kvs"
| "readable wide depth j \<longleftrightarrow> depth \<le> 32"

text \<open>What may follow a number.\<close>

definition number_ends :: "string \<Rightarrow> bool" where
  "number_ends s \<longleftrightarrow> s = [] \<or> \<not> digit (hd s) \<and> hd s \<notin> {CHR ''.'', CHR ''e'', CHR ''E''}"

lemma digit_byte: "digit c \<longleftrightarrow> 48 \<le> byte c \<and> byte c \<le> 57"
  by (simp add: digit_def byte_def less_eq_char_def)

lemma dec_nat_digit: "list_all digit (dec_nat n)"
  using dec_nat_digits by (auto simp: list_all_iff digit_byte)

lemma dec_nat_nonempty: "dec_nat n \<noteq> []"
  by (subst dec_nat.simps) simp

lemma dec_nat_leading: "n \<noteq> 0 \<Longrightarrow> hd (dec_nat n) \<noteq> CHR ''0''"
proof (induction n rule: dec_nat.induct)
  case (1 n)
  show ?case
  proof (cases "n < 10")
    case True
    with 1(2) have "byte (char_of (48 + n)) \<noteq> byte (CHR ''0'')" by (simp add: byte_char_of) (simp add: byte_def)
    with True show ?thesis by (subst dec_nat.simps) auto
  next
    case False
    then have "n div 10 \<noteq> 0" by simp
    with 1(1) False dec_nat_nonempty [of "n div 10"] show ?thesis by (subst dec_nat.simps) simp
  qed
qed

lemma digits_append: "list_all digit ds \<Longrightarrow> number_ends r \<Longrightarrow> digits (ds @ r) = (ds, r)"
  by (cases r) (auto simp: digits_def number_ends_def list_all_iff takeWhile_append2 dropWhile_append2)

lemma scan_unsigned_dec: "number_ends r \<Longrightarrow> scan_unsigned (dec_nat n @ r) = Some (dec_nat n, r)"
proof -
  assume r: "number_ends r"
  have "scan_integer (dec_nat n @ r) = Some (dec_nat n, r)"
  proof (cases "n = 0")
    case True
    then have "dec_nat n = ''0''" by (simp add: dec_nat.simps [of 0] char_of_def bit_0)
    then show ?thesis by (simp add: scan_integer_def)
  next
    case False
    then show ?thesis using digits_append [OF dec_nat_digit r, of n] dec_nat_leading [of n] dec_nat_nonempty [of n]
      by (simp add: scan_integer_def)
  qed
  moreover have "scan_fraction r = Some ([], r)" "scan_exponent r = Some ([], r)"
    using r by (auto simp: scan_fraction_def scan_exponent_def number_ends_def)
  ultimately show ?thesis by (simp add: scan_unsigned_def)
qed

lemma dec_int_first: "\<exists>c cs. dec_int i = c # cs \<and> (c = CHR ''-'' \<or> digit c)"
  using dec_nat_nonempty [of "nat i"] dec_nat_digit [of "nat i"] by (cases "dec_nat (nat i)") (auto simp: dec_int_def)

lemma scan_number_dec: "number_ends r \<Longrightarrow> scan_number (dec_int i @ r) = Some (dec_int i, r)"
proof (cases "i < 0")
  case False
  moreover have "hd (dec_nat (nat i)) \<noteq> CHR ''-''"
    using dec_nat_digit [of "nat i"] dec_nat_nonempty [of "nat i"]
    by (cases "dec_nat (nat i)") (auto simp: digit_byte byte_def)
  moreover assume "number_ends r"
  ultimately show ?thesis using dec_nat_nonempty [of "nat i"]
    by (simp add: scan_number_def dec_int_def scan_unsigned_dec)
qed (simp add: scan_number_def dec_int_def scan_unsigned_dec prepend_def)

lemma read_digits_dec: "read_digits a (dec_nat n) = a * 10 ^ length (dec_nat n) + n"
proof (induction n arbitrary: a rule: dec_nat.induct)
  case (1 n)
  have app: "read_digits a (xs @ [c]) = 10 * read_digits a xs + (byte c - 48)" for xs c a
    by (induction xs arbitrary: a) auto
  show ?case
  proof (cases "n < 10")
    case True
    then show ?thesis by (simp add: dec_nat.simps [of n] byte_char_of)
  next
    case False
    have "48 + n mod 10 < 256" using mod_less_divisor [of 10 n] by linarith
    with False 1 show ?thesis by (simp add: dec_nat.simps [of n] app byte_char_of algebra_simps)
  qed
qed

lemma parse_dec_int: "int64_range i \<Longrightarrow> parse_int64 (dec_int i) = Some i"
proof -
  assume r: "int64_range i"
  have "hd (dec_nat k) \<noteq> CHR ''-''" for k
    using dec_nat_digit [of k] dec_nat_nonempty [of k] by (cases "dec_nat k") (auto simp: digit_byte byte_def)
  then show ?thesis using r dec_nat_nonempty dec_nat_digit read_digits_dec [of 0]
    by (simp add: parse_int64_def dec_int_def Let_def)
qed

text \<open>The first character of an encoded value tells its kind.\<close>

lemma skip_space_char [simp]: "\<not> json_space c \<Longrightarrow> skip_space (c # s) = c # s"
  by (simp add: skip_space_def)

lemma expect_char: "\<not> json_space c \<Longrightarrow> expect d (c # s) = (if c = d then Some s else None)"
  by (simp add: expect_def)

lemma not_space_delims [simp]:
  "\<not> json_space (CHR ''{'')" "\<not> json_space (CHR ''}'')" "\<not> json_space (CHR ''['')" "\<not> json_space (CHR '']'')"
  "\<not> json_space (CHR 0x22)" "\<not> json_space (CHR '','')" "\<not> json_space (CHR '':'')" "\<not> json_space (CHR ''-'')"
  "\<not> json_space (CHR ''t'')" "\<not> json_space (CHR ''f'')" "\<not> json_space (CHR ''n'')"
  by (simp_all add: json_space_def)

lemma digit_not_space: "digit c \<Longrightarrow> \<not> json_space c"
  by (auto simp: digit_byte json_space_def byte_def)

lemma digit_not_delim: "digit c \<Longrightarrow> c \<notin> {CHR ''{'', CHR ''['', CHR 0x22, CHR '']'', CHR ''}'', CHR ''t'', CHR ''f'', CHR ''n''}"
  by (auto simp: digit_byte byte_def)

lemma number_ends_delims [simp]:
  "number_ends []" "number_ends (CHR '','' # s)" "number_ends (CHR '']'' # s)" "number_ends (CHR ''}'' # s)"
  by (simp_all add: number_ends_def digit_byte byte_def)

lemma json_string_cons: "json_string s = CHR 0x22 # concat (map json_rune (runes s)) @ [CHR 0x22]"
  by (simp add: json_string_def)

lemma scan_string:
  assumes "valid_utf8 t" "depth \<le> 32"
  shows "scan_value (strict_key wide) 32 (Suc n) depth (json_string t @ r) = Some (VStr t, r)"
  using assms unescape_json_string [OF assms(1), of r] by (simp add: json_string_cons expect_char)

lemma scan_int:
  assumes "number_ends r" "depth \<le> 32"
  shows "scan_value (strict_key wide) 32 (Suc n) depth (dec_int i @ r) = Some (VNum (dec_int i), r)"
proof -
  obtain c cs where i: "dec_int i = c # cs" and c: "c = CHR ''-'' \<or> digit c" using dec_int_first by blast
  have "\<not> json_space c" "c \<noteq> CHR ''{''" "c \<noteq> CHR ''[''" "c \<noteq> CHR 0x22" "c \<noteq> CHR ''t''" "c \<noteq> CHR ''f''" "c \<noteq> CHR ''n''"
    using c digit_not_space digit_not_delim [of c] by auto
  with assms scan_number_dec [OF assms(1), of i] i show ?thesis
    by (simp add: expect_char scan_literal_def has_prefix_def)
qed

lemma marshal_first:
  assumes "readable wide depth j"
  obtains c cs where "marshal j = c # cs" "\<not> json_space c" "c \<noteq> CHR '']''" "c \<noteq> CHR ''}''"
proof (cases j)
  case (JInt i)
  obtain c cs where "dec_int i = c # cs" "c = CHR ''-'' \<or> digit c" using dec_int_first by blast
  with JInt digit_not_space [of c] digit_not_delim [of c] show ?thesis by (intro that [of c cs]) auto
next
  case (JBool b)
  with that show ?thesis by (cases b) auto
qed (use assms that in \<open>auto simp: json_string_cons\<close>)

lemma join_comma_cons: "join_comma (w # ws) = w @ (if ws = [] then [] else CHR '','' # join_comma ws)"
  by (cases ws) auto

lemma scan_array:
  assumes v: "\<And>j n r. j \<in> set xs \<Longrightarrow> number_ends r \<Longrightarrow> 2 * length (marshal j @ r) + 1 \<le> n \<Longrightarrow>
      scan_value (strict_key wide) 32 n (Suc depth) (marshal j @ r) = Some (value_of j, r)"
    and "xs \<noteq> []" "2 * length (join_comma (map marshal xs) @ CHR '']'' # r) + 2 \<le> n"
  shows "scan_elements (strict_key wide) 32 n depth (join_comma (map marshal xs) @ CHR '']'' # r) = Some (map value_of xs, r)"
  using assms
proof (induction xs arbitrary: n)
  case (Cons j xs)
  then obtain k where n: "n = Suc k" by (cases n) auto
  let ?rest = "(if xs = [] then [] else CHR '','' # join_comma (map marshal xs)) @ CHR '']'' # r"
  have len: "2 * length (marshal j @ ?rest) + 2 \<le> Suc k" using Cons(4) n by (simp add: join_comma_cons)
  then have j: "scan_value (strict_key wide) 32 k (Suc depth) (marshal j @ ?rest) = Some (value_of j, ?rest)"
    by (intro Cons(2)) auto
  show ?case
  proof (cases "xs = []")
    case True
    with j show ?thesis unfolding n by (simp add: expect_char)
  next
    case False
    have "scan_elements (strict_key wide) 32 k depth (join_comma (map marshal xs) @ CHR '']'' # r) = Some (map value_of xs, r)"
      using False len by (intro Cons.IH Cons.prems(1)) auto
    with j False show ?thesis unfolding n by (simp add: expect_char join_comma_cons)
  qed
qed simp

abbreviation member_text :: "string \<times> json \<Rightarrow> string" where
  "member_text kv \<equiv> json_string (fst kv) @ '':'' @ marshal (snd kv)"

lemma scan_object:
  assumes v: "\<And>kv n r. kv \<in> set kvs \<Longrightarrow> number_ends r \<Longrightarrow> 2 * length (marshal (snd kv) @ r) + 1 \<le> n \<Longrightarrow>
      scan_value (strict_key wide) 32 n (Suc depth) (marshal (snd kv) @ r) = Some (value_of (snd kv), r)"
    and "\<forall>kv \<in> set kvs. lower_key wide (fst kv)" "distinct (map fst kvs)" "fst ` set kvs \<inter> set seen = {}"
    and "kvs \<noteq> []" "2 * length (join_comma (map member_text kvs) @ CHR ''}'' # r) + 2 \<le> n"
  shows "scan_members (strict_key wide) 32 n depth seen (join_comma (map member_text kvs) @ CHR ''}'' # r) =
     Some (map (\<lambda>kv. (fst kv, value_of (snd kv))) kvs, r)"
  using assms
proof (induction kvs arbitrary: n seen)
  case (Cons kv kvs)
  then obtain k where n: "n = Suc k" by (cases n) auto
  let ?rest = "(if kvs = [] then [] else CHR '','' # join_comma (map member_text kvs)) @ CHR ''}'' # r"
  have len: "2 * length (member_text kv @ ?rest) + 2 \<le> Suc k" using Cons(7) n by (cases "kvs = []") (simp_all add: join_comma_cons)
  then have j: "scan_value (strict_key wide) 32 k (Suc depth) (marshal (snd kv) @ ?rest) = Some (value_of (snd kv), ?rest)"
    by (intro Cons(2)) auto
  have key: "unescape (concat (map json_rune (runes (fst kv))) @ CHR 0x22 # t) = Some (fst kv, t)"
      "strict_key wide seen (fst kv)" for t
    using Cons(3,5) unescape_json_string by (auto simp: lower_key_def strict_key_def)
  show ?case
  proof (cases "kvs = []")
    case True
    with j key show ?thesis unfolding n by (simp add: expect_char json_string_cons)
  next
    case False
    have "scan_members (strict_key wide) 32 k depth (fst kv # seen) (join_comma (map member_text kvs) @ CHR ''}'' # r) =
        Some (map (\<lambda>kv. (fst kv, value_of (snd kv))) kvs, r)"
      using False len Cons.prems(2-4) by (intro Cons.IH Cons.prems(1)) auto
    with j key False show ?thesis unfolding n by (simp add: expect_char json_string_cons join_comma_cons)
  qed
qed simp

lemma scan_marshal:
  "readable wide depth j \<Longrightarrow> number_ends r \<Longrightarrow> 2 * length (marshal j @ r) + 1 \<le> n \<Longrightarrow>
     scan_value (strict_key wide) 32 n depth (marshal j @ r) = Some (value_of j, r)"
proof (induction j arbitrary: depth r n)
  case (JArr xs)
  then obtain k where n: "n = Suc k" by (cases n) auto
  show ?case
  proof (cases xs)
    case Nil
    with JArr n show ?thesis by (simp add: expect_char)
  next
    case (Cons x ys)
    have "scan_elements (strict_key wide) 32 k depth (join_comma (map marshal xs) @ CHR '']'' # r) = Some (map value_of xs, r)"
      using JArr n Cons by (intro scan_array) (auto simp: list_all_iff)
    moreover from JArr(2) Cons have "readable wide (Suc depth) x" by simp
    then obtain c cs where "marshal x = c # cs" "\<not> json_space c" "c \<noteq> CHR '']''" by (rule marshal_first)
    then have "expect (CHR '']'') (join_comma (map marshal xs) @ CHR '']'' # r) = None"
      using Cons by (simp add: join_comma_cons expect_char)
    ultimately show ?thesis using JArr n by (simp add: expect_char)
  qed
next
  case (JObj kvs)
  then obtain k where n: "n = Suc k" by (cases n) auto
  show ?case
  proof (cases kvs)
    case Nil
    with JObj n show ?thesis by (simp add: expect_char)
  next
    case (Cons x ys)
    have "scan_members (strict_key wide) 32 k depth [] (join_comma (map member_text kvs) @ CHR ''}'' # r) =
        Some (map (\<lambda>kv. (fst kv, value_of (snd kv))) kvs, r)"
    proof (intro scan_object)
      show "scan_value (strict_key wide) 32 m (Suc depth) (marshal (snd kv) @ t) = Some (value_of (snd kv), t)"
        if "kv \<in> set kvs" "number_ends t" "2 * length (marshal (snd kv) @ t) + 1 \<le> m" for kv m t
        using JObj(1) [of kv "snd kv" "Suc depth" t m] JObj(2) that by (cases kv) (auto simp: list_all_iff)
    qed (use JObj n Cons in \<open>auto simp: list_all_iff\<close>)
    moreover have "expect (CHR ''}'') (join_comma (map member_text kvs) @ CHR ''}'' # r) = None"
      using Cons by (simp add: join_comma_cons expect_char json_string_cons)
    ultimately show ?thesis using JObj n by (simp add: expect_char)
  qed
next
  case (JStr s)
  then show ?case by (cases n) (simp_all add: scan_string del: scan_value.simps)
next
  case (JInt i)
  then show ?case by (cases n) (simp_all add: scan_int del: scan_value.simps)
next
  case JNull
  then show ?case by (cases n) (simp_all add: expect_char scan_literal_def has_prefix_def)
next
  case (JBool b)
  then show ?case by (cases n) (simp_all add: expect_char scan_literal_def has_prefix_def)
qed simp

lemma decode_rune_append: "decode_rune bs = Some p \<Longrightarrow> decode_rune (bs @ ts) = Some p"
  by (cases bs) (auto split: if_splits list.splits)

lemma rune_at_append: "rune_at s = Some p \<Longrightarrow> rune_at (s @ t) = Some p"
  by (simp add: rune_at_def decode_rune_append)

lemma decode_rune_fits: "decode_rune bs = Some (n, w) \<Longrightarrow> w \<le> length bs"
  by (cases bs) (auto split: if_splits list.splits)

lemma rune_at_fits: "rune_at s = Some (n, w) \<Longrightarrow> 1 \<le> w \<and> w \<le> length s"
  using decode_rune_fits [of "map byte (take 4 s)" n w] decode_rune_width by (auto simp: rune_at_def)

lemma rune_at_width: "rune_at s = Some (n, w) \<Longrightarrow> 1 \<le> w \<and> w \<le> 4"
  unfolding rune_at_def by (rule decode_rune_width)

lemma runes_append: "valid_utf8 s \<Longrightarrow> runes (s @ t) = runes s @ runes t"
proof (induction s rule: runes.induct)
  case (2 c cs)
  obtain n w where p: "rune_at (c # cs) = Some (n, w)" using 2(3) by (auto simp: valid_utf8_def split: option.splits)
  have w: "1 \<le> w" "w - 1 \<le> length cs" using rune_at_fits [OF p] by auto
  have "valid_utf8 (drop (w - 1) cs)" using 2(3) p by (simp add: valid_utf8_def)
  with 2(2) [OF p refl] have "runes (drop (w - 1) cs @ t) = runes (drop (w - 1) cs) @ runes t" by simp
  moreover have "rune_at (c # cs @ t) = Some (n, w)" using rune_at_append [OF p, of t] by simp
  ultimately show ?case using p w by simp
qed simp

lemma valid_utf8_nil [simp]: "valid_utf8 []"
  by (simp add: valid_utf8_def)

lemma valid_utf8_append: "valid_utf8 s \<Longrightarrow> valid_utf8 t \<Longrightarrow> valid_utf8 (s @ t)"
  by (simp add: valid_utf8_def [of "s @ t"] runes_append) (simp add: valid_utf8_def)

lemma valid_utf8_ascii: "\<forall>c \<in> set s. byte c < 128 \<Longrightarrow> valid_utf8 s"
proof (induction s)
  case (Cons c s)
  then have "rune_at (c # s) = Some (byte c, 1)" by (simp add: rune_at_def)
  with Cons show ?case by (simp add: valid_utf8_def)
qed (simp add: valid_utf8_def)

lemma valid_utf8_concat: "\<forall>s \<in> set ss. valid_utf8 s \<Longrightarrow> valid_utf8 (concat ss)"
  by (induction ss) (auto intro: valid_utf8_append)

lemma decode_rune_take:
  assumes "decode_rune bs = Some (n, w)"
  shows "decode_rune (take w bs) = Some (n, w)"
proof (cases rule: decode_rune_cases [OF assms])
  case (3 b0 b1 b2 bs3)
  then have "take w bs = [b0, b1, b2]" by simp
  with 3 show ?thesis by simp
next
  case (4 b0 b1 b2 b3 bs4)
  then have "take w bs = [b0, b1, b2, b3]" by simp
  with 4 show ?thesis by simp
qed (simp_all add: numeral_2_eq_2)

lemma valid_utf8_rune: "(Some n, bs) \<in> set (runes s) \<Longrightarrow> valid_utf8 bs"
proof (induction s rule: runes.induct)
  case (2 c cs)
  show ?case
  proof (cases "rune_at (c # cs)")
    case None
    with 2 show ?thesis by auto
  next
    case (Some p)
    then obtain r w where p: "rune_at (c # cs) = Some (r, w)" by (cases p) auto
    from 2(3) p consider "bs = c # take (w - 1) cs" "n = r" | "(Some n, bs) \<in> set (runes (drop (w - 1) cs))" by auto
    then show ?thesis
    proof cases
      case 1
      have w: "1 \<le> w" "w \<le> 4" "w \<le> length (c # cs)"
        using rune_at_width [OF p] rune_at_fits [OF p] by auto
      have "decode_rune (map byte (take 4 (c # cs))) = Some (r, w)" using p by (simp add: rune_at_def)
      then have "decode_rune (take w (map byte (take 4 (c # cs)))) = Some (r, w)" by (rule decode_rune_take)
      moreover have "take w (map byte (take 4 (c # cs))) = map byte bs"
        using w 1 by (cases w) (simp_all add: take_map min_absorb1)
      moreover have "length bs = w" using w 1 by simp
      ultimately have "rune_at bs = Some (r, w)" using w by (simp add: rune_at_def)
      with 1 \<open>length bs = w\<close> show ?thesis by (simp add: valid_utf8_def)
    next
      case 2
      with "2.IH"(2) [OF p refl] show ?thesis by simp
    qed
  qed
qed simp

lemma byte_json_rune_escape:
  assumes "(Some n, bs) \<in> set (runes s)"
  shows "valid_utf8 (json_rune (Some n, bs))"
proof (cases "json_rune (Some n, bs) = bs")
  case True
  with valid_utf8_rune [OF assms] show ?thesis by simp
next
  case False
  have hex: "byte (hex_char k) < 128" if "k < 16" for k using that by (auto simp: hex_char_def byte_char_of)
  have "n div 16 < 16" if "n < 32 \<or> n = 60 \<or> n = 62 \<or> n = 38" using that by auto
  then have "\<forall>c \<in> set (json_rune (Some n, bs)). byte c < 128"
    using False hex [of "n div 16"] hex [of "n mod 16"]
    by (auto simp: json_rune_def byte_def split: if_splits)
  then show ?thesis by (rule valid_utf8_ascii)
qed

lemma valid_utf8_json_string: "valid_utf8 s \<Longrightarrow> valid_utf8 (json_string s)"
proof -
  assume "valid_utf8 s"
  then have "valid_utf8 (json_rune p)" if "p \<in> set (runes s)" for p
    using byte_json_rune_escape [of _ "snd p" s] that by (cases p) (auto simp: valid_utf8_def [of s] list_all_iff)
  then have "valid_utf8 (concat (map json_rune (runes s)))" by (intro valid_utf8_concat) auto
  moreover have "valid_utf8 [CHR 0x22]" by (rule valid_utf8_ascii) (simp add: byte_def)
  ultimately have "valid_utf8 ([CHR 0x22] @ concat (map json_rune (runes s)) @ [CHR 0x22])"
    by (intro valid_utf8_append)
  then show ?thesis by (simp add: json_string_def)
qed

lemma valid_utf8_char: "byte c < 128 \<Longrightarrow> valid_utf8 s \<Longrightarrow> valid_utf8 (c # s)"
  using valid_utf8_append [OF valid_utf8_ascii [of "[c]"]] by simp

lemma valid_utf8_join: "\<forall>w \<in> set ws. valid_utf8 w \<Longrightarrow> valid_utf8 (join_comma ws)"
proof (induction ws rule: join_comma.induct)
  case (3 w v ws)
  then show ?case by (auto intro!: valid_utf8_append valid_utf8_char simp: byte_def)
qed simp_all

lemma valid_utf8_marshal: "readable wide depth j \<Longrightarrow> valid_utf8 (marshal j)"
proof (induction j arbitrary: depth)
  case (JInt i)
  have "byte c < 128" if "c \<in> set (dec_nat k)" for c k using dec_nat_digits [OF that] by simp
  then have "\<forall>c \<in> set (dec_int i). byte c < 128" by (auto simp: dec_int_def byte_def)
  then show ?case by (simp add: valid_utf8_ascii)
next
  case (JArr xs)
  then have "valid_utf8 (join_comma (map marshal xs))" by (intro valid_utf8_join) (auto simp: list_all_iff)
  moreover have "valid_utf8 '']''" by (rule valid_utf8_ascii) (simp add: byte_def)
  ultimately have "valid_utf8 (join_comma (map marshal xs) @ '']'')" by (rule valid_utf8_append)
  then show ?case by (simp add: valid_utf8_char byte_def)
next
  case (JObj kvs)
  have "valid_utf8 (member_text kv)" if "kv \<in> set kvs" for kv
  proof -
    have "valid_utf8 (marshal (snd kv))" "valid_utf8 (fst kv)"
      using JObj that by (cases kv, auto simp: list_all_iff lower_key_def)+
    moreover have "valid_utf8 '':''" by (rule valid_utf8_ascii) (simp add: byte_def)
    ultimately show ?thesis by (intro valid_utf8_append valid_utf8_json_string)
  qed
  then have "valid_utf8 (join_comma (map member_text kvs))" by (intro valid_utf8_join) auto
  moreover have "valid_utf8 ''}''" by (rule valid_utf8_ascii) (simp add: byte_def)
  ultimately have "valid_utf8 (join_comma (map member_text kvs) @ ''}'')" by (rule valid_utf8_append)
  then show ?case by (simp add: valid_utf8_char byte_def)
qed (auto simp: valid_utf8_json_string intro!: valid_utf8_ascii simp: byte_def)

text \<open>A marshalled value, white space after it allowed, is decoded from its own fields.\<close>

lemma DecodeJSON_marshal:
  assumes "readable wide 0 j" "list_all json_space ws"
  shows "DecodeJSON wide dec (marshal j @ ws) = (case dec (value_of j) of
      None \<Rightarrow> Inl (ErrInternal ''JSON contains an unknown field or an invalid field type'') | Some x \<Rightarrow> Inr x)"
proof -
  have space: "byte c < 128 \<and> \<not> digit c \<and> c \<notin> {CHR ''.'', CHR ''e'', CHR ''E''}" if "json_space c" for c
    using that by (elim json_space_def [THEN iffD1, elim_format] disjE) (simp_all add: digit_byte byte_def)
  then have ends: "number_ends ws" using assms(2) by (cases ws) (auto simp: number_ends_def)
  have "ScanJSONValue wide 0 (marshal j @ ws) = Some (value_of j, ws)"
    unfolding ScanJSONValue_def scan_fuel_def by (rule scan_marshal [OF assms(1) ends]) simp
  moreover have "skip_space ws = []" using assms(2) by (simp add: skip_space_def list_all_iff)
  moreover have "valid_utf8 ws" using assms(2) space by (intro valid_utf8_ascii) (auto simp: list_all_iff)
  then have "valid_utf8 (marshal j @ ws)" by (intro valid_utf8_append valid_utf8_marshal [OF assms(1)])
  ultimately show ?thesis by (simp add: DecodeJSON_def)
qed

text \<open>Keys written in lower-case ASCII are their own lower case, whatever the table outside ASCII.\<close>

lemma lower_key_ascii: "\<forall>c \<in> set k. byte c < 128 \<and> \<not> (65 \<le> byte c \<and> byte c \<le> 90) \<Longrightarrow> lower_key wide k"
proof -
  assume k: "\<forall>c \<in> set k. byte c < 128 \<and> \<not> (65 \<le> byte c \<and> byte c \<le> 90)"
  have "runes k = map (\<lambda>c. (Some (byte c), [c])) k"
    using k by (induction k) (auto simp: rune_at_def)
  moreover have "encode_rune (lower_rune wide (byte c)) = [c]" if "c \<in> set k" for c
    using k that by (auto simp: lower_rune_def encode_rune_def byte_def)
  ultimately have "to_lower wide k = concat (map (\<lambda>c. [c]) k)"
    by (simp add: to_lower_def comp_def cong: map_cong)
  then show ?thesis using k by (simp add: lower_key_def valid_utf8_ascii)
qed

end
