(* ===== verification/Frames.thy ===== *)
theory Frames
  imports Protocol JsonRound
begin

text \<open>
  The reading side of the line-delimited frames (ReadMessage in
  src/internal/protocol/message.go): one line of at most MaxFrame bytes from a buffered
  reader, decoded with the rules of DecodeJSON. The bytes still to come are the state of the
  reader; its buffer holds MaxFrame + 1 bytes, and the stream ends after the last byte. What
  WriteMessage sends, ReadMessage reads back, whatever follows it on the stream.
\<close>

definition empty_frame :: message_frame where
  "empty_frame = \<lparr>ms_type = '''', ms_data = '''', ms_id = ''''\<rparr>"

definition frame_fields :: "(string \<times> message_frame decoder) list" where
  "frame_fields =
     [(''type'', into_string (\<lambda>s m. m\<lparr>ms_type := s\<rparr>)), (''data'', into_string (\<lambda>s m. m\<lparr>ms_data := s\<rparr>)),
      (''id'', into_string (\<lambda>s m. m\<lparr>ms_id := s\<rparr>))]"

definition decode_frame :: "(nat \<Rightarrow> nat) \<Rightarrow> string \<Rightarrow> error + message_frame" where
  "decode_frame wide = DecodeJSON wide (\<lambda>v. into_fields frame_fields v empty_frame)"

text \<open>bufio.Reader.ReadSlice up to a line break, with a buffer of one byte more than a frame.\<close>

definition read_slice :: "string \<Rightarrow> (error + string) \<times> string" where
  "read_slice s =
     (let line = takeWhile (\<lambda>c. c \<noteq> newline) s in
      if length line \<le> MaxFrame \<and> length line < length s then (Inr (line @ [newline]), drop (length line + 1) s)
      else if length s > MaxFrame then (Inl (ErrInternal ''bufio: buffer full''), drop (MaxFrame + 1) s)
      else (Inl (ErrInternal ''EOF''), []))"

definition accept_frame :: "(nat \<Rightarrow> nat) \<Rightarrow> string \<Rightarrow> error + message_frame" where
  "accept_frame wide frame =
     (if length frame > MaxFrame then Inl (ErrInternal ''JSON frame exceeds size limit'')
      else case decode_frame wide frame of
        Inl e \<Rightarrow> Inl (Wrapped ''decode JSON frame'' e)
      | Inr m \<Rightarrow> if ms_type m = '''' then Inl (ErrInternal ''JSON frame requires a type'') else Inr m)"

definition ReadMessage :: "(nat \<Rightarrow> nat) \<Rightarrow> string \<Rightarrow> (error + message_frame) \<times> string" where
  "ReadMessage wide s =
     (case read_slice s of
        (Inl e, r) \<Rightarrow> (Inl (Wrapped ''read JSON frame (limit 65536 bytes)'' e), r)
      | (Inr frame, r) \<Rightarrow> (accept_frame wide frame, r))"

section \<open>Frames are read back\<close>

lemma takeWhile_line: "newline \<notin> set line \<Longrightarrow> takeWhile (\<lambda>c. c \<noteq> newline) (line @ newline # r) = line"
  by (induction line) auto

lemma read_slice_line:
  "newline \<notin> set line \<Longrightarrow> length line \<le> MaxFrame \<Longrightarrow> read_slice (line @ newline # r) = (Inr (line @ [newline]), r)"
  by (simp add: read_slice_def takeWhile_line Let_def)

lemma read_slice_ok:
  assumes "read_slice s = (Inr frame, r)"
  shows "\<exists>line. frame = line @ [newline] \<and> newline \<notin> set line \<and> s = frame @ r \<and> length line \<le> MaxFrame"
proof -
  let ?line = "takeWhile (\<lambda>c. c \<noteq> newline) s"
  have l: "length ?line \<le> MaxFrame" "length ?line < length s" and f: "frame = ?line @ [newline]"
    and r: "r = drop (length ?line + 1) s"
    using assms by (auto simp: read_slice_def Let_def split: if_splits)
  have "s ! length ?line = newline" using nth_length_takeWhile [OF l(2)] by simp
  then have "drop (length ?line) s = newline # r" using l(2) r by (metis Cons_nth_drop_Suc Suc_eq_plus1)
  moreover have "s = ?line @ drop (length ?line) s"
    by (metis dropWhile_eq_drop takeWhile_dropWhile_id)
  ultimately have "s = ?line @ newline # r" by simp
  moreover have "newline \<notin> set ?line" by (auto dest: set_takeWhileD)
  ultimately show ?thesis using f l(1) by (intro exI [of _ ?line]) simp
qed

lemma frame_readable:
  "valid_utf8 (ms_type m) \<Longrightarrow> valid_utf8 (ms_data m) \<Longrightarrow> valid_utf8 (ms_id m) \<Longrightarrow> readable wide 0 (json_frame m)"
proof -
  have "lower_key wide ''type''" "lower_key wide ''data''" "lower_key wide ''id''"
    by (rule lower_key_ascii, simp add: byte_def)+
  moreover assume "valid_utf8 (ms_type m)" "valid_utf8 (ms_data m)" "valid_utf8 (ms_id m)"
  ultimately show ?thesis by (simp add: json_frame_def field_def field_omit_def)
qed

lemma decode_json_frame: "into_fields frame_fields (value_of (json_frame m)) empty_frame = Some m"
  by (cases m) (simp add: json_frame_def field_def field_omit_def into_fields_def frame_fields_def find_field_def
      into_string_def empty_frame_def)

text \<open>A frame that was sent is read as the message it was made from, and nothing after it is touched.\<close>

lemma read_back:
  assumes "WriteMessage m = Inr frame" "ms_type m \<noteq> ''''"
    and "valid_utf8 (ms_type m)" "valid_utf8 (ms_data m)" "valid_utf8 (ms_id m)"
  shows "ReadMessage wide (frame @ rest) = (Inr m, rest)"
proof -
  let ?line = "marshal (json_frame m)"
  have frame: "frame = ?line @ [newline]" "length frame \<le> MaxFrame"
    using assms(1) by (auto simp: WriteMessage_def Let_def split: if_splits)
  have "newline \<notin> set ?line" by (rule marshal_one_line) (simp add: json_frame_def field_def field_omit_def)
  with frame have "read_slice (frame @ rest) = (Inr frame, rest)" using read_slice_line [of ?line rest] by simp
  moreover have "decode_frame wide frame = Inr m"
    unfolding decode_frame_def frame(1) using assms(3-5)
    by (subst DecodeJSON_marshal) (simp_all add: frame_readable decode_json_frame json_space_def newline_def)
  ultimately show ?thesis using assms(2) frame(2) by (simp add: ReadMessage_def accept_frame_def)
qed

text \<open>
  C22. A frame that WriteMessage sent is read back by ReadMessage as the message it was made from,
  and nothing after it on the stream is touched.
\<close>

theorem ReadMessage_WriteMessage:
  assumes "WriteMessage m = Inr frame" "ms_type m \<noteq> ''''"
    and "valid_utf8 (ms_type m)" "valid_utf8 (ms_data m)" "valid_utf8 (ms_id m)"
  shows "ReadMessage wide (frame @ rest) = (Inr m, rest)"
  using assms by (rule read_back)

text \<open>
  C23. A message that is accepted comes from one line of at most MaxFrame bytes (its line break
  included), valid UTF-8. The value the line denotes, as the JSON library itself reads it, is
  nested at most 33 levels, has distinct lower-case keys in every object and decodes into the
  fields of the message, whose type is not empty.
\<close>

theorem ReadMessage_bounded:
  assumes "ReadMessage wide s = (Inr m, rest)"
  shows "\<exists>line v. s = line @ newline # rest \<and> newline \<notin> set line \<and> length line < MaxFrame \<and>
    valid_utf8 (line @ [newline]) \<and> json_unmarshal Some (line @ [newline]) = Some v \<and>
    json_levels v \<le> 33 \<and> keys_ok wide v \<and> into_fields frame_fields v empty_frame = Some m \<and> ms_type m \<noteq> ''''"
proof -
  obtain frame where slice: "read_slice s = (Inr frame, rest)" and accept: "accept_frame wide frame = Inr m"
    using assms by (auto simp: ReadMessage_def split: prod.splits sum.splits)
  from read_slice_ok [OF slice] obtain line where line: "frame = line @ [newline]" "newline \<notin> set line" "s = frame @ rest"
    by blast
  have "length frame \<le> MaxFrame" "decode_frame wide frame = Inr m" "ms_type m \<noteq> ''''"
    using accept by (auto simp: accept_frame_def split: if_splits sum.splits)
  with decode_json_ok [of wide _ frame m] line show ?thesis unfolding decode_frame_def by fastforce
qed

end
