(* ===== verification/Worker.thy ===== *)
theory Worker
  imports Frames "HOL-Library.Sublist"
begin

text \<open>
  The confined worker processes (src/internal/worker): Operator in operator.go, one model turn
  over a private pipe, and TextAnalyze in text.go, the reviewed text tool. A process reads the
  bytes its parent sent, appends frames to its output and may leave one report file. The
  messages of an operator follow a small automaton; \<open>Operator_refines\<close> shows that the process
  implements it for every input, \<open>Operator_completes\<close> that a parent which answers gets the turn
  finished.
\<close>

section \<open>The process and its pipes\<close>

record pipes =
  pi_in :: string
  pi_out :: string
  pi_report :: "string option"

definition frame :: "string \<Rightarrow> string \<Rightarrow> string \<Rightarrow> message_frame" where
  "frame kind i data = \<lparr>ms_type = kind, ms_data = data, ms_id = i\<rparr>"

definition send :: "message_frame \<Rightarrow> (pipes, unit) tx" where
  "send m = (\<lambda>s. case WriteMessage m of Inl e \<Rightarrow> (Inl e, s) | Inr bytes \<Rightarrow> (Inr (), s\<lparr>pi_out := pi_out s @ bytes\<rparr>))"

definition receive :: "(nat \<Rightarrow> nat) \<Rightarrow> (pipes, message_frame) tx" where
  "receive wide = (\<lambda>s. case ReadMessage wide (pi_in s) of (r, rest) \<Rightarrow> (r, s\<lparr>pi_in := rest\<rparr>))"

section \<open>Operator\<close>

definition valid_task :: "message_frame \<Rightarrow> bool" where
  "valid_task m \<longleftrightarrow> ms_type m = ''task'' \<and> ms_id m \<noteq> '''' \<and> ms_data m \<noteq> ''''"

definition tool_turn :: "(nat \<Rightarrow> nat) \<Rightarrow> message_frame \<Rightarrow> message_frame \<Rightarrow> (pipes, unit) tx" where
  "tool_turn wide task reply =
     tx_seq (send (frame ''tool.call'' (ms_id task) (ms_data reply)))
     (tx_bind (receive wide) (\<lambda>result.
      tx_seq (tx_reject (ms_id result \<noteq> ms_id task) (ErrInternal ''tool response correlation mismatch''))
     (tx_seq (tx_reject (ms_type result = ''tool.error'') (ErrInternal ''tool operation denied or failed''))
     (if ms_type result = ''tool.wait'' then send (frame ''task.waiting'' (ms_id task) '''')
      else if ms_type result \<noteq> ''tool.result'' then tx_fail (ErrInternal ''invalid tool response'')
      else send (frame ''task.continue'' (ms_id task) '''')))))"

definition model_turn :: "(nat \<Rightarrow> nat) \<Rightarrow> message_frame \<Rightarrow> message_frame \<Rightarrow> (pipes, unit) tx" where
  "model_turn wide task reply =
     (if ms_type reply = ''model.error'' then
        tx_seq (send (frame ''task.failed'' (ms_id task) '''')) (tx_fail (ErrInternal ''model call failed''))
      else if ms_type reply = ''model.action'' then tool_turn wide task reply
      else if ms_type reply = ''model.result'' then send (frame ''task.complete'' (ms_id task) '''')
      else tx_fail (ErrInternal ''unexpected model response''))"

definition Operator :: "(nat \<Rightarrow> nat) \<Rightarrow> (pipes, unit) tx" where
  "Operator wide =
     tx_seq (send (frame ''ready'' '''' ''''))
     (tx_bind (receive wide) (\<lambda>task.
      tx_seq (tx_reject (\<not> valid_task task) (ErrInternal ''invalid operator task''))
     (tx_seq (send (frame ''model.call'' (ms_id task) (ms_data task)))
     (tx_bind (receive wide) (\<lambda>reply.
      tx_seq (tx_reject (ms_id reply \<noteq> ms_id task) (ErrInternal ''model response correlation mismatch''))
      (model_turn wide task reply))))))"

section \<open>TextAnalyze\<close>

record text_arguments =
  ta_text :: string
  ta_save :: bool

record text_result =
  tr_runes :: int
  tr_words :: int
  tr_artifact :: string

definition no_arguments :: text_arguments where
  "no_arguments = \<lparr>ta_text = '''', ta_save = False\<rparr>"

definition text_argument_fields :: "(string \<times> text_arguments decoder) list" where
  "text_argument_fields =
     [(''text'', into_string (\<lambda>s a. a\<lparr>ta_text := s\<rparr>)), (''save_artifact'', into_bool (\<lambda>b a. a\<lparr>ta_save := b\<rparr>))]"

definition decode_text_arguments :: "(nat \<Rightarrow> nat) \<Rightarrow> string \<Rightarrow> error + text_arguments" where
  "decode_text_arguments wide = DecodeJSON wide (\<lambda>v. into_fields text_argument_fields v no_arguments)"

definition json_text_result :: "text_result \<Rightarrow> json" where
  "json_text_result r = JObj (field ''runes'' (JInt (tr_runes r)) @ field ''words'' (JInt (tr_words r)) @
     field_omit (tr_artifact r = '''') ''artifact'' (JStr (tr_artifact r)))"

definition text_counts :: "string \<Rightarrow> text_result" where
  "text_counts text = \<lparr>tr_runes = int (length (runes text)), tr_words = int (fields_length text), tr_artifact = ''''\<rparr>"

definition text_arguments_of :: "(nat \<Rightarrow> nat) \<Rightarrow> message_frame \<Rightarrow> error + text_arguments" where
  "text_arguments_of wide request =
     (if ms_type request \<noteq> ''tool.input'' then Inl (ErrInternal ''invalid text analysis arguments'')
      else case decode_text_arguments wide (ms_data request) of
        Inl e \<Rightarrow> Inl (ErrInternal ''invalid text analysis arguments'')
      | Inr a \<Rightarrow> if length (ta_text a) > 4096 then Inl (ErrInternal ''invalid text analysis arguments'') else Inr a)"

definition analyze :: "text_arguments \<Rightarrow> (pipes, text_result) tx" where
  "analyze a =
     (let result = text_counts (ta_text a) in
      if ta_save a
      then tx_seq (tx_modify (\<lambda>s. s\<lparr>pi_report := Some (marshal (json_text_result result))\<rparr>))
             (tx_return (result\<lparr>tr_artifact := ''output/report.json''\<rparr>))
      else tx_return result)"

definition TextAnalyze :: "(nat \<Rightarrow> nat) \<Rightarrow> (pipes, unit) tx" where
  "TextAnalyze wide =
     tx_seq (send (frame ''ready'' '''' ''''))
     (tx_bind (receive wide) (\<lambda>request.
      tx_bind (tx_lift (text_arguments_of wide request)) (\<lambda>a.
      tx_bind (analyze a) (\<lambda>result.
      send (frame ''tool.result'' (ms_id request) (marshal (json_text_result result)))))))"

section \<open>The automaton of a turn\<close>

text \<open>What an operator is waiting for; every message it gets moves it on and makes it answer.\<close>

datatype phase = AwaitTask | AwaitModel string | AwaitTool string | Finished bool

fun turn_step :: "phase \<Rightarrow> message_frame \<Rightarrow> phase \<times> message_frame list" where
  "turn_step AwaitTask m =
     (if valid_task m then (AwaitModel (ms_id m), [frame ''model.call'' (ms_id m) (ms_data m)]) else (Finished False, []))"
| "turn_step (AwaitModel i) m =
     (if ms_id m \<noteq> i then (Finished False, [])
      else if ms_type m = ''model.error'' then (Finished False, [frame ''task.failed'' i ''''])
      else if ms_type m = ''model.action'' then (AwaitTool i, [frame ''tool.call'' i (ms_data m)])
      else if ms_type m = ''model.result'' then (Finished True, [frame ''task.complete'' i ''''])
      else (Finished False, []))"
| "turn_step (AwaitTool i) m =
     (if ms_id m \<noteq> i then (Finished False, [])
      else if ms_type m = ''tool.wait'' then (Finished True, [frame ''task.waiting'' i ''''])
      else if ms_type m = ''tool.result'' then (Finished True, [frame ''task.continue'' i ''''])
      else (Finished False, []))"
| "turn_step (Finished b) m = (Finished b, [])"

fun turn_run :: "phase \<Rightarrow> message_frame list \<Rightarrow> phase \<times> message_frame list" where
  "turn_run p [] = (p, [])"
| "turn_run p (m # ms) = (case turn_step p m of (q, out) \<Rightarrow> (case turn_run q ms of (r, outs) \<Rightarrow> (r, out @ outs)))"

lemma turn_run_finished [simp]: "turn_run (Finished b) ms = (Finished b, [])"
  by (induction ms) auto

text \<open>The bytes of a list of messages that can be sent.\<close>

fun frames :: "message_frame list \<Rightarrow> string option" where
  "frames [] = Some []"
| "frames (m # ms) = (case WriteMessage m of Inl e \<Rightarrow> None | Inr bytes \<Rightarrow> map_option (\<lambda>bs. bytes @ bs) (frames ms))"

lemma frames_append: "frames (ms @ ns) = (case frames ms of None \<Rightarrow> None | Some bs \<Rightarrow> map_option (\<lambda>cs. bs @ cs) (frames ns))"
  by (induction ms; cases "frames ns") (auto split: sum.splits option.splits)

definition sent :: "pipes \<Rightarrow> message_frame list \<Rightarrow> pipes \<Rightarrow> bool" where
  "sent s outs s' \<longleftrightarrow> (\<exists>bs. frames outs = Some bs \<and> pi_out s' = pi_out s @ bs)"

lemma sent_nil [simp]: "sent s [] s' \<longleftrightarrow> pi_out s' = pi_out s"
  by (simp add: sent_def)

lemma sent_trans: "sent s xs t \<Longrightarrow> sent t ys u \<Longrightarrow> sent s (xs @ ys) u"
  by (auto simp: sent_def frames_append)

lemma send_ok: "send m s = (Inr (), s') \<Longrightarrow> sent s [m] s'"
  by (auto simp: send_def sent_def split: sum.splits)

lemma send_failed: "send m s = (Inl e, s') \<Longrightarrow> s' = s"
  by (auto simp: send_def split: sum.splits)

lemma receive_sent: "receive wide s = (r, s') \<Longrightarrow> sent s [] s'"
  by (auto simp: receive_def split: prod.splits)

section \<open>The operator implements the automaton\<close>

inductive reads :: "(nat \<Rightarrow> nat) \<Rightarrow> string \<Rightarrow> message_frame list \<Rightarrow> string \<Rightarrow> bool" for wide where
  reads_none: "reads wide s [] s"
| reads_more: "ReadMessage wide s = (Inr m, t) \<Longrightarrow> reads wide t ms u \<Longrightarrow> reads wide s (m # ms) u"

inductive_cases reads_cases: "reads wide s ms u"

text \<open>
  A run from a phase: the messages read drive the automaton, what was sent is a prefix of its
  answers, and the run succeeds exactly when all of them were sent and the turn is finished.
\<close>

definition follows :: "(nat \<Rightarrow> nat) \<Rightarrow> phase \<Rightarrow> pipes \<Rightarrow> error + unit \<Rightarrow> pipes \<Rightarrow> bool" where
  "follows wide p s r s' \<longleftrightarrow>
     (\<exists>ms u outs. reads wide (pi_in s) ms u \<and> sent s outs s' \<and> prefix outs (snd (turn_run p ms)) \<and>
        (r = Inr () \<longleftrightarrow> fst (turn_run p ms) = Finished True \<and> outs = snd (turn_run p ms)))"

lemma follows_stuck: "p \<noteq> Finished True \<Longrightarrow> pi_out s' = pi_out s \<Longrightarrow> follows wide p s (Inl e) s'"
  unfolding follows_def by (intro exI [of _ "[]"] exI [of _ "pi_in s"]) (simp add: reads_none)

lemma follows_done: "follows wide (Finished True) s (Inr ()) s"
  unfolding follows_def by (intro exI [of _ "[]"] exI [of _ "pi_in s"]) (simp add: reads_none)

lemma receive_reads: "receive wide s = (Inr m, t) \<Longrightarrow> ReadMessage wide (pi_in s) = (Inr m, pi_in t) \<and> pi_out t = pi_out s"
  by (auto simp: receive_def split: prod.splits)

lemma follows_step:
  assumes "receive wide s = (Inr m, t)" "turn_step p m = (q, out)" "sent t out v" "pi_in v = pi_in t"
    and "follows wide q v r s'"
  shows "follows wide p s r s'"
proof -
  from assms(5) obtain ms u outs where f: "reads wide (pi_in v) ms u" "sent v outs s'" "prefix outs (snd (turn_run q ms))"
      "r = Inr () \<longleftrightarrow> fst (turn_run q ms) = Finished True \<and> outs = snd (turn_run q ms)"
    unfolding follows_def by blast
  have "reads wide (pi_in s) (m # ms) u" using receive_reads [OF assms(1)] f(1) assms(4) by (auto intro: reads_more)
  moreover have "sent s (out @ outs) s'"
    using receive_reads [OF assms(1)] assms(3) f(2) by (auto simp: sent_def frames_append)
  ultimately show ?thesis using f(3,4) assms(2) unfolding follows_def
    by (intro exI [of _ "m # ms"] exI [of _ u] exI [of _ "out @ outs"]) (auto split: prod.splits)
qed

lemma follows_unsent:
  assumes "receive wide s = (Inr m, t)" "turn_step p m = (q, out)" "out \<noteq> []" "pi_out s' = pi_out t"
  shows "follows wide p s (Inl e) s'"
proof -
  have "reads wide (pi_in s) [m] (pi_in t)" using receive_reads [OF assms(1)] by (auto intro: reads_more reads_none)
  then show ?thesis using receive_reads [OF assms(1)] assms unfolding follows_def
    by (intro exI [of _ "[m]"] exI [of _ "pi_in t"] exI [of _ "[]"]) (auto split: prod.splits)
qed

text \<open>An answer of one message: sent and the run goes on, or refused by the frame limit.\<close>

lemma follows_answer:
  assumes "receive wide s = (Inr m, t)" "turn_step p m = (q, [out])"
    and "\<And>v. send out t = (Inr (), v) \<Longrightarrow> pi_in v = pi_in t \<Longrightarrow> follows wide q v (fst (k v)) (snd (k v))"
  shows "follows wide p s (fst (tx_seq (send out) k t)) (snd (tx_seq (send out) k t))"
proof (cases "send out t")
  case (Pair r v)
  show ?thesis
  proof (cases r)
    case (Inl e)
    with Pair have "v = t" by (simp add: send_failed)
    with Pair Inl assms(1,2) show ?thesis by (simp add: tx_seq_def tx_bind_def follows_unsent)
  next
    case (Inr x)
    with Pair have out: "send out t = (Inr (), v)" by simp
    then have "pi_in v = pi_in t" by (auto simp: send_def split: sum.splits)
    with follows_step [OF assms(1,2) send_ok [OF out] this] assms(3) [OF out] show ?thesis
      by (simp add: tx_seq_def tx_bind_def out)
  qed
qed

lemma seq_return: "tx_seq m (tx_return ()) = m"
  by (rule ext) (auto simp: tx_seq_def tx_bind_def tx_return_def split: prod.splits sum.splits)

lemma follows_last:
  assumes "receive wide s = (Inr m, t)" "turn_step p m = (Finished True, [out])"
  shows "follows wide p s (fst (send out t)) (snd (send out t))"
  by (rule follows_answer [OF assms, of "tx_return ()", unfolded seq_return]) (simp add: tx_return_def follows_done)

lemma follows_receive:
  assumes "p \<noteq> Finished True"
    and "\<And>m t. receive wide s = (Inr m, t) \<Longrightarrow> follows wide p s (fst (k m t)) (snd (k m t))"
  shows "follows wide p s (fst (tx_bind (receive wide) k s)) (snd (tx_bind (receive wide) k s))"
proof (cases "receive wide s")
  case (Pair r t)
  with receive_sent [OF Pair] assms show ?thesis
    by (cases r) (auto simp: tx_bind_def follows_stuck)
qed

lemma follows_reject:
  assumes "receive wide s = (Inr m, t)" "b \<Longrightarrow> turn_step p m = (Finished False, [])"
    and "\<not> b \<Longrightarrow> follows wide p s (fst (k t)) (snd (k t))"
  shows "follows wide p s (fst (tx_seq (tx_reject b e) k t)) (snd (tx_seq (tx_reject b e) k t))"
proof (cases b)
  case True
  then have "follows wide p s (Inl e) t"
    by (intro follows_step [OF assms(1) assms(2), of t]) (auto intro: follows_stuck)
  with True show ?thesis by (simp add: tx_seq_def tx_bind_def tx_reject_def tx_fail_def)
qed (use assms(3) in \<open>simp add: tx_seq_def tx_bind_def tx_reject_def tx_return_def\<close>)

lemma follows_fail:
  assumes "receive wide s = (Inr m, t)" "turn_step p m = (Finished False, [])"
  shows "follows wide p s (fst (tx_fail e t)) (snd (tx_fail e t))"
  using follows_reject [OF assms(1), of True p "tx_return ()" e] assms(2)
  by (simp add: tx_reject_def tx_seq_def tx_bind_def tx_fail_def)

lemma tool_turn_follows:
  assumes "receive wide s = (Inr reply, t)" "ms_id reply = ms_id task" "ms_type reply = ''model.action''"
  shows "follows wide (AwaitModel (ms_id task)) s (fst (tool_turn wide task reply t)) (snd (tool_turn wide task reply t))"
  unfolding tool_turn_def
proof (rule follows_answer [OF assms(1)])
  show "turn_step (AwaitModel (ms_id task)) reply = (AwaitTool (ms_id task), [frame ''tool.call'' (ms_id task) (ms_data reply)])"
    using assms by simp
next
  fix v
  let ?k = "\<lambda>result. tx_seq (tx_reject (ms_id result \<noteq> ms_id task) (ErrInternal ''tool response correlation mismatch''))
     (tx_seq (tx_reject (ms_type result = ''tool.error'') (ErrInternal ''tool operation denied or failed''))
     (if ms_type result = ''tool.wait'' then send (frame ''task.waiting'' (ms_id task) '''')
      else if ms_type result \<noteq> ''tool.result'' then tx_fail (ErrInternal ''invalid tool response'')
      else send (frame ''task.continue'' (ms_id task) '''')))"
  show "follows wide (AwaitTool (ms_id task)) v (fst (tx_bind (receive wide) ?k v)) (snd (tx_bind (receive wide) ?k v))"
  proof (rule follows_receive)
    fix m w assume m: "receive wide v = (Inr m, w)"
    show "follows wide (AwaitTool (ms_id task)) v (fst (?k m w)) (snd (?k m w))"
      by (intro follows_reject [OF m]) (auto intro: follows_last [OF m] follows_fail [OF m])
  qed simp
qed

lemma model_turn_follows:
  assumes m: "receive wide s = (Inr reply, t)" and i: "ms_id reply = ms_id task"
  shows "follows wide (AwaitModel (ms_id task)) s (fst (model_turn wide task reply t)) (snd (model_turn wide task reply t))"
proof -
  consider (err) "ms_type reply = ''model.error''" | (act) "ms_type reply = ''model.action''"
    | (res) "ms_type reply = ''model.result''"
    | (other) "ms_type reply \<notin> {''model.error'', ''model.action'', ''model.result''}" by blast
  then show ?thesis
  proof cases
    case err
    let ?fail = "tx_seq (send (frame ''task.failed'' (ms_id task) '''')) (tx_fail (ErrInternal ''model call failed'')) :: (pipes, unit) tx"
    have "follows wide (AwaitModel (ms_id task)) s (fst (?fail t)) (snd (?fail t))"
      by (rule follows_answer [OF m, where q = "Finished False"]) (use err i in \<open>auto simp: tx_fail_def intro: follows_stuck\<close>)
    with err show ?thesis by (simp add: model_turn_def)
  next
    case act
    with tool_turn_follows [OF m i act] show ?thesis by (simp add: model_turn_def)
  next
    case res
    with follows_last [OF m, of "AwaitModel (ms_id task)"] i show ?thesis by (simp add: model_turn_def)
  next
    case other
    with follows_fail [OF m, of "AwaitModel (ms_id task)"] i show ?thesis by (simp add: model_turn_def)
  qed
qed

text \<open>
  C24. For every input, the operator process implements the automaton of a turn: the messages it
  reads drive the automaton, what it has sent is the ready message and a prefix of the
  automaton's answers, and it succeeds exactly when the turn is finished and all were sent.
\<close>

theorem Operator_refines:
  "case Operator wide s of (r, s') \<Rightarrow>
     \<exists>ms rest outs. reads wide (pi_in s) ms rest \<and> sent s outs s' \<and>
       prefix outs (frame ''ready'' '''' '''' # snd (turn_run AwaitTask ms)) \<and>
       (r = Inr () \<longleftrightarrow> fst (turn_run AwaitTask ms) = Finished True \<and>
          outs = frame ''ready'' '''' '''' # snd (turn_run AwaitTask ms))"
proof -
  let ?ready = "frame ''ready'' '''' ''''"
  let ?reply = "\<lambda>task reply. tx_seq (tx_reject (ms_id reply \<noteq> ms_id task) (ErrInternal ''model response correlation mismatch''))
      (model_turn wide task reply)"
  let ?task = "\<lambda>task. tx_seq (tx_reject (\<not> valid_task task) (ErrInternal ''invalid operator task''))
     (tx_seq (send (frame ''model.call'' (ms_id task) (ms_data task))) (tx_bind (receive wide) (?reply task)))"
  have "WriteMessage ?ready \<noteq> Inl e" for e by (simp add: WriteMessage_def Let_def frame_def json_frame_def field_def
      field_omit_def json_string_def rune_at_def byte_def json_rune_def MaxFrame_def)
  then obtain bytes where "WriteMessage ?ready = Inr bytes" by (cases "WriteMessage ?ready") auto
  then obtain t where ready: "send ?ready s = (Inr (), t)" by (simp add: send_def)
  then have in_t: "pi_in t = pi_in s" by (auto simp: send_def split: sum.splits)
  have reply: "follows wide (AwaitModel (ms_id task)) v (fst (tx_bind (receive wide) (?reply task) v))
      (snd (tx_bind (receive wide) (?reply task) v))" for task v
  proof (rule follows_receive)
    fix m w assume m: "receive wide v = (Inr m, w)"
    show "follows wide (AwaitModel (ms_id task)) v (fst (?reply task m w)) (snd (?reply task m w))"
      by (intro follows_reject [OF m]) (auto intro: model_turn_follows [OF m])
  qed simp
  have "follows wide AwaitTask t (fst (tx_bind (receive wide) ?task t)) (snd (tx_bind (receive wide) ?task t))"
  proof (rule follows_receive)
    fix m w assume m: "receive wide t = (Inr m, w)"
    show "follows wide AwaitTask t (fst (?task m w)) (snd (?task m w))"
      by (intro follows_reject [OF m] follows_answer [OF m, where q = "AwaitModel (ms_id m)"] reply) auto
  qed simp
  then obtain ms u outs where f: "reads wide (pi_in t) ms u" "sent t outs (snd (Operator wide s))"
      "prefix outs (snd (turn_run AwaitTask ms))"
      "fst (Operator wide s) = Inr () \<longleftrightarrow> fst (turn_run AwaitTask ms) = Finished True \<and> outs = snd (turn_run AwaitTask ms)"
    unfolding follows_def Operator_def by (auto simp: tx_seq_def [of "send ?ready"] tx_bind_def [of "send ?ready"] ready)
  have "sent s (?ready # outs) (snd (Operator wide s))" using sent_trans [OF send_ok [OF ready] f(2)] by simp
  with f in_t show ?thesis
    by (cases "Operator wide s", simp only: prod.case)
      (rule exI [of _ ms], rule exI [of _ u], rule exI [of _ "?ready # outs"], simp)
qed

text \<open>The automaton never answers under another identifier and sends at most two messages after a task.\<close>

lemma turn_run_tool: "snd (turn_run (AwaitTool i) ms) \<in> {[], [frame ''task.waiting'' i ''''], [frame ''task.continue'' i '''']}"
  by (cases ms) auto

lemma turn_run_model:
  "\<exists>outs. snd (turn_run (AwaitModel i) ms) = outs \<and> length outs \<le> 2 \<and> (\<forall>m \<in> set outs. ms_id m = i \<and> ms_type m \<noteq> ''model.call'')"
  using turn_run_tool [of i "tl ms"] by (cases ms) (auto simp: frame_def split: prod.splits)

section \<open>A parent that answers\<close>

lemma receive_frame:
  assumes "WriteMessage m = Inr bytes" "ms_type m \<noteq> ''''"
    and "valid_utf8 (ms_type m)" "valid_utf8 (ms_data m)" "valid_utf8 (ms_id m)" "pi_in s = bytes @ rest"
  shows "receive wide s = (Inr m, s\<lparr>pi_in := rest\<rparr>)"
  using read_back [OF assms(1-5)] assms(6) by (simp add: receive_def)

lemma send_frame: "WriteMessage m = Inr bytes \<Longrightarrow> send m s = (Inr (), s\<lparr>pi_out := pi_out s @ bytes\<rparr>)"
  by (simp add: send_def)

lemma frames_cons: "frames (m # ms) = Some bs \<longleftrightarrow> (\<exists>b cs. WriteMessage m = Inr b \<and> frames ms = Some cs \<and> bs = b @ cs)"
  by (auto split: sum.splits)

text \<open>
  C25. A parent that sends a task and answers the model call with a result gets the turn finished:
  the operator announces itself, calls the model with the task's data, completes the task, and
  leaves the rest of its input unread.
\<close>

theorem Operator_completes:
  assumes "valid_task task" "valid_utf8 (ms_id task)" "valid_utf8 (ms_data task)"
    and "ms_id reply = ms_id task" "ms_type reply = ''model.result''" "valid_utf8 (ms_data reply)"
    and "WriteMessage task = Inr sent_task" "WriteMessage reply = Inr sent_reply"
    and "frames [frame ''ready'' '''' '''', frame ''model.call'' (ms_id task) (ms_data task),
           frame ''task.complete'' (ms_id task) ''''] = Some answer"
    and "pi_in s = sent_task @ sent_reply @ rest"
  shows "Operator wide s = (Inr (), s\<lparr>pi_in := rest, pi_out := pi_out s @ answer\<rparr>)"
proof -
  obtain b1 b2 b3 where b: "WriteMessage (frame ''ready'' '''' '''') = Inr b1"
      "WriteMessage (frame ''model.call'' (ms_id task) (ms_data task)) = Inr b2"
      "WriteMessage (frame ''task.complete'' (ms_id task) '''') = Inr b3" "answer = b1 @ b2 @ b3"
    using assms(9) unfolding frames_cons by auto
  have ascii: "valid_utf8 ''task''" "valid_utf8 ''model.result''" by (rule valid_utf8_ascii, simp add: byte_def)+
  let ?s1 = "s\<lparr>pi_out := pi_out s @ b1\<rparr>"
  let ?s2 = "?s1\<lparr>pi_in := sent_reply @ rest\<rparr>"
  let ?s3 = "?s2\<lparr>pi_out := pi_out s @ b1 @ b2\<rparr>"
  have "receive wide ?s1 = (Inr task, ?s2)"
    using assms(1-3,7,10) ascii by (intro receive_frame) (auto simp: valid_task_def)
  moreover have "receive wide ?s3 = (Inr reply, ?s3\<lparr>pi_in := rest\<rparr>)"
    using assms(2,4-6,8) ascii by (intro receive_frame) auto
  ultimately show ?thesis
    using assms(1,4,5) send_frame [OF b(1), of s] send_frame [OF b(2), of ?s2] send_frame [OF b(3), of "?s3\<lparr>pi_in := rest\<rparr>"] b(4)
    by (simp add: Operator_def model_turn_def tx_seq_def tx_bind_def tx_reject_def tx_return_def)
qed

definition json_text_arguments :: "text_arguments \<Rightarrow> json" where
  "json_text_arguments a = JObj (field ''text'' (JStr (ta_text a)) @ field ''save_artifact'' (JBool (ta_save a)))"

lemma decode_json_text_arguments:
  assumes "valid_utf8 (ta_text a)"
  shows "decode_text_arguments wide (marshal (json_text_arguments a)) = Inr a"
proof -
  have "lower_key wide ''text''" "lower_key wide ''save_artifact''" by (rule lower_key_ascii, simp add: byte_def)+
  with assms have "readable wide 0 (json_text_arguments a)" by (simp add: json_text_arguments_def field_def)
  from DecodeJSON_marshal [OF this, of "[]"]
  have "decode_text_arguments wide (marshal (json_text_arguments a)) =
      (case into_fields text_argument_fields (value_of (json_text_arguments a)) no_arguments of
        None \<Rightarrow> Inl (ErrInternal ''JSON contains an unknown field or an invalid field type'') | Some x \<Rightarrow> Inr x)"
    by (simp add: decode_text_arguments_def del: value_of.simps)
  also have "into_fields text_argument_fields (value_of (json_text_arguments a)) no_arguments = Some a"
    by (cases a) (simp add: json_text_arguments_def field_def into_fields_def
      text_argument_fields_def find_field_def into_string_def into_bool_def no_arguments_def)
  finally show ?thesis by simp
qed

text \<open>
  The counts of a text, over its bytes and its runes: the runes are the bytes that do not continue
  a sequence, the words the runes that are no white space and follow white space or nothing.
\<close>

definition rune_starts :: "string \<Rightarrow> nat" where
  "rune_starts s = length (filter (\<lambda>c. \<not> (128 \<le> byte c \<and> byte c < 192)) s)"

definition word_starts :: "string \<Rightarrow> nat" where
  "word_starts s = (let rs = runes s in
     length (filter (\<lambda>i. \<not> is_space (fst (rs ! i)) \<and> (i = 0 \<or> is_space (fst (rs ! (i - 1))))) [0..<length rs]))"

lemma decode_rune_starts:
  assumes "decode_rune bs = Some (n, w)"
  shows "filter (\<lambda>b. \<not> cont b) (take w bs) = [hd bs]"
proof (cases bs)
  case (Cons b0 bs1)
  show ?thesis
  proof (cases "b0 < 128")
    case True
    with assms Cons show ?thesis by (auto simp: cont_def)
  next
    case one: False
    with assms Cons obtain b1 bs2 where b1: "bs1 = b1 # bs2" by (auto split: list.splits)
    show ?thesis
    proof (cases "194 \<le> b0 \<and> b0 \<le> 223")
      case True
      with assms Cons one b1 show ?thesis by (auto simp: cont_def numeral_2_eq_2 split: if_splits)
    next
      case two: False
      with assms Cons one b1 obtain b2 bs3 where b2: "bs2 = b2 # bs3" by (auto split: list.splits)
      show ?thesis
      proof (cases "224 \<le> b0 \<and> b0 \<le> 239")
        case True
        with assms Cons one two b1 b2 have w: "w = 3" "three_bytes b0 b1 b2" by (auto split: if_splits)
        from w(2) have "cont b1" "cont b2" by (auto simp: three_bytes_def cont_def split: if_splits)
        with True w Cons b1 b2 show ?thesis by (simp add: cont_def numeral_3_eq_3)
      next
        case three: False
        with assms Cons one two b1 b2 obtain b3 bs4 where b3: "bs3 = b3 # bs4" by (auto split: list.splits)
        with assms Cons one two three b1 b2 have w: "w = 4" "four_bytes b0 b1 b2 b3" by (auto split: if_splits)
        from w(2) have "cont b1" "cont b2" "cont b3" "240 \<le> b0" by (auto simp: four_bytes_def cont_def split: if_splits)
        with w Cons b1 b2 b3 show ?thesis by (simp add: cont_def eval_nat_numeral)
      qed
    qed
  qed
qed (use assms in simp)

lemma rune_at_starts:
  assumes "rune_at (c # cs) = Some (n, w)"
  shows "rune_starts (c # take (w - 1) cs) = 1"
proof -
  have d: "decode_rune (map byte (take 4 (c # cs))) = Some (n, w)" using assms by (simp add: rune_at_def)
  from rune_at_width [OF assms] have w: "1 \<le> w" "w \<le> 4" by auto
  have t: "c # take (w - 1) cs = take w (c # cs)" using w by (cases w) auto
  have "take w (map byte (take 4 (c # cs))) = map byte (take w (c # cs))"
    using w by (simp only: take_map take_take min_absorb1)
  with decode_rune_starts [OF d] have "length (filter (\<lambda>b. \<not> cont b) (map byte (take w (c # cs)))) = 1" by simp
  then have "length (filter (\<lambda>c. \<not> cont (byte c)) (take w (c # cs))) = 1"
    by (simp only: filter_map length_map comp_def)
  moreover have "(\<lambda>c. \<not> cont (byte c)) = (\<lambda>c. \<not> (128 \<le> byte c \<and> byte c < 192))" by (auto simp: cont_def fun_eq_iff)
  ultimately show ?thesis unfolding rune_starts_def t by simp
qed
lemma runes_count: "valid_utf8 s \<Longrightarrow> length (runes s) = rune_starts s"
proof (induction s rule: runes.induct)
  case (2 c cs)
  obtain n w where p: "rune_at (c # cs) = Some (n, w)" using 2(3) by (auto simp: valid_utf8_def split: option.splits)
  have "rune_starts (c # cs) = rune_starts (c # take (w - 1) cs) + rune_starts (drop (w - 1) cs)"
    unfolding rune_starts_def by (metis append_Cons append_take_drop_id filter_append length_append)
  moreover have "length (runes (drop (w - 1) cs)) = rune_starts (drop (w - 1) cs)"
    using 2(2) [OF p refl] 2(3) p by (simp add: valid_utf8_def)
  ultimately show ?case using p rune_at_starts [OF p] by simp
qed (simp add: rune_starts_def)

lemma count_fields_starts:
  "count_fields inside rs =
     length (filter (\<lambda>i. \<not> is_space (fst (rs ! i)) \<and> (if i = 0 then \<not> inside else is_space (fst (rs ! (i - 1))))) [0..<length rs])"
proof (induction inside rs rule: count_fields.induct)
  case (2 inside r rs)
  have up: "[0..<length (r # rs)] = 0 # map Suc [0..<length rs]" by (simp add: upt_conv_Cons map_Suc_upt del: upt_Suc)
  have "(\<lambda>i. \<not> is_space (fst (rs ! i)) \<and> is_space (fst ((r # rs) ! i))) =
      (\<lambda>i. \<not> is_space (fst (rs ! i)) \<and> (if i = 0 then \<not> \<not> is_space (fst r) else is_space (fst (rs ! (i - 1)))))"
    by (auto simp: fun_eq_iff nth_Cons')
  with 2 show ?case unfolding up by (cases "is_space (fst r)") (simp_all add: filter_map comp_def)
qed simp

lemma fields_count: "fields_length s = word_starts s"
  unfolding fields_length_def word_starts_def count_fields_starts Let_def
  by (intro arg_cong [of _ _ length] filter_cong) auto

definition text_answer :: "text_arguments \<Rightarrow> text_result" where
  "text_answer a = \<lparr>tr_runes = int (rune_starts (ta_text a)), tr_words = int (word_starts (ta_text a)),
     tr_artifact = (if ta_save a then ''output/report.json'' else '''')\<rparr>"

lemma text_counts_answer: "valid_utf8 (ta_text a) \<Longrightarrow>
    text_counts (ta_text a) = (text_answer a)\<lparr>tr_artifact := ''''\<rparr>"
  by (simp add: text_counts_def text_answer_def runes_count fields_count)

text \<open>
  C26. The text tool answers valid arguments with the counts of their text, its runes and its
  words, names the report file exactly when saving was asked for, and then the file holds the
  counts.
\<close>

theorem TextAnalyze_answers:
  assumes "valid_utf8 (ta_text a)" "length (ta_text a) \<le> 4096" "valid_utf8 i"
    and "WriteMessage (frame ''tool.input'' i (marshal (json_text_arguments a))) = Inr request"
    and "frames [frame ''ready'' '''' '''', frame ''tool.result'' i (marshal (json_text_result (text_answer a)))] = Some answer"
    and "pi_in s = request @ rest"
  shows "TextAnalyze wide s = (Inr (), s\<lparr>pi_in := rest, pi_out := pi_out s @ answer,
     pi_report := (if ta_save a then Some (marshal (json_text_result ((text_answer a)\<lparr>tr_artifact := ''''\<rparr>))) else pi_report s)\<rparr>)"
proof -
  obtain b1 b2 where b: "WriteMessage (frame ''ready'' '''' '''') = Inr b1"
      "WriteMessage (frame ''tool.result'' i (marshal (json_text_result (text_answer a)))) = Inr b2" "answer = b1 @ b2"
    using assms(5) unfolding frames_cons by auto
  have "lower_key wide ''text''" "lower_key wide ''save_artifact''" by (rule lower_key_ascii, simp add: byte_def)+
  with assms(1) have "readable wide 0 (json_text_arguments a)" by (simp add: json_text_arguments_def field_def)
  then have v: "valid_utf8 (marshal (json_text_arguments a))" by (rule valid_utf8_marshal)
  let ?m = "frame ''tool.input'' i (marshal (json_text_arguments a))"
  let ?s1 = "s\<lparr>pi_out := pi_out s @ b1\<rparr>"
  have "valid_utf8 ''tool.input''" by (rule valid_utf8_ascii) (simp add: byte_def)
  then have "receive wide ?s1 = (Inr ?m, ?s1\<lparr>pi_in := rest\<rparr>)"
    using assms(3,4,6) v by (intro receive_frame) (auto simp: frame_def)
  moreover have "text_arguments_of wide ?m = Inr a"
    using decode_json_text_arguments [OF assms(1)] assms(2) by (simp add: text_arguments_of_def frame_def)
  moreover have "ms_id ?m = i" by (simp add: frame_def)
  moreover note text_counts_answer [OF assms(1)]
  moreover have "(text_answer a)\<lparr>tr_artifact := ''''\<rparr>\<lparr>tr_artifact := ''output/report.json''\<rparr> = text_answer a" if "ta_save a"
    using that by (simp add: text_answer_def)
  moreover have "(text_answer a)\<lparr>tr_artifact := ''''\<rparr> = text_answer a" if "\<not> ta_save a" using that by (simp add: text_answer_def)
  ultimately show ?thesis
    using send_frame [OF b(1), of s] send_frame [OF b(2)] b(3)
    by (cases "ta_save a") (simp_all add: TextAnalyze_def analyze_def Let_def tx_seq_def tx_bind_def
      tx_return_def tx_lift_def tx_modify_def)
qed

text \<open>
  ScanJSONValue compares keys with their lower case, encoding/json by folding classes: the
  letter U+017F is its own lower case and folds to S, so a second spelling of a field passes
  and overrides the first.
\<close>

definition long_s :: string where
  "long_s = [char_of (197 :: nat), char_of (191 :: nat)]"

definition twice_spelled :: string where
  "twice_spelled = CHR ''{'' # CHR 0x22 # ''save_artifact'' @ CHR 0x22 # '':false,'' @
     CHR 0x22 # long_s @ ''ave_artifact'' @ CHR 0x22 # '':true}''"

lemma twice_spelled_accepted:
  "decode_text_arguments (\<lambda>n. n) twice_spelled = Inr \<lparr>ta_text = '''', ta_save = True\<rparr>"
  by code_simp

section \<open>Sample messages\<close>

definition assigned_frame :: message_frame where
  "assigned_frame = frame ''task'' ''t1'' ''do''"

definition sample_reply :: message_frame where
  "sample_reply = frame ''model.result'' ''t1'' ''ok''"

lemmas frame_text =
  WriteMessage_def Let_def frame_def json_frame_def field_def field_omit_def json_string_def rune_at_def byte_def
  json_rune_def MaxFrame_def

lemma write_samples:
  "\<exists>b. WriteMessage assigned_frame = Inr b" "\<exists>b. WriteMessage sample_reply = Inr b"
  "\<exists>b. WriteMessage (frame ''ready'' '''' '''') = Inr b" "\<exists>b. WriteMessage (frame ''model.call'' ''t1'' ''do'') = Inr b"
  "\<exists>b. WriteMessage (frame ''task.complete'' ''t1'' '''') = Inr b"
  by (simp_all add: assigned_frame_def sample_reply_def frame_text)

lemma sample_utf8 [simp]: "valid_utf8 ''task''" "valid_utf8 ''t1''" "valid_utf8 ''do''" "valid_utf8 ''ok''"
  by (rule valid_utf8_ascii, simp add: byte_def)+

theorem Operator_completes_applied:
  "\<exists>b1 b2 answer. Operator (\<lambda>n. n) \<lparr>pi_in = b1 @ b2, pi_out = '''', pi_report = None\<rparr> =
     (Inr (), \<lparr>pi_in = '''', pi_out = answer, pi_report = None\<rparr>)"
proof -
  obtain b1 b2 where b: "WriteMessage assigned_frame = Inr b1" "WriteMessage sample_reply = Inr b2"
    using write_samples(1,2) by blast
  obtain answer where answer: "frames [frame ''ready'' '''' '''', frame ''model.call'' (ms_id assigned_frame) (ms_data assigned_frame),
      frame ''task.complete'' (ms_id assigned_frame) ''''] = Some answer"
    using write_samples(3-5) by (auto simp: assigned_frame_def frame_def)
  have "Operator (\<lambda>n. n) \<lparr>pi_in = b1 @ b2, pi_out = '''', pi_report = None\<rparr> =
     (Inr (), \<lparr>pi_in = b1 @ b2, pi_out = '''', pi_report = None\<rparr>
        \<lparr>pi_in := '''', pi_out := pi_out \<lparr>pi_in = b1 @ b2, pi_out = '''', pi_report = None\<rparr> @ answer\<rparr>)"
    by (rule Operator_completes [OF _ _ _ _ _ _ b answer])
      (simp_all add: assigned_frame_def sample_reply_def frame_def valid_task_def)
  then show ?thesis by auto
qed

definition sample_arguments :: text_arguments where
  "sample_arguments = \<lparr>ta_text = ''a b'', ta_save = True\<rparr>"

theorem TextAnalyze_answers_applied:
  "\<exists>request answer. TextAnalyze (\<lambda>n. n) \<lparr>pi_in = request, pi_out = '''', pi_report = None\<rparr> =
     (Inr (), \<lparr>pi_in = '''', pi_out = answer,
        pi_report = Some (marshal (json_text_result \<lparr>tr_runes = 3, tr_words = 2, tr_artifact = ''''\<rparr>))\<rparr>)"
proof -
  have "\<exists>b. WriteMessage (frame ''tool.input'' ''t1'' (marshal (json_text_arguments sample_arguments))) = Inr b"
    by (simp add: frame_text sample_arguments_def json_text_arguments_def)
  then obtain request where request: "WriteMessage (frame ''tool.input'' ''t1'' (marshal (json_text_arguments sample_arguments))) = Inr request" ..
  have counts: "rune_starts ''a b'' = 3" "word_starts ''a b'' = 2"
    by (simp_all add: rune_starts_def fields_count [symmetric] fields_length_def byte_def rune_at_def is_space_def)
  have "\<exists>b. WriteMessage (frame ''tool.result'' ''t1'' (marshal (json_text_result (text_answer sample_arguments)))) = Inr b"
    by (simp add: frame_text sample_arguments_def json_text_result_def text_answer_def counts dec_int_def dec_nat.simps)
  then obtain answer where answer: "frames [frame ''ready'' '''' '''',
      frame ''tool.result'' ''t1'' (marshal (json_text_result (text_answer sample_arguments)))] = Some answer"
    using write_samples(3) by auto
  have utf8: "valid_utf8 ''a b''" by (rule valid_utf8_ascii) (simp add: byte_def)
  from utf8 have "TextAnalyze (\<lambda>n. n) \<lparr>pi_in = request, pi_out = '''', pi_report = None\<rparr> =
     (Inr (), \<lparr>pi_in = request, pi_out = '''', pi_report = None\<rparr>\<lparr>pi_in := '''',
        pi_out := pi_out \<lparr>pi_in = request, pi_out = '''', pi_report = None\<rparr> @ answer,
        pi_report := (if ta_save sample_arguments
          then Some (marshal (json_text_result ((text_answer sample_arguments)\<lparr>tr_artifact := ''''\<rparr>)))
          else pi_report \<lparr>pi_in = request, pi_out = '''', pi_report = None\<rparr>)\<rparr>)"
    by (intro TextAnalyze_answers [OF _ _ _ request answer]) (simp_all add: sample_arguments_def)
  then show ?thesis by (auto simp: sample_arguments_def text_answer_def counts)
qed

theorem ReadMessage_WriteMessage_applied:
  "\<exists>bytes. WriteMessage assigned_frame = Inr bytes \<and> ReadMessage (\<lambda>n. n) (bytes @ ''rest'') = (Inr assigned_frame, ''rest'')"
proof -
  obtain bytes where b: "WriteMessage assigned_frame = Inr bytes" using write_samples(1) by blast
  have "ReadMessage (\<lambda>n. n) (bytes @ ''rest'') = (Inr assigned_frame, ''rest'')"
    by (rule ReadMessage_WriteMessage [OF b]) (simp_all add: assigned_frame_def frame_def)
  with b show ?thesis by blast
qed

theorem ReadMessage_bounded_applied:
  "\<exists>line. length line < MaxFrame \<and> newline \<notin> set line \<and> ReadMessage (\<lambda>n. n) (line @ newline # ''rest'') = (Inr assigned_frame, ''rest'')"
proof -
  obtain bytes where b: "WriteMessage assigned_frame = Inr bytes" using write_samples(1) by blast
  have r: "ReadMessage (\<lambda>n. n) (bytes @ ''rest'') = (Inr assigned_frame, ''rest'')"
    by (rule read_back [OF b]) (simp_all add: assigned_frame_def frame_def)
  from ReadMessage_bounded [OF this] obtain line where "bytes @ ''rest'' = line @ newline # ''rest''"
      "newline \<notin> set line" "length line < MaxFrame" by blast
  with r show ?thesis by auto
qed

end
