(* ===== verification/ToolArgs.thy ===== *)
theory ToolArgs
  imports Learning Worker
begin

text \<open>
  The arguments a model passes to a tool and the result it gets: ValidateArguments and
  ToolOutcome (registry.go), and the decoders of the argument structs the handlers use
  (knowledge.go, registry.go, team_ops.go, agent_management.go). A schema is the JSON text of
  the registry; ValidateArguments reads its required names and properties with json.Unmarshal
  and checks the strictly decoded members against them. Go visits the members in map order; the
  model visits them as they are written, so which of several violations is reported may differ.
\<close>

section \<open>Schemas\<close>

record property_spec =
  ps_type :: string
  ps_max_length :: int
  ps_minimum :: "int option"
  ps_enum :: "string slice"

record parameters_spec =
  sp_required :: "string slice"
  sp_properties :: "(string \<times> property_spec) list"

definition no_property :: property_spec where
  "no_property = \<lparr>ps_type = '''', ps_max_length = 0, ps_minimum = None, ps_enum = None\<rparr>"

definition no_parameters :: parameters_spec where
  "no_parameters = \<lparr>sp_required = None, sp_properties = []\<rparr>"

text \<open>json.Unmarshal into a struct: members without a field are skipped.\<close>

definition known_fields :: "(string \<times> 'a decoder) list \<Rightarrow> 'a decoder" where
  "known_fields flds v x =
     (case v of VObj kvs \<Rightarrow> decode_members flds (filter (\<lambda>kv. find_field flds (fst kv) \<noteq> None) kvs) x
      | _ \<Rightarrow> into_fields flds v x)"

definition property_fields :: "(string \<times> property_spec decoder) list" where
  "property_fields =
     [(''type'', into_string (\<lambda>s p. p\<lparr>ps_type := s\<rparr>)), (''maxLength'', into_int (\<lambda>i p. p\<lparr>ps_max_length := i\<rparr>)),
      (''minimum'', into_pointer (into_int (\<lambda>i _. i)) 0 ps_minimum (\<lambda>i p. p\<lparr>ps_minimum := i\<rparr>)),
      (''enum'', into_strings (\<lambda>xs p. p\<lparr>ps_enum := xs\<rparr>))]"

fun decode_properties :: "(string \<times> jval) list \<Rightarrow> (string \<times> property_spec) list option" where
  "decode_properties [] = Some []"
| "decode_properties ((k, v) # kvs) =
     (case known_fields property_fields v no_property of None \<Rightarrow> None
      | Some p \<Rightarrow> map_option (\<lambda>ps. (k, p) # ps) (decode_properties kvs))"

definition into_properties :: "parameters_spec decoder" where
  "into_properties v x =
     (case v of VNull \<Rightarrow> Some (x\<lparr>sp_properties := []\<rparr>)
      | VObj kvs \<Rightarrow> map_option (\<lambda>ps. x\<lparr>sp_properties := ps\<rparr>) (decode_properties kvs)
      | _ \<Rightarrow> None)"

definition parameters_fields :: "(string \<times> parameters_spec decoder) list" where
  "parameters_fields =
     [(''required'', into_strings (\<lambda>xs p. p\<lparr>sp_required := xs\<rparr>)), (''properties'', into_properties)]"

definition parse_parameters :: "string \<Rightarrow> parameters_spec option" where
  "parse_parameters text = json_unmarshal (\<lambda>v. known_fields parameters_fields v no_parameters) text"

section \<open>Arguments\<close>

definition arguments_error :: "string \<Rightarrow> error" where
  "arguments_error problem = FieldError ''arguments'' problem"

definition string_problem :: "property_spec \<Rightarrow> jval \<Rightarrow> error option" where
  "string_problem p v =
     (case v of VStr s \<Rightarrow>
        first_error [check (ps_max_length p > 0 \<and> int (length s) > ps_max_length p) (arguments_error ''string exceeds byte limit''),
          check (elems (ps_enum p) \<noteq> [] \<and> s \<notin> set (elems (ps_enum p))) (arguments_error ''unsupported value'')]
      | _ \<Rightarrow> Some (arguments_error ''expected a string''))"

definition integer_problem :: "property_spec \<Rightarrow> jval \<Rightarrow> error option" where
  "integer_problem p v =
     (case v of VNum lit \<Rightarrow> (case parse_int64 lit of
          None \<Rightarrow> Some (arguments_error ''invalid integer'')
        | Some i \<Rightarrow> check (case ps_minimum p of None \<Rightarrow> False | Some m \<Rightarrow> i < m) (arguments_error ''invalid integer''))
      | _ \<Rightarrow> Some (arguments_error ''invalid integer''))"

definition boolean_problem :: "jval \<Rightarrow> error option" where
  "boolean_problem v = (case v of VBool b \<Rightarrow> None | _ \<Rightarrow> Some (arguments_error ''expected a boolean''))"

definition array_problem :: "jval \<Rightarrow> error option" where
  "array_problem v =
     (case v of VArr vs \<Rightarrow> check (decode_each (into_string (\<lambda>s _. s)) '''' vs = None \<or> length vs > 256)
          (arguments_error ''expected a bounded string array'')
      | _ \<Rightarrow> Some (arguments_error ''expected a bounded string array''))"

definition argument_problem :: "parameters_spec \<Rightarrow> string \<times> jval \<Rightarrow> error option" where
  "argument_problem spec kv =
     (case map_of (sp_properties spec) (fst kv) of
        None \<Rightarrow> Some (arguments_error ''unknown field'')
      | Some p \<Rightarrow>
          if snd kv = VNull then Some (arguments_error ''null is not supported'')
          else if ps_type p = ''string'' then string_problem p (snd kv)
          else if ps_type p = ''integer'' then integer_problem p (snd kv)
          else if ps_type p = ''boolean'' then boolean_problem (snd kv)
          else if ps_type p = ''array'' then array_problem (snd kv)
          else Some (ErrInternal ''unsupported reviewed argument schema''))"

text \<open>The members of an object, or nil for null.\<close>

definition into_members :: "jval \<Rightarrow> (string \<times> jval) list option option" where
  "into_members v = (case v of VNull \<Rightarrow> Some None | VObj kvs \<Rightarrow> Some (Some kvs) | _ \<Rightarrow> None)"

definition missing_field :: "(string \<times> jval) list \<Rightarrow> string \<Rightarrow> error option" where
  "missing_field kvs name = check (name \<notin> fst ` set kvs) (arguments_error (''missing required field '' @ name))"

definition ValidateArguments :: "(nat \<Rightarrow> nat) \<Rightarrow> string \<Rightarrow> string \<Rightarrow> error option" where
  "ValidateArguments wide parameters arguments =
     (case parse_parameters parameters of
        None \<Rightarrow> Some (ErrInternal ''invalid parameter schema'')
      | Some spec \<Rightarrow>
         (case DecodeJSON wide into_members arguments of
            Inl e \<Rightarrow> Some (arguments_error (error_text e))
          | Inr None \<Rightarrow> Some (arguments_error ''requires an object'')
          | Inr (Some kvs) \<Rightarrow>
              first_error (map (missing_field kvs) (elems (sp_required spec)) @ map (argument_problem spec) kvs)))"

section \<open>Results\<close>

definition ToolOutcome :: "json \<Rightarrow> error + string" where
  "ToolOutcome data =
     (if length (marshal data) > MaxEventBytes then Inl (FieldError ''tool result'' ''exceeds 8192 bytes'')
      else Inr (marshal data))"

section \<open>Argument structs\<close>

definition decode_args :: "(nat \<Rightarrow> nat) \<Rightarrow> (string \<times> 'a decoder) list \<Rightarrow> 'a \<Rightarrow> string \<Rightarrow> error + 'a" where
  "decode_args wide flds zero arguments = DecodeJSON wide (\<lambda>v. into_fields flds v zero) arguments"

text \<open>A struct with one string field.\<close>

definition one_string :: "string \<Rightarrow> (string \<times> string decoder) list" where
  "one_string name = [(name, into_string (\<lambda>s _. s))]"

definition no_fields :: "(string \<times> unit decoder) list" where
  "no_fields = []"

definition memory_command_fields :: "(string \<times> memory_command decoder) list" where
  "memory_command_fields =
     [(''memory_id'', into_string (\<lambda>s c. c\<lparr>mm_id := s\<rparr>)), (''expected_revision'', into_int (\<lambda>i c. c\<lparr>mm_revision := i\<rparr>)),
      (''scope'', into_string (\<lambda>s c. c\<lparr>mm_scope := s\<rparr>)), (''owner_id'', into_string (\<lambda>s c. c\<lparr>mm_owner := s\<rparr>)),
      (''content'', into_string (\<lambda>s c. c\<lparr>mm_content := s\<rparr>)), (''evidence'', into_string (\<lambda>s c. c\<lparr>mm_evidence := s\<rparr>)),
      (''confidence'', into_int (\<lambda>i c. c\<lparr>mm_confidence := i\<rparr>)), (''artifacts'', into_strings (\<lambda>xs c. c\<lparr>mm_artifacts := xs\<rparr>)),
      (''retention_seconds'', into_int (\<lambda>i c. c\<lparr>mm_retention := i\<rparr>))]"

definition no_memory_command :: memory_command where
  "no_memory_command = \<lparr>mm_id = '''', mm_revision = 0, mm_scope = '''', mm_owner = '''', mm_content = '''', mm_evidence = '''',
     mm_confidence = 0, mm_artifacts = None, mm_retention = 0\<rparr>"

definition memory_query_fields :: "(string \<times> memory_query decoder) list" where
  "memory_query_fields =
     [(''scope'', into_string (\<lambda>s c. c\<lparr>mq_scope := s\<rparr>)), (''owner_id'', into_string (\<lambda>s c. c\<lparr>mq_owner := s\<rparr>)),
      (''query'', into_string (\<lambda>s c. c\<lparr>mq_query := s\<rparr>)), (''after'', into_string (\<lambda>s c. c\<lparr>mq_after := s\<rparr>)),
      (''include_pending'', into_bool (\<lambda>b c. c\<lparr>mq_pending := b\<rparr>))]"

definition no_memory_query :: memory_query where
  "no_memory_query = \<lparr>mq_scope = '''', mq_owner = '''', mq_query = '''', mq_after = '''', mq_pending = False\<rparr>"

definition schedule_fields :: "(string \<times> schedule_command decoder) list" where
  "schedule_fields =
     [(''agent_id'', into_string (\<lambda>s c. c\<lparr>sk_agent_id := s\<rparr>)), (''at'', into_string (\<lambda>s c. c\<lparr>sk_at := s\<rparr>)),
      (''cron'', into_string (\<lambda>s c. c\<lparr>sk_cron := s\<rparr>)), (''timezone'', into_string (\<lambda>s c. c\<lparr>sk_timezone := s\<rparr>)),
      (''content'', into_string (\<lambda>s c. c\<lparr>sk_content := s\<rparr>)), (''trigger_budget'', into_int (\<lambda>i c. c\<lparr>sk_budget := i\<rparr>))]"

definition no_schedule :: schedule_command where
  "no_schedule = \<lparr>sk_agent_id = '''', sk_at = '''', sk_cron = '''', sk_timezone = '''', sk_content = '''', sk_budget = 0\<rparr>"

definition subscription_fields :: "(string \<times> subscription_command decoder) list" where
  "subscription_fields =
     [(''agent_id'', into_string (\<lambda>s c. c\<lparr>su_agent_id := s\<rparr>)), (''type'', into_string (\<lambda>s c. c\<lparr>su_type := s\<rparr>)),
      (''scope'', into_string (\<lambda>s c. c\<lparr>su_scope := s\<rparr>)), (''trigger_budget'', into_int (\<lambda>i c. c\<lparr>su_budget := i\<rparr>))]"

definition no_subscription :: subscription_command where
  "no_subscription = \<lparr>su_agent_id = '''', su_type = '''', su_scope = '''', su_budget = 0\<rparr>"

definition draft_fields :: "(string \<times> draft_command decoder) list" where
  "draft_fields =
     [(''tool_id'', into_string (\<lambda>s c. c\<lparr>dc_tool_id := s\<rparr>)), (''expected_version'', into_int (\<lambda>i c. c\<lparr>dc_expected_version := i\<rparr>)),
      (''kind'', into_string (\<lambda>s c. c\<lparr>dc_kind := s\<rparr>)), (''description'', into_string (\<lambda>s c. c\<lparr>dc_description := s\<rparr>)),
      (''content'', into_string (\<lambda>s c. c\<lparr>dc_content := s\<rparr>)), (''requires_tools'', into_strings (\<lambda>xs c. c\<lparr>dc_requires := xs\<rparr>))]"

definition no_draft :: draft_command where
  "no_draft = \<lparr>dc_tool_id = '''', dc_expected_version = 0, dc_kind = '''', dc_description = '''', dc_content = '''', dc_requires = None\<rparr>"

record propose_agent_args =
  pa_name :: string
  pa_prompt :: string
  pa_model :: string
  pa_tools :: "string slice"
  pa_token_budget :: int

definition propose_agent_fields :: "(string \<times> propose_agent_args decoder) list" where
  "propose_agent_fields =
     [(''name'', into_string (\<lambda>s c. c\<lparr>pa_name := s\<rparr>)), (''prompt'', into_string (\<lambda>s c. c\<lparr>pa_prompt := s\<rparr>)),
      (''model'', into_string (\<lambda>s c. c\<lparr>pa_model := s\<rparr>)), (''tools'', into_strings (\<lambda>xs c. c\<lparr>pa_tools := xs\<rparr>)),
      (''token_budget'', into_int (\<lambda>i c. c\<lparr>pa_token_budget := i\<rparr>))]"

definition no_proposal :: propose_agent_args where
  "no_proposal = \<lparr>pa_name = '''', pa_prompt = '''', pa_model = '''', pa_tools = None, pa_token_budget = 0\<rparr>"

record delegate_args =
  dg_agent_id :: string
  dg_prompt :: string

definition delegate_fields :: "(string \<times> delegate_args decoder) list" where
  "delegate_fields =
     [(''agent_id'', into_string (\<lambda>s c. c\<lparr>dg_agent_id := s\<rparr>)), (''prompt'', into_string (\<lambda>s c. c\<lparr>dg_prompt := s\<rparr>))]"

definition no_delegation :: delegate_args where
  "no_delegation = \<lparr>dg_agent_id = '''', dg_prompt = ''''\<rparr>"

record revise_agent_args =
  ra_agent_id :: string
  ra_expected_revision :: int
  ra_prompt :: string
  ra_model :: string
  ra_tools :: "string slice"

definition revise_agent_fields :: "(string \<times> revise_agent_args decoder) list" where
  "revise_agent_fields =
     [(''agent_id'', into_string (\<lambda>s c. c\<lparr>ra_agent_id := s\<rparr>)), (''expected_revision'', into_int (\<lambda>i c. c\<lparr>ra_expected_revision := i\<rparr>)),
      (''prompt'', into_string (\<lambda>s c. c\<lparr>ra_prompt := s\<rparr>)), (''model'', into_string (\<lambda>s c. c\<lparr>ra_model := s\<rparr>)),
      (''tools'', into_strings (\<lambda>xs c. c\<lparr>ra_tools := xs\<rparr>))]"

definition no_revision :: revise_agent_args where
  "no_revision = \<lparr>ra_agent_id = '''', ra_expected_revision = 0, ra_prompt = '''', ra_model = '''', ra_tools = None\<rparr>"

record retire_agent_args =
  rt_agent_id :: string
  rt_expected_revision :: int

definition retire_agent_fields :: "(string \<times> retire_agent_args decoder) list" where
  "retire_agent_fields =
     [(''agent_id'', into_string (\<lambda>s c. c\<lparr>rt_agent_id := s\<rparr>)), (''expected_revision'', into_int (\<lambda>i c. c\<lparr>rt_expected_revision := i\<rparr>))]"

definition no_retirement :: retire_agent_args where
  "no_retirement = \<lparr>rt_agent_id = '''', rt_expected_revision = 0\<rparr>"

record evaluate_args =
  ev_tool_id :: string
  ev_version :: int
  ev_check_id :: string
  ev_baseline :: string

definition evaluate_fields :: "(string \<times> evaluate_args decoder) list" where
  "evaluate_fields =
     [(''tool_id'', into_string (\<lambda>s c. c\<lparr>ev_tool_id := s\<rparr>)), (''version'', into_int (\<lambda>i c. c\<lparr>ev_version := i\<rparr>)),
      (''check_id'', into_string (\<lambda>s c. c\<lparr>ev_check_id := s\<rparr>)), (''baseline_name'', into_string (\<lambda>s c. c\<lparr>ev_baseline := s\<rparr>))]"

definition no_evaluation :: evaluate_args where
  "no_evaluation = \<lparr>ev_tool_id = '''', ev_version = 0, ev_check_id = '''', ev_baseline = ''''\<rparr>"

end
