(* ===== verification/ToolOps.thy ===== *)
theory ToolOps
  imports ToolArgs
begin

text \<open>
  The built-in tools a task may call: the handlers of builtin (team_ops.go), manageAgent
  (agent_management.go), bootstrapTool (bootstrap_tools.go) and knowledgeTool (knowledge.go),
  each from its decoded arguments to the JSON result the model sees, inside the transaction of
  the tool call. The engine record holds what the workflow struct holds and the parameters of
  the model: the digest, the lower-case table, the Go parser, time zones and cron, and the
  files of generated binaries.
\<close>

record engine =
  en_hash :: "string \<Rightarrow> string"
  en_wide :: "nat \<Rightarrow> nat"
  en_config :: configuration
  en_owner :: string
  en_parser :: go_parser
  en_services :: trigger_services
  en_files :: artifact_files

text \<open>Decoding the arguments inside the transaction.\<close>

definition tool_args :: "engine \<Rightarrow> (string \<times> 'a decoder) list \<Rightarrow> 'a \<Rightarrow> string \<Rightarrow> 'a op" where
  "tool_args en flds zero arguments = tx_lift (decode_args (en_wide en) flds zero arguments)"

definition tool_outcome :: "json \<Rightarrow> string op" where
  "tool_outcome data = tx_lift (ToolOutcome data)"

text \<open>A new task row field update of the calling task.\<close>

definition update_task :: "task_row \<Rightarrow> (task_row \<Rightarrow> task_row) \<Rightarrow> unit op" where
  "update_task t f = tx_update db_tasks_update (\<lambda>x. t_system_id x = t_system_id t \<and> t_id x = t_id t) f"

section \<open>Agents\<close>

definition agent_view :: "agent_record \<Rightarrow> json" where
  "agent_view a = JObj [(''agent_id'', JStr (a_id a)), (''available'', JBool (a_available a)),
     (''model'', JStr (oc_model (a_definition a))), (''name'', JStr (a_name a)), (''revision'', JInt (a_revision a)),
     (''sandbox_profile'', JStr (oc_sandbox_profile (a_definition a))), (''state'', JStr (control_name (a_state a))),
     (''tool_count'', JInt (int (length (a_tools a)))), (''tools'', JArr (map (JStr \<circ> pin_name) (take 16 (a_tools a))))]"

text \<open>The collaborators of the goal and the operator, in pages of five.\<close>

definition listed_agents :: "db \<Rightarrow> task_row \<Rightarrow> string \<Rightarrow> string list" where
  "listed_agents d t after = take 6 (sort (map ag_agent_id (filter (\<lambda>a. ag_system_id a = t_system_id t \<and>
      (ag_goal_id a = t_goal_id t \<or>
       (case List.find (\<lambda>s. sy_system_id s = t_system_id t) (db_systems d) of None \<Rightarrow> False
        | Some s \<Rightarrow> ag_agent_id a = sy_operator_id s)) \<and> ag_agent_id a > after) (db_agents d))))"

definition list_agents :: "engine \<Rightarrow> task_row \<Rightarrow> string \<Rightarrow> string op" where
  "list_agents en t arguments =
     tx_bind (tool_args en (one_string ''after'') '''' arguments) (\<lambda>after.
     tx_bind (tx_gets (\<lambda>d. listed_agents d t after)) (\<lambda>ids.
     tx_bind (tx_map (\<lambda>i. readAgent (t_system_id t) i 0) (take 5 ids)) (\<lambda>agents.
     tool_outcome (JObj [(''agents'', JArr (map agent_view agents)),
       (''next'', JStr (if length ids > 5 then ids ! 4 else ''''))]))))"

definition child_of :: "task_row \<Rightarrow> agent_record \<Rightarrow> propose_agent_args \<Rightarrow> string \<Rightarrow> tool_pin list \<Rightarrow> string \<Rightarrow> agent_record" where
  "child_of t parent args model pins i =
    \<lparr>a_system_id = t_system_id t, a_id = i, a_parent = t_agent_id t, a_goal_id = t_goal_id t, a_name = pa_name args,
     a_revision = 1, a_state = CActive, a_depth = a_depth parent + 1, a_token_budget = pa_token_budget args,
     a_max_turns = a_max_turns parent,
     a_definition = (a_definition parent)\<lparr>oc_prompt := pa_prompt args, oc_model := model, oc_tools := pa_tools args\<rparr>,
     a_tools = pins, a_available = False\<rparr>"

definition insert_child :: "agent_record \<Rightarrow> unit op" where
  "insert_child a =
     tx_seq (insert_agent (agent_row_of a))
     (tx_seq (insertAgentRevision a) (insert_usage (a_system_id a) (a_id a) (a_goal_id a) 0))"

text \<open>A proposed child: within the parent's budget and depth, the system's capacity, the task's grants.\<close>

definition propose_agent :: "engine \<Rightarrow> task_row \<Rightarrow> int \<Rightarrow> string \<Rightarrow> string op" where
  "propose_agent en t now arguments =
     tx_bind (tool_args en propose_agent_fields no_proposal arguments) (\<lambda>args.
     tx_seq (tx_reject (\<not> ConfigName (pa_name args) \<or> blank (pa_prompt args) \<or> length (pa_prompt args) > 4096 \<or> pa_token_budget args < 1)
               (FieldError ''agent'' ''invalid name, prompt, or token cap''))
     (tx_seq (tx_checked (UniqueNames (elems (pa_tools args)) ''tools''))
     (tx_bind (readAgent (t_system_id t) (t_agent_id t) (t_revision t)) (\<lambda>parent.
      tx_seq (tx_reject (pa_token_budget args > a_token_budget parent \<or> a_depth parent \<ge> 8)
                (FieldError ''agent'' ''child exceeds parent budget or depth''))
     (tx_bind (tx_count db_agents (\<lambda>a. ag_system_id a = t_system_id t \<and> ag_state a \<noteq> CStopped)) (\<lambda>count.
      tx_bind (readSystem (en_hash en) localAdministrator (t_system_id t)) (\<lambda>record.
      tx_seq (tx_reject (count \<ge> sl_max_agents (sc_limits (sr_configuration record)))
                (FieldError ''agent'' ''system agent capacity exhausted''))
     (let model = (if pa_model args = '''' then oc_model (a_definition parent) else pa_model args) in
      tx_seq (tx_checked (authorizeModel (en_config en) (sr_configuration record) model))
     (tx_bind (tx_lift (narrowToolPins (t_tools t) (elems (pa_tools args)))) (\<lambda>pins.
      tx_seq (authorizePins (en_hash en) (en_config en) (t_system_id t) pins now)
     (tx_bind (NewID ''agent_'') (\<lambda>i.
      tx_seq (insert_child (child_of t parent args model pins i))
        (tool_outcome (JObj [(''agent_id'', JStr i)]))))))))))))))"

text \<open>The model aliases the system allows, in pages of five.\<close>

definition model_view :: "configuration \<Rightarrow> string \<Rightarrow> json" where
  "model_view cfg alias = (let m = the_model cfg alias in
     JObj [(''name'', JStr alias), (''provider'', JStr (mo_provider m)), (''model'', JStr (mo_model m)),
       (''max_output_tokens'', JInt (mo_max_output_tokens m))])"

definition list_models :: "engine \<Rightarrow> system_record \<Rightarrow> string \<Rightarrow> string op" where
  "list_models en system arguments =
     tx_bind (tool_args en (one_string ''after'') '''' arguments) (\<lambda>after.
     let names = filter (\<lambda>n. n > after) (sort (AllowedModels (sr_configuration system))); page = take 5 names in
     tx_seq (tx_foreach (\<lambda>n. tx_checked (authorizeModel (en_config en) (sr_configuration system) n)) page)
       (tool_outcome (JObj [(''models'', JArr (map (model_view (en_config en)) page)),
         (''next'', JStr (if length names > 5 then last page else ''''))])))"

text \<open>The child an operator may revise or retire.\<close>

definition managed_agent :: "system_record \<Rightarrow> task_row \<Rightarrow> string \<Rightarrow> int \<Rightarrow> agent_record op" where
  "managed_agent system t i expected =
     tx_bind (tx_no_rows (readAgent (t_system_id t) i 0) (FieldError ''agent'' ''agent unavailable in this scope'')) (\<lambda>a.
     tx_seq (tx_reject (a_id a = sr_operator_id system \<or> a_parent a = '''' \<or> a_goal_id a \<noteq> t_goal_id t \<or> a_state a = CStopped)
               (FieldError ''agent'' ''requires a live child belonging to this goal''))
     (tx_seq (tx_reject (expected < 1 \<or> a_revision a \<noteq> expected) (FieldError ''expected_revision'' ''agent revision has changed''))
       (tx_return a)))"

text \<open>The child and its creation descendants in the goal.\<close>

definition creation_descendants :: "db \<Rightarrow> task_row \<Rightarrow> string \<Rightarrow> string list" where
  "creation_descendants d t i =
     (let rows = filter (\<lambda>a. ag_system_id a = t_system_id t) (db_agents d) in
      map ag_agent_id (recursive_rows (\<lambda>a c. ag_parent_id a = ag_agent_id c \<and> ag_goal_id a = t_goal_id t) rows
        (filter (\<lambda>a. ag_agent_id a = i) rows)))"

definition retire_one :: "task_row \<Rightarrow> int \<Rightarrow> string \<Rightarrow> string list op" where
  "retire_one t now i =
     tx_seq (tx_update db_agents_update (\<lambda>a. ag_system_id a = t_system_id t \<and> ag_agent_id a = i) (\<lambda>a. a\<lparr>ag_state := CStopped\<rparr>))
       (stopTasks (t_system_id t) ''agent'' i (t_agent_id t) ''retired by operator'' now)"

definition retire_agent :: "task_row \<Rightarrow> int \<Rightarrow> string \<Rightarrow> string op" where
  "retire_agent t now i =
     tx_bind (tx_gets (\<lambda>d. creation_descendants d t i)) (\<lambda>ids.
     tx_bind (tx_map (retire_one t now) ids) (\<lambda>calls.
     tool_outcome (JObj [(''scope'', JStr ''agent''), (''id'', JStr i), (''action'', JStr ''retire''),
       (''affected_calls'', JArr (map JStr (sort (remdups (concat calls)))))])))"

definition revise_agent :: "engine \<Rightarrow> system_record \<Rightarrow> task_row \<Rightarrow> int \<Rightarrow> revise_agent_args \<Rightarrow> agent_record \<Rightarrow> string op" where
  "revise_agent en system t now args a =
     tx_seq (tx_reject (blank (ra_prompt args) \<or> length (ra_prompt args) > 4096 \<or> \<not> valid_utf8 (ra_prompt args))
               (FieldError ''prompt'' ''requires 1-4096 UTF-8 bytes''))
     (tx_bind (tx_gets (\<lambda>d. exists_where (\<lambda>e. le_system_id e = t_system_id t \<and> le_agent_id e = a_id a) (db_evaluations d))) (\<lambda>protected.
      tx_seq (tx_reject protected (FieldError ''agent'' ''protected evaluation agents cannot be revised''))
     (tx_seq (tx_checked (authorizeModel (en_config en) (sr_configuration system) (ra_model args)))
     (tx_bind (tx_lift (narrowToolPins (t_tools t) (elems (ra_tools args)))) (\<lambda>pins.
      tx_bind (readAgent (t_system_id t) (a_parent a) 0) (\<lambda>parent.
      tx_seq (tx_reject (\<not> list_all (\<lambda>p. p \<in> set (a_tools parent)) pins)
                (FieldError ''tools'' ''revision exceeds the creation parent's current grant''))
     (tx_seq (authorizePins (en_hash en) (en_config en) (t_system_id t) pins now)
     (let revised = a\<lparr>a_revision := a_revision a + 1,
            a_definition := (a_definition a)\<lparr>oc_prompt := ra_prompt args, oc_model := ra_model args, oc_tools := ra_tools args\<rparr>,
            a_tools := pins\<rparr> in
      tx_seq (insertAgentRevision revised)
     (tx_seq (tx_update db_agents_update (\<lambda>x. ag_system_id x = t_system_id t \<and> ag_agent_id x = a_id a)
                (\<lambda>x. x\<lparr>ag_revision := a_revision revised\<rparr>))
       (tool_outcome (JObj [(''agent_id'', JStr (a_id a)), (''revision'', JInt (a_revision revised))])))))))))))"

definition manageAgent :: "engine \<Rightarrow> task_row \<Rightarrow> string \<Rightarrow> string \<Rightarrow> int \<Rightarrow> string op" where
  "manageAgent en t name arguments now =
     tx_bind (readSystem (en_hash en) localAdministrator (t_system_id t)) (\<lambda>system.
     if name = ''runtime.model.list'' then list_models en system arguments
     else tx_seq (tx_reject (t_agent_id t \<noteq> sr_operator_id system)
                    (FieldError ''agent'' ''only the system operator may revise or retire agents''))
       (if name = ''runtime.agent.revise'' then
          tx_bind (tool_args en revise_agent_fields no_revision arguments) (\<lambda>args.
          tx_bind (managed_agent system t (ra_agent_id args) (ra_expected_revision args)) (revise_agent en system t now args))
        else if name = ''runtime.agent.retire'' then
          tx_bind (tool_args en retire_agent_fields no_retirement arguments) (\<lambda>args.
          tx_bind (managed_agent system t (rt_agent_id args) (rt_expected_revision args)) (\<lambda>a. retire_agent t now (a_id a)))
        else tx_fail (FieldError ''tool'' ''unsupported agent operation'')))"

section \<open>Capabilities and artifacts\<close>

definition generated_contract :: string where
  "generated_contract = ''package main; Process(string) (string, error); stdlib only; source <=8192 bytes; input <=4096 bytes; output <=8192 bytes; 10 seconds; no network/broker access; explicit state input/output''"

text \<open>What each accountable agent has left for the goal.\<close>

fun least_allowance :: "execution \<Rightarrow> string list \<Rightarrow> int \<Rightarrow> int op" where
  "least_allowance e [] remaining = tx_return remaining"
| "least_allowance e (i # ids) remaining =
     tx_bind (tx_row (\<lambda>d. agent_allowance d e i)) (\<lambda>available. least_allowance e ids (min remaining available))"

text \<open>An ExecutionRecord with only the fields of the task set.\<close>

definition task_session :: "task_row \<Rightarrow> execution" where
  "task_session t =
    \<lparr>e_learning_id = '''', e_call_id = '''', e_system_id = t_system_id t, e_goal_id = t_goal_id t, e_task_id = t_id t,
     e_activation_id = '''', e_activation_owner = '''', e_revision = 0, e_model = '''', e_stream = False, e_state = Pending,
     e_reason = '''', e_response = '''', e_reservation = 0, e_attempts = 0, e_input_tokens = 0, e_output_tokens = 0,
     e_usage_known = False, e_created_at = 0, e_queued_at = 0, e_deadline = 0, e_wait_deadline = 0, e_dispatched_at = 0,
     e_prompt = '''', e_goal_budget = 0, e_goal_used = 0, e_goal_reserved = 0, e_task_state = Pending, e_continuous = False,
     e_queue_wait_ms = 0, e_retries = 0, e_agent_id = t_agent_id t, e_request = '''', e_actions = [], e_event_id = ''''\<rparr>"

definition check_ids :: "db \<Rightarrow> string \<Rightarrow> string list" where
  "check_ids d systemID = take 64 (sort (map lk_check_id (filter (\<lambda>c. lk_system_id c = systemID) (db_checks d))))"

definition build_blocker :: "configuration \<Rightarrow> agent_record \<Rightarrow> string" where
  "build_blocker cfg a =
     (case GeneratedProfile (the_profile cfg (oc_sandbox_profile (a_definition a))) of
        Some e \<Rightarrow> error_text e
      | None \<Rightarrow> if cf_learning cfg = None then ''a pinned local Go toolchain is not configured'' else '''')"

definition capabilities_view :: "task_row \<Rightarrow> system_record \<Rightarrow> agent_record \<Rightarrow> goal_row \<Rightarrow> int \<Rightarrow> string list \<Rightarrow> string \<Rightarrow> json" where
  "capabilities_view t system a g remaining checks blocker = JObj
     (field ''granted_tools'' (JArr (map json_pin (t_tools t))) @ field ''model'' (JStr (oc_model (a_definition a))) @
      field ''sandbox_profile'' (JStr (oc_sandbox_profile (a_definition a))) @
      field ''system_limits'' (json_limits (sc_limits (sr_configuration system))) @
      field ''remaining_tokens'' (JInt remaining) @ field ''remaining_task_turns'' (JInt (max 0 (MaxTaskTurns - t_turns t))) @
      field ''goal_deadline_ms'' (JInt (gl_deadline g)) @ field ''task_deadline_ms'' (JInt (t_deadline t)) @
      field ''continuous'' (JBool (sr_continuous system)) @ field ''protected_check_ids'' (JArr (map JStr checks)) @
      field ''generated_build_configured'' (JBool (blocker = '''')) @
      field_omit (blocker = '''') ''generated_build_blocker'' (JStr blocker) @
      field ''exact_artifact_approval_required'' (JBool True) @ field ''generated_tool_contract'' (JStr generated_contract))"

definition capabilities :: "engine \<Rightarrow> task_row \<Rightarrow> string \<Rightarrow> string op" where
  "capabilities en t arguments =
     tx_bind (tool_args en no_fields () arguments) (\<lambda>_.
     tx_bind (readSystem (en_hash en) localAdministrator (t_system_id t)) (\<lambda>system.
     tx_bind (readAgent (t_system_id t) (t_agent_id t) (t_revision t)) (\<lambda>a.
     tx_bind (readGoal (t_system_id t) (t_goal_id t)) (\<lambda>g.
     tx_bind (budgetAgents (task_session t)) (\<lambda>ancestors.
     tx_bind (least_allowance (task_session t) ancestors
        (min (gl_token_budget g - gl_used_tokens g - gl_reserved_tokens g)
             (sl_token_budget (sc_limits (sr_configuration system)) - sr_used_tokens system - sr_reserved_tokens system))) (\<lambda>remaining.
     tx_bind (tx_gets (\<lambda>d. check_ids d (t_system_id t))) (\<lambda>checks.
     tool_outcome (capabilities_view t system a g remaining checks (build_blocker (en_config en) a)))))))))"

definition put_artifact :: "engine \<Rightarrow> task_row \<Rightarrow> string \<Rightarrow> string op" where
  "put_artifact en t arguments =
     tx_bind (tool_args en (one_string ''content'') '''' arguments) (\<lambda>content.
     tx_seq (tx_reject (blank content \<or> length content > 3072 \<or> \<not> valid_utf8 content \<or> nul \<in> set content)
               (FieldError ''content'' ''requires 1-3072 bytes of inert UTF-8 text without NUL''))
     (tx_bind (tool_outcome (JObj [(''content'', JStr content)])) (\<lambda>_.
      tx_bind (tx_count db_artifacts (\<lambda>a. af_system_id a = t_system_id t \<and> af_goal_id a = t_goal_id t)) (\<lambda>count.
      tx_seq (tx_reject (count \<ge> 128) (FieldError ''artifacts'' ''goal artifact limit reached''))
     (tx_bind (NewID ''artifact_'') (\<lambda>i.
      tx_seq (insert_artifact \<lparr>af_system_id = t_system_id t, af_artifact_id = i, af_goal_id = t_goal_id t,
                af_task_id = t_id t, af_digest = en_hash en content, af_content = content\<rparr>)
        (tool_outcome (JObj [(''artifact_id'', JStr i)]))))))))"

definition get_artifact :: "engine \<Rightarrow> task_row \<Rightarrow> string \<Rightarrow> string op" where
  "get_artifact en t arguments =
     tx_bind (tool_args en (one_string ''artifact_id'') '''' arguments) (\<lambda>i.
     tx_bind (tx_no_rows (tx_find db_artifacts (\<lambda>a. af_system_id a = t_system_id t \<and> af_goal_id a = t_goal_id t \<and> af_artifact_id a = i))
               (FieldError ''artifact'' ''not found in this goal'')) (\<lambda>a.
     tx_seq (tx_reject (length (af_content a) > 3072 \<or> \<not> valid_utf8 (af_content a))
               (FieldError ''artifact'' ''exceeds the bounded text-reader contract''))
       (tool_outcome (JObj [(''content'', JStr (af_content a))]))))"

definition bootstrapTool :: "engine \<Rightarrow> task_row \<Rightarrow> string \<Rightarrow> string \<Rightarrow> string op" where
  "bootstrapTool en t name arguments =
     (if name = ''runtime.capabilities'' then capabilities en t arguments
      else if name = ''runtime.artifact.put'' then put_artifact en t arguments
      else if name = ''runtime.artifact.get'' then get_artifact en t arguments
      else tx_fail (FieldError ''tool'' ''unsupported bootstrap operation''))"

section \<open>Knowledge\<close>

definition memory_put :: "engine \<Rightarrow> execution \<Rightarrow> task_row \<Rightarrow> int \<Rightarrow> string \<Rightarrow> string op" where
  "memory_put en e t now arguments =
     tx_bind (tool_args en memory_command_fields no_memory_command arguments) (\<lambda>command.
     tx_bind (putMemory t command False now) (\<lambda>entry.
     tx_seq (tx_when (me_state entry = ''active'')
               (notifySubscriptions (en_hash en) (en_config en) t ''memory.changed'' (me_scope entry) (me_owner entry)
                  (e_event_id e) (me_id entry) now))
       (tool_outcome (JObj [(''memory_id'', JStr (me_id entry)), (''revision'', JInt (me_revision entry)), (''state'', JStr (me_state entry))]))))"

definition memory_search :: "engine \<Rightarrow> task_row \<Rightarrow> int \<Rightarrow> string \<Rightarrow> string op" where
  "memory_search en t now arguments =
     tx_bind (tool_args en memory_query_fields no_memory_query arguments) (\<lambda>query.
     tx_bind (searchMemory t query False now) (\<lambda>result. tool_outcome (json_search_result result)))"

definition create_schedule :: "engine \<Rightarrow> task_row \<Rightarrow> int \<Rightarrow> string \<Rightarrow> string op" where
  "create_schedule en t now arguments =
     tx_bind (tool_args en schedule_fields no_schedule arguments) (\<lambda>command.
     tx_seq (tx_reject (sk_agent_id command \<noteq> '''') (FieldError ''agent_id'' ''schedules can only wake this task''))
     (tx_bind (createSchedule (en_services en) t command (t_agent_id t) now) (\<lambda>i.
      tool_outcome (JObj [(''schedule_id'', JStr i), (''state'', JStr ''active'')]))))"

definition create_subscription :: "engine \<Rightarrow> task_row \<Rightarrow> int \<Rightarrow> string \<Rightarrow> string op" where
  "create_subscription en t now arguments =
     tx_bind (tool_args en subscription_fields no_subscription arguments) (\<lambda>command.
     tx_seq (tx_reject (su_agent_id command \<noteq> '''') (FieldError ''agent_id'' ''subscriptions can only wake this task''))
     (tx_bind (createSubscription t command (t_agent_id t) now) (\<lambda>i.
      tool_outcome (JObj [(''state'', JStr ''active''), (''subscription_id'', JStr i)]))))"

definition canceled_result :: string where
  "canceled_result = marshal (JObj [(''state'', JStr ''canceled'')])"

definition cancel_schedule :: "engine \<Rightarrow> task_row \<Rightarrow> string \<Rightarrow> string op" where
  "cancel_schedule en t arguments =
     tx_bind (tool_args en (one_string ''schedule_id'') '''' arguments) (\<lambda>i.
     let mine = (\<lambda>s. sd_system_id s = t_system_id t \<and> sd_task_id s = t_id t \<and> sd_schedule_id s = i) in
     tx_bind (tx_count db_schedules mine) (\<lambda>count.
     tx_seq (tx_update db_schedules_update mine (\<lambda>s. s\<lparr>sd_state := TgCanceled, sd_reason := ''canceled by owning task''\<rparr>))
     (tx_seq (tx_reject (count \<noteq> 1) ErrSystemNotFound) (tx_return canceled_result))))"

definition cancel_subscription :: "engine \<Rightarrow> task_row \<Rightarrow> string \<Rightarrow> string op" where
  "cancel_subscription en t arguments =
     tx_bind (tool_args en (one_string ''subscription_id'') '''' arguments) (\<lambda>i.
     let mine = (\<lambda>s. sn_system_id s = t_system_id t \<and> sn_task_id s = t_id t \<and> sn_subscription_id s = i) in
     tx_bind (tx_count db_subscriptions mine) (\<lambda>count.
     tx_seq (tx_update db_subscriptions_update mine (\<lambda>s. s\<lparr>sn_state := TgCanceled, sn_reason := ''canceled by owning task''\<rparr>))
     (tx_seq (tx_reject (count \<noteq> 1) ErrSystemNotFound) (tx_return canceled_result))))"

definition wait_task :: "engine \<Rightarrow> execution \<Rightarrow> task_row \<Rightarrow> string \<Rightarrow> string op" where
  "wait_task en e t arguments =
     tx_bind (tool_args en (one_string ''reason'') '''' arguments) (\<lambda>reason.
     tx_seq (tx_reject (blank reason \<or> length reason > 1024) (FieldError ''reason'' ''requires a bounded waiting reason''))
     (let result = marshal (JObj [(''state'', JStr ''waiting'')]) in
      tx_seq (updateConversation (AppendToolResult t e result))
     (tx_seq (update_task t (\<lambda>x. x\<lparr>t_state := Waiting, t_waiting_tool := '''', t_reason := reason\<rparr>))
       (tx_return result))))"

definition knowledgeTool :: "engine \<Rightarrow> execution \<Rightarrow> task_row \<Rightarrow> string \<Rightarrow> string \<Rightarrow> int \<Rightarrow> string op" where
  "knowledgeTool en e t name arguments now =
     (if name = ''runtime.memory.put'' then memory_put en e t now arguments
      else if name = ''runtime.memory.search'' then memory_search en t now arguments
      else if name = ''runtime.schedule.create'' then create_schedule en t now arguments
      else if name = ''runtime.events.subscribe'' then create_subscription en t now arguments
      else if name = ''runtime.schedule.cancel'' then cancel_schedule en t arguments
      else if name = ''runtime.events.unsubscribe'' then cancel_subscription en t arguments
      else if name = ''runtime.task.wait'' then wait_task en e t arguments
      else tx_fail (ErrInternal (''unsupported knowledge operation '' @ name)))"

section \<open>Delegation, progress, drafts and evaluations\<close>

definition shared_pins :: "agent_record \<Rightarrow> task_row \<Rightarrow> tool_pin list" where
  "shared_pins recipient t = concat (map (\<lambda>p. filter (\<lambda>q. p = q) (t_tools t)) (a_tools recipient))"

definition counted_task :: "task_row \<Rightarrow> bool \<Rightarrow> task_row \<Rightarrow> bool" where
  "counted_task t ongoing x \<longleftrightarrow> t_system_id x = t_system_id t \<and> t_goal_id x = t_goal_id t \<and> (\<not> ongoing \<or> live (t_state x))"

text \<open>The recipient of a delegation: an active collaborator of the same goal without live work.\<close>

definition delegate_recipient :: "task_row \<Rightarrow> delegate_args \<Rightarrow> agent_record op" where
  "delegate_recipient t args =
     tx_bind (tx_no_rows (readAgent (t_system_id t) (dg_agent_id args) 0) (FieldError ''delegate'' ''recipient unavailable in this scope'')) (\<lambda>recipient.
     tx_seq (tx_reject (a_goal_id recipient \<noteq> t_goal_id t \<or> a_state recipient \<noteq> CActive)
               (FieldError ''delegate'' ''recipient belongs to another goal or is unavailable''))
     (tx_bind (tx_count db_tasks (\<lambda>x. t_system_id x = t_system_id t \<and> t_agent_id x = dg_agent_id args \<and> live (t_state x))) (\<lambda>busy.
      tx_bind (readGoal (t_system_id t) (t_goal_id t)) (\<lambda>g.
      tx_bind (tx_count db_tasks (counted_task t (gl_continuous g))) (\<lambda>count.
      tx_seq (tx_reject (busy \<noteq> 0 \<or> count \<ge> MaxGoalTasks)
                (FieldError ''delegate'' ''recipient busy or goal task budget exhausted''))
        (tx_return recipient))))))"

definition child_task :: "task_row \<Rightarrow> agent_record \<Rightarrow> delegate_args \<Rightarrow> tool_pin list \<Rightarrow> string \<Rightarrow> task_row" where
  "child_task t recipient args pins i =
     (new_task (t_system_id t) i (t_goal_id t) (dg_agent_id args) (a_revision recipient) (t_id t) pins
        [message ''user'' (dg_prompt args)])\<lparr>t_turns := 0, t_deadline := t_deadline t\<rparr>"

definition start_child :: "engine \<Rightarrow> execution \<Rightarrow> task_row \<Rightarrow> task_row \<Rightarrow> int \<Rightarrow> unit op" where
  "start_child en e t row now =
     tx_seq (insert_task row)
     (tx_bind (readTask (t_system_id t) (t_id row)) (\<lambda>child.
      tx_seq (prepareNextCall (en_hash en) (en_config en) child (en_owner en) now)
     (tx_bind (emitEvent child ''task.ready'' (t_agent_id t) (e_event_id e) (JObj []) now) (\<lambda>_. tx_return ()))))"

definition calls_message :: "execution \<Rightarrow> chat_message" where
  "calls_message e = \<lparr>cm_role = ''assistant'', cm_content = e_response e, cm_tool_calls = e_actions e, cm_tool_call_id = ''''\<rparr>"

definition delegate :: "engine \<Rightarrow> execution \<Rightarrow> task_row \<Rightarrow> int \<Rightarrow> string \<Rightarrow> string op" where
  "delegate en e t now arguments =
     tx_bind (tool_args en delegate_fields no_delegation arguments) (\<lambda>args.
     tx_seq (tx_reject (dg_agent_id args = t_agent_id t \<or> blank (dg_prompt args) \<or> length (dg_prompt args) > 4096)
               (FieldError ''delegate'' ''invalid recipient or prompt''))
     (tx_bind (delegate_recipient t args) (\<lambda>recipient.
      tx_bind (readAgent (t_system_id t) (t_agent_id t) (t_revision t)) (\<lambda>caller.
      tx_seq (tx_reject (oc_sandbox_profile (a_definition caller) \<noteq> oc_sandbox_profile (a_definition recipient))
                (FieldError ''delegate'' ''recipient cannot lend a different host profile''))
     (let pins = shared_pins recipient t in
      tx_seq (authorizePins (en_hash en) (en_config en) (t_system_id t) pins now)
     (tx_bind (NewID ''task_'') (\<lambda>i.
      tx_seq (start_child en e t (child_task t recipient args pins i) now)
     (tx_seq (update_task t (\<lambda>x. x\<lparr>t_state := Waiting, t_waiting_tool := mt_id (hd (e_actions e)),
                t_reason := ''awaiting delegated task result''\<rparr>))
     (tx_seq (updateConversation (t\<lparr>t_conversation := t_conversation t @ [calls_message e]\<rparr>))
       (tool_outcome (JObj [(''state'', JStr ''queued''), (''task_id'', JStr i)])))))))))))"

definition task_progress :: "engine \<Rightarrow> execution \<Rightarrow> task_row \<Rightarrow> int \<Rightarrow> string \<Rightarrow> string op" where
  "task_progress en e t now arguments =
     tx_bind (tool_args en (one_string ''message'') '''' arguments) (\<lambda>text.
     tx_seq (tx_reject (t_parent t = '''' \<or> blank text \<or> length text > 2048)
               (FieldError ''progress'' ''requires a parent and bounded message''))
     (tx_bind (readTask (t_system_id t) (t_parent t)) (\<lambda>parent.
      tx_bind (emitEvent parent ''task.progress'' (t_agent_id t) (e_event_id e) (JObj [(''message'', JStr text)]) now) (\<lambda>_.
      tx_return (marshal (JObj [(''recorded'', JBool True)]))))))"

definition propose_tool :: "engine \<Rightarrow> task_row \<Rightarrow> string \<Rightarrow> string op" where
  "propose_tool en t arguments =
     tx_bind (tool_args en draft_fields no_draft arguments) (\<lambda>command.
     tx_bind (submitDraft (en_hash en) (en_config en) (t_system_id t) (t_agent_id t) (t_goal_id t) (t_id t) command) (\<lambda>i.
     tool_outcome (JObj [(''state'', JStr ''draft''), (''tool_id'', JStr i)])))"

text \<open>The last task pin of that name is the baseline.\<close>

definition baseline_pin :: "task_row \<Rightarrow> string \<Rightarrow> tool_pin option op" where
  "baseline_pin t name =
     (if name = '''' then tx_return None
      else case List.find (\<lambda>p. pin_name p = name) (rev (t_tools t)) of
        None \<Rightarrow> tx_fail (FieldError ''baseline'' ''not an exact task grant'')
      | Some p \<Rightarrow> tx_return (Some p))"

definition evaluate_tool :: "engine \<Rightarrow> execution \<Rightarrow> task_row \<Rightarrow> int \<Rightarrow> string \<Rightarrow> string op" where
  "evaluate_tool en e t now arguments =
     tx_bind (tool_args en evaluate_fields no_evaluation arguments) (\<lambda>args.
     tx_bind (baseline_pin t (ev_baseline args)) (\<lambda>baseline.
     tx_bind (readSystem (en_hash en) localAdministrator (t_system_id t)) (\<lambda>record.
     tx_bind (queueLearning (en_hash en) (en_parser en) (en_config en) (en_owner en) record
        \<lparr>ve_tool_id = ev_tool_id args, ve_version = ev_version args, ve_check_id = ev_check_id args, ve_task_id = t_id t,
         ve_baseline = baseline\<rparr> (t_agent_id t) now) (\<lambda>value.
     tx_bind (tool_outcome value) (\<lambda>result.
     tx_seq (updateConversation (AppendToolResult t e result))
     (tx_seq (update_task t (\<lambda>x. x\<lparr>t_state := Waiting, t_waiting_tool := '''', t_reason := ''waiting for protected evaluation''\<rparr>))
       (tx_return result)))))))"

section \<open>Dispatch\<close>

definition builtin :: "engine \<Rightarrow> execution \<Rightarrow> task_row \<Rightarrow> string \<Rightarrow> string \<Rightarrow> int \<Rightarrow> string op" where
  "builtin en e t name arguments now =
     (if name \<in> {''runtime.model.list'', ''runtime.agent.revise'', ''runtime.agent.retire''} then manageAgent en t name arguments now
      else if name \<in> {''runtime.capabilities'', ''runtime.artifact.put'', ''runtime.artifact.get''} then bootstrapTool en t name arguments
      else if name = ''runtime.learning.evaluate'' then evaluate_tool en e t now arguments
      else if name \<in> {''runtime.memory.put'', ''runtime.memory.search'', ''runtime.schedule.create'', ''runtime.schedule.cancel'',
             ''runtime.events.subscribe'', ''runtime.events.unsubscribe'', ''runtime.task.wait''}
        then knowledgeTool en e t name arguments now
      else if name = ''runtime.agent.list'' then list_agents en t arguments
      else if name = ''runtime.agent.propose'' then propose_agent en t now arguments
      else if name = ''runtime.task.delegate'' then delegate en e t now arguments
      else if name = ''runtime.task.progress'' then task_progress en e t now arguments
      else if name = ''runtime.tool.propose'' then propose_tool en t arguments
      else tx_fail (FieldError ''tool'' ''no reviewed handler''))"

end
