(* ===== verification/ToolCalls.thy ===== *)
theory ToolCalls
  imports ToolOps
begin

text \<open>
  Running the tool a model asked for (tools.go): PrepareTool checks the request against the
  persisted decision, the lease, the grants and the reviewed schema, records the tool call once
  and either runs a built-in handler in the same transaction or hands out a plan for a
  subprocess; CompleteTool records its outcome. A request is identified by the digest of the
  whole action: the same request gets the stored result, another one under its identity is
  refused.
\<close>

record prepared_tool =
  pl_dispatch :: bool
  pl_result :: string
  pl_generated :: bool
  pl_arguments :: text_arguments
  pl_profile :: sandbox_config
  pl_binary :: string
  pl_session :: "execution option"
  pl_action :: "model_tool_call option"
  pl_task :: "task_row option"

text \<open>A plan that only carries a result.\<close>

definition tool_result :: "string \<Rightarrow> prepared_tool" where
  "tool_result r = \<lparr>pl_dispatch = False, pl_result = r, pl_generated = False, pl_arguments = no_arguments,
     pl_profile = zero_sandbox, pl_binary = '''', pl_session = None, pl_action = None, pl_task = None\<rparr>"

section \<open>The checks of a request\<close>

text \<open>The call, its decision and its task, live and within its deadline.\<close>

definition decided_task :: "execution \<Rightarrow> model_tool_call \<Rightarrow> int \<Rightarrow> (execution \<times> task_row) op" where
  "decided_task session action now =
     tx_bind (authorizeCall session) (\<lambda>e0.
     let e = e0\<lparr>e_event_id := e_event_id session\<rparr> in
     tx_seq (tx_reject (e_state e \<noteq> Completed \<or> e_actions e \<noteq> [action])
               (FieldError ''tool'' ''request is not this call's persisted model decision''))
     (tx_bind (readTask (e_system_id e) (e_task_id e)) (\<lambda>t.
      tx_seq (tx_reject (t_call_id t \<noteq> e_call_id e \<or> TaskTerminal (t_state t) \<or> t_control t = CStopped) ErrExecutionConflict)
     (tx_seq (tx_reject (now \<ge> e_deadline e) (FieldError ''session'' ''activation deadline expired''))
       (tx_return (e, t))))))"

definition held_mail :: "task_row \<Rightarrow> string \<Rightarrow> string \<Rightarrow> mailbox_row \<Rightarrow> bool" where
  "held_mail t eventID owner m \<longleftrightarrow> mb_system_id m = t_system_id t \<and> mb_task_id m = t_id t \<and> mb_event_id m = eventID \<and>
     mb_state m = MLeased \<and> mb_lease_owner m = owner"

definition work_stopped :: "db \<Rightarrow> task_row \<Rightarrow> bool option" where
  "work_stopped d t =
     (case List.find (\<lambda>s. sy_system_id s = t_system_id t) (db_systems d) of None \<Rightarrow> None
      | Some s \<Rightarrow> map_option (\<lambda>g. sy_state s = SStopping \<or> sy_state s = SStopped \<or> gl_control g = CStopped)
                    (goal_of d (t_system_id t) (t_goal_id t)))"

definition live_session :: "string \<Rightarrow> string \<Rightarrow> task_row \<Rightarrow> unit op" where
  "live_session owner eventID t =
     tx_bind (tx_count db_mailboxes (held_mail t eventID owner)) (\<lambda>leased.
     tx_seq (tx_reject (leased \<noteq> 1) (FieldError ''session'' ''tool invocation has no live mailbox lease''))
     (tx_bind (tx_row (\<lambda>d. work_stopped d t)) (\<lambda>stopped. tx_reject stopped ErrExecutionConflict)))"

text \<open>The pin of the function, its definition, and its arguments against the schema.\<close>

definition resolved_tool :: "engine \<Rightarrow> task_row \<Rightarrow> model_tool_call \<Rightarrow> int \<Rightarrow> (tool_pin \<times> tool_config \<times> configuration) op" where
  "resolved_tool en t action now =
     tx_seq (authorizePins (en_hash en) (en_config en) (t_system_id t) (t_tools t) now)
     (tx_bind (loadLocalTools (en_hash en) (t_system_id t) (t_tools t)) (\<lambda>locals.
      let cfg = WithLocalTools (en_config en) locals in
      tx_bind (tx_lift (ResolveTool (en_hash en) cfg (t_tools t) (mt_name action))) (\<lambda>pin.
      let definition = the_tool cfg (pin_name pin) in
      tx_bind (tx_lift (ExecutableSchema (en_hash en) (pin_name pin) definition)) (\<lambda>schema.
      tx_seq (tx_checked (ValidateArguments (en_wide en) (fs_parameters schema) (mt_arguments action)))
        (tx_return (pin, definition, cfg))))))"

definition is_tool_call :: "execution \<Rightarrow> model_tool_call \<Rightarrow> tool_call_row \<Rightarrow> bool" where
  "is_tool_call e action r \<longleftrightarrow> tl_system_id r = e_system_id e \<and> tl_call_id r = e_call_id e \<and> tl_tool_call_id r = mt_id action"

definition replayed_tool :: "string \<Rightarrow> tool_call_row \<Rightarrow> prepared_tool op" where
  "replayed_tool hash r =
     tx_seq (tx_reject (tl_arguments_hash r \<noteq> hash) ErrCommandConflict)
     (tx_seq (tx_reject (tl_state r \<noteq> Completed) (FieldError ''tool'' ''prior tool outcome is not safely replayable''))
       (tx_return (tool_result (tl_result r))))"

definition record_tool_call :: "execution \<Rightarrow> task_row \<Rightarrow> tool_pin \<Rightarrow> model_tool_call \<Rightarrow> string \<Rightarrow> unit op" where
  "record_tool_call e t pin action hash =
     tx_seq (tx_reject (length (mt_arguments action) > MaxEventBytes) (FieldError ''arguments'' ''tool arguments exceed limit''))
     (tx_insert ''tool_calls'' (\<lambda>x y. tl_system_id x = tl_system_id y \<and> tl_call_id x = tl_call_id y \<and>
        tl_tool_call_id x = tl_tool_call_id y) db_tool_calls db_tool_calls_update
        \<lparr>tl_system_id = e_system_id e, tl_call_id = e_call_id e, tl_tool_call_id = mt_id action, tl_task_id = t_id t,
         tl_name = pin_name pin, tl_version = pin_version pin, tl_arguments_hash = hash, tl_state = Running, tl_result = ''''\<rparr>)"

definition complete_tool_call :: "execution \<Rightarrow> model_tool_call \<Rightarrow> string \<Rightarrow> unit op" where
  "complete_tool_call e action result = tx_update db_tool_calls_update (is_tool_call e action)
     (\<lambda>r. r\<lparr>tl_state := Completed, tl_result := result\<rparr>)"

section \<open>Handlers and plans\<close>

definition run_builtin :: "engine \<Rightarrow> execution \<Rightarrow> task_row \<Rightarrow> tool_pin \<Rightarrow> model_tool_call \<Rightarrow> int \<Rightarrow> prepared_tool op" where
  "run_builtin en e t pin action now =
     tx_bind (builtin en e t (pin_name pin) (mt_arguments action) now) (\<lambda>result.
     tx_seq (complete_tool_call e action result)
     (tx_seq (auditExecution (e_system_id e) (t_agent_id t) (pin_name pin) (e_revision e) now)
       (tx_return (tool_result result))))"

text \<open>What an approved generated tool needs: its runtime, its profile, a reserved use and its binary.\<close>

definition generated_binary :: "engine \<Rightarrow> task_row \<Rightarrow> tool_pin \<Rightarrow> tool_config \<Rightarrow> sandbox_config \<Rightarrow> string op" where
  "generated_binary en t pin definition profile =
     tx_seq (tx_reject (tc_runtime_digest definition \<noteq> cf_runtime_digest (en_config en))
               (FieldError ''runtime'' ''approved confinement implementation changed''))
     (tx_seq (tx_reject (tc_profile_digest definition \<noteq> JsonDigest (en_hash en) (json_sandbox profile))
               (FieldError ''profile'' ''approved capabilities do not match this task''))
     (tx_bind (tx_count db_uses (\<lambda>u. lu_system_id u = t_system_id t \<and> lu_tool_id u = pin_name pin \<and>
                 lu_version u = pin_version pin \<and> lu_task_id u = t_id t)) (\<lambda>used.
      tx_seq (tx_reject (used \<noteq> 1) (FieldError ''approval'' ''task has no reserved approval use''))
        (tx_lift (ReadGeneratedArtifact (en_hash en) (en_files en) (cf_data_dir (en_config en)) (t_system_id t) (tc_binary_digest definition))))))"

definition plan_subprocess :: "engine \<Rightarrow> execution \<Rightarrow> task_row \<Rightarrow> tool_pin \<Rightarrow> tool_config \<Rightarrow> model_tool_call \<Rightarrow> int \<Rightarrow> prepared_tool op" where
  "plan_subprocess en e t pin definition action now =
     tx_bind (tx_lift (decode_text_arguments (en_wide en) (mt_arguments action))) (\<lambda>args.
     tx_seq (tx_reject (length (ta_text args) > 4096) (FieldError ''text'' ''exceeds 4096 bytes''))
     (tx_bind (readAgent (t_system_id t) (t_agent_id t) (t_revision t)) (\<lambda>a.
      let profile = the_profile (en_config en) (oc_sandbox_profile (a_definition a)); generated = local_name (pin_name pin) in
      tx_bind (if generated then generated_binary en t pin definition profile else tx_return '''') (\<lambda>binary.
      tx_seq (tx_reject (ta_save args \<and> ''output'' \<notin> set (elems (sb_read_write profile)))
                (FieldError ''artifact'' ''task profile does not permit writing output''))
     (tx_seq (auditExecution (e_system_id e) (t_agent_id t) ''tool.dispatch'' (e_revision e) now)
       (tx_return \<lparr>pl_dispatch = True, pl_result = '''', pl_generated = generated, pl_arguments = args, pl_profile = profile,
          pl_binary = binary, pl_session = Some e, pl_action = Some action, pl_task = Some t\<rparr>))))))"

definition fresh_tool :: "engine \<Rightarrow> execution \<Rightarrow> task_row \<Rightarrow> tool_pin \<Rightarrow> tool_config \<Rightarrow> model_tool_call \<Rightarrow> string \<Rightarrow> int \<Rightarrow> prepared_tool op" where
  "fresh_tool en e t pin definition action hash now =
     tx_seq (record_tool_call e t pin action hash)
       (if pin_name pin \<noteq> ''runtime.text.analyze'' \<and> \<not> local_name (pin_name pin)
        then run_builtin en e t pin action now
        else plan_subprocess en e t pin definition action now)"

definition PrepareTool :: "engine \<Rightarrow> execution \<Rightarrow> model_tool_call \<Rightarrow> int \<Rightarrow> prepared_tool op" where
  "PrepareTool en session action now = transaction
     (tx_bind (decided_task session action now) (\<lambda>(e, t).
      tx_seq (live_session (en_owner en) (e_event_id session) t)
     (tx_bind (resolved_tool en t action now) (\<lambda>(pin, definition, cfg).
      let hash = JsonDigest (en_hash en) (json_tool_call action) in
      tx_bind (tx_gets (\<lambda>d. List.find (is_tool_call e action) (db_tool_calls d))) (\<lambda>saved.
      case saved of Some r \<Rightarrow> replayed_tool hash r
      | None \<Rightarrow> fresh_tool en e t pin definition action hash now)))))"

section \<open>CompleteTool\<close>

text \<open>What came back from the subprocess: its result or text, the file it left, or an error.\<close>

record tool_report =
  rp_output :: text_result
  rp_artifact :: "string option"
  rp_text :: string
  rp_error :: "error option"

definition store_report :: "engine \<Rightarrow> execution \<Rightarrow> tool_report \<Rightarrow> text_result op" where
  "store_report en e report =
     (case rp_artifact report of None \<Rightarrow> tx_return (rp_output report)
      | Some content \<Rightarrow>
          tx_bind (NewID ''artifact_'') (\<lambda>i.
          tx_seq (insert_artifact \<lparr>af_system_id = e_system_id e, af_artifact_id = i, af_goal_id = e_goal_id e,
                    af_task_id = e_task_id e, af_digest = en_hash en content, af_content = content\<rparr>)
            (tx_return ((rp_output report)\<lparr>tr_artifact := i\<rparr>))))"

definition finish_tool :: "engine \<Rightarrow> execution \<Rightarrow> task_row \<Rightarrow> model_tool_call \<Rightarrow> bool \<Rightarrow> tool_report \<Rightarrow> int \<Rightarrow> string op" where
  "finish_tool en e t action generated report now =
     tx_bind (store_report en e report) (\<lambda>output.
     tx_bind (tool_outcome (if generated then JObj [(''text'', JStr (rp_text report))] else json_text_result output)) (\<lambda>result.
     tx_seq (complete_tool_call e action result)
     (tx_seq (auditExecution (e_system_id e) (t_agent_id t) ''tool.completed'' (e_revision e) now)
       (tx_return result))))"

text \<open>An outcome that is not known is recorded as such, and the error is returned: this transaction commits.\<close>

definition unknown_tool :: "execution \<Rightarrow> model_tool_call \<Rightarrow> error \<Rightarrow> string op" where
  "unknown_tool e action err =
     tx_seq (tx_update db_tool_calls_update (is_tool_call e action)
               (\<lambda>r. r\<lparr>tl_state := Unknown, tl_result := ''subprocess outcome unknown; not retried''\<rparr>))
       (tx_fail err)"

definition CompleteTool :: "engine \<Rightarrow> prepared_tool \<Rightarrow> tool_report \<Rightarrow> int \<Rightarrow> string op" where
  "CompleteTool en plan report now =
     (case (pl_session plan, pl_action plan, pl_task plan) of
        (Some e, Some action, Some t) \<Rightarrow>
          if \<not> pl_dispatch plan \<or> e_call_id e = '''' \<or> mt_id action = ''''
          then tx_fail (FieldError ''tool'' ''completion requires a prepared dispatch'')
          else (case rp_error report of
              Some err \<Rightarrow> unknown_tool e action err
            | None \<Rightarrow> transaction (finish_tool en e t action (pl_generated plan) report now))
      | _ \<Rightarrow> tx_fail (FieldError ''tool'' ''completion requires a prepared dispatch''))"

end
