(* ===== verification/History.thy ===== *)
theory History
  imports Stopping Delivery ToolCalls "HOL-Library.Sublist"
begin

text \<open>
  What no operation of the store takes back. \<open>history\<close> relates a database to a later one: the
  revisions, audit entries, receipts, events, artifacts, revocations and protected checks of the
  first are the beginning of those of the second; what identifies a system, agent, goal, task,
  call, tool call, draft or approval never changes; a settled attempt stays as it was settled.
  \<open>steady\<close> adds the books (\<open>Books\<close>) and that no call starts to run, which only admission does. Both
  are preorders, so an operation is steady when its parts are; this theory shows it of the
  operations on tasks, memory and triggers, and of the administrator's commands.
\<close>

section \<open>The relation\<close>

definition system_origin :: "system_row \<Rightarrow> string \<times> string \<times> string \<times> int" where
  "system_origin s = (sy_system_id s, sy_owner s, sy_operator_id s, sy_created_at s)"

definition goal_origin :: "goal_row \<Rightarrow> string \<times> string \<times> string \<times> string" where
  "goal_origin g = (gl_goal_id g, gl_system_id g, gl_owner g, gl_prompt g)"

definition task_grant :: "task_row \<Rightarrow> string \<times> string \<times> string \<times> string \<times> int \<times> string \<times> tool_pin list \<times> string \<times> string" where
  "task_grant t = (t_system_id t, t_id t, t_goal_id t, t_agent_id t, t_revision t, t_parent t, t_tools t, t_learning_id t, t_learning_role t)"

definition call_origin :: "call_row \<Rightarrow> string \<times> string \<times> string \<times> string \<times> string \<times> string \<times> int \<times> string \<times> int" where
  "call_origin c = (mc_call_id c, mc_system_id c, mc_goal_id c, mc_task_id c, mc_agent_id c, mc_activation_id c, mc_revision c,
     mc_model c, mc_deadline c)"

definition attempt_origin :: "attempt_row \<Rightarrow> int \<times> string \<times> string \<times> int" where
  "attempt_origin a = (at_attempt_id a, at_call_id a, at_system_id a, at_dispatched_at a)"

definition tool_request :: "tool_call_row \<Rightarrow> string \<times> string \<times> string \<times> string \<times> string \<times> int \<times> string" where
  "tool_request r = (tl_system_id r, tl_call_id r, tl_tool_call_id r, tl_task_id r, tl_name r, tl_version r, tl_arguments_hash r)"

definition draft_text :: "draft_row \<Rightarrow> string \<times> string \<times> int \<times> string \<times> string \<times> string \<times> string slice \<times> string" where
  "draft_text t = (td_system_id t, td_tool_id t, td_version t, td_creator t, td_kind t, td_content t, td_requires_tools t, td_digest t)"

definition approval_terms :: "approval_row \<Rightarrow> string \<times> string \<times> int \<times> string \<times> tool_config \<times> string \<times> int" where
  "approval_terms a = (la_system_id a, la_tool_id a, la_version a, la_evaluation_id a, la_definition a, la_digest a, la_expires_at a)"

text \<open>The rows that are only ever added, and the identities of those that change.\<close>

definition archive :: "db \<Rightarrow> db \<Rightarrow> bool" where
  "archive d d' \<longleftrightarrow>
     prefix (db_revisions d) (db_revisions d') \<and> prefix (db_agent_revisions d) (db_agent_revisions d') \<and>
     prefix (db_audit d) (db_audit d') \<and> prefix (db_receipts d) (db_receipts d') \<and> prefix (db_events d) (db_events d') \<and>
     prefix (db_artifacts d) (db_artifacts d') \<and> prefix (db_revocations d) (db_revocations d') \<and>
     prefix (db_checks d) (db_checks d') \<and> prefix (db_feedback d) (db_feedback d') \<and> prefix (db_occurrences d) (db_occurrences d')"

definition origins :: "db \<Rightarrow> db \<Rightarrow> bool" where
  "origins d d' \<longleftrightarrow>
     prefix (map system_origin (db_systems d)) (map system_origin (db_systems d')) \<and>
     prefix (map goal_origin (db_goals d)) (map goal_origin (db_goals d')) \<and>
     prefix (map task_grant (db_tasks d)) (map task_grant (db_tasks d')) \<and>
     prefix (map call_origin (db_calls d)) (map call_origin (db_calls d')) \<and>
     prefix (map attempt_origin (db_attempts d)) (map attempt_origin (db_attempts d')) \<and>
     prefix (map tool_request (db_tool_calls d)) (map tool_request (db_tool_calls d')) \<and>
     prefix (map draft_text (db_drafts d)) (map draft_text (db_drafts d')) \<and>
     prefix (map approval_terms (db_approvals d)) (map approval_terms (db_approvals d'))"

text \<open>An attempt whose outcome is recorded keeps it.\<close>

definition settled_stay :: "db \<Rightarrow> db \<Rightarrow> bool" where
  "settled_stay d d' \<longleftrightarrow> (\<forall>a \<in> set (db_attempts d). at_state a \<noteq> Running \<longrightarrow> a \<in> set (db_attempts d'))"

definition history :: "db \<Rightarrow> db \<Rightarrow> bool" where
  "history d d' \<longleftrightarrow> archive d d' \<and> origins d d' \<and> settled_stay d d'"

definition idle :: "string \<Rightarrow> db \<Rightarrow> bool" where
  "idle callID d \<longleftrightarrow> (\<forall>c \<in> set (db_calls d). mc_call_id c = callID \<longrightarrow> mc_state c \<noteq> Running)"

definition steady :: "db \<Rightarrow> db \<Rightarrow> bool" where
  "steady d d' \<longleftrightarrow> history d d' \<and> (books d \<longrightarrow> books d') \<and> (\<forall>i. idle i d \<longrightarrow> idle i d')"

lemma history_refl: "history d d"
  by (simp add: history_def archive_def origins_def settled_stay_def)

lemma archive_trans: "archive d d' \<Longrightarrow> archive d' d'' \<Longrightarrow> archive d d''"
  unfolding archive_def by (elim conjE, intro conjI; erule (1) prefix_order.trans)

lemma origins_trans: "origins d d' \<Longrightarrow> origins d' d'' \<Longrightarrow> origins d d''"
  unfolding origins_def by (elim conjE, intro conjI; erule (1) prefix_order.trans)

lemma history_trans: "history d d' \<Longrightarrow> history d' d'' \<Longrightarrow> history d d''"
  unfolding history_def settled_stay_def by (blast intro: archive_trans origins_trans)

interpretation history: db_preorder history
  by unfold_locales (auto intro: history_refl history_trans)

interpretation steady: db_preorder steady
  by unfold_locales (auto simp: steady_def intro: history_refl history_trans)

lemma steady_history: "tx_rel steady m \<Longrightarrow> tx_rel history m"
  by (simp add: tx_rel_def steady_def)

lemma steady_books: "tx_rel steady m \<Longrightarrow> tx_rel (keeps books) m"
  by (simp add: tx_rel_def steady_def keeps_def)

section \<open>Rows\<close>

lemma steadyI: "money d' = money d \<Longrightarrow> history d d' \<Longrightarrow> steady d d'"
  using books_money [of d' d] by (auto simp: steady_def idle_def money_def)

lemma same_prefix: "xs = ys \<Longrightarrow> prefix xs ys"
  by simp

text \<open>Tables of which nothing is promised here, tables that only grow, and tables with an identity.\<close>

lemma steady_free [intro]:
  "steady d (db_entropy_update f1 d)" "steady d (db_groups_update f2 d)" "steady d (db_quotas_update f3 d)"
  "steady d (db_agents_update f4 d)" "steady d (db_usage_update f5 d)" "steady d (db_mailboxes_update f6 d)"
  "steady d (db_memory_heads_update f7 d)" "steady d (db_memory_revisions_update f8 d)" "steady d (db_schedules_update f9 d)"
  "steady d (db_subscriptions_update f10 d)" "steady d (db_evaluations_update f11 d)" "steady d (db_uses_update f12 d)"
  by (rule steadyI; simp add: money_def history_def archive_def origins_def settled_stay_def)+

lemma steady_append [intro]:
  "steady d (db_revisions_update (\<lambda>rs. rs @ [x1]) d)" "steady d (db_agent_revisions_update (\<lambda>rs. rs @ [x2]) d)"
  "steady d (db_audit_update (\<lambda>rs. rs @ [x3]) d)" "steady d (db_receipts_update (\<lambda>rs. rs @ [x4]) d)"
  "steady d (db_events_update (\<lambda>rs. rs @ [x5]) d)" "steady d (db_artifacts_update (\<lambda>rs. rs @ [x6]) d)"
  "steady d (db_revocations_update (\<lambda>rs. rs @ [x7]) d)" "steady d (db_checks_update (\<lambda>rs. rs @ [x8]) d)"
  "steady d (db_feedback_update (\<lambda>rs. rs @ [x9]) d)" "steady d (db_occurrences_update (\<lambda>rs. rs @ [x10]) d)"
  "steady d (db_goals_update (\<lambda>rs. rs @ [x11]) d)" "steady d (db_tasks_update (\<lambda>rs. rs @ [x12]) d)"
  "steady d (db_tool_calls_update (\<lambda>rs. rs @ [x13]) d)" "steady d (db_drafts_update (\<lambda>rs. rs @ [x14]) d)"
  "steady d (db_approvals_update (\<lambda>rs. rs @ [x15]) d)"
  by (rule steadyI; simp add: money_def history_def archive_def origins_def settled_stay_def)+

lemma steady_goals [intro]:
  "(\<And>g. P g \<Longrightarrow> goal_origin (f g) = goal_origin g) \<Longrightarrow> steady d (db_goals_update (update_where P f) d)"
  by (rule steadyI) (simp_all add: money_def history_def archive_def origins_def settled_stay_def map_update_where)

lemma steady_tasks [intro]:
  "(\<And>t. P t \<Longrightarrow> task_grant (f t) = task_grant t) \<Longrightarrow> steady d (db_tasks_update (update_where P f) d)"
  by (rule steadyI) (simp_all add: money_def history_def archive_def origins_def settled_stay_def map_update_where)

lemma steady_tool_calls [intro]:
  "(\<And>r. P r \<Longrightarrow> tool_request (f r) = tool_request r) \<Longrightarrow> steady d (db_tool_calls_update (update_where P f) d)"
  by (rule steadyI) (simp_all add: money_def history_def archive_def origins_def settled_stay_def map_update_where)

lemma steady_drafts [intro]:
  "(\<And>r. P r \<Longrightarrow> draft_text (f r) = draft_text r) \<Longrightarrow> steady d (db_drafts_update (update_where P f) d)"
  by (rule steadyI) (simp_all add: money_def history_def archive_def origins_def settled_stay_def map_update_where)

lemma steady_approvals [intro]:
  "(\<And>r. P r \<Longrightarrow> approval_terms (f r) = approval_terms r) \<Longrightarrow> steady d (db_approvals_update (update_where P f) d)"
  by (rule steadyI) (simp_all add: money_def history_def archive_def origins_def settled_stay_def map_update_where)

lemma steady_systems [intro]:
  "(\<And>s. P s \<Longrightarrow> system_origin (f s) = system_origin s \<and> sy_reserved_tokens (f s) = sy_reserved_tokens s) \<Longrightarrow>
   steady d (db_systems_update (update_where P f) d)"
  by (rule steadyI) (auto simp: money_def history_def archive_def origins_def settled_stay_def map_update_where system_origin_def
      intro!: same_prefix map_cong)

text \<open>Calls: an update that starts and ends no running call, and a new call.\<close>

lemma steady_calls [intro]:
  assumes "\<And>c. P c \<Longrightarrow> mc_state c \<noteq> Running \<and> mc_state (f c) \<noteq> Running \<or>
      mc_state (f c) = mc_state c \<and> mc_reservation (f c) = mc_reservation c"
    and "\<And>c. P c \<Longrightarrow> call_origin (f c) = call_origin c"
  shows "steady d (db_calls_update (update_where P f) d)"
proof -
  let ?g = "\<lambda>c. if P c then f c else c"
  have same: "update_where P f = update_where P ?g" by (simp add: update_where_def fun_eq_iff)
  have ids: "mc_call_id (?g c) = mc_call_id c \<and> mc_system_id (?g c) = mc_system_id c" for c
    using assms(2) [of c] by (simp add: call_origin_def)
  have "books d \<Longrightarrow> books (db_calls_update (update_where P ?g) d)"
    by (rule books_calls) (use assms(1) ids in auto)
  moreover have "idle i (db_calls_update (update_where P f) d)" if idle: "idle i d" for i
  proof -
    have "mc_call_id (?g c) = i \<Longrightarrow> mc_state (?g c) \<noteq> Running" if "c \<in> set (db_calls d)" for c
      using idle that ids [of c] assms(1) [of c] by (simp add: idle_def) metis
    moreover have "set (db_calls (db_calls_update (update_where P f) d)) = ?g ` set (db_calls d)"
      by (simp add: set_update_where del: if_image_distrib)
    ultimately show ?thesis unfolding idle_def by (metis (no_types, lifting) imageE)
  qed
  ultimately show ?thesis
    using assms(2) by (simp add: steady_def history_def archive_def origins_def settled_stay_def map_update_where same)
qed

lemma steady_insert_call: "mc_call_id c \<noteq> '''' \<Longrightarrow> mc_state c \<noteq> Running \<Longrightarrow> tx_rel steady (insert_call c)"
  unfolding insert_call_def
  by (intro steady.rels steady.rel_insert)
    (auto simp: steady_def history_def archive_def origins_def settled_stay_def idle_def list_ex_iff intro!: books_insert_call)

lemmas origin_defs = system_origin_def goal_origin_def task_grant_def call_origin_def attempt_origin_def tool_request_def
  draft_text_def approval_terms_def

lemmas steady_rows = steady_free steady_append steady_goals steady_tasks steady_tool_calls steady_drafts steady_approvals
  steady_systems steady_calls

lemmas steady_rules = steady.rels steady.reads steady.rel_update steady.rel_update_checked steady.rel_insert steady.rel_insert_or_ignore
  steady.rel_new_id steady.rel_modify steady_rows

named_theorems steadily \<open>operations that are steady\<close>

section \<open>Reading and recording\<close>

lemma reads_steadily [steadily]:
  "tx_rel steady (readTask s i)" "tx_rel steady (readAgent s i n)" "tx_rel steady (readGoal s i)" "tx_rel steady (goalIsContinuous t)"
  "tx_rel steady (readExecution s i)" "tx_rel steady (loadLocalTools H s pins)" "tx_rel steady (readSystem H p s)"
  "tx_rel steady (pinnedTaskRecord r e)" "tx_rel steady (authorizePins H cfg s pins now)" "tx_rel steady (readEvaluation s i)"
  "tx_rel steady (learningEligible H cfg s ev now)" "tx_rel steady (readLearningDraft s i v)" "tx_rel steady (event_depth t c)"
  "tx_rel steady (replay H hash receipt)"
  by (intro steady.rel_pure reading event_depth_pure replay_pure)+

lemma records_steadily [steadily]:
  "tx_rel steady (NewID p)" "tx_rel steady (auditExecution s owner action r now)" "tx_rel steady (insertAgentRevision a)"
  "tx_rel steady (insertRevision record actor action now)"
  unfolding auditExecution_def insertAgentRevision_def insertRevision_def by (intro steady_rules)+

text \<open>What follows a fresh identity may use that it is not empty.\<close>

lemma steady_fresh: "p \<noteq> '''' \<Longrightarrow> (\<And>i. i \<noteq> '''' \<Longrightarrow> tx_rel steady (k i)) \<Longrightarrow> tx_rel steady (tx_bind (NewID p) k)"
  by (rule steady.rel_bind_known [OF records_steadily(1)]) (use NewID_nonempty in \<open>auto simp: tx_rel_def\<close>)

lemma submitDraft_steady [steadily]: "tx_rel steady (submitDraft H cfg s creator goalID taskID c)"
  unfolding submitDraft_def draft_identity_def by (intro steady_rules steadily)

section \<open>Tasks\<close>

lemma emitEvent_steady [steadily]: "tx_rel steady (emitEvent t kind source causation payload now)"
  unfolding emitEvent_def insert_event_def by (intro steady_rules steadily)

lemma task_rows_steady [steadily]:
  "tx_rel steady (insert_task t)" "tx_rel steady (insert_usage s i g n)" "tx_rel steady (updateConversation t)"
  "tx_rel steady (update_system s (\<lambda>x. x\<lparr>sy_state := state\<rparr>))"
  "tx_rel steady (insert_groups callID s gs)" "tx_rel steady (insert_agent a)"
  unfolding insert_task_def insert_usage_def updateConversation_def update_system_def insert_groups_def insert_agent_def
  by (intro steady_rules; simp add: origin_defs)+

lemma goal_rows_steady:
  "(\<And>g. goal_origin (f g) = goal_origin g) \<Longrightarrow> tx_rel steady (update_goal s g f)"
  unfolding update_goal_def by (intro steady_rules)

lemma initializeRootTask_steady [steadily]: "tx_rel steady (initializeRootTask record e now)"
  unfolding initializeRootTask_def upsert_operator_def
  by (intro steady_rules steadily goal_rows_steady) (simp_all add: origin_defs)

lemma insert_new_call_steady:
  "callID \<noteq> '''' \<Longrightarrow> tx_rel steady (insert_new_call callID t activationID owner revision model reservation now deadline wait body)"
  unfolding insert_new_call_def
  by (rule steady.rel_bind_known [OF steady.rel_gets]) (use steady_insert_call in \<open>auto simp: tx_rel_def new_call_def\<close>)

lemma record_call_steady [steadily]: "tx_rel steady (record_call cfg t owner revision model reservation now deadline wait body)"
  unfolding record_call_def
  by (intro steady_fresh steady_rules insert_new_call_steady steadily) (simp_all add: origin_defs)

lemma prepareNextCall_steady [steadily]: "tx_rel steady (prepareNextCall H cfg t owner now)"
  unfolding prepareNextCall_def authorize_turn_def queue_room_def by (intro steady_rules steadily)

lemma wakeContinuousTask_steady [steadily]: "tx_rel steady (wakeContinuousTask t)"
  unfolding wakeContinuousTask_def live_or_fresh_def start_continuation_def goal_and_state_def by (intro steady_rules steadily)

lemma continuePendingInput_steady [steadily]: "tx_rel steady (continuePendingInput t)"
  unfolding continuePendingInput_def move_inputs_def by (intro steady_rules steadily)

lemma emitTaskWakeup_steady [steadily]: "tx_rel steady (emitTaskWakeup t kind source cause content now)"
  unfolding emitTaskWakeup_def by (intro steady_rules steadily)

lemma end_task_steady [steadily]: "state \<noteq> Running \<Longrightarrow> tx_rel steady (end_task t state response reason)"
  unfolding end_task_def by (intro steady_rules) (auto simp: origin_defs undispatched_def)

lemma settle_task_steady [steadily]: "state \<noteq> Running \<Longrightarrow> tx_rel steady (settle_task t ongoing state response reason)"
  unfolding settle_task_def cancel_triggers_def kill_mail_def idle_goal_def
  by (intro steady_rules steadily) (simp_all add: origin_defs)

lemma end_goal_steady [steadily]: "tx_rel steady (end_goal t state)"
  unfolding end_goal_def by (intro steady_rules goal_rows_steady) (simp_all add: origin_defs)

lemma terminate_steps_steady:
  "state \<noteq> Running \<Longrightarrow> tx_rel steady (terminate_steps n t state response reason source cause now)"
proof (induction n arbitrary: t state response reason source)
  case 0 then show ?case by (simp add: steady.rel_fail)
next
  case (Suc n)
  show ?case unfolding terminate_steps.simps by (intro steady_rules steadily Suc.IH Suc.prems) simp
qed

lemma terminateTask_steady [steadily]: "state \<noteq> Running \<Longrightarrow> tx_rel steady (terminateTask t state response reason source cause now)"
  unfolding terminateTask_def by (intro steady_rules terminate_steps_steady)

lemma stopTasks_steady [steadily]: "tx_rel steady (stopTasks systemID scope i source reason now)"
proof -
  have "tx_rel steady (stop_task systemID source reason now taskID)" for taskID
    unfolding stop_task_def by (intro steady_rules steadily) (auto simp: origin_defs undispatched_def)
  moreover have "tx_rel steady (stop_goals s c j)" for s c j
    unfolding stop_goals_def stop_agents_def
    by (intro steady_rules) (auto simp: origin_defs stop_triggers_def intro!: steady.rel_modify intro: steady.R_trans steady_free)
  ultimately show ?thesis
    unfolding stopTasks_def stop_scope_def by (intro steady_rules) (auto simp: origin_defs)
qed

section \<open>Memory, triggers and wakeups\<close>

lemma checked_steady [steadily]: "tx_rel steady (tx_checked e)"
  unfolding tx_checked_def by (intro steady_rules)

lemma memoryOwner_steady [steadily]: "tx_rel steady (memoryOwner t scope owner admin)"
  unfolding memoryOwner_def by (intro steady_rules steadily)

lemma putMemory_steady [steadily]: "tx_rel steady (putMemory t c admin now)"
  unfolding putMemory_def cite_artifact_def memory_identity_def store_entry_def upsert_head_def by (intro steady_rules steadily)

lemma searchMemory_steady [steadily]: "tx_rel steady (searchMemory t q admin now)"
  unfolding searchMemory_def by (intro steady_rules steadily)

lemma createSchedule_steady [steadily]: "tx_rel steady (createSchedule ts t c creator now)"
  unfolding createSchedule_def by (intro steady_rules steadily)

lemma createSubscription_steady [steadily]: "tx_rel steady (createSubscription t c creator now)"
  unfolding createSubscription_def subscription_scope_def by (intro steady_rules steadily)

lemma wakeEligible_steady [steadily]: "tx_rel steady (wakeEligible H cfg t now)"
  unfolding wakeEligible_def pins_reason_def narrowed_reason_def denied_text_def or_else_def by (intro steady_rules steadily)

lemma triggers_steady [steadily]:
  "tx_rel steady (set_subscription s i f)" "tx_rel steady (set_schedule s i g)"
  unfolding set_subscription_def set_schedule_def by (intro steady_rules)+

lemma notifySubscriptions_steady [steadily]: "tx_rel steady (notifySubscriptions H cfg source kind scope owner cause reference now)"
  unfolding notifySubscriptions_def notify_one_def deliver_notice_def by (intro steady_rules steadily)

lemma pumpWakeups_steady [steadily]: "tx_rel steady (pumpWakeups H ts cfg now)"
  unfolding pumpWakeups_def expire_memory_def expire_tasks_def pump_schedule_def fire_schedule_def record_occurrence_def
  by (intro steady_rules steadily) simp

section \<open>Commands on systems\<close>

lemma command_steady: "tx_rel steady m \<Longrightarrow> tx_rel steady (command H owner key hash now m)"
  unfolding command_def fresh_command_def record_receipt_def by (intro steady_rules steadily)

text \<open>A system that did not exist has no attempts, so it starts without debts.\<close>

lemma insert_system_steady:
  assumes "sy_reserved_tokens s = 0"
  shows "tx_rel steady (insert_system s)"
proof -
  have "books (db_systems_update (\<lambda>rs. rs @ [s]) d)"
    if books: "books d" and fresh: "\<not> list_ex (\<lambda>y. sy_system_id s = sy_system_id y \<or> sy_operator_id s = sy_operator_id y) (db_systems d)" for d
  proof -
    let ?d = "db_systems_update (\<lambda>rs. rs @ [s]) d"
    have same: "unsettled ?d = unsettled d" "running_attempts ?d = running_attempts d" "running_calls ?d = running_calls d"
      "keyed_calls ?d = keyed_calls d"
      by (simp_all add: unsettled_def fun_eq_iff running_attempts_def running_calls_def keyed_calls_def)
    have "at_system_id a \<noteq> sy_system_id s" if "a \<in> set (db_attempts d)" for a
      using books fresh that by (fastforce simp: books_def list_ex_iff)
    then have "unsettled d (sy_system_id s) = 0"
      unfolding unsettled_def sum_where_def by (subst filter_False) auto
    with books assms show ?thesis by (auto simp: books_def ledger_def same)
  qed
  then show ?thesis
    unfolding insert_system_def
    by (intro steady.rel_insert) (simp add: steady_def history_def archive_def origins_def settled_stay_def idle_def)
qed

lemma CreateSystem_steady: "tx_rel steady (CreateSystem H owner key c cfg configID now)"
  unfolding CreateSystem_def create_system_def create_goal_def insert_goal_def
  by (intro command_steady steady_rules steadily insert_system_steady) (simp add: new_system_def)

lemma ReviseSystem_steady: "tx_rel steady (ReviseSystem H owner key systemID c cfg configID now)"
  unfolding ReviseSystem_def revise_system_def store_revision_def
  by (intro command_steady steady_rules steadily) (simp_all add: origin_defs)

lemma start_call_steady:
  "callID \<noteq> '''' \<Longrightarrow> tx_rel steady (start_call callID taskID goalID activationID owner record stream reservation now deadline wait body)"
  unfolding start_call_def
  by (rule steady.rel_bind_known [OF steady.rel_gets]) (use steady_insert_call in \<open>auto simp: tx_rel_def first_call_def new_call_def\<close>)

lemma launch_steady [steadily]: "tx_rel steady (launch cfg owner holder c record prompt goalID reservation wait body now)"
  unfolding launch_def
  by (rule steady_fresh) (simp, intro steady_rules steadily start_call_steady goal_rows_steady, simp_all add: origin_defs)

lemma StartSystem_steady: "tx_rel steady (StartSystem H owner key systemID holder c cfg now)"
  unfolding StartSystem_def start_system_def admit_start_def start_room_def claim_goal_def insert_goal_def
  by (intro command_steady steady_rules steadily goal_rows_steady) (simp_all add: origin_defs)

lemma StopSystem_steady: "tx_rel steady (StopSystem H owner key systemID now)"
  unfolding StopSystem_def stop_system_def by (intro command_steady steady_rules steadily) (simp_all add: origin_defs)

section \<open>Commands inside a system\<close>

lemma mutation_steady: "(\<And>s. tx_rel steady (m s)) \<Longrightarrow> tx_rel steady (mutation H key systemID operation body now m)"
  unfolding mutation_def mutate_system_def by (intro command_steady steady_rules steadily)

lemma inputTask_steady [steadily]: "tx_rel steady (inputTask s agentID)"
  unfolding inputTask_def previous_task_def by (intro steady_rules steadily)

lemma trigger_task_steady [steadily]: "tx_rel steady (trigger_task H cfg s agentID refusal now)"
  unfolding trigger_task_def by (intro steady_rules steadily)

lemma drafts_steady:
  "tx_rel steady (ProposeTool H cfg key systemID proposal now)" "tx_rel steady (ChangeDraftState H key systemID change i now)"
  "tx_rel steady (RevokeTool H cfg key systemID revocation now)" "tx_rel steady (AssignTools H cfg key systemID assignment i now)"
  unfolding ProposeTool_def ChangeDraftState_def change_draft_def Let_def RevokeTool_def revoke_tool_def AssignTools_def assign_tools_def
    revise_agent_row_def
  by (intro mutation_steady steady_rules steadily; simp add: origin_defs)+

lemma inputs_steady:
  "tx_rel steady (AddInput H key systemID input now)" "tx_rel steady (AddAttachment H key systemID attachment now)"
  unfolding AddInput_def add_input_def AddAttachment_def add_attachment_def insert_artifact_def
  by (intro mutation_steady steady_rules steadily)+

lemma set_control_steady [steadily]: "tx_rel steady (set_control scope action i s)"
  by (cases scope; simp add: set_control_def; unfold control_system_def control_goal_def control_agent_def;
      intro steady_rules steadily goal_rows_steady; simp add: origin_defs)

lemma Control_steady: "tx_rel steady (Control H cfg key systemID scope action i now)"
  unfolding Control_def control_handler_def resume_check_def by (intro mutation_steady steady_rules steadily)

lemma memory_steady:
  "tx_rel steady (PutMemory H cfg key systemID memory now)" "tx_rel steady (ChangeMemoryState H cfg key systemID revision i action now)"
  unfolding PutMemory_def put_memory_def ChangeMemoryState_def change_memory_def set_memory_state_def
  by (intro mutation_steady steady_rules steadily)+

lemma trigger_commands_steady:
  "tx_rel steady (CreateSchedule H ts cfg key systemID schedule now)" "tx_rel steady (CreateSubscription H cfg key systemID subscription now)"
  "tx_rel steady (CancelTrigger H key systemID i kind now)"
  unfolding CreateSchedule_def CreateSubscription_def CancelTrigger_def cancel_trigger_def
  by (intro mutation_steady steady_rules steadily)+

lemma learning_commands_steady:
  "tx_rel steady (CreateChecks H key systemID cases now)" "tx_rel steady (AddFeedback H key systemID feedback now)"
  unfolding CreateChecks_def create_checks_def insert_check_def AddFeedback_def add_feedback_def insert_feedback_def
  by (intro mutation_steady steady_rules steadily)+

end
