(* ===== verification/Runs.thy ===== *)
theory Runs
  imports History
begin

text \<open>
  Every operation of the store keeps the history and the books: evaluations, the claim and the
  end of a delivery, recovery after a restart, the tools, and the broker. \<open>step\<close> is one such
  operation with any arguments at any time, \<open>reachable\<close> what the store can come to from an
  empty database; the invariants follow by induction over its steps.
\<close>

section \<open>Evaluations\<close>

lemma evaluator_steady [steadily]: "tx_rel steady (create_evaluator a draft candidate)"
  unfolding create_evaluator_def by (intro steady_rules steadily)

lemma queueLearning_steady [steadily]: "tx_rel steady (queueLearning H gp cfg owner s c source now)"
  unfolding queueLearning_def evaluation_origin_def evaluation_subject_def readChecks_def store_evaluation_def insert_evaluation_def
    evaluation_tasks_def evaluation_task_def
  by (intro steady_rules steadily)

lemma EvaluateLearning_steady: "tx_rel steady (EvaluateLearning H gp cfg owner key systemID c now)"
  unfolding EvaluateLearning_def by (intro mutation_steady steadily)

lemma ApproveLearning_steady: "tx_rel steady (ApproveLearning H fs cfg key systemID c i now)"
  unfolding ApproveLearning_def approve_learning_def insert_approval_def by (intro mutation_steady steady_rules steadily)

lemma evaluation_parts_steady [steadily]: "tx_rel steady (evaluation_parts s i)"
  unfolding evaluation_parts_def by (intro steady_rules steadily)

lemma finishEvaluation_steady [steadily]: "tx_rel steady (finishEvaluation H s e evidence artifact failure now)"
  unfolding finishEvaluation_def record_outcome_def notify_origin_def by (intro steady_rules steadily) simp

lemma pumpLearning_steady [steadily]: "tx_rel steady (pumpLearning H cfg now)"
  unfolding pumpLearning_def pump_evaluation_def pump_failure_def skill_evidence_def role_result_def by (intro steady_rules steadily)

lemma claimLearning_steady [steadily]: "tx_rel steady (claimLearning H cfg owner record t eventID now)"
  unfolding claimLearning_def lease_build_def by (intro steady_rules steadily) (simp_all add: origin_defs)

lemma CompleteEvaluation_steady: "tx_rel steady (CompleteEvaluation H fs cfg owner session evidence binary failure now)"
  unfolding CompleteEvaluation_def eligible_failure_def complete_task_def
  by (intro steady_rules steadily) (simp_all add: origin_defs)

section \<open>Claiming a delivery\<close>

text \<open>
  Some updates of a call rest on the state it was read in: an undispatched call is not running
  when it is changed later in the same transaction. \<open>aware e\<close> carries that with the books.
\<close>

definition aware :: "execution \<Rightarrow> db \<Rightarrow> db \<Rightarrow> bool" where
  "aware e d d' \<longleftrightarrow> history d d' \<and>
     (books d \<and> (undispatched (e_state e) \<longrightarrow> idle (e_call_id e) d) \<longrightarrow>
      books d' \<and> (undispatched (e_state e) \<longrightarrow> idle (e_call_id e) d'))"

interpretation aware: db_preorder "aware e" for e
  by unfold_locales (auto simp: aware_def intro: history_refl history_trans)

lemma steady_aware: "tx_rel steady m \<Longrightarrow> tx_rel (aware e) m"
  by (simp add: tx_rel_def steady_def aware_def)

text \<open>What was just read is known, so an operation that is aware of it is steady.\<close>

lemma read_idle: "readExecution s i d = (Inr e, d) \<Longrightarrow> books d \<Longrightarrow> undispatched (e_state e) \<Longrightarrow> idle (e_call_id e) d"
proof -
  assume read: "readExecution s i d = (Inr e, d)" and books: "books d" and e: "undispatched (e_state e)"
  obtain c where c: "c \<in> set (db_calls d)" "e_call_id e = mc_call_id c" "mc_state c = e_state e"
    using readExecution_row [OF read] by (auto simp: exec_static_def call_static_def)
  have "keyed_calls d" using books by (simp add: books_def ledger_def)
  then have "x = c" if "x \<in> set (db_calls d)" "mc_call_id x = e_call_id e" for x
    using keyed_row [of d x c] that c by simp
  with c(3) e show ?thesis by (auto simp: idle_def undispatched_def)
qed

text \<open>History and books alone, which is what a composed transaction owes.\<close>

definition lasting :: "db \<Rightarrow> db \<Rightarrow> bool" where
  "lasting d d' \<longleftrightarrow> history d d' \<and> (books d \<longrightarrow> books d')"

interpretation lasting: db_preorder lasting
  by unfold_locales (auto simp: lasting_def intro: history_refl history_trans)

lemma steady_lasting: "tx_rel steady m \<Longrightarrow> tx_rel lasting m"
  by (simp add: tx_rel_def steady_def lasting_def)

lemma after_read:
  assumes "\<And>e. tx_rel (aware e) (k e)"
  shows "tx_rel lasting (tx_bind (readExecution s i) k)"
proof (rule lasting.rel_bind_known)
  show "tx_rel lasting (readExecution s i)" by (intro steady_lasting steadily)
  fix d e d' assume read: "readExecution s i d = (Inr e, d')"
  have "d' = d" using pure_state [OF readExecution_pure read] .
  with read read_idle assms [of e] show "lasting d' (snd (k e d'))"
    by (auto simp: tx_rel_def aware_def lasting_def)
qed

lemma aware_lasting:
  assumes "\<And>e. tx_rel (aware e) (k e)"
  shows "tx_rel lasting (tx_bind (authorizeCall session) k)"
proof (rule lasting.rel_bind_known)
  show "tx_rel lasting (authorizeCall session)"
    unfolding authorizeCall_def by (intro lasting.rels steadily [THEN steady_lasting])
  fix d e d' assume "authorizeCall session d = (Inr e, d')"
  then have "readExecution (e_system_id session) (e_call_id session) d = (Inr e, d)" "d' = d"
    by (auto simp: authorizeCall_ok)
  with read_idle assms [of e] show "lasting d' (snd (k e d'))" by (auto simp: tx_rel_def aware_def lasting_def)
qed

lemma aware_calls:
  assumes "undispatched (e_state e)" "\<And>c. P c \<Longrightarrow> mc_call_id c = e_call_id e"
    and "\<And>c. mc_state c \<noteq> Running \<Longrightarrow> mc_state (f c) \<noteq> Running" "\<And>c. call_origin (f c) = call_origin c"
  shows "tx_rel (aware e) (tx_update db_calls_update P f)"
proof (rule aware.rel_update)
  fix d :: db
  let ?d = "db_calls_update (update_where P f) d"
  have ids: "mc_call_id (f c) = mc_call_id c \<and> mc_system_id (f c) = mc_system_id c" for c
    using assms(4) [of c] by (simp add: call_origin_def)
  have still: "mc_state c \<noteq> Running" if "idle (e_call_id e) d" "c \<in> set (db_calls d)" "P c" for c
    using that assms(2) [of c] by (simp add: idle_def)
  have "books ?d" if "books d" "idle (e_call_id e) d"
    by (rule books_calls [OF that(1)]) (use still that assms(3) ids in auto)
  moreover have "idle (e_call_id e) ?d" if "idle (e_call_id e) d"
    using still [OF that] that assms(3) ids by (auto simp: idle_def set_update_where)
  moreover have "history d ?d"
    using assms(4) by (simp add: history_def archive_def origins_def settled_stay_def map_update_where)
  ultimately show "aware e d ?d" using assms(1) by (simp add: aware_def)
qed

section \<open>What an operation returns\<close>

definition gives :: "('a \<Rightarrow> bool) \<Rightarrow> 'a op \<Rightarrow> bool" where
  "gives Q m \<longleftrightarrow> (\<forall>d x d'. m d = (Inr x, d') \<longrightarrow> Q x)"

lemma gives_return: "Q x \<Longrightarrow> gives Q (tx_return x)"
  by (simp add: gives_def)

lemma gives_fail: "gives Q (tx_fail e)"
  by (simp add: gives_def tx_fail_def)

lemma gives_bind: "(\<And>x. gives Q (k x)) \<Longrightarrow> gives Q (tx_bind m k)"
  unfolding gives_def by (auto elim!: tx_bind_ok)

lemma gives_seq: "gives Q n \<Longrightarrow> gives Q (tx_seq m n)"
  unfolding gives_def by (auto elim!: tx_seq_ok)

lemma gives_if: "gives Q m \<Longrightarrow> gives Q n \<Longrightarrow> gives Q (if b then m else n)"
  by simp

lemma gives_sum: "(\<And>e. gives Q (f e)) \<Longrightarrow> (\<And>x. gives Q (g x)) \<Longrightarrow> gives Q (case r of Inl e \<Rightarrow> f e | Inr x \<Rightarrow> g x)"
  by (simp split: sum.splits)

lemmas gives_rules = gives_return gives_fail gives_bind gives_seq gives_if gives_sum

definition ended_with :: "(run_state \<times> string) option \<Rightarrow> bool" where
  "ended_with r \<longleftrightarrow> (\<forall>p. r = Some p \<longrightarrow> TaskTerminal (fst p))"

lemma outcome_ended: "gives ended_with (outcome H cfg owner session e t workerErr stopped now)"
  unfolding outcome_def after_tool_def rest_def go_on_def after_answer_def reject_task_def
  by (intro gives_rules) (simp_all add: ended_with_def TaskTerminal_def)

section \<open>Deliveries\<close>

lemma mail_steady [steadily]:
  "tx_rel steady (set_mail s i f)" "tx_rel steady (acknowledge s i)" "tx_rel steady settle_stopping"
  unfolding acknowledge_def set_mail_def settle_stopping_def by (intro steady_rules; simp add: origin_defs)+

lemma consumeInputs_steady [steadily]: "tx_rel steady (consumeInputs t exclude)"
  unfolding consumeInputs_def by (intro steady_rules steadily)

lemma queueContinuation_steady [steadily]: "tx_rel steady (queueContinuation t cause now)"
  unfolding queueContinuation_def by (intro steady_rules steadily)

lemma reject_task_steady [steadily]: "tx_rel steady (reject_task t i e now)"
  unfolding reject_task_def by (intro steady_rules steadily) simp

lemma or_reject_steady [steadily]: "tx_rel steady m \<Longrightarrow> tx_rel steady (or_reject t i now m)"
  unfolding or_reject_def by (intro steady_rules steadily)

lemma next_call_steady [steadily]: "tx_rel steady (next_call H cfg owner now t)"
  unfolding next_call_def by (intro steady_rules steadily)

lemma turns_steady [steadily]:
  "tx_rel steady (first_turn H cfg owner now i t)" "tx_rel steady (wake_turn H cfg owner now i t)"
  "tx_rel steady (result_turn H cfg owner now c t)" "tx_rel steady (dead_letter t w c now)"
  unfolding first_turn_def wake_turn_def result_turn_def dead_letter_def by (intro steady_rules steadily; simp)+

lemma claim_build_steady [steadily]: "tx_rel steady (claim_build H cfg owner record i now t)"
  unfolding claim_build_def by (intro steady_rules steadily) simp

lemma lease_steady [steadily]: "tx_rel steady (lease owner t e i)"
  unfolding lease_def update_call_def by (intro steady_rules steadily) (simp_all add: origin_defs)

lemma refresh_request_aware:
  "undispatched (e_state e) \<Longrightarrow> tx_rel (aware e) (refresh_request cfg H record e i now t)"
  unfolding refresh_request_def then_some_def update_call_def
  by (intro aware.rels aware_calls steadily [THEN steady_aware] steadily) (simp_all add: renew_request_def origin_defs)

lemma activate_lasting: "tx_rel lasting (activate H cfg owner saved i now t)"
  unfolding activate_def Let_def then_some_def worker_record_def
  by (rule after_read)
    (intro aware.rels refresh_request_aware steadily [THEN steady_aware] steadily, simp add: undispatched_def)

lemma deliver_lasting: "tx_rel lasting (deliver H cfg owner record now c t)"
  unfolding deliver_def Let_def then_some_def by (intro lasting.rels activate_lasting steadily [THEN steady_lasting])

lemma claim_loop_lasting: "tx_rel lasting (claim_loop H cfg owner active now cs)"
proof (induction cs)
  case Nil then show ?case by (simp add: lasting.rel_return)
next
  case (Cons c cs)
  have "tx_rel lasting (claim_candidate H cfg owner active now c)"
    unfolding claim_candidate_def Let_def by (intro lasting.rels deliver_lasting steadily [THEN steady_lasting])
  with Cons.IH show ?case unfolding claim_loop.simps by (intro lasting.rels)
qed

lemma claim_lasting: "tx_rel lasting (claim H ts cfg owner active now)"
  unfolding claim_def by (intro lasting.rels claim_loop_lasting steadily [THEN steady_lasting])

text \<open>The end of a delivery: the call changes only while it was not dispatched.\<close>

lemma ended_runs [simp]: "TaskTerminal state \<Longrightarrow> final_state e stopped state \<noteq> Running"
  by (auto simp: final_state_def TaskTerminal_def)

lemma finish_steady [steadily]:
  "tx_rel steady (drop_lease owner session t)" "tx_rel steady (requeue_delivery session t)"
  "tx_rel steady (settle_mail session e t workerErr)" "tx_rel steady (delivery_attempts owner session t)"
  "tx_rel steady (await_triggers e t now)" "tx_rel steady (goal_and_state s g)"
  unfolding drop_lease_def requeue_delivery_def settle_mail_def delivery_attempts_def await_triggers_def goal_and_state_def
  by (intro steady_rules steadily; simp add: origin_defs)+

lemma go_on_steady [steadily]: "tx_rel steady (go_on H cfg owner session e now t)"
  unfolding go_on_def by (intro steady_rules steadily)

lemma rest_steady [steadily]: "tx_rel steady (rest H cfg session e t now)"
  unfolding rest_def by (intro steady_rules steadily) simp

lemma outcome_steady [steadily]: "tx_rel steady (outcome H cfg owner session e t workerErr stopped now)"
  unfolding outcome_def after_tool_def after_answer_def by (intro steady_rules steadily)

lemma terminalCall_aware: "undispatched (e_state e) \<Longrightarrow> state \<noteq> Running \<Longrightarrow> tx_rel (aware e) (terminalCall e state reason)"
  unfolding terminalCall_def by (intro aware_calls) (simp_all add: origin_defs)

lemma set_task_steady: "(\<And>t. task_grant (f t) = task_grant t) \<Longrightarrow> tx_rel steady (tx_update db_tasks_update P f)"
  by (intro steady_rules)

lemma retry_delivery_aware: "undispatched (e_state e) \<Longrightarrow> tx_rel (aware e) (retry_delivery session e t attempts now)"
  unfolding retry_delivery_def update_call_def
  by (intro aware.rels aware_calls steady_aware [OF set_task_steady] steadily [THEN steady_aware]) (simp_all add: origin_defs)

lemma end_delivery_aware:
  "state \<noteq> Running \<Longrightarrow> tx_rel (aware e) (end_delivery H cfg session e t stopped state reason now)"
  unfolding end_delivery_def
  by (intro aware.rels terminalCall_aware steadily [THEN steady_aware])
    (auto intro!: steady_aware steady.rel_modify steady_systems simp: origin_defs)

lemma conclude_aware: "tx_rel (aware e) (conclude H cfg owner session e t workerErr stopped now)"
proof -
  have "tx_rel (aware e) (tx_bind (outcome H cfg owner session e t workerErr stopped now) (\<lambda>r. case r of None \<Rightarrow> tx_return ()
      | Some (state, reason) \<Rightarrow> end_delivery H cfg session e t stopped (final_state e stopped state) (final_reason workerErr reason) now))"
  proof (rule aware.rel_bind_known)
    show "tx_rel (aware e) (outcome H cfg owner session e t workerErr stopped now)" by (intro steadily [THEN steady_aware])
    fix d r d' assume "outcome H cfg owner session e t workerErr stopped now d = (Inr r, d')"
    then have "ended_with r" using outcome_ended unfolding gives_def by blast
    then show "aware e d' (snd ((case r of None \<Rightarrow> tx_return () | Some (state, reason) \<Rightarrow>
        end_delivery H cfg session e t stopped (final_state e stopped state) (final_reason workerErr reason) now) d'))"
      using end_delivery_aware [unfolded tx_rel_def]
      by (cases r) (auto simp: ended_with_def tx_return_def aware.R_refl split: prod.splits)
  qed
  from aware.rel_seq [OF steady_aware [OF finish_steady(3)] this] show ?thesis unfolding conclude_def .
qed

lemma finishDelivery_lasting: "tx_rel lasting (finishDelivery H cfg owner shuttingDown session workerErr canceled now)"
proof -
  have "tx_rel (aware e) (finish_live H cfg owner shuttingDown session e t workerErr canceled now)" for e t
    unfolding finish_live_def Let_def
    by (intro aware.rels retry_delivery_aware conclude_aware steadily [THEN steady_aware]) simp
  then show ?thesis
    unfolding finishDelivery_def by (intro lasting.rel_transaction aware_lasting aware.rels steadily [THEN steady_aware])
qed

section \<open>Recovery\<close>

lemma unknown_books:
  assumes "books d"
  shows "books (db_calls_update (update_where (\<lambda>c. mc_state c = Running) (\<lambda>c. c\<lparr>mc_state := Unknown, mc_reason := reason\<rparr>))
     (db_attempts_update (update_where (\<lambda>a. at_state a = Running) (\<lambda>a. a\<lparr>at_state := Unknown\<rparr>)) d))" (is "books ?d")
proof -
  have "unsettled ?d i = unsettled d i" for i
    unfolding unsettled_def by simp (rule sum_where_update, simp)
  moreover have "running_attempts ?d = []" "running_calls ?d = []"
    by (auto simp: running_attempts_def running_calls_def update_where_def filter_empty_conv)
  moreover have "keyed_calls ?d" using assms by (auto simp: books_def ledger_def keyed_calls_def map_update_where set_update_where)
  ultimately show ?thesis using assms by (auto simp: books_def ledger_def set_update_where)
qed

lemma unknown_outcomes_steady [steadily]: "tx_rel steady unknown_outcomes"
proof -
  let ?calls = "db_calls_update (update_where (\<lambda>c. mc_state c = Running) (\<lambda>c. c\<lparr>mc_state := Unknown,
    mc_reason := ''daemon restarted after dispatch; outcome requires reconciliation''\<rparr>))"
  let ?attempts = "db_attempts_update (update_where (\<lambda>a. at_state a = Running) (\<lambda>a. a\<lparr>at_state := Unknown\<rparr>))"
  have step: "steady d (?calls (?attempts d))" for d :: db
  proof -
    have "history d (?calls (?attempts d))"
      by (auto simp: history_def archive_def origins_def settled_stay_def map_update_where origin_defs set_update_where)
    moreover have "idle i (?calls (?attempts d))" if "idle i d" for i
      using that by (auto simp: idle_def set_update_where)
    ultimately show ?thesis using unknown_books by (simp add: steady_def)
  qed
  have "steady d (snd (unknown_outcomes d))" for d
    unfolding unknown_outcomes_def tx_update_def tx_modify_def tx_seq_def tx_bind_def
    by simp (rule steady.R_trans [OF step], rule steady_tool_calls, simp add: origin_defs)
  then show ?thesis by (simp add: tx_rel_def)
qed

lemma RecoverExecutions_steady: "tx_rel steady (RecoverExecutions now)"
  unfolding RecoverExecutions_def fail_builds_def release_leases_def fail_unrecoverable_def end_orphans_def
  by (intro steady_rules steadily) (auto simp: origin_defs undispatched_def)

section \<open>Tools\<close>

lemma tool_args_steady [steadily]: "tx_rel steady (tool_args en flds zero arguments)" "tx_rel steady (tool_outcome data)"
  unfolding tool_args_def tool_outcome_def by (intro steady_rules)+

lemma update_task_steady [steadily]:
  "(\<And>t. task_grant (f t) = task_grant t) \<Longrightarrow> tx_rel steady (update_task t f)"
  unfolding update_task_def by (intro steady_rules)

lemma insert_artifact_steady [steadily]: "tx_rel steady (insert_artifact a)"
  unfolding insert_artifact_def by (intro steady_rules)

lemma agent_tools_steady [steadily]:
  "tx_rel steady (list_agents en t arguments)" "tx_rel steady (propose_agent en t now arguments)"
  "tx_rel steady (manageAgent en t name arguments now)"
  unfolding list_agents_def propose_agent_def insert_child_def manageAgent_def list_models_def managed_agent_def retire_agent_def
    retire_one_def revise_agent_def Let_def
  by (intro steady_rules steadily)+

lemma least_allowance_steady [steadily]: "tx_rel steady (least_allowance e ids n)"
proof (induction ids arbitrary: n)
  case Nil then show ?case by (simp add: steady.rel_return)
next
  case (Cons i ids) then show ?case by (simp, intro steady.rels)
qed

lemma bootstrapTool_steady [steadily]: "tx_rel steady (bootstrapTool en t name arguments)"
  unfolding bootstrapTool_def capabilities_def budgetAgents_def put_artifact_def get_artifact_def Let_def by (intro steady_rules steadily)

lemma knowledgeTool_steady [steadily]: "tx_rel steady (knowledgeTool en e t name arguments now)"
  unfolding knowledgeTool_def memory_put_def memory_search_def create_schedule_def create_subscription_def cancel_schedule_def
    cancel_subscription_def wait_task_def Let_def
  by (intro steady_rules steadily) (simp_all add: origin_defs)

lemma delegate_steady [steadily]: "tx_rel steady (delegate en e t now arguments)"
  unfolding delegate_def delegate_recipient_def start_child_def Let_def by (intro steady_rules steadily) (simp_all add: origin_defs)

lemma builtin_steady [steadily]: "tx_rel steady (builtin en e t name arguments now)"
  unfolding builtin_def task_progress_def propose_tool_def evaluate_tool_def baseline_pin_def
  by (intro steady_rules steadily) (simp_all add: origin_defs)

lemma complete_tool_call_steady [steadily]: "tx_rel steady (complete_tool_call e action result)"
  unfolding complete_tool_call_def by (intro steady_rules) (simp add: origin_defs)

lemma fresh_tool_steady [steadily]: "tx_rel steady (fresh_tool en e t pin definition action hash now)"
  unfolding fresh_tool_def record_tool_call_def run_builtin_def plan_subprocess_def generated_binary_def Let_def
  by (intro steady_rules steadily)

lemma PrepareTool_steady: "tx_rel steady (PrepareTool en session action now)"
  unfolding PrepareTool_def decided_task_def authorizeCall_def live_session_def resolved_tool_def replayed_tool_def Let_def
  by (intro steady_rules steadily)

lemma CompleteTool_steady: "tx_rel steady (CompleteTool en plan report now)"
  unfolding CompleteTool_def unknown_tool_def finish_tool_def store_report_def
  by (intro steady_rules steadily) (simp_all add: origin_defs)

section \<open>The broker\<close>

lemma history_calls: "(\<And>c. P c \<Longrightarrow> call_origin (f c) = call_origin c) \<Longrightarrow> history d (db_calls_update (update_where P f) d)"
  by (simp add: history_def archive_def origins_def settled_stay_def map_update_where)

lemma history_systems: "(\<And>s. P s \<Longrightarrow> system_origin (f s) = system_origin s) \<Longrightarrow> history d (db_systems_update (update_where P f) d)"
  by (simp add: history_def archive_def origins_def settled_stay_def map_update_where)

lemma history_attempts:
  "(\<And>a. P a \<Longrightarrow> at_state a = Running \<and> attempt_origin (f a) = attempt_origin a) \<Longrightarrow>
   history d (db_attempts_update (update_where P f) d)"
  by (auto simp: history_def archive_def origins_def settled_stay_def map_update_where set_update_where)

lemma history_dispatch: "history d (db_attempts_update (\<lambda>rs. rs @ [a]) d)"
  by (auto simp: history_def archive_def origins_def settled_stay_def)

lemmas history_rules = history.rels history.reads history.rel_update history.rel_update_checked history.rel_insert_or_ignore history.rel_modify
  history_calls history_systems history_attempts history_dispatch

lemma broker_steady [steadily]:
  "tx_rel steady (check_quotas cfg e now)" "tx_rel steady (admitLearningUses e now)" "tx_rel steady (chargeAgents e r u)"
  "tx_rel steady (checkTaskAdmission H cfg e now)" "tx_rel steady (cool_group cfg cooldown acc grp)"
  unfolding check_quotas_def quota_step_def admitLearningUses_def consume_use_def chargeAgents_def budgetAgents_def cool_group_def Let_def
  by (intro steady_rules steadily steady.rel_pure [OF checkTaskAdmission_pure] steady.rel_pure [OF pending_use_pure]; simp add: origin_defs)+

lemma charges_history:
  "tx_rel history (charge_system s (\<lambda>x. x\<lparr>sy_reserved_tokens := r x\<rparr>))"
  "tx_rel history (charge_system s (\<lambda>x. x\<lparr>sy_reserved_tokens := r x, sy_used_tokens := u x\<rparr>))"
  "(\<And>x. goal_origin (f x) = goal_origin x) \<Longrightarrow> tx_rel history (charge_goal s g f)"
  "(\<And>c. call_origin (h c) = call_origin c) \<Longrightarrow> tx_rel history (update_call i h)"
  "(\<And>x. goal_origin (f x) = goal_origin x) \<Longrightarrow> tx_rel history (update_goal s g f)"
  "tx_rel history (terminalCall e state reason)"
  "tx_rel history (update_system s (\<lambda>x. x\<lparr>sy_last_admission := n\<rparr>))"
  unfolding charge_system_def charge_goal_def update_call_def update_goal_def terminalCall_def update_system_def
  by (intro history_rules steady_goals [THEN steady_def [THEN iffD1, THEN conjunct1]]; simp add: origin_defs)+

lemma dispatch_history: "tx_rel history (dispatch cfg e dispatchAt now)"
  unfolding dispatch_def
  by (intro history_rules charges_history steadily [THEN steady_history])
    (auto simp: origin_defs intro: steady_free [THEN steady_def [THEN iffD1, THEN conjunct1]])

lemma admit_loop_history: "tx_rel history (admit_loop H cfg session now ids)"
proof (induction ids)
  case Nil then show ?case by (simp add: history.rel_return)
next
  case (Cons i ids)
  have "tx_rel history (or_else r (checkTaskAdmission H cfg e now))" for r e
    by (intro history.rel_pure or_else_pure checkTaskAdmission_pure)
  then have "tx_rel history (admit_candidate H cfg session now i)"
    unfolding admit_candidate_def admit_capacity_def admit_uses_def
    by (intro history_rules dispatch_history charges_history steadily [THEN steady_history]) (simp_all add: origin_defs)
  with Cons.IH show ?case unfolding admit_loop.simps
    by (intro history.rel_bind) (simp_all split: candidate_outcome.splits add: history.rel_return)
qed

lemma authorizeCall_steady [steadily]: "tx_rel steady (authorizeCall session)"
  unfolding authorizeCall_def by (intro steady_rules steadily)

lemma broker_history:
  "tx_rel history (admit H cfg session now)" "tx_rel history (queue_call session)" "tx_rel history (CancelModelCall session)"
  unfolding admit_def queue_call_def CancelModelCall_def
  by (intro history_rules admit_loop_history charges_history steadily [THEN steady_history]; simp add: origin_defs)+

lemma settle_history: "tx_rel history (settle cfg session p now)"
  unfolding settle_def settle_usage_def settle_retry_def requeue_def Let_def
  by (intro history_rules charges_history steadily [THEN steady_history]) (simp_all add: origin_defs is_running_attempt_def)

text \<open>Every attempt belongs to a system of the table: a call is dispatched after its system was read.\<close>

definition attempts_known :: "db \<Rightarrow> bool" where
  "attempts_known d \<longleftrightarrow> (\<forall>a \<in> set (db_attempts d). at_system_id a \<in> sy_system_id ` set (db_systems d))"

definition known_system :: "string \<Rightarrow> db \<Rightarrow> bool" where
  "known_system s d \<longleftrightarrow> attempts_known d \<and> s \<in> sy_system_id ` set (db_systems d)"

lemma known_attempts: "map at_system_id (db_attempts d') = map at_system_id (db_attempts d) \<Longrightarrow>
    map sy_system_id (db_systems d') = map sy_system_id (db_systems d) \<Longrightarrow> attempts_known d' = attempts_known d \<and> known_system s d' = known_system s d"
proof -
  assume ids: "map at_system_id (db_attempts d') = map at_system_id (db_attempts d)"
    "map sy_system_id (db_systems d') = map sy_system_id (db_systems d)"
  then have "at_system_id ` set (db_attempts d') = at_system_id ` set (db_attempts d)"
    "sy_system_id ` set (db_systems d') = sy_system_id ` set (db_systems d)"
    by (metis list.set_map)+
  moreover have "attempts_known x \<longleftrightarrow> at_system_id ` set (db_attempts x) \<subseteq> sy_system_id ` set (db_systems x)" for x :: db
    by (auto simp: attempts_known_def)
  ultimately show ?thesis by (simp add: known_system_def)
qed

definition owners :: "db \<Rightarrow> string list \<times> string list" where
  "owners d = (map at_system_id (db_attempts d), map sy_system_id (db_systems d))"

lemma owners_known: "tx_rel (same owners) m \<Longrightarrow> tx_rel (keeps attempts_known) m \<and> tx_rel (keeps (known_system s)) m"
  unfolding tx_rel_def same_def keeps_def owners_def using known_attempts [of _ _ s] by (metis prod.inject)

lemmas owners_rules = frame_rules frame.rel_modify db_frame.rel_update db_frame.rel_update_checked db_frame.rel_insert_or_ignore db_frame.rel_insert

lemma around_dispatch_owners:
  "tx_rel (same owners) (check_quotas cfg e now)" "tx_rel (same owners) (admitLearningUses e now)"
  "tx_rel (same owners) (terminalCall e state reason)" "tx_rel (same owners) (update_call i f)"
  "tx_rel (same owners) (charge_system s (\<lambda>x. x\<lparr>sy_reserved_tokens := r x\<rparr>))"
  "tx_rel (same owners) (charge_system s (\<lambda>x. x\<lparr>sy_reserved_tokens := r x, sy_used_tokens := u x\<rparr>))"
  "tx_rel (same owners) (charge_goal s g h)" "tx_rel (same owners) (chargeAgents e reserved used)"
  "tx_rel (same owners) (update_system s (\<lambda>x. x\<lparr>sy_last_admission := n\<rparr>))" "tx_rel (same owners) (auditExecution s i action v now)"
  "tx_rel (same owners) (update_goal s g h)" "tx_rel (same owners) (cool_group cfg cooldown acc grp)"
  unfolding check_quotas_def quota_step_def admitLearningUses_def consume_use_def terminalCall_def update_call_def charge_system_def
    charge_goal_def chargeAgents_def budgetAgents_def update_system_def auditExecution_def update_goal_def cool_group_def Let_def
  by (intro owners_rules db_frame.rel_pure [OF pending_use_pure] db_frame.rel_pure [OF readTask_pure];
      simp add: same_def owners_def map_update_where)+

lemma dispatch_known: "tx_rel (keeps (known_system (e_system_id e))) (dispatch cfg e dispatchAt now)"
  unfolding dispatch_def
  by (intro invariant.rels around_dispatch_owners [THEN owners_known, THEN conjunct2] db_invariant.rel_update invariant.rel_modify)
    (auto simp: keeps_def known_system_def attempts_known_def attempt_of_def)

lemma admit_loop_known: "tx_rel (keeps attempts_known) (admit_loop H cfg session now ids)"
proof (induction ids)
  case Nil then show ?case by (simp add: invariant.rel_return)
next
  case (Cons i ids)
  have pure: "tx_rel (keeps (known_system s)) (or_else r (checkTaskAdmission H cfg e now))" for s r e
    by (intro db_invariant.rel_pure or_else_pure checkTaskAdmission_pure)
  have rest: "tx_rel (keeps (known_system (e_system_id e))) (tx_bind (or_else r (checkTaskAdmission H cfg e now)) (\<lambda>reason.
     if reason \<noteq> '''' then tx_seq (terminalCall e Rejected reason) (tx_return Skipped) else admit_capacity cfg session e now))" for e r
    unfolding admit_capacity_def admit_uses_def
    by (intro invariant.rels pure dispatch_known around_dispatch_owners [THEN owners_known, THEN conjunct2])
  have "tx_rel (keeps attempts_known) (admit_candidate H cfg session now i)"
    unfolding admit_candidate_def
  proof (rule invariant.rel_bind [OF db_invariant.rel_pure [OF readExecution_pure]],
      rule invariant.rel_bind_known [OF db_invariant.rel_pure [OF readSystem_pure]])
    fix e :: execution and d saved d' assume read: "readSystem H localAdministrator (e_system_id e) d = (Inr saved, d')"
    then have "e_system_id e \<in> sy_system_id ` set (db_systems d')" by (rule readSystem_parts) (metis imageI)
    then show "keeps attempts_known d' (snd (tx_bind (or_else (candidate_refusal (Inspect H cfg saved) e now) (checkTaskAdmission H cfg e now))
        (\<lambda>reason. if reason \<noteq> '''' then tx_seq (terminalCall e Rejected reason) (tx_return Skipped) else admit_capacity cfg session e now) d'))"
      using rest [of e "candidate_refusal (Inspect H cfg saved) e now"] by (auto simp: tx_rel_def keeps_def known_system_def)
  qed
  with Cons.IH show ?case unfolding admit_loop.simps
    by (intro invariant.rel_bind) (simp_all split: candidate_outcome.splits add: invariant.rel_return)
qed

lemma broker_known:
  "tx_rel (keeps attempts_known) (admit H cfg session now)" "tx_rel (keeps attempts_known) (queue_call session)"
  "tx_rel (keeps attempts_known) (CancelModelCall session)"
  unfolding admit_def queue_call_def CancelModelCall_def authorizeCall_def
  by (intro invariant.rels admit_loop_known around_dispatch_owners [THEN owners_known, THEN conjunct1] db_invariant.rel_pure [OF readExecution_pure])+

lemma settle_known: "tx_rel (keeps attempts_known) (settle cfg session p now)"
proof -
  have attempts: "tx_rel (same owners) (tx_update db_attempts_update P f)" if "\<And>a. at_system_id (f a) = at_system_id a" for P f
    by (intro db_frame.rel_update) (simp add: same_def owners_def map_update_where that)
  show ?thesis
    unfolding settle_def settle_usage_def settle_retry_def requeue_def authorizeCall_def Let_def
    by (intro invariant.rels around_dispatch_owners [THEN owners_known, THEN conjunct1] attempts [THEN owners_known, THEN conjunct1]
        db_invariant.rel_find db_invariant.rel_pure [OF readExecution_pure]) simp_all
qed

lemma lastingI:
  assumes "tx_rel history m" "tx_rel (keeps attempts_known) m" "\<And>d. ledger d \<Longrightarrow> ledger (snd (m d))"
  shows "tx_rel lasting m"
  using assms by (auto simp: tx_rel_def keeps_def lasting_def books_def attempts_known_def)

lemma broker_lasting:
  "tx_rel lasting (admit H cfg session now)" "tx_rel lasting (settle cfg session p now)"
  "tx_rel lasting (queue_call session)" "tx_rel lasting (CancelModelCall session)"
  by (intro lastingI broker_history broker_known settle_history settle_known admit_balanced settle_balanced queue_call_balanced
      CancelModelCall_balanced; assumption)+

section \<open>The store\<close>

text \<open>One exported operation of the store, with any arguments, at any time.\<close>

inductive step :: "db \<Rightarrow> db \<Rightarrow> bool" where
  create: "step d (snd (CreateSystem H owner key creation cfg configID now d))"
| revise: "step d (snd (ReviseSystem H owner key systemID revision cfg configID now d))"
| start: "step d (snd (StartSystem H owner key systemID holder begin_command cfg now d))"
| stop: "step d (snd (StopSystem H owner key systemID now d))"
| propose: "step d (snd (ProposeTool H cfg key systemID draft now d))"
| change_draft: "step d (snd (ChangeDraftState H key systemID change i now d))"
| revoke: "step d (snd (RevokeTool H cfg key systemID revocation now d))"
| assign: "step d (snd (AssignTools H cfg key systemID assignment i now d))"
| input: "step d (snd (AddInput H key systemID given now d))"
| attach: "step d (snd (AddAttachment H key systemID attachment now d))"
| control: "step d (snd (Control H cfg key systemID scope action i now d))"
| memory: "step d (snd (PutMemory H cfg key systemID note now d))"
| change_memory: "step d (snd (ChangeMemoryState H cfg key systemID n i change_name now d))"
| schedule: "step d (snd (CreateSchedule H ts cfg key systemID plan now d))"
| subscribe: "step d (snd (CreateSubscription H cfg key systemID interest now d))"
| cancel_trigger: "step d (snd (CancelTrigger H key systemID i kind now d))"
| checks: "step d (snd (CreateChecks H key systemID cases now d))"
| feedback: "step d (snd (AddFeedback H key systemID opinion now d))"
| evaluate: "step d (snd (EvaluateLearning H gp cfg holder key systemID evaluation now d))"
| approve: "step d (snd (ApproveLearning H fs cfg key systemID approval i now d))"
| complete_evaluation: "step d (snd (CompleteEvaluation H fs cfg holder session evidence binary failure now d))"
| claim: "step d (snd (claim H ts cfg holder active now d))"
| finish: "step d (snd (finishDelivery H cfg holder closing session worker_error canceled now d))"
| recover: "step d (snd (RecoverExecutions now d))"
| queue_call: "step d (snd (queue_call session d))"
| admit: "step d (snd (admit H cfg session now d))"
| settle: "step d (snd (settle cfg session result now d))"
| cancel_call: "step d (snd (CancelModelCall session d))"
| prepare_tool: "step d (snd (PrepareTool en session request now d))"
| complete_tool: "step d (snd (CompleteTool en prepared report now d))"

lemmas store_steady = CreateSystem_steady ReviseSystem_steady StartSystem_steady StopSystem_steady drafts_steady inputs_steady
  Control_steady memory_steady trigger_commands_steady learning_commands_steady EvaluateLearning_steady ApproveLearning_steady
  CompleteEvaluation_steady RecoverExecutions_steady PrepareTool_steady CompleteTool_steady

lemmas store_lasting = store_steady [THEN steady_lasting] claim_lasting finishDelivery_lasting broker_lasting

lemma step_lasting: "step d d' \<Longrightarrow> lasting d d'"
  by (erule step.cases; hypsubst; rule store_lasting [unfolded tx_rel_def, rule_format])

inductive reachable :: "db \<Rightarrow> bool" where
  opened: "reachable (empty_db entropy)"
| stepped: "reachable d \<Longrightarrow> step d d' \<Longrightarrow> reachable d'"

lemma steps_lasting: "step\<^sup>*\<^sup>* d d' \<Longrightarrow> lasting d d'"
  by (induction rule: rtranclp_induct) (auto intro: lasting.R_refl lasting.R_trans step_lasting)

lemma empty_books: "books (empty_db entropy)"
  by (simp add: books_def ledger_def keyed_calls_def running_attempts_def running_calls_def unsettled_def empty_db_def)

lemma reachable_kept: "reachable d \<Longrightarrow> books d"
  by (induction rule: reachable.induct) (use empty_books step_lasting in \<open>auto simp: lasting_def\<close>)

end
