(* ===== verification/ToolRuns.thy ===== *)
theory ToolRuns
  imports Runs
begin

section \<open>A tool call is decided once\<close>

definition tool_row :: "db \<Rightarrow> string \<Rightarrow> string \<Rightarrow> string \<Rightarrow> tool_call_row option" where
  "tool_row d systemID callID i = List.find (\<lambda>r. tl_system_id r = systemID \<and> tl_call_id r = callID \<and> tl_tool_call_id r = i) (db_tool_calls d)"

lemma find_prefix:
  assumes "prefix (map f xs) (map f ys)" "List.find P xs = Some x" "\<And>x y. f x = f y \<Longrightarrow> P x = P y"
  shows "\<exists>y. List.find P ys = Some y \<and> f y = f x"
  using assms
proof (induction xs arbitrary: ys)
  case (Cons a xs)
  from Cons.prems(1) obtain b ys' where ys: "ys = b # ys'" "f a = f b" "prefix (map f xs) (map f ys')" by (cases ys) auto
  have same: "P a = P b" by (rule Cons.prems(3) [OF ys(2)])
  show ?case
  proof (cases "P a")
    case True
    with Cons.prems(2) ys(1,2) same show ?thesis by simp
  next
    case False
    with Cons.prems(2) have "List.find P xs = Some x" by simp
    from Cons.IH [OF ys(3) this Cons.prems(3)] show ?thesis using False ys(1) same by simp
  qed
qed simp

text \<open>The row of a tool call and what was asked stay, whatever the store does next.\<close>

lemma history_tool_row:
  assumes "history d d'" "tool_row d s c i = Some r"
  shows "\<exists>r'. tool_row d' s c i = Some r' \<and> tl_arguments_hash r' = tl_arguments_hash r"
proof -
  have "prefix (map tool_request (db_tool_calls d)) (map tool_request (db_tool_calls d'))"
    using assms(1) by (simp add: history_def origins_def)
  from find_prefix [OF this assms(2) [unfolded tool_row_def]] show ?thesis
    by (auto simp: tool_row_def tool_request_def)
qed

lemma decided_task_pure: "tx_rel (=) (decided_task session action now)"
  unfolding decided_task_def authorizeCall_def Let_def by (intro pure_rules reading)

lemma live_session_pure: "tx_rel (=) (live_session owner i t)"
  unfolding live_session_def by (intro pure_rules)

lemma resolved_tool_pure: "tx_rel (=) (resolved_tool en t action now)"
  unfolding resolved_tool_def Let_def tx_checked_def by (intro pure_rules reading)

lemma decided_task_ok:
  assumes "decided_task session action now d = (Inr (e, t), d')"
  shows "\<exists>e0. authorizeCall session d = (Inr e0, d) \<and> e = e0\<lparr>e_event_id := e_event_id session\<rparr>"
    and "e_state e = Completed" "e_actions e = [action]" "readTask (e_system_id e) (e_task_id e) d = (Inr t, d)"
    and "t_call_id t = e_call_id e" "\<not> TaskTerminal (t_state t)" "t_control t \<noteq> CStopped" "now < e_deadline e"
  using assms
  by (auto simp: decided_task_def Let_def authorizeCall_ok runs elim!: tx_bind_ok tx_seq_ok)

lemma decided_task_ids:
  assumes "decided_task session action now d = (Inr (e, t), d')" "e_call_id session \<noteq> ''''"
  shows "e_system_id e = e_system_id session" "e_call_id e = e_call_id session"
  using decided_task_ok(1) [OF assms(1)] assms(2)
  by (auto simp: authorizeCall_ok readExecution_ok call_of_def execution_of_def dest!: find_SomeD)

lemma PrepareTool_cases:
  assumes "PrepareTool en session action now d = (Inr plan, d')"
  obtains e t pin tool cfg where
    "decided_task session action now d = (Inr (e, t), d)" "live_session (en_owner en) (e_event_id session) t d = (Inr (), d)"
    "resolved_tool en t action now d = (Inr (pin, tool, cfg), d)"
    "(\<exists>r. tool_row d (e_system_id e) (e_call_id e) (mt_id action) = Some r \<and>
        tl_arguments_hash r = JsonDigest (en_hash en) (json_tool_call action) \<and> tl_state r = Completed \<and>
        plan = tool_result (tl_result r) \<and> d' = d) \<or>
     (tool_row d (e_system_id e) (e_call_id e) (mt_id action) = None \<and>
        fresh_tool en e t pin tool action (JsonDigest (en_hash en) (json_tool_call action)) now d = (Inr plan, d'))"
proof -
  from assms obtain e t pin tool cfg where steps:
    "decided_task session action now d = (Inr (e, t), d)" "live_session (en_owner en) (e_event_id session) t d = (Inr (), d)"
    "resolved_tool en t action now d = (Inr (pin, tool, cfg), d)"
    and run: "(case List.find (is_tool_call e action) (db_tool_calls d) of
        Some r \<Rightarrow> replayed_tool (JsonDigest (en_hash en) (json_tool_call action)) r
      | None \<Rightarrow> fresh_tool en e t pin tool action (JsonDigest (en_hash en) (json_tool_call action)) now) d = (Inr plan, d')"
  proof -
    from assms obtain et d1 where 1: "decided_task session action now d = (Inr et, d1)"
      and 2: "(case et of (e, t) \<Rightarrow> tx_seq (live_session (en_owner en) (e_event_id session) t)
        (tx_bind (resolved_tool en t action now) (\<lambda>(pin, definition, cfg).
         tx_bind (tx_gets (\<lambda>d. List.find (is_tool_call e action) (db_tool_calls d))) (\<lambda>saved.
         case saved of Some r \<Rightarrow> replayed_tool (JsonDigest (en_hash en) (json_tool_call action)) r
         | None \<Rightarrow> fresh_tool en e t pin definition action (JsonDigest (en_hash en) (json_tool_call action)) now)))) d1 = (Inr plan, d')"
      unfolding PrepareTool_def transaction_ok Let_def by (rule tx_bind_ok)
    obtain e t where et: "et = (e, t)" by (cases et)
    from 2 obtain d2 where 3: "live_session (en_owner en) (e_event_id session) t d1 = (Inr (), d2)"
      and 4: "tx_bind (resolved_tool en t action now) (\<lambda>(pin, definition, cfg).
         tx_bind (tx_gets (\<lambda>d. List.find (is_tool_call e action) (db_tool_calls d))) (\<lambda>saved.
         case saved of Some r \<Rightarrow> replayed_tool (JsonDigest (en_hash en) (json_tool_call action)) r
         | None \<Rightarrow> fresh_tool en e t pin definition action (JsonDigest (en_hash en) (json_tool_call action)) now)) d2 = (Inr plan, d')"
      unfolding et prod.case by (rule tx_seq_ok)
    from 4 obtain r d3 where 5: "resolved_tool en t action now d2 = (Inr r, d3)"
      and 6: "(case r of (pin, definition, cfg) \<Rightarrow>
         tx_bind (tx_gets (\<lambda>d. List.find (is_tool_call e action) (db_tool_calls d))) (\<lambda>saved.
         case saved of Some r \<Rightarrow> replayed_tool (JsonDigest (en_hash en) (json_tool_call action)) r
         | None \<Rightarrow> fresh_tool en e t pin definition action (JsonDigest (en_hash en) (json_tool_call action)) now)) d3 = (Inr plan, d')"
      by (rule tx_bind_ok)
    have d: "d1 = d" "d2 = d" "d3 = d"
      using tx_rel_result [OF decided_task_pure 1] tx_rel_result [OF live_session_pure 3] tx_rel_result [OF resolved_tool_pure 5] by auto
    obtain pin tool cfg where r: "r = (pin, tool, cfg)" by (cases r)
    show ?thesis using 1 3 5 6 unfolding d et r prod.case by (intro that) (auto elim!: tx_bind_ok)
  qed
  have row: "tool_row d (e_system_id e) (e_call_id e) (mt_id action) = List.find (is_tool_call e action) (db_tool_calls d)"
    unfolding tool_row_def is_tool_call_def by simp
  from run show thesis
    by (intro that [OF steps]) (auto simp: row replayed_tool_def split: option.splits elim!: tx_seq_ok)
qed

lemma fresh_tool_recorded:
  assumes "fresh_tool en e t pin tool action hash now d = (Inr plan, d')"
    and "tool_row d (e_system_id e) (e_call_id e) (mt_id action) = None"
  shows "\<exists>r. tool_row d' (e_system_id e) (e_call_id e) (mt_id action) = Some r \<and> tl_arguments_hash r = hash"
proof -
  let ?rest = "if pin_name pin \<noteq> ''runtime.text.analyze'' \<and> \<not> local_name (pin_name pin)
        then run_builtin en e t pin action now else plan_subprocess en e t pin tool action now"
  from assms(1) obtain d1 where rec: "record_tool_call e t pin action hash d = (Inr (), d1)" and rest: "?rest d1 = (Inr plan, d')"
    unfolding fresh_tool_def by (auto elim: tx_seq_ok)
  have row: "\<exists>r. tool_row d1 (e_system_id e) (e_call_id e) (mt_id action) = Some r \<and> tl_arguments_hash r = hash"
    using rec assms(2) by (auto simp: record_tool_call_def tool_row_def find_append elim!: tx_seq_ok)
  have st: "tx_rel steady ?rest"
    unfolding run_builtin_def plan_subprocess_def generated_binary_def Let_def by (intro steady_rules steadily)
  from tx_rel_result [OF st rest] have "history d1 d'" by (auto simp: steady_def)
  with row show ?thesis using history_tool_row by metis
qed

lemma PrepareTool_recorded:
  assumes "PrepareTool en session action now d = (Inr plan, d')" "e_call_id session \<noteq> ''''"
  shows "\<exists>r. tool_row d' (e_system_id session) (e_call_id session) (mt_id action) = Some r \<and>
    tl_arguments_hash r = JsonDigest (en_hash en) (json_tool_call action)"
  using assms(1)
proof (rule PrepareTool_cases)
  fix e t pin tool cfg
  assume dec: "decided_task session action now d = (Inr (e, t), d)" and
    cases: "(\<exists>r. tool_row d (e_system_id e) (e_call_id e) (mt_id action) = Some r \<and>
        tl_arguments_hash r = JsonDigest (en_hash en) (json_tool_call action) \<and> tl_state r = Completed \<and>
        plan = tool_result (tl_result r) \<and> d' = d) \<or>
     (tool_row d (e_system_id e) (e_call_id e) (mt_id action) = None \<and>
        fresh_tool en e t pin tool action (JsonDigest (en_hash en) (json_tool_call action)) now d = (Inr plan, d'))"
  have ids: "e_system_id e = e_system_id session" "e_call_id e = e_call_id session"
    using decided_task_ids [OF dec assms(2)] by auto
  from cases show ?thesis
  proof
    assume "tool_row d (e_system_id e) (e_call_id e) (mt_id action) = None \<and>
        fresh_tool en e t pin tool action (JsonDigest (en_hash en) (json_tool_call action)) now d = (Inr plan, d')"
    then show ?thesis using fresh_tool_recorded ids by metis
  qed (use ids in auto)
qed

section \<open>What holds of every run of the store\<close>

text \<open>
  C28. In every database the store can reach from an empty one, whatever operations it was asked
  and whether they succeeded, a system's reserved tokens are exactly the reservations of its
  attempts that are not settled, each running call has one running attempt and no running
  attempt is without its call, and every attempt belongs to a system of the store.
\<close>

theorem reachable_books:
  assumes "reachable d"
  shows "(\<forall>s \<in> set (db_systems d). sy_reserved_tokens s = unsettled d (sy_system_id s)) \<and>
     distinct (map fst (running_attempts d)) \<and> set (running_attempts d) = set (running_calls d) \<and>
     at_system_id ` set (db_attempts d) \<subseteq> sy_system_id ` set (db_systems d)"
  using reachable_kept [OF assms] by (auto simp: books_def ledger_def)

theorem reachable_books_applied:
  "\<exists>d r. CreateSystem sample_digest localAdministrator ''k'' sound_command bootstrapped_cfg ''c'' 0 (empty_db [''1'', ''2'', ''3'']) = (Inr r, d) \<and>
     map sy_reserved_tokens (db_systems d) = map (\<lambda>s. unsettled d (sy_system_id s)) (db_systems d)"
proof -
  obtain r d where run: "CreateSystem sample_digest localAdministrator ''k'' sound_command bootstrapped_cfg ''c'' 0
      (empty_db [''1'', ''2'', ''3'']) = (Inr r, d)" by (rule created)
  have "reachable d"
    using reachable.stepped [OF reachable.opened step.create] run by (metis snd_conv)
  from reachable_books [OF this] run show ?thesis by auto
qed

text \<open>
  C29. Nothing the store does takes back its history: along any run of its operations the
  revisions, audit entries, receipts, events, artifacts, revocations, protected checks, feedback
  and occurrences only grow, in order; the identity and grants of a system, goal, task, call,
  attempt, tool call, draft and approval never change; and a settled attempt stays as settled.
\<close>

theorem steps_history:
  assumes "step\<^sup>*\<^sup>* d d'"
  shows "archive d d' \<and> origins d d' \<and> {a \<in> set (db_attempts d). at_state a \<noteq> Running} \<subseteq> set (db_attempts d')"
  using steps_lasting [OF assms] by (auto simp: lasting_def history_def settled_stay_def)

theorem steps_history_applied:
  "\<exists>d r. CreateSystem sample_digest localAdministrator ''k'' sound_command bootstrapped_cfg ''c'' 0 (empty_db [''1'', ''2'', ''3'']) = (Inr r, d) \<and>
     prefix (db_revisions d) (db_revisions (snd (StopSystem sample_digest localAdministrator ''j'' ''1'' 5 d)))"
proof -
  obtain r d where run: "CreateSystem sample_digest localAdministrator ''k'' sound_command bootstrapped_cfg ''c'' 0
      (empty_db [''1'', ''2'', ''3'']) = (Inr r, d)" by (rule created)
  have "step\<^sup>*\<^sup>* d (snd (StopSystem sample_digest localAdministrator ''j'' ''1'' 5 d))"
    by (rule r_into_rtranclp) (rule step.stop)
  from steps_history [OF this] run show ?thesis by (auto simp: archive_def)
qed

section \<open>A tool call has one effect\<close>

text \<open>
  C27. A tool call is decided once. When a request prepared its tool, then after any number of
  operations of the store a second request under the same identity (the same system, call and
  tool-call ID) that is accepted is the same request, digest for digest; it dispatches nothing,
  changes nothing, and gets the result the first one stored.
\<close>

theorem PrepareTool_once:
  assumes first: "PrepareTool en session action now d = (Inr plan, d1)" and call: "e_call_id session \<noteq> ''''"
    and run: "step\<^sup>*\<^sup>* d1 d2"
    and again: "PrepareTool en session' action' now' d2 = (Inr plan', d3)"
    and same: "e_system_id session' = e_system_id session" "e_call_id session' = e_call_id session" "mt_id action' = mt_id action"
  shows "JsonDigest (en_hash en) (json_tool_call action') = JsonDigest (en_hash en) (json_tool_call action) \<and>
     d3 = d2 \<and> \<not> pl_dispatch plan' \<and>
     (\<exists>r. tool_row d2 (e_system_id session) (e_call_id session) (mt_id action) = Some r \<and> tl_state r = Completed \<and>
        pl_result plan' = tl_result r)"
proof -
  have "history d1 d2" using steps_lasting [OF run] by (simp add: lasting_def)
  with PrepareTool_recorded [OF first call] obtain r where
    r: "tool_row d2 (e_system_id session) (e_call_id session) (mt_id action) = Some r"
      "tl_arguments_hash r = JsonDigest (en_hash en) (json_tool_call action)"
    using history_tool_row by metis
  from again obtain e t where dec: "decided_task session' action' now' d2 = (Inr (e, t), d2)"
    and replay: "\<exists>r. tool_row d2 (e_system_id e) (e_call_id e) (mt_id action') = Some r \<and>
        tl_arguments_hash r = JsonDigest (en_hash en) (json_tool_call action') \<and> tl_state r = Completed \<and>
        plan' = tool_result (tl_result r) \<and> d3 = d2 \<or> tool_row d2 (e_system_id e) (e_call_id e) (mt_id action') = None"
    by (rule PrepareTool_cases) blast
  have "e_system_id e = e_system_id session" "e_call_id e = e_call_id session"
    using decided_task_ids [OF dec] call same by auto
  with replay r same show ?thesis by (auto simp: tool_result_def)
qed

section \<open>The properties, applied\<close>

text \<open>The sample deployment with its call decided: the tool it asked for has run, its mail is still held.\<close>

definition asked_action :: model_tool_call where
  "asked_action = \<lparr>mt_id = ''x'', mt_type = ''function'', mt_name = ''fn_d'', mt_arguments = ''{}''\<rparr>"

definition asked_pin :: tool_pin where
  "asked_pin = \<lparr>pin_name = ''runtime.capabilities'', pin_version = 1, pin_digest = ''d''\<rparr>"

definition asked_task :: task_row where
  "asked_task = sample_task\<lparr>t_tools := [asked_pin]\<rparr>"

definition asked_call :: call_row where
  "asked_call = sample_call\<lparr>mc_state := Completed, mc_actions := [asked_action]\<rparr>"

definition asked_row :: tool_call_row where
  "asked_row = \<lparr>tl_system_id = ''sys'', tl_call_id = ''call'', tl_tool_call_id = ''x'', tl_task_id = ''t'',
     tl_name = ''runtime.capabilities'', tl_version = 1, tl_arguments_hash = ''d'', tl_state = Completed, tl_result = ''known''\<rparr>"

definition asked_db :: db where
  "asked_db = sample_db\<lparr>db_calls := [asked_call], db_tasks := [asked_task],
     db_mailboxes := [\<lparr>mb_sequence = 1, mb_system_id = ''sys'', mb_event_id = ''ev'', mb_recipient = ''op'', mb_task_id = ''t'',
       mb_state = MLeased, mb_lease_owner = ''worker'', mb_lease_until = 60000, mb_attempts = 1, mb_not_before = 0, mb_reason = '''',
       mb_applied = False\<rparr>],
     db_tool_calls := [asked_row]\<rparr>"

definition asked_session :: execution where
  "asked_session = (execution_of asked_db asked_call sample_goal)\<lparr>e_event_id := ''ev''\<rparr>"

definition asked_engine :: engine where
  "asked_engine = \<lparr>en_hash = sample_digest, en_wide = (\<lambda>n. n), en_config = sample_cfg, en_owner = ''worker'',
     en_parser = (\<lambda>_. None), en_services = \<lparr>ts_zone = (\<lambda>_. False), ts_cron = (\<lambda>_. None)\<rparr>,
     en_files = \<lparr>fl_read = (\<lambda>_. Inl ErrNoRows), fl_write = (\<lambda>_ _. None)\<rparr>\<rparr>"

lemma asked_tables:
  "db_calls asked_db = [asked_call]" "db_tasks asked_db = [asked_task]" "db_systems asked_db = [sample_system]"
  "db_goals asked_db = [sample_goal]" "db_revocations asked_db = []"
  by (simp_all add: asked_db_def sample)

lemma asked_arguments: "ValidateArguments (\<lambda>n. n) (the (map_of schema_parameters ''runtime.capabilities'')) ''{}'' = None"
  by code_simp

lemma asked_decided: "decided_task asked_session asked_action 1000 asked_db = (Inr (asked_session, asked_task), asked_db)"
proof -
  have read: "readExecution ''sys'' ''call'' asked_db = (Inr (execution_of asked_db asked_call sample_goal), asked_db)"
    by (simp add: readExecution_def tx_row_def call_of_def goal_of_def asked_tables sample)
      (simp add: asked_call_def sample_call_def)
  have task: "readTask ''sys'' ''t'' asked_db = (Inr asked_task, asked_db)"
    by (simp add: readTask_def tx_find_def tx_row_def asked_tables asked_task_def sample)
  let ?e = "execution_of asked_db asked_call sample_goal"
  have fields: "e_system_id ?e = ''sys''" "e_call_id ?e = ''call''" "e_task_id ?e = ''t''" "e_state ?e = Completed"
      "e_actions ?e = [asked_action]" "e_deadline ?e = 90000"
    by (simp_all add: execution_of_def asked_call_def sample_call_def sample_goal_def)
  have "t_call_id asked_task = ''call''" "t_state asked_task = Running" "t_control asked_task = CActive"
    by (simp_all add: asked_task_def sample_task_def)
  then show ?thesis
    by (simp add: decided_task_def authorizeCall_def tx_defs asked_session_def read task TaskTerminal_def fields Let_def)
qed

lemma asked_resolved: "\<exists>r. resolved_tool asked_engine asked_task asked_action 1000 asked_db = (Inr r, asked_db) \<and> fst r = asked_pin"
proof -
  have "\<exists>t. Tool sample_cfg ''runtime.capabilities'' = Some t \<and> tc_kind t = ''executable'' \<and> tc_version t = 1 \<and> tc_requires_tools t = Some []"
    by (simp add: Tool_def BuiltinTool_def builtin_descriptions_def builtin_tool_def)
  then obtain t where tool: "Tool sample_cfg ''runtime.capabilities'' = Some t" "tc_kind t = ''executable''" "tc_version t = 1"
      "tc_requires_tools t = Some []" by blast
  have "map_of schema_parameters ''runtime.capabilities'' \<noteq> None" by (simp add: schema_parameters_def)
  then obtain s where schema: "map_of schema_parameters ''runtime.capabilities'' = Some s" by blast
  with asked_arguments have valid: "ValidateArguments (\<lambda>n. n) s ''{}'' = None" by simp
  have [simp]: "t_tools asked_task = [asked_pin]" "local_name ''runtime.capabilities'' = False" "t_system_id asked_task = ''sys''"
    by (simp_all add: asked_task_def sample local_name_def has_prefix_def)
  show ?thesis
    by (simp add: resolved_tool_def authorizePins_def loadLocalTools_def loadLocalTool_def WithLocalTools_def Let_def
        authorizePin_def tool ResolveTool_def WireToolName_def ExecutableSchema_def tx_checked_def valid
        asked_engine_def asked_pin_def asked_action_def JsonDigest_def sample_digest_def
        revoked_def exists_where_def asked_tables pins_closed_def requires_def the_tool_def tx_defs tx_gets_def schema)
qed

lemma asked_prepared: "PrepareTool asked_engine asked_session asked_action 1000 asked_db = (Inr (tool_result ''known''), asked_db)"
proof -
  obtain tool cfg where r: "resolved_tool asked_engine asked_task asked_action 1000 asked_db = (Inr (asked_pin, tool, cfg), asked_db)"
    using asked_resolved by (metis prod.collapse)
  have live: "live_session ''worker'' ''ev'' asked_task asked_db = (Inr (), asked_db)"
    by (simp add: live_session_def tx_count_def count_where_def held_mail_def work_stopped_def goal_of_def asked_tables
        asked_task_def sample tx_defs tx_gets_def) (simp add: asked_db_def held_mail_def sample)
  have [simp]: "e_event_id asked_session = ''ev''" "e_system_id asked_session = ''sys''" "e_call_id asked_session = ''call''"
    by (simp_all add: asked_session_def execution_of_def asked_call_def sample_call_def sample_goal_def)
  have engine: "en_owner asked_engine = ''worker''" "en_hash asked_engine = sample_digest" by (simp_all add: asked_engine_def)
  have row: "List.find (is_tool_call asked_session asked_action) (db_tool_calls asked_db) = Some asked_row"
    by (simp add: asked_db_def is_tool_call_def) (simp add: asked_row_def asked_action_def)
  have replay: "replayed_tool ''d'' asked_row asked_db = (Inr (tool_result ''known''), asked_db)"
    by (simp add: replayed_tool_def tx_defs) (simp add: asked_row_def)
  show ?thesis
    by (simp add: PrepareTool_def asked_decided r tx_bind_def tx_seq_def transaction_def tx_gets_def engine live row
      JsonDigest_def sample_digest_def replay Let_def)
qed

theorem PrepareTool_once_applied:
  "\<exists>d. PrepareTool asked_engine asked_session asked_action 1000 asked_db = (Inr (tool_result ''known''), d) \<and>
     d = asked_db \<and> \<not> pl_dispatch (tool_result ''known'')"
proof -
  have "e_call_id asked_session \<noteq> ''''" by (simp add: asked_session_def execution_of_def asked_call_def sample_call_def)
  from PrepareTool_once [OF asked_prepared this rtranclp.rtrancl_refl asked_prepared refl refl refl] asked_prepared
  show ?thesis by blast
qed

end
