(* ===== verification/Views.thy ===== *)
theory Views
  imports Tasks ToolCalls
begin

text \<open>
  What the interface reads (views.go, activity.go, events.go): the agents, tasks, events,
  artifacts, tool calls, triggers and learning records of a system in pages of twenty, one
  artifact, and the snapshot of its activity. A listing is one query ordered by its key with
  LIMIT 21 and the cursor of the last row shown when there are more; the code reads the listing
  and what it names in separate transactions, here in one. The theorem at the end shows that a
  client that follows the cursors gets every row exactly once and in order.
\<close>

section \<open>Pages\<close>

text \<open>ORDER BY key LIMIT 21 over the rows after the cursor, cut to twenty.\<close>

definition listing :: "('r \<Rightarrow> 'k::linorder) \<Rightarrow> 'k \<Rightarrow> 'r list \<Rightarrow> 'r list \<times> 'r option" where
  "listing key after rows = page (take 21 (sort_key key (filter (\<lambda>r. key r > after) rows)))"

definition cursor :: "('r \<Rightarrow> string) \<Rightarrow> 'r option \<Rightarrow> string" where
  "cursor key r = (case r of None \<Rightarrow> '''' | Some x \<Rightarrow> key x)"

text \<open>A listing of the rows of one system, which the caller must be able to read.\<close>

definition read_listing :: "(string \<Rightarrow> string) \<Rightarrow> string \<Rightarrow> (db \<Rightarrow> 'r list) \<Rightarrow> ('r \<Rightarrow> bool) \<Rightarrow> ('r \<Rightarrow> 'k::linorder) \<Rightarrow> 'k \<Rightarrow>
    ('r list \<times> 'r option) op" where
  "read_listing H systemID rows P key after =
     tx_bind (readSystem H localAdministrator systemID) (\<lambda>_. tx_gets (\<lambda>d. listing key after (filter P (rows d))))"

section \<open>Listings\<close>

definition ListAgents :: "(string \<Rightarrow> string) \<Rightarrow> string \<Rightarrow> string \<Rightarrow> (agent_record list \<times> string) op" where
  "ListAgents H systemID after = read_only
     (tx_bind (read_listing H systemID db_agents (\<lambda>a. ag_system_id a = systemID) ag_agent_id after) (\<lambda>(rows, next_row).
      tx_bind (tx_map (\<lambda>a. readAgent systemID (ag_agent_id a) 0) rows) (\<lambda>agents.
      tx_return (agents, cursor ag_agent_id next_row))))"

definition ListTasks :: "(string \<Rightarrow> string) \<Rightarrow> string \<Rightarrow> string \<Rightarrow> (task_row list \<times> string) op" where
  "ListTasks H systemID after = read_only
     (tx_bind (read_listing H systemID db_tasks (\<lambda>t. t_system_id t = systemID) t_id after) (\<lambda>(rows, next_row).
      tx_bind (tx_map (\<lambda>t. readTask systemID (t_id t)) rows) (\<lambda>tasks.
      tx_return (tasks, cursor t_id next_row))))"

text \<open>An event with the delivery of its mail; its version and classification are constant columns.\<close>

record event_view =
  vw_event :: event_row
  vw_state :: mailbox_state
  vw_attempts :: int
  vw_lease_until :: int
  vw_reason :: string

definition event_views :: "db \<Rightarrow> event_row \<Rightarrow> event_view list" where
  "event_views d e =
     map (\<lambda>m. \<lparr>vw_event = e, vw_state = mb_state m, vw_attempts = mb_attempts m, vw_lease_until = mb_lease_until m,
            vw_reason = mb_reason m\<rparr>)
       (filter (\<lambda>m. mb_system_id m = ev_system_id e \<and> mb_event_id m = ev_event_id e) (db_mailboxes d))"

definition ListEvents :: "(string \<Rightarrow> string) \<Rightarrow> string \<Rightarrow> int \<Rightarrow> (event_view list \<times> int) op" where
  "ListEvents H systemID after = read_only
     (tx_bind (read_listing H systemID (\<lambda>d. concat (map (event_views d) (db_events d)))
        (\<lambda>v. ev_system_id (vw_event v) = systemID) (\<lambda>v. ev_sequence (vw_event v)) after) (\<lambda>(rows, next_row).
      tx_return (rows, case next_row of None \<Rightarrow> 0 | Some v \<Rightarrow> ev_sequence (vw_event v))))"

record artifact_entry =
  rn_id :: string
  rn_goal_id :: string
  rn_task_id :: string
  rn_digest :: string
  rn_bytes :: int

definition artifact_entry_of :: "artifact_row \<Rightarrow> artifact_entry" where
  "artifact_entry_of a = \<lparr>rn_id = af_artifact_id a, rn_goal_id = af_goal_id a, rn_task_id = af_task_id a,
     rn_digest = af_digest a, rn_bytes = int (length (af_content a))\<rparr>"

definition ListArtifacts :: "(string \<Rightarrow> string) \<Rightarrow> string \<Rightarrow> string \<Rightarrow> (artifact_entry list \<times> string) op" where
  "ListArtifacts H systemID after = read_only
     (tx_bind (read_listing H systemID db_artifacts (\<lambda>a. af_system_id a = systemID) af_artifact_id after) (\<lambda>(rows, next_row).
      tx_return (map artifact_entry_of rows, cursor af_artifact_id next_row)))"

record tool_receipt =
  tk_call_id :: string
  tk_id :: string
  tk_task_id :: string
  tk_name :: string
  tk_version :: int
  tk_state :: run_state
  tk_result :: string

definition tool_receipt_of :: "tool_call_row \<Rightarrow> tool_receipt" where
  "tool_receipt_of r = \<lparr>tk_call_id = tl_call_id r, tk_id = tl_tool_call_id r, tk_task_id = tl_task_id r, tk_name = tl_name r,
     tk_version = tl_version r, tk_state = tl_state r, tk_result = tl_result r\<rparr>"

definition ListToolCalls :: "(string \<Rightarrow> string) \<Rightarrow> string \<Rightarrow> string \<Rightarrow> (tool_receipt list \<times> string) op" where
  "ListToolCalls H systemID after = read_only
     (tx_bind (read_listing H systemID db_tool_calls (\<lambda>r. tl_system_id r = systemID) tl_call_id after) (\<lambda>(rows, next_row).
      tx_return (map tool_receipt_of rows, cursor tl_call_id next_row)))"

section \<open>One artifact\<close>

record artifact_result =
  ax_id :: string
  ax_task_id :: string
  ax_digest :: string
  ax_content :: json

definition json_valid :: "string \<Rightarrow> bool" where
  "json_valid text \<longleftrightarrow> json_unmarshal Some text \<noteq> None"

text \<open>Its content as JSON: as it is when it is JSON, else quoted as a string.\<close>

definition artifact_json :: "string \<Rightarrow> error + json" where
  "artifact_json content =
     (if json_valid content then Inr (JRaw content)
      else if \<not> valid_utf8 content then Inl (FieldError ''artifact'' ''content is not UTF-8 text or JSON'')
      else Inr (JStr content))"

definition Artifact :: "(string \<Rightarrow> string) \<Rightarrow> string \<Rightarrow> string \<Rightarrow> artifact_result op" where
  "Artifact H systemID artifactID = read_only
     (tx_bind (readSystem H localAdministrator systemID) (\<lambda>_.
      tx_bind (tx_no_rows (tx_find db_artifacts (\<lambda>a. af_system_id a = systemID \<and> af_artifact_id a = artifactID)) ErrSystemNotFound) (\<lambda>a.
      tx_bind (tx_lift (artifact_json (af_content a))) (\<lambda>content.
      tx_return \<lparr>ax_id = artifactID, ax_task_id = af_task_id a, ax_digest = af_digest a, ax_content = content\<rparr>))))"

section \<open>Triggers\<close>

record trigger_entry =
  tg_id :: string
  tg_task_id :: string
  tg_creator :: string
  tg_cron :: string
  tg_timezone :: string
  tg_type :: string
  tg_scope :: string
  tg_content :: string
  tg_due :: int
  tg_expires :: int
  tg_remaining :: int
  tg_state :: trigger_state
  tg_reason :: string

definition schedule_entry :: "schedule_row \<Rightarrow> trigger_entry" where
  "schedule_entry s = \<lparr>tg_id = sd_schedule_id s, tg_task_id = sd_task_id s, tg_creator = sd_creator s,
     tg_cron = sd_expression s, tg_timezone = sd_timezone s, tg_type = '''', tg_scope = '''', tg_content = sd_content s,
     tg_due = sd_next_due s, tg_expires = sd_expires_at s, tg_remaining = sd_remaining s, tg_state = sd_state s, tg_reason = sd_reason s\<rparr>"

definition subscription_entry :: "subscription_row \<Rightarrow> trigger_entry" where
  "subscription_entry s = \<lparr>tg_id = sn_subscription_id s, tg_task_id = sn_task_id s, tg_creator = sn_creator s,
     tg_cron = '''', tg_timezone = '''', tg_type = sn_type s, tg_scope = sn_scope s, tg_content = '''',
     tg_due = 0, tg_expires = sn_expires_at s, tg_remaining = sn_remaining s, tg_state = sn_state s, tg_reason = sn_reason s\<rparr>"

definition ListTriggers :: "(string \<Rightarrow> string) \<Rightarrow> string \<Rightarrow> string \<Rightarrow> bool \<Rightarrow> (string \<times> trigger_entry list \<times> string) op" where
  "ListTriggers H systemID after schedule = read_only
     (if schedule then
        tx_bind (read_listing H systemID db_schedules (\<lambda>s. sd_system_id s = systemID) sd_schedule_id after) (\<lambda>(rows, next_row).
        tx_return (''schedules'', map schedule_entry rows, cursor sd_schedule_id next_row))
      else
        tx_bind (read_listing H systemID db_subscriptions (\<lambda>s. sn_system_id s = systemID) sn_subscription_id after) (\<lambda>(rows, next_row).
        tx_return (''subscriptions'', map subscription_entry rows, cursor sn_subscription_id next_row)))"

section \<open>Learning\<close>

fun evaluation_state_name :: "evaluation_state \<Rightarrow> string" where
  "evaluation_state_name LQueued = ''queued''"
| "evaluation_state_name LEvaluating = ''evaluating''"
| "evaluation_state_name LPendingApproval = ''pending_approval''"
| "evaluation_state_name LActive = ''active''"
| "evaluation_state_name LFailed = ''failed''"
| "evaluation_state_name LRejected = ''rejected''"
| "evaluation_state_name LDisabled = ''disabled''"

text \<open>json_object of the columns, in the order of the query.\<close>

definition evaluation_item :: "evaluation_row \<Rightarrow> json" where
  "evaluation_item e = JObj [(''evaluation_id'', JStr (le_evaluation_id e)), (''tool_id'', JStr (le_tool_id e)),
     (''version'', JInt (le_version e)), (''check_id'', JStr (le_check_id e)), (''origin_task'', JStr (le_origin_task e)),
     (''state'', JStr (evaluation_state_name (le_state e))), (''reason'', JStr (le_reason e)), (''digest'', JStr (le_digest e)),
     (''artifact_digest'', JStr (le_artifact_digest e)), (''profile_digest'', JStr (le_profile_digest e)),
     (''toolchain_digest'', JStr (le_toolchain_digest e)), (''baseline'', json_baseline (le_baseline e)),
     (''evidence'', jslice json_evidence (le_evidence e))]"

definition check_item :: "check_row \<Rightarrow> json" where
  "check_item c = JObj [(''check_id'', JStr (lk_check_id c)), (''digest'', JStr (lk_digest c)),
     (''cases'', JArr (map json_case (lk_cases c))), (''created_at'', JInt (lk_created_at c))]"

definition feedback_item :: "feedback_row \<Rightarrow> json" where
  "feedback_item f = JObj [(''feedback_id'', JStr (lf_feedback_id f)), (''task_id'', JStr (lf_task_id f)),
     (''rating'', JStr (lf_rating f)), (''content'', JStr (lf_content f)), (''created_at'', JInt (lf_created_at f))]"

definition LearningView :: "(string \<Rightarrow> string) \<Rightarrow> string \<Rightarrow> string \<Rightarrow> string \<Rightarrow> (json list \<times> string) op" where
  "LearningView H systemID after part = read_only
     (if part = '''' then
        tx_bind (read_listing H systemID db_evaluations (\<lambda>e. le_system_id e = systemID) le_evaluation_id after) (\<lambda>(rows, next_row).
        tx_return (map evaluation_item rows, cursor le_evaluation_id next_row))
      else if part = ''checks'' then
        tx_bind (read_listing H systemID db_checks (\<lambda>c. lk_system_id c = systemID) lk_check_id after) (\<lambda>(rows, next_row).
        tx_return (map check_item rows, cursor lk_check_id next_row))
      else if part = ''feedback'' then
        tx_bind (read_listing H systemID db_feedback (\<lambda>f. lf_system_id f = systemID) lf_feedback_id after) (\<lambda>(rows, next_row).
        tx_return (map feedback_item rows, cursor lf_feedback_id next_row))
      else tx_bind (readSystem H localAdministrator systemID) (\<lambda>_. tx_fail ErrSystemNotFound))"

section \<open>Activity\<close>

record activity_agent =
  yg_id :: string
  yg_parent :: string
  yg_name :: string
  yg_state :: control
  yg_depth :: int
  yg_model :: string
  yg_task_id :: string
  yg_task_state :: "run_state option"
  yg_control :: "control option"
  yg_assignment :: string
  yg_turns :: int
  yg_reason :: string
  yg_response :: string

record activity_call =
  yc_id :: string
  yc_agent_id :: string
  yc_task_id :: string
  yc_model :: string
  yc_state :: run_state
  yc_tool :: string
  yc_tool_state :: "run_state option"
  yc_input :: int
  yc_output :: int
  yc_usage_known :: bool
  yc_created_at :: int

record activity_event =
  ye_id :: string
  ye_type :: string
  ye_source :: string
  ye_recipient :: string
  ye_task_id :: string
  ye_state :: mailbox_state
  ye_reason :: string
  ye_created_at :: int

record activity =
  ya_system :: system_record
  ya_agents :: "activity_agent list"
  ya_calls :: "activity_call list"
  ya_events :: "activity_event list"
  ya_truncated :: bool

text \<open>The goal that is shown, and its latest tasks: the live ones first, then by descending rowid.\<close>

definition shown_goal :: "system_record \<Rightarrow> string" where
  "shown_goal s = (case sr_execution s of Some e \<Rightarrow> e_goal_id e
     | None \<Rightarrow> (case sr_goal s of Some g \<Rightarrow> ig_id g | None \<Rightarrow> ''''))"

definition shown_tasks :: "db \<Rightarrow> string \<Rightarrow> string \<Rightarrow> string list" where
  "shown_tasks d systemID goalID = map t_id (take 64 (sort_key (TaskTerminal \<circ> t_state)
     (rev (filter (\<lambda>t. t_system_id t = systemID \<and> t_goal_id t = goalID) (db_tasks d)))))"

text \<open>The operator first, then the agents of the goal: stopped ones last, by depth and identity.\<close>

definition shown_agents :: "db \<Rightarrow> string \<Rightarrow> string \<Rightarrow> string \<Rightarrow> string list" where
  "shown_agents d systemID operatorID goalID = map ag_agent_id (take 33
     (sort_key (\<lambda>a. ag_agent_id a \<noteq> operatorID) (sort_key (\<lambda>a. ag_state a = CStopped) (sort_key ag_depth (sort_key ag_agent_id
       (filter (\<lambda>a. ag_system_id a = systemID \<and> (ag_agent_id a = operatorID \<or> ag_goal_id a = goalID)) (db_agents d)))))))"

definition assignment_of :: "task_row \<Rightarrow> string" where
  "assignment_of t = (case List.find (\<lambda>m. cm_role m = ''user'') (t_conversation t) of None \<Rightarrow> '''' | Some m \<Rightarrow> cm_content m)"

definition activity_agent_of :: "agent_record \<Rightarrow> task_row option \<Rightarrow> activity_agent" where
  "activity_agent_of a task = \<lparr>yg_id = a_id a, yg_parent = a_parent a, yg_name = a_name a, yg_state = a_state a,
     yg_depth = a_depth a, yg_model = oc_model (a_definition a),
     yg_task_id = (case task of None \<Rightarrow> '''' | Some t \<Rightarrow> t_id t), yg_task_state = map_option t_state task,
     yg_control = map_option t_control task, yg_assignment = (case task of None \<Rightarrow> '''' | Some t \<Rightarrow> assignment_of t),
     yg_turns = (case task of None \<Rightarrow> 0 | Some t \<Rightarrow> t_turns t), yg_reason = (case task of None \<Rightarrow> '''' | Some t \<Rightarrow> t_reason t),
     yg_response = (case task of None \<Rightarrow> '''' | Some t \<Rightarrow> t_response t)\<rparr>"

text \<open>The tool of a call with one action: its wire name, the pin it stands for, or the recorded call.\<close>

definition tool_shown :: "(string \<Rightarrow> string) \<Rightarrow> task_row list \<Rightarrow> execution \<Rightarrow> string \<Rightarrow> string" where
  "tool_shown H tasks e wire =
     (let pins = (case List.find (\<lambda>t. t_id t = e_task_id e) tasks of None \<Rightarrow> [] | Some t \<Rightarrow> t_tools t)
      in case List.find (\<lambda>p. WireToolName H (pin_name p) = wire) pins of None \<Rightarrow> wire | Some p \<Rightarrow> pin_name p)"

definition activity_call_of :: "(string \<Rightarrow> string) \<Rightarrow> task_row list \<Rightarrow> db \<Rightarrow> string \<Rightarrow> execution \<Rightarrow> activity_call" where
  "activity_call_of H tasks d callID e =
     (let entry = \<lparr>yc_id = callID, yc_agent_id = e_agent_id e, yc_task_id = e_task_id e, yc_model = e_model e, yc_state = e_state e,
        yc_tool = '''', yc_tool_state = None, yc_input = e_input_tokens e, yc_output = e_output_tokens e,
        yc_usage_known = e_usage_known e, yc_created_at = e_created_at e\<rparr>
      in case e_actions e of
           [action] \<Rightarrow> (case List.find (\<lambda>r. tl_system_id r = e_system_id e \<and> tl_call_id r = callID \<and> tl_tool_call_id r = mt_id action)
                            (db_tool_calls d) of
               None \<Rightarrow> entry\<lparr>yc_tool := tool_shown H tasks e (mt_name action)\<rparr>
             | Some r \<Rightarrow> entry\<lparr>yc_tool := tl_name r, yc_tool_state := Some (tl_state r)\<rparr>)
         | _ \<Rightarrow> entry)"

definition shown_calls :: "db \<Rightarrow> string \<Rightarrow> string \<Rightarrow> string list" where
  "shown_calls d systemID goalID = map mc_call_id (take 20 (rev (sort_key mc_sequence
     (filter (\<lambda>c. mc_system_id c = systemID \<and> mc_goal_id c = goalID) (db_calls d)))))"

definition activity_events :: "db \<Rightarrow> event_row \<Rightarrow> (int \<times> activity_event) list" where
  "activity_events d e =
     map (\<lambda>m. (mb_sequence m, \<lparr>ye_id = ev_event_id e, ye_type = ev_type e, ye_source = ev_source e, ye_recipient = ev_recipient e,
            ye_task_id = ev_task_id e, ye_state = mb_state m, ye_reason = mb_reason m, ye_created_at = ev_created_at e\<rparr>))
       (filter (\<lambda>m. mb_system_id m = ev_system_id e \<and> mb_event_id m = ev_event_id e) (db_mailboxes d))"

definition shown_events :: "db \<Rightarrow> string \<Rightarrow> string \<Rightarrow> activity_event list" where
  "shown_events d systemID goalID = take 20 (rev (concat (map (\<lambda>e. map snd (sort_key fst (activity_events d e)))
     (sort_key ev_sequence (filter (\<lambda>e. ev_system_id e = systemID \<and> ev_goal_id e = goalID) (db_events d))))))"

definition Activity :: "(string \<Rightarrow> string) \<Rightarrow> string \<Rightarrow> string \<Rightarrow> activity op" where
  "Activity H actor systemID = read_only
     (tx_bind (readSystem H actor systemID) (\<lambda>system.
      let goalID = shown_goal system in
      tx_bind (tx_gets (\<lambda>d. shown_tasks d systemID goalID)) (\<lambda>taskIDs.
      tx_bind (tx_map (readTask systemID) taskIDs) (\<lambda>tasks.
      tx_bind (tx_gets (\<lambda>d. shown_agents d systemID (sr_operator_id system) goalID)) (\<lambda>agentIDs.
      tx_bind (tx_map (\<lambda>i. tx_bind (readAgent systemID i 0) (\<lambda>a.
          tx_return (activity_agent_of a (List.find (\<lambda>t. t_agent_id t = i) tasks)))) (take 32 agentIDs)) (\<lambda>agents.
      tx_bind (tx_gets (\<lambda>d. shown_calls d systemID goalID)) (\<lambda>callIDs.
      tx_bind (tx_map (\<lambda>i. tx_bind (readExecution systemID i) (\<lambda>e.
          tx_gets (\<lambda>d. activity_call_of H tasks d i e))) callIDs) (\<lambda>calls.
      tx_bind (tx_gets (\<lambda>d. shown_events d systemID goalID)) (\<lambda>events.
      tx_return \<lparr>ya_system = system, ya_agents = agents, ya_calls = calls, ya_events = events,
        ya_truncated = (length agentIDs > 32)\<rparr>)))))))))"

end
