(* ===== verification/Pages.thy ===== *)
theory Pages
  imports Views Scenario
begin

text \<open>
  A client that follows the cursors of a listing (the interface does, page by page) gets the
  whole table: each row once, in the order of its key.
\<close>

section \<open>Following cursors\<close>

text \<open>The loop of a client: read a page, stop at the zero cursor, else go on from the cursor.\<close>

fun follow :: "nat \<Rightarrow> ('k \<Rightarrow> error + ('v list \<times> 'k)) \<Rightarrow> 'k \<Rightarrow> 'k \<Rightarrow> error + 'v list" where
  "follow 0 read zero after = Inl (ErrInternal ''pages'')"
| "follow (Suc n) read zero after =
     (case read after of Inl e \<Rightarrow> Inl e
      | Inr (xs, onward) \<Rightarrow> if onward = zero then Inr xs
          else (case follow n read zero onward of Inl e \<Rightarrow> Inl e | Inr ys \<Rightarrow> Inr (xs @ ys)))"

lemma listing_sorted: "listing key after rows = page (take 21 (filter (\<lambda>r. key r > after) (sort_key key rows)))"
  by (simp add: listing_def filter_sort)

lemma page_cut: "page (take 21 xs) = (if length xs > 20 then (take 20 xs, Some (xs ! 19)) else (xs, None))"
  by (auto simp: page_def min_def)

lemma strictly_above:
  fixes key :: "'r \<Rightarrow> 'k::linorder"
  assumes "sorted (map key xs)" "distinct (map key xs)" "n < length xs"
  shows "filter (\<lambda>r. key (xs ! n) < key r) xs = drop (Suc n) xs"
proof -
  have ord: "key (xs ! i) < key (xs ! j)" if "i < j" "j < length xs" for i j
    using sorted_nth_mono [OF assms(1), of i j] assms(2) that by (auto simp: distinct_conv_nth order_less_le)
  have low: "\<not> key (xs ! n) < key r" if "r \<in> set (take (Suc n) xs)" for r
    using that assms(3) ord by (auto simp: in_set_conv_nth) (metis less_SucE less_asym order_less_irrefl)
  have high: "key (xs ! n) < key r" if "r \<in> set (drop (Suc n) xs)" for r
  proof -
    from that obtain i where "i < length xs - Suc n" "r = xs ! (Suc n + i)" using assms(3) by (auto simp: in_set_conv_nth)
    then show ?thesis using ord [of n "Suc n + i"] by simp
  qed
  have "filter (\<lambda>r. key (xs ! n) < key r) (take (Suc n) xs @ drop (Suc n) xs) = drop (Suc n) xs"
    unfolding filter_append using low high by (simp add: filter_empty_conv filter_id_conv)
  then show ?thesis by simp
qed

lemma follow_all:
  fixes key :: "'r \<Rightarrow> 'k::linorder"
  assumes keys: "distinct (map key rows)" "\<And>r. r \<in> set rows \<Longrightarrow> zero < key r"
    and reads: "\<And>after. read after = (case listing key after rows of (rs, r) \<Rightarrow>
        Inr (map g rs, case r of None \<Rightarrow> zero | Some x \<Rightarrow> key x))"
    and fuel: "length (filter (\<lambda>r. key r > after) rows) < n"
  shows "follow n read zero after = Inr (map g (filter (\<lambda>r. key r > after) (sort_key key rows)))"
  using fuel
proof (induction n arbitrary: after)
  case (Suc n)
  let ?F = "\<lambda>a. filter (\<lambda>r. key r > a) (sort_key key rows)"
  have F: "sorted (map key (?F a))" "distinct (map key (?F a))" for a
    using keys(1) by (auto simp: sorted_filter distinct_map inj_on_def)
  show ?case
  proof (cases "length (?F after) > 20")
    case False
    then show ?thesis by (simp add: reads listing_sorted page_cut)
  next
    case True
    let ?last = "?F after ! 19"
    have in_rows: "?last \<in> set (?F after)" using True by (intro nth_mem) simp
    then have last: "key ?last > after" "?last \<in> set rows" by auto
    have "?F (key ?last) = filter (\<lambda>r. key r > key ?last) (?F after)"
      using last(1) by (simp cong: filter_cong) (metis (no_types, lifting) filter_cong order_less_trans)
    also have "\<dots> = drop 20 (?F after)" using strictly_above [OF F, of 19 after] True by simp
    finally have rest: "?F (key ?last) = drop 20 (?F after)" .
    have len: "length (filter (\<lambda>r. key r > a) rows) = length (?F a)" for a
      by (simp add: filter_sort)
    have "length (filter (\<lambda>r. key r > key ?last) rows) < n"
      using Suc.prems True by (simp add: len rest)
    from Suc.IH [OF this] have "follow n read zero (key ?last) = Inr (map g (drop 20 (?F after)))" by (simp add: rest)
    moreover have "key ?last \<noteq> zero" using keys(2) [OF last(2)] by auto
    ultimately show ?thesis
      using True by (simp add: reads [of after] listing_sorted page_cut flip: map_append)
  qed
qed simp

lemma read_listing_ok:
  assumes "readSystem H localAdministrator systemID d = (Inr s, d)"
  shows "read_listing H systemID rows P key after d = (Inr (listing key after (filter P (rows d))), d)"
  using assms by (simp add: read_listing_def tx_defs)

lemma listing_members: "listing key after rows = (rs, r) \<Longrightarrow> set rs \<subseteq> set rows"
  by (auto simp: listing_def page_def split: if_splits dest!: in_set_takeD)

lemma find_distinct:
  assumes "distinct (map key (filter P xs))" "x \<in> set xs" "P x"
  shows "List.find (\<lambda>y. P y \<and> key y = key x) xs = Some x"
  using assms by (induction xs) (auto split: if_splits)

lemma tx_map_pure:
  assumes "\<And>x. x \<in> set xs \<Longrightarrow> f x d = (Inr (g x), d)"
  shows "tx_map f xs d = (Inr (map g xs), d)"
  using assms by (induction xs) (simp_all add: tx_defs)

section \<open>The tasks of a system\<close>

text \<open>
  C30. Reading the tasks of a system page by page is the same as reading the table: from the
  empty cursor, with task IDs that are the key they are declared to be, the pages put together
  are the system's tasks in the order of their IDs, every one once, and the reading ends.
\<close>

theorem ListTasks_complete:
  assumes visible: "readSystem H localAdministrator systemID d = (Inr s, d)"
    and keys: "distinct (map t_id (filter (\<lambda>t. t_system_id t = systemID) (db_tasks d)))"
      "'''' \<notin> t_id ` set (db_tasks d)"
    and enough: "length (db_tasks d) < n"
  shows "follow n (\<lambda>after. fst (ListTasks H systemID after d)) '''' '''' =
    Inr (sort_key t_id (filter (\<lambda>t. t_system_id t = systemID) (db_tasks d)))"
proof -
  let ?rows = "filter (\<lambda>t. t_system_id t = systemID) (db_tasks d)"
  have row: "readTask systemID (t_id t) d = (Inr t, d)" if "t \<in> set ?rows" for t
    using find_distinct [OF keys(1)] that by (simp add: readTask_def tx_find_def tx_row_def)
  have reads: "fst (ListTasks H systemID after d) = (case listing t_id after ?rows of (rs, r) \<Rightarrow>
      Inr (map (\<lambda>t. t) rs, case r of None \<Rightarrow> '''' | Some x \<Rightarrow> t_id x))" for after
  proof (cases "listing t_id after ?rows")
    case (Pair rs r)
    have "tx_map (\<lambda>t. readTask systemID (t_id t)) rs d = (Inr (map (\<lambda>t. t) rs), d)"
      using listing_members [OF Pair] row by (intro tx_map_pure) auto
    then show ?thesis
      by (simp add: ListTasks_def read_only_def tx_bind_def read_listing_ok [OF visible] Pair cursor_def tx_return_def split: option.split)
  qed
  have above: "'''' < t_id t" if "t \<in> set ?rows" for t
  proof -
    from that have "t_id t \<in> t_id ` set (db_tasks d)" by auto
    with keys(2) show ?thesis by (cases "t_id t") auto
  qed
  have "length (filter (\<lambda>t. '''' < t_id t) ?rows) < n"
    using enough by (meson length_filter_le order_le_less_trans)
  moreover have "filter (\<lambda>t. '''' < t_id t) (sort_key t_id ?rows) = sort_key t_id ?rows"
    using above by (simp add: filter_id_conv)
  ultimately show ?thesis using follow_all [OF keys(1) above reads] by simp
qed

theorem ListTasks_complete_applied:
  "follow 2 (\<lambda>after. fst (ListTasks sample_digest ''sys'' after sample_db)) '''' '''' = Inr [sample_task]"
  using ListTasks_complete [OF sample_readSystem, of 2] by (simp add: sample)

end
