(* ===== verification/Provider.thy ===== *)
theory Provider
  imports ToolArgs Broker
begin

text \<open>
  A model request and the reading of its answer (src/internal/provider/chat.go): the request
  sent, the classes of failure, a whole answer or a stream of server-sent events, the checks on
  usage, text and tool calls, and the redaction of the credential. The network, the deadline of
  the context, the random jitter, http.ParseTime and the formatting of float64 numbers are the
  argument \<open>http_exchange\<close>. A json.RawMessage is the text of its value in the answer.
\<close>

section \<open>Text\<close>

text \<open>strings.ReplaceAll and strings.TrimRight of a character.\<close>

function replace_all :: "string \<Rightarrow> string \<Rightarrow> string \<Rightarrow> string" where
  "replace_all k new s =
     (if k = [] \<or> s = [] then s
      else if has_prefix s k then new @ replace_all k new (drop (length k) s)
      else hd s # replace_all k new (tl s))"
  by pat_completeness auto
termination by (relation "measure (\<lambda>(k, new, s). length s)") auto

declare replace_all.simps [simp del]

definition trim_right :: "char \<Rightarrow> string \<Rightarrow> string" where
  "trim_right c s = rev (dropWhile (\<lambda>x. x = c) (rev s))"

definition trim_prefix :: "string \<Rightarrow> string \<Rightarrow> string" where
  "trim_prefix p s = (if has_prefix s p then drop (length p) s else s)"

text \<open>With an empty old string ReplaceAll would insert; the code does not call it then.\<close>

definition redact :: "string \<Rightarrow> string \<Rightarrow> string" where
  "redact key s = (if key = '''' then s else replace_all key ''[redacted]'' s)"

section \<open>Raw members\<close>

text \<open>The members of an object and the elements of an array with the text of their values.\<close>

definition raw_value :: "string \<Rightarrow> (string \<times> string) option" where
  "raw_value s =
     (let v = skip_space s in
      case scan_value any_key 10000 (scan_fuel v) 0 v of None \<Rightarrow> None
      | Some (_, r) \<Rightarrow> Some (take (length v - length r) v, r))"

fun raw_members :: "nat \<Rightarrow> string \<Rightarrow> (string \<times> string) list" where
  "raw_members 0 s = []"
| "raw_members (Suc n) s =
     (case Option.bind (expect (CHR 0x22) s) unescape of None \<Rightarrow> []
      | Some (key, s1) \<Rightarrow>
        (case Option.bind (expect (CHR '':'') s1) raw_value of None \<Rightarrow> []
         | Some (v, s2) \<Rightarrow> (key, v) # (case expect (CHR '','') s2 of None \<Rightarrow> [] | Some s3 \<Rightarrow> raw_members n s3)))"

fun raw_elements :: "nat \<Rightarrow> string \<Rightarrow> string list" where
  "raw_elements 0 s = []"
| "raw_elements (Suc n) s =
     (case raw_value s of None \<Rightarrow> []
      | Some (v, s1) \<Rightarrow> v # (case expect (CHR '','') s1 of None \<Rightarrow> [] | Some s2 \<Rightarrow> raw_elements n s2))"

text \<open>Decoders of the text of a value that json.Unmarshal has found valid.\<close>

type_synonym 'a raw_decoder = "string \<Rightarrow> 'a \<Rightarrow> 'a option"

definition plain :: "'a decoder \<Rightarrow> 'a raw_decoder" where
  "plain dec text x = json_unmarshal (\<lambda>v. dec v x) text"

definition into_raw :: "(string \<Rightarrow> 'a \<Rightarrow> 'a) \<Rightarrow> 'a raw_decoder" where
  "into_raw upd text x = Some (upd text x)"

fun raw_fields_of :: "(string \<times> 'a raw_decoder) list \<Rightarrow> (string \<times> string) list \<Rightarrow> 'a \<Rightarrow> 'a option" where
  "raw_fields_of flds [] x = Some x"
| "raw_fields_of flds ((k, v) # kvs) x =
     (case find_field flds k of None \<Rightarrow> raw_fields_of flds kvs x
      | Some f \<Rightarrow> (case f v x of None \<Rightarrow> None | Some y \<Rightarrow> raw_fields_of flds kvs y))"

definition raw_struct :: "(string \<times> 'a raw_decoder) list \<Rightarrow> 'a raw_decoder" where
  "raw_struct flds text x =
     (if text = ''null'' then Some x
      else case expect (CHR ''{'') text of None \<Rightarrow> None
        | Some s \<Rightarrow> raw_fields_of flds (raw_members (length text) s) x)"

definition raw_within :: "'b raw_decoder \<Rightarrow> ('a \<Rightarrow> 'b) \<Rightarrow> ('b \<Rightarrow> 'a \<Rightarrow> 'a) \<Rightarrow> 'a raw_decoder" where
  "raw_within dec sel upd text x = map_option (\<lambda>y. upd y x) (dec text (sel x))"

fun raw_each :: "'b raw_decoder \<Rightarrow> 'b \<Rightarrow> string list \<Rightarrow> 'b list option" where
  "raw_each dec zero [] = Some []"
| "raw_each dec zero (t # ts) =
     (case dec t zero of None \<Rightarrow> None | Some y \<Rightarrow> map_option (\<lambda>ys. y # ys) (raw_each dec zero ts))"

definition raw_list :: "'b raw_decoder \<Rightarrow> 'b \<Rightarrow> ('b list \<Rightarrow> 'a \<Rightarrow> 'a) \<Rightarrow> 'a raw_decoder" where
  "raw_list dec zero upd text x =
     (if text = ''null'' then Some (upd [] x)
      else case expect (CHR ''['') text of None \<Rightarrow> None
        | Some s \<Rightarrow> map_option (\<lambda>ys. upd ys x) (raw_each dec zero (raw_elements (length text) s)))"

text \<open>json.Unmarshal of a whole text through a raw decoder.\<close>

definition raw_unmarshal :: "'a raw_decoder \<Rightarrow> 'a \<Rightarrow> string \<Rightarrow> 'a option" where
  "raw_unmarshal dec zero text =
     (if json_unmarshal Some text = None then None
      else case raw_value text of None \<Rightarrow> None | Some (v, _) \<Rightarrow> dec v zero)"

text \<open>decodeProvider: valid UTF-8, strict keys, one value, then any fields.\<close>

definition decodeProvider :: "(nat \<Rightarrow> nat) \<Rightarrow> 'a raw_decoder \<Rightarrow> 'a \<Rightarrow> string \<Rightarrow> error + 'a" where
  "decodeProvider wide dec zero data =
     (if \<not> valid_utf8 data then Inl (ErrInternal ''invalid provider UTF-8'')
      else case ScanJSONValue wide 0 data of None \<Rightarrow> Inl (ErrInternal ''invalid provider JSON'')
      | Some (_, rest) \<Rightarrow>
          if skip_space rest \<noteq> [] then Inl (ErrInternal ''invalid provider JSON'')
          else case raw_unmarshal dec zero data of None \<Rightarrow> Inl (ErrInternal ''invalid provider response shape'')
            | Some x \<Rightarrow> Inr x)"

section \<open>Answers\<close>

record chat_usage =
  chu_input :: "int option"
  chu_output :: "int option"
  chu_total :: "int option"

text \<open>A message or a delta: its content and the texts of its tool_calls and function_call, empty when absent.\<close>

record chat_part =
  chp_content :: "string option"
  chp_tool_calls :: string
  chp_function_call :: string

record chat_choice =
  chc_index :: int
  chc_message :: chat_part
  chc_delta :: chat_part
  chc_finish :: "string option"

record chat_reply =
  chr_choices :: "chat_choice list"
  chr_usage :: "chat_usage option"
  chr_error :: string

definition no_usage :: chat_usage where
  "no_usage = \<lparr>chu_input = None, chu_output = None, chu_total = None\<rparr>"

definition no_part :: chat_part where
  "no_part = \<lparr>chp_content = None, chp_tool_calls = '''', chp_function_call = ''''\<rparr>"

definition no_choice :: chat_choice where
  "no_choice = \<lparr>chc_index = 0, chc_message = no_part, chc_delta = no_part, chc_finish = None\<rparr>"

definition no_reply :: chat_reply where
  "no_reply = \<lparr>chr_choices = [], chr_usage = None, chr_error = ''''\<rparr>"

definition usage_fields :: "(string \<times> chat_usage decoder) list" where
  "usage_fields =
     [(''prompt_tokens'', into_pointer (into_int (\<lambda>i _. i)) 0 chu_input (\<lambda>i u. u\<lparr>chu_input := i\<rparr>)),
      (''completion_tokens'', into_pointer (into_int (\<lambda>i _. i)) 0 chu_output (\<lambda>i u. u\<lparr>chu_output := i\<rparr>)),
      (''total_tokens'', into_pointer (into_int (\<lambda>i _. i)) 0 chu_total (\<lambda>i u. u\<lparr>chu_total := i\<rparr>))]"

definition optional_string :: "('a \<Rightarrow> string option) \<Rightarrow> (string option \<Rightarrow> 'a \<Rightarrow> 'a) \<Rightarrow> 'a raw_decoder" where
  "optional_string sel upd = plain (into_pointer (into_string (\<lambda>s _. s)) '''' sel upd)"

definition part_fields :: "(string \<times> chat_part raw_decoder) list" where
  "part_fields =
     [(''content'', optional_string chp_content (\<lambda>s p. p\<lparr>chp_content := s\<rparr>)),
      (''tool_calls'', into_raw (\<lambda>t p. p\<lparr>chp_tool_calls := t\<rparr>)),
      (''function_call'', into_raw (\<lambda>t p. p\<lparr>chp_function_call := t\<rparr>))]"

definition choice_fields :: "(string \<times> chat_choice raw_decoder) list" where
  "choice_fields =
     [(''index'', plain (into_int (\<lambda>i c. c\<lparr>chc_index := i\<rparr>))),
      (''message'', raw_within (raw_struct part_fields) chc_message (\<lambda>p c. c\<lparr>chc_message := p\<rparr>)),
      (''delta'', raw_within (raw_struct part_fields) chc_delta (\<lambda>p c. c\<lparr>chc_delta := p\<rparr>)),
      (''finish_reason'', optional_string chc_finish (\<lambda>s c. c\<lparr>chc_finish := s\<rparr>))]"

definition reply_fields :: "(string \<times> chat_reply raw_decoder) list" where
  "reply_fields =
     [(''choices'', raw_list (raw_struct choice_fields) no_choice (\<lambda>cs r. r\<lparr>chr_choices := cs\<rparr>)),
      (''usage'', plain (into_pointer (known_fields usage_fields) no_usage chr_usage (\<lambda>u r. r\<lparr>chr_usage := u\<rparr>))),
      (''error'', into_raw (\<lambda>t r. r\<lparr>chr_error := t\<rparr>))]"

definition decode_reply :: "(nat \<Rightarrow> nat) \<Rightarrow> string \<Rightarrow> error + chat_reply" where
  "decode_reply wide = decodeProvider wide (raw_struct reply_fields) no_reply"

definition present :: "string \<Rightarrow> bool" where
  "present text \<longleftrightarrow> text \<noteq> '''' \<and> text \<noteq> ''null'' \<and> text \<noteq> ''[]''"

definition validUsage :: "chat_usage option \<Rightarrow> int \<Rightarrow> bool" where
  "validUsage usage maxOutput =
     (case usage of None \<Rightarrow> False
      | Some u \<Rightarrow> (case (chu_input u, chu_output u, chu_total u) of
            (Some i, Some out, Some tot) \<Rightarrow> i \<ge> 0 \<and> i \<le> 1000000000 \<and> out \<ge> 0 \<and> out \<le> maxOutput \<and> tot = i + out
          | _ \<Rightarrow> False))"

section \<open>Tool calls\<close>

text \<open>The functions the request offered, and the calls of the answer.\<close>

definition no_function :: model_function where
  "no_function = \<lparr>fs_name = '''', fs_description = '''', fs_parameters = ''''\<rparr>"

definition function_fields :: "(string \<times> model_function raw_decoder) list" where
  "function_fields =
     [(''name'', plain (into_string (\<lambda>s f. f\<lparr>fs_name := s\<rparr>))),
      (''description'', plain (into_string (\<lambda>s f. f\<lparr>fs_description := s\<rparr>))),
      (''parameters'', into_raw (\<lambda>t f. f\<lparr>fs_parameters := t\<rparr>))]"

text \<open>A ModelFunction has a type, which is not used, and its function.\<close>

definition tool_fields :: "(string \<times> (string \<times> model_function) raw_decoder) list" where
  "tool_fields =
     [(''type'', plain (into_string (\<lambda>s (_, f). (s, f)))),
      (''function'', raw_within (raw_struct function_fields) snd (\<lambda>f (s, _). (s, f)))]"

definition offered_tools :: "string \<Rightarrow> model_function list option" where
  "offered_tools body = raw_unmarshal (raw_struct
     [(''tools'', raw_list (raw_struct tool_fields) ('''', no_function) (\<lambda>fs _. map snd fs))]) [] body"

definition no_call :: model_tool_call where
  "no_call = \<lparr>mt_id = '''', mt_type = '''', mt_name = '''', mt_arguments = ''''\<rparr>"

definition call_fields :: "(string \<times> model_tool_call decoder) list" where
  "call_fields =
     [(''id'', into_string (\<lambda>s c. c\<lparr>mt_id := s\<rparr>)), (''type'', into_string (\<lambda>s c. c\<lparr>mt_type := s\<rparr>)),
      (''function'', known_fields [(''name'', into_string (\<lambda>s c. c\<lparr>mt_name := s\<rparr>)),
         (''arguments'', into_string (\<lambda>s c. c\<lparr>mt_arguments := s\<rparr>))])]"

definition decode_actions :: "(nat \<Rightarrow> nat) \<Rightarrow> string \<Rightarrow> error + model_tool_call list" where
  "decode_actions wide text =
     decodeProvider wide (raw_list (plain (known_fields call_fields)) no_call (\<lambda>cs _. cs)) [] text"

text \<open>
  redactArgumentStrings: every string value, at any depth, but no key; then json.Marshal of the
  map. A number went through float64, whose text is the argument \<open>float\<close>.
\<close>

fun redacted :: "string \<Rightarrow> jval \<Rightarrow> jval" where
  "redacted key (VStr s) = VStr (redact key s)"
| "redacted key (VArr vs) = VArr (map (redacted key) vs)"
| "redacted key (VObj kvs) = VObj (map (\<lambda>(k, v). (k, redacted key v)) kvs)"
| "redacted key v = v"

fun floats_ok :: "(string \<Rightarrow> string option) \<Rightarrow> jval \<Rightarrow> bool" where
  "floats_ok float (VNum lit) = (float lit \<noteq> None)"
| "floats_ok float (VArr vs) = list_all (floats_ok float) vs"
| "floats_ok float (VObj kvs) = list_all (\<lambda>(k, v). floats_ok float v) kvs"
| "floats_ok float v = True"

fun json_of :: "(string \<Rightarrow> string option) \<Rightarrow> jval \<Rightarrow> json" where
  "json_of float VNull = JNull"
| "json_of float (VBool b) = JBool b"
| "json_of float (VNum lit) = JRaw (the (float lit))"
| "json_of float (VStr s) = JStr s"
| "json_of float (VArr vs) = JArr (map (json_of float) vs)"
| "json_of float (VObj kvs) = JObj (sort_key fst (map (\<lambda>(k, v). (k, json_of float v)) kvs))"

definition saved_arguments :: "(nat \<Rightarrow> nat) \<Rightarrow> (string \<Rightarrow> string option) \<Rightarrow> string \<Rightarrow> string \<Rightarrow> error + string" where
  "saved_arguments wide float key arguments =
     (case DecodeJSON wide (\<lambda>v. case v of VNull \<Rightarrow> Some VNull | VObj kvs \<Rightarrow> if floats_ok float v then Some v else None | _ \<Rightarrow> None) arguments of
        Inl e \<Rightarrow> Inl e
      | Inr v \<Rightarrow> Inr (marshal (json_of float (redacted key v))))"

text \<open>The one call of an answer, allowed by the request, with its arguments as they are saved.\<close>

definition selected_tool :: "model_function list \<Rightarrow> string \<Rightarrow> model_function option" where
  "selected_tool tools name = List.find (\<lambda>f. fs_name f = name) (rev tools)"

definition accept_action :: "(nat \<Rightarrow> nat) \<Rightarrow> (string \<Rightarrow> string option) \<Rightarrow> string \<Rightarrow> model_function list \<Rightarrow> model_tool_call \<Rightarrow>
    error + model_tool_call" where
  "accept_action wide float key tools a =
     (case selected_tool tools (mt_name a) of
        None \<Rightarrow> Inl (ErrInternal ''invalid model tool call'')
      | Some f \<Rightarrow>
         if mt_type a \<noteq> ''function'' \<or> \<not> CommandKeyPattern (mt_id a) \<or> (key \<noteq> '''' \<and> contains (mt_id a) key) \<or>
            length (mt_arguments a) > MaxEventBytes then Inl (ErrInternal ''invalid model tool call'')
         else case saved_arguments wide float key (mt_arguments a) of Inl e \<Rightarrow> Inl e
         | Inr saved \<Rightarrow>
            (case ValidateArguments wide (fs_parameters f) saved of Some e \<Rightarrow> Inl e
             | None \<Rightarrow> Inr (a\<lparr>mt_arguments := saved\<rparr>)))"

definition requested_action :: "(nat \<Rightarrow> nat) \<Rightarrow> (string \<Rightarrow> string option) \<Rightarrow> string \<Rightarrow> string \<Rightarrow> string \<Rightarrow> error + model_tool_call list" where
  "requested_action wide float key body text =
     (case (decode_actions wide text, offered_tools body) of
        (Inr [a], Some tools) \<Rightarrow>
          if tools = [] then Inl (ErrInternal ''unrequested or parallel tool call'')
          else (case accept_action wide float key tools a of Inl e \<Rightarrow> Inl e | Inr b \<Rightarrow> Inr [b])
      | (Inl e, _) \<Rightarrow> Inl e
      | (_, None) \<Rightarrow> Inl (ErrInternal ''invalid request'')
      | _ \<Rightarrow> Inl (ErrInternal ''unrequested or parallel tool call''))"

section \<open>A whole answer\<close>

text \<open>A response: its status, its Retry-After header, the bytes of the body, whether reading it ends in an error.\<close>

record http_response =
  hr_status :: int
  hr_retry_after :: string
  hr_body :: string
  hr_broken :: bool
  hr_ahead :: nat

definition MaxProviderBytes :: nat where
  "MaxProviderBytes = 1048576"

definition MaxModelText :: nat where
  "MaxModelText = 32768"

definition read_whole :: "http_response \<Rightarrow> error + string" where
  "read_whole r =
     (let data = take (MaxProviderBytes + 1) (hr_body r) in
      if hr_broken r \<and> length (hr_body r) \<le> MaxProviderBytes then Inl (ErrInternal ''unexpected EOF'')
      else if length data > MaxProviderBytes then Inl (ErrInternal ''provider response too large'')
      else Inr data)"

definition unsupported_completion :: "chat_reply \<Rightarrow> bool" where
  "unsupported_completion r \<longleftrightarrow> present (chr_error r) \<or> length (chr_choices r) \<noteq> 1 \<or>
     (let c = hd (chr_choices r) in chc_index c \<noteq> 0 \<or> present (chp_function_call (chc_message c)) \<or>
        (case chc_finish c of None \<Rightarrow> True | Some f \<Rightarrow> f \<noteq> ''stop'' \<and> f \<noteq> ''length'' \<and> f \<noteq> ''tool_calls''))"

text \<open>The text, the calls and the usage of a completion.\<close>

definition read_completion :: "(nat \<Rightarrow> nat) \<Rightarrow> (string \<Rightarrow> string option) \<Rightarrow> string \<Rightarrow> string \<Rightarrow> chat_reply \<Rightarrow>
    error + (string \<times> model_tool_call list \<times> chat_usage option)" where
  "read_completion wide float key body r =
     (if unsupported_completion r then Inl (ErrInternal ''unsupported provider completion'')
      else let m = chc_message (hd (chr_choices r)); text = (case chp_content m of None \<Rightarrow> '''' | Some t \<Rightarrow> t) in
        if chc_finish (hd (chr_choices r)) = Some ''tool_calls''
        then (case requested_action wide float key body (chp_tool_calls m) of
                Inl e \<Rightarrow> Inl e | Inr actions \<Rightarrow> Inr (text, actions, chr_usage r))
        else if present (chp_tool_calls m) \<or> chp_content m = None then Inl (ErrInternal ''invalid completion content'')
        else Inr (text, [], chr_usage r))"

definition read_answer :: "(nat \<Rightarrow> nat) \<Rightarrow> (string \<Rightarrow> string option) \<Rightarrow> string \<Rightarrow> string \<Rightarrow> http_response \<Rightarrow>
    error + (string \<times> model_tool_call list \<times> chat_usage option)" where
  "read_answer wide float key body response =
     (case read_whole response of Inl e \<Rightarrow> Inl e
      | Inr data \<Rightarrow> (case decode_reply wide data of Inl e \<Rightarrow> Inl e | Inr r \<Rightarrow> read_completion wide float key body r))"

section \<open>A stream\<close>

record stream_state =
  st_text :: string
  st_event :: string
  st_usage :: "chat_usage option"
  st_finished :: bool
  st_done :: bool

definition stream_start :: stream_state where
  "stream_start = \<lparr>st_text = '''', st_event = '''', st_usage = None, st_finished = False, st_done = False\<rparr>"

text \<open>bufio.Scanner over lines, its buffer one byte longer than a frame: the end, a line that is too long, or a line.\<close>

definition next_line :: "string \<Rightarrow> (error + (string \<times> string)) option" where
  "next_line s =
     (let l = takeWhile (\<lambda>c. c \<noteq> newline) s in
      if s = [] then None
      else if length l > MaxFrame then Some (Inl (ErrInternal ''bufio.Scanner: token too long''))
      else Some (Inr (if has_suffix l [CHR 0x0D] then butlast l else l, drop (length l + 1) s)))"

lemma next_line_shorter: "next_line s = Some (Inr (l, r)) \<Longrightarrow> length r < length s"
  by (auto simp: next_line_def Let_def split: if_splits)

text \<open>The choice of an event.\<close>

definition consume_choice :: "chat_choice \<Rightarrow> stream_state \<Rightarrow> error + stream_state" where
  "consume_choice c st =
     (if chc_index c \<noteq> 0 \<or> present (chp_tool_calls (chc_delta c)) \<or> present (chp_function_call (chc_delta c)) \<or> st_finished st
      then Inl (ErrInternal ''unsupported stream delta'')
      else let st1 = (case chp_content (chc_delta c) of None \<Rightarrow> st | Some t \<Rightarrow> st\<lparr>st_text := st_text st @ t\<rparr>) in
        case chc_finish c of None \<Rightarrow> Inr st1
        | Some f \<Rightarrow> if f \<noteq> ''stop'' \<and> f \<noteq> ''length'' then Inl (ErrInternal ''unsupported stream finish'')
            else Inr (st1\<lparr>st_finished := True\<rparr>))"

definition consume_reply :: "chat_reply \<Rightarrow> stream_state \<Rightarrow> error + stream_state" where
  "consume_reply r st =
     (if present (chr_error r) \<or> length (chr_choices r) > 1 then Inl (ErrInternal ''invalid stream choice'')
      else if chr_usage r \<noteq> None \<and> st_usage st \<noteq> None then Inl (ErrInternal ''duplicate stream usage'')
      else let st1 = (if chr_usage r = None then st else st\<lparr>st_usage := chr_usage r\<rparr>) in
        case (case chr_choices r of [c] \<Rightarrow> consume_choice c st1 | _ \<Rightarrow> Inr st1) of Inl e \<Rightarrow> Inl e
        | Inr st2 \<Rightarrow> if length (st_text st2) > MaxModelText then Inl (ErrInternal ''stream output too large'') else Inr st2)"

definition consume_event :: "(nat \<Rightarrow> nat) \<Rightarrow> stream_state \<Rightarrow> error + stream_state" where
  "consume_event wide st0 =
     (let data = (if has_suffix (st_event st0) [newline] then butlast (st_event st0) else st_event st0);
          st = st0\<lparr>st_event := ''''\<rparr> in
      if data = '''' then Inr st
      else if data = ''[DONE]'' then Inr (st\<lparr>st_done := True\<rparr>)
      else if st_done st then Inl (ErrInternal ''data after stream completion'')
      else case decode_reply wide data of Inl e \<Rightarrow> Inl e | Inr r \<Rightarrow> consume_reply r st)"

definition add_data :: "string \<Rightarrow> stream_state \<Rightarrow> error + stream_state" where
  "add_data line st =
     (let event = st_event st @ trim_prefix '' '' (trim_prefix ''data:'' line) @ [newline] in
      if length event > MaxFrame then Inl (ErrInternal ''SSE event too large'') else Inr (st\<lparr>st_event := event\<rparr>))"

text \<open>One line; the loop over the lines stops at the completion. What was not read is returned with the state.\<close>

definition stream_line :: "(nat \<Rightarrow> nat) \<Rightarrow> string \<Rightarrow> stream_state \<Rightarrow> error + stream_state" where
  "stream_line wide line st =
     (if line = '''' then consume_event wide st
      else if has_prefix line ''data:'' then add_data line st
      else Inr st)"

function read_events :: "(nat \<Rightarrow> nat) \<Rightarrow> string \<Rightarrow> stream_state \<Rightarrow> error + (stream_state \<times> string)" where
  "read_events wide s st =
     (case next_line s of None \<Rightarrow> Inr (st, s)
      | Some (Inl e) \<Rightarrow> Inl e
      | Some (Inr (line, rest)) \<Rightarrow>
          (case stream_line wide line st of Inl e \<Rightarrow> Inl e
           | Inr st' \<Rightarrow> if line = '''' \<and> st_done st' then Inr (st', rest) else read_events wide rest st'))"
  by pat_completeness auto
termination by (relation "measure (\<lambda>(wide, s, st). length s)") (auto dest: next_line_shorter)

declare read_events.simps [simp del]

text \<open>
  readChatStream: at most MaxProviderBytes + 1 bytes. The scanner may have taken \<open>hr_ahead\<close> bytes
  from the network beyond the last line; a stream cut by an error ends without its completion.
\<close>

definition stream_exhausted :: "http_response \<Rightarrow> string \<Rightarrow> bool" where
  "stream_exhausted r rest =
     (let n = min (length (hr_body r)) (MaxProviderBytes + 1) in
      MaxProviderBytes + 1 \<le> min n (n - length rest + hr_ahead r))"

definition readChatStream :: "(nat \<Rightarrow> nat) \<Rightarrow> http_response \<Rightarrow> error + (string \<times> chat_usage option)" where
  "readChatStream wide r =
     (case read_events wide (take (MaxProviderBytes + 1) (hr_body r)) stream_start of Inl e \<Rightarrow> Inl e
      | Inr (st, rest) \<Rightarrow>
          if \<not> st_done st \<or> \<not> st_finished st \<or> stream_exhausted r rest
          then Inl (ErrInternal ''incomplete or oversized provider stream'')
          else Inr (st_text st, st_usage st))"

section \<open>The request\<close>

datatype context_error = NoContextError | DeadlineExceeded | ContextCanceled

record http_exchange =
  hx_url_ok :: "string \<Rightarrow> bool"
  hx_do :: "string \<Rightarrow> (string \<times> string) list \<Rightarrow> string \<Rightarrow> http_response option"
  hx_context :: context_error
  hx_jitter :: int
  hx_date :: "string \<Rightarrow> int option"
  hx_float :: "string \<Rightarrow> string option"

definition failed_result :: "string \<Rightarrow> provider_result" where
  "failed_result reason = \<lparr>pr_text = '''', pr_input = 0, pr_output = 0, pr_known = False, pr_reason = reason, pr_retry = False,
     pr_cooldown = None, pr_retry_delay = 0, pr_actions = []\<rparr>"

definition requestFailure :: "context_error \<Rightarrow> string \<Rightarrow> provider_result" where
  "requestFailure ctx reason = failed_result (case ctx of
       DeadlineExceeded \<Rightarrow> ''provider request deadline exceeded after admission; outcome unknown and reservation retained''
     | ContextCanceled \<Rightarrow> ''provider request canceled after admission; outcome unknown and reservation retained''
     | NoContextError \<Rightarrow> reason)"

definition request_url :: "provider_config \<Rightarrow> string" where
  "request_url provider = trim_right (CHR ''/'') (pc_base_url provider) @ ''/chat/completions''"

definition request_headers :: "string \<Rightarrow> (string \<times> string) list" where
  "request_headers key = (if key = '''' then [] else [(''Authorization'', ''Bearer '' @ key)]) @
     [(''Content-Type'', ''application/json'')]"

text \<open>strconv.ParseInt in base 10, which takes a sign.\<close>

definition parse_seconds :: "string \<Rightarrow> int option" where
  "parse_seconds s = parse_int64 (if has_prefix s ''+'' \<and> \<not> has_prefix s ''+-'' then tl s else s)"

definition throttled_result :: "http_exchange \<Rightarrow> string \<Rightarrow> int \<Rightarrow> int \<Rightarrow> provider_result" where
  "throttled_result hx retry_after now attempt =
     (let (cooldown, delay) = (case parse_seconds retry_after of
          Some n \<Rightarrow> if 0 \<le> n \<and> n \<le> 86400 * 365 then (None, n * 1000) else
             (case hx_date hx retry_after of Some t \<Rightarrow> (Some (max t now), 0)
              | None \<Rightarrow> (None, 2 ^ nat (min attempt 6) * 1000 + hx_jitter hx))
        | None \<Rightarrow> (case hx_date hx retry_after of Some t \<Rightarrow> (Some (max t now), 0)
              | None \<Rightarrow> (None, 2 ^ nat (min attempt 6) * 1000 + hx_jitter hx)))
      in (failed_result ''provider throttled request'')\<lparr>pr_known := True, pr_retry := True, pr_cooldown := cooldown,
           pr_retry_delay := delay\<rparr>)"

text \<open>A response that was read: usage, redaction and the limits of a worker's frame.\<close>

definition model_frame :: "string \<Rightarrow> message_frame" where
  "model_frame text = \<lparr>ms_type = ''model.result'', ms_data = text, ms_id = ''call_'' @ replicate 32 (CHR ''0'')\<rparr>"

definition settled_result :: "int \<Rightarrow> string \<Rightarrow> string \<times> model_tool_call list \<times> chat_usage option \<Rightarrow> provider_result" where
  "settled_result maxOutput key answer =
     (case answer of (text0, actions, usage) \<Rightarrow>
       if \<not> validUsage usage maxOutput then failed_result ''provider usage missing or invalid; reservation retained''
       else
        let text = redact key text0; i = the (chu_input (the usage)); out = the (chu_output (the usage)) in
        if length text > MaxModelText \<or> CheckFrame (model_frame text) \<noteq> None
        then (failed_result ''encoded model output exceeds the worker response limit'')\<lparr>pr_known := True, pr_input := i, pr_output := out\<rparr>
        else \<lparr>pr_text = text, pr_input = i, pr_output = out, pr_known = True, pr_reason = '''', pr_retry = False,
               pr_cooldown = None, pr_retry_delay = 0, pr_actions = actions\<rparr>)"

definition read_response :: "http_exchange \<Rightarrow> (nat \<Rightarrow> nat) \<Rightarrow> bool \<Rightarrow> string \<Rightarrow> string \<Rightarrow> http_response \<Rightarrow>
    error + (string \<times> model_tool_call list \<times> chat_usage option)" where
  "read_response hx wide stream key body r =
     (case (if stream then map_sum id (\<lambda>(text, usage). (text, [], usage)) (readChatStream wide r)
            else read_answer wide (hx_float hx) key body r) of
        Inl e \<Rightarrow> Inl e
      | Inr (text, actions, usage) \<Rightarrow>
          if length text > MaxModelText then Inl (ErrInternal ''oversized'') else Inr (text, actions, usage))"

definition known_failure :: "string \<Rightarrow> provider_result" where
  "known_failure reason = (failed_result reason)\<lparr>pr_known := True\<rparr>"

definition Request :: "http_exchange \<Rightarrow> (nat \<Rightarrow> nat) \<Rightarrow> provider_config \<Rightarrow> model_config \<Rightarrow> string \<Rightarrow> bool \<Rightarrow> string \<Rightarrow> int \<Rightarrow> int \<Rightarrow>
    provider_result" where
  "Request hx wide provider model body stream key now attempt =
     (if \<not> hx_url_ok hx (request_url provider) then known_failure ''provider request invalid before sending''
      else case hx_do hx (request_url provider) (request_headers key) body of
        None \<Rightarrow> requestFailure (hx_context hx) ''provider transport failed; outcome unknown and reservation retained''
      | Some r \<Rightarrow>
          if hr_status r = 429 then throttled_result hx (hr_retry_after r) now attempt
          else if hr_status r \<in> {400, 401, 403, 404, 422}
            then known_failure (''provider rejected request (HTTP '' @ dec_int (hr_status r) @ '')'')
          else if hr_status r \<noteq> 200
            then failed_result (''provider returned HTTP '' @ dec_int (hr_status r) @ ''; usage unknown and reservation retained'')
          else case read_response hx wide stream key body r of
              Inl e \<Rightarrow> requestFailure (hx_context hx)
                ''provider response malformed, incomplete, unsupported, or oversized; reservation retained''
            | Inr answer \<Rightarrow> settled_result (mo_max_output_tokens model) key answer)"

section \<open>Redaction\<close>

lemma has_prefix_Nil [simp]: "has_prefix s []"
  by (simp add: has_prefix_def)

lemma has_prefix_Cons: "has_prefix (c # cs) (k # ks) \<longleftrightarrow> c = k \<and> has_prefix cs ks"
  by (auto simp: has_prefix_def)

lemma has_prefix_short: "has_prefix [] k \<longleftrightarrow> k = []"
  by (auto simp: has_prefix_def)

lemma has_prefix_iff: "has_prefix s k \<longleftrightarrow> (\<exists>t. s = k @ t)"
proof
  assume "has_prefix s k"
  then have "s = k @ drop (length k) s" by (metis append_take_drop_id has_prefix_def)
  then show "\<exists>t. s = k @ t" ..
qed (auto simp: has_prefix_def)

lemma has_prefix_stops: "c \<notin> set k \<Longrightarrow> has_prefix (u @ c # t) k \<longleftrightarrow> has_prefix u k"
proof (induction u arbitrary: k)
  case Nil
  then show ?case by (cases k) (auto simp: has_prefix_short has_prefix_Cons)
next
  case (Cons a u)
  then show ?case by (cases k) (auto simp: has_prefix_Cons)
qed

lemma contains_apart: "c \<notin> set k \<Longrightarrow> k \<noteq> [] \<Longrightarrow> contains (a @ c # b) k \<longleftrightarrow> contains a k \<or> contains b k"
proof (induction a)
  case Nil
  have "\<not> has_prefix (c # b) k" using has_prefix_stops [OF Nil(1), of "[]"] Nil(2) by (simp add: has_prefix_short)
  with Nil show ?case by simp
next
  case (Cons x a)
  then show ?case using has_prefix_stops [OF Cons(2), of "x # a"] by auto
qed

lemma contains_append: "contains s k \<Longrightarrow> contains (x @ s @ y) k"
proof (induction x)
  case Nil
  have "contains s k \<Longrightarrow> contains (s @ y) k"
  proof (induction s)
    case Nil
    then show ?case by (cases y) auto
  next
    case (Cons c s)
    moreover have "has_prefix (c # s) k \<Longrightarrow> has_prefix (c # s @ y) k"
      unfolding has_prefix_iff by (metis append_Cons append_assoc)
    ultimately show ?case by auto
  qed
  with Nil show ?case by simp
qed auto

lemma replace_all_prefix:
  assumes "has_prefix (replace_all k (c # new) s) p" "c \<notin> set p"
  shows "has_prefix s p"
  using assms
proof (induction p arbitrary: s)
  case (Cons a p)
  show ?case
  proof (cases "k = [] \<or> s = [] \<or> has_prefix s k")
    case True
    with Cons.prems show ?thesis by (auto simp: replace_all.simps [of k _ s] has_prefix_Cons has_prefix_short split: if_splits)
  next
    case False
    then have "replace_all k (c # new) s = hd s # replace_all k (c # new) (tl s)" by (simp add: replace_all.simps [of k _ s])
    with Cons.prems have "hd s = a" "has_prefix (tl s) p" using Cons.IH [of "tl s"] by (auto simp: has_prefix_Cons)
    with False show ?thesis by (cases s) (auto simp: has_prefix_Cons)
  qed
qed simp

text \<open>A credential that has no bracket and is no part of the word redacted is gone after redaction.\<close>

definition redactable :: "string \<Rightarrow> bool" where
  "redactable key \<longleftrightarrow> key \<noteq> '''' \<and> CHR ''['' \<notin> set key \<and> CHR '']'' \<notin> set key \<and> \<not> contains ''redacted'' key"

lemma redact_gone:
  assumes "redactable key"
  shows "\<not> contains (redact key s) key"
proof -
  have key: "key \<noteq> []" "CHR ''['' \<notin> set key" "CHR '']'' \<notin> set key" "\<not> contains ''redacted'' key"
    using assms by (auto simp: redactable_def)
  have "\<not> contains (replace_all key ''[redacted]'' s) key"
  proof (induction s rule: length_induct)
    case (1 s)
    consider "s = []" | "s \<noteq> []" "has_prefix s key" | "s \<noteq> []" "\<not> has_prefix s key" by blast
    then show ?case
    proof cases
      case 2
      let ?t = "replace_all key ''[redacted]'' (drop (length key) s)"
      have "\<not> contains ?t key" using 1 key(1) 2(1) by simp
      then have "\<not> contains ([] @ CHR ''['' # ''redacted'' @ CHR '']'' # ?t) key"
        unfolding contains_apart [OF key(2,1)] contains_apart [OF key(3,1)] using key(1,4) by simp
      with 2 key(1) show ?thesis by (simp add: replace_all.simps [of key _ s])
    next
      case 3
      then obtain c cs where s: "s = c # cs" by (cases s) auto
      let ?t = "replace_all key ''[redacted]'' cs"
      have out: "replace_all key ''[redacted]'' s = c # ?t" using 3 key(1) s by (simp add: replace_all.simps [of key _ "c # cs"])
      have "\<not> has_prefix (c # ?t) key"
      proof
        assume "has_prefix (c # ?t) key"
        then have "has_prefix (replace_all key ''[redacted]'' s) key" unfolding out .
        from replace_all_prefix [OF this key(2)] 3 show False by simp
      qed
      moreover have "\<not> contains ?t key" using 1 [rule_format, of cs] by (simp add: s)
      ultimately show ?thesis unfolding out by simp
    qed (use key in \<open>simp add: replace_all.simps\<close>)
  qed
  with key(1) show ?thesis by (simp add: redact_def)
qed

section \<open>What a result can be\<close>

lemma Request_cases:
  fixes hx wide provider model body stream key now attempt
  defines "R \<equiv> Request hx wide provider model body stream key now attempt"
  obtains (refused) "pr_text R = ''''" "pr_actions R = []" "pr_input R = 0" "pr_output R = 0"
  | (read) response answer where "hx_do hx (request_url provider) (request_headers key) body = Some response"
      "hr_status response = 200" "read_response hx wide stream key body response = Inr answer"
      "R = settled_result (mo_max_output_tokens model) key answer"
proof -
  note parts = Request_def known_failure_def failed_result_def requestFailure_def throttled_result_def Let_def
  show thesis
  proof (cases "hx_do hx (request_url provider) (request_headers key) body")
    case None
    then show ?thesis by (intro refused) (auto simp: R_def parts split: prod.splits)
  next
    case (Some r)
    show ?thesis
    proof (cases "hx_url_ok hx (request_url provider) \<and> hr_status r = 200 \<and> (\<exists>a. read_response hx wide stream key body r = Inr a)")
      case True
      with Some show ?thesis by (auto simp: R_def Request_def intro: read)
    next
      case False
      with Some show ?thesis by (intro refused) (auto simp: R_def parts split: prod.splits sum.splits)
    qed
  qed
qed

lemma settled_bounds:
  assumes "0 \<le> maxOutput"
  shows "length (pr_text (settled_result maxOutput key answer)) \<le> MaxModelText \<and>
    0 \<le> pr_input (settled_result maxOutput key answer) \<and> pr_input (settled_result maxOutput key answer) \<le> 1000000000 \<and>
    0 \<le> pr_output (settled_result maxOutput key answer) \<and> pr_output (settled_result maxOutput key answer) \<le> maxOutput"
  using assms
  by (auto simp: settled_result_def failed_result_def Let_def validUsage_def split: prod.splits option.splits if_splits)

text \<open>
  C33. Whatever a provider answers, what the broker gets is bounded: the text fits a saved
  response, and the reported usage is at most a thousand million input tokens and the configured
  output limit of the model, never negative, so that settling it cannot make a ledger negative
  or overflow it.
\<close>

theorem Request_bounded:
  assumes "0 \<le> mo_max_output_tokens model"
  shows "length (pr_text (Request hx wide provider model body stream key now attempt)) \<le> MaxModelText \<and>
    0 \<le> pr_input (Request hx wide provider model body stream key now attempt) \<and>
    pr_input (Request hx wide provider model body stream key now attempt) \<le> 1000000000 \<and>
    0 \<le> pr_output (Request hx wide provider model body stream key now attempt) \<and>
    pr_output (Request hx wide provider model body stream key now attempt) \<le> mo_max_output_tokens model"
  by (rule Request_cases [of hx wide provider model body stream key now attempt])
    (use assms in \<open>auto simp: settled_bounds\<close>)

text \<open>What holds of a tool call that is let through.\<close>

definition legitimate :: "(nat \<Rightarrow> nat) \<Rightarrow> string \<Rightarrow> string \<Rightarrow> model_tool_call \<Rightarrow> bool" where
  "legitimate wide key body a \<longleftrightarrow> mt_type a = ''function'' \<and> CommandKeyPattern (mt_id a) \<and> (key = '''' \<or> \<not> contains (mt_id a) key) \<and>
     (case offered_tools body of None \<Rightarrow> False
      | Some tools \<Rightarrow> list_ex (\<lambda>f. fs_name f = mt_name a \<and> ValidateArguments wide (fs_parameters f) (mt_arguments a) = None) tools)"

lemma accept_action_ok:
  assumes "accept_action wide float key tools b = Inr a" "offered_tools body = Some tools"
  shows "legitimate wide key body a"
proof -
  from assms(1) obtain f where f: "selected_tool tools (mt_name b) = Some f"
    by (auto simp: accept_action_def split: option.splits)
  then have "f \<in> set tools" "fs_name f = mt_name b" by (auto simp: selected_tool_def dest: find_SomeD)
  with assms f show ?thesis
    by (auto simp: accept_action_def legitimate_def list_ex_iff split: if_splits sum.splits option.splits)
qed

lemma requested_action_ok:
  assumes "requested_action wide float key body text = Inr actions"
  shows "\<exists>a. actions = [a] \<and> legitimate wide key body a"
proof -
  from assms obtain b tools a where "offered_tools body = Some tools" "accept_action wide float key tools b = Inr a" "actions = [a]"
    unfolding requested_action_def by (auto split: sum.splits option.splits list.splits if_splits)
  then show ?thesis using accept_action_ok by blast
qed

lemma read_completion_ok:
  "read_completion wide float key body r = Inr (t, actions, u) \<Longrightarrow>
   actions = [] \<or> (\<exists>text. requested_action wide float key body text = Inr actions)"
  unfolding read_completion_def Let_def by (auto split: if_splits sum.splits)

lemma read_response_ok:
  assumes "read_response hx wide stream key body r = Inr (t, actions, u)"
  shows "length actions \<le> 1 \<and> list_all (legitimate wide key body) actions"
proof -
  have "actions = [] \<or> (\<exists>text. requested_action wide (hx_float hx) key body text = Inr actions)"
  proof (cases stream)
    case True
    with assms show ?thesis by (cases "readChatStream wide r") (auto simp: read_response_def split: if_splits)
  next
    case False
    with assms have "read_answer wide (hx_float hx) key body r = Inr (t, actions, u)"
      by (auto simp: read_response_def split: sum.splits if_splits)
    then obtain reply where "read_completion wide (hx_float hx) key body reply = Inr (t, actions, u)"
      by (auto simp: read_answer_def split: sum.splits)
    then show ?thesis by (rule read_completion_ok)
  qed
  then show ?thesis using requested_action_ok by fastforce
qed

text \<open>
  C31. A model gets no tool it was not offered: a result carries at most one tool call, and that
  call has the form of a function call with a safe identity that does not spell the credential,
  names a function of the request it answers, and its saved arguments satisfy that function's
  schema.
\<close>

theorem Request_legitimate:
  "length (pr_actions (Request hx wide provider model body stream key now attempt)) \<le> 1 \<and>
   list_all (legitimate wide key body) (pr_actions (Request hx wide provider model body stream key now attempt))"
proof (rule Request_cases [of hx wide provider model body stream key now attempt])
  fix response answer
  assume "read_response hx wide stream key body response = Inr answer"
    and R: "Request hx wide provider model body stream key now attempt = settled_result (mo_max_output_tokens model) key answer"
  then show ?thesis using read_response_ok [of hx wide stream key body response]
    by (cases answer) (auto simp: settled_result_def failed_result_def Let_def)
qed auto

text \<open>
  C32. The credential of a request never reaches what is saved: whatever the provider answers, in
  the text of the result and in the identity of its tool call a credential without square
  brackets that is not a piece of the word redacted does not occur.
\<close>

theorem Request_redacts:
  assumes "redactable key"
  shows "\<not> contains (pr_text (Request hx wide provider model body stream key now attempt)) key \<and>
    list_all (\<lambda>a. \<not> contains (mt_id a) key) (pr_actions (Request hx wide provider model body stream key now attempt))"
proof
  have "\<not> contains '''' key" using assms by (simp add: redactable_def)
  moreover have "\<not> contains (pr_text (settled_result maxOutput key answer)) key" for maxOutput answer
    using calculation redact_gone [OF assms] by (auto simp: settled_result_def failed_result_def Let_def split: prod.splits)
  ultimately show "\<not> contains (pr_text (Request hx wide provider model body stream key now attempt)) key"
    by (metis Request_cases)
  show "list_all (\<lambda>a. \<not> contains (mt_id a) key) (pr_actions (Request hx wide provider model body stream key now attempt))"
    using Request_legitimate [of hx wide provider model body stream key now attempt] assms
    by (auto simp: list_all_iff legitimate_def redactable_def)
qed

section \<open>Credentials\<close>

text \<open>
  Token (credentials.go): the environment and the Azure credential are arguments: whether it could be
  created, and the token it gives with its expiry, or whether the context ended or it failed.
\<close>

record credential_sources =
  cs_lookup :: "string \<Rightarrow> string option"
  cs_azure_ready :: bool
  cs_azure_token :: "(string \<times> int) option"
  cs_before :: context_error
  cs_after :: context_error

definition bad_credential :: "string \<Rightarrow> bool" where
  "bad_credential token \<longleftrightarrow> blank token \<or> CHR 0x0D \<in> set token \<or> CHR 0x0A \<in> set token"

definition context_failure :: "context_error \<Rightarrow> error option" where
  "context_failure c = (case c of NoContextError \<Rightarrow> None | DeadlineExceeded \<Rightarrow> Some (ErrInternal ''context deadline exceeded'')
     | ContextCanceled \<Rightarrow> Some (ErrInternal ''context canceled''))"

definition Token :: "credential_sources \<Rightarrow> provider_config \<Rightarrow> int \<Rightarrow> error + string" where
  "Token cs provider now =
     (case context_failure (cs_before cs) of Some e \<Rightarrow> Inl e
      | None \<Rightarrow>
        if pc_adapter provider = ''ollama'' then Inr ''''
        else if pc_adapter provider = ''openai-chat-completions'' then
          (case cs_lookup cs (pc_api_key_env provider) of
             None \<Rightarrow> Inl (ErrInternal ''provider credential unavailable before request'')
           | Some key \<Rightarrow> if bad_credential key then Inl (ErrInternal ''provider credential unavailable before request'') else Inr key)
        else if pc_adapter provider = ''azure-openai'' then
          (if \<not> cs_azure_ready cs
           then Inl (ErrInternal ''Azure DefaultAzureCredential initialization failed before request; check AZURE_* settings'')
           else case context_failure (cs_after cs) of Some e \<Rightarrow> Inl e
           | None \<Rightarrow> (case cs_azure_token cs of
               None \<Rightarrow> Inl (ErrInternal ''Azure DefaultAzureCredential authentication failed before request; run az login and check Azure credential configuration'')
             | Some (token, expires) \<Rightarrow>
                 if bad_credential token \<or> \<not> expires > now
                 then Inl (ErrInternal ''Azure DefaultAzureCredential returned an invalid or expired token before request'')
                 else Inr token))
        else Inl (ErrInternal ''unsupported provider adapter before request''))"

end
