(* ===== verification/Answers.thy ===== *)
theory Answers
  imports Provider Frames
begin

text \<open>
  A provider that answers as the chat-completions interface documents is understood: the text
  it sent comes back, redacted, with the usage it reported. The lemmas read back, member by
  member, what encoding/json wrote.
\<close>

section \<open>Raw members of an encoded value\<close>

lemma readable_sooner: "readable wide depth j \<Longrightarrow> d \<le> depth \<Longrightarrow> readable wide d j"
proof (induction j arbitrary: depth d)
  case (JArr xs)
  then show ?case by (auto simp: list_all_iff)
next
  case (JObj kvs)
  then show ?case by (auto simp: list_all_iff)
qed auto

lemma raw_value_marshal:
  assumes "readable wide depth j" "number_ends r"
  shows "raw_value (marshal j @ r) = Some (marshal j, r)"
proof -
  have j: "readable wide 0 j" by (rule readable_sooner [OF assms(1)]) simp
  obtain c cs where m: "marshal j = c # cs" "\<not> json_space c" by (rule marshal_first [OF assms(1)])
  have "scan_value (strict_key wide) 32 (scan_fuel (marshal j @ r)) 0 (marshal j @ r) = Some (value_of j, r)"
    using j assms(2) by (intro scan_marshal) (simp_all add: scan_fuel_def)
  from scan_lenient(1) [OF this, of 10000]
  show ?thesis by (simp add: raw_value_def Let_def m)
qed

lemma unescape_key: "valid_utf8 k \<Longrightarrow> Option.bind (expect (CHR 0x22) (json_string k @ t)) unescape = Some (k, t)"
  by (simp add: json_string_cons expect_char unescape_json_string)

lemma raw_members_marshal:
  assumes "\<And>kv. kv \<in> set kvs \<Longrightarrow> valid_utf8 (fst kv) \<and> readable wide depth (snd kv)" "kvs \<noteq> []" "length kvs \<le> n"
  shows "raw_members n (join_comma (map member_text kvs) @ CHR ''}'' # r) = map (\<lambda>kv. (fst kv, marshal (snd kv))) kvs"
  using assms
proof (induction kvs arbitrary: n)
  case (Cons kv kvs)
  then obtain k where n: "n = Suc k" by (cases n) auto
  let ?rest = "(if kvs = [] then [] else CHR '','' # join_comma (map member_text kvs)) @ CHR ''}'' # r"
  have kv: "valid_utf8 (fst kv)" "readable wide depth (snd kv)" using Cons.prems(1) [of kv] by auto
  have "raw_value (marshal (snd kv) @ ?rest) = Some (marshal (snd kv), ?rest)"
    by (rule raw_value_marshal [OF kv(2)]) auto
  then show ?case
    using Cons.IH [of k] Cons.prems n kv(1)
    by (cases "kvs = []") (simp_all add: join_comma_cons unescape_key expect_char)
qed simp

lemma raw_elements_marshal:
  assumes "\<And>j. j \<in> set js \<Longrightarrow> readable wide depth j" "js \<noteq> []" "length js \<le> n"
  shows "raw_elements n (join_comma (map marshal js) @ CHR '']'' # r) = map marshal js"
  using assms
proof (induction js arbitrary: n)
  case (Cons j js)
  then obtain k where n: "n = Suc k" by (cases n) auto
  let ?rest = "(if js = [] then [] else CHR '','' # join_comma (map marshal js)) @ CHR '']'' # r"
  have "raw_value (marshal j @ ?rest) = Some (marshal j, ?rest)"
    using Cons.prems(1) by (intro raw_value_marshal [of wide depth]) auto
  then show ?case
    using Cons.IH [of k] Cons.prems n by (cases "js = []") (simp_all add: join_comma_cons expect_char)
qed simp

lemma length_members: "length kvs \<le> length (join_comma (map member_text kvs)) + 1"
  by (induction kvs) (auto simp: join_comma_cons json_string_cons)

lemma marshal_some: "readable wide depth j \<Longrightarrow> 1 \<le> length (marshal j)"
  by (rule marshal_first [of wide depth j]) auto

lemma length_elements:
  assumes "\<And>j. j \<in> set js \<Longrightarrow> readable wide depth j"
  shows "length js \<le> length (join_comma (map marshal js)) + 1"
  using assms
proof (induction js)
  case (Cons j js)
  then show ?case using marshal_some [of wide depth j] by (auto simp: join_comma_cons)
qed simp

lemma raw_struct_marshal:
  assumes "readable wide depth (JObj kvs)" "kvs \<noteq> []"
  shows "raw_struct flds (marshal (JObj kvs)) x = raw_fields_of flds (map (\<lambda>kv. (fst kv, marshal (snd kv))) kvs) x"
proof -
  have "raw_members (length (marshal (JObj kvs))) (join_comma (map member_text kvs) @ CHR ''}'' # []) =
      map (\<lambda>kv. (fst kv, marshal (snd kv))) kvs"
    using assms length_members [of kvs]
    by (intro raw_members_marshal [of _ wide "Suc depth"]) (auto simp: list_all_iff lower_key_def)
  then show ?thesis by (simp add: raw_struct_def expect_char)
qed

lemma raw_list_marshal:
  assumes "readable wide depth (JArr js)" "js \<noteq> []"
  shows "raw_list dec zero upd (marshal (JArr js)) x = map_option (\<lambda>ys. upd ys x) (raw_each dec zero (map marshal js))"
proof -
  have "raw_elements (length (marshal (JArr js))) (join_comma (map marshal js) @ CHR '']'' # []) = map marshal js"
    using assms length_elements [of js wide "Suc depth"]
    by (intro raw_elements_marshal [of _ wide "Suc depth"]) (auto simp: list_all_iff)
  then show ?thesis by (simp add: raw_list_def expect_char)
qed

lemma unmarshal_marshal:
  assumes "readable wide depth j"
  shows "json_unmarshal dec (marshal j) = dec (value_of j)"
proof -
  have "readable wide 0 j" by (rule readable_sooner [OF assms]) simp
  then have "scan_value (strict_key wide) 32 (scan_fuel (marshal j @ [])) 0 (marshal j @ []) = Some (value_of j, [])"
    by (intro scan_marshal) (simp_all add: scan_fuel_def)
  from scan_lenient(1) [OF this, of 10000] show ?thesis by (simp add: json_unmarshal_def skip_space_def)
qed

lemma plain_marshal: "readable wide depth j \<Longrightarrow> plain dec (marshal j) x = dec (value_of j) x"
  by (simp add: plain_def unmarshal_marshal)

lemma decodeProvider_marshal:
  assumes "readable wide 0 j"
  shows "decodeProvider wide dec zero (marshal j) =
    (case dec (marshal j) zero of None \<Rightarrow> Inl (ErrInternal ''invalid provider response shape'') | Some x \<Rightarrow> Inr x)"
proof -
  have "ScanJSONValue wide 0 (marshal j @ []) = Some (value_of j, [])"
    unfolding ScanJSONValue_def using assms by (intro scan_marshal) (simp_all add: scan_fuel_def)
  moreover have "raw_value (marshal j @ []) = Some (marshal j, [])"
    using assms by (intro raw_value_marshal) auto
  ultimately show ?thesis
    using assms by (simp add: decodeProvider_def valid_utf8_marshal raw_unmarshal_def unmarshal_marshal skip_space_def)
qed

section \<open>A completion\<close>

text \<open>What a provider sends for a plain answer, with members the broker does not use.\<close>

definition completion_json :: "string \<Rightarrow> int \<Rightarrow> int \<Rightarrow> json" where
  "completion_json t i out = JObj
     [(''id'', JStr ''x''),
      (''choices'', JArr [JObj [(''index'', JInt 0), (''message'', JObj [(''role'', JStr ''assistant''), (''content'', JStr t)]),
         (''finish_reason'', JStr ''stop'')]]),
      (''usage'', JObj [(''prompt_tokens'', JInt i), (''completion_tokens'', JInt out), (''total_tokens'', JInt (i + out))])]"

definition completion_reply :: "string \<Rightarrow> int \<Rightarrow> int \<Rightarrow> chat_reply" where
  "completion_reply t i out = \<lparr>chr_choices = [\<lparr>chc_index = 0, chc_message = no_part\<lparr>chp_content := Some t\<rparr>, chc_delta = no_part,
     chc_finish = Some ''stop''\<rparr>], chr_usage = Some \<lparr>chu_input = Some i, chu_output = Some out, chu_total = Some (i + out)\<rparr>,
     chr_error = ''''\<rparr>"

lemma unused_fields: "find_field reply_fields ''id'' = None" "find_field part_fields ''role'' = None"
  by code_simp+

lemma ascii_keys:
  "lower_key wide ''id''" "lower_key wide ''choices''" "lower_key wide ''index''" "lower_key wide ''message''" "lower_key wide ''role''"
  "lower_key wide ''content''" "lower_key wide ''finish_reason''" "lower_key wide ''usage''" "lower_key wide ''prompt_tokens''"
  "lower_key wide ''completion_tokens''" "lower_key wide ''total_tokens''"
  by (rule lower_key_ascii; simp add: byte_def)+

lemma completion_readable: "valid_utf8 t \<Longrightarrow> readable wide 0 (completion_json t i out)"
  by (simp add: completion_json_def ascii_keys valid_utf8_ascii byte_def)

lemma plain_string: "valid_utf8 s \<Longrightarrow> plain dec (json_string s) x = dec (VStr s) x"
  using plain_marshal [of "\<lambda>n. n" 0 "JStr s" dec x] by simp

lemma plain_int: "plain dec (dec_int i) x = dec (VNum (dec_int i)) x"
  using plain_marshal [of "\<lambda>n. n" 0 "JInt i" dec x] by simp

lemma optional_string_marshal:
  "valid_utf8 s \<Longrightarrow> optional_string sel upd (json_string s) x = Some (upd (Some s) x)"
  by (simp add: optional_string_def plain_string into_pointer_def into_string_def split: option.split)

lemma plain_int_marshal:
  "int64_range i \<Longrightarrow> plain (into_int upd) (dec_int i) x = Some (upd i x)"
  by (simp add: plain_int into_int_def parse_dec_int)

lemma completion_usage:
  assumes "int64_range i" "int64_range out" "int64_range (i + out)"
  shows "known_fields usage_fields (VObj [(''prompt_tokens'', VNum (dec_int i)), (''completion_tokens'', VNum (dec_int out)),
     (''total_tokens'', VNum (dec_int (i + out)))]) no_usage = Some \<lparr>chu_input = Some i, chu_output = Some out, chu_total = Some (i + out)\<rparr>"
  using assms by (simp add: known_fields_def find_field_def usage_fields_def into_pointer_def into_int_def parse_dec_int no_usage_def)

lemma completion_decoded:
  assumes t: "valid_utf8 t" and ints: "int64_range i" "int64_range out" "int64_range (i + out)"
  shows "decode_reply wide (marshal (completion_json t i out)) = Inr (completion_reply t i out)"
proof -
  let ?message = "JObj [(''role'', JStr ''assistant''), (''content'', JStr t)]"
  let ?choice = "JObj [(''index'', JInt 0), (''message'', ?message), (''finish_reason'', JStr ''stop'')]"
  let ?usage = "JObj [(''prompt_tokens'', JInt i), (''completion_tokens'', JInt out), (''total_tokens'', JInt (i + out))]"
  have ascii: "valid_utf8 ''assistant''" "valid_utf8 ''stop''" "valid_utf8 ''x''" by (simp_all add: valid_utf8_ascii byte_def)
  have readable: "readable wide 0 ?message" "readable wide 0 ?choice" "readable wide 0 (JArr [?choice])" "readable wide 0 ?usage"
    using t ascii by (simp_all add: ascii_keys)
  have message: "raw_struct part_fields (marshal ?message) no_part = Some (no_part\<lparr>chp_content := Some t\<rparr>)"
    unfolding raw_struct_marshal [OF readable(1) list.simps(3)]
    by (simp add: unused_fields) (simp add: find_field_def part_fields_def optional_string_marshal t)
  have choice: "raw_struct choice_fields (marshal ?choice) no_choice =
      Some \<lparr>chc_index = 0, chc_message = no_part\<lparr>chp_content := Some t\<rparr>, chc_delta = no_part, chc_finish = Some ''stop''\<rparr>"
    unfolding raw_struct_marshal [OF readable(2) list.simps(3)] using message ascii
    by (simp add: find_field_def choice_fields_def raw_within_def optional_string_marshal no_choice_def int64_range_def
        plain_int_marshal del: marshal.simps(7))
  have choices: "raw_list (raw_struct choice_fields) no_choice upd (marshal (JArr [?choice])) x = Some (upd
      [\<lparr>chc_index = 0, chc_message = no_part\<lparr>chp_content := Some t\<rparr>, chc_delta = no_part, chc_finish = Some ''stop''\<rparr>] x)" for upd and x :: chat_reply
    unfolding raw_list_marshal [OF readable(3) list.simps(3)] by (simp add: choice del: marshal.simps)
  have usage: "plain (into_pointer (known_fields usage_fields) no_usage chr_usage upd) (marshal ?usage) x =
      Some (upd (Some \<lparr>chu_input = Some i, chu_output = Some out, chu_total = Some (i + out)\<rparr>) x)" if "chr_usage x = None" for upd x
    unfolding plain_marshal [OF readable(4)] using completion_usage [OF ints] that by (simp add: into_pointer_def)
  note whole = completion_readable [OF t, of wide i out, unfolded completion_json_def]
  have fields: "raw_struct reply_fields (marshal (completion_json t i out)) no_reply = Some (completion_reply t i out)"
    unfolding completion_json_def raw_struct_marshal [OF whole list.simps(3)]
    by (simp add: unused_fields del: marshal.simps)
      (simp add: find_field_def reply_fields_def no_reply_def completion_reply_def choices usage del: marshal.simps)
  show ?thesis
    unfolding decode_reply_def decodeProvider_marshal [OF completion_readable [OF t]] fields by simp
qed

text \<open>
  C34. A provider that keeps to the documented format is understood: when it answers a request
  with status 200 and a complete plain answer within the limits, the result is that answer's
  text with the credential replaced, its usage as reported, and no retry or failure.
\<close>

theorem Request_completes:
  assumes sent: "hx_url_ok hx (request_url provider)"
      "hx_do hx (request_url provider) (request_headers key) body = Some response"
    and response: "hr_status response = 200" "hr_body response = marshal (completion_json t i out)" "\<not> hr_broken response"
    and limits: "valid_utf8 t" "length t \<le> MaxModelText" "length (hr_body response) \<le> MaxProviderBytes"
      "0 \<le> i" "i \<le> 1000000000" "0 \<le> out" "out \<le> mo_max_output_tokens model" "mo_max_output_tokens model \<le> 1000000000"
    and fits: "length (redact key t) \<le> MaxModelText" "CheckFrame (model_frame (redact key t)) = None"
  shows "Request hx wide provider model body False key now attempt =
    \<lparr>pr_text = redact key t, pr_input = i, pr_output = out, pr_known = True, pr_reason = '''', pr_retry = False,
     pr_cooldown = None, pr_retry_delay = 0, pr_actions = []\<rparr>"
proof -
  have ints: "int64_range i" "int64_range out" "int64_range (i + out)" using limits(4-8) by (simp_all add: int64_range_def)
  have "read_whole response = Inr (marshal (completion_json t i out))"
    using response limits(3) by (simp add: read_whole_def Let_def)
  then have "read_answer wide (hx_float hx) key body response = Inr (t, [], chr_usage (completion_reply t i out))"
    by (simp add: read_answer_def completion_decoded [OF limits(1) ints])
      (simp add: read_completion_def unsupported_completion_def completion_reply_def present_def no_part_def Let_def)
  then have "read_response hx wide False key body response = Inr (t, [], chr_usage (completion_reply t i out))"
    using limits(2) by (simp add: read_response_def)
  then show ?thesis
    using sent response(1) limits fits
    by (simp add: Request_def settled_result_def completion_reply_def validUsage_def Let_def)
qed

text \<open>A request that is answered.\<close>

definition honest_response :: http_response where
  "honest_response = \<lparr>hr_status = 200, hr_retry_after = '''', hr_body = marshal (completion_json ''hello K1'' 5 3), hr_broken = False,
     hr_ahead = 0\<rparr>"

definition honest_exchange :: http_exchange where
  "honest_exchange = \<lparr>hx_url_ok = (\<lambda>_. True), hx_do = (\<lambda>_ _ _. Some honest_response), hx_context = NoContextError, hx_jitter = 0,
     hx_date = (\<lambda>_. None), hx_float = (\<lambda>_. None)\<rparr>"

definition honest_model :: model_config where
  "honest_model = \<lparr>mo_provider = ''p'', mo_model = ''m'', mo_quota_groups = None, mo_max_output_tokens = 10, mo_input_headroom_percent = 0\<rparr>"

definition honest_provider :: provider_config where
  "honest_provider = \<lparr>pc_adapter = ''openai-chat-completions'', pc_base_url = ''https://h/v1/'', pc_api_key_env = ''K'', pc_timeout_seconds = 0\<rparr>"

lemma redact_sample: "redact ''K1'' ''hello K1'' = ''hello [redacted]''"
  by (simp add: redact_def replace_all.simps has_prefix_def)

lemma json_string_short:
  assumes "\<forall>c \<in> set s. byte c < 128"
  shows "length (json_string s) \<le> 6 * length s + 2"
proof -
  have "runes s = map (\<lambda>c. (Some (byte c), [c])) s"
    using assms by (induction s) (auto simp: rune_at_def)
  moreover have "length (json_rune (Some n, [c])) \<le> 6" for n c
    by (simp add: json_rune_def)
  then have "length (concat (map json_rune (map (\<lambda>c. (Some (byte c), [c])) s))) \<le> 6 * length s"
    by (induction s) (auto intro: add_mono)
  ultimately show ?thesis by (simp add: json_string_def)
qed

lemma sample_frame_fits: "CheckFrame (model_frame ''hello [redacted]'') = None"
proof -
  have "length (json_string s) \<le> 6 * length s + 2" if "list_all (\<lambda>c. byte c < 128) s" for s
    using that by (intro json_string_short) (simp add: list_all_iff)
  note short = this
  define i where "i = ''call_'' @ replicate 32 (CHR ''0'')"
  have i: "length (json_string i) \<le> 230" "i \<noteq> ''''" using short [of i] by (simp_all add: i_def byte_def list_all_iff)
  have "length (marshal (json_frame \<lparr>ms_type = ''model.result'', ms_data = ''hello [redacted]'', ms_id = i\<rparr>)) < MaxFrame"
    using short [of "''type''"] short [of "''model.result''"] short [of "''data''"] short [of "''hello [redacted]''"] short [of "''id''"] i
    by (simp add: json_frame_def field_def field_omit_def MaxFrame_def byte_def)
  then show ?thesis by (simp add: CheckFrame_def WriteMessage_def model_frame_def i_def Let_def)
qed

lemma sample_body: "length (marshal (completion_json ''hello K1'' 5 3)) \<le> MaxProviderBytes"
proof -
  have "length (json_string s) \<le> 6 * length s + 2" if "list_all (\<lambda>c. byte c < 128) s" for s
    using that by (intro json_string_short) (simp add: list_all_iff)
  note short = this
  show ?thesis
    using short [of "''id''"] short [of "''x''"] short [of "''choices''"] short [of "''index''"] short [of "''message''"] short [of "''role''"]
      short [of "''assistant''"] short [of "''content''"] short [of "''hello K1''"] short [of "''finish_reason''"] short [of "''stop''"]
      short [of "''usage''"] short [of "''prompt_tokens''"] short [of "''completion_tokens''"] short [of "''total_tokens''"]
    by (simp add: completion_json_def MaxProviderBytes_def byte_def dec_int_def dec_nat.simps)
qed

theorem Request_completes_applied:
  "Request honest_exchange (\<lambda>n. n) honest_provider honest_model ''{}'' False ''K1'' 1000 1 =
    \<lparr>pr_text = ''hello [redacted]'', pr_input = 5, pr_output = 3, pr_known = True, pr_reason = '''', pr_retry = False,
     pr_cooldown = None, pr_retry_delay = 0, pr_actions = []\<rparr>"
  using Request_completes [of honest_exchange honest_provider "''K1''" "''{}''" honest_response "''hello K1''" 5 3 honest_model]
    redact_sample sample_frame_fits sample_body
  by (simp add: honest_exchange_def honest_response_def honest_model_def MaxModelText_def valid_utf8_ascii byte_def)

theorem Request_bounded_applied:
  "pr_output (Request honest_exchange (\<lambda>n. n) honest_provider honest_model ''{}'' False ''K1'' 1000 1) \<le> 10"
  using Request_bounded [of honest_model honest_exchange "\<lambda>n. n" honest_provider "''{}''" False "''K1''" 1000 1]
  by (simp add: honest_model_def)

theorem Request_redacts_applied:
  "\<not> contains (pr_text (Request honest_exchange (\<lambda>n. n) honest_provider honest_model ''{}'' False ''K1'' 1000 1)) ''K1''"
proof -
  have "redactable ''K1''" by (simp add: redactable_def has_prefix_def)
  then show ?thesis using Request_redacts by blast
qed

section \<open>A stream that breaks off\<close>

definition done_mark :: string where
  "done_mark = ''[DONE]''"

text \<open>An event buffer is a sequence of ended lines; the mark cannot come from two of them.\<close>

definition unmarked :: "stream_state \<Rightarrow> bool" where
  "unmarked st \<longleftrightarrow> \<not> st_done st \<and> \<not> contains (st_event st) done_mark \<and> (st_event st = [] \<or> last (st_event st) = newline)"

lemma newline_no_mark: "newline \<notin> set done_mark" "done_mark \<noteq> []"
  by (simp_all add: newline_def done_mark_def)

lemma contains_part: "contains (drop n s) k \<Longrightarrow> contains s k"
  using contains_append [of "drop n s" k "take n s" "[]"] by simp

lemma contains_take: "contains (take n s) k \<Longrightarrow> contains s k"
  using contains_append [of "take n s" k "[]" "drop n s"] by simp

lemma not_contains_parts: "\<not> contains s k \<Longrightarrow> \<not> contains (take n s) k" "\<not> contains s k \<Longrightarrow> \<not> contains (drop n s) k"
  using contains_take contains_part by blast+

lemma contains_self: "contains k k"
  by (cases k) (simp_all add: has_prefix_def)

lemma no_mark_in_lines:
  assumes "next_line s = Some (Inr (line, rest))" "\<not> contains s done_mark"
  shows "\<not> contains line done_mark" "\<not> contains rest done_mark" "newline \<notin> set line"
proof -
  let ?l = "takeWhile (\<lambda>c. c \<noteq> newline) s"
  have l: "line = ?l \<or> line = butlast ?l" and r: "rest = drop (length ?l + 1) s"
    using assms(1) by (auto simp: next_line_def Let_def split: if_splits)
  have "?l = take (length ?l) s" by (metis takeWhile_eq_take)
  then have "\<not> contains ?l done_mark" using not_contains_parts(1) [OF assms(2)] by metis
  then show "\<not> contains line done_mark"
    using l by (elim disjE) (simp_all add: butlast_conv_take not_contains_parts)
  show "\<not> contains rest done_mark" unfolding r by (rule not_contains_parts(2) [OF assms(2)])
  have "newline \<notin> set ?l" using set_takeWhileD [of newline "\<lambda>c. c \<noteq> newline" s] by blast
  then show "newline \<notin> set line" using l by (metis in_set_butlastD)
qed

lemma add_data_unmarked:
  assumes "add_data line st = Inr st'" "unmarked st" "\<not> contains line done_mark"
  shows "unmarked st'"
proof -
  let ?p = "trim_prefix '' '' (trim_prefix ''data:'' line)"
  have st': "st' = st\<lparr>st_event := st_event st @ ?p @ [newline]\<rparr>"
    using assms(1) by (auto simp: add_data_def Let_def split: if_splits)
  have p: "\<not> contains ?p done_mark"
    by (simp add: trim_prefix_def not_contains_parts assms(3))
  have "\<not> contains (st_event st @ ?p @ [newline]) done_mark"
  proof (cases "st_event st = []")
    case True
    then show ?thesis using p contains_apart [OF newline_no_mark, of ?p "[]"] newline_no_mark(2) by simp
  next
    case False
    then obtain e where e: "st_event st = e @ [newline]"
      using assms(2) by (metis append_butlast_last_id unmarked_def)
    then have "\<not> contains e done_mark"
      using assms(2) contains_append [of e done_mark "[]" "[newline]"] by (auto simp: unmarked_def)
    then show ?thesis
      using p contains_apart [OF newline_no_mark, of e "?p @ [newline]"] contains_apart [OF newline_no_mark, of ?p "[]"] e
        newline_no_mark(2) by simp
  qed
  with assms(2) show ?thesis by (simp add: st' unmarked_def)
qed

lemma consume_choice_event: "consume_choice c st = Inr st' \<Longrightarrow> st_event st' = st_event st \<and> st_done st' = st_done st"
  by (auto simp: consume_choice_def Let_def split: if_splits option.splits)

lemma consume_reply_event: "consume_reply r st = Inr st' \<Longrightarrow> st_event st' = st_event st \<and> st_done st' = st_done st"
  by (auto simp: consume_reply_def Let_def dest!: consume_choice_event split: if_splits list.splits sum.splits)

lemma consume_event_unmarked:
  assumes "consume_event wide st = Inr st'" "unmarked st"
  shows "unmarked st'"
proof -
  let ?data = "if has_suffix (st_event st) [newline] then butlast (st_event st) else st_event st"
  have "?data \<noteq> done_mark"
    using assms(2) contains_self [of done_mark] contains_take [of "length (st_event st) - 1" "st_event st" done_mark]
    by (auto simp: unmarked_def butlast_conv_take)
  then show ?thesis
    using assms newline_no_mark(2)
    by (cases "?data = ''''")
      (auto simp: consume_event_def Let_def unmarked_def simp flip: done_mark_def dest!: consume_reply_event split: if_splits sum.splits)
qed

lemma read_events_unmarked:
  "read_events wide s st = Inr (st', rest) \<Longrightarrow> unmarked st \<Longrightarrow> \<not> contains s done_mark \<Longrightarrow> unmarked st'"
proof (induction wide s st rule: read_events.induct)
  case (1 wide s st)
  show ?case
  proof (cases "next_line s")
    case (Some r)
    then obtain line s1 where line: "next_line s = Some (Inr (line, s1))"
      using 1(2) by (cases r) (auto simp: read_events.simps [of wide s])
    then obtain st1 where st1: "stream_line wide line st = Inr st1"
      using 1(2) by (auto simp: read_events.simps [of wide s] split: sum.splits)
    have step: "unmarked st1"
      using st1 1(3) no_mark_in_lines [OF line 1(4)]
      by (auto simp: stream_line_def split: if_splits intro: consume_event_unmarked add_data_unmarked)
    then have "\<not> st_done st1" by (simp add: unmarked_def)
    with 1(2) line st1 have "read_events wide s1 st1 = Inr (st', rest)" by (simp add: read_events.simps [of wide s])
    with 1(1) [OF line [unfolded] refl refl st1] \<open>\<not> st_done st1\<close> step no_mark_in_lines [OF line 1(4)] show ?thesis
      by (simp add: line)
  qed (use 1 in \<open>simp add: read_events.simps\<close>)
qed

text \<open>
  C35. A stream that breaks off is never taken for an answer: when the bytes the provider
  delivered do not hold the mark that completes a stream, reading it is an error, whatever text
  and usage came before.
\<close>

theorem readChatStream_incomplete:
  assumes "\<not> contains (hr_body r) ''[DONE]''"
  shows "\<exists>e. readChatStream wide r = Inl e"
proof -
  note assms = assms [folded done_mark_def]
  have "unmarked stream_start" using newline_no_mark(2) by (simp add: unmarked_def stream_start_def)
  moreover have "\<not> contains (take (MaxProviderBytes + 1) (hr_body r)) done_mark" by (rule not_contains_parts(1) [OF assms])
  ultimately show ?thesis
    using read_events_unmarked [of wide "take (MaxProviderBytes + 1) (hr_body r)" stream_start]
    by (cases "read_events wide (take (MaxProviderBytes + 1) (hr_body r)) stream_start")
      (auto simp: readChatStream_def unmarked_def)
qed

theorem readChatStream_incomplete_applied:
  "\<exists>e. readChatStream (\<lambda>n. n) (honest_response\<lparr>hr_body := ''data: {}''\<rparr>) = Inl e"
  by (rule readChatStream_incomplete) (simp add: has_prefix_def)

end
