(* ===== verification/Catalog.thy ===== *)
theory Catalog
  imports Views
begin

text \<open>
  The catalog of tools an administrator sees (Catalog in registry.go): the reviewed tools and the
  shared tools of the configuration in the order of their names, then the drafts of the named
  system, each with the state its evaluation, approval and revocation give it.
\<close>

section \<open>Entries\<close>

record registry_entry =
  rx_id :: string
  rx_system_id :: string
  rx_version :: int
  rx_kind :: string
  rx_description :: string
  rx_content :: string
  rx_requires :: "string slice"
  rx_digest :: string
  rx_state :: string
  rx_origin :: string
  rx_schema :: "model_function option"
  rx_effect :: string
  rx_timeout_seconds :: int
  rx_execution :: string
  rx_output_schema :: string
  rx_input_bytes :: int
  rx_output_bytes :: int
  rx_artifact_bytes :: int
  rx_executable_digest :: string
  rx_arguments :: "string list"
  rx_capabilities :: "string list"
  rx_goal_id :: string
  rx_task_id :: string
  rx_evaluation_id :: string
  rx_evaluation_digest :: string
  rx_approval_expires :: int
  rx_remaining_tasks :: int

definition zero_entry :: registry_entry where
  "zero_entry = \<lparr>rx_id = '''', rx_system_id = '''', rx_version = 0, rx_kind = '''', rx_description = '''', rx_content = '''',
     rx_requires = None, rx_digest = '''', rx_state = '''', rx_origin = '''', rx_schema = None, rx_effect = '''',
     rx_timeout_seconds = 0, rx_execution = '''', rx_output_schema = '''', rx_input_bytes = 0, rx_output_bytes = 0,
     rx_artifact_bytes = 0, rx_executable_digest = '''', rx_arguments = [], rx_capabilities = [], rx_goal_id = '''',
     rx_task_id = '''', rx_evaluation_id = '''', rx_evaluation_digest = '''', rx_approval_expires = 0, rx_remaining_tasks = 0\<rparr>"

section \<open>Reviewed and shared tools\<close>

definition object_schema :: string where
  "object_schema = ''{\"type\":\"object\"}''"

definition report_schema :: string where
  "report_schema =
     ''{\"type\":\"object\",\"properties\":{\"runes\":{\"type\":\"integer\",\"minimum\":0},\"words\":{\"type\":\"integer\",\"minimum\":0},\"artifact\":{\"type\":\"string\"}},\"required\":[\"runes\",\"words\"],\"additionalProperties\":false}''"

definition builtin_entry :: "(string \<Rightarrow> string) \<Rightarrow> string \<Rightarrow> tool_config \<Rightarrow> registry_entry \<Rightarrow> error + registry_entry" where
  "builtin_entry H name t e =
     (case ExecutableSchema H name t of Inl err \<Rightarrow> Inl err
      | Inr schema \<Rightarrow> Inr (e\<lparr>rx_origin := ''reviewed-runtime'', rx_effect := ''local-transaction'', rx_timeout_seconds := 10,
          rx_execution := ''trusted-builtin'', rx_input_bytes := int MaxEventBytes, rx_output_bytes := int MaxEventBytes,
          rx_output_schema := object_schema, rx_schema := Some schema\<rparr>))"

definition analyzer_entry :: "configuration \<Rightarrow> registry_entry \<Rightarrow> registry_entry" where
  "analyzer_entry cfg e = e\<lparr>rx_effect := ''private-workspace-output'', rx_execution := ''sandboxed-subprocess'',
     rx_artifact_bytes := 4096, rx_executable_digest := cf_runtime_digest cfg,
     rx_arguments := [''tool'', ''text-analyze''], rx_capabilities := [''private output write when save_artifact=true''],
     rx_output_schema := report_schema\<rparr>"

definition shared_entry :: "(string \<Rightarrow> string) \<Rightarrow> configuration \<Rightarrow> string \<Rightarrow> error + registry_entry" where
  "shared_entry H cfg name =
     (let t = the_tool cfg name;
          e = zero_entry\<lparr>rx_id := name, rx_version := tc_version t, rx_kind := tc_kind t, rx_description := tc_description t,
                rx_content := tc_content t, rx_requires := tc_requires_tools t, rx_digest := JsonDigest H (json_tool t),
                rx_state := ''active'', rx_origin := ''administrative-json''\<rparr>
      in if BuiltinTool name = None then Inr e
         else case builtin_entry H name t e of Inl err \<Rightarrow> Inl err
              | Inr e \<Rightarrow> Inr (if name = ''runtime.text.analyze'' then analyzer_entry cfg e else e))"

definition mark_revoked :: "string \<Rightarrow> registry_entry \<Rightarrow> db \<Rightarrow> registry_entry" where
  "mark_revoked systemID e d = (if revoked d systemID (rx_id e) (rx_version e) then e\<lparr>rx_state := ''revoked''\<rparr> else e)"

definition shared_listed :: "(string \<Rightarrow> string) \<Rightarrow> configuration \<Rightarrow> string \<Rightarrow> string \<Rightarrow> registry_entry op" where
  "shared_listed H cfg systemID name =
     tx_bind (tx_lift (shared_entry H cfg name)) (\<lambda>e.
     if systemID = '''' then tx_return e else tx_gets (mark_revoked systemID e))"

section \<open>Drafts\<close>

definition draft_state_text :: "draft_state \<Rightarrow> string" where
  "draft_state_text s = (case s of DDraft \<Rightarrow> ''draft'' | DRejected \<Rightarrow> ''rejected'' | DDisabled \<Rightarrow> ''disabled'')"

definition draft_entry :: "string \<Rightarrow> draft_row \<Rightarrow> registry_entry" where
  "draft_entry systemID t = zero_entry\<lparr>rx_system_id := systemID, rx_id := td_tool_id t, rx_version := td_version t,
     rx_kind := td_kind t, rx_description := td_description t, rx_content := td_content t, rx_requires := td_requires_tools t,
     rx_digest := td_digest t, rx_state := draft_state_text (td_state t), rx_origin := td_creator t,
     rx_goal_id := td_goal_id t, rx_task_id := td_task_id t\<rparr>"

text \<open>The evaluation of a draft with the approval it may have.\<close>

definition evaluated_entry :: "evaluation_row \<Rightarrow> approval_row option \<Rightarrow> int \<Rightarrow> registry_entry \<Rightarrow> registry_entry" where
  "evaluated_entry row a now e0 =
     (let e1 = e0\<lparr>rx_evaluation_id := le_evaluation_id row, rx_evaluation_digest := le_digest row,
             rx_executable_digest := le_artifact_digest row,
             rx_approval_expires := (case a of None \<Rightarrow> 0 | Some a \<Rightarrow> la_expires_at a),
             rx_remaining_tasks := (case a of None \<Rightarrow> 0 | Some a \<Rightarrow> la_remaining_tasks a)\<rparr>;
          e2 = (if rx_state e1 = ''draft'' then e1\<lparr>rx_state := evaluation_state_name (le_state row)\<rparr> else e1);
          e3 = (if rx_state e2 = ''active'' \<and> now \<ge> rx_approval_expires e2 then e2\<lparr>rx_state := ''expired''\<rparr> else e2);
          digest = (case a of None \<Rightarrow> '''' | Some a \<Rightarrow> la_digest a)
      in if digest = '''' then e3 else e3\<lparr>rx_digest := digest\<rparr>)"

definition generated_entry :: "(string \<Rightarrow> string) \<Rightarrow> tool_config \<Rightarrow> registry_entry \<Rightarrow> error + registry_entry" where
  "generated_entry H t e =
     (if rx_kind e = ''executable'' \<and> rx_executable_digest e \<noteq> '''' then
        (case ExecutableSchema H (rx_id e) t of Inl err \<Rightarrow> Inl err
         | Inr schema \<Rightarrow> Inr (e\<lparr>rx_schema := Some schema, rx_execution := ''sandboxed-generated'', rx_input_bytes := 4096,
             rx_output_bytes := int MaxEventBytes, rx_timeout_seconds := 10,
             rx_capabilities := [''read-only invocation inputs'', ''bounded private scratch/output'', ''no network or broker session'']\<rparr>))
      else Inr e)"

definition draft_evaluation :: "db \<Rightarrow> string \<Rightarrow> registry_entry \<Rightarrow> evaluation_row option" where
  "draft_evaluation d systemID e =
     List.find (\<lambda>x. le_system_id x = systemID \<and> le_tool_id x = rx_id e \<and> le_version x = rx_version e) (db_evaluations d)"

definition draft_approval :: "db \<Rightarrow> string \<Rightarrow> registry_entry \<Rightarrow> approval_row option" where
  "draft_approval d systemID e =
     List.find (\<lambda>x. la_system_id x = systemID \<and> la_tool_id x = rx_id e \<and> la_version x = rx_version e) (db_approvals d)"

text \<open>A draft that was never evaluated is listed as it is, whatever was revoked.\<close>

definition draft_listed :: "(string \<Rightarrow> string) \<Rightarrow> string \<Rightarrow> int \<Rightarrow> draft_row \<Rightarrow> registry_entry op" where
  "draft_listed H systemID now t =
     (let e = draft_entry systemID t in
      tx_bind (tx_gets (\<lambda>d. (draft_evaluation d systemID e, draft_approval d systemID e))) (\<lambda>(row, a).
      case row of None \<Rightarrow> tx_return e
      | Some row \<Rightarrow>
          tx_bind (tx_lift (generated_entry H (le_definition row) (evaluated_entry row a now e))) (\<lambda>e.
          tx_gets (mark_revoked systemID e))))"

definition catalog_names :: "configuration \<Rightarrow> string list" where
  "catalog_names cfg = sort (BuiltinNames @ map fst (cf_tools cfg))"

definition Catalog :: "(string \<Rightarrow> string) \<Rightarrow> configuration \<Rightarrow> string \<Rightarrow> string \<Rightarrow> int \<Rightarrow> registry_entry list op" where
  "Catalog H cfg actor systemID now = read_only
     (tx_seq (if systemID = '''' then tx_return () else tx_bind (readSystem H actor systemID) (\<lambda>_. tx_return ()))
     (tx_bind (tx_map (shared_listed H cfg systemID) (catalog_names cfg)) (\<lambda>shared.
      if systemID = '''' then tx_return shared else
      tx_bind (tx_select db_drafts (\<lambda>t. td_system_id t = systemID)) (\<lambda>rows.
      tx_bind (tx_map (draft_listed H systemID now) (sort_key td_tool_id (sort_key td_version rows))) (\<lambda>drafts.
      tx_return (shared @ drafts))))))"

section \<open>What is listed as active\<close>

lemma evaluation_state_active: "evaluation_state_name s = ''active'' \<longleftrightarrow> s = LActive"
  by (cases s) auto

lemma draft_never_active: "draft_state_text s \<noteq> ''active''"
  by (simp add: draft_state_text_def split: draft_state.splits)

lemma generated_entry_state: "generated_entry H t e = Inr e' \<Longrightarrow> rx_state e' = rx_state e"
  by (auto simp: generated_entry_def split: if_splits sum.splits)

definition expiry :: "approval_row option \<Rightarrow> int" where
  "expiry a = (case a of None \<Rightarrow> 0 | Some a \<Rightarrow> la_expires_at a)"

definition evaluated_state :: "string \<Rightarrow> evaluation_state \<Rightarrow> string" where
  "evaluated_state s l = (if s = ''draft'' then evaluation_state_name l else s)"

lemma evaluated_entry_state: "rx_state (evaluated_entry row a now e) =
    (if evaluated_state (rx_state e) (le_state row) = ''active'' \<and> expiry a \<le> now then ''expired''
     else evaluated_state (rx_state e) (le_state row))"
  by (simp add: evaluated_entry_def Let_def evaluated_state_def expiry_def)

lemma evaluated_entry_active:
  assumes "rx_state (evaluated_entry row a now e) = ''active''" "rx_state e \<noteq> ''active''"
  shows "rx_state e = ''draft'' \<and> le_state row = LActive \<and> now < expiry a"
proof -
  have "evaluated_state (rx_state e) (le_state row) = ''active''" "\<not> expiry a \<le> now"
    using assms(1) unfolding evaluated_entry_state by (simp_all split: if_splits)
  with assms(2) show ?thesis by (simp add: evaluated_state_def evaluation_state_active split: if_splits)
qed

lemma draft_listed_cases:
  "draft_listed H systemID now t d = (case draft_evaluation d systemID (draft_entry systemID t) of
     None \<Rightarrow> (Inr (draft_entry systemID t), d)
   | Some row \<Rightarrow> (case generated_entry H (le_definition row)
         (evaluated_entry row (draft_approval d systemID (draft_entry systemID t)) now (draft_entry systemID t)) of
       Inl err \<Rightarrow> (Inl err, d) | Inr g \<Rightarrow> (Inr (mark_revoked systemID g d), d)))"
  by (simp add: draft_listed_def Let_def tx_bind_def tx_gets_def tx_lift_def tx_return_def split: option.splits sum.splits)

text \<open>
  A generated or skill draft is shown as active only when it is an undisturbed draft whose
  evaluation is active under an approval that has not expired, and it was not revoked.
\<close>

lemma draft_listed_active:
  assumes "draft_listed H systemID now t d = (Inr e, d')" "rx_state e = ''active''" "0 \<le> now"
  shows "d' = d \<and> td_state t = DDraft \<and> \<not> revoked d systemID (rx_id e) (rx_version e) \<and>
    (\<exists>row a. draft_evaluation d systemID (draft_entry systemID t) = Some row \<and> le_state row = LActive \<and>
       draft_approval d systemID (draft_entry systemID t) = Some a \<and> now < la_expires_at a)"
proof -
  let ?e = "draft_entry systemID t"
  have draft: "rx_state ?e = draft_state_text (td_state t)" by (simp add: draft_entry_def)
  obtain row where row: "draft_evaluation d systemID ?e = Some row"
  proof (cases "draft_evaluation d systemID ?e")
    case None
    then have "e = ?e" using assms(1) by (simp add: draft_listed_cases)
    then show ?thesis using draft draft_never_active assms(2) by metis
  qed blast
  obtain g where g: "generated_entry H (le_definition row) (evaluated_entry row (draft_approval d systemID ?e) now ?e) = Inr g"
      "e = mark_revoked systemID g d" "d' = d"
  proof (cases "generated_entry H (le_definition row) (evaluated_entry row (draft_approval d systemID ?e) now ?e)")
    case (Inl err)
    then show ?thesis using assms(1) unfolding draft_listed_cases row option.case by (simp only: sum.case prod.inject sum.distinct simp_thms)
  next
    case (Inr g)
    then have "e = mark_revoked systemID g d" "d' = d"
      using assms(1) unfolding draft_listed_cases row option.case by (auto simp only: sum.case prod.inject sum.inject)
    with Inr show ?thesis by (rule that)
  qed
  have kept: "\<not> revoked d systemID (rx_id g) (rx_version g)" "e = g"
  proof -
    show "\<not> revoked d systemID (rx_id g) (rx_version g)"
    proof
      assume "revoked d systemID (rx_id g) (rx_version g)"
      then have "rx_state e = ''revoked''" unfolding g(2) by (simp add: mark_revoked_def)
      with assms(2) show False by simp
    qed
    then show "e = g" unfolding g(2) by (simp add: mark_revoked_def)
  qed
  have "rx_state (evaluated_entry row (draft_approval d systemID ?e) now ?e) = ''active''"
    using generated_entry_state [OF g(1)] kept assms(2) by simp
  from evaluated_entry_active [OF this] draft draft_never_active
  have active: "rx_state ?e = ''draft''" "le_state row = LActive" "now < expiry (draft_approval d systemID ?e)" by simp_all
  obtain x where "draft_approval d systemID ?e = Some x" "now < la_expires_at x"
    using active(3) assms(3) by (cases "draft_approval d systemID ?e") (simp_all add: expiry_def)
  moreover have "td_state t = DDraft"
    using active(1) draft by (cases "td_state t") (simp_all add: draft_state_text_def)
  ultimately show ?thesis using kept g(3) row active(2) by blast
qed

end
