(* ===== verification/Engine.thy ===== *)
theory Engine
  imports Runs Catalog Answers
begin

text \<open>
  The execution engine of the daemon (execution.go, team.go, team_ops.go, learning_execution.go
  and the model broker of broker.go in internal/daemon): the live activations, starting and
  stopping, the scheduling pass, the loop of a model call, tool invocations and evaluations.
  The goroutines share the engine's lock and the broker's lock; every operation here is one
  critical section, or a list of them with what the rest of the daemon did in between as an
  argument. Contexts are the flags they end in: an activation's \<open>av_canceled\<close>, the engine's
  \<open>dm_closing\<close>. The sandboxed processes and the network are parameters.
\<close>

section \<open>The state of the daemon\<close>

record activation =
  av_call_id :: string
  av_system_id :: string
  av_goal_id :: string
  av_agent_id :: string
  av_event_id :: string
  av_task_id :: string
  av_canceled :: bool

record daemon =
  dm_db :: db
  dm_active :: "(string \<times> activation) list"
  dm_broken :: bool
  dm_closing :: bool
  dm_awake :: bool

text \<open>One operation of the store.\<close>

definition stored :: "'a op \<Rightarrow> (daemon, 'a) tx" where
  "stored m = (\<lambda>s. case m (dm_db s) of (r, d) \<Rightarrow> (r, s\<lparr>dm_db := d\<rparr>))"

definition notify :: "(daemon, unit) tx" where
  "notify = tx_modify (\<lambda>s. s\<lparr>dm_awake := True\<rparr>)"

definition cancel_where :: "(string \<Rightarrow> activation \<Rightarrow> bool) \<Rightarrow> (daemon, unit) tx" where
  "cancel_where P = tx_modify (\<lambda>s. s\<lparr>dm_active :=
     map (\<lambda>(k, a). (k, if P k a then a\<lparr>av_canceled := True\<rparr> else a)) (dm_active s)\<rparr>)"

section \<open>The broker's availability\<close>

definition errBrokerUnavailable :: error where
  "errBrokerUnavailable = ErrInternal ''model broker unavailable after accounting failure; new dispatch is disabled''"

definition context_canceled :: error where
  "context_canceled = ErrInternal ''context canceled''"

definition available :: "daemon \<Rightarrow> bool" where
  "available s \<longleftrightarrow> \<not> dm_broken s"

definition failLocked :: "(daemon, unit) tx" where
  "failLocked = tx_modify (\<lambda>s. s\<lparr>dm_broken := True\<rparr>)"

section \<open>Starting and stopping\<close>

definition engine_start :: "engine \<Rightarrow> string \<Rightarrow> string \<Rightarrow> string \<Rightarrow> start_system_command \<Rightarrow> int \<Rightarrow> (daemon, system_record) tx" where
  "engine_start en actor key i c now =
     tx_bind (tx_gets id) (\<lambda>s.
     if dm_closing s then tx_fail context_canceled
     else if \<not> available s then tx_fail errBrokerUnavailable
     else
       tx_bind (stored (StartSystem (en_hash en) actor key i (en_owner en) c (en_config en) now)) (\<lambda>record.
       tx_seq notify (tx_return record)))"

text \<open>errors.Is looks through the errors that were wrapped or joined.\<close>

fun error_is :: "error \<Rightarrow> error \<Rightarrow> bool" where
  "error_is (Wrapped _ e) x = error_is e x"
| "error_is (Noted e _) x = error_is e x"
| "error_is (Joined d e) x = (error_is d x \<or> error_is e x)"
| "error_is e x = (e = x)"

text \<open>
  What a stop cancels when it committed: the activation of the goal or call it stopped. A
  storage failure must not make emergency cancellation unavailable: then every activation of the
  system is canceled.
\<close>

definition stop_cancels :: "string \<Rightarrow> error + system_record \<Rightarrow> string \<Rightarrow> activation \<Rightarrow> bool" where
  "stop_cancels i r k a \<longleftrightarrow> (av_system_id a = i \<or> (av_system_id a = '''' \<and> k = i)) \<and>
     (case r of
        Inl e \<Rightarrow> \<not> error_is e ErrSystemNotFound \<and> \<not> error_is e ErrCommandConflict \<and> \<not> is_field_error e
      | Inr record \<Rightarrow> (sr_state record = SStopping \<or> sr_state record = SStopped) \<and>
          (case sr_execution record of None \<Rightarrow> False
           | Some e \<Rightarrow> av_goal_id a = e_goal_id e \<or> av_call_id a = e_call_id e))"

definition engine_stop :: "engine \<Rightarrow> string \<Rightarrow> string \<Rightarrow> string \<Rightarrow> int \<Rightarrow> (daemon, system_record) tx" where
  "engine_stop en actor key i now =
     tx_bind (tx_try (stored (StopSystem (en_hash en) actor key i now))) (\<lambda>r.
     tx_seq (tx_when (actor = localAdministrator) (cancel_where (stop_cancels i r)))
       (tx_lift r))"

definition engine_close :: "(daemon, unit) tx" where
  "engine_close = tx_seq (tx_modify (\<lambda>s. s\<lparr>dm_closing := True\<rparr>)) (cancel_where (\<lambda>_ _. True))"

text \<open>An activation a committed control names, or an evaluation whose task it ended or stopped.\<close>

definition controlled :: "db \<Rightarrow> string \<Rightarrow> string list \<Rightarrow> string \<Rightarrow> activation \<Rightarrow> bool" where
  "controlled d systemID calls k a \<longleftrightarrow> av_system_id a = systemID \<and>
     (av_call_id a \<in> set calls \<or>
      has_prefix (av_call_id a) ''evaluation_'' \<and>
        (case fst (taskSnapshot systemID (av_task_id a) d) of Inl e \<Rightarrow> True
         | Inr t \<Rightarrow> TaskTerminal (t_state t) \<or> t_control t = CStopped))"

definition cancelControlledCalls :: "string \<Rightarrow> string list \<Rightarrow> (daemon, unit) tx" where
  "cancelControlledCalls systemID calls = tx_bind (tx_gets dm_db) (\<lambda>d. cancel_where (controlled d systemID calls))"

section \<open>The scheduling pass\<close>

definition activation_of :: "execution \<Rightarrow> activation" where
  "activation_of e = \<lparr>av_call_id = e_call_id e, av_system_id = e_system_id e, av_goal_id = e_goal_id e,
     av_agent_id = e_agent_id e, av_event_id = e_event_id e, av_task_id = e_task_id e, av_canceled = False\<rparr>"

definition put_active :: "string \<Rightarrow> activation \<Rightarrow> (string \<times> activation) list \<Rightarrow> (string \<times> activation) list" where
  "put_active k a xs = filter (\<lambda>(k', _). k' \<noteq> k) xs @ [(k, a)]"

definition engine_claim :: "engine \<Rightarrow> int \<Rightarrow> (daemon, (system_record \<times> execution) option) tx" where
  "engine_claim en now =
     tx_bind (tx_gets (\<lambda>s. map (\<lambda>(k, a). (k, av_system_id a)) (dm_active s))) (\<lambda>active.
     stored (claim (en_hash en) (en_services en) (en_config en) (en_owner en) active now))"

text \<open>
  The loop of one pass under the engine's lock, with the clock of each claim; every claim that
  finds work takes a slot and starts its goroutine, so \<open>MaxOperators\<close> claims are enough. The
  result is what was started.
\<close>

fun schedule_pass :: "engine \<Rightarrow> int list \<Rightarrow> (daemon, (system_record \<times> execution) list) tx" where
  "schedule_pass en [] = tx_return []"
| "schedule_pass en (now # clocks) =
     tx_bind (tx_gets id) (\<lambda>s.
     if \<not> (length (dm_active s) < MaxOperators \<and> available s) then tx_return []
     else tx_bind (tx_try (engine_claim en now)) (\<lambda>r.
       case r of
         Inl err \<Rightarrow> tx_seq (tx_when (\<not> dm_closing s) failLocked) (tx_return [])
       | Inr None \<Rightarrow> tx_return []
       | Inr (Some (record, e)) \<Rightarrow>
           tx_seq (tx_modify (\<lambda>s. s\<lparr>dm_active := put_active (e_agent_id e) (activation_of e) (dm_active s)\<rparr>))
           (tx_bind (schedule_pass en clocks) (\<lambda>started. tx_return ((record, e) # started)))))"

text \<open>The pass runs on a notification, which it takes, or on its own tick.\<close>

definition schedule :: "engine \<Rightarrow> bool \<Rightarrow> int list \<Rightarrow> (daemon, (system_record \<times> execution) list) tx" where
  "schedule en notified clocks =
     tx_seq (tx_when notified (tx_modify (\<lambda>s. s\<lparr>dm_awake := False\<rparr>)))
     (tx_bind (tx_gets dm_closing) (\<lambda>closing. if closing then tx_return [] else schedule_pass en clocks))"

section \<open>The end of an activation\<close>

definition is_canceled :: "string \<Rightarrow> bool \<Rightarrow> daemon \<Rightarrow> bool" where
  "is_canceled agentID expired s \<longleftrightarrow> expired \<or> dm_closing s \<or>
     (case map_of (dm_active s) agentID of None \<Rightarrow> True | Some a \<Rightarrow> av_canceled a)"

definition drop_active :: "string \<Rightarrow> (daemon, unit) tx" where
  "drop_active agentID = tx_modify (\<lambda>s. s\<lparr>dm_active := filter (\<lambda>(k, _). k \<noteq> agentID) (dm_active s)\<rparr>)"

text \<open>A failure of the accounting disables new dispatch.\<close>

definition accounted :: "(daemon, 'a) tx \<Rightarrow> (daemon, error + 'a) tx" where
  "accounted m = tx_bind (tx_try m) (\<lambda>r.
     tx_seq (tx_when (case r of Inl _ \<Rightarrow> True | Inr _ \<Rightarrow> False) failLocked) (tx_return r))"

definition finish_activation :: "engine \<Rightarrow> execution \<Rightarrow> error option \<Rightarrow> bool \<Rightarrow> int \<Rightarrow> (daemon, unit) tx" where
  "finish_activation en e err expired now =
     tx_bind (tx_gets (\<lambda>s. (is_canceled (e_agent_id e) expired s, dm_closing s))) (\<lambda>(canceled, closing).
     tx_seq (drop_active (e_agent_id e))
     (tx_bind (accounted (stored (finishDelivery (en_hash en) (en_config en) (en_owner en) closing e err canceled now))) (\<lambda>_.
      notify)))"

section \<open>A model call\<close>

text \<open>
  What one round of the loop meets: its clocks, an error of the store itself (nothing was
  committed), whether the call's context has ended when it looks, the credentials and the
  exchange with the provider, and what the rest of the daemon did during the request and while
  the loop waited.
\<close>

record call_round =
  rd_now :: int
  rd_storage :: "error option"
  rd_ended_first :: bool
  rd_ended_then :: bool
  rd_before_token :: bool
  rd_after_token :: bool
  rd_token_now :: int
  rd_request_now :: int
  rd_credentials :: credential_sources
  rd_exchange :: http_exchange
  rd_during :: "daemon \<Rightarrow> daemon"
  rd_settle_storage :: "error option"
  rd_settle_now :: int
  rd_waiting :: "daemon \<Rightarrow> daemon"
  rd_gave_up :: bool
  rd_cancel_storage :: "error option"
  rd_commit_failed :: bool

definition or_storage :: "error option \<Rightarrow> (daemon, 'a) tx \<Rightarrow> (daemon, 'a) tx" where
  "or_storage e m = (case e of Some err \<Rightarrow> tx_fail err | None \<Rightarrow> m)"

definition unknown_outcome :: provider_result where
  "unknown_outcome = failed_result ''provider outcome unknown; reservation retained''"

text \<open>The body that was stored with the call replaces the one of a first turn.\<close>

definition session_request :: "engine \<Rightarrow> system_record \<Rightarrow> execution \<Rightarrow> error + string" where
  "session_request en record e =
     (if e_request e \<noteq> '''' then Inr (e_request e)
      else map_sum id fst (ModelRequest (en_hash en) (en_config en) record (e_prompt e) (e_stream e)))"

definition send_request :: "engine \<Rightarrow> call_round \<Rightarrow> execution \<Rightarrow> string \<Rightarrow> provider_result" where
  "send_request en rd e body =
     (let model = the_model (en_config en) (e_model e); provider = the_provider (en_config en) (mo_provider model) in
      if rd_before_token rd then known_failure ''canceled before sending provider request''
      else case Token (rd_credentials rd) provider (rd_token_now rd) of
        Inl err \<Rightarrow> known_failure (error_text err)
      | Inr key \<Rightarrow>
          if rd_after_token rd then known_failure ''canceled before sending provider request''
          else Request (rd_exchange rd) (en_wide en) provider model body (e_stream e) key (rd_request_now rd) (e_attempts e))"

definition perform :: "engine \<Rightarrow> call_round \<Rightarrow> execution \<Rightarrow> db \<Rightarrow> provider_result" where
  "perform en rd e d =
     (case fst (GetSystem (en_hash en) localAdministrator (e_system_id e) d) of
        Inl err \<Rightarrow> unknown_outcome
      | Inr record \<Rightarrow>
          (case session_request en record e of
             Inl err \<Rightarrow> known_failure ''provider request rejected before sending''
           | Inr body \<Rightarrow> send_request en rd e body))"

text \<open>Only an uncertain commit disables shared admission.\<close>

definition cancelQueued :: "execution \<Rightarrow> call_round \<Rightarrow> (daemon, execution) tx" where
  "cancelQueued session rd =
     tx_bind (tx_try (or_storage (rd_cancel_storage rd) (stored (CancelModelCall session)))) (\<lambda>r.
     tx_seq (tx_when (case r of Inl _ \<Rightarrow> rd_cancel_storage rd \<noteq> None \<and> rd_commit_failed rd | Inr _ \<Rightarrow> False) failLocked)
       (tx_lift r))"

text \<open>A dispatched call: its request outside the lock, its settlement under it.\<close>

definition dispatched :: "engine \<Rightarrow> call_round \<Rightarrow> execution \<Rightarrow> (daemon, unit) tx" where
  "dispatched en rd current =
     tx_bind (tx_gets (\<lambda>s. perform en rd current (dm_db s))) (\<lambda>result.
     tx_seq (tx_modify (rd_during rd))
     (tx_bind (accounted (or_storage (rd_settle_storage rd)
         (stored (settle (en_config en) current result (rd_settle_now rd))))) tx_lift))"

definition admit_round :: "engine \<Rightarrow> execution \<Rightarrow> call_round \<Rightarrow> (daemon, error + execution \<times> bool) tx" where
  "admit_round en session rd =
     tx_try (or_storage (rd_storage rd) (stored (admit (en_hash en) (en_config en) session (rd_now rd))))"

text \<open>
  The loop, with one element for each of its rounds; when they end it has not returned. A round
  admits the head of the queue for this call, or waits for a change, a tenth of a second, or the
  end of its context.
\<close>

fun call_rounds :: "engine \<Rightarrow> execution \<Rightarrow> call_round list \<Rightarrow> (daemon, execution option) tx" where
  "call_rounds en session [] = tx_return None"
| "call_rounds en session (rd # rds) =
     tx_bind (tx_gets dm_broken) (\<lambda>broken.
     if broken then tx_fail errBrokerUnavailable
     else tx_bind (admit_round en session rd) (\<lambda>r.
       case r of
         Inl err \<Rightarrow>
           tx_seq (tx_when (\<not> rd_ended_first rd) failLocked)
           (if rd_ended_then rd then tx_bind (cancelQueued session rd) (\<lambda>e. tx_return (Some e)) else tx_fail err)
       | Inr (current, admitted) \<Rightarrow>
           if admitted then tx_seq (dispatched en rd current) (call_rounds en session rds)
           else if e_state current \<noteq> Queued \<and> e_state current \<noteq> Running then tx_return (Some current)
           else tx_seq (tx_modify (rd_waiting rd))
             (if rd_gave_up rd then tx_bind (cancelQueued session rd) (\<lambda>e. tx_return (Some e))
              else call_rounds en session rds)))"

definition broker_call :: "engine \<Rightarrow> execution \<Rightarrow> call_round list \<Rightarrow> (daemon, execution option) tx" where
  "broker_call en session rds = tx_seq (stored (queue_call session)) (call_rounds en session rds)"

section \<open>Tools\<close>

record control_result =
  rt_scope :: string
  rt_id :: string
  rt_action :: string
  rt_calls :: "string slice"

definition control_result_fields :: "(string \<times> control_result decoder) list" where
  "control_result_fields =
     [(''scope'', into_string (\<lambda>s c. c\<lparr>rt_scope := s\<rparr>)), (''id'', into_string (\<lambda>s c. c\<lparr>rt_id := s\<rparr>)),
      (''action'', into_string (\<lambda>s c. c\<lparr>rt_action := s\<rparr>)), (''affected_calls'', into_strings (\<lambda>xs c. c\<lparr>rt_calls := xs\<rparr>))]"

definition no_control_result :: control_result where
  "no_control_result = \<lparr>rt_scope = '''', rt_id = '''', rt_action = '''', rt_calls = None\<rparr>"

text \<open>A retired agent's calls are canceled once the retirement is committed.\<close>

definition after_retire :: "engine \<Rightarrow> execution \<Rightarrow> prepared_tool \<Rightarrow> (daemon, unit) tx" where
  "after_retire en session plan =
     tx_bind (tx_lift (decode_args (en_wide en) control_result_fields no_control_result (pl_result plan))) (\<lambda>c.
     tx_seq (cancelControlledCalls (e_system_id session) (elems (rt_calls c))) notify)"

definition invokeTool :: "engine \<Rightarrow> (prepared_tool \<Rightarrow> tool_report) \<Rightarrow> (daemon \<Rightarrow> daemon) \<Rightarrow> execution \<Rightarrow> model_tool_call \<Rightarrow> int \<Rightarrow> int \<Rightarrow>
    (daemon, string) tx" where
  "invokeTool en run others session action now then_now =
     tx_bind (stored (PrepareTool en session action now)) (\<lambda>plan.
     tx_seq (tx_when (mt_name action = WireToolName (en_hash en) ''runtime.agent.retire'') (after_retire en session plan))
     (if \<not> pl_dispatch plan then tx_return (pl_result plan)
      else tx_seq (tx_modify others) (stored (CompleteTool en plan (run plan) then_now))))"

section \<open>Evaluations of generated tools\<close>

text \<open>Building a source and running a binary on an input under a profile.\<close>

record sandbox_runs =
  sx_build :: "sandbox_config \<Rightarrow> string \<Rightarrow> error + string"
  sx_run :: "sandbox_config \<Rightarrow> string \<Rightarrow> string \<Rightarrow> string \<times> error option"

definition check_case :: "sandbox_runs \<Rightarrow> sandbox_config \<Rightarrow> string \<Rightarrow> string option \<Rightarrow> protected_case \<Rightarrow>
    learning_evidence option \<times> error option" where
  "check_case sx profile binary baseline c =
     (let (base, base_err) = (case baseline of None \<Rightarrow> (pt_input c, None) | Some b \<Rightarrow> sx_run sx profile b (pt_input c)) in
      if base_err \<noteq> None then (None, base_err)
      else let (candidate, err) = sx_run sx profile binary (pt_input c) in
        (Some \<lparr>lv_input = pt_input c, lv_expected = pt_expected c, lv_baseline = base, lv_candidate = candidate,
           lv_baseline_passed = (base = pt_expected c), lv_candidate_passed = (err = None \<and> candidate = pt_expected c)\<rparr>, err))"

fun check_cases :: "sandbox_runs \<Rightarrow> sandbox_config \<Rightarrow> string \<Rightarrow> string option \<Rightarrow> protected_case list \<Rightarrow>
    learning_evidence list \<times> error option" where
  "check_cases sx profile binary baseline [] = ([], None)"
| "check_cases sx profile binary baseline (c # cs) =
     (case check_case sx profile binary baseline c of
        (ev, Some err) \<Rightarrow> (case ev of None \<Rightarrow> [] | Some v \<Rightarrow> [v], Some err)
      | (ev, None) \<Rightarrow> (case check_cases sx profile binary baseline cs of
          (evs, err) \<Rightarrow> ((case ev of None \<Rightarrow> [] | Some v \<Rightarrow> [v]) @ evs, err)))"

definition baseline_binary :: "engine \<Rightarrow> execution \<Rightarrow> generated_evaluation \<Rightarrow> error + string option" where
  "baseline_binary en session plan =
     (case bl_tool (le_baseline (ln_row (ge_evaluation plan))) of None \<Rightarrow> Inr None
      | Some p \<Rightarrow> map_sum id Some (ReadGeneratedArtifact (en_hash en) (en_files en) (cf_data_dir (en_config en))
          (e_system_id session) (tc_binary_digest (ge_baseline plan))))"

text \<open>The evidence is nil until a case has run; a case that fails ends the run with what it found.\<close>

definition run_evaluation :: "engine \<Rightarrow> sandbox_runs \<Rightarrow> execution \<Rightarrow> generated_evaluation \<Rightarrow>
    learning_evidence slice \<times> string \<times> error option" where
  "run_evaluation en sx session plan =
     (let e = ge_evaluation plan; profile = the_profile (en_config en) (ge_profile plan) in
      if (case cf_learning (en_config en) of None \<Rightarrow> True | Some l \<Rightarrow> lc_toolchain_digest l \<noteq> le_toolchain_digest (ln_row e))
      then (None, '''', Some (FieldError ''toolchain'' ''evaluation toolchain changed''))
      else case sx_build sx profile (dc_content (ln_draft e)) of
        Inl err \<Rightarrow> (None, '''', Some err)
      | Inr binary \<Rightarrow> (case baseline_binary en session plan of
          Inl err \<Rightarrow> (None, '''', Some err)
        | Inr base \<Rightarrow> (case check_cases sx profile binary base (ln_cases e) of
            (evs, err) \<Rightarrow> (if evs = [] then None else Some evs, if err = None then binary else '''', err))))"

definition evaluateGenerated :: "engine \<Rightarrow> sandbox_runs \<Rightarrow> execution \<Rightarrow> (daemon, learning_evidence slice \<times> string \<times> error option) tx" where
  "evaluateGenerated en sx session =
     tx_bind (tx_try (stored (PrepareEvaluation (en_hash en) session))) (\<lambda>r.
     tx_return (case r of Inl err \<Rightarrow> (None, '''', Some err) | Inr plan \<Rightarrow> run_evaluation en sx session plan))"

definition executeLearning :: "engine \<Rightarrow> sandbox_runs \<Rightarrow> (daemon \<Rightarrow> daemon) \<Rightarrow> execution \<Rightarrow> int \<Rightarrow> (daemon, unit) tx" where
  "executeLearning en sx others session now =
     tx_bind (evaluateGenerated en sx session) (\<lambda>(evidence, binary, err).
     tx_seq (tx_modify others)
     (tx_seq (drop_active (e_agent_id session))
     (tx_bind (accounted (stored (CompleteEvaluation (en_hash en) (en_files en) (en_config en) (en_owner en) session
         evidence binary err now))) (\<lambda>_. notify))))"

section \<open>The daemon advances the store by its operations\<close>

definition advances :: "daemon \<Rightarrow> daemon \<Rightarrow> bool" where
  "advances s s' \<longleftrightarrow> step\<^sup>*\<^sup>* (dm_db s) (dm_db s')"

interpretation daemon: step_preorder advances
  by unfold_locales (auto simp: advances_def)

named_theorems advancing \<open>operations of the daemon that only use the store's operations\<close>

lemma advances_same: "dm_db s' = dm_db s \<Longrightarrow> advances s s'"
  by (simp add: advances_def)

lemma stored_advances: "(\<And>d. step d (snd (m d))) \<Longrightarrow> tx_rel advances (stored m)"
  by (auto simp: tx_rel_def stored_def advances_def split: prod.splits) (metis r_into_rtranclp snd_conv)

lemma stored_reads: "(\<And>d. snd (m d) = d) \<Longrightarrow> tx_rel advances (stored m)"
  by (auto simp: tx_rel_def stored_def advances_def split: prod.splits) (metis rtranclp.rtrancl_refl snd_conv)

lemma changes_advance [advancing]:
  "tx_rel advances notify" "tx_rel advances failLocked" "tx_rel advances (cancel_where P)" "tx_rel advances (drop_active k)"
  "tx_rel advances (tx_modify (\<lambda>s. s\<lparr>dm_awake := False\<rparr>))" "tx_rel advances (tx_modify (\<lambda>s. s\<lparr>dm_active := f s\<rparr>))"
  "tx_rel advances (tx_modify (\<lambda>s. s\<lparr>dm_closing := True\<rparr>))"
  by (auto simp: notify_def failLocked_def cancel_where_def drop_active_def intro!: daemon.rel_modify advances_same)

lemmas advance_rules = daemon.rels daemon.rel_modify

lemma engine_start_advances [advancing]: "tx_rel advances (engine_start en actor key i c now)"
  unfolding engine_start_def by (intro advance_rules advancing stored_advances step.start)

lemma engine_stop_advances [advancing]: "tx_rel advances (engine_stop en actor key i now)"
  unfolding engine_stop_def by (intro advance_rules advancing stored_advances step.stop)

lemma engine_close_advances [advancing]: "tx_rel advances engine_close"
  unfolding engine_close_def by (intro advance_rules advancing)

lemma cancelControlledCalls_advances [advancing]: "tx_rel advances (cancelControlledCalls i calls)"
  unfolding cancelControlledCalls_def by (intro advance_rules advancing)

lemma engine_claim_advances [advancing]: "tx_rel advances (engine_claim en now)"
  unfolding engine_claim_def by (intro advance_rules stored_advances step.claim)

lemma schedule_pass_advances [advancing]: "tx_rel advances (schedule_pass en clocks)"
  by (induction clocks) (simp_all, (intro advance_rules advancing | assumption)+)

lemma schedule_advances [advancing]: "tx_rel advances (schedule en notified clocks)"
  unfolding schedule_def by (intro advance_rules advancing)

lemma accounted_advances [advancing]: "tx_rel advances m \<Longrightarrow> tx_rel advances (accounted m)"
  unfolding accounted_def by (intro advance_rules advancing)

lemma finish_activation_advances [advancing]: "tx_rel advances (finish_activation en e err expired now)"
  unfolding finish_activation_def by (intro advance_rules advancing stored_advances step.finish)

lemma or_storage_advances [advancing]: "tx_rel advances m \<Longrightarrow> tx_rel advances (or_storage e m)"
  unfolding or_storage_def by (intro advance_rules)

lemma cancelQueued_advances [advancing]: "tx_rel advances (cancelQueued session rd)"
  unfolding cancelQueued_def by (intro advance_rules advancing stored_advances step.cancel_call)

text \<open>What the rest of the daemon does between the critical sections of a call advances the store too.\<close>

definition others_advance :: "call_round \<Rightarrow> bool" where
  "others_advance rd \<longleftrightarrow> (\<forall>s. advances s (rd_during rd s)) \<and> (\<forall>s. advances s (rd_waiting rd s))"

lemma others_rel:
  "others_advance rd \<Longrightarrow> tx_rel advances (tx_modify (rd_during rd))"
  "others_advance rd \<Longrightarrow> tx_rel advances (tx_modify (rd_waiting rd))"
  by (auto simp: others_advance_def intro!: daemon.rel_modify)

lemma dispatched_advances: "others_advance rd \<Longrightarrow> tx_rel advances (dispatched en rd current)"
  unfolding dispatched_def by (intro advance_rules advancing others_rel stored_advances step.settle) auto

lemma admit_round_advances [advancing]: "tx_rel advances (admit_round en session rd)"
  unfolding admit_round_def by (intro advance_rules advancing stored_advances step.admit)

lemma call_rounds_advances: "\<forall>rd \<in> set rds. others_advance rd \<Longrightarrow> tx_rel advances (call_rounds en session rds)"
proof (induction rds)
  case Nil then show ?case by (simp add: daemon.rel_return)
next
  case (Cons rd rds)
  then have "others_advance rd" "tx_rel advances (call_rounds en session rds)" by simp_all
  then show ?case unfolding call_rounds.simps
    by (intro advance_rules advancing dispatched_advances others_rel)
qed

lemma broker_call_advances:
  "\<forall>rd \<in> set rds. others_advance rd \<Longrightarrow> tx_rel advances (broker_call en session rds)"
  unfolding broker_call_def by (intro advance_rules call_rounds_advances stored_advances step.queue_call)

lemma invokeTool_advances:
  "(\<And>s. advances s (others s)) \<Longrightarrow> tx_rel advances (invokeTool en run others session action now then_now)"
  unfolding invokeTool_def after_retire_def
  by (intro advance_rules advancing stored_advances step.prepare_tool step.complete_tool)

lemma evaluateGenerated_advances [advancing]: "tx_rel advances (evaluateGenerated en sx session)"
  unfolding evaluateGenerated_def by (intro advance_rules stored_reads) (simp add: PrepareEvaluation_def)

lemma executeLearning_advances:
  "(\<And>s. advances s (others s)) \<Longrightarrow> tx_rel advances (executeLearning en sx others session now)"
  unfolding executeLearning_def by (intro advance_rules advancing stored_advances step.complete_evaluation)

section \<open>What the engine guarantees\<close>

text \<open>At most \<open>MaxOperators\<close> activations, at most one of an agent.\<close>

definition slots_ok :: "daemon \<Rightarrow> bool" where
  "slots_ok s \<longleftrightarrow> length (dm_active s) \<le> MaxOperators \<and> distinct (map fst (dm_active s))"

lemma put_active_slots: "distinct (map fst xs) \<Longrightarrow> distinct (map fst (put_active k a xs)) \<and> length (put_active k a xs) \<le> Suc (length xs)"
proof -
  assume "distinct (map fst xs)"
  moreover have "length (filter P xs) \<le> length xs" for P by (rule length_filter_le)
  ultimately show ?thesis by (auto simp: put_active_def distinct_map intro: inj_on_subset)
qed

lemma stored_slots: "slots_ok s \<Longrightarrow> slots_ok (snd (stored m s))"
  by (auto simp: stored_def slots_ok_def split: prod.splits)

lemma engine_claim_active: "dm_active (snd (engine_claim en now s)) = dm_active s"
  by (auto simp: engine_claim_def tx_bind_def tx_gets_def stored_def split: prod.splits)

lemma schedule_pass_slots: "slots_ok s \<Longrightarrow> slots_ok (snd (schedule_pass en clocks s))"
proof (induction clocks arbitrary: s)
  case Nil then show ?case by (simp add: tx_return_def)
next
  case (Cons now clocks)
  show ?case
  proof (cases "length (dm_active s) < MaxOperators \<and> available s")
    case False
    then show ?thesis using Cons.prems by (simp add: tx_bind_def tx_gets_def tx_return_def)
  next
    case True
    obtain r s' where claim: "engine_claim en now s = (r, s')" by (cases "engine_claim en now s")
    then have active: "dm_active s' = dm_active s" using engine_claim_active [of en now s] by simp
    show ?thesis
    proof (cases r)
      case (Inl e)
      then show ?thesis using True claim active Cons.prems
        by (auto simp: tx_bind_def tx_gets_def tx_try_def tx_seq_def tx_when_def failLocked_def tx_modify_def tx_return_def slots_ok_def)
    next
      case (Inr x)
      show ?thesis
      proof (cases x)
        case None
        then show ?thesis using True claim active Inr Cons.prems
          by (auto simp: tx_bind_def tx_gets_def tx_try_def tx_return_def slots_ok_def)
      next
        case (Some p)
        obtain saved e where p: "p = (saved, e)" by (cases p)
        let ?s = "s'\<lparr>dm_active := put_active (e_agent_id e) (activation_of e) (dm_active s')\<rparr>"
        have slots: "slots_ok ?s"
          using put_active_slots [of "dm_active s'" "e_agent_id e" "activation_of e"] True active Cons.prems
          by (auto simp: slots_ok_def)
        have "snd (schedule_pass en (now # clocks) s) = snd (schedule_pass en clocks ?s)"
          using True claim Inr Some p
          by (auto simp: tx_bind_def tx_gets_def tx_try_def tx_seq_def tx_modify_def tx_return_def split: prod.splits sum.splits)
        with Cons.IH [OF slots] show ?thesis by simp
      qed
    qed
  qed
qed

text \<open>
  A claim finds work for an agent that has none: what it hands out was pending, when the claim
  looked, for a task whose agent is not among the active ones.
\<close>

definition pending_for :: "db \<Rightarrow> db \<Rightarrow> execution \<Rightarrow> task_row \<Rightarrow> bool" where
  "pending_for d d' e t \<longleftrightarrow> (\<exists>d0. history d d0 \<and> history d0 d' \<and> (\<exists>m \<in> set (db_mailboxes d0). mb_state m = MPending \<and>
     mb_event_id m = e_event_id e \<and> mb_system_id m = t_system_id t \<and> mb_task_id m = t_id t))"

definition hands_out :: "string \<Rightarrow> (system_record \<times> execution) option \<Rightarrow> bool" where
  "hands_out i r \<longleftrightarrow> (\<forall>p. r = Some p \<longrightarrow> e_event_id (snd p) = i)"

lemma gives_none: "gives (hands_out i) (tx_return None)"
  by (simp add: gives_return hands_out_def)

lemma gives_some: "(\<And>x. gives (hands_out i) (k x)) \<Longrightarrow> gives (hands_out i) (then_some m k)"
  unfolding then_some_def by (intro gives_bind) (simp add: gives_none split: option.splits)

lemma activate_event: "gives (hands_out i) (activate H cfg owner saved i now t)"
proof -
  have "e_event_id x = i" if "lease owner t e i d = (Inr x, d')" for t e d x d'
    using that by (auto simp: lease_def elim!: tx_bind_ok tx_seq_ok)
  then have "gives (hands_out i) (tx_bind (lease owner t e i) (\<lambda>e. tx_return (Some (pinned, e))))" for t e pinned
    by (auto simp: gives_def hands_out_def elim!: tx_bind_ok)
  moreover have "gives (hands_out i) (reject_task t i e now)" for e
    unfolding reject_task_def by (intro gives_seq gives_none)
  ultimately show ?thesis
    unfolding activate_def Let_def by (intro gives_bind gives_if gives_some) (auto split: prod.splits)
qed

lemma claim_build_event: "gives (hands_out i) (claim_build H cfg owner record i now t)"
proof -
  have event: "e_event_id e = i" if "claimLearning H cfg owner record t i now d = (Inr e, d')" for e d d'
    using that by (auto simp: claimLearning_def Let_def build_execution_def elim!: tx_bind_ok tx_seq_ok)
  show ?thesis
    unfolding claim_build_def gives_def hands_out_def
    by (auto simp: tx_try_def tx_bind_def tx_return_def tx_fail_def tx_seq_def dest: event split: prod.splits sum.splits if_splits)
qed

lemma candidate_event: "gives (hands_out (mb_event_id (fst c))) (claim_candidate H cfg owner active now c)"
proof -
  have "gives (hands_out i) (dead_letter t w c now)" for i t w unfolding dead_letter_def Let_def by (intro gives_seq gives_none)
  moreover have "gives (hands_out (mb_event_id (fst c))) (deliver H cfg owner r now c t)" for r t
    unfolding deliver_def Let_def by (intro gives_some gives_if gives_seq gives_none activate_event)
  ultimately show ?thesis
    unfolding claim_candidate_def Let_def
    by (intro gives_bind gives_if gives_seq gives_none claim_build_event) auto
qed
lemma grant_kept:
  assumes "history d d'" "t \<in> set (db_tasks d)"
  obtains t' where "t' \<in> set (db_tasks d')" "task_grant t' = task_grant t"
proof -
  have "set (map task_grant (db_tasks d)) \<subseteq> set (map task_grant (db_tasks d'))"
    using assms(1) by (intro set_mono_prefix) (simp add: history_def origins_def)
  then have "task_grant t \<in> task_grant ` set (db_tasks d')" using assms(2) by auto
  then obtain t' where "t' \<in> set (db_tasks d')" "task_grant t = task_grant t'" by (rule imageE)
  then show thesis by (intro that) simp_all
qed

definition frees :: "(string \<times> string) list \<Rightarrow> db \<Rightarrow> candidate \<Rightarrow> execution \<Rightarrow> bool" where
  "frees active d c e \<longleftrightarrow> e_event_id e = mb_event_id (fst c) \<and> (\<exists>t \<in> set (db_tasks d). t_system_id t = mb_system_id (fst c) \<and>
     t_id t = mb_task_id (fst c) \<and> t_agent_id t \<notin> fst ` set active)"

lemma candidate_frees:
  assumes "claim_candidate H cfg owner active now c d = (Inr (Some (record, e)), d')"
  shows "frees active d' c e"
proof -
  have "tx_rel lasting (claim_candidate H cfg owner active now c)"
    unfolding claim_candidate_def Let_def by (intro lasting.rels deliver_lasting steadily [THEN steady_lasting])
  with assms have history: "history d d'" by (metis lasting_def snd_conv tx_rel_def)
  from assms obtain t where t: "t \<in> set (db_tasks d)" "t_system_id t = mb_system_id (fst c)" "t_id t = mb_task_id (fst c)"
    "map_of active (t_agent_id t) = None"
    unfolding claim_candidate_def by (auto simp: readTask_def elim!: tx_bind_ok dest!: find_SomeD split: if_splits)
  obtain t' where t': "t' \<in> set (db_tasks d')" "task_grant t' = task_grant t" by (rule grant_kept [OF history t(1)])
  then have "t_system_id t' = t_system_id t" "t_id t' = t_id t" "t_agent_id t' = t_agent_id t" by (simp_all add: task_grant_def)
  moreover have "e_event_id e = mb_event_id (fst c)"
    using candidate_event [of c H cfg owner active now] assms by (auto simp: gives_def hands_out_def)
  moreover have "t_agent_id t \<notin> fst ` set active" using t(4) by (simp only: map_of_eq_None_iff not_False_eq_True)
  ultimately show ?thesis unfolding frees_def using t(2,3) t'(1) by metis
qed

lemma loop_frees:
  "claim_loop H cfg owner active now cs d = (Inr (Some (record, e)), d') \<Longrightarrow> \<exists>c \<in> set cs. frees active d' c e"
proof (induction cs arbitrary: d)
  case (Cons c cs)
  then obtain r d1 where c: "claim_candidate H cfg owner active now c d = (Inr r, d1)"
    and l: "(case r of None \<Rightarrow> claim_loop H cfg owner active now cs | Some x \<Rightarrow> tx_return (Some x)) d1 = (Inr (Some (record, e)), d')"
    by (auto elim!: tx_bind_ok)
  show ?case
  proof (cases r)
    case None
    with Cons.IH l show ?thesis by auto
  next
    case (Some x)
    with l c show ?thesis by (auto dest!: candidate_frees)
  qed
qed simp

lemma claim_frees:
  assumes "claim H ts cfg owner active now d = (Inr (Some (record, e)), d')"
  obtains t where "t \<in> set (db_tasks d')" "pending_for d d' e t" "t_agent_id t \<notin> fst ` set active"
proof -
  from assms obtain d1 d0 d2 where p: "pumpWakeups H ts cfg now d = (Inr (), d1)" "pumpLearning H cfg now d1 = (Inr (), d0)"
    and l: "claim_loop H cfg owner active now (delivery_queue d0 now) d0 = (Inr (Some (record, e)), d2)"
    and s: "settle_stopping d2 = (Inr (), d')"
    unfolding claim_def by (auto elim!: tx_seq_ok tx_bind_ok)
  have lasting: "tx_rel lasting (pumpWakeups H ts cfg now)" "tx_rel lasting (pumpLearning H cfg now)" "tx_rel lasting settle_stopping"
    by (intro steadily [THEN steady_lasting])+
  then have h: "history d d1" "history d1 d0" "history d2 d'" "history d0 d2"
    using p s l claim_loop_lasting [of H cfg owner active now "delivery_queue d0 now"]
    by (metis lasting_def snd_conv tx_rel_def)+
  from loop_frees [OF l] obtain c where c: "c \<in> set (delivery_queue d0 now)" "frees active d2 c e" by blast
  then have mail: "fst c \<in> set (db_mailboxes d0)" "mb_state (fst c) = MPending"
    by (auto simp: delivery_queue_def deliverable_def with_event_def dest!: in_set_takeD split: option.splits)
  from c(2) obtain t where t: "t \<in> set (db_tasks d2)" "t_system_id t = mb_system_id (fst c)" "t_id t = mb_task_id (fst c)"
    "t_agent_id t \<notin> fst ` set active" "e_event_id e = mb_event_id (fst c)" by (auto simp: frees_def)
  obtain t' where t': "t' \<in> set (db_tasks d')" "task_grant t' = task_grant t" by (rule grant_kept [OF h(3) t(1)])
  then have "t_system_id t' = t_system_id t" "t_id t' = t_id t" "t_agent_id t' = t_agent_id t" by (simp_all add: task_grant_def)
  moreover have "history d d0" "history d0 d'" using h history_trans by blast+
  ultimately show thesis using mail t t'(1) by (intro that [of t']) (auto simp: pending_for_def)
qed

lemma engine_claim_frees:
  assumes "engine_claim en now s = (Inr (Some (record, e)), s')"
  obtains t where "t \<in> set (db_tasks (dm_db s'))" "pending_for (dm_db s) (dm_db s') e t" "t_agent_id t \<notin> fst ` set (dm_active s)"
proof -
  let ?active = "map (\<lambda>(k, a). (k, av_system_id a)) (dm_active s)"
  have "fst ` set ?active = fst ` set (dm_active s)" by force
  moreover have "claim (en_hash en) (en_services en) (en_config en) (en_owner en) ?active now (dm_db s) =
      (Inr (Some (record, e)), dm_db s')"
    using assms by (auto simp: engine_claim_def tx_bind_def tx_gets_def stored_def split: prod.splits)
  ultimately show thesis using claim_frees that by metis
qed

lemma pending_for_later: "pending_for d d1 e t \<Longrightarrow> history d1 d' \<Longrightarrow> pending_for d d' e t"
  unfolding pending_for_def using history_trans by blast

lemma pending_for_earlier: "history d d1 \<Longrightarrow> pending_for d1 d' e t \<Longrightarrow> pending_for d d' e t"
  unfolding pending_for_def using history_trans by blast

lemma pending_for_grant: "task_grant t' = task_grant t \<Longrightarrow> pending_for d d' e t \<Longrightarrow> pending_for d d' e t'"
  by (auto simp: pending_for_def task_grant_def)

lemma put_active_names: "fst ` set (put_active k a xs) = insert k (fst ` set xs)"
  by (force simp: put_active_def)

lemma advances_history: "tx_rel advances m \<Longrightarrow> m s = (r, s') \<Longrightarrow> history (dm_db s) (dm_db s')"
  unfolding tx_rel_def advances_def using steps_lasting by (metis lasting_def snd_conv)

text \<open>
  A pass starts an activation only for an agent without one: neither one that ran before the pass
  nor one the pass started itself.
\<close>

lemma schedule_pass_frees:
  assumes "schedule_pass en clocks s = (Inr (xs @ (record, e) # ys), s')"
  shows "\<exists>t \<in> set (db_tasks (dm_db s')). pending_for (dm_db s) (dm_db s') e t \<and>
    t_agent_id t \<notin> fst ` set (dm_active s) \<and> t_agent_id t \<notin> (\<lambda>p. e_agent_id (snd p)) ` set xs"
  using assms
proof (induction clocks arbitrary: s xs)
  case (Cons now clocks)
  from Cons.prems obtain rec1 e1 s1 rest' where claim: "engine_claim en now s = (Inr (Some (rec1, e1)), s1)"
    and pass: "schedule_pass en clocks (s1\<lparr>dm_active := put_active (e_agent_id e1) (activation_of e1) (dm_active s1)\<rparr>) = (Inr rest', s')"
    and started: "xs @ (record, e) # ys = (rec1, e1) # rest'"
    by (auto elim!: tx_bind_ok tx_seq_ok split: if_splits sum.splits option.splits)
  let ?s = "s1\<lparr>dm_active := put_active (e_agent_id e1) (activation_of e1) (dm_active s1)\<rparr>"
  have later: "history (dm_db s1) (dm_db s')" using advances_history [OF schedule_pass_advances pass] by simp
  have earlier: "history (dm_db s) (dm_db s1)" by (rule advances_history [OF engine_claim_advances claim])
  have active: "dm_active s1 = dm_active s" using engine_claim_active [of en now s] claim by simp
  show ?case
  proof (cases xs)
    case Nil
    with started have e: "e = e1" by simp
    from claim obtain t where t: "t \<in> set (db_tasks (dm_db s1))" "pending_for (dm_db s) (dm_db s1) e1 t"
      "t_agent_id t \<notin> fst ` set (dm_active s)" by (rule engine_claim_frees)
    obtain t' where t': "t' \<in> set (db_tasks (dm_db s'))" "task_grant t' = task_grant t" by (rule grant_kept [OF later t(1)])
    with t show ?thesis unfolding e Nil using pending_for_later [OF pending_for_grant [OF t'(2) t(2)] later]
      by (intro bexI [of _ t']) (auto simp: task_grant_def)
  next
    case (Cons x xs')
    with started have x: "x = (rec1, e1)" "rest' = xs' @ (record, e) # ys" by simp_all
    from Cons.IH [OF pass [unfolded x(2)]] obtain t where t: "t \<in> set (db_tasks (dm_db s'))" "pending_for (dm_db s1) (dm_db s') e t"
      "t_agent_id t \<notin> insert (e_agent_id e1) (fst ` set (dm_active s))" "t_agent_id t \<notin> (\<lambda>p. e_agent_id (snd p)) ` set xs'"
      by (auto simp: put_active_names active)
    then show ?thesis unfolding Cons x(1) using pending_for_earlier [OF earlier t(2)] by auto
  qed
qed simp

lemma schedule_frees:
  assumes "schedule en notified clocks s = (Inr (xs @ (record, e) # ys), s')"
  shows "\<exists>t \<in> set (db_tasks (dm_db s')). pending_for (dm_db s) (dm_db s') e t \<and>
    t_agent_id t \<notin> fst ` set (dm_active s) \<and> t_agent_id t \<notin> (\<lambda>p. e_agent_id (snd p)) ` set xs"
proof -
  define s0 where "s0 = (if notified then s\<lparr>dm_awake := False\<rparr> else s)"
  have "schedule_pass en clocks s0 = (Inr (xs @ (record, e) # ys), s')"
    using assms unfolding schedule_def s0_def by (auto simp: tx_when_def elim!: tx_seq_ok tx_bind_ok split: if_splits)
  from schedule_pass_frees [OF this] show ?thesis by (simp add: s0_def split: if_splits)
qed

text \<open>Once the accounting has failed, a call is refused without touching the store.\<close>

lemma broken_call: "dm_broken s \<Longrightarrow> call_rounds en session (rd # rds) s = (Inl errBrokerUnavailable, s)"
  by (simp add: tx_bind_def tx_gets_def tx_fail_def)

lemma accounted_run: "accounted m s = (Inr (fst (m s)),
    case fst (m s) of Inl _ \<Rightarrow> (snd (m s))\<lparr>dm_broken := True\<rparr> | Inr _ \<Rightarrow> snd (m s))"
  by (cases "m s") (simp add: accounted_def tx_bind_def tx_try_def tx_seq_def tx_when_def failLocked_def tx_modify_def
    tx_return_def split: sum.splits)

lemma dispatched_failed:
  assumes "dispatched en rd current s = (Inl e, s')" shows "dm_broken s'"
proof -
  let ?m = "or_storage (rd_settle_storage rd)
    (stored (settle (en_config en) current (perform en rd current (dm_db s)) (rd_settle_now rd)))"
  have "dispatched en rd current s = (fst (?m (rd_during rd s)), snd (accounted ?m (rd_during rd s)))"
    by (simp add: dispatched_def tx_seq_def tx_bind_def tx_gets_def tx_modify_def tx_lift_def accounted_run)
  with assms show ?thesis by (auto simp: accounted_run)
qed

text \<open>What a call returns is final: it is neither queued nor running.\<close>

lemma cancelled_final: "CancelModelCall session d = (Inr e, d') \<Longrightarrow> e_state e \<noteq> Queued"
  by (auto simp: CancelModelCall_def undispatched_def elim!: tx_bind_ok tx_seq_ok split: if_splits)

lemma cancelQueued_final: "cancelQueued session rd s = (Inr e, s') \<Longrightarrow> e_state e \<noteq> Queued"
  by (auto simp: cancelQueued_def or_storage_def stored_def elim!: tx_bind_ok tx_seq_ok
      split: option.splits prod.splits dest: cancelled_final)

lemma call_rounds_final: "call_rounds en session rds s = (Inr (Some e), s') \<Longrightarrow> e_state e \<noteq> Queued"
proof (induction rds arbitrary: s)
  case (Cons rd rds)
  show ?case
  proof
    assume queued: "e_state e = Queued"
    then have "call_rounds en session rds t \<noteq> (Inr (Some e), s')" "cancelQueued session rd t \<noteq> (Inr e, s')" for t
      using Cons.IH cancelQueued_final by blast+
    with Cons.prems queued show False
      by (auto elim!: tx_bind_ok tx_seq_ok split: if_splits sum.splits prod.splits)
  qed
qed simp

end
