(* ===== verification/Activation.thy ===== *)
theory Activation
  imports Engine ToolRuns
begin

text \<open>
  The parent's side of the worker processes (runActivation in internal/daemon/execution.go and
  runTextTool in registry.go): the conversation of a turn with the operator process around its
  model call and at most one tool call, and the conversation with the text tool and the check of
  the file it left. Both read and write frames on the pipes of a supervised process. The
  theorems put the two ends together: the bytes the daemon writes are those the process reads.
\<close>

section \<open>Both ends of the pipes\<close>

type_synonym 'a talk = "(pipes \<times> daemon, 'a) tx"

definition on_pipe :: "(pipes, 'a) tx \<Rightarrow> 'a talk" where
  "on_pipe m = (\<lambda>(p, s). case m p of (r, p') \<Rightarrow> (r, (p', s)))"

definition on_daemon :: "(daemon, 'a) tx \<Rightarrow> 'a talk" where
  "on_daemon m = (\<lambda>(p, s). case m s of (r, s') \<Rightarrow> (r, (p, s')))"

section \<open>The turn of an operator\<close>

definition tool_call_fields :: "(string \<times> model_tool_call decoder) list" where
  "tool_call_fields =
     [(''id'', into_string (\<lambda>s c. c\<lparr>mt_id := s\<rparr>)), (''type'', into_string (\<lambda>s c. c\<lparr>mt_type := s\<rparr>)),
      (''function'', into_fields [(''name'', into_string (\<lambda>s c. c\<lparr>mt_name := s\<rparr>)),
         (''arguments'', into_string (\<lambda>s c. c\<lparr>mt_arguments := s\<rparr>))])]"

definition waits_for_tool :: "engine \<Rightarrow> model_tool_call \<Rightarrow> bool" where
  "waits_for_tool en action \<longleftrightarrow> mt_name action = WireToolName (en_hash en) ''runtime.task.delegate'' \<or>
     mt_name action = WireToolName (en_hash en) ''runtime.task.wait''"

definition response_type :: "engine \<Rightarrow> model_tool_call \<Rightarrow> error + string \<Rightarrow> string" where
  "response_type en action r =
     (case r of Inl e \<Rightarrow> ''tool.error'' | Inr _ \<Rightarrow> if waits_for_tool en action then ''tool.wait'' else ''tool.result'')"

text \<open>
  The tool call of a turn: the action goes to the worker, which must send it back; the tool runs
  for the event of the activation, and the worker acknowledges the result.
\<close>

definition invoked_action :: "engine \<Rightarrow> execution \<Rightarrow> message_frame \<Rightarrow> model_tool_call talk" where
  "invoked_action en e request =
     (if ms_type request \<noteq> ''tool.call'' \<or> ms_id request \<noteq> e_call_id e
      then tx_fail (ErrInternal ''invalid scoped tool invocation'')
      else case decode_args (en_wide en) tool_call_fields no_call (ms_data request) of
        Inl _ \<Rightarrow> tx_fail (ErrInternal ''invalid scoped tool invocation'') | Inr action \<Rightarrow> tx_return action)"

definition tool_reply :: "engine \<Rightarrow> execution \<Rightarrow> model_tool_call \<Rightarrow> error + string \<Rightarrow> message_frame" where
  "tool_reply en e action r = frame (response_type en action r) (e_call_id e)
     (case r of Inl err \<Rightarrow> TaskFailureReason err | Inr value \<Rightarrow> value)"

definition tool_talk :: "engine \<Rightarrow> (execution \<Rightarrow> model_tool_call \<Rightarrow> (daemon, string) tx) \<Rightarrow> execution \<Rightarrow> execution \<Rightarrow> model_tool_call \<Rightarrow>
    unit talk" where
  "tool_talk en invoke e result chosen =
     tx_seq (on_pipe (send (frame ''model.action'' (e_call_id e) (marshal (json_tool_call chosen)))))
     (tx_bind (on_pipe (receive (en_wide en))) (\<lambda>request.
      tx_bind (invoked_action en e request) (\<lambda>action.
      tx_bind (tx_try (on_daemon (invoke (result\<lparr>e_event_id := e_event_id e\<rparr>) action))) (\<lambda>r.
      tx_seq (on_pipe (send (tool_reply en e action r)))
     (tx_bind (tx_lift r) (\<lambda>_.
      tx_bind (on_pipe (receive (en_wide en))) (\<lambda>ack.
      tx_reject (ack \<noteq> frame (if response_type en action r = ''tool.wait'' then ''task.waiting'' else ''task.continue'') (e_call_id e) '''')
        (ErrInternal ''invalid continuation acknowledgement''))))))))"

definition final_reply :: "execution \<Rightarrow> execution \<Rightarrow> message_frame" where
  "final_reply e result =
     (if e_state result = Completed then frame ''model.result'' (e_call_id e) (e_response result)
      else frame ''model.error'' (e_call_id e) (e_reason result))"

definition answer_talk :: "engine \<Rightarrow> execution \<Rightarrow> execution \<Rightarrow> unit talk" where
  "answer_talk en e result =
     tx_seq (on_pipe (send (final_reply e result)))
     (tx_bind (on_pipe (receive (en_wide en))) (\<lambda>ack.
      tx_seq (tx_reject (e_state result \<noteq> Completed)
         (ErrInternal (''model call ended '' @ state_name (e_state result) @ '': '' @ e_reason result)))
      (tx_reject (ack \<noteq> frame ''task.complete'' (e_call_id e) '''')
         (ErrInternal ''missing scoped task completion acknowledgement''))))"

text \<open>
  The whole turn. The result says whether it has ended: it has not while the model call, given
  by the rounds of its loop, has not returned.
\<close>

definition operator_talk :: "engine \<Rightarrow> (daemon, execution option) tx \<Rightarrow> (execution \<Rightarrow> model_tool_call \<Rightarrow> (daemon, string) tx) \<Rightarrow>
    execution \<Rightarrow> bool talk" where
  "operator_talk en call invoke e =
     tx_bind (on_pipe (receive (en_wide en))) (\<lambda>ready.
     tx_seq (tx_reject (ready \<noteq> frame ''ready'' '''' '''') (ErrInternal ''invalid worker readiness''))
     (tx_seq (on_pipe (send (frame ''task'' (e_call_id e) (e_prompt e))))
     (tx_bind (on_pipe (receive (en_wide en))) (\<lambda>request.
      tx_seq (tx_reject (request \<noteq> frame ''model.call'' (e_call_id e) (e_prompt e))
                (ErrInternal ''worker requested an operation outside its scoped task''))
     (tx_bind (on_daemon call) (\<lambda>r.
      case r of None \<Rightarrow> tx_return False
      | Some result \<Rightarrow>
          tx_seq (case e_actions result of [action] \<Rightarrow> tool_talk en invoke e result action | _ \<Rightarrow> answer_talk en e result)
            (tx_return True)))))))"

text \<open>
  What a supervised process and its workspace contribute (SuperviseWorkspace in
  internal/sandbox/launcher.go and the deferred removal): an error before the conversation, an
  error of killing the process after a conversation that failed, what its end reports, what it
  wrote to its standard error, and an error of removing the workspace.
\<close>

record supervision =
  sv_prepared :: "error option"
  sv_killed :: "error option"
  sv_exited :: "error option"
  sv_stderr :: string
  sv_removed :: "error option"

definition with_stderr :: "supervision \<Rightarrow> error \<Rightarrow> error" where
  "with_stderr sv e = (if sv_stderr sv = '''' then e else Noted e (''; worker stderr: '' @ sv_stderr sv))"

text \<open>The end of a conversation: only one without any error has its workspace inspected.\<close>

definition supervise_end :: "supervision \<Rightarrow> error + 'a \<Rightarrow> ('a \<Rightarrow> error + 'b) \<Rightarrow> error + 'b" where
  "supervise_end sv r inspect =
     (let problem = (case r of
            Inl e \<Rightarrow> join_errors (join_errors (sv_killed sv) (Some e)) (sv_exited sv)
          | Inr _ \<Rightarrow> sv_exited sv);
          inspected = (case (problem, r) of (Some e, _) \<Rightarrow> Inl e | (None, Inr x) \<Rightarrow> inspect x | (None, Inl e) \<Rightarrow> Inl e)
      in case inspected of
           Inr y \<Rightarrow> (case sv_removed sv of None \<Rightarrow> Inr y | Some e \<Rightarrow> Inl e)
         | Inl e \<Rightarrow> Inl (case sv_removed sv of None \<Rightarrow> with_stderr sv e | Some d \<Rightarrow> Joined (with_stderr sv e) d))"

text \<open>
  An activation: its workspace, the process with the conversation, the end of the process, and
  then its delivery. Without a result the model call has not returned.
\<close>

definition activation_error :: "error + unit \<Rightarrow> error option" where
  "activation_error r = (case r of Inl e \<Rightarrow> Some e | Inr _ \<Rightarrow> None)"

definition runActivation :: "engine \<Rightarrow> (daemon, execution option) tx \<Rightarrow> (execution \<Rightarrow> model_tool_call \<Rightarrow> (daemon, string) tx) \<Rightarrow>
    supervision \<Rightarrow> string \<Rightarrow> execution \<Rightarrow> daemon \<Rightarrow> error option option \<times> daemon" where
  "runActivation en call invoke sv worker_output e s =
     (case sv_prepared sv of Some err \<Rightarrow> (Some (Some err), s)
      | None \<Rightarrow> (case operator_talk en call invoke e (\<lparr>pi_in = worker_output, pi_out = '''', pi_report = None\<rparr>, s) of
          (Inl err, (_, s')) \<Rightarrow> (Some (activation_error (supervise_end sv (Inl err) Inr)), s')
        | (Inr True, (_, s')) \<Rightarrow> (Some (activation_error (supervise_end sv (Inr ()) Inr)), s')
        | (Inr False, (_, s')) \<Rightarrow> (None, s')))"

definition execute :: "engine \<Rightarrow> (daemon, execution option) tx \<Rightarrow> (execution \<Rightarrow> model_tool_call \<Rightarrow> (daemon, string) tx) \<Rightarrow>
    supervision \<Rightarrow> string \<Rightarrow> bool \<Rightarrow> int \<Rightarrow> execution \<Rightarrow> daemon \<Rightarrow> daemon" where
  "execute en call invoke sv worker_output expired now e s =
     (case runActivation en call invoke sv worker_output e s of
        (None, s') \<Rightarrow> s'
      | (Some err, s') \<Rightarrow> snd (finish_activation en e err expired now s'))"

section \<open>The text tool\<close>

definition text_result_fields :: "(string \<times> text_result decoder) list" where
  "text_result_fields =
     [(''runes'', into_int (\<lambda>i r. r\<lparr>tr_runes := i\<rparr>)), (''words'', into_int (\<lambda>i r. r\<lparr>tr_words := i\<rparr>)),
      (''artifact'', into_string (\<lambda>s r. r\<lparr>tr_artifact := s\<rparr>))]"

definition no_text_result :: text_result where
  "no_text_result = \<lparr>tr_runes = 0, tr_words = 0, tr_artifact = ''''\<rparr>"

definition decode_text_result :: "(nat \<Rightarrow> nat) \<Rightarrow> string \<Rightarrow> error + text_result" where
  "decode_text_result wide = decode_args wide text_result_fields no_text_result"

definition text_talk :: "(nat \<Rightarrow> nat) \<Rightarrow> string \<Rightarrow> text_arguments \<Rightarrow> (pipes, text_result) tx" where
  "text_talk wide i a =
     tx_bind (receive wide) (\<lambda>ready.
     tx_seq (tx_reject (ready \<noteq> frame ''ready'' '''' '''') (ErrInternal ''invalid tool readiness''))
     (tx_seq (send (frame ''tool.input'' i (marshal (json_text_arguments a))))
     (tx_bind (receive wide) (\<lambda>reply.
      tx_seq (tx_reject (ms_type reply \<noteq> ''tool.result'' \<or> ms_id reply \<noteq> i) (ErrInternal ''tool response correlation mismatch''))
     (tx_bind (tx_lift (decode_text_result wide (ms_data reply))) (\<lambda>result.
      tx_seq (tx_reject (tr_runes result \<noteq> tr_runes (text_counts (ta_text a)) \<or> tr_words result \<noteq> tr_words (text_counts (ta_text a)))
                (ErrInternal ''invalid tool result''))
        (tx_return result)))))))"

text \<open>A file of the workspace as lstat and open see it: regular and private, and its bytes.\<close>

record workspace_file =
  wf_private :: bool
  wf_bytes :: string

definition report_file :: "(nat \<Rightarrow> nat) \<Rightarrow> text_result \<Rightarrow> workspace_file option \<Rightarrow> error + string option" where
  "report_file wide result file =
     (if tr_artifact result \<noteq> ''output/report.json'' then Inl (ErrInternal ''tool artifact escaped its manifest'')
      else case file of None \<Rightarrow> Inl (ErrInternal ''no such file or directory'')
      | Some f \<Rightarrow>
          if \<not> wf_private f then Inl (ErrInternal ''tool artifact is not a private regular file'')
          else if length (wf_bytes f) > 4096 then Inl (ErrInternal ''invalid artifact size'')
          else case decode_text_result wide (wf_bytes f) of
              Inl _ \<Rightarrow> Inl (ErrInternal ''invalid report artifact'')
            | Inr report \<Rightarrow> if tr_runes report \<noteq> tr_runes result \<or> tr_words report \<noteq> tr_words result \<or> tr_artifact report \<noteq> ''''
                then Inl (ErrInternal ''invalid report artifact'') else Inr (Some (wf_bytes f)))"

definition inspect_workspace :: "(nat \<Rightarrow> nat) \<Rightarrow> text_arguments \<Rightarrow> text_result \<Rightarrow> workspace_file option \<Rightarrow> error + string option" where
  "inspect_workspace wide a result file =
     (if ta_save a then report_file wide result file
      else if tr_artifact result \<noteq> '''' then Inl (ErrInternal ''unexpected tool artifact'')
      else Inr None)"

text \<open>
  The tool under supervision: the executable must still be the reviewed one, the process must
  end well, and only then its workspace is inspected.
\<close>

definition runTextTool :: "engine \<Rightarrow> error + string \<Rightarrow> supervision \<Rightarrow> string \<Rightarrow> workspace_file option \<Rightarrow>
    string \<Rightarrow> text_arguments \<Rightarrow> error + text_result \<times> string option" where
  "runTextTool en executable sv tool_output file i a =
     (case executable of Inl err \<Rightarrow> Inl err
      | Inr digest \<Rightarrow>
          if digest \<noteq> cf_runtime_digest (en_config en)
          then Inl (FieldError ''executable'' ''reviewed binary changed; restart and explicitly revise its assignments'')
          else case sv_prepared sv of Some err \<Rightarrow> Inl err
          | None \<Rightarrow> supervise_end sv (fst (text_talk (en_wide en) i a \<lparr>pi_in = tool_output, pi_out = '''', pi_report = None\<rparr>))
              (\<lambda>result. map_sum id (\<lambda>artifact. (result, artifact)) (inspect_workspace (en_wide en) a result file)))"

section \<open>Both ends together\<close>

text \<open>A message that fits a frame and survives it.\<close>

definition fits_pipe :: "message_frame \<Rightarrow> bool" where
  "fits_pipe m \<longleftrightarrow> (case WriteMessage m of Inl e \<Rightarrow> False | Inr b \<Rightarrow> True) \<and> ms_type m \<noteq> '''' \<and>
     valid_utf8 (ms_type m) \<and> valid_utf8 (ms_data m) \<and> valid_utf8 (ms_id m)"

definition wire :: "message_frame \<Rightarrow> string" where
  "wire m = (case WriteMessage m of Inl e \<Rightarrow> '''' | Inr b \<Rightarrow> b)"

lemma fits_sent: "fits_pipe m \<Longrightarrow> send m s = (Inr (), s\<lparr>pi_out := pi_out s @ wire m\<rparr>)"
  by (simp add: fits_pipe_def wire_def send_def split: sum.splits)

lemma fits_received: "fits_pipe m \<Longrightarrow> pi_in s = wire m @ left \<Longrightarrow> receive wide s = (Inr m, s\<lparr>pi_in := left\<rparr>)"
  unfolding fits_pipe_def wire_def by (cases "WriteMessage m") (auto intro: receive_frame)

definition bare :: "string \<Rightarrow> string \<Rightarrow> pipes" where
  "bare input output = \<lparr>pi_in = input, pi_out = output, pi_report = None\<rparr>"

lemma bare_send: "fits_pipe m \<Longrightarrow> send m (bare input output) = (Inr (), bare input (output @ wire m))"
  using fits_sent [of m "bare input output"] by (simp add: bare_def)

lemma bare_receive: "fits_pipe m \<Longrightarrow> receive wide (bare (wire m @ left) output) = (Inr m, bare left output)"
  using fits_received [of m "bare (wire m @ left) output" left wide] by (simp add: bare_def)

lemma talk_send: "fits_pipe m \<Longrightarrow> on_pipe (send m) (bare input output, s) = (Inr (), (bare input (output @ wire m), s))"
  by (simp add: on_pipe_def bare_send)

lemma talk_receive: "fits_pipe m \<Longrightarrow> on_pipe (receive wide) (bare (wire m @ left) output, s) = (Inr m, (bare left output, s))"
  by (simp add: on_pipe_def bare_receive)

text \<open>The same for the last message of an input.\<close>

lemmas last_receive = bare_receive [where left = "''''", simplified] talk_receive [where left = "''''", simplified]

definition task_message :: "execution \<Rightarrow> message_frame" where
  "task_message e = frame ''task'' (e_call_id e) (e_prompt e)"

text \<open>What the daemon sends in a turn, and what the worker sends.\<close>

definition daemon_says :: "engine \<Rightarrow> execution \<Rightarrow> execution \<Rightarrow> string \<Rightarrow> message_frame list" where
  "daemon_says en e result value = task_message e #
     (case e_actions result of [a] \<Rightarrow> [frame ''model.action'' (e_call_id e) (marshal (json_tool_call a)), tool_reply en e a (Inr value)]
      | _ \<Rightarrow> [final_reply e result])"

definition worker_says :: "engine \<Rightarrow> execution \<Rightarrow> execution \<Rightarrow> message_frame list" where
  "worker_says en e result = frame ''ready'' '''' '''' # frame ''model.call'' (e_call_id e) (e_prompt e) #
     (case e_actions result of [a] \<Rightarrow> [frame ''tool.call'' (e_call_id e) (marshal (json_tool_call a)),
            frame (if waits_for_tool en a then ''task.waiting'' else ''task.continue'') (e_call_id e) '''']
      | _ \<Rightarrow> [frame ''task.complete'' (e_call_id e) ''''])"

definition wires :: "message_frame list \<Rightarrow> string" where
  "wires ms = concat (map wire ms)"

lemma wires_simps [simp]: "wires [] = ''''" "wires (m # ms) = wire m @ wires ms"
  by (simp_all add: wires_def)

text \<open>An action that went through the worker is the action the model asked for.\<close>

lemma decode_tool_call:
  assumes "valid_utf8 (mt_id a)" "valid_utf8 (mt_type a)" "valid_utf8 (mt_name a)" "valid_utf8 (mt_arguments a)"
  shows "decode_args wide tool_call_fields no_call (marshal (json_tool_call a)) = Inr a"
proof -
  have "lower_key wide ''id''" "lower_key wide ''type''" "lower_key wide ''function''" "lower_key wide ''name''"
      "lower_key wide ''arguments''" by (rule lower_key_ascii, simp add: byte_def)+
  with assms have "readable wide 0 (json_tool_call a)" by (simp add: json_tool_call_def)
  from DecodeJSON_marshal [OF this, of "[]"]
  have "decode_args wide tool_call_fields no_call (marshal (json_tool_call a)) =
      (case into_fields tool_call_fields (value_of (json_tool_call a)) no_call of
        None \<Rightarrow> Inl (ErrInternal ''JSON contains an unknown field or an invalid field type'') | Some x \<Rightarrow> Inr x)"
    by (simp add: decode_args_def del: value_of.simps)
  also have "into_fields tool_call_fields (value_of (json_tool_call a)) no_call = Some a"
    by (cases a) (simp add: json_tool_call_def into_fields_def tool_call_fields_def find_field_def into_string_def no_call_def)
  finally show ?thesis by simp
qed

lemma frame_parts [simp]: "ms_type (frame k i d) = k" "ms_id (frame k i d) = i" "ms_data (frame k i d) = d"
    "frame k i d = frame k' i' d' \<longleftrightarrow> k = k' \<and> i = i' \<and> d = d'"
  by (auto simp: frame_def)

text \<open>What a turn needs of its model call and its tool: an answer, or an action that is carried out.\<close>

definition turn_outcome :: "(execution \<Rightarrow> model_tool_call \<Rightarrow> (daemon, string) tx) \<Rightarrow> execution \<Rightarrow> execution \<Rightarrow> string \<Rightarrow> daemon \<Rightarrow> daemon \<Rightarrow> bool" where
  "turn_outcome invoke e result value s1 s2 \<longleftrightarrow>
     (case e_actions result of
        [a] \<Rightarrow> valid_utf8 (mt_id a) \<and> valid_utf8 (mt_type a) \<and> valid_utf8 (mt_name a) \<and> valid_utf8 (mt_arguments a) \<and>
          invoke (result\<lparr>e_event_id := e_event_id e\<rparr>) a s1 = (Inr value, s2)
      | _ \<Rightarrow> e_state result = Completed \<and> s2 = s1)"

lemma no_action: "length xs \<noteq> 1 \<Longrightarrow> (case xs of [a] \<Rightarrow> f a | _ \<Rightarrow> g) = g"
  by (cases xs; cases "tl xs") auto

lemmas talk_steps = tx_seq_def tx_bind_def tx_reject_def tx_return_def tx_fail_def

text \<open>The daemon's side of a whole turn, then the worker's.\<close>

lemma daemon_turn:
  assumes fits: "list_all fits_pipe (daemon_says en e result value)" "list_all fits_pipe (worker_says en e result)"
    and call: "call s = (Inr (Some result), s1)" and outcome: "turn_outcome invoke e result value s1 s2"
  shows "operator_talk en call invoke e (bare (wires (worker_says en e result)) '''', s) =
    (Inr True, (bare '''' (wires (daemon_says en e result value)), s2))"
proof -
  have called: "on_daemon call (p, s) = (Inr (Some result), (p, s1))" for p by (simp add: on_daemon_def call)
  consider (one) a where "e_actions result = [a]" | (other) "length (e_actions result) \<noteq> 1"
    by (cases "e_actions result"; cases "tl (e_actions result)") auto
  then show ?thesis
  proof cases
    case one
    have invoked: "on_daemon (invoke (result\<lparr>e_event_id := e_event_id e\<rparr>) a) (p, s1) = (Inr value, (p, s2))" for p
      using outcome one by (simp add: on_daemon_def turn_outcome_def)
    have action: "invoked_action en e (frame ''tool.call'' (e_call_id e) (marshal (json_tool_call a))) x = (Inr a, x)" for x
      using outcome one decode_tool_call [of a "en_wide en"] by (simp add: invoked_action_def turn_outcome_def)
    have says: "list_all fits_pipe [task_message e, frame ''model.action'' (e_call_id e) (marshal (json_tool_call a)), tool_reply en e a (Inr value)]"
        "list_all fits_pipe [frame ''ready'' '''' '''', frame ''model.call'' (e_call_id e) (e_prompt e),
           frame ''tool.call'' (e_call_id e) (marshal (json_tool_call a)),
           frame (if waits_for_tool en a then ''task.waiting'' else ''task.continue'') (e_call_id e) '''']"
      using fits one by (simp_all add: daemon_says_def worker_says_def)
    then show ?thesis
      by (cases "waits_for_tool en a")
        (simp_all add: operator_talk_def tool_talk_def daemon_says_def worker_says_def one talk_steps talk_send talk_receive last_receive
          called invoked action task_message_def tx_try_def tx_lift_def response_type_def tool_reply_def)
  next
    case other
    have says: "list_all fits_pipe [task_message e, final_reply e result]"
        "list_all fits_pipe [frame ''ready'' '''' '''', frame ''model.call'' (e_call_id e) (e_prompt e), frame ''task.complete'' (e_call_id e) '''']"
      using fits by (simp_all add: daemon_says_def worker_says_def no_action [OF other])
    have "e_state result = Completed" "s2 = s1" using outcome by (simp_all add: turn_outcome_def no_action [OF other])
    with says show ?thesis
      by (simp add: operator_talk_def answer_talk_def daemon_says_def worker_says_def no_action [OF other] talk_steps talk_send talk_receive last_receive
          called task_message_def final_reply_def)
  qed
qed

lemma worker_turn:
  assumes fits: "list_all fits_pipe (daemon_says en e result value)" "list_all fits_pipe (worker_says en e result)"
    and outcome: "turn_outcome invoke e result value s1 s2" and task: "e_call_id e \<noteq> ''''" "e_prompt e \<noteq> ''''"
  shows "Operator wide (bare (wires (daemon_says en e result value)) '''') = (Inr (), bare '''' (wires (worker_says en e result)))"
proof -
  have valid: "valid_task (frame ''task'' (e_call_id e) (e_prompt e))" using task by (simp add: valid_task_def)
  consider (one) a where "e_actions result = [a]" | (other) "length (e_actions result) \<noteq> 1"
    by (cases "e_actions result"; cases "tl (e_actions result)") auto
  then show ?thesis
  proof cases
    case one
    have says: "list_all fits_pipe [task_message e, frame ''model.action'' (e_call_id e) (marshal (json_tool_call a)), tool_reply en e a (Inr value)]"
        "list_all fits_pipe [frame ''ready'' '''' '''', frame ''model.call'' (e_call_id e) (e_prompt e),
           frame ''tool.call'' (e_call_id e) (marshal (json_tool_call a)),
           frame (if waits_for_tool en a then ''task.waiting'' else ''task.continue'') (e_call_id e) '''']"
      using fits one by (simp_all add: daemon_says_def worker_says_def)
    then show ?thesis
      by (cases "waits_for_tool en a")
        (simp_all add: Operator_def model_turn_def tool_turn_def daemon_says_def worker_says_def one talk_steps bare_send bare_receive
          last_receive task_message_def valid tool_reply_def response_type_def)
  next
    case other
    have says: "list_all fits_pipe [task_message e, final_reply e result]"
        "list_all fits_pipe [frame ''ready'' '''' '''', frame ''model.call'' (e_call_id e) (e_prompt e), frame ''task.complete'' (e_call_id e) '''']"
      using fits by (simp_all add: daemon_says_def worker_says_def no_action [OF other])
    have "e_state result = Completed" using outcome by (simp add: turn_outcome_def no_action [OF other])
    with says show ?thesis
      by (simp add: Operator_def model_turn_def daemon_says_def worker_says_def no_action [OF other] talk_steps bare_send bare_receive last_receive
          task_message_def valid final_reply_def)
  qed
qed

section \<open>What a worker can bring about\<close>

text \<open>Whatever talks on the pipes alone leaves the daemon as it is.\<close>

definition talk_ends :: "(daemon \<Rightarrow> bool) \<Rightarrow> 'a talk \<Rightarrow> pipes \<times> daemon \<Rightarrow> bool" where
  "talk_ends P m x \<longleftrightarrow> P (snd (snd (m x)))"

lemma talk_ends_pipe:
  assumes "P (snd x)" "\<And>y p. m (fst x) = (Inr y, p) \<Longrightarrow> talk_ends P (k y) (p, snd x)"
  shows "talk_ends P (tx_bind (on_pipe m) k) x"
  using assms by (cases x) (auto simp: talk_ends_def tx_bind_def on_pipe_def split: prod.splits sum.splits)

lemma talk_ends_send:
  assumes "P (snd x)" "\<And>p. talk_ends P k (p, snd x)"
  shows "talk_ends P (tx_seq (on_pipe (send m)) k) x"
  unfolding tx_seq_def by (rule talk_ends_pipe) (use assms in auto)

lemma talk_ends_reject:
  assumes "P (snd x)" "\<not> b \<Longrightarrow> talk_ends P k x"
  shows "talk_ends P (tx_seq (tx_reject b e) k) x"
  using assms by (auto simp: talk_ends_def talk_steps)

lemma talk_ends_leaf: "P (snd x) \<Longrightarrow> talk_ends P (tx_reject b e) x" "P (snd x) \<Longrightarrow> talk_ends P (tx_return y) x"
    "P (snd x) \<Longrightarrow> talk_ends P (tx_fail e) x"
  by (simp_all add: talk_ends_def talk_steps)

lemma answer_talk_ends: "P (snd x) \<Longrightarrow> talk_ends P (answer_talk en e result) x"
  unfolding answer_talk_def by (intro talk_ends_send talk_ends_pipe talk_ends_reject talk_ends_leaf) simp_all

lemma talk_ends_lift: "P (snd x) \<Longrightarrow> (\<And>y. talk_ends P (k y) x) \<Longrightarrow> talk_ends P (tx_bind (tx_lift r) k) x"
  by (cases r) (simp_all add: talk_ends_def tx_bind_def tx_lift_def)

lemma talk_ends_action: "P (snd x) \<Longrightarrow> (\<And>y. talk_ends P (k y) x) \<Longrightarrow> talk_ends P (tx_bind (invoked_action en e request) k) x"
  by (auto simp: talk_ends_def invoked_action_def talk_steps split: sum.splits)

lemma talk_ends_try:
  assumes "\<And>r s'. m (snd x) = (r, s') \<Longrightarrow> talk_ends P (k r) (fst x, s')"
  shows "talk_ends P (tx_bind (tx_try (on_daemon m)) k) x"
  using assms by (cases x; cases "m (snd x)") (simp add: talk_ends_def tx_bind_def tx_try_def on_daemon_def)

lemma tool_talk_ends:
  assumes "P (snd x)" "\<And>action. P (snd (invoke (result\<lparr>e_event_id := e_event_id e\<rparr>) action (snd x)))"
  shows "talk_ends P (tool_talk en invoke e result chosen) x"
proof -
  have after: "P s'" if "invoke (result\<lparr>e_event_id := e_event_id e\<rparr>) action (snd x) = (r, s')" for action r s'
    using assms(2) [of action] that by simp
  show ?thesis
    unfolding tool_talk_def
    by (intro talk_ends_send talk_ends_pipe talk_ends_action talk_ends_try talk_ends_lift talk_ends_leaf)
      (use assms(1) after in simp_all)
qed

lemma talk_ends_send_in:
  assumes "P (snd x)" "\<And>p. pi_in p = pi_in (fst x) \<Longrightarrow> talk_ends P k (p, snd x)"
  shows "talk_ends P (tx_seq (on_pipe (send m)) k) x"
  unfolding tx_seq_def by (rule talk_ends_pipe) (use assms in \<open>auto simp: send_def split: sum.splits\<close>)

lemma talk_ends_call:
  assumes "call s = (r, s1)"
  shows "talk_ends P (tx_bind (on_daemon call) k) (q, s) =
     (case r of Inl err \<Rightarrow> P s1 | Inr y \<Rightarrow> talk_ends P (k y) (q, s1))"
  by (simp add: talk_ends_def tx_bind_def on_daemon_def assms split: sum.splits)

definition scoped_request :: "(nat \<Rightarrow> nat) \<Rightarrow> execution \<Rightarrow> string \<Rightarrow> bool" where
  "scoped_request wide e output \<longleftrightarrow>
     (\<exists>u. reads wide output [frame ''ready'' '''' '''', frame ''model.call'' (e_call_id e) (e_prompt e)] u)"

definition scoped_effect :: "(daemon, execution option) tx \<Rightarrow> (execution \<Rightarrow> model_tool_call \<Rightarrow> (daemon, string) tx) \<Rightarrow> execution \<Rightarrow> daemon \<Rightarrow>
    daemon \<Rightarrow> bool" where
  "scoped_effect call invoke e s s' \<longleftrightarrow> s' = snd (call s) \<or>
     (\<exists>result action. fst (call s) = Inr (Some result) \<and> length (e_actions result) = 1 \<and>
        s' = snd (invoke (result\<lparr>e_event_id := e_event_id e\<rparr>) action (snd (call s))))"

text \<open>
  C36. Whatever bytes a worker sends, its turn either leaves the daemon as it was, or the worker
  asked for exactly the model call of its own task, and what was done is that call, and then at
  most one tool call, for the event of the activation, after an answer that asked for one.
\<close>

theorem operator_talk_scoped:
  "case operator_talk en call invoke e (p, s) of (r, p', s') \<Rightarrow>
     s' = s \<or> (scoped_request (en_wide en) e (pi_in p) \<and> scoped_effect call invoke e s s')"
proof -
  define P where "P s' \<longleftrightarrow> s' = s \<or> (scoped_request (en_wide en) e (pi_in p) \<and> scoped_effect call invoke e s s')" for s'
  have turn: "talk_ends P (tx_bind (on_daemon call) (\<lambda>r. case r of None \<Rightarrow> tx_return False
      | Some result \<Rightarrow> tx_seq (case e_actions result of [action] \<Rightarrow> tool_talk en invoke e result action | _ \<Rightarrow> answer_talk en e result)
            (tx_return True))) (q, s)" if scoped: "scoped_request (en_wide en) e (pi_in p)" for q
  proof -
    obtain r s1 where call: "call s = (r, s1)" by (cases "call s")
    then have P1: "P s1" using scoped by (simp add: P_def scoped_effect_def)
    have chosen: "talk_ends P (tool_talk en invoke e result action) (q, s1)" if "r = Inr (Some result)" "e_actions result = [action]" for result action
      by (rule tool_talk_ends) (use P1 scoped call that in \<open>auto simp: P_def scoped_effect_def\<close>)
    have answer: "talk_ends P (answer_talk en e result) (q, s1)" for result
      by (rule answer_talk_ends) (simp add: P1)
    have ended: "talk_ends P (tx_seq m (tx_return True)) x" if "talk_ends P m x" for m :: "unit talk" and x
      using that by (auto simp: talk_ends_def talk_steps split: prod.splits sum.splits)
    consider (failed) err where "r = Inl err" | (waiting) "r = Inr None" | (result) result where "r = Inr (Some result)"
      using that by (cases r; cases "projr r") auto
    then show ?thesis
    proof cases
      case (result result)
      have "talk_ends P (tx_seq (case e_actions result of [action] \<Rightarrow> tool_talk en invoke e result action | _ \<Rightarrow> answer_talk en e result)
          (tx_return True)) (q, s1)"
        by (rule ended) (use chosen [OF result] answer in \<open>auto split: list.splits\<close>)
      with result show ?thesis by (simp add: talk_ends_call [where call = call, OF call])
    qed (simp_all add: talk_ends_call [where call = call, OF call] P1 talk_ends_leaf)
  qed
  have start: "P s" by (simp add: P_def)
  have "talk_ends P (operator_talk en call invoke e) (p, s)"
    unfolding operator_talk_def
  proof (intro talk_ends_pipe talk_ends_reject talk_ends_send_in; (simp add: start; fail)?)
    fix ready p1 p2 request p3
    assume ready: "receive (en_wide en) (fst (p, s)) = (Inr ready, p1)" "\<not> ready \<noteq> frame ''ready'' '''' ''''"
      and p2: "pi_in p2 = pi_in (fst (p1, snd (p, s)))"
      and request: "receive (en_wide en) (fst (p2, snd (p1, snd (p, s)))) = (Inr request, p3)"
        "\<not> request \<noteq> frame ''model.call'' (e_call_id e) (e_prompt e)"
    have "reads (en_wide en) (pi_in p) [ready, request] (pi_in p3)"
      using receive_reads [of "en_wide en" p ready p1] receive_reads [of "en_wide en" p2 request p3] ready(1) p2 request(1)
      by (auto intro!: reads_more reads_none)
    then have "scoped_request (en_wide en) e (pi_in p)" using ready(2) request(2) by (auto simp: scoped_request_def)
    from turn [OF this, of p3]
    show "talk_ends P (tx_bind (on_daemon call) (\<lambda>r. case r of None \<Rightarrow> tx_return False
      | Some result \<Rightarrow> tx_seq (case e_actions result of [action] \<Rightarrow> tool_talk en invoke e result action | _ \<Rightarrow> answer_talk en e result)
            (tx_return True))) (p3, snd (p2, snd (p1, snd (p, s))))" by simp
  qed
  then show ?thesis by (auto simp: talk_ends_def P_def split: prod.splits)
qed

text \<open>
  C37. When the model call returns an answer, or an action whose tool call succeeds, the turn
  completes on both ends: the daemon's conversation reads exactly the bytes the operator process
  writes, and the process reads exactly the bytes the daemon writes, and both succeed.
\<close>

theorem turn_completes:
  assumes "list_all fits_pipe (daemon_says en e result value)" "list_all fits_pipe (worker_says en e result)"
    and "call s = (Inr (Some result), s1)" "turn_outcome invoke e result value s1 s2"
    and "e_call_id e \<noteq> ''''" "e_prompt e \<noteq> ''''"
  shows "operator_talk en call invoke e (bare (wires (worker_says en e result)) '''', s) =
      (Inr True, (bare '''' (wires (daemon_says en e result value)), s2)) \<and>
    Operator (en_wide en) (bare (wires (daemon_says en e result value)) '''') =
      (Inr (), bare '''' (wires (worker_says en e result)))"
proof
  show "operator_talk en call invoke e (bare (wires (worker_says en e result)) '''', s) =
      (Inr True, (bare '''' (wires (daemon_says en e result value)), s2))"
    by (rule daemon_turn) (rule assms)+
  show "Operator (en_wide en) (bare (wires (daemon_says en e result value)) '''') =
      (Inr (), bare '''' (wires (worker_says en e result)))"
    by (rule worker_turn) (rule assms)+
qed

section \<open>A turn with a tool\<close>

text \<open>
  The decided call of \<open>ToolRuns\<close>: its answer is stored, so the broker's loop returns it in its
  first round, and the tool it asks for has its stored result.
\<close>

definition quiet_round :: call_round where
  "quiet_round = \<lparr>rd_now = 1000, rd_storage = None, rd_ended_first = False, rd_ended_then = False, rd_before_token = False,
     rd_after_token = False, rd_token_now = 1000, rd_request_now = 1000,
     rd_credentials = \<lparr>cs_lookup = (\<lambda>_. None), cs_azure_ready = False, cs_azure_token = None, cs_before = NoContextError,
       cs_after = NoContextError\<rparr>,
     rd_exchange = \<lparr>hx_url_ok = (\<lambda>_. True), hx_do = (\<lambda>_ _ _. None), hx_context = NoContextError, hx_jitter = 0,
       hx_date = (\<lambda>_. None), hx_float = (\<lambda>_. None)\<rparr>,
     rd_during = id, rd_settle_storage = None, rd_settle_now = 1000, rd_waiting = id, rd_gave_up = False,
     rd_cancel_storage = None, rd_commit_failed = False\<rparr>"

definition asked_daemon :: daemon where
  "asked_daemon = \<lparr>dm_db = asked_db, dm_active = [], dm_broken = False, dm_closing = False, dm_awake = False\<rparr>"

definition asked_answer :: execution where
  "asked_answer = execution_of asked_db asked_call sample_goal"

definition asked_invoke :: "execution \<Rightarrow> model_tool_call \<Rightarrow> (daemon, string) tx" where
  "asked_invoke result action =
     tx_bind (stored (PrepareTool asked_engine result action 1000)) (\<lambda>plan. tx_return (pl_result plan))"

definition asked_action_text :: string where
  "asked_action_text = marshal (json_tool_call asked_action)"

lemma asked_fields: "e_system_id asked_session = ''sys''" "e_call_id asked_session = ''call''" "e_prompt asked_session = ''go''"
    "e_event_id asked_session = ''ev''" "e_actions asked_answer = [asked_action]" "e_state asked_answer = Completed"
    "asked_answer\<lparr>e_event_id := ''ev''\<rparr> = asked_session"
  by (simp_all add: asked_session_def asked_answer_def execution_of_def asked_call_def sample_call_def sample_goal_def)

lemma asked_authorized: "authorizeCall asked_session asked_db = (Inr asked_answer, asked_db)"
proof -
  have "readExecution ''sys'' ''call'' asked_db = (Inr asked_answer, asked_db)"
    by (simp add: readExecution_def tx_row_def call_of_def goal_of_def asked_tables sample asked_answer_def)
      (simp add: asked_call_def sample_call_def)
  moreover have "e_activation_id asked_answer = e_activation_id asked_session" "e_activation_owner asked_answer = e_activation_owner asked_session"
      "e_revision asked_answer = e_revision asked_session" "e_goal_id asked_answer = e_goal_id asked_session"
    by (simp_all add: asked_answer_def asked_session_def)
  ultimately show ?thesis by (simp add: authorizeCall_def asked_fields tx_bind_def tx_seq_def tx_reject_def tx_return_def)
qed

lemma asked_called: "broker_call asked_engine asked_session [quiet_round] asked_daemon = (Inr (Some asked_answer), asked_daemon)"
proof -
  have "queue_call asked_session asked_db = (Inr (), asked_db)"
    by (simp add: queue_call_def transaction_def tx_bind_def asked_authorized tx_when_def asked_fields tx_return_def)
  moreover have "admit sample_digest sample_cfg asked_session 1000 asked_db = (Inr (asked_answer, False), asked_db)"
    by (simp add: admit_def transaction_def tx_bind_def asked_authorized asked_fields tx_return_def)
  ultimately show ?thesis
    by (simp add: broker_call_def admit_round_def or_storage_def stored_def talk_steps tx_gets_def tx_try_def asked_daemon_def
      quiet_round_def asked_engine_def asked_fields)
qed

lemma asked_invoked: "asked_invoke asked_session asked_action asked_daemon = (Inr ''known'', asked_daemon)"
  by (simp add: asked_invoke_def stored_def asked_daemon_def tx_bind_def asked_prepared tool_result_def tx_return_def)

lemma asked_waits: "waits_for_tool asked_engine asked_action"
  by (simp add: waits_for_tool_def WireToolName_def asked_engine_def asked_action_def sample_digest_def)

lemma ascii_words: "valid_utf8 ''x''" "valid_utf8 ''function''" "valid_utf8 ''fn_d''" "valid_utf8 ''{}''" "valid_utf8 ''call''"
    "valid_utf8 ''go''" "valid_utf8 ''ready''" "valid_utf8 ''model.call''" "valid_utf8 ''tool.call''" "valid_utf8 ''task.waiting''"
    "valid_utf8 ''task''" "valid_utf8 ''model.action''" "valid_utf8 ''tool.wait''" "valid_utf8 ''known''" "valid_utf8 ''''"
  by (rule valid_utf8_ascii, simp add: byte_def)+

lemma asked_action_utf8: "valid_utf8 asked_action_text"
  by (simp add: asked_action_text_def asked_action_def json_tool_call_def json_string_def rune_at_def byte_def json_rune_def valid_utf8_ascii)

lemma asked_frames:
  "fits_pipe (frame ''ready'' '''' '''')" "fits_pipe (frame ''task'' ''call'' ''go'')" "fits_pipe (frame ''model.call'' ''call'' ''go'')"
  "fits_pipe (frame ''model.action'' ''call'' asked_action_text)" "fits_pipe (frame ''tool.call'' ''call'' asked_action_text)"
  "fits_pipe (frame ''tool.wait'' ''call'' ''known'')" "fits_pipe (frame ''task.waiting'' ''call'' '''')"
  using asked_action_utf8 ascii_words
  by (simp_all add: fits_pipe_def frame_text) (simp_all add: asked_action_text_def asked_action_def json_tool_call_def frame_text)

theorem turn_completes_applied:
  "\<exists>D W. operator_talk asked_engine (broker_call asked_engine asked_session [quiet_round]) asked_invoke asked_session (bare W '''', asked_daemon) =
      (Inr True, (bare '''' D, asked_daemon)) \<and> Operator (\<lambda>n. n) (bare D '''') = (Inr (), bare '''' W)"
proof -
  have says: "daemon_says asked_engine asked_session asked_answer ''known'' = [frame ''task'' ''call'' ''go'',
      frame ''model.action'' ''call'' asked_action_text, frame ''tool.wait'' ''call'' ''known'']"
    "worker_says asked_engine asked_session asked_answer = [frame ''ready'' '''' '''', frame ''model.call'' ''call'' ''go'',
      frame ''tool.call'' ''call'' asked_action_text, frame ''task.waiting'' ''call'' '''']"
    by (simp_all add: daemon_says_def worker_says_def asked_fields task_message_def tool_reply_def response_type_def asked_waits
        asked_action_text_def)
  have "list_all fits_pipe (daemon_says asked_engine asked_session asked_answer ''known'')"
      "list_all fits_pipe (worker_says asked_engine asked_session asked_answer)"
    unfolding says using asked_frames by simp_all
  moreover have "turn_outcome asked_invoke asked_session asked_answer ''known'' asked_daemon asked_daemon"
    using asked_invoked ascii_words by (simp add: turn_outcome_def asked_fields) (simp add: asked_action_def)
  moreover have "e_call_id asked_session \<noteq> ''''" "e_prompt asked_session \<noteq> ''''" by (simp_all add: asked_fields)
  moreover have "en_wide asked_engine = (\<lambda>n. n)" by (simp add: asked_engine_def)
  ultimately show ?thesis
    using turn_completes [of asked_engine asked_session asked_answer "''known''" "broker_call asked_engine asked_session [quiet_round]"
        asked_daemon asked_daemon asked_invoke asked_daemon] asked_called by metis
qed

end
