(* ===== verification/ApiRequests.thy ===== *)
theory ApiRequests
  imports Engine
begin

text \<open>
  The requests of the control API (internal/daemon: daemon.go and the routes of runtime_api.go,
  knowledge_api.go and learning_api.go): which handler a request reaches, how the body of a
  command is read and decoded, how cursors are read, and how an error becomes an answer. The
  bytes of HTTP, the matching of encoded path segments, net/url's query parser and mime's
  media-type parser belong to the standard library: a request carries the decoded segments of
  its clean path, and the two parsers are parameters.
\<close>

section \<open>Requests and answers\<close>

record request =
  rq_method :: string
  rq_path :: "string list"
  rq_query :: string
  rq_authorization :: string
  rq_origin :: string
  rq_key :: string
  rq_content_type :: string
  rq_body :: string

record control_api =
  ca_engine :: engine
  ca_running :: bool
  ca_config_id :: string
  ca_token :: string
  ca_parse_query :: "string \<Rightarrow> (string \<times> string list) list \<times> bool"
  ca_media_type :: "string \<Rightarrow> string option"

datatype payload =
    ErrorText string
  | HealthStatus string bool bool bool "string list"
  | Defaults system_config
  | OneSystem system_record
  | Systems "system_record list" string
  | Calls "execution list" int
  | BrokerState bool "quota_view list"
  | Snapshot activity
  | OneTool registry_entry
  | Registry "registry_entry list"
  | Agents "agent_record list" string
  | TaskRows "task_row list" string
  | Events "event_view list" int
  | Artifacts "artifact_entry list" string
  | OneArtifact artifact_result
  | ToolReceipts "tool_receipt list" string
  | Memory memory_search_result
  | Triggers string "trigger_entry list" string
  | LearningItems "json list" string

type_synonym response = "nat \<times> payload"

section \<open>Errors\<close>

text \<open>
  failure: what was invalid is told, what is missing or in conflict too; any other error only
  names an internal failure.
\<close>

definition failure :: "error \<Rightarrow> response" where
  "failure e =
     (if is_field_error e then (400, ErrorText (error_text e))
      else if error_is e ErrSystemNotFound then (404, ErrorText (error_text ErrSystemNotFound))
      else if error_is e ErrCommandConflict \<or> error_is e ErrRevisionConflict \<or> error_is e ErrExecutionConflict then (409, ErrorText (error_text e))
      else if error_is e errBrokerUnavailable then (503, ErrorText (error_text e))
      else if error_is e context_canceled then (408, ErrorText ''request canceled or deadline exceeded'')
      else (500, ErrorText ''internal storage error''))"

definition answered :: "(daemon, response) tx \<Rightarrow> daemon \<Rightarrow> response \<times> daemon" where
  "answered h s = (case h s of (Inl e, s') \<Rightarrow> (failure e, s') | (Inr r, s') \<Rightarrow> (r, s'))"

section \<open>Routes\<close>

datatype route_target =
    Health | SystemDefaults | SystemsList | SystemsCreate | SystemGet string | SystemRevise string | SystemStart string
  | SystemStop string | BrokerStatus | ModelCalls string | ActivityOf string | ToolsOf string | ToolOf string string
  | DraftsOf string | RevokeIn string | DraftState string string | DirectoryOf string | AssignTo string string | TasksOf string
  | EventsOf string | ArtifactOf string string | ArtifactsOf string | ToolCallsOf string | InputTo string | AttachTo string
  | ControlIn string control_scope string string
  | MemoryOf string | MemoryStateOf string string string | SchedulesOf string | SubscriptionsOf string
  | CancelIn string string bool | LearningOf string string | ChecksOf string | FeedbackOf string | EvaluateIn string
  | ApproveIn string string | Nowhere

text \<open>A pattern with GET also matches HEAD.\<close>

definition gets :: "string \<Rightarrow> bool" where
  "gets method \<longleftrightarrow> method = ''GET'' \<or> method = ''HEAD''"

definition picked :: "(string \<times> route_target) list \<Rightarrow> route_target \<Rightarrow> string \<Rightarrow> route_target" where
  "picked entries otherwise x = (case map_of entries x of Some r \<Rightarrow> r | None \<Rightarrow> otherwise)"

definition top_routes :: "(string \<times> route_target) list" where
  "top_routes = [(''health'', Health), (''system-defaults'', SystemDefaults), (''systems'', SystemsList),
     (''model-broker'', BrokerStatus), (''tools'', ToolsOf '''')]"

definition system_reads :: "string \<Rightarrow> (string \<times> route_target) list" where
  "system_reads s = [(''model-calls'', ModelCalls s), (''activity'', ActivityOf s), (''tools'', ToolsOf s), (''agents'', DirectoryOf s),
     (''tasks'', TasksOf s), (''events'', EventsOf s), (''artifacts'', ArtifactsOf s), (''tool-calls'', ToolCallsOf s),
     (''memory'', MemoryOf s), (''schedules'', SchedulesOf s), (''subscriptions'', SubscriptionsOf s), (''learning'', LearningOf s '''')]"

text \<open>A literal segment is preferred to the action of a system.\<close>

definition system_posts :: "string \<Rightarrow> (string \<times> route_target) list" where
  "system_posts s = [(''start'', SystemStart s), (''stop'', SystemStop s), (''input'', InputTo s), (''attachments'', AttachTo s),
     (''memory'', MemoryOf s), (''schedules'', SchedulesOf s), (''subscriptions'', SubscriptionsOf s)]"

definition route_one :: "string \<Rightarrow> string \<Rightarrow> string \<Rightarrow> route_target" where
  "route_one method s x =
     (if gets method then picked (system_reads s) Nowhere x
      else if method = ''POST'' then picked (system_posts s) (ControlIn s ScopeSystem s x) x
      else if method = ''PUT'' \<and> x = ''configuration'' then SystemRevise s
      else Nowhere)"

definition route_two :: "string \<Rightarrow> string \<Rightarrow> string \<Rightarrow> string \<Rightarrow> route_target" where
  "route_two method s x y =
     (if gets method then picked [(''tools'', ToolOf s y), (''artifacts'', ArtifactOf s y), (''learning'', LearningOf s y)] Nowhere x
      else if method = ''POST'' \<and> x = ''tools'' then picked [(''drafts'', DraftsOf s), (''revoke'', RevokeIn s)] Nowhere y
      else if method = ''POST'' \<and> x = ''learning''
        then picked [(''checks'', ChecksOf s), (''feedback'', FeedbackOf s), (''evaluate'', EvaluateIn s)] Nowhere y
      else Nowhere)"

definition route_three :: "string \<Rightarrow> string \<Rightarrow> string \<Rightarrow> string \<Rightarrow> string \<Rightarrow> route_target" where
  "route_three method s x y z =
     (if method = ''PUT'' \<and> x = ''agents'' \<and> z = ''tools'' then AssignTo s y
      else if method \<noteq> ''POST'' then Nowhere
      else if x = ''tools'' \<and> z = ''state'' then DraftState s y
      else if x = ''agents'' then ControlIn s ScopeAgent y z
      else if x = ''goals'' then ControlIn s ScopeGoal y z
      else if x = ''memory'' then MemoryStateOf s y z
      else if x = ''schedules'' \<and> z = ''cancel'' then CancelIn s y True
      else if x = ''subscriptions'' \<and> z = ''cancel'' then CancelIn s y False
      else if x = ''learning'' \<and> z = ''approve'' then ApproveIn s y
      else Nowhere)"

definition route_v1 :: "string \<Rightarrow> string list \<Rightarrow> route_target" where
  "route_v1 method path =
     (case path of
        [x] \<Rightarrow> if gets method then picked top_routes Nowhere x
               else if method = ''POST'' \<and> x = ''systems'' then SystemsCreate else Nowhere
      | [x, y] \<Rightarrow> if gets method then picked [(''systems'', SystemGet y), (''tools'', ToolOf '''' y)] Nowhere x else Nowhere
      | [x, s, a] \<Rightarrow> if x = ''systems'' then route_one method s a else Nowhere
      | [x, s, a, b] \<Rightarrow> if x = ''systems'' then route_two method s a b else Nowhere
      | [x, s, a, b, c] \<Rightarrow> if x = ''systems'' then route_three method s a b c else Nowhere
      | _ \<Rightarrow> Nowhere)"

text \<open>A wildcard matches a segment that is not empty; everything else reaches the catch-all.\<close>

definition route :: "string \<Rightarrow> string list \<Rightarrow> route_target" where
  "route method path =
     (case path of v # path' \<Rightarrow> if v = ''v1'' \<and> '''' \<notin> set path' then route_v1 method path' else Nowhere
      | [] \<Rightarrow> Nowhere)"

section \<open>Commands\<close>

definition object_body :: "string \<Rightarrow> bool" where
  "object_body body = (case trim_space body of c # _ \<Rightarrow> c = CHR 0x7B | [] \<Rightarrow> False)"

text \<open>readCommand: the key of the command and its decoded body.\<close>

definition readCommand :: "control_api \<Rightarrow> (string \<times> 'c decoder) list \<Rightarrow> 'c \<Rightarrow> request \<Rightarrow> error + string \<times> 'c" where
  "readCommand ca flds zero rq =
     (if \<not> CommandKeyPattern (rq_key rq)
      then Inl (FieldError ''Idempotency-Key'' ''requires 1-128 letters, digits, dots, colons, underscores, or hyphens'')
      else if rq_query rq \<noteq> '''' then Inl (FieldError ''query'' ''command queries are not supported'')
      else if ca_media_type ca (rq_content_type rq) \<noteq> Some ''application/json''
      then Inl (FieldError ''Content-Type'' ''must be application/json'')
      else if length (rq_body rq) > MaxFrame then Inl (FieldError ''body'' ''cannot read JSON body within the 64 KiB limit'')
      else if \<not> object_body (rq_body rq) then Inl (FieldError ''body'' ''requires a JSON object'')
      else case decode_args (en_wide (ca_engine ca)) flds zero (rq_body rq) of
        Inl e \<Rightarrow> Inl (FieldError ''body'' (error_text e))
      | Inr c \<Rightarrow> Inr (rq_key rq, c))"

text \<open>The structs of the commands, by their JSON tags.\<close>

definition into_text_pointer :: "('a \<Rightarrow> string option) \<Rightarrow> (string option \<Rightarrow> 'a \<Rightarrow> 'a) \<Rightarrow> 'a decoder" where
  "into_text_pointer sel upd = into_pointer (into_string (\<lambda>s _. s)) '''' sel upd"

definition create_fields :: "(string \<times> create_system_command decoder) list" where
  "create_fields =
     [(''name'', into_string (\<lambda>s c. c\<lparr>cs_name := s\<rparr>)), (''goal'', into_text_pointer cs_goal (\<lambda>s c. c\<lparr>cs_goal := s\<rparr>)),
      (''constraints'', into_string (\<lambda>s c. c\<lparr>cs_constraints := s\<rparr>)), (''token_budget'', into_int (\<lambda>i c. c\<lparr>cs_token_budget := i\<rparr>))]"

definition no_create :: create_system_command where
  "no_create = \<lparr>cs_name = '''', cs_goal = None, cs_constraints = '''', cs_token_budget = 0\<rparr>"

definition operator_fields :: "(string \<times> operator_config decoder) list" where
  "operator_fields =
     [(''prompt'', into_string (\<lambda>s c. c\<lparr>oc_prompt := s\<rparr>)), (''model'', into_string (\<lambda>s c. c\<lparr>oc_model := s\<rparr>)),
      (''tools'', into_strings (\<lambda>xs c. c\<lparr>oc_tools := xs\<rparr>)), (''sandbox_profile'', into_string (\<lambda>s c. c\<lparr>oc_sandbox_profile := s\<rparr>))]"

definition limits_fields :: "(string \<times> system_limits decoder) list" where
  "limits_fields =
     [(''max_agents'', into_int (\<lambda>i c. c\<lparr>sl_max_agents := i\<rparr>)), (''max_active_agents'', into_int (\<lambda>i c. c\<lparr>sl_max_active_agents := i\<rparr>)),
      (''token_budget'', into_int (\<lambda>i c. c\<lparr>sl_token_budget := i\<rparr>))]"

definition system_fields :: "(string \<times> system_config decoder) list" where
  "system_fields =
     [(''name'', into_string (\<lambda>s c. c\<lparr>sc_name := s\<rparr>)), (''constraints'', into_string (\<lambda>s c. c\<lparr>sc_constraints := s\<rparr>)),
      (''models'', into_strings (\<lambda>xs c. c\<lparr>sc_models := xs\<rparr>)), (''tools'', into_strings (\<lambda>xs c. c\<lparr>sc_tools := xs\<rparr>)),
      (''operator'', into_struct (into_fields operator_fields) sc_operator (\<lambda>x c. c\<lparr>sc_operator := x\<rparr>)),
      (''limits'', into_struct (into_fields limits_fields) sc_limits (\<lambda>x c. c\<lparr>sc_limits := x\<rparr>))]"

definition tool_pin_fields :: "(string \<times> tool_pin decoder) list" where
  "tool_pin_fields =
     [(''name'', into_string (\<lambda>s p. p\<lparr>pin_name := s\<rparr>)), (''version'', into_int (\<lambda>i p. p\<lparr>pin_version := i\<rparr>)),
      (''digest'', into_string (\<lambda>s p. p\<lparr>pin_digest := s\<rparr>))]"

definition into_pins :: "(tool_pin slice \<Rightarrow> 'a \<Rightarrow> 'a) \<Rightarrow> 'a decoder" where
  "into_pins = into_slice (into_fields tool_pin_fields) zero_pin"

definition revise_fields :: "(string \<times> revise_system_command decoder) list" where
  "revise_fields =
     [(''expected_revision'', into_int (\<lambda>i c. c\<lparr>rc_expected_revision := i\<rparr>)),
      (''configuration'', into_pointer (into_fields system_fields) zero_system rc_configuration (\<lambda>x c. c\<lparr>rc_configuration := x\<rparr>)),
      (''local_tools'', into_pins (\<lambda>ps c. c\<lparr>rc_local_tools := elems ps\<rparr>))]"

definition no_revise :: revise_system_command where
  "no_revise = \<lparr>rc_expected_revision = 0, rc_configuration = None, rc_local_tools = []\<rparr>"

definition start_fields :: "(string \<times> start_system_command decoder) list" where
  "start_fields =
     [(''expected_revision'', into_int (\<lambda>i c. c\<lparr>st_expected_revision := i\<rparr>)),
      (''goal'', into_text_pointer st_goal (\<lambda>s c. c\<lparr>st_goal := s\<rparr>)), (''token_budget'', into_int (\<lambda>i c. c\<lparr>st_token_budget := i\<rparr>)),
      (''lifetime_seconds'', into_int (\<lambda>i c. c\<lparr>st_lifetime_seconds := i\<rparr>)), (''stream'', into_bool (\<lambda>b c. c\<lparr>st_stream := b\<rparr>)),
      (''continuous'', into_bool (\<lambda>b c. c\<lparr>st_continuous := b\<rparr>))]"

definition no_start :: start_system_command where
  "no_start = \<lparr>st_expected_revision = 0, st_goal = None, st_token_budget = 0, st_lifetime_seconds = 0, st_stream = False,
     st_continuous = False\<rparr>"

definition change_draft_fields :: "(string \<times> change_draft_command decoder) list" where
  "change_draft_fields = [(''version'', into_int (\<lambda>i c. c\<lparr>cd_version := i\<rparr>)), (''state'', into_string (\<lambda>s c. c\<lparr>cd_state := s\<rparr>))]"

definition revoke_fields :: "(string \<times> revoke_tool_command decoder) list" where
  "revoke_fields = [(''name'', into_string (\<lambda>s c. c\<lparr>rt_name := s\<rparr>)), (''version'', into_int (\<lambda>i c. c\<lparr>rt_version := i\<rparr>))]"

definition assign_fields :: "(string \<times> assign_tools_command decoder) list" where
  "assign_fields = [(''expected_revision'', into_int (\<lambda>i c. c\<lparr>as_expected_revision := i\<rparr>)),
     (''tools'', into_pins (\<lambda>ps c. c\<lparr>as_tools := ps\<rparr>))]"

definition input_fields :: "(string \<times> add_input_command decoder) list" where
  "input_fields = [(''agent_id'', into_string (\<lambda>s c. c\<lparr>ai_agent_id := s\<rparr>)), (''content'', into_string (\<lambda>s c. c\<lparr>ai_content := s\<rparr>))]"

definition attachment_fields :: "(string \<times> attachment_command decoder) list" where
  "attachment_fields = [(''agent_id'', into_string (\<lambda>s c. c\<lparr>ac_agent_id := s\<rparr>)), (''name'', into_string (\<lambda>s c. c\<lparr>ac_name := s\<rparr>)),
     (''content'', into_string (\<lambda>s c. c\<lparr>ac_content := s\<rparr>))]"

definition case_fields :: "(string \<times> protected_case decoder) list" where
  "case_fields = [(''input'', into_string (\<lambda>s c. c\<lparr>pt_input := s\<rparr>)), (''expected'', into_string (\<lambda>s c. c\<lparr>pt_expected := s\<rparr>))]"

definition checks_fields :: "(string \<times> protected_case list decoder) list" where
  "checks_fields = [(''cases'', into_slice (into_fields case_fields) \<lparr>pt_input = '''', pt_expected = ''''\<rparr> (\<lambda>xs _. elems xs))]"

definition feedback_fields :: "(string \<times> feedback_command decoder) list" where
  "feedback_fields = [(''task_id'', into_string (\<lambda>s c. c\<lparr>fc_task_id := s\<rparr>)), (''rating'', into_string (\<lambda>s c. c\<lparr>fc_rating := s\<rparr>)),
     (''content'', into_string (\<lambda>s c. c\<lparr>fc_content := s\<rparr>))]"

definition evaluation_fields :: "(string \<times> evaluate_command decoder) list" where
  "evaluation_fields = [(''tool_id'', into_string (\<lambda>s c. c\<lparr>ve_tool_id := s\<rparr>)), (''version'', into_int (\<lambda>i c. c\<lparr>ve_version := i\<rparr>)),
     (''check_id'', into_string (\<lambda>s c. c\<lparr>ve_check_id := s\<rparr>)), (''task_id'', into_string (\<lambda>s c. c\<lparr>ve_task_id := s\<rparr>)),
     (''baseline'', into_pointer (into_fields tool_pin_fields) zero_pin ve_baseline (\<lambda>p c. c\<lparr>ve_baseline := p\<rparr>))]"

definition approve_fields :: "(string \<times> approve_command decoder) list" where
  "approve_fields = [(''digest'', into_string (\<lambda>s c. c\<lparr>pv_digest := s\<rparr>)), (''expires_seconds'', into_int (\<lambda>i c. c\<lparr>pv_expires_seconds := i\<rparr>)),
     (''task_uses'', into_int (\<lambda>i c. c\<lparr>pv_task_uses := i\<rparr>))]"

definition memory_state_fields :: "(string \<times> int decoder) list" where
  "memory_state_fields = [(''expected_revision'', into_int (\<lambda>i _. i))]"

section \<open>Queries\<close>

definition query_get :: "(string \<times> string list) list \<Rightarrow> string \<Rightarrow> string" where
  "query_get query key = (case map_of query key of Some (v # _) \<Rightarrow> v | _ \<Rightarrow> '''')"

text \<open>A query with another field than a single \<open>after\<close>.\<close>

definition stray_query :: "(string \<times> string list) list \<Rightarrow> bool" where
  "stray_query query \<longleftrightarrow> length query > 1 \<or> (length query = 1 \<and> length (get [] query ''after'') \<noteq> 1)"

definition runtimeCursor :: "control_api \<Rightarrow> request \<Rightarrow> error + string" where
  "runtimeCursor ca rq =
     (case ca_parse_query ca (rq_query rq) of (query, ok) \<Rightarrow>
       if \<not> ok \<or> stray_query query then Inl (FieldError ''after'' ''invalid cursor'') else Inr (query_get query ''after''))"

definition event_cursor :: "string \<Rightarrow> error + int" where
  "event_cursor text =
     (case (if text = '''' then Some 0 else parse_seconds text) of
        Some n \<Rightarrow> if n < 0 then Inl (FieldError ''after'' ''requires a nonnegative event sequence'') else Inr n
      | None \<Rightarrow> Inl (FieldError ''after'' ''requires a nonnegative event sequence''))"

text \<open>The number of an \<open>after\<close> that is given replaces the error of the query's parser.\<close>

definition calls_cursor :: "control_api \<Rightarrow> request \<Rightarrow> error + int" where
  "calls_cursor ca rq =
     (case ca_parse_query ca (rq_query rq) of (query, ok) \<Rightarrow>
       (case (if query_get query ''after'' \<noteq> '''' then parse_seconds (query_get query ''after'') else if ok then Some 0 else None) of
          None \<Rightarrow> Inl (FieldError ''after'' ''invalid model-call cursor'')
        | Some n \<Rightarrow> if n < 0 \<or> stray_query query then Inl (FieldError ''after'' ''invalid model-call cursor'') else Inr n))"

definition systems_cursor :: "control_api \<Rightarrow> request \<Rightarrow> error + string" where
  "systems_cursor ca rq =
     (case ca_parse_query ca (rq_query rq) of (query, ok) \<Rightarrow>
       let after = query_get query ''after'' in
       if \<not> ok \<or> (after \<noteq> '''' \<and> \<not> SystemIDPattern after) \<or> stray_query query
       then Inl (FieldError ''after'' ''invalid pagination cursor'') else Inr after)"

text \<open>strconv.ParseBool.\<close>

definition parse_bool :: "string \<Rightarrow> bool option" where
  "parse_bool s = (if s \<in> {''1'', ''t'', ''T'', ''true'', ''TRUE'', ''True''} then Some True
     else if s \<in> {''0'', ''f'', ''F'', ''false'', ''FALSE'', ''False''} then Some False else None)"

definition search_query :: "control_api \<Rightarrow> request \<Rightarrow> error + memory_query" where
  "search_query ca rq =
     (case ca_parse_query ca (rq_query rq) of (query, ok) \<Rightarrow>
       if \<not> ok then Inl (FieldError ''query'' ''invalid memory query'')
       else if list_ex (\<lambda>(k, vs). length vs \<noteq> 1 \<or> k \<notin> {''scope'', ''owner_id'', ''query'', ''after'', ''include_pending''}) query
       then Inl (FieldError ''query'' ''unknown or repeated memory query field'')
       else
         let scope = query_get query ''scope''; pending = query_get query ''include_pending'';
             q = \<lparr>mq_scope = if scope = '''' then ''system'' else scope, mq_owner = query_get query ''owner_id'',
                   mq_query = query_get query ''query'', mq_after = query_get query ''after'', mq_pending = False\<rparr>
         in if pending = '''' then Inr q
            else case parse_bool pending of Some b \<Rightarrow> Inr (q\<lparr>mq_pending := b\<rparr>)
                 | None \<Rightarrow> Inl (FieldError ''include_pending'' ''requires a boolean''))"

end
