(* ===== verification/ControlApi.thy ===== *)
theory ControlApi
  imports ApiRequests ToolRuns
begin

text \<open>
  The control API of the daemon (daemon.go, runtime_api.go, knowledge_api.go, learning_api.go,
  controls.go, attachments.go in internal/daemon): its handlers over the store and the engine,
  and the gate before them that asks for the administrator's token. The theorems state that a
  request without the token or from a browser reaches nothing, that a refused request leaves the
  store as it was, and that every request is a sequence of the store's operations.
\<close>

section \<open>Parts of handlers\<close>

definition hash_of :: "control_api \<Rightarrow> string \<Rightarrow> string" where
  "hash_of ca = en_hash (ca_engine ca)"

definition config_of :: "control_api \<Rightarrow> configuration" where
  "config_of ca = en_config (ca_engine ca)"

text \<open>A handler that needs the engine.\<close>

definition executionAvailable :: "control_api \<Rightarrow> (daemon, response) tx \<Rightarrow> (daemon, response) tx" where
  "executionAvailable ca h = (if ca_running ca then h else tx_return (503, ErrorText ''execution owner unavailable''))"

definition systemResponse :: "control_api \<Rightarrow> nat \<Rightarrow> (daemon, system_record) tx \<Rightarrow> (daemon, response) tx" where
  "systemResponse ca status m =
     tx_bind m (\<lambda>r. tx_return (status, OneSystem (Inspect (hash_of ca) (config_of ca) r)))"

definition notified :: "(daemon, 'a) tx \<Rightarrow> (daemon, 'a) tx" where
  "notified m = tx_bind m (\<lambda>x. tx_seq notify (tx_return x))"

definition with_command :: "control_api \<Rightarrow> (string \<times> 'c decoder) list \<Rightarrow> 'c \<Rightarrow> request \<Rightarrow> (string \<Rightarrow> 'c \<Rightarrow> (daemon, response) tx) \<Rightarrow>
    (daemon, response) tx" where
  "with_command ca flds zero rq k = tx_bind (tx_lift (readCommand ca flds zero rq)) (\<lambda>(key, c). k key c)"

definition named_system :: "string \<Rightarrow> (daemon, response) tx \<Rightarrow> (daemon, response) tx" where
  "named_system i h = tx_seq (tx_reject (\<not> SystemIDPattern i) ErrSystemNotFound) h"

definition with_cursor :: "control_api \<Rightarrow> request \<Rightarrow> (string \<Rightarrow> (daemon, response) tx) \<Rightarrow> (daemon, response) tx" where
  "with_cursor ca rq k = tx_bind (tx_lift (runtimeCursor ca rq)) k"

section \<open>The daemon and its systems\<close>

definition generated_profiles :: "configuration \<Rightarrow> string list" where
  "generated_profiles cfg = sort (map fst (filter (\<lambda>(_, p). GeneratedProfile p = None) (cf_sandbox_profiles cfg)))"

definition health :: "control_api \<Rightarrow> (daemon, response) tx" where
  "health ca = tx_gets (\<lambda>s.
     let up = ca_running ca \<and> available s; profiles = generated_profiles (config_of ca) in
     (200, HealthStatus (if ca_running ca \<and> \<not> up then ''degraded'' else ''ready'') up (up \<and> profiles \<noteq> [])
        (up \<and> profiles \<noteq> [] \<and> cf_learning (config_of ca) \<noteq> None) profiles))"

definition api_defaults :: "control_api \<Rightarrow> (daemon, response) tx" where
  "api_defaults ca = tx_bind (tx_lift (BootstrapSystem (config_of ca))) (\<lambda>c. tx_return (200, Defaults c))"

definition api_list :: "control_api \<Rightarrow> request \<Rightarrow> (daemon, response) tx" where
  "api_list ca rq =
     tx_bind (tx_lift (systems_cursor ca rq)) (\<lambda>after.
     tx_bind (stored (ListSystems (hash_of ca) localAdministrator after)) (\<lambda>(records, next_id).
     tx_return (200, Systems (map (Inspect (hash_of ca) (config_of ca)) records) next_id)))"

definition api_create :: "control_api \<Rightarrow> request \<Rightarrow> int \<Rightarrow> (daemon, response) tx" where
  "api_create ca rq now = with_command ca create_fields no_create rq (\<lambda>key c.
     systemResponse ca 201 (stored (CreateSystem (hash_of ca) localAdministrator key c (config_of ca) (ca_config_id ca) now)))"

definition api_get :: "control_api \<Rightarrow> string \<Rightarrow> (daemon, response) tx" where
  "api_get ca i = named_system i (systemResponse ca 200 (stored (GetSystem (hash_of ca) localAdministrator i)))"

definition api_revise :: "control_api \<Rightarrow> string \<Rightarrow> request \<Rightarrow> int \<Rightarrow> (daemon, response) tx" where
  "api_revise ca i rq now = with_command ca revise_fields no_revise rq (\<lambda>key c. named_system i
     (tx_seq (tx_reject (rc_expected_revision c < 1) (FieldError ''expected_revision'' ''must be positive''))
       (systemResponse ca 200 (stored (ReviseSystem (hash_of ca) localAdministrator key i c (config_of ca) (ca_config_id ca) now)))))"

definition api_start :: "control_api \<Rightarrow> string \<Rightarrow> request \<Rightarrow> int \<Rightarrow> (daemon, response) tx" where
  "api_start ca i rq now = executionAvailable ca (with_command ca start_fields no_start rq (\<lambda>key c. named_system i
     (tx_seq (tx_reject (st_expected_revision c < 1) (FieldError ''expected_revision'' ''must be positive''))
       (systemResponse ca 202 (engine_start (ca_engine ca) localAdministrator key i c now)))))"

definition api_stop :: "control_api \<Rightarrow> string \<Rightarrow> request \<Rightarrow> int \<Rightarrow> (daemon, response) tx" where
  "api_stop ca i rq now = executionAvailable ca (with_command ca no_fields () rq (\<lambda>key _. named_system i
     (systemResponse ca 202 (engine_stop (ca_engine ca) localAdministrator key i now))))"

definition brokerStatus :: "control_api \<Rightarrow> int \<Rightarrow> (daemon, response) tx" where
  "brokerStatus ca now = executionAvailable ca
     (tx_bind (stored (quotas (config_of ca) now)) (\<lambda>qs. tx_gets (\<lambda>s. (200, BrokerState (available s) qs))))"

definition api_calls :: "control_api \<Rightarrow> string \<Rightarrow> request \<Rightarrow> (daemon, response) tx" where
  "api_calls ca i rq = named_system i
     (tx_bind (tx_lift (calls_cursor ca rq)) (\<lambda>after.
      tx_bind (stored (ListCalls (hash_of ca) localAdministrator i after)) (\<lambda>(calls, next_id).
      tx_return (200, Calls calls next_id))))"

section \<open>Views\<close>

definition api_activity :: "control_api \<Rightarrow> string \<Rightarrow> (daemon, response) tx" where
  "api_activity ca i =
     tx_bind (stored (Activity (hash_of ca) localAdministrator i)) (\<lambda>a.
     tx_return (200, Snapshot (a\<lparr>ya_system := Inspect (hash_of ca) (config_of ca) (ya_system a)\<rparr>)))"

text \<open>The entry of the greatest version, the first of those that are equal.\<close>

definition newer_entry :: "string \<Rightarrow> registry_entry option \<Rightarrow> registry_entry \<Rightarrow> registry_entry option" where
  "newer_entry i selected e =
     (if rx_id e = i \<and> (case selected of None \<Rightarrow> True | Some x \<Rightarrow> rx_version e > rx_version x) then Some e else selected)"

definition api_tools :: "control_api \<Rightarrow> string \<Rightarrow> string \<Rightarrow> int \<Rightarrow> (daemon, response) tx" where
  "api_tools ca i toolID now =
     tx_bind (stored (Catalog (hash_of ca) (config_of ca) localAdministrator i now)) (\<lambda>entries.
     if toolID = '''' then tx_return (200, Registry entries)
     else case foldl (newer_entry toolID) None entries of
       Some e \<Rightarrow> tx_return (200, OneTool e) | None \<Rightarrow> tx_fail ErrSystemNotFound)"

definition api_directory :: "control_api \<Rightarrow> string \<Rightarrow> request \<Rightarrow> (daemon, response) tx" where
  "api_directory ca i rq = with_cursor ca rq (\<lambda>after.
     tx_bind (stored (ListAgents (hash_of ca) i after)) (\<lambda>(xs, n). tx_return (200, Agents xs n)))"

definition api_tasks :: "control_api \<Rightarrow> string \<Rightarrow> request \<Rightarrow> (daemon, response) tx" where
  "api_tasks ca i rq = with_cursor ca rq (\<lambda>after.
     tx_bind (stored (ListTasks (hash_of ca) i after)) (\<lambda>(xs, n). tx_return (200, TaskRows xs n)))"

definition api_events :: "control_api \<Rightarrow> string \<Rightarrow> request \<Rightarrow> (daemon, response) tx" where
  "api_events ca i rq = with_cursor ca rq (\<lambda>text.
     tx_bind (tx_lift (event_cursor text)) (\<lambda>after.
     tx_bind (stored (ListEvents (hash_of ca) i after)) (\<lambda>(xs, n). tx_return (200, Events xs n))))"

definition api_artifacts :: "control_api \<Rightarrow> string \<Rightarrow> request \<Rightarrow> (daemon, response) tx" where
  "api_artifacts ca i rq = with_cursor ca rq (\<lambda>after.
     tx_bind (stored (ListArtifacts (hash_of ca) i after)) (\<lambda>(xs, n). tx_return (200, Artifacts xs n)))"

definition api_tool_calls :: "control_api \<Rightarrow> string \<Rightarrow> request \<Rightarrow> (daemon, response) tx" where
  "api_tool_calls ca i rq = with_cursor ca rq (\<lambda>after.
     tx_bind (stored (ListToolCalls (hash_of ca) i after)) (\<lambda>(xs, n). tx_return (200, ToolReceipts xs n)))"

definition api_artifact :: "control_api \<Rightarrow> string \<Rightarrow> string \<Rightarrow> (daemon, response) tx" where
  "api_artifact ca i a = tx_bind (stored (Artifact (hash_of ca) i a)) (\<lambda>x. tx_return (200, OneArtifact x))"

definition triggerList :: "control_api \<Rightarrow> string \<Rightarrow> request \<Rightarrow> bool \<Rightarrow> (daemon, response) tx" where
  "triggerList ca i rq kind = with_cursor ca rq (\<lambda>after.
     tx_bind (stored (ListTriggers (hash_of ca) i after kind)) (\<lambda>(name, xs, n). tx_return (200, Triggers name xs n)))"

definition api_learning :: "control_api \<Rightarrow> string \<Rightarrow> string \<Rightarrow> request \<Rightarrow> (daemon, response) tx" where
  "api_learning ca i part rq = with_cursor ca rq (\<lambda>after.
     tx_bind (stored (LearningView (hash_of ca) i after part)) (\<lambda>(xs, n). tx_return (200, LearningItems xs n)))"

section \<open>Tools, input and attachments\<close>

definition api_draft :: "control_api \<Rightarrow> string \<Rightarrow> request \<Rightarrow> int \<Rightarrow> (daemon, response) tx" where
  "api_draft ca i rq now = with_command ca draft_fields no_draft rq (\<lambda>key c.
     systemResponse ca 201 (stored (ProposeTool (hash_of ca) (config_of ca) key i c now)))"

definition api_draft_state :: "control_api \<Rightarrow> string \<Rightarrow> string \<Rightarrow> request \<Rightarrow> int \<Rightarrow> (daemon, response) tx" where
  "api_draft_state ca i toolID rq now =
     with_command ca change_draft_fields \<lparr>cd_version = 0, cd_state = ''''\<rparr> rq (\<lambda>key c.
     systemResponse ca 200 (stored (ChangeDraftState (hash_of ca) key i c toolID now)))"

text \<open>A revocation cancels the evaluations of the system and the activations whose task holds the tool.\<close>

definition holds_revoked :: "db \<Rightarrow> string \<Rightarrow> revoke_tool_command \<Rightarrow> string \<Rightarrow> activation \<Rightarrow> bool" where
  "holds_revoked d systemID c k a \<longleftrightarrow> av_system_id a = systemID \<and>
     (has_prefix (av_call_id a) ''evaluation_'' \<or>
      (case fst (taskSnapshot systemID (av_task_id a) d) of Inl e \<Rightarrow> True
       | Inr t \<Rightarrow> list_ex (\<lambda>p. pin_name p = rt_name c \<and> pin_version p = rt_version c) (t_tools t)))"

definition revoked_calls :: "control_api \<Rightarrow> revoke_tool_command \<Rightarrow> system_record \<Rightarrow> (daemon, unit) tx" where
  "revoked_calls ca c r = tx_when (ca_running ca)
     (tx_seq (tx_bind (tx_gets dm_db) (\<lambda>d. cancel_where (holds_revoked d (sr_id r) c))) notify)"

definition api_revoke :: "control_api \<Rightarrow> string \<Rightarrow> request \<Rightarrow> int \<Rightarrow> (daemon, response) tx" where
  "api_revoke ca i rq now = with_command ca revoke_fields \<lparr>rt_name = '''', rt_version = 0\<rparr> rq (\<lambda>key c.
     systemResponse ca 200
       (tx_bind (stored (RevokeTool (hash_of ca) (config_of ca) key i c now)) (\<lambda>r.
        tx_seq (revoked_calls ca c r) (tx_return r))))"

definition api_assign :: "control_api \<Rightarrow> string \<Rightarrow> string \<Rightarrow> request \<Rightarrow> int \<Rightarrow> (daemon, response) tx" where
  "api_assign ca i agentID rq now =
     with_command ca assign_fields \<lparr>as_expected_revision = 0, as_tools = None\<rparr> rq (\<lambda>key c.
     systemResponse ca 200 (stored (AssignTools (hash_of ca) (config_of ca) key i c agentID now)))"

definition api_input :: "control_api \<Rightarrow> string \<Rightarrow> request \<Rightarrow> int \<Rightarrow> (daemon, response) tx" where
  "api_input ca i rq now = executionAvailable ca (with_command ca input_fields \<lparr>ai_agent_id = '''', ai_content = ''''\<rparr> rq (\<lambda>key c.
     systemResponse ca 202 (notified (stored (AddInput (hash_of ca) key i c now)))))"

definition api_attachment :: "control_api \<Rightarrow> string \<Rightarrow> request \<Rightarrow> int \<Rightarrow> (daemon, response) tx" where
  "api_attachment ca i rq now = executionAvailable ca
     (with_command ca attachment_fields \<lparr>ac_agent_id = '''', ac_name = '''', ac_content = ''''\<rparr> rq (\<lambda>key c.
     systemResponse ca 202 (notified (stored (AddAttachment (hash_of ca) key i c now)))))"

section \<open>Controls\<close>

definition action_named :: "string \<Rightarrow> control_action option" where
  "action_named s = (if s = ''pause'' then Some Pause else if s = ''resume'' then Some Resume else if s = ''stop'' then Some Stop else None)"

text \<open>The calls a committed stop names, read from the result of the command.\<close>

definition stopped_calls :: "system_record \<Rightarrow> error + string list" where
  "stopped_calls r =
     (case json_unmarshal (\<lambda>v. known_fields control_result_fields v no_control_result)
             (case sr_command_result r of None \<Rightarrow> '''' | Some j \<Rightarrow> marshal j) of
        None \<Rightarrow> Inl (ErrInternal ''invalid command result'') | Some c \<Rightarrow> Inr (elems (rt_calls c)))"

text \<open>A stop that the store failed to commit still cancels what it was aimed at.\<close>

definition under_control :: "control_scope \<Rightarrow> string \<Rightarrow> string \<Rightarrow> string \<Rightarrow> activation \<Rightarrow> bool" where
  "under_control scope systemID i k a \<longleftrightarrow> av_system_id a = systemID \<and>
     (case scope of ScopeSystem \<Rightarrow> True | ScopeGoal \<Rightarrow> av_goal_id a = i | ScopeAgent \<Rightarrow> av_agent_id a = i)"

definition after_control :: "control_scope \<Rightarrow> control_action \<Rightarrow> string \<Rightarrow> string \<Rightarrow> error + system_record \<Rightarrow> (daemon, unit) tx" where
  "after_control scope action systemID i r =
     (if action \<noteq> Stop then tx_return ()
      else case r of
        Inr record \<Rightarrow> tx_bind (tx_lift (stopped_calls record)) (cancelControlledCalls (sr_id record))
      | Inl e \<Rightarrow> tx_when (\<not> error_is e ErrSystemNotFound \<and> \<not> error_is e ErrCommandConflict)
                  (cancel_where (under_control scope systemID i)))"

definition control_command :: "control_api \<Rightarrow> string \<Rightarrow> control_scope \<Rightarrow> control_action \<Rightarrow> string \<Rightarrow> string \<Rightarrow> int \<Rightarrow> (daemon, response) tx" where
  "control_command ca systemID scope action i key now =
     tx_bind (tx_try (stored (Control (hash_of ca) (config_of ca) key systemID (Some scope) (Some action) i now))) (\<lambda>r.
     tx_seq (after_control scope action systemID i r)
     (tx_seq notify (systemResponse ca 202 (tx_lift r))))"

definition api_control :: "control_api \<Rightarrow> string \<Rightarrow> control_scope \<Rightarrow> string \<Rightarrow> string \<Rightarrow> request \<Rightarrow> int \<Rightarrow> (daemon, response) tx" where
  "api_control ca systemID scope i name rq now = executionAvailable ca
     (case action_named name of None \<Rightarrow> tx_fail ErrSystemNotFound
      | Some action \<Rightarrow> with_command ca no_fields () rq (\<lambda>key _. control_command ca systemID scope action i key now))"

section \<open>Memory, schedules and subscriptions\<close>

definition api_memory :: "control_api \<Rightarrow> string \<Rightarrow> request \<Rightarrow> int \<Rightarrow> (daemon, response) tx" where
  "api_memory ca i rq now = executionAvailable ca
     (if rq_method rq = ''POST'' then with_command ca memory_command_fields no_memory_command rq (\<lambda>key c.
        systemResponse ca 201 (notified (stored (PutMemory (hash_of ca) (config_of ca) key i c now))))
      else tx_bind (tx_lift (search_query ca rq)) (\<lambda>q.
        tx_bind (stored (SearchMemory (hash_of ca) i q now)) (\<lambda>r. tx_return (200, Memory r))))"

definition api_memory_state :: "control_api \<Rightarrow> string \<Rightarrow> string \<Rightarrow> string \<Rightarrow> request \<Rightarrow> int \<Rightarrow> (daemon, response) tx" where
  "api_memory_state ca i memoryID action rq now = executionAvailable ca
     (if action \<noteq> ''approve'' \<and> action \<noteq> ''delete'' then tx_fail ErrSystemNotFound
      else with_command ca memory_state_fields 0 rq (\<lambda>key revision.
        systemResponse ca 200 (notified (stored (ChangeMemoryState (hash_of ca) (config_of ca) key i revision memoryID action now)))))"

text \<open>Only the method GET lists: a HEAD request, which the same pattern matches, is read as a command.\<close>

definition api_schedules :: "control_api \<Rightarrow> string \<Rightarrow> request \<Rightarrow> int \<Rightarrow> (daemon, response) tx" where
  "api_schedules ca i rq now =
     (if rq_method rq = ''GET'' then triggerList ca i rq True
      else executionAvailable ca (with_command ca schedule_fields no_schedule rq (\<lambda>key c.
        systemResponse ca 201 (notified (stored
          (CreateSchedule (hash_of ca) (en_services (ca_engine ca)) (config_of ca) key i c now))))))"

definition api_subscriptions :: "control_api \<Rightarrow> string \<Rightarrow> request \<Rightarrow> int \<Rightarrow> (daemon, response) tx" where
  "api_subscriptions ca i rq now =
     (if rq_method rq = ''GET'' then triggerList ca i rq False
      else executionAvailable ca (with_command ca subscription_fields no_subscription rq (\<lambda>key c.
        systemResponse ca 201 (notified (stored (CreateSubscription (hash_of ca) (config_of ca) key i c now))))))"

definition cancelTrigger :: "control_api \<Rightarrow> string \<Rightarrow> string \<Rightarrow> bool \<Rightarrow> request \<Rightarrow> int \<Rightarrow> (daemon, response) tx" where
  "cancelTrigger ca i triggerID kind rq now = with_command ca no_fields () rq (\<lambda>key _.
     systemResponse ca 200 (stored (CancelTrigger (hash_of ca) key i triggerID kind now)))"

section \<open>Learning\<close>

definition learningChecks :: "control_api \<Rightarrow> string \<Rightarrow> request \<Rightarrow> int \<Rightarrow> (daemon, response) tx" where
  "learningChecks ca i rq now = with_command ca checks_fields [] rq (\<lambda>key cases.
     systemResponse ca 201 (stored (CreateChecks (hash_of ca) key i cases now)))"

definition learningFeedback :: "control_api \<Rightarrow> string \<Rightarrow> request \<Rightarrow> int \<Rightarrow> (daemon, response) tx" where
  "learningFeedback ca i rq now =
     with_command ca feedback_fields \<lparr>fc_task_id = '''', fc_rating = '''', fc_content = ''''\<rparr> rq (\<lambda>key c.
     systemResponse ca 201 (stored (AddFeedback (hash_of ca) key i c now)))"

definition no_evaluate :: evaluate_command where
  "no_evaluate = \<lparr>ve_tool_id = '''', ve_version = 0, ve_check_id = '''', ve_task_id = '''', ve_baseline = None\<rparr>"

definition learningEvaluate :: "control_api \<Rightarrow> string \<Rightarrow> request \<Rightarrow> int \<Rightarrow> (daemon, response) tx" where
  "learningEvaluate ca i rq now = executionAvailable ca (with_command ca evaluation_fields no_evaluate rq (\<lambda>key c.
     systemResponse ca 202 (notified (stored (EvaluateLearning (hash_of ca) (en_parser (ca_engine ca)) (config_of ca)
       (en_owner (ca_engine ca)) key i c now)))))"

definition learningApprove :: "control_api \<Rightarrow> string \<Rightarrow> string \<Rightarrow> request \<Rightarrow> int \<Rightarrow> (daemon, response) tx" where
  "learningApprove ca i evaluationID rq now =
     with_command ca approve_fields \<lparr>pv_digest = '''', pv_expires_seconds = 0, pv_task_uses = 0\<rparr> rq (\<lambda>key c.
     systemResponse ca 200 (stored (ApproveLearning (hash_of ca) (en_files (ca_engine ca)) (config_of ca) key i c evaluationID now)))"

section \<open>The server\<close>

fun handler :: "control_api \<Rightarrow> route_target \<Rightarrow> request \<Rightarrow> int \<Rightarrow> (daemon, response) tx" where
  "handler ca Health rq now = health ca"
| "handler ca SystemDefaults rq now = api_defaults ca"
| "handler ca SystemsList rq now = api_list ca rq"
| "handler ca SystemsCreate rq now = api_create ca rq now"
| "handler ca (SystemGet i) rq now = api_get ca i"
| "handler ca (SystemRevise i) rq now = api_revise ca i rq now"
| "handler ca (SystemStart i) rq now = api_start ca i rq now"
| "handler ca (SystemStop i) rq now = api_stop ca i rq now"
| "handler ca BrokerStatus rq now = brokerStatus ca now"
| "handler ca (ModelCalls i) rq now = api_calls ca i rq"
| "handler ca (ActivityOf i) rq now = api_activity ca i"
| "handler ca (ToolsOf i) rq now = api_tools ca i '''' now"
| "handler ca (ToolOf i t) rq now = api_tools ca i t now"
| "handler ca (DraftsOf i) rq now = api_draft ca i rq now"
| "handler ca (RevokeIn i) rq now = api_revoke ca i rq now"
| "handler ca (DraftState i t) rq now = api_draft_state ca i t rq now"
| "handler ca (DirectoryOf i) rq now = api_directory ca i rq"
| "handler ca (AssignTo i a) rq now = api_assign ca i a rq now"
| "handler ca (TasksOf i) rq now = api_tasks ca i rq"
| "handler ca (EventsOf i) rq now = api_events ca i rq"
| "handler ca (ArtifactOf i a) rq now = api_artifact ca i a"
| "handler ca (ArtifactsOf i) rq now = api_artifacts ca i rq"
| "handler ca (ToolCallsOf i) rq now = api_tool_calls ca i rq"
| "handler ca (InputTo i) rq now = api_input ca i rq now"
| "handler ca (AttachTo i) rq now = api_attachment ca i rq now"
| "handler ca (ControlIn i scope x act) rq now = api_control ca i scope x act rq now"
| "handler ca (MemoryOf i) rq now = api_memory ca i rq now"
| "handler ca (MemoryStateOf i m act) rq now = api_memory_state ca i m act rq now"
| "handler ca (SchedulesOf i) rq now = api_schedules ca i rq now"
| "handler ca (SubscriptionsOf i) rq now = api_subscriptions ca i rq now"
| "handler ca (CancelIn i t kind) rq now = cancelTrigger ca i t kind rq now"
| "handler ca (LearningOf i part) rq now = api_learning ca i part rq"
| "handler ca (ChecksOf i) rq now = learningChecks ca i rq now"
| "handler ca (FeedbackOf i) rq now = learningFeedback ca i rq now"
| "handler ca (EvaluateIn i) rq now = learningEvaluate ca i rq now"
| "handler ca (ApproveIn i e) rq now = learningApprove ca i e rq now"
| "handler ca Nowhere rq now = tx_fail ErrSystemNotFound"

text \<open>The token is compared by its digest, and requests that browsers send are refused.\<close>

definition authenticated :: "control_api \<Rightarrow> request \<Rightarrow> bool" where
  "authenticated ca rq \<longleftrightarrow> hash_of ca (''Bearer '' @ ca_token ca) = hash_of ca (rq_authorization rq)"

definition serve :: "control_api \<Rightarrow> request \<Rightarrow> int \<Rightarrow> daemon \<Rightarrow> response \<times> daemon" where
  "serve ca rq now s =
     (if \<not> authenticated ca rq then ((401, ErrorText ''authentication required''), s)
      else if rq_origin rq \<noteq> '''' then ((403, ErrorText ''browser-origin requests are not supported''), s)
      else answered (handler ca (route (rq_method rq) (rq_path rq)) rq now) s)"

section \<open>Every request is a sequence of the store's operations\<close>

text \<open>What a critical section of the daemon keeps: the store advances, and the slots stay within bounds.\<close>

definition orderly :: "daemon \<Rightarrow> daemon \<Rightarrow> bool" where
  "orderly s s' \<longleftrightarrow> advances s s' \<and> (slots_ok s \<longrightarrow> slots_ok s')"

interpretation orderly: step_preorder orderly
  by unfold_locales (auto simp: orderly_def intro: daemon.R_refl daemon.R_trans)

named_theorems ordered \<open>parts of handlers that are orderly\<close>

lemma stored_orderly: "(\<And>d. step d (snd (m d))) \<Longrightarrow> tx_rel orderly (stored m)"
  using stored_advances [of m] stored_slots [of _ m] by (simp add: tx_rel_def orderly_def)

lemma stored_read [ordered]: "tx_rel orderly (stored (read_only m))"
  using stored_reads [of "read_only m"] stored_slots [of _ "read_only m"] by (simp add: tx_rel_def orderly_def)

lemma cancel_where_keys: "map fst (dm_active (snd (cancel_where P s))) = map fst (dm_active s)"
  by (simp add: cancel_where_def tx_modify_def split_beta)

lemma cancel_where_slots: "slots_ok s \<Longrightarrow> slots_ok (snd (cancel_where P s))"
  by (simp add: slots_ok_def cancel_where_keys) (simp add: cancel_where_def tx_modify_def)

lemma drop_active_slots: "slots_ok s \<Longrightarrow> slots_ok (snd (drop_active k s))"
  by (auto simp: drop_active_def tx_modify_def slots_ok_def distinct_map intro: inj_on_subset le_trans [OF length_filter_le])

lemma flags_slots: "slots_ok s \<Longrightarrow> slots_ok (snd (notify s))" "slots_ok s \<Longrightarrow> slots_ok (snd (failLocked s))"
    "slots_ok s \<Longrightarrow> slots_ok (s\<lparr>dm_closing := True\<rparr>)" "slots_ok s \<Longrightarrow> slots_ok (s\<lparr>dm_awake := False\<rparr>)"
  by (simp_all add: notify_def failLocked_def tx_modify_def slots_ok_def)

lemma changes_orderly [ordered]:
  "tx_rel orderly notify" "tx_rel orderly failLocked" "tx_rel orderly (cancel_where P)" "tx_rel orderly (drop_active k)"
  "tx_rel orderly (tx_modify (\<lambda>s. s\<lparr>dm_closing := True\<rparr>))"
  using changes_advance(1-4) changes_advance(7) cancel_where_slots drop_active_slots flags_slots
  by (auto simp: tx_rel_def orderly_def tx_modify_def)

lemmas order_rules = orderly.rels orderly.rel_modify

lemma engine_orderly [ordered]:
  "tx_rel orderly (engine_start en actor key i c now)" "tx_rel orderly (engine_stop en actor key i now)"
  "tx_rel orderly (cancelControlledCalls i calls)" "tx_rel orderly engine_close"
  unfolding engine_start_def engine_stop_def cancelControlledCalls_def engine_close_def
  by (intro order_rules ordered stored_orderly step.start step.stop)+

lemma combinators_orderly [ordered]:
  "tx_rel orderly h \<Longrightarrow> tx_rel orderly (executionAvailable ca h)"
  "tx_rel orderly m \<Longrightarrow> tx_rel orderly (systemResponse ca status m)"
  "tx_rel orderly m \<Longrightarrow> tx_rel orderly (notified m)"
  "(\<And>key c. tx_rel orderly (k key c)) \<Longrightarrow> tx_rel orderly (with_command ca flds zero rq k)"
  "tx_rel orderly h \<Longrightarrow> tx_rel orderly (named_system i h)"
  "(\<And>after. tx_rel orderly (k' after)) \<Longrightarrow> tx_rel orderly (with_cursor ca rq k')"
  unfolding executionAvailable_def systemResponse_def notified_def with_command_def named_system_def with_cursor_def
  by (intro order_rules ordered; assumption)+

lemma stored_quotas [ordered]: "tx_rel orderly (stored (quotas cfg now))"
  by (simp add: quotas_def stored_def tx_rel_def tx_gets_def orderly_def advances_def slots_ok_def)

lemmas read_operations = GetSystem_def ListSystems_def ListCalls_def ListAgents_def ListTasks_def ListEvents_def ListArtifacts_def
  ListToolCalls_def Artifact_def ListTriggers_def LearningView_def Activity_def SearchMemory_def Catalog_def

lemma views_orderly [ordered]:
  "tx_rel orderly (health ca)" "tx_rel orderly (api_defaults ca)" "tx_rel orderly (api_list ca rq)" "tx_rel orderly (api_get ca i)"
  "tx_rel orderly (brokerStatus ca now)" "tx_rel orderly (api_calls ca i rq)" "tx_rel orderly (api_activity ca i)"
  "tx_rel orderly (api_tools ca i t now)" "tx_rel orderly (api_directory ca i rq)" "tx_rel orderly (api_tasks ca i rq)"
  "tx_rel orderly (api_events ca i rq)" "tx_rel orderly (api_artifacts ca i rq)" "tx_rel orderly (api_tool_calls ca i rq)"
  "tx_rel orderly (api_artifact ca i a)" "tx_rel orderly (triggerList ca i rq kind)" "tx_rel orderly (api_learning ca i part rq)"
  unfolding health_def api_defaults_def api_list_def api_get_def brokerStatus_def api_calls_def api_activity_def api_tools_def
    api_directory_def api_tasks_def api_events_def api_artifacts_def api_tool_calls_def api_artifact_def triggerList_def
    api_learning_def read_operations
  by (intro order_rules ordered)+

lemma after_control_orderly [ordered]: "tx_rel orderly (after_control scope action systemID i r)"
  unfolding after_control_def by (intro order_rules ordered)

lemma commands_orderly [ordered]:
  "tx_rel orderly (api_create ca rq now)" "tx_rel orderly (api_revise ca i rq now)" "tx_rel orderly (api_start ca i rq now)"
  "tx_rel orderly (api_stop ca i rq now)" "tx_rel orderly (api_draft ca i rq now)" "tx_rel orderly (api_draft_state ca i t rq now)"
  "tx_rel orderly (api_revoke ca i rq now)" "tx_rel orderly (api_assign ca i a rq now)" "tx_rel orderly (api_input ca i rq now)"
  "tx_rel orderly (api_attachment ca i rq now)" "tx_rel orderly (api_control ca i scope x act rq now)"
  "tx_rel orderly (api_memory ca i rq now)" "tx_rel orderly (api_memory_state ca i m act rq now)"
  "tx_rel orderly (api_schedules ca i rq now)" "tx_rel orderly (api_subscriptions ca i rq now)"
  "tx_rel orderly (cancelTrigger ca i t kind rq now)" "tx_rel orderly (learningChecks ca i rq now)"
  "tx_rel orderly (learningFeedback ca i rq now)" "tx_rel orderly (learningEvaluate ca i rq now)"
  "tx_rel orderly (learningApprove ca i e rq now)"
  unfolding api_create_def api_revise_def api_start_def api_stop_def api_draft_def api_draft_state_def api_revoke_def revoked_calls_def
    api_assign_def api_input_def api_attachment_def api_control_def control_command_def api_memory_def api_memory_state_def
    api_schedules_def api_subscriptions_def cancelTrigger_def learningChecks_def learningFeedback_def learningEvaluate_def
    learningApprove_def SearchMemory_def
  by (intro order_rules ordered stored_orderly step.intros)+

lemma handler_orderly: "tx_rel orderly (handler ca ep rq now)"
  by (cases ep) (simp_all add: ordered orderly.rel_fail)

lemma serve_orderly: "orderly s (snd (serve ca rq now s))"
proof -
  have "orderly s (snd (answered (handler ca ep rq now) s))" for ep
    using handler_orderly [of ca ep rq now] by (auto simp: answered_def tx_rel_def split: prod.splits sum.splits) (metis snd_conv)+
  then show ?thesis by (simp add: serve_def orderly.R_refl)
qed

section \<open>A refused request changes nothing\<close>

text \<open>An operation of the store that fails leaves it as it was.\<close>

definition atomic :: "'a op \<Rightarrow> bool" where
  "atomic m \<longleftrightarrow> (\<forall>d e d'. m d = (Inl e, d') \<longrightarrow> d' = d)"

named_theorems atomically \<open>operations that fail without a change\<close>

lemma atomic_rules:
  "atomic (transaction m)" "atomic (read_only m)" "atomic (tx_fail e)" "atomic (tx_gets f)"
  "atomic m \<Longrightarrow> atomic n \<Longrightarrow> atomic (if b then m else n)"
  "(r = None \<Longrightarrow> atomic m) \<Longrightarrow> (\<And>x. r = Some x \<Longrightarrow> atomic (k x)) \<Longrightarrow> atomic (case r of None \<Rightarrow> m | Some x \<Rightarrow> k x)"
  "(\<And>e. atomic (h e)) \<Longrightarrow> (\<And>x. atomic (g x)) \<Longrightarrow> atomic (case q of Inl e \<Rightarrow> h e | Inr x \<Rightarrow> g x)"
  by (auto simp: atomic_def dest: transaction_failed split: option.splits sum.splits) (simp add: read_only_def)

lemma command_atomic [atomically]: "atomic (command H actor key hash now m)" "atomic (mutation H key i operation body now k)"
  unfolding command_def mutation_def by (rule atomic_rules)+

lemma store_atomic [atomically]:
  "atomic (CreateSystem H actor key c1 cfg configID now)" "atomic (ReviseSystem H actor key i c2 cfg configID now)"
  "atomic (StartSystem H actor key i owner c3 cfg now)" "atomic (StopSystem H actor key i now)"
  "atomic (ProposeTool H cfg key i c4 now)" "atomic (ChangeDraftState H key i c5 t now)" "atomic (RevokeTool H cfg key i c6 now)"
  "atomic (AssignTools H cfg key i c7 a now)" "atomic (AddInput H key i c8 now)" "atomic (AddAttachment H key i c9 now)"
  "atomic (PutMemory H cfg key i c10 now)" "atomic (ChangeMemoryState H cfg key i n m act now)"
  "atomic (CreateSchedule H ts cfg key i c11 now)" "atomic (CreateSubscription H cfg key i c12 now)"
  "atomic (CancelTrigger H key i t kind now)" "atomic (CreateChecks H key i cases now)" "atomic (AddFeedback H key i c13 now)"
  "atomic (EvaluateLearning H gp cfg owner key i c14 now)" "atomic (ApproveLearning H fs cfg key i c15 e now)"
  "atomic (Control H cfg key i (Some scope) (Some action) x now)" "atomic (quotas cfg now)"
  unfolding CreateSystem_def ReviseSystem_def StartSystem_def StopSystem_def ProposeTool_def ChangeDraftState_def RevokeTool_def
    AssignTools_def AddInput_def AddAttachment_def PutMemory_def ChangeMemoryState_def CreateSchedule_def CreateSubscription_def
    CancelTrigger_def CreateChecks_def AddFeedback_def EvaluateLearning_def ApproveLearning_def Control_def quotas_def prod.case option.case
  by (intro atomic_rules atomically)+

lemma read_atomic [atomically]:
  "atomic (GetSystem H actor i)" "atomic (ListSystems H actor after)" "atomic (ListCalls H actor i n)" "atomic (ListAgents H i after)"
  "atomic (ListTasks H i after)" "atomic (ListEvents H i n)" "atomic (ListArtifacts H i after)" "atomic (ListToolCalls H i after)"
  "atomic (Artifact H i a)" "atomic (ListTriggers H i after kind)" "atomic (LearningView H i after part)" "atomic (Activity H actor i)"
  "atomic (SearchMemory H i q now)" "atomic (Catalog H cfg actor i now)"
  unfolding read_operations by (rule atomic_rules)+

text \<open>The same of what the engine does with the store, and of a handler.\<close>

definition clean :: "(daemon, 'a) tx \<Rightarrow> bool" where
  "clean m \<longleftrightarrow> (\<forall>s e s'. m s = (Inl e, s') \<longrightarrow> dm_db s' = dm_db s)"

definition refuses :: "(daemon, response) tx \<Rightarrow> bool" where
  "refuses h \<longleftrightarrow> (\<forall>s. case h s of
     (Inl e, s') \<Rightarrow> dm_db s' = dm_db s \<or> fst (failure e) = 500
   | (Inr r, s') \<Rightarrow> fst r < 400 \<or> dm_db s' = dm_db s)"

lemma clean_stored [atomically]: "atomic m \<Longrightarrow> clean (stored m)"
  by (auto simp: clean_def atomic_def stored_def split: prod.splits)

lemma clean_notified [atomically]: "clean m \<Longrightarrow> clean (notified m)"
  by (auto simp: clean_def notified_def tx_bind_def tx_seq_def notify_def tx_modify_def tx_return_def split: prod.splits sum.splits)

lemma clean_start [atomically]: "clean (engine_start en actor key i c now)"
  unfolding clean_def
proof (intro allI impI)
  fix s e s' assume run: "engine_start en actor key i c now s = (Inl e, s')"
  obtain r d where start: "StartSystem (en_hash en) actor key i (en_owner en) c (en_config en) now (dm_db s) = (r, d)"
    by (cases "StartSystem (en_hash en) actor key i (en_owner en) c (en_config en) now (dm_db s)")
  have "s' = s \<or> r = Inl e \<and> dm_db s' = d"
    using run by (auto simp: engine_start_def tx_bind_def tx_gets_def stored_def start tx_seq_def tx_return_def tx_fail_def
      notify_def tx_modify_def split: if_splits sum.splits)
  then show "dm_db s' = dm_db s" using start store_atomic(3) by (auto simp: atomic_def)
qed

lemma cancel_where_db: "fst (cancel_where P s) = Inr () \<and> dm_db (snd (cancel_where P s)) = dm_db s"
  by (simp add: cancel_where_def tx_modify_def)

lemma clean_stop [atomically]: "clean (engine_stop en actor key i now)"
  unfolding clean_def
proof (intro allI impI)
  fix s e s' assume run: "engine_stop en actor key i now s = (Inl e, s')"
  obtain r d where stop: "StopSystem (en_hash en) actor key i now (dm_db s) = (r, d)"
    by (cases "StopSystem (en_hash en) actor key i now (dm_db s)")
  have "r = Inl e" "dm_db s' = d"
    using run by (auto simp: engine_stop_def tx_bind_def tx_try_def stored_def stop tx_seq_def tx_when_def tx_return_def tx_lift_def
      cancel_where_def tx_modify_def split: if_splits)
  then show "dm_db s' = dm_db s" using stop store_atomic(4) by (auto simp: atomic_def)
qed

lemma refuses_system: "clean m \<Longrightarrow> status < 400 \<Longrightarrow> refuses (systemResponse ca status m)"
  by (auto simp: refuses_def clean_def systemResponse_def tx_bind_def tx_return_def split: prod.splits sum.splits)

lemma refuses_read: "clean m \<Longrightarrow> (\<And>x. refuses (k x)) \<Longrightarrow> (\<And>s x s'. m s = (Inr x, s') \<Longrightarrow> dm_db s' = dm_db s) \<Longrightarrow> refuses (tx_bind m k)"
  unfolding refuses_def
proof
  fix s assume m: "clean m" "\<And>x. \<forall>s. case k x s of (Inl e, s') \<Rightarrow> dm_db s' = dm_db s \<or> fst (failure e) = 500
      | (Inr r, s') \<Rightarrow> fst r < 400 \<or> dm_db s' = dm_db s" "\<And>s x s'. m s = (Inr x, s') \<Longrightarrow> dm_db s' = dm_db s"
  obtain r t where run: "m s = (r, t)" by (cases "m s")
  show "case tx_bind m k s of (Inl e, s') \<Rightarrow> dm_db s' = dm_db s \<or> fst (failure e) = 500
      | (Inr r, s') \<Rightarrow> fst r < 400 \<or> dm_db s' = dm_db s"
  proof (cases r)
    case (Inl e)
    with run m(1) show ?thesis by (simp add: tx_bind_def clean_def)
  next
    case (Inr x)
    with run m(3) have "dm_db t = dm_db s" by simp
    with m(2) [of x, rule_format, of t] run Inr show ?thesis by (auto simp: tx_bind_def split: prod.splits sum.splits)
  qed
qed

lemma refuses_lift: "(\<And>x. refuses (k x)) \<Longrightarrow> refuses (tx_bind (tx_lift r) k)"
  by (cases r) (auto simp: refuses_def tx_bind_def tx_lift_def)

lemma refuses_leaf: "refuses (tx_fail e)" "refuses (tx_return r)" "refuses (tx_gets f)"
  by (auto simp: refuses_def tx_fail_def tx_return_def tx_gets_def)

lemma refuses_reject: "refuses h \<Longrightarrow> refuses (tx_seq (tx_reject b e) h)"
  by (auto simp: refuses_def tx_seq_def tx_bind_def tx_reject_def tx_fail_def tx_return_def)

lemma refuses_if: "refuses h \<Longrightarrow> refuses h' \<Longrightarrow> refuses (if b then h else h')"
  by simp

lemma refuses_option: "(\<And>x. refuses (k x)) \<Longrightarrow> refuses h \<Longrightarrow> refuses (case q of None \<Rightarrow> h | Some x \<Rightarrow> k x)"
  by (simp split: option.splits)

lemma refuses_prod: "(\<And>x y. refuses (k x y)) \<Longrightarrow> refuses (case p of (x, y) \<Rightarrow> k x y)"
  by (simp split: prod.splits)

lemma refuses_parts:
  "refuses h \<Longrightarrow> refuses (executionAvailable ca h)"
  "(\<And>key c. refuses (k key c)) \<Longrightarrow> refuses (with_command ca flds zero rq k)"
  "refuses h \<Longrightarrow> refuses (named_system i h)"
  "(\<And>after. refuses (k' after)) \<Longrightarrow> refuses (with_cursor ca rq k')"
  unfolding executionAvailable_def with_command_def named_system_def with_cursor_def
  by (intro refuses_if refuses_leaf refuses_lift refuses_prod refuses_reject; assumption)+

lemmas refuses_rules = refuses_parts refuses_if refuses_leaf refuses_lift refuses_prod refuses_reject refuses_option refuses_system

lemma refuses_stored: "atomic (read_only m) \<Longrightarrow> (\<And>x. refuses (k x)) \<Longrightarrow> refuses (tx_bind (stored (read_only m)) k)"
  by (rule refuses_read [OF clean_stored]) (auto simp: stored_def read_only_def)

lemma refuses_quotas: "(\<And>x. refuses (k x)) \<Longrightarrow> refuses (tx_bind (stored (quotas cfg now)) k)"
  by (rule refuses_read [OF clean_stored [OF store_atomic(21)]]) (auto simp: stored_def quotas_def tx_gets_def)

lemma views_refuse [atomically]:
  "refuses (health ca)" "refuses (api_defaults ca)" "refuses (api_list ca rq)" "refuses (api_get ca i)"
  "refuses (brokerStatus ca now)" "refuses (api_calls ca i rq)" "refuses (api_activity ca i)"
  "refuses (api_tools ca i t now)" "refuses (api_directory ca i rq)" "refuses (api_tasks ca i rq)"
  "refuses (api_events ca i rq)" "refuses (api_artifacts ca i rq)" "refuses (api_tool_calls ca i rq)"
  "refuses (api_artifact ca i a)" "refuses (triggerList ca i rq kind)" "refuses (api_learning ca i part rq)"
  unfolding health_def api_defaults_def api_list_def api_get_def brokerStatus_def api_calls_def api_activity_def api_tools_def
    api_directory_def api_tasks_def api_events_def api_artifacts_def api_tool_calls_def api_artifact_def triggerList_def
    api_learning_def read_operations
  by (intro refuses_rules refuses_stored refuses_quotas atomic_rules clean_stored; simp)+

lemma refuses_control: "refuses (control_command ca systemID scope action i key now)"
  unfolding refuses_def
proof
  fix s :: daemon
  obtain r d where control: "Control (hash_of ca) (config_of ca) key systemID (Some scope) (Some action) i now (dm_db s) = (r, d)"
    by (cases "Control (hash_of ca) (config_of ca) key systemID (Some scope) (Some action) i now (dm_db s)")
  let ?s = "s\<lparr>dm_db := d\<rparr>"
  obtain q t where after: "after_control scope action systemID i r ?s = (q, t)" by (cases "after_control scope action systemID i r ?s")
  have kept: "dm_db t = d"
    using after by (auto simp: after_control_def tx_return_def tx_when_def cancelControlledCalls_def tx_bind_def tx_lift_def tx_gets_def
      cancel_where_def tx_modify_def split: if_splits sum.splits)
  have broken: "fst (failure e) = 500" if "q = Inl e" for e
    using after that by (auto simp: after_control_def tx_return_def tx_when_def cancelControlledCalls_def tx_bind_def tx_lift_def
      tx_gets_def cancel_where_def tx_modify_def stopped_calls_def failure_def errBrokerUnavailable_def context_canceled_def
      split: if_splits sum.splits option.splits)
  have same: "d = dm_db s" if "r = Inl e" for e
    using control that store_atomic(20) by (auto simp: atomic_def)
  have run: "control_command ca systemID scope action i key now s =
    (case q of Inl e \<Rightarrow> (Inl e, t)
     | Inr _ \<Rightarrow> (map_sum id (\<lambda>x. (202, OneSystem (Inspect (hash_of ca) (config_of ca) x))) r, t\<lparr>dm_awake := True\<rparr>))"
    by (simp add: control_command_def tx_bind_def tx_try_def stored_def control tx_seq_def after notify_def tx_modify_def
      systemResponse_def tx_lift_def tx_return_def split: sum.splits)
  show "case control_command ca systemID scope action i key now s of
      (Inl e, s') \<Rightarrow> dm_db s' = dm_db s \<or> fst (failure e) = 500 | (Inr r, s') \<Rightarrow> fst r < 400 \<or> dm_db s' = dm_db s"
    using broken same kept unfolding run by (cases r; cases q) simp_all
qed

lemma clean_revoke [atomically]:
  "clean (tx_bind (stored (RevokeTool H cfg key i c now)) (\<lambda>r. tx_seq (revoked_calls ca c r) (tx_return r)))"
proof -
  have "fst (revoked_calls ca c r s) = Inr ()" for r s
    by (simp add: revoked_calls_def tx_when_def tx_seq_def tx_bind_def tx_gets_def cancel_where_def tx_modify_def notify_def tx_return_def)
  then show ?thesis using store_atomic(7) [of H cfg key i c now]
    by (auto simp: clean_def atomic_def tx_bind_def tx_seq_def stored_def tx_return_def split: prod.splits sum.splits) (metis Inr_Inl_False fst_conv)
qed

lemma commands_refuse [atomically]:
  "refuses (api_create ca rq now)" "refuses (api_revise ca i rq now)" "refuses (api_start ca i rq now)"
  "refuses (api_stop ca i rq now)" "refuses (api_draft ca i rq now)" "refuses (api_draft_state ca i t rq now)"
  "refuses (api_revoke ca i rq now)" "refuses (api_assign ca i a rq now)" "refuses (api_input ca i rq now)"
  "refuses (api_attachment ca i rq now)" "refuses (api_control ca i scope x act rq now)"
  "refuses (api_memory ca i rq now)" "refuses (api_memory_state ca i m act rq now)"
  "refuses (api_schedules ca i rq now)" "refuses (api_subscriptions ca i rq now)"
  "refuses (cancelTrigger ca i t kind rq now)" "refuses (learningChecks ca i rq now)"
  "refuses (learningFeedback ca i rq now)" "refuses (learningEvaluate ca i rq now)"
  "refuses (learningApprove ca i e rq now)"
  unfolding api_create_def api_revise_def api_start_def api_stop_def api_draft_def api_draft_state_def api_revoke_def
    api_assign_def api_input_def api_attachment_def api_control_def api_memory_def api_memory_state_def
    api_schedules_def api_subscriptions_def cancelTrigger_def learningChecks_def learningFeedback_def learningEvaluate_def
    learningApprove_def SearchMemory_def
  by (intro refuses_rules refuses_stored refuses_control atomic_rules atomically; simp)+

lemma handler_refuses: "refuses (handler ca ep rq now)"
  by (cases ep) (simp_all add: atomically refuses_leaf)

section \<open>Runs of the daemon\<close>

text \<open>
  One critical section of the daemon: a request of the API, a scheduling pass, the sections of a
  model call and of a tool call, and the ends of activations and evaluations, in any order.
\<close>

inductive move :: "control_api \<Rightarrow> daemon \<Rightarrow> daemon \<Rightarrow> bool" for ca where
  request: "move ca s (snd (serve ca rq now s))"
| scheduled: "move ca s (snd (schedule (ca_engine ca) tick clocks s))"
| queued: "move ca s (snd (stored (queue_call session) s))"
| admitted: "move ca s (snd (admit_round (ca_engine ca) session rd s))"
| disabled: "move ca s (snd (failLocked s))"
| settled: "move ca s (snd (accounted (or_storage err (stored (settle (config_of ca) session reply now))) s))"
| withdrawn: "move ca s (snd (cancelQueued session rd s))"
| prepared: "move ca s (snd (stored (PrepareTool (ca_engine ca) session action now) s))"
| retired: "move ca s (snd (after_retire (ca_engine ca) session plan s))"
| tool_ended: "move ca s (snd (stored (CompleteTool (ca_engine ca) plan report now) s))"
| finished: "move ca s (snd (finish_activation (ca_engine ca) session err expired now s))"
| evaluated: "move ca s (snd (tx_seq (drop_active agent) (tx_bind (accounted (stored (CompleteEvaluation (hash_of ca)
      (en_files (ca_engine ca)) (config_of ca) (en_owner (ca_engine ca)) session evidence binary err now))) (\<lambda>_. notify)) s))"
| closed: "move ca s (snd (engine_close s))"

lemma accounted_orderly [ordered]: "tx_rel orderly m \<Longrightarrow> tx_rel orderly (accounted m)"
  unfolding accounted_def by (intro order_rules ordered)

lemma or_storage_orderly [ordered]: "tx_rel orderly m \<Longrightarrow> tx_rel orderly (or_storage e m)"
  unfolding or_storage_def by (intro order_rules)

lemma schedule_orderly: "tx_rel orderly (schedule en tick clocks)"
proof -
  have "slots_ok s \<Longrightarrow> slots_ok (snd (schedule en tick clocks s))" for s
    using schedule_pass_slots [of "s\<lparr>dm_awake := False\<rparr>" en clocks] schedule_pass_slots [of s en clocks] flags_slots(4) [of s]
    by (cases tick) (simp_all add: schedule_def tx_seq_def tx_bind_def tx_when_def tx_modify_def tx_gets_def tx_return_def)
  then show ?thesis using schedule_advances by (simp add: tx_rel_def orderly_def)
qed

lemma sections_orderly:
  "tx_rel orderly (stored (queue_call session))" "tx_rel orderly (admit_round en session rd)" "tx_rel orderly failLocked"
  "tx_rel orderly (accounted (or_storage err (stored (settle cfg session reply now))))" "tx_rel orderly (cancelQueued session rd)"
  "tx_rel orderly (stored (PrepareTool en session action now))" "tx_rel orderly (after_retire en session plan)"
  "tx_rel orderly (stored (CompleteTool en plan report now))" "tx_rel orderly (finish_activation en session failed expired now)"
  "tx_rel orderly (tx_seq (drop_active agent) (tx_bind (accounted (stored (CompleteEvaluation H fs cfg owner session evidence
     binary failed now))) (\<lambda>_. notify)))" "tx_rel orderly engine_close"
  unfolding admit_round_def cancelQueued_def after_retire_def finish_activation_def
  by (intro order_rules ordered stored_orderly step.intros)+

lemma move_orderly: "move ca s s' \<Longrightarrow> orderly s s'"
  by (erule move.cases; hypsubst; rule serve_orderly schedule_orderly [unfolded tx_rel_def, rule_format]
      sections_orderly [unfolded tx_rel_def, rule_format])

lemma moves_orderly: "(move ca)\<^sup>*\<^sup>* s s' \<Longrightarrow> orderly s s'"
  by (induction rule: rtranclp_induct) (auto intro: orderly.R_refl orderly.R_trans move_orderly)

lemma steps_reachable: "step\<^sup>*\<^sup>* d d' \<Longrightarrow> reachable d \<Longrightarrow> reachable d'"
  by (induction rule: rtranclp_induct) (auto intro: reachable.stepped)

text \<open>A daemon as it starts: on a store that was reached before, after recovery, without activations.\<close>

definition restarted :: "db \<Rightarrow> int \<Rightarrow> daemon" where
  "restarted d now = \<lparr>dm_db = snd (RecoverExecutions now d), dm_active = [], dm_broken = False, dm_closing = False, dm_awake = False\<rparr>"


section \<open>The gate and refusals\<close>

text \<open>
  C38. A request without the administrator's token is answered with 401 and one from a browser
  with 403, and the daemon is left as it was. Of the others, only an accepted command or an
  internal failure can change the store: every other answer leaves it as it was.
\<close>

theorem serve_refuses:
  assumes "serve ca rq now s = ((status, p), s')"
  shows "(authenticated ca rq \<or> status = 401 \<and> s' = s) \<and> (rq_origin rq = '''' \<or> status \<in> {401, 403} \<and> s' = s) \<and>
    (status < 400 \<or> status = 500 \<or> dm_db s' = dm_db s)"
proof -
  have "status < 400 \<or> status = 500 \<or> dm_db s' = dm_db s" if "answered (handler ca ep rq now) s = ((status, p), s')" for ep
  proof -
    have "case handler ca ep rq now s of (Inl e, s') \<Rightarrow> dm_db s' = dm_db s \<or> fst (failure e) = 500
        | (Inr r, s') \<Rightarrow> fst r < 400 \<or> dm_db s' = dm_db s"
      using handler_refuses [of ca ep rq now] by (simp add: refuses_def)
    then show ?thesis using that by (auto simp: answered_def split: prod.splits sum.splits)
  qed
  then show ?thesis using assms by (auto simp: serve_def split: if_splits)
qed

text \<open>A request of the interface: the stop of a system, with a key or without one.\<close>

definition sample_api :: control_api where
  "sample_api = \<lparr>ca_engine = asked_engine\<lparr>en_hash := (\<lambda>s. s)\<rparr>, ca_running = True, ca_config_id = ''c'', ca_token = ''token'',
     ca_parse_query = (\<lambda>_. ([], True)), ca_media_type = (\<lambda>s. Some s)\<rparr>"

definition sample_stop :: "string \<Rightarrow> string \<Rightarrow> request" where
  "sample_stop authorization key = \<lparr>rq_method = ''POST'', rq_path = [''v1'', ''systems'', ''sys'', ''stop''], rq_query = '''',
     rq_authorization = authorization, rq_origin = '''', rq_key = key, rq_content_type = ''application/json'', rq_body = ''{}''\<rparr>"

lemma stop_route: "route ''POST'' [''v1'', ''systems'', ''sys'', ''stop''] = SystemStop ''sys''"
  by (simp add: route_def route_v1_def route_one_def gets_def system_posts_def picked_def)

theorem serve_refuses_applied:
  "\<exists>p. serve sample_api (sample_stop ''Bearer token'' '''') 0 (restarted (empty_db []) 0) = ((400, p), restarted (empty_db []) 0) \<and>
     dm_db (snd (serve sample_api (sample_stop ''Bearer token'' '''') 0 (restarted (empty_db []) 0))) = dm_db (restarted (empty_db []) 0)"
proof -
  let ?s = "restarted (empty_db []) 0"
  obtain p where served: "serve sample_api (sample_stop ''Bearer token'' '''') 0 ?s = ((400, p), ?s)"
    by (simp add: serve_def authenticated_def sample_api_def sample_stop_def hash_of_def stop_route api_stop_def executionAvailable_def
      with_command_def readCommand_def CommandKeyPattern_def tx_lift_def tx_bind_def tx_seq_def answered_def failure_def)
  with serve_refuses [OF served] show ?thesis by auto
qed


section \<open>An emergency stop\<close>

lemma cancel_where_active: "dm_active (snd (cancel_where P s)) =
    map (\<lambda>(k, a). (k, if P k a then a\<lparr>av_canceled := True\<rparr> else a)) (dm_active s)"
  by (simp add: cancel_where_def tx_modify_def)

lemma engine_stop_run:
  "engine_stop en localAdministrator key i now s =
     (case StopSystem (en_hash en) localAdministrator key i now (dm_db s) of (r, d) \<Rightarrow>
        (r, snd (cancel_where (stop_cancels i r) (s\<lparr>dm_db := d\<rparr>))))"
  by (auto simp: engine_stop_def tx_bind_def tx_try_def stored_def tx_seq_def tx_when_def cancel_where_def tx_modify_def tx_lift_def
      split: prod.splits)

lemma stop_cancels_update: "stop_cancels i r k (a\<lparr>av_canceled := b\<rparr>) = stop_cancels i r k a"
  by (auto simp: stop_cancels_def split: sum.splits option.splits)

text \<open>
  A stop by the administrator cancels the activations of what it stopped, and every activation of
  the system when the store could not commit it; only a refused command leaves them running.
\<close>

lemma engine_stop_cancels:
  assumes "engine_stop en localAdministrator key i now s = (r, s')"
  shows "\<forall>(k, a) \<in> set (dm_active s'). stop_cancels i r k a \<longrightarrow> av_canceled a"
  using assms by (auto simp: engine_stop_run cancel_where_active stop_cancels_update split: prod.splits if_splits)

lemma failed_stop_cancels:
  assumes "engine_stop en localAdministrator key i now s = (Inl e, s')" "fst (failure e) = 500"
  shows "\<forall>(k, a) \<in> set (dm_active s'). av_system_id a = i \<longrightarrow> av_canceled a"
proof -
  have "stop_cancels i (Inl e) k a" if "av_system_id a = i" for k a
    using assms(2) that by (simp add: stop_cancels_def failure_def split: if_splits)
  with engine_stop_cancels [OF assms(1)] show ?thesis by blast
qed

end
