(* ===== verification/Seccomp.thy ===== *)
theory Seccomp
  imports Main "HOL-Library.Word"
begin

text \<open>
  The platform filter of a confined process (applyPlatformSandbox in
  src/internal/sandbox/sandbox_linux.go): a program of the kernel's small filter language, built
  instruction by instruction, that rejects system calls before they run. The machine that
  interprets it is part of the kernel: it is a parameter with the documented meaning of the four
  instructions the program uses. The theorem says what the program decides for every system call.
\<close>

unbundle bit_operations_syntax

section \<open>Programs\<close>

record sock_filter =
  sf_code :: "16 word"
  sf_jt :: "8 word"
  sf_jf :: "8 word"
  sf_k :: "32 word"

text \<open>The constants of package syscall and of the Linux interfaces.\<close>

definition BPF_LD_W_ABS :: "16 word" where
  "BPF_LD_W_ABS = 0x00 OR 0x00 OR 0x20"

definition BPF_JMP_JEQ_K :: "16 word" where
  "BPF_JMP_JEQ_K = 0x05 OR 0x10 OR 0x00"

definition BPF_JMP_JSET_K :: "16 word" where
  "BPF_JMP_JSET_K = 0x05 OR 0x40 OR 0x00"

definition BPF_RET_K :: "16 word" where
  "BPF_RET_K = 0x06 OR 0x00"

definition auditArchAMD64 :: "32 word" where
  "auditArchAMD64 = 0xc000003e"

definition x32SyscallBit :: "32 word" where
  "x32SyscallBit = 0x40000000"

definition killProcess :: "32 word" where
  "killProcess = 0x80000000"

definition allow :: "32 word" where
  "allow = 0x7fff0000"

definition deny :: "32 word" where
  "deny = 0x00050000 OR 1"

definition load_field :: "32 word \<Rightarrow> sock_filter" where
  "load_field k = \<lparr>sf_code = BPF_LD_W_ABS, sf_jt = 0, sf_jf = 0, sf_k = k\<rparr>"

definition jump_equal :: "32 word \<Rightarrow> 8 word \<Rightarrow> 8 word \<Rightarrow> sock_filter" where
  "jump_equal k t f = \<lparr>sf_code = BPF_JMP_JEQ_K, sf_jt = t, sf_jf = f, sf_k = k\<rparr>"

definition jump_set :: "32 word \<Rightarrow> 8 word \<Rightarrow> 8 word \<Rightarrow> sock_filter" where
  "jump_set k t f = \<lparr>sf_code = BPF_JMP_JSET_K, sf_jt = t, sf_jf = f, sf_k = k\<rparr>"

definition return_value :: "32 word \<Rightarrow> sock_filter" where
  "return_value k = \<lparr>sf_code = BPF_RET_K, sf_jt = 0, sf_jf = 0, sf_k = k\<rparr>"

section \<open>The filter\<close>

text \<open>The numbers of the calls on amd64, in the order of the code's list.\<close>

definition denied_syscalls :: "32 word list" where
  "denied_syscalls =
     [41, 53, 425, 426, 427, 438,
      272, 308, 165, 166, 155,
      105, 106, 113, 114, 117, 119, 122, 123,
      188, 189, 190,
      428, 429, 430, 431, 432, 442]"

definition SYS_PRCTL :: "32 word" where
  "SYS_PRCTL = 157"

definition filter_head :: "sock_filter list" where
  "filter_head =
     [load_field 4, jump_equal auditArchAMD64 1 0, return_value killProcess,
      load_field 0, jump_set x32SyscallBit 0 1, return_value deny]"

definition deny_pair :: "32 word \<Rightarrow> sock_filter list" where
  "deny_pair number = [jump_equal number 0 1, return_value deny]"

definition filter_prctl :: "sock_filter list" where
  "filter_prctl = [jump_equal SYS_PRCTL 0 3, load_field 16, jump_equal 1 0 1, return_value deny]"

definition platform_filter :: "sock_filter list" where
  "platform_filter = filter_head @ concat (map deny_pair denied_syscalls) @ filter_prctl @ [return_value allow]"

section \<open>The kernel's machine\<close>

text \<open>
  What the program sees of a system call, and the documented meaning of the instructions: a load
  of a 32-bit field, jumps over the given number of following instructions, and a return. The
  fields are little-endian, so the word at offset 16 is the low half of the first argument.
\<close>

record seccomp_data =
  sd_nr :: "32 word"
  sd_arch :: "32 word"
  sd_arg0 :: "64 word"

definition data_word :: "seccomp_data \<Rightarrow> 32 word \<Rightarrow> 32 word" where
  "data_word d k = (if k = 0 then sd_nr d else if k = 4 then sd_arch d else ucast (sd_arg0 d))"

type_synonym bpf = "sock_filter list \<Rightarrow> seccomp_data \<Rightarrow> 32 word \<Rightarrow> 32 word option"

definition bpf_machine :: "bpf \<Rightarrow> bool" where
  "bpf_machine run \<longleftrightarrow>
     (\<forall>k p d a. k \<in> {0, 4, 16} \<longrightarrow> run (load_field k # p) d a = run p d (data_word d k)) \<and>
     (\<forall>k t f p d a. run (jump_equal k t f # p) d a = run (drop (unat (if a = k then t else f)) p) d a) \<and>
     (\<forall>k t f p d a. run (jump_set k t f # p) d a = run (drop (unat (if a AND k \<noteq> 0 then t else f)) p) d a) \<and>
     (\<forall>k p d a. run (return_value k # p) d a = Some k)"

text \<open>
  What the filter is for: no new sockets, no asynchronous I/O rings and no descriptors of other
  processes; no new namespaces or mounts, by the old interface or the new one; no change of
  credentials; no extended attributes; and the parent-death signal stays.
\<close>

definition forbidden :: "32 word \<Rightarrow> 64 word \<Rightarrow> bool" where
  "forbidden nr arg \<longleftrightarrow>
     nr \<in> {41, 53} \<or> nr \<in> {425, 426, 427} \<or> nr = 438 \<or>
     nr \<in> {272, 308} \<or> nr \<in> {165, 166, 155} \<or> nr \<in> {428, 429, 430, 431, 432, 442} \<or>
     nr \<in> {105, 106, 113, 114, 117, 119, 122, 123} \<or> nr \<in> {188, 189, 190} \<or>
     nr = 157 \<and> (ucast arg :: 32 word) = 1"

lemma machine_steps:
  assumes "bpf_machine run"
  shows "run (load_field 0 # p) d a = run p d (sd_nr d)" "run (load_field 4 # p) d a = run p d (sd_arch d)"
    "run (load_field 16 # p) d a = run p d (ucast (sd_arg0 d))"
    "run (jump_equal k t f # p) d a = run (drop (unat (if a = k then t else f)) p) d a"
    "run (jump_set k t f # p) d a = run (drop (unat (if a AND k \<noteq> 0 then t else f)) p) d a"
    "run (return_value k # p) d a = Some k"
  using assms by (simp_all add: bpf_machine_def data_word_def)

lemma machine_denies:
  assumes "bpf_machine run"
  shows "run (concat (map deny_pair ns) @ p) d a = (if a \<in> set ns then Some deny else run p d a)"
  by (induction ns) (simp_all add: deny_pair_def machine_steps [OF assms])

lemma machine_prctl:
  assumes "bpf_machine run"
  shows "run (filter_prctl @ p) d a = (if a = SYS_PRCTL
     then if (ucast (sd_arg0 d) :: 32 word) = 1 then Some deny else run p d (ucast (sd_arg0 d)) else run p d a)"
  by (simp add: filter_prctl_def machine_steps [OF assms])

text \<open>Every jump of a loaded program must land inside it, and its length is 16 bits wide.\<close>

fun jumps_inside :: "sock_filter list \<Rightarrow> bool" where
  "jumps_inside [] \<longleftrightarrow> True"
| "jumps_inside (i # p) \<longleftrightarrow> unat (sf_jt i) < length p + (if sf_code i = BPF_RET_K then 1 else 0) \<and>
     unat (sf_jf i) < length p + (if sf_code i = BPF_RET_K then 1 else 0) \<and> jumps_inside p"

text \<open>
  C40. The platform filter decides every system call: a call of another architecture kills the
  process; one of the x32 interface, a forbidden one, and a change of the parent-death signal
  fail with EPERM; the filter has no objection to anything else. It is a program the kernel
  accepts.
\<close>

theorem platform_filter_decides:
  assumes "bpf_machine run"
  shows "run platform_filter d a = Some (if sd_arch d \<noteq> auditArchAMD64 then killProcess
      else if sd_nr d AND x32SyscallBit \<noteq> 0 \<or> forbidden (sd_nr d) (sd_arg0 d) then deny else allow) \<and>
    length platform_filter < 2 ^ 16 \<and> jumps_inside platform_filter"
proof (intro conjI)
  have "sd_nr d \<in> set denied_syscalls \<or> (sd_nr d = SYS_PRCTL \<and> (ucast (sd_arg0 d) :: 32 word) = 1) \<longleftrightarrow>
      forbidden (sd_nr d) (sd_arg0 d)"
    by (auto simp: denied_syscalls_def SYS_PRCTL_def forbidden_def)
  then show "run platform_filter d a = Some (if sd_arch d \<noteq> auditArchAMD64 then killProcess
      else if sd_nr d AND x32SyscallBit \<noteq> 0 \<or> forbidden (sd_nr d) (sd_arg0 d) then deny else allow)"
    by (auto simp: platform_filter_def filter_head_def machine_steps [OF assms] machine_denies [OF assms] machine_prctl [OF assms])
qed (simp_all add: platform_filter_def filter_head_def filter_prctl_def denied_syscalls_def deny_pair_def load_field_def
    jump_equal_def jump_set_def return_value_def BPF_RET_K_def BPF_LD_W_ABS_def BPF_JMP_JEQ_K_def BPF_JMP_JSET_K_def)

section \<open>A machine\<close>

text \<open>An interpreter with the documented meaning, and the call \<open>socket\<close> under it.\<close>

function classic_bpf :: bpf where
  "classic_bpf [] d a = None"
| "classic_bpf (i # p) d a =
     (if sf_code i = BPF_LD_W_ABS then if sf_k i \<in> {0, 4, 16} then classic_bpf p d (data_word d (sf_k i)) else None
      else if sf_code i = BPF_JMP_JEQ_K then classic_bpf (drop (unat (if a = sf_k i then sf_jt i else sf_jf i)) p) d a
      else if sf_code i = BPF_JMP_JSET_K then classic_bpf (drop (unat (if a AND sf_k i \<noteq> 0 then sf_jt i else sf_jf i)) p) d a
      else if sf_code i = BPF_RET_K then Some (sf_k i) else None)"
  by pat_completeness auto
termination by (relation "measure (\<lambda>(p, d, a). length p)") auto

lemma classic_machine: "bpf_machine classic_bpf"
  by (simp add: bpf_machine_def load_field_def jump_equal_def jump_set_def return_value_def
      BPF_RET_K_def BPF_LD_W_ABS_def BPF_JMP_JEQ_K_def BPF_JMP_JSET_K_def)

theorem platform_filter_decides_applied:
  "classic_bpf platform_filter \<lparr>sd_nr = 41, sd_arch = auditArchAMD64, sd_arg0 = 2\<rparr> 0 = Some deny \<and>
   classic_bpf platform_filter \<lparr>sd_nr = 0, sd_arch = auditArchAMD64, sd_arg0 = 2\<rparr> 0 = Some allow"
  using platform_filter_decides [OF classic_machine, of "\<lparr>sd_nr = 41, sd_arch = auditArchAMD64, sd_arg0 = 2\<rparr>" 0]
    platform_filter_decides [OF classic_machine, of "\<lparr>sd_nr = 0, sd_arch = auditArchAMD64, sd_arg0 = 2\<rparr>" 0]
  by (simp add: forbidden_def x32SyscallBit_def)

end
