(* ===== verification/Spec2Isabelle.thy ===== *)
theory Spec2Isabelle
  imports ToolRuns Pages Answers Activation ControlApi Seccomp
begin

text \<open>
  Microoperator is a daemon that runs teams of language-model agents on one machine. Its durable
  state and every decision on it live in one SQLite store (src/internal/state): systems and their
  revisions, goals, agents, tasks, events and mail, model calls and their token ledgers, tools
  and approvals, memory and triggers. The daemon (src/internal/daemon) asks the store for work,
  runs a worker process per activation (src/internal/worker) over a pipe of JSON lines
  (src/internal/protocol), calls model providers (src/internal/provider) and serves an
  authenticated control interface. This library models the store, the protocol, the workers, the
  provider client, the engine and control interface of the daemon and the filter of the sandbox
  as executable definitions, and proves what the parts promise.

  \<^bold>\<open>How the model is built.\<close> An operation of the store is a function from a database \<open>db\<close> to an
  error or a result and the database after it (\<open>op\<close>, theories Prelude and Database): one field
  per table, rows in rowid order, a row a record of its columns. A transaction that fails leaves
  the database as it was; a read-only one never changes it; a savepoint keeps its error as a
  value. Times are milliseconds and every operation has one current time; fresh identities come
  from a supply of random bytes in the database; a column that stores JSON holds the decoded
  value; a Go map is an association list, a slice that may be nil an option; SQLite CHECK and
  UNIQUE constraints are errors of the statements, foreign keys are not modelled. The daemon is
  a record of the store and the engine's fields (\<open>daemon\<close>, theory Engine); each of its operations
  is one critical section, and what other goroutines do in between is either any other section
  (\<open>move\<close>, theory ControlApi) or a function the operation takes as an argument. A context is the
  flag it ends in. SHA-256 in hexadecimal is the argument \<open>H\<close>, the table of lower-case letters
  outside ASCII the argument \<open>wide\<close>; cron expressions, time zones, the Go parser, net/url, media
  types, HTTP dates, files, the network, float64 formatting, sandboxed processes and the kernel's
  filter machine are arguments too, since their code is not in the repository.

  \<^bold>\<open>The theories,\<close> in the order of their imports. The groundwork:
  Prelude, GoText, GoJson (errors, the transaction combinators and their relational lemmas,
  strings, UTF-8, path cleaning, encoding/json output);
  Protocol, JsonText, JsonRound, Frames (message.go, json.go: frames, the strict scanner, decoding
  into Go values, and that what is written is read back).
  The store:
  Config, Systems, Schema, Database, Reading (config.go, resources.go, bootstrap.go, registry.go,
  store.go, team_store.go: configurations and their validation, grants, the tables, the records);
  Grants, Broker (registry.go, broker.go: pins and schemas, admission of model calls against
  budgets, quotas and queues, settlement);
  Team, Clock, Knowledge, Lifecycle, Commands, Learning, Delivery (team.go, team_store.go,
  continuous.go, knowledge.go, wakeups.go, execution_store.go, commands.go, controls.go,
  requests.go, learning and evaluation files, workflows.go: tasks, mail, triggers, memory,
  lifecycle, learning, the maintenance pass and deliveries);
  ToolArgs, ToolOps, ToolCalls (tools.go, team_ops.go, agent_management.go, bootstrap_tools.go,
  knowledge_store.go: the arguments of tools, their handlers, the tool call protocol);
  Views, Catalog (views.go, activity.go, events.go, registry.go: what the interface reads).
  The processes around it:
  Worker (operator.go, text.go: both worker processes over the bytes of their pipes);
  Provider (chat.go, credentials.go: requests, answers, streams, redaction);
  Engine (execution.go, broker.go, team.go, team_ops.go, learning_execution.go, controls.go in
  internal/daemon: activations, the scheduling pass, the loop of a model call, evaluations);
  Activation (execution.go, registry.go: the daemon's side of both worker conversations);
  ApiRequests, ControlApi (daemon.go, runtime_api.go, knowledge_api.go, learning_api.go,
  attachments.go: routes, bodies, cursors, the handlers and the gate before them);
  Seccomp (sandbox_linux.go: the filter of a confined process).

  \<^bold>\<open>What is proved.\<close> Validation: an accepted configuration confines its sandbox profiles, has
  acyclic tool dependencies and bounded capacities, an accepted system is closed under them, and
  creation and grants never exceed what the creator has. Admission and Ledger: a dispatched call
  fits every budget and every quota, overtakes no queued call ahead of it that could run, and
  reserves and settles exactly its tokens. Receipts: a command key is used once, and a created or revised
  system reads back as it was returned. Tasks and Stopping: events, queues and continuations stay
  bounded, ending a chain of waiting tasks terminates, and a stop leaves no live task unstopped.
  Books, History and Runs: \<open>step\<close> is one operation of the store; in every database reached from an
  empty one the reserved tokens are the unsettled reservations, and no run takes history back.
  ToolRuns: a tool call is decided once under its identity. Pages: the pages of the task listing
  are the whole table. Frames and JsonRound: a frame that was sent is read back, and what is
  accepted is one bounded line of strict JSON. Worker: the operator process implements the turn
  automaton and finishes when its parent answers. Activation: whatever a worker sends, its turn
  does at most its own model call and one tool call, and with the modelled worker on the other
  end a turn completes on both sides. Provider and Answers: a result is bounded, redacted and
  carries only an offered and valid tool call, a documented answer is understood, an unfinished
  stream is an error. ControlApi: requests without the token or from a browser do nothing, a
  refused request leaves the store alone, and however requests and the engine's sections
  interleave, the store stays reachable, at most one activation runs for an agent and 64 in all,
  and a scheduling pass starts work only for agents that have none; a stop that the store could not commit still cancels every activation of its system.
  Seccomp: the filter decides every system call as a declared policy does. Scenario and the ends
  of the theories hold the concrete deployments on which the properties are applied.

  \<^bold>\<open>Bounds and fuel.\<close> \<open>scan_fuel\<close> is twice the length of the text plus two, and \<open>scan_enough\<close> shows
  that more changes nothing. \<open>terminate_steps\<close> gets two steps more than there are tasks, and
  \<open>terminateTask_enough\<close> proves that these suffice. \<open>follow\<close> has more
  steps than rows in \<open>ListTasks_complete\<close>. A scheduling pass takes one clock for each claim; each
  successful claim fills one of the 64 slots. The loop of a model call has one element for each
  round; when they end it has not returned, which is a value of its result.

  \<^bold>\<open>Not modelled.\<close> Opening the SQLite file, pragmas and the statements of the migrations, and
  RememberConfiguration (their tables and constraints are); Run, loadConfiguration,
  prepareResources and prepareLearning in the daemon, lockStateDirectory and listenControl, which
  read files, lock, and serve sockets; the HTTP server and the bytes of its answers (a handler
  gives the status and the Go value); files.go; of the sandbox the launcher, Landlock, mounts,
  cgroups, the Go toolchain and the conversation with generated tools, which are sequences of
  system calls and of calls of a third-party library; the HTML interface in src/internal/ui, which
  holds no state of its own and sends the requests modelled here; the command line in main.go.
\<close>

end
